(* ===== verification/Prelude.thy ===== *)
theory Prelude
  imports Main
begin

text \<open>
  What every component shares: the exceptions of the program as values, programs over a
  mutable state that may raise (the state survives the exception, as Python's objects do),
  their invariants, the normalisation of symbols and identifiers, timestamps, and the
  operations on the rows of a table.
\<close>

named_theorems prog_simps "equations that run a program on a state"
named_theorems keeps_intros "rules for programs that keep an invariant of the state"

section \<open>Identifiers, timestamps, exceptions\<close>

type_synonym uuid = nat  \<comment> \<open>a UUID, as the 128-bit number that it is\<close>

text \<open>
  A \<open>datetime\<close>: with a time zone it stands for an instant, here the number of microseconds
  since the epoch; without one (\<open>tzinfo is None\<close>) for a wall-clock reading.
\<close>

datatype datetime = Aware int | Naive int

abbreviation seconds :: "int \<Rightarrow> int" where
  "seconds n \<equiv> 1000000 * n"

text \<open>
  One constructor per exception class the modelled code raises or catches, with the fixed text
  of the message. \<open>ExternalError\<close> stands for an exception raised by code outside the repository
  (a driver, a client library, the network).
\<close>

datatype error =
    ValueError string
  | RuntimeError string
  | KeyError
  | InsufficientBuyingPowerError string
  | InsufficientPositionError string
  | IntegrityError string
  | TradingAccountAlreadyExistsError
  | TradingWriteAccountNotFoundError
  | TradingWriteOrderNotFoundError
  | TradingPortfolioAccountNotFoundError
  | TradingPortfolioValuationUnavailableError string
  | InvalidSymbolError string
  | InvalidPriceError string
  | InvalidQuantityError string
  | InvalidTimestampError string
  | InvalidAlertMessageError string
  | InvalidKinesisMarketEventError string
  | ConditionalCheckFailed
  | InvalidUserIdError string
  | InvalidPortfolioNameError string
  | DuplicatePositionError string
  | PortfolioNotFoundError
  | PositionNotFoundError
  | PositionAlreadyExistsError
  | InvalidWatchlistSymbolError string
  | WatchlistItemAlreadyExistsError
  | WatchlistItemNotFoundError
  | WatchlistLimitExceededError
  | TwelveDataRequestError string
  | TwelveDataResponseError string
  | NewsProviderError string
  | TypeError string
  | DatabaseCredentialsError string
  | MigrationError string
  | RedisError string
  | HTTPException int string
  | ValidationError
  | ExternalError string

type_synonym 'a result = "error + 'a"

section \<open>Programs that read and write a state and may raise\<close>

type_synonym ('s, 'a) prog = "'s \<Rightarrow> 'a result \<times> 's"

definition ret :: "'a \<Rightarrow> ('s, 'a) prog" where
  "ret a = (\<lambda>s. (Inr a, s))"

definition raise :: "error \<Rightarrow> ('s, 'a) prog" where
  "raise e = (\<lambda>s. (Inl e, s))"

definition bind :: "('s, 'a) prog \<Rightarrow> ('a \<Rightarrow> ('s, 'b) prog) \<Rightarrow> ('s, 'b) prog" where
  "bind m f = (\<lambda>s. case m s of (Inl e, s') \<Rightarrow> (Inl e, s') | (Inr a, s') \<Rightarrow> f a s')"

definition get_state :: "('s, 's) prog" where
  "get_state = (\<lambda>s. (Inr s, s))"

definition update_state :: "('s \<Rightarrow> 's) \<Rightarrow> ('s, unit) prog" where
  "update_state f = (\<lambda>s. (Inr (), f s))"

definition of_result :: "'a result \<Rightarrow> ('s, 'a) prog" where
  "of_result r = (\<lambda>s. (r, s))"

definition raise_if :: "bool \<Rightarrow> error \<Rightarrow> ('s, unit) prog" where
  "raise_if b e = (if b then raise e else ret ())"

text \<open>\<open>try: m except Exception as e: h e\<close>, and \<open>try: m finally: f\<close>.\<close>

definition try_except :: "('s, 'a) prog \<Rightarrow> (error \<Rightarrow> ('s, 'a) prog) \<Rightarrow> ('s, 'a) prog" where
  "try_except m h = (\<lambda>s. case m s of (Inl e, s') \<Rightarrow> h e s' | (Inr a, s') \<Rightarrow> (Inr a, s'))"

text \<open>
  A call over the network works, is lost with an error, or takes effect although it reports one.
\<close>

datatype fault = Works | Lost error | Applied error

definition with_fault :: "fault \<Rightarrow> ('s, 'a) prog \<Rightarrow> ('s, 'a) prog" where
  "with_fault f m = (case f of Works \<Rightarrow> m | Lost e \<Rightarrow> raise e | Applied e \<Rightarrow> (\<lambda>s. (Inl e, snd (m s))))"

lemma ret_run [simp, prog_simps]: "ret a s = (Inr a, s)"
  by (simp add: ret_def)

lemma raise_run [simp, prog_simps]: "raise e s = (Inl e, s)"
  by (simp add: raise_def)

lemma get_state_run [simp, prog_simps]: "get_state s = (Inr s, s)"
  by (simp add: get_state_def)

lemma update_state_run [simp, prog_simps]: "update_state f s = (Inr (), f s)"
  by (simp add: update_state_def)

lemma of_result_run [simp, prog_simps]: "of_result r s = (r, s)"
  by (simp add: of_result_def)

lemma raise_if_run [simp, prog_simps]: "raise_if b e s = (if b then Inl e else Inr (), s)"
  by (simp add: raise_if_def)

lemma bind_run [prog_simps]:
  "bind m f s = (case m s of (Inl e, s') \<Rightarrow> (Inl e, s') | (Inr a, s') \<Rightarrow> f a s')"
  by (simp add: bind_def)

lemma bind_Inr [simp]: "m s = (Inr a, s') \<Longrightarrow> bind m f s = f a s'"
  by (simp add: bind_def)

lemma bind_Inl [simp]: "m s = (Inl e, s') \<Longrightarrow> bind m f s = (Inl e, s')"
  by (simp add: bind_def)

lemma with_fault_simps [simp]:
  "with_fault Works m = m" "with_fault (Lost e) m s = (Inl e, s)" "with_fault (Applied e) m s = (Inl e, snd (m s))"
  by (simp_all add: with_fault_def)

lemma bind_InrE:
  assumes "bind m f s = (Inr b, t)"
  obtains a s' where "m s = (Inr a, s')" and "f a s' = (Inr b, t)"
  using assms by (auto simp: bind_def split: prod.splits sum.splits)

lemma bind_InlE:
  assumes "bind m f s = (Inl e, t)"
  obtains "m s = (Inl e, t)" | a s' where "m s = (Inr a, s')" and "f a s' = (Inl e, t)"
  using assms by (auto simp: bind_def split: prod.splits sum.splits)

text \<open>A program keeps an invariant if it does so when it returns and when it raises.\<close>

definition keeps :: "('s \<Rightarrow> bool) \<Rightarrow> ('s, 'a) prog \<Rightarrow> bool" where
  "keeps P m \<longleftrightarrow> (\<forall>s. P s \<longrightarrow> P (snd (m s)))"

lemma keepsI: "(\<And>s. P s \<Longrightarrow> P (snd (m s))) \<Longrightarrow> keeps P m"
  by (simp add: keeps_def)

lemma keepsD: "keeps P m \<Longrightarrow> P s \<Longrightarrow> m s = (r, s') \<Longrightarrow> P s'"
  by (metis keeps_def snd_conv)

lemma keeps_ret [keeps_intros]: "keeps P (ret a)"
  by (simp add: keeps_def)

lemma keeps_raise [keeps_intros]: "keeps P (raise e)"
  by (simp add: keeps_def)

lemma keeps_get_state [keeps_intros]: "keeps P get_state"
  by (simp add: keeps_def)

lemma keeps_of_result [keeps_intros]: "keeps P (of_result r)"
  by (simp add: keeps_def)

lemma keeps_raise_if [keeps_intros]: "keeps P (raise_if b e)"
  by (simp add: keeps_def)

lemma keeps_update_state: "(\<And>s. P s \<Longrightarrow> P (f s)) \<Longrightarrow> keeps P (update_state f)"
  by (simp add: keeps_def)

lemma keeps_bind [keeps_intros]:
  assumes "keeps P m" and "\<And>a. keeps P (f a)"
  shows "keeps P (bind m f)"
  using assms by (fastforce simp: keeps_def bind_def split: prod.splits sum.splits)

lemma keeps_try_except [keeps_intros]:
  assumes "keeps P m" and "\<And>e. keeps P (h e)"
  shows "keeps P (try_except m h)"
  using assms
  by (fastforce simp: keeps_def try_except_def split: prod.splits sum.splits)

section \<open>Strings\<close>

text \<open>
  \<open>str.strip\<close> and \<open>str.upper\<close> on ASCII text. Python's whitespace in that range is the characters
  9 to 13 and 28 to 32.
\<close>

definition is_space :: "char \<Rightarrow> bool" where
  "is_space c = (let n = of_char c :: nat in (9 \<le> n \<and> n \<le> 13) \<or> (28 \<le> n \<and> n \<le> 32))"

definition upper_char :: "char \<Rightarrow> char" where
  "upper_char c = (let n = of_char c :: nat in if 97 \<le> n \<and> n \<le> 122 then char_of (n - 32) else c)"

definition lower_char :: "char \<Rightarrow> char" where
  "lower_char c = (let n = of_char c :: nat in if 65 \<le> n \<and> n \<le> 90 then char_of (n + 32) else c)"

definition strip :: "string \<Rightarrow> string" where
  "strip s = rev (dropWhile is_space (rev (dropWhile is_space s)))"

definition upper :: "string \<Rightarrow> string" where
  "upper s = map upper_char s"

definition lower :: "string \<Rightarrow> string" where
  "lower s = map lower_char s"

text \<open>The normal form of a symbol, \<open>symbol.strip().upper()\<close>.\<close>

definition normal_symbol :: "string \<Rightarrow> string" where
  "normal_symbol s = upper (strip s)"

lemma of_char_upper_char:
  "of_char (upper_char c) =
     (if 97 \<le> (of_char c :: nat) \<and> of_char c \<le> (122 :: nat) then of_char c - 32 else of_char c :: nat)"
  by (auto simp: upper_char_def Let_def)

lemma is_space_upper_char [simp]: "is_space (upper_char c) = is_space c"
  by (auto simp: is_space_def of_char_upper_char Let_def)

lemma upper_char_idem [simp]: "upper_char (upper_char c) = upper_char c"
  by (auto simp: upper_char_def Let_def of_char_of)

lemma dropWhile_head: "dropWhile P xs = y # ys \<Longrightarrow> \<not> P y"
  by (metis dropWhile_eq_Cons_conv)

lemma dropWhile_fix: "(xs = [] \<or> \<not> P (hd xs)) \<Longrightarrow> dropWhile P xs = xs"
  by (cases xs) auto

lemma hd_dropWhile_rev:
  assumes "xs = [] \<or> \<not> P (hd xs)"
  shows "rev (dropWhile P (rev xs)) = [] \<or> \<not> P (hd (rev (dropWhile P (rev xs))))"
proof (cases "rev (dropWhile P (rev xs)) = []")
  case False
  obtain zs where "rev xs = zs @ dropWhile P (rev xs)"
    by (metis takeWhile_dropWhile_id)
  then have "xs = rev (dropWhile P (rev xs)) @ rev zs"
    by (metis rev_append rev_rev_ident)
  with False have "hd xs = hd (rev (dropWhile P (rev xs)))" and "xs \<noteq> []"
    by (metis hd_append2, auto)
  with assms show ?thesis by simp
qed simp

lemma strip_idem [simp]: "strip (strip s) = strip s"
proof -
  let ?t = "dropWhile is_space s"
  have t: "?t = [] \<or> \<not> is_space (hd ?t)"
    by (cases ?t) (auto dest: dropWhile_head)
  have "dropWhile is_space (strip s) = strip s"
    unfolding strip_def by (rule dropWhile_fix) (use hd_dropWhile_rev [of ?t is_space] t in blast)
  moreover have "dropWhile is_space (rev (strip s)) = rev (strip s)"
    by (simp add: strip_def dropWhile_idem)
  ultimately show ?thesis
    unfolding strip_def [of "strip s"] by simp
qed

lemma upper_idem [simp]: "upper (upper s) = upper s"
  by (simp add: upper_def)

lemma strip_upper: "strip (upper s) = upper (strip s)"
  by (simp add: strip_def upper_def dropWhile_map rev_map comp_def)

lemma normal_symbol_idem [simp]: "normal_symbol (normal_symbol s) = normal_symbol s"
  by (simp add: normal_symbol_def strip_upper)

lemma strip_Nil [simp]: "strip [] = []"
  by (simp add: strip_def)

lemma normal_symbol_Nil [simp]: "normal_symbol [] = []"
  by (simp add: normal_symbol_def upper_def)

lemma strip_normal_symbol [simp]: "strip (normal_symbol s) = normal_symbol s"
  by (simp add: normal_symbol_def strip_upper)

section \<open>Dictionaries\<close>

text \<open>
  A \<open>dict\<close> whose order matters is the list of its items: assigning to a new key appends, assigning to
  a known one keeps its place.
\<close>

fun dict_put :: "'k \<Rightarrow> 'v \<Rightarrow> ('k \<times> 'v) list \<Rightarrow> ('k \<times> 'v) list" where
  "dict_put k v [] = [(k, v)]"
| "dict_put k v ((k', v') # d) = (if k' = k then (k, v) # d else (k', v') # dict_put k v d)"

lemma dict_put_keys: "set (map fst (dict_put k v d)) = insert k (set (map fst d))"
  by (induction k v d rule: dict_put.induct) auto

lemma dict_put_distinct: "distinct (map fst d) \<Longrightarrow> distinct (map fst (dict_put k v d))"
  by (induction k v d rule: dict_put.induct) (auto simp: dict_put_keys simp del: set_map)

lemma dict_put_set: "set (dict_put k v d) \<subseteq> insert (k, v) (set d)"
  by (induction k v d rule: dict_put.induct) auto

lemma dict_put_new: "k \<notin> fst ` set d \<Longrightarrow> dict_put k v d = d @ [(k, v)]"
  by (induction k v d rule: dict_put.induct) auto

lemma map_of_dict_put: "map_of (dict_put k v d) k' = (if k' = k then Some v else map_of d k')"
  by (induction k v d rule: dict_put.induct) auto

lemma dict_put_nonempty [simp]: "dict_put k v d \<noteq> []"
  by (cases "(k, v, d)" rule: dict_put.cases) auto

lemma dict_put_same: "map_of d k = Some v \<Longrightarrow> dict_put k v d = d"
  by (induction k v d rule: dict_put.induct) (auto split: if_splits)

section \<open>Tables\<close>

text \<open>
  A table is the list of its rows in the order of insertion. A statement
  \<open>select(..).where(..)\<close> filters it; \<open>session.scalar\<close> takes the first row of the result or
  \<open>None\<close>; assigning to the columns of a loaded row changes the rows with its key.
\<close>

definition first_where :: "('r \<Rightarrow> bool) \<Rightarrow> 'r list \<Rightarrow> 'r option" where
  "first_where P rows = List.find P rows"

definition update_where :: "('r \<Rightarrow> bool) \<Rightarrow> ('r \<Rightarrow> 'r) \<Rightarrow> 'r list \<Rightarrow> 'r list" where
  "update_where P f rows = map (\<lambda>r. if P r then f r else r) rows"

lemma first_where_Some: "first_where P rows = Some r \<Longrightarrow> r \<in> set rows \<and> P r"
  by (auto simp: first_where_def find_Some_iff)

lemma first_where_None: "first_where P rows = None \<longleftrightarrow> (\<forall>r \<in> set rows. \<not> P r)"
  by (auto simp: first_where_def find_None_iff)

lemma first_where_Nil [simp]: "first_where P [] = None"
  by (simp add: first_where_def)

lemma first_where_single [simp]: "first_where P [r] = (if P r then Some r else None)"
  by (simp add: first_where_def)

lemma first_where_append:
  "first_where P (xs @ ys) = (case first_where P xs of None \<Rightarrow> first_where P ys | Some r \<Rightarrow> Some r)"
  by (induction xs) (simp_all add: first_where_def)

lemma first_where_update_where:
  assumes "\<And>r. P r \<Longrightarrow> Q (f r) = Q r"
  shows "first_where Q (update_where P f rows) =
    map_option (\<lambda>r. if P r then f r else r) (first_where Q rows)"
  using assms by (induction rows) (auto simp: first_where_def update_where_def)

lemma length_update_where [simp]: "length (update_where P f rows) = length rows"
  by (simp add: update_where_def)

lemma set_update_where:
  "set (update_where P f rows) = {f r |r. r \<in> set rows \<and> P r} \<union> {r \<in> set rows. \<not> P r}"
  by (auto simp: update_where_def)

lemma map_update_where:
  assumes "\<And>r. P r \<Longrightarrow> k (f r) = k r"
  shows "map k (update_where P f rows) = map k rows"
  using assms by (simp add: update_where_def)

lemma filter_update_where:
  assumes "\<And>r. P r \<Longrightarrow> Q (f r) = Q r"
  shows "filter Q (update_where P f rows) = update_where P f (filter Q rows)"
  using assms by (induction rows) (auto simp: update_where_def)

lemma update_where_none: "(\<And>r. r \<in> set rows \<Longrightarrow> \<not> P r) \<Longrightarrow> update_where P f rows = rows"
  by (simp add: update_where_def map_idI)

text \<open>\<open>order_by\<close>: a stable insertion sort by the comparison of the statement.\<close>

fun insert_by :: "('r \<Rightarrow> 'r \<Rightarrow> bool) \<Rightarrow> 'r \<Rightarrow> 'r list \<Rightarrow> 'r list" where
  "insert_by before r [] = [r]"
| "insert_by before r (x # xs) = (if before r x then r # x # xs else x # insert_by before r xs)"

definition order_rows :: "('r \<Rightarrow> 'r \<Rightarrow> bool) \<Rightarrow> 'r list \<Rightarrow> 'r list" where
  "order_rows before rows = foldr (insert_by before) rows []"

lemma order_rows_simps [simp]:
  "order_rows before [] = []" "order_rows before (r # rs) = insert_by before r (order_rows before rs)"
  by (simp_all add: order_rows_def)

lemma set_insert_by [simp]: "set (insert_by before r xs) = insert r (set xs)"
  by (induction xs) auto

lemma set_order_rows [simp]: "set (order_rows before rows) = set rows"
  by (induction rows) simp_all

lemma length_insert_by [simp]: "length (insert_by before r xs) = Suc (length xs)"
  by (induction xs) simp_all

lemma length_order_rows [simp]: "length (order_rows before rows) = length rows"
  by (induction rows) simp_all

lemma distinct_insert_by: "distinct (map k (insert_by before r xs)) \<longleftrightarrow> k r \<notin> k ` set xs \<and> distinct (map k xs)"
  by (induction xs) auto

lemma distinct_order_rows [simp]: "distinct (map k (order_rows before rows)) \<longleftrightarrow> distinct (map k rows)"
  by (induction rows) (simp_all add: distinct_insert_by)

lemma sorted_wrt_insert_by:
  assumes "\<And>x y z. before x y \<Longrightarrow> before y z \<Longrightarrow> before x z" and "\<And>x y. before x y \<or> before y x"
    and "sorted_wrt before xs"
  shows "sorted_wrt before (insert_by before r xs)"
  using assms(3)
proof (induction xs)
  case Nil
  show ?case by simp
next
  case (Cons x xs)
  show ?case
  proof (cases "before r x")
    case True
    then show ?thesis using Cons.prems assms(1) by fastforce
  next
    case False
    then have "before x r" using assms(2) by blast
    then show ?thesis using False Cons by simp
  qed
qed

lemma sorted_wrt_order_rows:
  assumes "\<And>x y z. before x y \<Longrightarrow> before y z \<Longrightarrow> before x z" and "\<And>x y. before x y \<or> before y x"
  shows "sorted_wrt before (order_rows before rows)"
proof (induction rows)
  case (Cons r rows)
  then show ?case using sorted_wrt_insert_by [of before, OF assms Cons.IH] by simp
qed simp

end
