(* ===== verification/Decimals.thy ===== *)
theory Decimals
  imports Complex_Main Prelude
begin

text \<open>
  Python's \<open>decimal.Decimal\<close> in the default context (28 significant digits, ROUND_HALF_EVEN),
  which the whole program computes money with. A finite Decimal is the rational number it
  stands for: the comparisons and the values of the operations depend on nothing else. Every
  operation yields the exact result rounded once to 28 significant digits.
\<close>

type_synonym decimal = rat

section \<open>Rounding to the context precision\<close>

text \<open>The number of decimal digits of a natural number.\<close>

fun ndigits :: "nat \<Rightarrow> nat" where
  "ndigits n = (if n < 10 then 1 else Suc (ndigits (n div 10)))"

declare ndigits.simps [simp del]

text \<open>The exponent of the leading digit of a positive number: \<open>10^e \<le> q < 10^(e+1)\<close>.\<close>

definition adjusted :: "rat \<Rightarrow> int" where
  "adjusted q = (if 1 \<le> q then int (ndigits (nat \<lfloor>q\<rfloor>)) - 1
                 else - int (ndigits (nat (\<lceil>1 / q\<rceil> - 1))))"

definition round_half_even :: "rat \<Rightarrow> int" where
  "round_half_even x =
     (let f = \<lfloor>x\<rfloor>; d = x - of_int f
      in if d < 1 / 2 then f else if 1 / 2 < d then f + 1 else if even f then f else f + 1)"

definition ulp :: "rat \<Rightarrow> rat" where
  "ulp q = 10 powi (adjusted \<bar>q\<bar> - 27)"

definition dround :: "rat \<Rightarrow> decimal" where
  "dround q = (if q = 0 then 0 else of_int (round_half_even (q / ulp q)) * ulp q)"

definition dadd :: "decimal \<Rightarrow> decimal \<Rightarrow> decimal" where "dadd a b = dround (a + b)"
definition dsub :: "decimal \<Rightarrow> decimal \<Rightarrow> decimal" where "dsub a b = dround (a - b)"
definition dmul :: "decimal \<Rightarrow> decimal \<Rightarrow> decimal" where "dmul a b = dround (a * b)"
definition ddiv :: "decimal \<Rightarrow> decimal \<Rightarrow> decimal" where "ddiv a b = dround (a / b)"

text \<open>\<open>sum(values, start=Decimal("0"))\<close> adds from the left, rounding at each step.\<close>

definition dsum :: "decimal list \<Rightarrow> decimal" where
  "dsum xs = foldl dadd 0 xs"

text \<open>
  Rounding half away from zero, which \<open>quantize(.., ROUND_HALF_UP)\<close> and the server's \<open>numeric\<close>
  columns do.
\<close>

definition round_half_up :: "rat \<Rightarrow> int" where
  "round_half_up x = (if 0 \<le> x then \<lfloor>x + 1 / 2\<rfloor> else - \<lfloor>- x + 1 / 2\<rfloor>)"

text \<open>A number the context represents exactly; \<open>dround\<close> leaves it as it is.\<close>

definition representable :: "rat \<Rightarrow> bool" where
  "representable q \<longleftrightarrow> dround q = q"

section \<open>Digits and exponents\<close>

lemma ndigits_pos: "0 < ndigits n"
  by (subst ndigits.simps) simp

lemma ndigits_upper: "n < 10 ^ ndigits n"
proof (induction n rule: ndigits.induct)
  case (1 n)
  show ?case
  proof (cases "n < 10")
    case True
    then show ?thesis by (subst ndigits.simps) simp
  next
    case False
    with 1 have "n div 10 < 10 ^ ndigits (n div 10)" by simp
    then have "n < 10 * 10 ^ ndigits (n div 10)" by linarith
    with False show ?thesis by (subst ndigits.simps) simp
  qed
qed

lemma ndigits_lower: "0 < n \<Longrightarrow> 10 ^ (ndigits n - 1) \<le> n"
proof (induction n rule: ndigits.induct)
  case (1 n)
  show ?case
  proof (cases "n < 10")
    case True
    with 1 show ?thesis by (subst ndigits.simps) simp
  next
    case False
    with 1 have "10 ^ (ndigits (n div 10) - 1) \<le> n div 10" by simp
    then have "10 * 10 ^ (ndigits (n div 10) - 1) \<le> n" by linarith
    moreover have "10 * 10 ^ (ndigits (n div 10) - 1) = (10::nat) ^ ndigits (n div 10)"
      using ndigits_pos [of "n div 10"] by (cases "ndigits (n div 10)") auto
    ultimately show ?thesis using False by (subst ndigits.simps) simp
  qed
qed

lemma powi_nat_minus: "0 < k \<Longrightarrow> (10::rat) powi (int k - 1) = 10 ^ (k - 1)"
  by (metis Suc_pred' diff_Suc_1 of_nat_Suc add_diff_cancel_left' power_int_of_nat plus_1_eq_Suc of_nat_add of_nat_1)

lemma adjusted_ge_1:
  assumes "1 \<le> (q::rat)"
  shows "10 powi adjusted q \<le> q" and "q < 10 powi (adjusted q + 1)"
proof -
  let ?n = "nat \<lfloor>q\<rfloor>"
  have f: "1 \<le> \<lfloor>q\<rfloor>" using assms by simp
  then have n: "0 < ?n" and ni: "int ?n = \<lfloor>q\<rfloor>" by auto
  have "(of_nat (10 ^ (ndigits ?n - 1)) :: rat) \<le> of_nat ?n"
    using ndigits_lower [OF n] of_nat_le_iff by blast
  also have "(of_nat ?n :: rat) = of_int \<lfloor>q\<rfloor>"
    using ni by (metis of_int_of_nat_eq)
  also have "\<dots> \<le> q" by simp
  finally show "10 powi adjusted q \<le> q"
    using assms by (simp add: adjusted_def powi_nat_minus [OF ndigits_pos])
  have "?n + 1 \<le> 10 ^ ndigits ?n"
    using ndigits_upper [of ?n] by (simp only: Suc_eq_plus1 [symmetric] Suc_le_eq)
  then have "(of_nat (?n + 1) :: rat) \<le> of_nat (10 ^ ndigits ?n)"
    using of_nat_le_iff by blast
  moreover have "q < of_nat (?n + 1)"
    using ni floor_correct [of q] by (metis of_int_of_nat_eq of_nat_add of_nat_1 of_int_add of_int_1)
  ultimately show "q < 10 powi (adjusted q + 1)"
    using assms by (simp add: adjusted_def)
qed

lemma adjusted_lt_1:
  assumes "0 < (q::rat)" and "q < 1"
  shows "10 powi adjusted q \<le> q" and "q < 10 powi (adjusted q + 1)"
proof -
  let ?n = "nat (\<lceil>1 / q\<rceil> - 1)"
  let ?k = "ndigits ?n"
  have inv: "1 < 1 / q" using assms by simp
  then have c: "2 \<le> \<lceil>1 / q\<rceil>" by (metis ceiling_one ceiling_less_iff less_ceiling_iff linorder_not_less of_int_1 one_add_one zless_imp_add1_zle)
  then have n: "0 < ?n" and ni: "int ?n = \<lceil>1 / q\<rceil> - 1" by linarith+
  have up: "1 / q \<le> of_nat (?n + 1)"
    using ni le_of_int_ceiling [of "1 / q"] by (metis diff_add_cancel of_int_of_nat_eq of_nat_1 of_nat_add)
  have lo: "of_nat ?n < 1 / q"
    using ni ceiling_correct [of "1 / q"] by (metis of_int_of_nat_eq of_int_diff of_int_1)
  have "(of_nat (?n + 1) :: rat) \<le> of_nat (10 ^ ?k)"
    using ndigits_upper [of ?n] of_nat_le_iff by (metis Suc_eq_plus1 Suc_leI)
  with up have "1 / q \<le> 10 ^ ?k" by simp
  with assms have "1 / 10 ^ ?k \<le> q" by (simp add: field_simps)
  with assms show "10 powi adjusted q \<le> q"
    by (simp add: adjusted_def power_int_minus field_simps)
  have "(10::rat) ^ (?k - 1) \<le> of_nat ?n"
    using ndigits_lower [OF n] by (metis of_nat_le_iff of_nat_numeral of_nat_power)
  then have "10 ^ (?k - 1) < 1 / q" using lo by (rule le_less_trans)
  with assms have q: "q < 1 / 10 ^ (?k - 1)" by (simp add: field_simps)
  have "(10::rat) powi (- int ?k + 1) = 1 / 10 ^ (?k - 1)"
    using powi_nat_minus [OF ndigits_pos [of ?n]] power_int_minus [of "10::rat" "int ?k - 1"]
    by (simp add: field_simps)
  with q assms show "q < 10 powi (adjusted q + 1)"
    by (simp add: adjusted_def)
qed

lemma adjusted_bounds:
  assumes "0 < q"
  shows "10 powi adjusted q \<le> q" and "q < 10 powi (adjusted q + 1)"
  using adjusted_ge_1 [of q] adjusted_lt_1 [of q] assms by (cases "1 \<le> q"; simp)+

lemma ulp_pos [simp]: "0 < ulp q"
  by (simp add: ulp_def)

lemma ulp_scale:
  assumes "0 < q"
  shows "10 ^ 27 \<le> q / ulp q" and "q / ulp q < 10 ^ 28"
proof -
  have u: "ulp q = 10 powi (adjusted q) / 10 ^ 27"
    using assms by (simp add: ulp_def power_int_diff)
  have "10 powi adjusted q \<le> q" and "q < 10 * 10 powi adjusted q"
    using adjusted_bounds [OF assms] by (simp_all add: power_int_add)
  with assms show "10 ^ 27 \<le> q / ulp q" and "q / ulp q < 10 ^ 28"
    by (simp_all add: u pos_le_divide_eq pos_divide_less_eq)
qed

section \<open>Rounding to an integer\<close>

lemma round_half_even_of_int [simp]: "round_half_even (of_int n) = n"
  by (simp add: round_half_even_def Let_def)

lemma round_half_even_bounds:
  "x - 1 / 2 \<le> of_int (round_half_even x)" "of_int (round_half_even x) \<le> x + 1 / 2"
  by (auto simp: round_half_even_def Let_def; linarith)+

lemma round_half_even_mono:
  assumes "x \<le> y"
  shows "round_half_even x \<le> round_half_even y"
proof (cases "\<lfloor>x\<rfloor> = \<lfloor>y\<rfloor>")
  case True
  with assms show ?thesis by (auto simp: round_half_even_def Let_def)
next
  case False
  with assms have "\<lfloor>x\<rfloor> + 1 \<le> \<lfloor>y\<rfloor>" using floor_mono [OF assms] by linarith
  moreover have "round_half_even x \<le> \<lfloor>x\<rfloor> + 1" and "\<lfloor>y\<rfloor> \<le> round_half_even y"
    by (auto simp: round_half_even_def Let_def)
  ultimately show ?thesis by linarith
qed

lemma round_half_even_minus: "round_half_even (- x) = - round_half_even x"
proof (cases "of_int \<lfloor>x\<rfloor> = x")
  case True
  then have "round_half_even (- x) = - \<lfloor>x\<rfloor>" and "round_half_even x = \<lfloor>x\<rfloor>"
    by (metis of_int_minus round_half_even_of_int) (metis True round_half_even_of_int)
  then show ?thesis by simp
next
  case False
  then have "\<lceil>x\<rceil> = \<lfloor>x\<rfloor> + 1" by (simp add: ceiling_altdef)
  then have "\<lfloor>- x\<rfloor> = - \<lfloor>x\<rfloor> - 1" by (simp add: ceiling_def)
  then show ?thesis by (auto simp: round_half_even_def Let_def)
qed

section \<open>Rounding to the context\<close>

lemma dround_0 [simp]: "dround 0 = 0"
  by (simp add: dround_def)

lemma ulp_minus [simp]: "ulp (- q) = ulp q"
  by (simp add: ulp_def)

lemma dround_minus: "dround (- q) = - dround q"
  by (simp add: dround_def round_half_even_minus)

text \<open>The rounded coefficient of a positive number has 28 digits (or is \<open>10^28\<close>).\<close>

lemma coefficient_bounds:
  assumes "0 < q"
  shows "10 ^ 27 \<le> round_half_even (q / ulp q)" and "round_half_even (q / ulp q) \<le> 10 ^ 28"
proof -
  have "round_half_even (of_int (10 ^ 27)) \<le> round_half_even (q / ulp q)"
    using ulp_scale [OF assms] by (intro round_half_even_mono) simp
  then show "10 ^ 27 \<le> round_half_even (q / ulp q)" by (simp only: round_half_even_of_int)
  have "round_half_even (q / ulp q) \<le> round_half_even (of_int (10 ^ 28))"
    using ulp_scale [OF assms] by (intro round_half_even_mono) simp
  then show "round_half_even (q / ulp q) \<le> 10 ^ 28" by (simp only: round_half_even_of_int)
qed

lemma dround_pos: "0 < q \<Longrightarrow> 0 < dround q"
  using coefficient_bounds(1) [of q] by (auto simp: dround_def intro!: mult_pos_pos)

lemma dround_pos_iff [simp]: "0 < dround q \<longleftrightarrow> 0 < q"
  by (metis dround_0 dround_minus dround_pos linorder_neqE_linordered_idom neg_0_less_iff_less not_less_iff_gr_or_eq)

lemma dround_neg_iff [simp]: "dround q < 0 \<longleftrightarrow> q < 0"
  by (metis dround_minus dround_pos_iff neg_0_less_iff_less)

lemma dround_nonneg_iff [simp]: "0 \<le> dround q \<longleftrightarrow> 0 \<le> q"
  by (metis dround_neg_iff not_less)

lemma dround_nonpos_iff [simp]: "dround q \<le> 0 \<longleftrightarrow> q \<le> 0"
  by (metis dround_pos_iff not_less)

lemma dround_eq_0_iff [simp]: "dround q = 0 \<longleftrightarrow> q = 0"
  by (metis dround_neg_iff dround_pos_iff dround_0 linorder_neqE_linordered_idom less_irrefl)

text \<open>The error is at most half a unit in the 28th digit.\<close>

lemma dround_error: "\<bar>dround q - q\<bar> \<le> ulp q / 2"
proof (cases "q = 0")
  case True
  then show ?thesis by (simp add: less_imp_le)
next
  case False
  let ?r = "of_int (round_half_even (q / ulp q)) - q / ulp q"
  have "\<bar>?r\<bar> \<le> 1 / 2" using round_half_even_bounds [of "q / ulp q"] by linarith
  then have "\<bar>?r\<bar> * ulp q \<le> 1 / 2 * ulp q"
    by (intro mult_right_mono) (simp_all add: less_imp_le)
  moreover have "dround q - q = ?r * ulp q"
    using False by (simp add: dround_def left_diff_distrib less_imp_neq [THEN not_sym])
  ultimately show ?thesis by (simp add: abs_mult abs_of_pos [OF ulp_pos])
qed

text \<open>A coefficient of at most 28 digits is kept.\<close>

lemma dround_exact_pos:
  assumes q: "q = of_int c * 10 powi e" and c: "0 < c" "c \<le> 10 ^ 28"
  shows "dround q = q"
proof -
  have pos: "0 < q" using q c by simp
  have "of_int c \<le> (of_int (10 ^ 28) :: rat)" using c(2) by (simp only: of_int_le_iff)
  then have "q \<le> 10 ^ 28 * 10 powi e" unfolding q by (intro mult_right_mono) simp_all
  then have "10 powi adjusted q \<le> (10::rat) powi (28 + e)"
    using adjusted_bounds(1) [OF pos] by (simp add: power_int_add)
  then have "adjusted q \<le> 28 + e"
    using power_int_strict_increasing [of "28 + e" "adjusted q" "10::rat"] by (cases "28 + e < adjusted q") auto
  have nz: "ulp q \<noteq> 0" using ulp_pos [of q] by linarith
  show ?thesis
  proof (cases "adjusted q = 28 + e")
    case True
    then have "q = 10 ^ 28 * 10 powi e"
      using \<open>q \<le> 10 ^ 28 * 10 powi e\<close> adjusted_bounds(1) [OF pos] by (simp add: power_int_add)
    moreover have "ulp q = 10 powi (e + 1)" using True pos by (simp add: ulp_def add.commute)
    ultimately have "q / ulp q = of_int (10 ^ 27)" by (simp add: power_int_add)
    then have "of_int (round_half_even (q / ulp q)) = q / ulp q"
      by (simp only: round_half_even_of_int)
    then show ?thesis using nz by (simp add: dround_def)
  next
    case False
    then have "0 \<le> e - (adjusted q - 27)" using \<open>adjusted q \<le> 28 + e\<close> by linarith
    then obtain k where "e - (adjusted q - 27) = int k" by (metis zero_le_imp_eq_int)
    then have k: "e = int k + (adjusted q - 27)" by linarith
    have u: "ulp q = 10 powi (adjusted q - 27)" using pos by (simp add: ulp_def)
    have "(10::rat) powi e = 10 ^ k * 10 powi (adjusted q - 27)"
      by (subst k) (simp add: power_int_add)
    then have "q = of_int (c * 10 ^ k) * ulp q"
      using q u by simp
    then have "q / ulp q = of_int (c * 10 ^ k)" using nz by (simp add: nonzero_divide_eq_eq)
    then have "of_int (round_half_even (q / ulp q)) = q / ulp q"
      by (simp only: round_half_even_of_int)
    then show ?thesis using nz by (simp add: dround_def)
  qed
qed

lemma dround_exact:
  assumes "q = of_int c * 10 powi e" and "\<bar>c\<bar> \<le> 10 ^ 28"
  shows "dround q = q"
proof -
  consider "c = 0" | "0 < c" | "c < 0" by linarith
  then show ?thesis
  proof cases
    case 1
    then show ?thesis using assms by simp
  next
    case 2
    then show ?thesis using assms by (intro dround_exact_pos) auto
  next
    case 3
    then have "dround (- q) = - q"
      using assms by (intro dround_exact_pos [where c = "- c" and e = e]) auto
    then show ?thesis by (simp add: dround_minus)
  qed
qed

lemma dround_idem [simp]: "dround (dround q) = dround q"
proof -
  have pos: "dround (dround p) = dround p" if "0 < p" for p
  proof (rule dround_exact)
    show "dround p = of_int (round_half_even (p / ulp p)) * 10 powi (adjusted \<bar>p\<bar> - 27)"
      using that by (simp add: dround_def ulp_def)
    have "0 \<le> round_half_even (p / ulp p)"
      using coefficient_bounds(1) [OF that] by (rule order_trans [rotated]) simp
    then show "\<bar>round_half_even (p / ulp p)\<bar> \<le> 10 ^ 28"
      using coefficient_bounds(2) [OF that] by simp
  qed
  consider "q = 0" | "0 < q" | "0 < - q" by linarith
  then show ?thesis
  proof cases
    case 3
    then have "dround (dround (- q)) = dround (- q)" by (rule pos)
    then show ?thesis by (simp add: dround_minus)
  qed (simp_all add: pos)
qed

section \<open>Monotonicity\<close>

lemma adjusted_mono:
  assumes "0 < q" and "q \<le> r"
  shows "adjusted q \<le> adjusted r"
proof (rule ccontr)
  assume "\<not> adjusted q \<le> adjusted r"
  then have "(10::rat) powi (adjusted r + 1) \<le> 10 powi adjusted q"
    by (intro power_int_increasing) simp_all
  with assms adjusted_bounds(1) [of q] adjusted_bounds(2) [of r] show False by linarith
qed

lemma dround_mono_pos:
  assumes "0 < q" and "q \<le> r"
  shows "dround q \<le> dround r"
proof (cases "adjusted q = adjusted r")
  case True
  with assms have u: "ulp q = ulp r" by (simp add: ulp_def)
  have "round_half_even (q / ulp q) \<le> round_half_even (r / ulp q)"
    using assms by (intro round_half_even_mono divide_right_mono) (simp_all add: less_imp_le)
  then have "of_int (round_half_even (q / ulp q)) * ulp q \<le> of_int (round_half_even (r / ulp q)) * ulp q"
    by (intro mult_right_mono) (simp_all add: less_imp_le)
  then show ?thesis using assms u by (simp add: dround_def)
next
  case False
  have r: "0 < r" using assms by linarith
  have "adjusted q + 1 \<le> adjusted r" using adjusted_mono [OF assms] False by linarith
  have "(of_int (round_half_even (q / ulp q)) :: rat) \<le> of_int (10 ^ 28)"
    using coefficient_bounds(2) [OF assms(1)] by (simp only: of_int_le_iff)
  then have "dround q \<le> 10 ^ 28 * ulp q"
    using assms(1) by (simp add: dround_def mult_right_mono less_imp_le)
  also have "\<dots> = 10 powi (adjusted q + 1)"
    using assms(1) by (simp add: ulp_def power_int_diff power_int_add)
  also have "\<dots> \<le> 10 powi adjusted r"
    using \<open>adjusted q + 1 \<le> adjusted r\<close> by (intro power_int_increasing) simp_all
  also have "\<dots> = 10 ^ 27 * ulp r"
    using r by (simp add: ulp_def power_int_diff)
  also have "(of_int (10 ^ 27) :: rat) \<le> of_int (round_half_even (r / ulp r))"
    using coefficient_bounds(1) [OF r] by (simp only: of_int_le_iff)
  then have "10 ^ 27 * ulp r \<le> dround r"
    using r by (simp add: dround_def mult_right_mono less_imp_le)
  finally show ?thesis .
qed

lemma dround_mono: "q \<le> r \<Longrightarrow> dround q \<le> dround r"
proof -
  assume le: "q \<le> r"
  consider "0 < q" | "q \<le> 0" "0 \<le> r" | "r < 0" by linarith
  then show ?thesis
  proof cases
    case 1
    then show ?thesis using le by (rule dround_mono_pos)
  next
    case 2
    then show ?thesis by (meson dround_nonneg_iff dround_nonpos_iff order_trans)
  next
    case 3
    then have "dround (- r) \<le> dround (- q)" using le by (intro dround_mono_pos) simp_all
    then show ?thesis by (simp add: dround_minus)
  qed
qed

lemma representable_0 [simp]: "representable 0"
  by (simp add: representable_def)

lemma representable_dround [simp]: "representable (dround q)"
  by (simp add: representable_def)

lemma representable_arith [simp]:
  "representable (dadd a b)" "representable (dsub a b)"
  "representable (dmul a b)" "representable (ddiv a b)"
  by (simp_all add: dadd_def dsub_def dmul_def ddiv_def)

lemma representable_le: "representable a \<Longrightarrow> a \<le> q \<Longrightarrow> a \<le> dround q"
  by (metis dround_mono representable_def)

lemma representable_ge: "representable a \<Longrightarrow> q \<le> a \<Longrightarrow> dround q \<le> a"
  by (metis dround_mono representable_def)

text \<open>Amounts with at most six decimals, below \<open>10^22\<close> in magnitude: the money columns.\<close>

definition micros :: "rat \<Rightarrow> bool" where
  "micros q \<longleftrightarrow> of_int \<lfloor>q * 10 ^ 6\<rfloor> = q * 10 ^ 6 \<and> \<bar>q\<bar> \<le> 10 ^ 22"

lemma micros_representable: "micros q \<Longrightarrow> representable q"
  unfolding representable_def
proof (rule dround_exact [where c = "\<lfloor>q * 10 ^ 6\<rfloor>" and e = "- 6"])
  assume m: "micros q"
  then have eq: "of_int \<lfloor>q * 10 ^ 6\<rfloor> = q * 10 ^ 6" unfolding micros_def by blast
  show "q = of_int \<lfloor>q * 10 ^ 6\<rfloor> * 10 powi (- 6)"
    by (simp only: eq) (simp add: power_int_minus)
  have "\<bar>of_int \<lfloor>q * 10 ^ 6\<rfloor>\<bar> = \<bar>q\<bar> * 10 ^ 6"
    by (simp only: eq) (simp add: abs_mult)
  also have "\<dots> \<le> 10 ^ 22 * 10 ^ 6"
    using m by (intro mult_right_mono) (simp_all add: micros_def)
  finally have "\<bar>of_int \<lfloor>q * 10 ^ 6\<rfloor>\<bar> \<le> (of_int (10 ^ 28) :: rat)" by simp
  then show "\<bar>\<lfloor>q * 10 ^ 6\<rfloor>\<bar> \<le> 10 ^ 28"
    by (metis of_int_abs of_int_le_iff)
qed

lemma dround_micros: "micros q \<Longrightarrow> dround q = q"
  using micros_representable by (simp add: representable_def)

text \<open>Evaluation of the operations on concrete amounts.\<close>

lemmas decimal_eval = dadd_def dsub_def dmul_def ddiv_def dround_micros micros_def

lemma round_half_up_bound: "\<bar>x\<bar> \<le> of_int n \<Longrightarrow> \<bar>round_half_up x\<bar> \<le> n + 1"
  by (auto simp: round_half_up_def abs_if floor_le_iff split: if_splits) linarith+

lemma round_half_up_zero_iff: "round_half_up x = 0 \<longleftrightarrow> \<bar>x\<bar> < 1 / 2"
  by (auto simp: round_half_up_def floor_eq_iff abs_if)

end
