(* ===== verification/Trading_Models.thy ===== *)
theory Trading_Models
  imports Decimals
begin

text \<open>
  The domain objects of paper trading (\<open>libs/trading/enums.py\<close>, \<open>exceptions.py\<close>, \<open>market.py\<close>,
  \<open>execution.py\<close>, \<open>models.py\<close>): quotes, accounts, positions, orders and executions, their
  constructors and the methods that change them. A method is a function from the object to
  the changed object or the exception; every method here checks before it assigns, so the
  object is unchanged when it raises. Identifiers that the constructors draw with \<open>uuid4()\<close> are
  arguments: \<open>None\<close> with a fresh value. After construction they are never \<open>None\<close>, and the
  fields have the plain type.
\<close>

section \<open>Enumerations and quotes\<close>

datatype order_side = BUY | SELL

datatype order_type = MARKET | LIMIT

datatype order_status = NEW | PENDING | PARTIALLY_FILLED | FILLED | CANCELLED | REJECTED

record market_quote =
  q_symbol :: string
  bid :: decimal
  ask :: decimal

definition market_quote_new :: "string \<Rightarrow> decimal \<Rightarrow> decimal \<Rightarrow> market_quote result" where
  "market_quote_new symbol b a =
     (let normalized_symbol = normal_symbol symbol
      in if normalized_symbol = [] then Inl (ValueError ''Symbol must not be empty.'')
         else if b \<le> 0 then Inl (ValueError ''Bid must be greater than zero.'')
         else if a \<le> 0 then Inl (ValueError ''Ask must be greater than zero.'')
         else if a < b then Inl (ValueError ''Ask must not be lower than bid.'')
         else Inr \<lparr>q_symbol = normalized_symbol, bid = b, ask = a\<rparr>)"

definition valid_quote :: "market_quote \<Rightarrow> bool" where
  "valid_quote q \<longleftrightarrow> q_symbol q \<noteq> [] \<and> normal_symbol (q_symbol q) = q_symbol q \<and> 0 < bid q \<and> bid q \<le> ask q"

lemma market_quote_new_valid: "market_quote_new s b a = Inr q \<Longrightarrow> valid_quote q"
  by (auto simp: market_quote_new_def valid_quote_def Let_def split: if_splits)

section \<open>Executions\<close>

record execution =
  ex_order_id :: uuid
  ex_symbol :: string
  ex_side :: order_side
  ex_quantity :: int
  ex_price :: decimal
  execution_id :: uuid

definition execution_new ::
  "uuid \<Rightarrow> string \<Rightarrow> order_side \<Rightarrow> int \<Rightarrow> decimal \<Rightarrow> uuid option \<Rightarrow> uuid \<Rightarrow> execution result" where
  "execution_new oid symbol side quantity price eid fresh =
     (let eid' = (case eid of None \<Rightarrow> fresh | Some i \<Rightarrow> i)
      in if quantity \<le> 0 then Inl (ValueError ''Execution quantity must be greater than zero.'')
         else if price \<le> 0 then Inl (ValueError ''Execution price must be greater than zero.'')
         else Inr \<lparr>ex_order_id = oid, ex_symbol = symbol, ex_side = side, ex_quantity = quantity,
                   ex_price = price, execution_id = eid'\<rparr>)"

section \<open>The paper account\<close>

record paper_account =
  account_id :: uuid
  initial_cash :: decimal
  cash_balance :: decimal

definition paper_account_new ::
  "decimal \<Rightarrow> uuid option \<Rightarrow> decimal option \<Rightarrow> uuid \<Rightarrow> paper_account result" where
  "paper_account_new initial aid cash fresh =
     (if initial \<le> 0 then Inl (ValueError ''Initial cash must be greater than zero.'')
      else let aid' = (case aid of None \<Rightarrow> fresh | Some i \<Rightarrow> i);
               cash' = (case cash of None \<Rightarrow> initial | Some c \<Rightarrow> c)
           in if cash' < 0 then Inl (ValueError ''Cash balance cannot be negative.'')
              else Inr \<lparr>account_id = aid', initial_cash = initial, cash_balance = cash'\<rparr>)"

definition buying_power :: "paper_account \<Rightarrow> decimal" where
  "buying_power a = cash_balance a"

definition ensure_can_buy :: "int \<Rightarrow> decimal \<Rightarrow> paper_account \<Rightarrow> unit result" where
  "ensure_can_buy quantity estimated_price a =
     (if quantity \<le> 0 then Inl (ValueError ''Quantity must be greater than zero.'')
      else if estimated_price \<le> 0 then Inl (ValueError ''Estimated price must be greater than zero.'')
      else let required_cash = dmul estimated_price (of_int quantity)
           in if buying_power a < required_cash
              then Inl (InsufficientBuyingPowerError ''Required cash exceeds buying power.'')
              else Inr ())"

definition debit :: "decimal \<Rightarrow> paper_account \<Rightarrow> paper_account result" where
  "debit amount a =
     (if amount \<le> 0 then Inl (ValueError ''Debit amount must be greater than zero.'')
      else if cash_balance a < amount
      then Inl (InsufficientBuyingPowerError ''Insufficient cash balance.'')
      else Inr (a\<lparr>cash_balance := dsub (cash_balance a) amount\<rparr>))"

definition credit :: "decimal \<Rightarrow> paper_account \<Rightarrow> paper_account result" where
  "credit amount a =
     (if amount \<le> 0 then Inl (ValueError ''Credit amount must be greater than zero.'')
      else Inr (a\<lparr>cash_balance := dadd (cash_balance a) amount\<rparr>))"

definition valid_account :: "paper_account \<Rightarrow> bool" where
  "valid_account a \<longleftrightarrow> 0 < initial_cash a \<and> 0 \<le> cash_balance a"

lemma paper_account_new_valid: "paper_account_new i aid c fresh = Inr a \<Longrightarrow> valid_account a"
  by (auto simp: paper_account_new_def valid_account_def Let_def split: if_splits option.splits)

lemma debit_valid: "valid_account a \<Longrightarrow> debit x a = Inr a' \<Longrightarrow> valid_account a'"
  by (auto simp: debit_def valid_account_def dsub_def split: if_splits)

lemma credit_valid: "valid_account a \<Longrightarrow> credit x a = Inr a' \<Longrightarrow> valid_account a'"
  by (auto simp: credit_def valid_account_def dadd_def split: if_splits)

section \<open>Positions\<close>

record position =
  p_symbol :: string
  p_quantity :: int
  average_cost :: decimal
  realized_pnl :: decimal

definition position_new ::
  "string \<Rightarrow> int \<Rightarrow> decimal \<Rightarrow> decimal \<Rightarrow> position result" where
  "position_new symbol quantity average pnl =
     (let symbol' = normal_symbol symbol
      in if symbol' = [] then Inl (ValueError ''Symbol must not be empty.'')
         else if quantity < 0 then Inl (ValueError ''Position quantity cannot be negative.'')
         else if average < 0 then Inl (ValueError ''Average cost cannot be negative.'')
         else Inr \<lparr>p_symbol = symbol', p_quantity = quantity, average_cost = average,
                   realized_pnl = pnl\<rparr>)"

definition is_open :: "position \<Rightarrow> bool" where
  "is_open p \<longleftrightarrow> 0 < p_quantity p"

definition position_buy :: "int \<Rightarrow> decimal \<Rightarrow> position \<Rightarrow> position result" where
  "position_buy quantity price p =
     (if quantity \<le> 0 then Inl (ValueError ''Quantity must be greater than zero.'')
      else if price \<le> 0 then Inl (ValueError ''Price must be greater than zero.'')
      else let existing_cost = dmul (average_cost p) (of_int (p_quantity p));
               new_cost = dmul price (of_int quantity);
               new_quantity = p_quantity p + quantity
           in Inr (p\<lparr>average_cost := ddiv (dadd existing_cost new_cost) (of_int new_quantity),
                     p_quantity := new_quantity\<rparr>))"

definition position_sell :: "int \<Rightarrow> decimal option \<Rightarrow> position \<Rightarrow> position result" where
  "position_sell quantity price p =
     (if quantity \<le> 0 then Inl (ValueError ''Quantity must be greater than zero.'')
      else if p_quantity p < quantity then Inl (InsufficientPositionError ''Cannot sell shares.'')
      else
        (case (case price of
                 None \<Rightarrow> Inr p
               | Some x \<Rightarrow>
                   if x \<le> 0 then Inl (ValueError ''Price must be greater than zero.'')
                   else Inr (p\<lparr>realized_pnl := dadd (realized_pnl p)
                                (dmul (dsub x (average_cost p)) (of_int quantity))\<rparr>)) of
           Inl e \<Rightarrow> Inl e
         | Inr p' \<Rightarrow>
             let p'' = p'\<lparr>p_quantity := p_quantity p' - quantity\<rparr>
             in Inr (if p_quantity p'' = 0 then p''\<lparr>average_cost := 0\<rparr> else p'')))"

definition validate_mark_price :: "decimal \<Rightarrow> unit result" where
  "validate_mark_price mark_price =
     (if mark_price \<le> 0 then Inl (ValueError ''Mark price must be greater than zero.'') else Inr ())"

definition position_market_value :: "decimal \<Rightarrow> position \<Rightarrow> decimal result" where
  "position_market_value mark_price p =
     (case validate_mark_price mark_price of
        Inl e \<Rightarrow> Inl e
      | Inr _ \<Rightarrow> Inr (dmul mark_price (of_int (p_quantity p))))"

definition position_unrealized_pnl :: "decimal \<Rightarrow> position \<Rightarrow> decimal result" where
  "position_unrealized_pnl mark_price p =
     (case validate_mark_price mark_price of
        Inl e \<Rightarrow> Inl e
      | Inr _ \<Rightarrow>
          if \<not> is_open p then Inr 0
          else Inr (dmul (dsub mark_price (average_cost p)) (of_int (p_quantity p))))"

definition valid_position :: "position \<Rightarrow> bool" where
  "valid_position p \<longleftrightarrow> p_symbol p \<noteq> [] \<and> normal_symbol (p_symbol p) = p_symbol p
     \<and> 0 \<le> p_quantity p \<and> 0 \<le> average_cost p"

lemma position_new_valid: "position_new s n c r = Inr p \<Longrightarrow> valid_position p"
  by (auto simp: position_new_def valid_position_def Let_def split: if_splits)

lemma position_buy_valid:
  "valid_position p \<Longrightarrow> position_buy n x p = Inr p' \<Longrightarrow> valid_position p'"
  by (auto simp: position_buy_def valid_position_def Let_def ddiv_def dadd_def dmul_def split: if_splits)

lemma position_sell_valid:
  "valid_position p \<Longrightarrow> position_sell n x p = Inr p' \<Longrightarrow> valid_position p'"
  by (auto simp: position_sell_def valid_position_def Let_def split: if_splits option.splits sum.splits)

section \<open>Orders\<close>

record paper_order =
  o_account_id :: uuid
  o_symbol :: string
  o_side :: order_side
  o_quantity :: int
  o_type :: order_type
  order_id :: uuid
  o_status :: order_status
  filled_quantity :: int
  limit_price :: "decimal option"

definition paper_order_new ::
  "uuid \<Rightarrow> string \<Rightarrow> order_side \<Rightarrow> int \<Rightarrow> order_type \<Rightarrow> uuid option \<Rightarrow> order_status \<Rightarrow> int \<Rightarrow>
   decimal option \<Rightarrow> uuid \<Rightarrow> paper_order result" where
  "paper_order_new aid symbol side quantity typ oid status filled limit fresh =
     (let oid' = (case oid of None \<Rightarrow> fresh | Some i \<Rightarrow> i);
          symbol' = normal_symbol symbol
      in if symbol' = [] then Inl (ValueError ''Symbol must not be empty.'')
         else if quantity \<le> 0 then Inl (ValueError ''Quantity must be greater than zero.'')
         else if filled < 0 then Inl (ValueError ''Filled quantity cannot be negative.'')
         else if quantity < filled then Inl (ValueError ''Filled quantity cannot exceed order quantity.'')
         else if typ = LIMIT \<and> limit = None
         then Inl (ValueError ''Limit price is required for LIMIT orders.'')
         else if typ = LIMIT \<and> (case limit of None \<Rightarrow> False | Some x \<Rightarrow> x \<le> 0)
         then Inl (ValueError ''Limit price must be greater than zero.'')
         else if typ = MARKET \<and> limit \<noteq> None
         then Inl (ValueError ''Market order must not define limit price.'')
         else Inr \<lparr>o_account_id = aid, o_symbol = symbol', o_side = side, o_quantity = quantity,
                   o_type = typ, order_id = oid', o_status = status, filled_quantity = filled,
                   limit_price = limit\<rparr>)"

definition remaining_quantity :: "paper_order \<Rightarrow> int" where
  "remaining_quantity r = o_quantity r - filled_quantity r"

definition mark_pending :: "paper_order \<Rightarrow> paper_order result" where
  "mark_pending r =
     (if o_status r \<noteq> NEW then Inl (ValueError ''Only NEW orders can become PENDING.'')
      else Inr (r\<lparr>o_status := PENDING\<rparr>))"

definition record_fill :: "int \<Rightarrow> paper_order \<Rightarrow> paper_order result" where
  "record_fill quantity r =
     (if quantity \<le> 0 then Inl (ValueError ''Fill quantity must be greater than zero.'')
      else if remaining_quantity r < quantity
      then Inl (ValueError ''Fill quantity exceeds remaining quantity.'')
      else let r' = r\<lparr>filled_quantity := filled_quantity r + quantity\<rparr>
           in Inr (if filled_quantity r' = o_quantity r' then r'\<lparr>o_status := FILLED\<rparr>
                   else r'\<lparr>o_status := PARTIALLY_FILLED\<rparr>))"

definition cancel :: "paper_order \<Rightarrow> paper_order result" where
  "cancel r =
     (if o_status r \<in> {FILLED, CANCELLED, REJECTED}
      then Inl (ValueError ''Cannot cancel order in status'')
      else Inr (r\<lparr>o_status := CANCELLED\<rparr>))"

definition reject :: "paper_order \<Rightarrow> paper_order result" where
  "reject r =
     (if o_status r = FILLED then Inl (ValueError ''Filled order cannot be rejected.'')
      else Inr (r\<lparr>o_status := REJECTED\<rparr>))"

definition valid_order :: "paper_order \<Rightarrow> bool" where
  "valid_order r \<longleftrightarrow> o_symbol r \<noteq> [] \<and> normal_symbol (o_symbol r) = o_symbol r
     \<and> 0 < o_quantity r \<and> 0 \<le> filled_quantity r \<and> filled_quantity r \<le> o_quantity r
     \<and> (case limit_price r of None \<Rightarrow> o_type r = MARKET | Some x \<Rightarrow> o_type r = LIMIT \<and> 0 < x)"

lemma paper_order_new_valid:
  "paper_order_new a s d n t i st f l fresh = Inr r \<Longrightarrow> valid_order r"
  by (cases t) (auto simp: paper_order_new_def valid_order_def Let_def split: if_splits option.splits)

text \<open>The constructor accepts the fields of every valid order (what loading a row relies on).\<close>

lemma paper_order_new_of_valid:
  assumes "valid_order r"
  shows "paper_order_new (o_account_id r) (o_symbol r) (o_side r) (o_quantity r) (o_type r)
    (Some (order_id r)) (o_status r) (filled_quantity r) (limit_price r) fresh = Inr r"
  using assms by (auto simp: paper_order_new_def valid_order_def Let_def split: option.splits)

lemma position_new_of_valid:
  "valid_position p \<Longrightarrow>
   position_new (p_symbol p) (p_quantity p) (average_cost p) (realized_pnl p) = Inr p"
  by (auto simp: position_new_def valid_position_def Let_def)

end
