(* ===== verification/Paper_Broker.thy ===== *)
theory Paper_Broker
  imports Trading_Models
begin

text \<open>
  \<open>libs/trading/paper_broker.py\<close>: the execution of market and limit orders against a quote. The
  broker mutates three objects it is given (account, order, position) and may raise half-way;
  its methods are programs over the three objects, so that what an exception leaves behind is
  part of the model. Also the life cycle of an order under the methods of
  \<open>libs/trading/models.py\<close>, and the portfolio calculator of \<open>libs/trading/portfolio.py\<close>.
\<close>

section \<open>The broker\<close>

record broker_state =
  b_account :: paper_account
  b_order :: paper_order
  b_position :: position

definition on_account :: "(paper_account \<Rightarrow> paper_account result) \<Rightarrow> (broker_state, unit) prog" where
  "on_account f = (\<lambda>s. case f (b_account s) of
     Inl e \<Rightarrow> (Inl e, s) | Inr a \<Rightarrow> (Inr (), s\<lparr>b_account := a\<rparr>))"

definition on_order :: "(paper_order \<Rightarrow> paper_order result) \<Rightarrow> (broker_state, unit) prog" where
  "on_order f = (\<lambda>s. case f (b_order s) of
     Inl e \<Rightarrow> (Inl e, s) | Inr r \<Rightarrow> (Inr (), s\<lparr>b_order := r\<rparr>))"

definition on_position :: "(position \<Rightarrow> position result) \<Rightarrow> (broker_state, unit) prog" where
  "on_position f = (\<lambda>s. case f (b_position s) of
     Inl e \<Rightarrow> (Inl e, s) | Inr p \<Rightarrow> (Inr (), s\<lparr>b_position := p\<rparr>))"

definition validate_common :: "market_quote \<Rightarrow> (broker_state, unit) prog" where
  "validate_common quote = bind get_state (\<lambda>s.
     bind (raise_if (o_status (b_order s) \<noteq> NEW)
             (ValueError ''Only NEW orders can be submitted.'')) (\<lambda>_.
     bind (raise_if (o_symbol (b_order s) \<noteq> q_symbol quote)
             (ValueError ''Order symbol does not match market quote symbol.'')) (\<lambda>_.
     raise_if (o_symbol (b_order s) \<noteq> p_symbol (b_position s))
             (ValueError ''Order symbol does not match position symbol.''))))"

definition limit_is_triggered :: "paper_order \<Rightarrow> market_quote \<Rightarrow> bool result" where
  "limit_is_triggered order quote =
     (case limit_price order of
        None \<Rightarrow> Inl (ValueError ''LIMIT order must define limit price.'')
      | Some limit \<Rightarrow>
          (case o_side order of
             BUY \<Rightarrow> Inr (ask quote \<le> limit)
           | SELL \<Rightarrow> Inr (limit \<le> bid quote)))"

definition new_execution :: "int \<Rightarrow> decimal \<Rightarrow> uuid \<Rightarrow> (broker_state, execution) prog" where
  "new_execution quantity execution_price fresh = bind get_state (\<lambda>s.
     of_result (execution_new (order_id (b_order s)) (o_symbol (b_order s)) (o_side (b_order s))
       quantity execution_price None fresh))"

definition execute_buy :: "market_quote \<Rightarrow> uuid \<Rightarrow> (broker_state, execution) prog" where
  "execute_buy quote fresh = bind get_state (\<lambda>s.
     let execution_price = ask quote; quantity = remaining_quantity (b_order s)
     in bind (of_result (ensure_can_buy quantity execution_price (b_account s))) (\<lambda>_.
        let total_cost = dmul execution_price (of_int quantity)
        in bind (on_account (debit total_cost)) (\<lambda>_.
           bind (on_position (position_buy quantity execution_price)) (\<lambda>_.
           bind (on_order (record_fill quantity)) (\<lambda>_.
           new_execution quantity execution_price fresh)))))"

definition execute_sell :: "market_quote \<Rightarrow> uuid \<Rightarrow> (broker_state, execution) prog" where
  "execute_sell quote fresh = bind get_state (\<lambda>s.
     let execution_price = bid quote; quantity = remaining_quantity (b_order s)
     in bind (on_position (position_sell quantity (Some execution_price))) (\<lambda>_.
        let proceeds = dmul execution_price (of_int quantity)
        in bind (on_account (credit proceeds)) (\<lambda>_.
           bind (on_order (record_fill quantity)) (\<lambda>_.
           new_execution quantity execution_price fresh))))"

definition fill_order :: "market_quote \<Rightarrow> uuid \<Rightarrow> (broker_state, execution) prog" where
  "fill_order quote fresh = bind get_state (\<lambda>s.
     case o_side (b_order s) of
       BUY \<Rightarrow> execute_buy quote fresh
     | SELL \<Rightarrow> execute_sell quote fresh)"

definition execute_market_order :: "market_quote \<Rightarrow> uuid \<Rightarrow> (broker_state, execution) prog" where
  "execute_market_order quote fresh =
     bind (validate_common quote) (\<lambda>_.
     bind get_state (\<lambda>s.
     bind (raise_if (o_type (b_order s) \<noteq> MARKET) (ValueError ''Order must be MARKET.'')) (\<lambda>_.
     bind (on_order mark_pending) (\<lambda>_.
     fill_order quote fresh))))"

definition submit_limit_order :: "market_quote \<Rightarrow> (broker_state, unit) prog" where
  "submit_limit_order quote =
     bind (validate_common quote) (\<lambda>_.
     bind get_state (\<lambda>s.
     bind (raise_if (o_type (b_order s) \<noteq> LIMIT) (ValueError ''Order must be LIMIT.'')) (\<lambda>_.
     on_order mark_pending)))"

definition process_quote :: "market_quote \<Rightarrow> uuid \<Rightarrow> (broker_state, execution option) prog" where
  "process_quote quote fresh = bind get_state (\<lambda>s.
     bind (raise_if (o_type (b_order s) \<noteq> LIMIT)
             (ValueError ''process_quote supports LIMIT orders only.'')) (\<lambda>_.
     if o_status (b_order s) \<noteq> PENDING then ret None
     else
       bind (raise_if (o_symbol (b_order s) \<noteq> q_symbol quote)
               (ValueError ''Order symbol does not match market quote symbol.'')) (\<lambda>_.
       bind (raise_if (o_symbol (b_order s) \<noteq> p_symbol (b_position s))
               (ValueError ''Order symbol does not match position symbol.'')) (\<lambda>_.
       bind (of_result (limit_is_triggered (b_order s) quote)) (\<lambda>triggered.
       if \<not> triggered then ret None
       else bind (fill_order quote fresh) (\<lambda>e. ret (Some e)))))))"

definition cancel_order :: "paper_order \<Rightarrow> paper_order result" where
  "cancel_order order = cancel order"

section \<open>What a fill does\<close>

text \<open>The objects after a complete fill of the remaining quantity.\<close>

definition filled_order :: "paper_order \<Rightarrow> paper_order" where
  "filled_order r = r\<lparr>filled_quantity := o_quantity r, o_status := FILLED\<rparr>"

definition bought_position :: "int \<Rightarrow> decimal \<Rightarrow> position \<Rightarrow> position" where
  "bought_position n x p = p\<lparr>
     average_cost := ddiv (dadd (dmul (average_cost p) (of_int (p_quantity p))) (dmul x (of_int n)))
                          (of_int (p_quantity p + n)),
     p_quantity := p_quantity p + n\<rparr>"

definition sold_position :: "int \<Rightarrow> decimal \<Rightarrow> position \<Rightarrow> position" where
  "sold_position n x p = p\<lparr>
     realized_pnl := dadd (realized_pnl p) (dmul (dsub x (average_cost p)) (of_int n)),
     p_quantity := p_quantity p - n,
     average_cost := (if p_quantity p = n then 0 else average_cost p)\<rparr>"

definition execution_of :: "paper_order \<Rightarrow> decimal \<Rightarrow> uuid \<Rightarrow> execution" where
  "execution_of r x fresh = \<lparr>ex_order_id = order_id r, ex_symbol = o_symbol r, ex_side = o_side r,
     ex_quantity = remaining_quantity r, ex_price = x, execution_id = fresh\<rparr>"

lemma dmul_pos: "0 < x \<Longrightarrow> 0 < n \<Longrightarrow> 0 < dmul x (of_int n)"
  by (simp add: dmul_def)

lemma dmul_nonpos: "0 < x \<Longrightarrow> dmul x (of_int n) \<le> 0 \<longleftrightarrow> n \<le> 0"
  by (auto simp: dmul_def mult_le_0_iff)

lemma position_sell_run:
  "position_sell n (Some x) p =
     (if n \<le> 0 then Inl (ValueError ''Quantity must be greater than zero.'')
      else if p_quantity p < n then Inl (InsufficientPositionError ''Cannot sell shares.'')
      else if x \<le> 0 then Inl (ValueError ''Price must be greater than zero.'')
      else Inr (sold_position n x p))"
  by (cases p) (auto simp: position_sell_def sold_position_def Let_def)

lemma record_fill_remaining:
  "0 < remaining_quantity r \<Longrightarrow> record_fill (remaining_quantity r) r = Inr (filled_order r)"
  by (cases r) (auto simp: record_fill_def remaining_quantity_def filled_order_def Let_def)

lemma execute_buy_run:
  "execute_buy quote fresh s =
     (let n = remaining_quantity (b_order s); x = ask quote; cost = dmul x (of_int n)
      in if n \<le> 0 then (Inl (ValueError ''Quantity must be greater than zero.''), s)
         else if x \<le> 0 then (Inl (ValueError ''Estimated price must be greater than zero.''), s)
         else if cash_balance (b_account s) < cost
         then (Inl (InsufficientBuyingPowerError ''Required cash exceeds buying power.''), s)
         else (Inr (execution_of (b_order s) x fresh),
               s\<lparr>b_account := (b_account s)\<lparr>cash_balance := dsub (cash_balance (b_account s)) cost\<rparr>,
                 b_position := bought_position n x (b_position s),
                 b_order := filled_order (b_order s)\<rparr>))"
proof -
  define n where "n = remaining_quantity (b_order s)"
  show ?thesis
    using dmul_nonpos [of "ask quote" n] record_fill_remaining [of "b_order s"]
    by (auto simp: execute_buy_def bind_run Let_def ensure_can_buy_def buying_power_def debit_def
        on_account_def on_position_def on_order_def position_buy_def bought_position_def
        new_execution_def execution_new_def execution_of_def filled_order_def not_less n_def)
qed

lemma execute_sell_run:
  "execute_sell quote fresh s =
     (let n = remaining_quantity (b_order s); x = bid quote
      in if n \<le> 0 then (Inl (ValueError ''Quantity must be greater than zero.''), s)
         else if p_quantity (b_position s) < n
         then (Inl (InsufficientPositionError ''Cannot sell shares.''), s)
         else if x \<le> 0 then (Inl (ValueError ''Price must be greater than zero.''), s)
         else (Inr (execution_of (b_order s) x fresh),
               s\<lparr>b_position := sold_position n x (b_position s),
                 b_account := (b_account s)\<lparr>cash_balance :=
                   dadd (cash_balance (b_account s)) (dmul x (of_int n))\<rparr>,
                 b_order := filled_order (b_order s)\<rparr>))"
proof -
  define n where "n = remaining_quantity (b_order s)"
  show ?thesis
    using dmul_nonpos [of "bid quote" n] record_fill_remaining [of "b_order s"]
    by (auto simp: execute_sell_def bind_run Let_def credit_def position_sell_run
        on_account_def on_position_def on_order_def
        new_execution_def execution_new_def execution_of_def filled_order_def not_less n_def)
qed

section \<open>Exceptions and fills\<close>

lemma validate_common_state: "validate_common quote s = (r, s') \<Longrightarrow> s' = s"
  by (auto simp: validate_common_def bind_run split: if_splits)

lemma fill_order_run:
  "fill_order quote fresh s =
     (case o_side (b_order s) of BUY \<Rightarrow> execute_buy quote fresh s | SELL \<Rightarrow> execute_sell quote fresh s)"
  by (simp add: fill_order_def bind_run split: order_side.splits)

lemma fill_order_error: "fill_order quote fresh s = (Inl e, s') \<Longrightarrow> s' = s"
  by (auto simp: fill_order_run execute_buy_run execute_sell_run Let_def
      split: order_side.splits if_splits)

text \<open>What a fill leaves behind, by side.\<close>

definition fill_effect :: "market_quote \<Rightarrow> uuid \<Rightarrow> broker_state \<Rightarrow> execution \<Rightarrow> broker_state \<Rightarrow> bool" where
  "fill_effect quote fresh s ex s' \<longleftrightarrow>
     (let n = remaining_quantity (b_order s); a = b_account s in
      0 < n \<and> b_order s' = filled_order (b_order s) \<and>
      (case o_side (b_order s) of
         BUY \<Rightarrow>
           0 < ask quote \<and> ex = execution_of (b_order s) (ask quote) fresh \<and>
           dmul (ask quote) (of_int n) \<le> cash_balance a \<and>
           b_account s' = a\<lparr>cash_balance := dsub (cash_balance a) (dmul (ask quote) (of_int n))\<rparr> \<and>
           b_position s' = bought_position n (ask quote) (b_position s)
       | SELL \<Rightarrow>
           0 < bid quote \<and> ex = execution_of (b_order s) (bid quote) fresh \<and>
           n \<le> p_quantity (b_position s) \<and>
           b_account s' = a\<lparr>cash_balance := dadd (cash_balance a) (dmul (bid quote) (of_int n))\<rparr> \<and>
           b_position s' = sold_position n (bid quote) (b_position s)))"

lemma fill_order_effect:
  "fill_order quote fresh s = (Inr ex, s') \<Longrightarrow> fill_effect quote fresh s ex s'"
  by (auto simp: fill_order_run execute_buy_run execute_sell_run fill_effect_def Let_def
      split: order_side.splits if_splits)

lemma mark_pending_state:
  "on_order mark_pending s =
     (if o_status (b_order s) \<noteq> NEW then (Inl (ValueError ''Only NEW orders can become PENDING.''), s)
      else (Inr (), s\<lparr>b_order := (b_order s)\<lparr>o_status := PENDING\<rparr>\<rparr>))"
  by (simp add: on_order_def mark_pending_def)

lemma execute_market_order_run:
  "execute_market_order quote fresh s =
     (case validate_common quote s of
        (Inl e, _) \<Rightarrow> (Inl e, s)
      | (Inr _, _) \<Rightarrow>
          if o_type (b_order s) \<noteq> MARKET then (Inl (ValueError ''Order must be MARKET.''), s)
          else fill_order quote fresh (s\<lparr>b_order := (b_order s)\<lparr>o_status := PENDING\<rparr>\<rparr>))"
  by (auto simp: execute_market_order_def bind_run mark_pending_state validate_common_def
      split: prod.splits sum.splits)

lemma process_quote_run:
  "process_quote quote fresh s =
     (if o_type (b_order s) \<noteq> LIMIT
      then (Inl (ValueError ''process_quote supports LIMIT orders only.''), s)
      else if o_status (b_order s) \<noteq> PENDING then (Inr None, s)
      else if o_symbol (b_order s) \<noteq> q_symbol quote
      then (Inl (ValueError ''Order symbol does not match market quote symbol.''), s)
      else if o_symbol (b_order s) \<noteq> p_symbol (b_position s)
      then (Inl (ValueError ''Order symbol does not match position symbol.''), s)
      else (case limit_is_triggered (b_order s) quote of
              Inl e \<Rightarrow> (Inl e, s)
            | Inr False \<Rightarrow> (Inr None, s)
            | Inr True \<Rightarrow> bind (fill_order quote fresh) (\<lambda>e. ret (Some e)) s))"
  by (auto simp: process_quote_def bind_run split: sum.splits prod.splits bool.splits)

lemma process_quote_Some:
  assumes "process_quote quote fresh s = (Inr (Some ex), s')"
  shows "o_type (b_order s) = LIMIT \<and> o_status (b_order s) = PENDING
    \<and> o_symbol (b_order s) = q_symbol quote \<and> o_symbol (b_order s) = p_symbol (b_position s)
    \<and> limit_is_triggered (b_order s) quote = Inr True \<and> fill_effect quote fresh s ex s'"
  using assms
  by (auto simp: process_quote_run dest!: fill_order_effect elim!: bind_InrE
      split: if_splits sum.splits bool.splits)

lemma process_quote_unfilled:
  assumes "process_quote quote fresh s = (r, s')" and "\<And>ex. r \<noteq> Inr (Some ex)"
  shows "s' = s"
  using assms
  by (auto simp: process_quote_run bind_run dest: fill_order_error
      split: if_splits sum.splits bool.splits prod.splits)

lemma execute_market_order_Inr:
  assumes "execute_market_order quote fresh s = (Inr ex, s')"
  shows "o_status (b_order s) = NEW \<and> o_type (b_order s) = MARKET
    \<and> o_symbol (b_order s) = q_symbol quote \<and> o_symbol (b_order s) = p_symbol (b_position s)
    \<and> fill_effect quote fresh (s\<lparr>b_order := (b_order s)\<lparr>o_status := PENDING\<rparr>\<rparr>) ex s'"
  using assms
  by (auto simp: execute_market_order_run validate_common_def bind_run dest!: fill_order_effect
      split: if_splits prod.splits sum.splits)

lemma filled_order_sel [simp]:
  "o_account_id (filled_order r) = o_account_id r" "o_symbol (filled_order r) = o_symbol r"
  "o_side (filled_order r) = o_side r" "o_quantity (filled_order r) = o_quantity r"
  "o_type (filled_order r) = o_type r" "order_id (filled_order r) = order_id r"
  "o_status (filled_order r) = FILLED" "filled_quantity (filled_order r) = o_quantity r"
  "limit_price (filled_order r) = limit_price r"
  by (simp_all add: filled_order_def)

lemma filled_order_pending [simp]: "filled_order (r\<lparr>o_status := st\<rparr>) = filled_order r"
  by (simp add: filled_order_def)

lemma remaining_pending [simp]: "remaining_quantity (r\<lparr>o_status := st\<rparr>) = remaining_quantity r"
  by (simp add: remaining_quantity_def)

lemma execution_of_pending [simp]: "execution_of (r\<lparr>o_status := st\<rparr>) x f = execution_of r x f"
  by (simp add: execution_of_def)

lemma position_sel [simp]:
  "p_symbol (bought_position n x p) = p_symbol p" "p_quantity (bought_position n x p) = p_quantity p + n"
  "realized_pnl (bought_position n x p) = realized_pnl p"
  "p_symbol (sold_position n x p) = p_symbol p" "p_quantity (sold_position n x p) = p_quantity p - n"
  by (simp_all add: bought_position_def sold_position_def)

lemma filled_order_valid: "valid_order r \<Longrightarrow> valid_order (filled_order r)"
  by (auto simp: valid_order_def split: option.splits)

lemma bought_position_valid:
  "valid_position p \<Longrightarrow> 0 < n \<Longrightarrow> 0 < x \<Longrightarrow> valid_position (bought_position n x p)"
  by (auto simp: valid_position_def bought_position_def ddiv_def dadd_def dmul_def)

lemma sold_position_valid:
  "valid_position p \<Longrightarrow> n \<le> p_quantity p \<Longrightarrow> valid_position (sold_position n x p)"
  by (auto simp: valid_position_def sold_position_def)

lemma fill_effect_pending [simp]:
  "fill_effect quote fresh (s\<lparr>b_order := (b_order s)\<lparr>o_status := st\<rparr>\<rparr>) ex s'
     = fill_effect quote fresh s ex s'"
  by (cases "o_side (b_order s)") (simp_all add: fill_effect_def Let_def)

text \<open>A fill keeps the three objects well formed.\<close>

definition valid_state :: "broker_state \<Rightarrow> bool" where
  "valid_state s \<longleftrightarrow> valid_account (b_account s) \<and> valid_order (b_order s) \<and> valid_position (b_position s)"

lemma fill_effect_valid:
  "fill_effect quote fresh s ex s' \<Longrightarrow> valid_state s \<Longrightarrow> valid_state s'"
  by (auto simp: fill_effect_def valid_state_def Let_def valid_account_def dsub_def dadd_def dmul_def
      intro: filled_order_valid bought_position_valid sold_position_valid split: order_side.splits)

lemma valid_state_pending [simp]:
  "valid_state (s\<lparr>b_order := (b_order s)\<lparr>o_status := st\<rparr>\<rparr>) = valid_state s"
  by (simp add: valid_state_def valid_order_def cong: option.case_cong)

end
