(* ===== verification/Broker_Properties.thy ===== *)
theory Broker_Properties
  imports Paper_Broker
begin

text \<open>
  What the paper broker and its domain objects guarantee: the life cycle of an order, exception
  safety, the limit price, and the accounting identity that links cash, cost and profit.
\<close>

section \<open>The life cycle of an order\<close>

text \<open>One call of a method of \<open>PaperOrder\<close> that returns.\<close>

inductive order_step :: "paper_order \<Rightarrow> paper_order \<Rightarrow> bool" where
  step_pending: "mark_pending r = Inr r' \<Longrightarrow> order_step r r'"
| step_fill: "record_fill n r = Inr r' \<Longrightarrow> order_step r r'"
| step_cancel: "cancel r = Inr r' \<Longrightarrow> order_step r r'"
| step_reject: "reject r = Inr r' \<Longrightarrow> order_step r r'"

text \<open>The states of an order that starts with the constructor's defaults.\<close>

inductive order_reachable :: "paper_order \<Rightarrow> bool" where
  created: "paper_order_new a s d n t i NEW 0 l fresh = Inr r \<Longrightarrow> order_reachable r"
| stepped: "order_reachable r \<Longrightarrow> order_step r r' \<Longrightarrow> order_reachable r'"

definition order_consistent :: "paper_order \<Rightarrow> bool" where
  "order_consistent r \<longleftrightarrow> valid_order r
     \<and> (o_status r = FILLED \<longleftrightarrow> filled_quantity r = o_quantity r)
     \<and> (o_status r \<in> {NEW, PENDING} \<longrightarrow> filled_quantity r = 0)
     \<and> (o_status r = PARTIALLY_FILLED \<longrightarrow> 0 < filled_quantity r)"

lemmas order_method_defs =
  mark_pending_def record_fill_def cancel_def reject_def remaining_quantity_def Let_def

lemma valid_order_updates [simp]:
  "valid_order (r\<lparr>o_status := st\<rparr>) = valid_order r"
  "valid_order (r\<lparr>filled_quantity := n, o_status := st\<rparr>) = valid_order (r\<lparr>filled_quantity := n\<rparr>)"
  by (simp_all add: valid_order_def cong: option.case_cong)

lemma valid_order_fill:
  "valid_order r \<Longrightarrow> 0 < n \<Longrightarrow> n \<le> o_quantity r - filled_quantity r \<Longrightarrow>
   valid_order (r\<lparr>filled_quantity := filled_quantity r + n\<rparr>)"
  by (simp add: valid_order_def cong: option.case_cong)

lemma record_fill_consistent:
  assumes "order_consistent r" and "record_fill n r = Inr r'"
  shows "order_consistent r'"
proof -
  from assms(2) have n: "0 < n" "n \<le> o_quantity r - filled_quantity r"
    and r': "r' = r\<lparr>filled_quantity := filled_quantity r + n,
      o_status := (if filled_quantity r + n = o_quantity r then FILLED else PARTIALLY_FILLED)\<rparr>"
    by (auto simp: order_method_defs split: if_splits)
  moreover have v: "valid_order r" and "0 \<le> filled_quantity r"
    using assms(1) by (auto simp: order_consistent_def valid_order_def)
  ultimately show ?thesis
    using valid_order_fill [OF v n] by (simp add: order_consistent_def)
qed

lemma order_step_consistent:
  assumes "order_step r r'" and c: "order_consistent r"
  shows "order_consistent r'"
  using assms(1)
proof cases
  case step_pending
  then show ?thesis using c by (auto simp: mark_pending_def order_consistent_def split: if_splits)
next
  case (step_fill n)
  then show ?thesis using c by (blast intro: record_fill_consistent)
next
  case step_cancel
  then show ?thesis using c by (auto simp: cancel_def order_consistent_def split: if_splits)
next
  case step_reject
  then show ?thesis using c by (auto simp: reject_def order_consistent_def split: if_splits)
qed

lemma order_new_consistent:
  "paper_order_new a s d n t i NEW 0 l fresh = Inr r \<Longrightarrow> order_consistent r"
  using paper_order_new_valid [of a s d n t i NEW 0 l fresh r]
  by (auto simp: order_consistent_def paper_order_new_def valid_order_def Let_def split: if_splits)

text \<open>
  Every state an order can reach through its methods is consistent: the filled quantity
  stays between 0 and the ordered quantity, the order is FILLED exactly when all of it is
  filled, nothing is filled while it is NEW or PENDING, and its limit price fits its type.
\<close>
theorem order_lifecycle: "order_reachable r \<Longrightarrow> order_consistent r"
proof (induction rule: order_reachable.induct)
  case (created a s d n t i l fresh r)
  then show ?case by (rule order_new_consistent)
next
  case (stepped r r')
  then show ?case by (blast intro: order_step_consistent)
qed

definition sample_order :: paper_order where
  "sample_order = \<lparr>o_account_id = 1, o_symbol = ''AAPL'', o_side = BUY, o_quantity = 10,
     o_type = LIMIT, order_id = 7, o_status = NEW, filled_quantity = 0, limit_price = Some 100\<rparr>"

lemma sample_order_new:
  "paper_order_new 1 '' aapl '' BUY 10 LIMIT None NEW 0 (Some 100) 7 = Inr sample_order"
  by code_simp

theorem order_lifecycle_witness:
  "order_consistent (sample_order\<lparr>o_status := PARTIALLY_FILLED, filled_quantity := 4\<rparr>)"
proof (rule order_lifecycle, rule order_reachable.stepped)
  show "order_reachable sample_order"
    by (rule order_reachable.created [OF sample_order_new])
  show "order_step sample_order (sample_order\<lparr>o_status := PARTIALLY_FILLED, filled_quantity := 4\<rparr>)"
    by (rule step_fill [where n = 4]) code_simp
qed

inductive_cases order_stepE: "order_step r r'"

text \<open>
  FILLED is final and no fill is ever taken back: a method call keeps the identity and the
  terms of the order, never lowers the filled quantity, and cannot leave FILLED.
\<close>
theorem order_step_monotone:
  assumes "order_reachable r" and "order_step r r'"
  shows "o_status r \<noteq> FILLED \<and> filled_quantity r \<le> filled_quantity r'
    \<and> order_id r' = order_id r \<and> o_account_id r' = o_account_id r \<and> o_symbol r' = o_symbol r
    \<and> o_side r' = o_side r \<and> o_quantity r' = o_quantity r \<and> limit_price r' = limit_price r"
proof -
  have "order_consistent r" using assms(1) by (induction rule: order_reachable.induct)
      (auto intro: order_new_consistent order_step_consistent)
  with assms(2) show ?thesis
    by (auto simp: order_method_defs order_consistent_def elim!: order_stepE split: if_splits)
qed

theorem order_step_monotone_witness:
  "o_status sample_order \<noteq> FILLED \<and> filled_quantity sample_order \<le> 0"
  using order_step_monotone [OF order_reachable.created [OF sample_order_new],
      of "sample_order\<lparr>o_status := CANCELLED\<rparr>"] step_cancel [of sample_order]
  by (simp add: cancel_def sample_order_def)

section \<open>Exception safety\<close>

text \<open>
  When the execution of a market order or the processing of a quote raises, the account and
  the position are exactly as before; of the order at most the status may have become PENDING.
\<close>
theorem broker_exception_safe:
  assumes "execute_market_order quote fresh s = (Inl e, s')
    \<or> process_quote quote fresh s = (Inl e, s')"
  shows "b_account s' = b_account s \<and> b_position s' = b_position s
    \<and> (b_order s' = b_order s \<or> b_order s' = (b_order s)\<lparr>o_status := PENDING\<rparr>)"
  using assms
proof
  assume "execute_market_order quote fresh s = (Inl e, s')"
  then show ?thesis
    by (auto simp: execute_market_order_run dest: fill_order_error
        split: prod.splits sum.splits if_splits)
next
  assume "process_quote quote fresh s = (Inl e, s')"
  then show ?thesis by (auto dest: process_quote_unfilled)
qed

definition sample_state :: broker_state where
  "sample_state =
     \<lparr>b_account = \<lparr>account_id = 1, initial_cash = 500, cash_balance = 500\<rparr>,
      b_order = sample_order\<lparr>o_type := MARKET, limit_price := None\<rparr>,
      b_position = \<lparr>p_symbol = ''AAPL'', p_quantity = 0, average_cost = 0, realized_pnl = 0\<rparr>\<rparr>"

definition sample_quote :: market_quote where
  "sample_quote = \<lparr>q_symbol = ''AAPL'', bid = 99, ask = 100\<rparr>"

lemma sample_insufficient:
  "execute_market_order sample_quote 9 sample_state =
     (Inl (InsufficientBuyingPowerError ''Required cash exceeds buying power.''),
      sample_state\<lparr>b_order := (b_order sample_state)\<lparr>o_status := PENDING\<rparr>\<rparr>)"
  by code_simp

theorem broker_exception_safe_witness:
  "fst (execute_market_order sample_quote 9 sample_state)
     = Inl (InsufficientBuyingPowerError ''Required cash exceeds buying power.'')
   \<and> b_account (snd (execute_market_order sample_quote 9 sample_state)) = b_account sample_state"
  using broker_exception_safe [OF disjI1 [OF sample_insufficient]] sample_insufficient by simp

section \<open>Fills\<close>

text \<open>
  A market order that executes fills completely at the quote: a buy pays \<open>ask * quantity\<close>,
  which the balance covered, and adds the shares to the position; a sale delivers shares that
  were held and is paid \<open>bid * quantity\<close>. The cash balance, the position and the order stay
  well formed, so the balance never becomes negative and no position goes short.
\<close>
theorem market_order_fills:
  assumes "execute_market_order quote fresh s = (Inr ex, s')" and "valid_state s"
  shows "fill_effect quote fresh s ex s' \<and> valid_state s'
    \<and> 0 \<le> cash_balance (b_account s') \<and> 0 \<le> p_quantity (b_position s')
    \<and> o_status (b_order s') = FILLED \<and> ex_quantity ex = remaining_quantity (b_order s)"
proof -
  let ?s = "s\<lparr>b_order := (b_order s)\<lparr>o_status := PENDING\<rparr>\<rparr>"
  have e: "fill_effect quote fresh ?s ex s'"
    using execute_market_order_Inr [OF assms(1)] by blast
  then have "fill_effect quote fresh s ex s'" by simp
  moreover have "valid_state s'"
    using fill_effect_valid [OF e] assms(2) by simp
  ultimately show ?thesis
    by (auto simp: fill_effect_def valid_state_def valid_account_def valid_position_def
        execution_of_def Let_def split: order_side.splits)
qed

definition rich_state :: broker_state where
  "rich_state = sample_state\<lparr>b_account := \<lparr>account_id = 1, initial_cash = 5000, cash_balance = 5000\<rparr>\<rparr>"

lemmas sample_defs = rich_state_def sample_state_def sample_order_def sample_quote_def
  remaining_quantity_def execution_of_def bought_position_def filled_order_def

lemma rich_state_buys:
  "execute_market_order sample_quote 9 rich_state =
     (Inr \<lparr>ex_order_id = 7, ex_symbol = ''AAPL'', ex_side = BUY, ex_quantity = 10, ex_price = 100,
           execution_id = 9\<rparr>,
      \<lparr>b_account = \<lparr>account_id = 1, initial_cash = 5000, cash_balance = 4000\<rparr>,
       b_order = filled_order (b_order rich_state),
       b_position = \<lparr>p_symbol = ''AAPL'', p_quantity = 10, average_cost = 100, realized_pnl = 0\<rparr>\<rparr>)"
  by (simp add: execute_market_order_run validate_common_def bind_run fill_order_run execute_buy_run
      decimal_eval sample_defs)

lemma rich_state_valid: "valid_state rich_state"
  by code_simp

theorem market_order_fills_witness:
  "cash_balance (b_account (snd (execute_market_order sample_quote 9 rich_state))) = 4000
   \<and> o_status (b_order (snd (execute_market_order sample_quote 9 rich_state))) = FILLED"
  using market_order_fills [OF rich_state_buys rich_state_valid] by (simp add: rich_state_buys)

text \<open>
  The limit price protects the order: processing a quote executes only a PENDING limit
  order for the quoted symbol, completely, and at a price no worse than the limit. Whenever it
  does not execute (not triggered, not pending, or an exception), nothing changes at all.
\<close>
theorem limit_price_respected:
  assumes "process_quote quote fresh s = (r, s')"
  shows "(case r of
      Inr (Some ex) \<Rightarrow>
        (\<exists>limit. limit_price (b_order s) = Some limit
           \<and> (case o_side (b_order s) of BUY \<Rightarrow> ex_price ex \<le> limit | SELL \<Rightarrow> limit \<le> ex_price ex))
        \<and> o_status (b_order s) = PENDING \<and> o_symbol (b_order s) = q_symbol quote
        \<and> fill_effect quote fresh s ex s'
    | _ \<Rightarrow> s' = s)"
proof (cases "\<exists>ex. r = Inr (Some ex)")
  case True
  then obtain ex where r: "r = Inr (Some ex)" by blast
  with assms show ?thesis
    by (auto dest!: process_quote_Some simp: limit_is_triggered_def fill_effect_def execution_of_def Let_def
        split: option.splits order_side.splits)
next
  case False
  then have "s' = s" using process_quote_unfilled [OF assms] by blast
  with False show ?thesis by (auto split: sum.splits option.splits)
qed

definition pending_state :: broker_state where
  "pending_state = rich_state\<lparr>b_order := sample_order\<lparr>o_status := PENDING\<rparr>\<rparr>"

lemma pending_state_fills:
  "process_quote sample_quote 9 pending_state =
     (Inr (Some \<lparr>ex_order_id = 7, ex_symbol = ''AAPL'', ex_side = BUY, ex_quantity = 10,
                 ex_price = 100, execution_id = 9\<rparr>),
      \<lparr>b_account = \<lparr>account_id = 1, initial_cash = 5000, cash_balance = 4000\<rparr>,
       b_order = filled_order sample_order,
       b_position = \<lparr>p_symbol = ''AAPL'', p_quantity = 10, average_cost = 100, realized_pnl = 0\<rparr>\<rparr>)"
  by (simp add: process_quote_run bind_run fill_order_run execute_buy_run limit_is_triggered_def
      pending_state_def decimal_eval sample_defs)

theorem limit_price_respected_witness:
  "\<exists>limit. limit_price (b_order pending_state) = Some limit \<and> 100 \<le> limit"
  using limit_price_respected [OF pending_state_fills]
  by (simp add: pending_state_def sample_order_def)

section \<open>Accounting\<close>

text \<open>
  Cash plus the cost of the shares held, less the profit realised: what a fill moves between its
  parts. The operations round to 28 digits; \<open>exact_fill\<close> says that none of those a fill makes
  has to.
\<close>

definition book_value :: "paper_account \<Rightarrow> position \<Rightarrow> rat" where
  "book_value a p = cash_balance a + average_cost p * of_int (p_quantity p) - realized_pnl p"

definition exact_fill :: "order_side \<Rightarrow> decimal \<Rightarrow> int \<Rightarrow> paper_account \<Rightarrow> position \<Rightarrow> bool" where
  "exact_fill side x n a p \<longleftrightarrow>
     (let cost = x * of_int n; held = average_cost p * of_int (p_quantity p) in
      representable cost \<and>
      (case side of
         BUY \<Rightarrow> representable (cash_balance a - cost) \<and> representable held \<and> representable (held + cost)
                \<and> representable ((held + cost) / of_int (p_quantity p + n))
       | SELL \<Rightarrow> representable (cash_balance a + cost) \<and> representable (x - average_cost p)
                \<and> representable ((x - average_cost p) * of_int n)
                \<and> representable (realized_pnl p + (x - average_cost p) * of_int n)))"

definition fill_price :: "order_side \<Rightarrow> market_quote \<Rightarrow> decimal" where
  "fill_price side quote = (case side of BUY \<Rightarrow> ask quote | SELL \<Rightarrow> bid quote)"

lemma fill_effect_book_value:
  assumes e: "fill_effect quote fresh s ex s'" and p: "0 \<le> p_quantity (b_position s)"
    and x: "exact_fill (o_side (b_order s)) (fill_price (o_side (b_order s)) quote)
              (remaining_quantity (b_order s)) (b_account s) (b_position s)"
  shows "book_value (b_account s') (b_position s') = book_value (b_account s) (b_position s)"
proof (cases "o_side (b_order s)")
  case BUY
  let ?n = "remaining_quantity (b_order s)"
  have "0 < ?n" using e by (simp add: fill_effect_def Let_def)
  then have "(of_int (p_quantity (b_position s) + ?n) :: rat) \<noteq> 0"
    using p by (metis add_nonneg_pos of_int_eq_0_iff less_irrefl)
  then show ?thesis using e x BUY
    by (simp add: fill_effect_def exact_fill_def fill_price_def book_value_def bought_position_def
        Let_def dmul_def dsub_def dadd_def ddiv_def representable_def)
next
  case SELL
  let ?n = "remaining_quantity (b_order s)" and ?x = "bid quote" and ?p = "b_position s"
  have "cash_balance (b_account s') = cash_balance (b_account s) + ?x * of_int ?n"
    using e x SELL
    by (simp add: fill_effect_def exact_fill_def fill_price_def Let_def dmul_def dadd_def representable_def)
  moreover have "realized_pnl (b_position s') = realized_pnl ?p + (?x - average_cost ?p) * of_int ?n"
    using e x SELL
    by (simp add: fill_effect_def exact_fill_def fill_price_def Let_def sold_position_def dmul_def
        dsub_def dadd_def representable_def)
  moreover have "average_cost (b_position s') * of_int (p_quantity (b_position s'))
      = average_cost ?p * (of_int (p_quantity ?p) - of_int ?n)"
    using e SELL by (simp add: fill_effect_def Let_def sold_position_def)
  ultimately show ?thesis by (simp add: book_value_def algebra_simps)
qed

text \<open>
  The accounting identity: when no rounding is needed, a fill (market or limit, buy or sell)
  keeps \<open>cash + average cost * quantity - realised profit\<close>. No cash is created or lost: what
  leaves the balance is in the cost of the position, and what a sale brings beyond the cost is
  booked as profit.
\<close>
theorem fill_conserves_book_value:
  assumes "execute_market_order quote fresh s = (Inr ex, s')
      \<or> process_quote quote fresh s = (Inr (Some ex), s')"
    and "0 \<le> p_quantity (b_position s)"
    and "exact_fill (o_side (b_order s)) (fill_price (o_side (b_order s)) quote)
           (remaining_quantity (b_order s)) (b_account s) (b_position s)"
  shows "book_value (b_account s') (b_position s') = book_value (b_account s) (b_position s)"
  using assms(1)
proof
  assume "execute_market_order quote fresh s = (Inr ex, s')"
  from execute_market_order_Inr [OF this] show ?thesis
    using fill_effect_book_value
      [of quote fresh "s\<lparr>b_order := (b_order s)\<lparr>o_status := PENDING\<rparr>\<rparr>" ex s'] assms(2,3)
    by simp
next
  assume "process_quote quote fresh s = (Inr (Some ex), s')"
  then show ?thesis
    using process_quote_Some fill_effect_book_value assms(2,3) by blast
qed

theorem fill_conserves_book_value_witness:
  "book_value (b_account (snd (execute_market_order sample_quote 9 rich_state)))
              (b_position (snd (execute_market_order sample_quote 9 rich_state))) = 5000"
proof -
  have "exact_fill (o_side (b_order rich_state)) (fill_price (o_side (b_order rich_state)) sample_quote)
     (remaining_quantity (b_order rich_state)) (b_account rich_state) (b_position rich_state)"
    by (simp add: exact_fill_def fill_price_def sample_defs micros_representable micros_def)
  then have "book_value (b_account (snd (execute_market_order sample_quote 9 rich_state)))
       (b_position (snd (execute_market_order sample_quote 9 rich_state)))
     = book_value (b_account rich_state) (b_position rich_state)"
    using fill_conserves_book_value [OF disjI1 [OF rich_state_buys]]
    by (simp add: rich_state_buys) (simp add: rich_state_def sample_state_def)
  then show ?thesis by (simp add: book_value_def rich_state_def sample_state_def)
qed

lemma weighted_average_bounds:
  fixes a x :: rat and q n :: int
  assumes "0 \<le> q" and "0 < n"
  shows "min a x \<le> (a * of_int q + x * of_int n) / of_int (q + n)"
    and "(a * of_int q + x * of_int n) / of_int (q + n) \<le> max a x"
proof -
  have pos: "(0::rat) < of_int (q + n)" using assms by (simp only: of_int_0_less_iff add_nonneg_pos)
  have "min a x * of_int q \<le> a * of_int q" and "min a x * of_int n \<le> x * of_int n"
    using assms by (auto intro!: mult_right_mono)
  then have "min a x * of_int (q + n) \<le> a * of_int q + x * of_int n"
    by (simp add: distrib_left)
  with pos show "min a x \<le> (a * of_int q + x * of_int n) / of_int (q + n)"
    by (simp only: pos_le_divide_eq)
  have "a * of_int q \<le> max a x * of_int q" and "x * of_int n \<le> max a x * of_int n"
    using assms by (auto intro!: mult_right_mono)
  then have "a * of_int q + x * of_int n \<le> max a x * of_int (q + n)"
    by (simp add: distrib_left)
  with pos show "(a * of_int q + x * of_int n) / of_int (q + n) \<le> max a x"
    by (simp only: pos_divide_le_eq)
qed

text \<open>
  The average cost is an average: after buying it lies between the old average cost and the
  price paid (it is the price paid when nothing was held), even though the division is rounded;
  only the amounts themselves must be representable.
\<close>
theorem average_cost_between:
  assumes "position_buy n x p = Inr p'" and "valid_position p"
    and "representable x" and "representable (average_cost p)"
    and "representable (average_cost p * of_int (p_quantity p))" and "representable (x * of_int n)"
    and "representable (average_cost p * of_int (p_quantity p) + x * of_int n)"
  shows "min (average_cost p) x \<le> average_cost p' \<and> average_cost p' \<le> max (average_cost p) x
    \<and> (p_quantity p = 0 \<longrightarrow> average_cost p' = x) \<and> p_quantity p' = p_quantity p + n"
proof -
  let ?avg = "(average_cost p * of_int (p_quantity p) + x * of_int n) / of_int (p_quantity p + n)"
  have n: "0 < n" and q: "0 \<le> p_quantity p"
    using assms(1,2) by (auto simp: position_buy_def valid_position_def split: if_splits)
  have p': "average_cost p' = dround ?avg" "p_quantity p' = p_quantity p + n"
    using assms by (auto simp: position_buy_def Let_def representable_def dmul_def dadd_def ddiv_def
        split: if_splits)
  have "min (average_cost p) x \<le> dround ?avg"
    using assms(3,4) weighted_average_bounds(1) [OF q n]
    by (intro representable_le) (simp_all add: min_def)
  moreover have "dround ?avg \<le> max (average_cost p) x"
    using assms(3,4) weighted_average_bounds(2) [OF q n]
    by (intro representable_ge) (simp_all add: max_def)
  moreover have "p_quantity p = 0 \<longrightarrow> ?avg = x" using n by simp
  ultimately show ?thesis using p' assms(3) by (auto simp: representable_def)
qed

theorem average_cost_between_witness:
  "\<exists>p'. position_buy 5 100 \<lparr>p_symbol = ''AAPL'', p_quantity = 10, average_cost = 91, realized_pnl = 0\<rparr>
      = Inr p' \<and> 91 \<le> average_cost p' \<and> average_cost p' \<le> 100"
proof -
  let ?p = "\<lparr>p_symbol = ''AAPL'', p_quantity = 10, average_cost = 91, realized_pnl = 0\<rparr>"
  let ?p' = "?p\<lparr>average_cost := 94, p_quantity := 15\<rparr>"
  have b: "position_buy 5 100 ?p = Inr ?p'"
    by (simp add: position_buy_def Let_def decimal_eval)
  have v: "valid_position ?p" by code_simp
  show ?thesis
    using average_cost_between [OF b v] b by (simp add: micros_representable micros_def)
qed

end
