(* ===== verification/Event_Envelope.thy ===== *)
theory Event_Envelope
  imports Prelude
begin

text \<open>
  The event envelope of \<open>libs/events/envelope.py\<close>: construction with its validators, and the
  dictionary it is dumped to and parsed from. The payload is a parameter type. JSON text and the
  pydantic library are outside the repository; a dumped dictionary is a list of fields whose
  values are the JSON values that stand for a UUID, a timestamp and so on.
\<close>

type_synonym dict = "(string \<times> string) list"

record 'p envelope =
  event_id :: uuid
  event_type :: string
  schema_version :: int
  occurred_at :: int
  source :: string
  correlation_id :: uuid
  causation_id :: "uuid option"
  trace_context :: "dict option"
  payload :: 'p

section \<open>Validation\<close>

text \<open>\<open>str_strip_whitespace\<close> strips the White_Space characters (9 to 13 and 32 in ASCII).\<close>

definition is_white :: "char \<Rightarrow> bool" where
  "is_white c = (let n = of_char c :: nat in (9 \<le> n \<and> n \<le> 13) \<or> n = 32)"

definition trim :: "string \<Rightarrow> string" where
  "trim s = rev (dropWhile is_white (rev (dropWhile is_white s)))"

definition dict_trim :: "dict \<Rightarrow> dict" where
  "dict_trim d = fold (\<lambda>(k, v). dict_put (trim k) (trim v)) d []"

fun has_empty_segment :: "string \<Rightarrow> bool" where
  "has_empty_segment (c # c' # s) = (c = CHR ''.'' \<and> c' = CHR ''.'' \<or> has_empty_segment (c' # s))"
| "has_empty_segment _ = False"

definition event_type_char :: "char \<Rightarrow> bool" where
  "event_type_char c \<longleftrightarrow> c \<in> set ''abcdefghijklmnopqrstuvwxyz0123456789.-_''"

definition validate_event_type :: "string \<Rightarrow> string result" where
  "validate_event_type value =
     (let event_type = lower (strip value) in
      if event_type \<noteq> [] \<and> hd event_type = CHR ''.'' then Inl ValidationError
      else if event_type \<noteq> [] \<and> last event_type = CHR ''.'' then Inl ValidationError
      else if has_empty_segment event_type then Inl ValidationError
      else if \<exists>c \<in> set event_type. \<not> event_type_char c then Inl ValidationError
      else Inr event_type)"

definition validate_source :: "string \<Rightarrow> string result" where
  "validate_source value =
     (let source = lower (strip value) in if source = [] then Inl ValidationError else Inr source)"

definition validate_occurred_at :: "datetime \<Rightarrow> int result" where
  "validate_occurred_at value = (case value of Naive _ \<Rightarrow> Inl ValidationError | Aware i \<Rightarrow> Inr i)"

definition length_between :: "nat \<Rightarrow> nat \<Rightarrow> string \<Rightarrow> bool" where
  "length_between lo hi s \<longleftrightarrow> lo \<le> length s \<and> length s \<le> hi"

text \<open>The constructor with every field given; every violation is a \<open>ValidationError\<close>.\<close>

definition envelope_new ::
  "uuid \<Rightarrow> string \<Rightarrow> int \<Rightarrow> datetime \<Rightarrow> string \<Rightarrow> uuid \<Rightarrow> uuid option \<Rightarrow> dict option \<Rightarrow> 'p
   \<Rightarrow> 'p envelope result" where
  "envelope_new eid etype version occurred src correlation causation trace p =
     (if \<not> length_between 3 128 (trim etype) \<or> version < 1 \<or> \<not> length_between 1 128 (trim src)
      then Inl ValidationError
      else case validate_event_type (trim etype) of
        Inl e \<Rightarrow> Inl e
      | Inr etype' \<Rightarrow> (case validate_occurred_at occurred of
          Inl e \<Rightarrow> Inl e
        | Inr occurred' \<Rightarrow> (case validate_source (trim src) of
            Inl e \<Rightarrow> Inl e
          | Inr src' \<Rightarrow> Inr \<lparr>event_id = eid, event_type = etype', schema_version = version,
              occurred_at = occurred', source = src', correlation_id = correlation,
              causation_id = causation, trace_context = map_option dict_trim trace, payload = p\<rparr>)))"

section \<open>Dumping and parsing\<close>

datatype 'p json = JText string | JInt int | JUuid uuid | JTime datetime | JDict dict | JPayload 'p | JNull

definition json_option :: "('a \<Rightarrow> 'p json) \<Rightarrow> 'a option \<Rightarrow> 'p json" where
  "json_option f x = (case x of None \<Rightarrow> JNull | Some a \<Rightarrow> f a)"

definition to_event_dict :: "'p envelope \<Rightarrow> (string \<times> 'p json) list" where
  "to_event_dict e =
     [(''event_id'', JUuid (event_id e)), (''event_type'', JText (event_type e)),
      (''schema_version'', JInt (schema_version e)), (''occurred_at'', JTime (Aware (occurred_at e))),
      (''source'', JText (source e)), (''correlation_id'', JUuid (correlation_id e)),
      (''causation_id'', json_option JUuid (causation_id e))]
     @ (case trace_context e of None \<Rightarrow> [] | Some d \<Rightarrow> [(''trace_context'', JDict d)])
     @ [(''payload'', JPayload (payload e))]"

definition field_or :: "'a result \<Rightarrow> ('p json \<Rightarrow> 'a result) \<Rightarrow> (string \<times> 'p json) list \<Rightarrow> string \<Rightarrow> 'a result" where
  "field_or missing decode fs k = (case map_of fs k of None \<Rightarrow> missing | Some v \<Rightarrow> decode v)"

fun as_uuid :: "'p json \<Rightarrow> uuid result" where
  "as_uuid (JUuid i) = Inr i" | "as_uuid _ = Inl ValidationError"
fun as_text :: "'p json \<Rightarrow> string result" where
  "as_text (JText s) = Inr s" | "as_text _ = Inl ValidationError"
fun as_int :: "'p json \<Rightarrow> int result" where
  "as_int (JInt n) = Inr n" | "as_int _ = Inl ValidationError"
fun as_time :: "'p json \<Rightarrow> datetime result" where
  "as_time (JTime t) = Inr t" | "as_time _ = Inl ValidationError"
fun as_payload :: "'p json \<Rightarrow> 'p result" where
  "as_payload (JPayload p) = Inr p" | "as_payload _ = Inl ValidationError"
fun as_uuid_option :: "'p json \<Rightarrow> uuid option result" where
  "as_uuid_option JNull = Inr None" | "as_uuid_option (JUuid i) = Inr (Some i)"
| "as_uuid_option _ = Inl ValidationError"
fun as_dict_option :: "'p json \<Rightarrow> dict option result" where
  "as_dict_option JNull = Inr None" | "as_dict_option (JDict d) = Inr (Some d)"
| "as_dict_option _ = Inl ValidationError"

definition envelope_keys :: "string list" where
  "envelope_keys = [''event_id'', ''event_type'', ''schema_version'', ''occurred_at'', ''source'',
     ''correlation_id'', ''causation_id'', ''trace_context'', ''payload'']"

text \<open>\<open>model_validate\<close>: defaults for missing fields, no unknown ones.\<close>

definition envelope_validate ::
  "uuid \<Rightarrow> uuid \<Rightarrow> int \<Rightarrow> (string \<times> 'p json) list \<Rightarrow> 'p envelope result" where
  "envelope_validate fresh_event fresh_correlation now fs =
     (if \<exists>k \<in> set (map fst fs). k \<notin> set envelope_keys then Inl ValidationError
      else case (field_or (Inr fresh_event) as_uuid fs ''event_id'',
                 field_or (Inl ValidationError) as_text fs ''event_type'',
                 field_or (Inr 1) as_int fs ''schema_version'',
                 field_or (Inr (Aware now)) as_time fs ''occurred_at'',
                 field_or (Inl ValidationError) as_text fs ''source'',
                 field_or (Inr fresh_correlation) as_uuid fs ''correlation_id'',
                 field_or (Inr None) as_uuid_option fs ''causation_id'',
                 field_or (Inr None) as_dict_option fs ''trace_context'',
                 field_or (Inl ValidationError) as_payload fs ''payload'') of
        (Inr i, Inr t, Inr n, Inr o', Inr s, Inr c, Inr c', Inr d, Inr p) \<Rightarrow> envelope_new i t n o' s c c' d p
      | _ \<Rightarrow> Inl ValidationError)"

section \<open>Valid envelopes\<close>

definition valid_envelope :: "'p envelope \<Rightarrow> bool" where
  "valid_envelope e \<longleftrightarrow> envelope_new (event_id e) (event_type e) (schema_version e) (Aware (occurred_at e))
     (source e) (correlation_id e) (causation_id e) (trace_context e) (payload e) = Inr e"

lemma is_space_lower_char [simp]: "is_space (lower_char c) = is_space c"
  by (auto simp: is_space_def lower_char_def Let_def)

lemma lower_char_idem [simp]: "lower_char (lower_char c) = lower_char c"
  by (auto simp: lower_char_def Let_def)

lemma lower_idem [simp]: "lower (lower s) = lower s"
  by (simp add: lower_def)

lemma strip_lower: "strip (lower s) = lower (strip s)"
  by (simp add: strip_def lower_def dropWhile_map rev_map comp_def)

lemma length_lower [simp]: "length (lower s) = length s"
  by (simp add: lower_def)

lemma set_strip: "set (strip s) \<subseteq> set s"
  by (auto simp: strip_def dest!: set_dropWhileD)

lemma is_white_space: "is_white c \<Longrightarrow> is_space c"
  by (auto simp: is_white_def is_space_def Let_def)

text \<open>On texts without the separators 28 to 31, both notions of blank agree.\<close>

definition plain :: "string \<Rightarrow> bool" where
  "plain s \<longleftrightarrow> (\<forall>c \<in> set s. is_space c \<longrightarrow> is_white c)"

lemma dropWhile_white: "plain s \<Longrightarrow> dropWhile is_white s = dropWhile is_space s"
  by (rule dropWhile_cong) (auto simp: plain_def is_white_space)

lemma plain_mono: "set t \<subseteq> set s \<Longrightarrow> plain s \<Longrightarrow> plain t"
  by (auto simp: plain_def)

lemma trim_plain: "plain s \<Longrightarrow> trim s = strip s"
proof -
  assume p: "plain s"
  have "plain (rev (dropWhile is_space s))"
    by (rule plain_mono [OF _ p]) (auto dest: set_dropWhileD)
  then show ?thesis by (simp add: trim_def strip_def dropWhile_white [OF p] dropWhile_white)
qed

lemma plain_lower: "plain s \<Longrightarrow> plain (lower s)"
  by (auto simp: plain_def lower_def is_white_def is_space_def lower_char_def Let_def)

lemma trim_lower_strip: "plain s \<Longrightarrow> trim (lower (strip s)) = lower (strip s)"
  by (metis plain_lower plain_mono set_strip strip_idem strip_lower trim_plain)

lemma trim_idem [simp]: "trim (trim s) = trim s"
proof -
  let ?t = "dropWhile is_white s"
  have t: "?t = [] \<or> \<not> is_white (hd ?t)"
    by (cases ?t) (auto dest: dropWhile_head)
  have "dropWhile is_white (trim s) = trim s"
    unfolding trim_def by (rule dropWhile_fix) (use hd_dropWhile_rev [of ?t is_white] t in blast)
  moreover have "dropWhile is_white (rev (trim s)) = rev (trim s)"
    by (simp add: trim_def dropWhile_idem)
  ultimately show ?thesis
    unfolding trim_def [of "trim s"] by simp
qed

definition trimmed :: "dict \<Rightarrow> bool" where
  "trimmed d \<longleftrightarrow> distinct (map fst d) \<and> (\<forall>(k, v) \<in> set d. trim k = k \<and> trim v = v)"

lemma trimmed_fold:
  "trimmed acc \<Longrightarrow> trimmed (fold (\<lambda>(k, v). dict_put (trim k) (trim v)) d acc)"
proof (induction d arbitrary: acc)
  case (Cons kv d)
  have "trimmed (dict_put (trim (fst kv)) (trim (snd kv)) acc)"
    using Cons.prems dict_put_set [of "trim (fst kv)" "trim (snd kv)" acc]
    by (fastforce simp: trimmed_def dict_put_distinct)
  then show ?case using Cons.IH by (simp add: case_prod_unfold)
qed simp

lemma trimmed_fix:
  "trimmed (acc @ d) \<Longrightarrow> fold (\<lambda>(k, v). dict_put (trim k) (trim v)) d acc = acc @ d"
proof (induction d arbitrary: acc)
  case (Cons kv d)
  obtain k v where kv: "kv = (k, v)" by fastforce
  have "dict_put k v acc = acc @ [(k, v)]"
    by (rule dict_put_new) (use Cons.prems in \<open>auto simp: trimmed_def kv\<close>)
  moreover have "trim k = k" "trim v = v" using Cons.prems by (auto simp: trimmed_def kv)
  ultimately show ?case using Cons.IH [of "acc @ [(k, v)]"] Cons.prems by (simp add: kv)
qed simp

lemma dict_trim_idem [simp]: "dict_trim (dict_trim d) = dict_trim d"
  using trimmed_fix [of "[]" "dict_trim d"] trimmed_fold [of "[]" d]
  by (simp add: dict_trim_def trimmed_def)

lemma validate_event_type_idem:
  assumes "validate_event_type t = Inr t'"
  shows "validate_event_type t' = Inr t' \<and> t' = lower (strip t)"
proof -
  have t': "t' = lower (strip t)"
    using assms unfolding validate_event_type_def Let_def by (simp split: if_splits)
  then have "lower (strip t') = lower (strip t)" by (simp add: strip_lower)
  then have "validate_event_type t' = validate_event_type t"
    by (simp only: validate_event_type_def)
  then show ?thesis using t' assms by simp
qed

lemma validate_source_idem:
  assumes "validate_source t = Inr t'"
  shows "validate_source t' = Inr t' \<and> t' = lower (strip t)"
proof -
  have t': "t' = lower (strip t)"
    using assms unfolding validate_source_def Let_def by (simp split: if_splits)
  then have "lower (strip t') = lower (strip t)" by (simp add: strip_lower)
  then have "validate_source t' = validate_source t"
    by (simp only: validate_source_def)
  then show ?thesis using t' assms by simp
qed

text \<open>Every envelope that is constructed from plain texts can be constructed again from its fields.\<close>

lemma envelope_new_valid:
  assumes "envelope_new i t n o' s c c' d p = Inr e" and "plain t" and "plain s"
  shows "valid_envelope e"
proof -
  have t: "trim t = strip t" and s: "trim s = strip s"
    using assms(2,3) by (simp_all add: trim_plain)
  from assms(1) obtain t' o'' s' where n: "length_between 3 128 (strip t)" "1 \<le> n" "length_between 1 128 (strip s)"
    and t': "validate_event_type (strip t) = Inr t'" and o: "validate_occurred_at o' = Inr o''"
    and s': "validate_source (strip s) = Inr s'"
    and e: "e = \<lparr>event_id = i, event_type = t', schema_version = n, occurred_at = o'', source = s',
      correlation_id = c, causation_id = c', trace_context = map_option dict_trim d, payload = p\<rparr>"
    by (auto simp: envelope_new_def t s not_less split: if_splits sum.splits)
  note t'' = validate_event_type_idem [OF t'] and s'' = validate_source_idem [OF s']
  have "trim t' = t'" "trim s' = s'" "length t' = length (strip t)" "length s' = length (strip s)"
    using t'' s'' trim_lower_strip assms(2,3) by (simp_all add: strip_lower)
  moreover have "validate_occurred_at (Aware o'') = Inr o''"
    by (simp add: validate_occurred_at_def)
  moreover have "map_option dict_trim (map_option dict_trim d) = map_option dict_trim d"
    by (cases d) simp_all
  moreover have "validate_event_type t' = Inr t'" "validate_source s' = Inr s'"
    using t'' s'' by blast+
  ultimately show ?thesis
    using n by (simp add: valid_envelope_def e envelope_new_def length_between_def)
qed

lemma envelope_validate_dump:
  assumes "valid_envelope e"
  shows "envelope_validate i c now (to_event_dict e) = Inr e"
proof -
  have "\<forall>k \<in> set (map fst (to_event_dict e)). k \<in> set envelope_keys"
    by (auto simp: to_event_dict_def envelope_keys_def split: option.splits)
  then show ?thesis
    using assms
    by (auto simp: envelope_validate_def to_event_dict_def field_or_def json_option_def valid_envelope_def
        split: option.splits)
qed

text \<open>
  C40. Construction normalises an event, once and for all: from texts without the separator characters 28 to 31 (which the library and
  \<open>str.strip\<close> treat differently), an envelope that is constructed has the type and the source trimmed and in lower case, the type
  of 3 to 128 characters of its alphabet in segments that are not empty, a version of at least 1, the instant of a time with a zone, the
  keys and values of the trace context trimmed, and everything else as given. Constructed from its own fields it is the same again,
  and so it is when dumped to a dictionary and validated, whatever the defaults for missing fields.
\<close>
theorem envelope_roundtrip:
  assumes "envelope_new i t n occurred s c c' d p = Inr e" and "plain t" and "plain s"
  shows "event_type e = lower (strip t) \<and> source e = lower (strip s) \<and> occurred = Aware (occurred_at e)
    \<and> event_id e = i \<and> schema_version e = n \<and> correlation_id e = c \<and> causation_id e = c' \<and> payload e = p
    \<and> trace_context e = map_option dict_trim d
    \<and> 1 \<le> n \<and> 3 \<le> length (event_type e) \<and> length (event_type e) \<le> 128 \<and> source e \<noteq> [] \<and> length (source e) \<le> 128
    \<and> (\<forall>x \<in> set (event_type e). event_type_char x) \<and> hd (event_type e) \<noteq> CHR ''.'' \<and> last (event_type e) \<noteq> CHR ''.''
    \<and> \<not> has_empty_segment (event_type e)
    \<and> envelope_new (event_id e) (event_type e) (schema_version e) (Aware (occurred_at e)) (source e) (correlation_id e)
        (causation_id e) (trace_context e) (payload e) = Inr e
    \<and> envelope_validate i' c'' now (to_event_dict e) = Inr e"
proof -
  have valid: "valid_envelope e" by (rule envelope_new_valid [OF assms])
  have len: "length (lower x) = length x" for x by (simp add: lower_def)
  note fields = assms(1) [unfolded envelope_new_def trim_plain [OF assms(2)] trim_plain [OF assms(3)] length_between_def
      validate_event_type_def validate_source_def validate_occurred_at_def Let_def]
  have three: "3 \<le> length (lower (strip t))" "length (lower (strip s)) \<le> 128" using fields by (simp_all add: len split: if_splits)
  then have "lower (strip t) \<noteq> []" by (metis le_zero_eq list.size(3) zero_neq_numeral)
  then show ?thesis
    using fields three valid envelope_validate_dump [OF valid, of i' c'' now] unfolding valid_envelope_def
    by (intro conjI; (assumption | auto simp: len split: if_splits datetime.splits))
qed

definition sample_envelope :: "nat envelope" where
  "sample_envelope = \<lparr>event_id = 5, event_type = ''portfolio.created'', schema_version = 1, occurred_at = 7,
     source = ''portfolio-api'', correlation_id = 6, causation_id = None,
     trace_context = Some [(''traceparent'', ''00'')], payload = 42\<rparr>"

lemma sample_envelope_new:
  "envelope_new 5 '' Portfolio.Created '' 1 (Aware 7) ''Portfolio-API'' 6 None
     (Some [(''traceparent '', ''00'')]) 42 = Inr sample_envelope"
  by code_simp

theorem envelope_roundtrip_witness:
  "event_type sample_envelope = lower (strip '' Portfolio.Created '') \<and> source sample_envelope = ''portfolio-api''
   \<and> envelope_validate 1 2 3 (to_event_dict sample_envelope) = Inr sample_envelope"
proof -
  have p: "plain '' Portfolio.Created ''" "plain ''Portfolio-API''" and s: "lower (strip ''Portfolio-API'') = ''portfolio-api''" by code_simp+
  show ?thesis
    using envelope_roundtrip [OF sample_envelope_new p, of 1 2 3] unfolding s by (elim conjE) (intro conjI; assumption)
qed

end
