(* ===== verification/Outbox_Store.thy ===== *)
theory Outbox_Store
  imports Event_Envelope
begin

text \<open>
  The transactional outbox: the row of \<open>libs/database/models/outbox.py\<close> and the repository of
  \<open>libs/database/repositories/outbox.py\<close>. A method maps the rows of the session to its result
  and the rows changed. Which rows other transactions have locked (\<open>SKIP LOCKED\<close>), the clock and
  the fresh identifier are arguments. The payload is a parameter type.
\<close>

section \<open>Rows\<close>

record 'p outbox_row =
  ob_id :: uuid
  ob_event_id :: uuid
  ob_aggregate_type :: string
  ob_aggregate_id :: string
  ob_event_type :: string
  ob_schema_version :: int
  ob_source :: string
  ob_correlation_id :: uuid
  ob_causation_id :: "uuid option"
  ob_trace_context :: "dict option"
  ob_payload :: 'p
  ob_occurred_at :: int
  ob_created_at :: int
  ob_published_at :: "int option"
  ob_attempt_count :: int
  ob_next_attempt_at :: int
  ob_last_error :: "string option"
  ob_locked_until :: "int option"
  ob_locked_by :: "string option"

record 'p claimed_event =
  cl_id :: uuid
  cl_event_id :: uuid
  cl_aggregate_type :: string
  cl_aggregate_id :: string
  cl_event_type :: string
  cl_schema_version :: int
  cl_source :: string
  cl_correlation_id :: uuid
  cl_causation_id :: "uuid option"
  cl_trace_context :: "dict option"
  cl_payload :: 'p
  cl_occurred_at :: int
  cl_attempt_count :: int
  cl_published_at :: "int option"
  cl_locked_by :: "string option"
  cl_locked_until :: "int option"

record backlog_snapshot =
  pending_count :: nat
  oldest_pending_at :: "int option"

text \<open>The column lengths, 32-bit integers and unique keys, which a flush checks.\<close>

definition outbox_row_fits :: "'p outbox_row \<Rightarrow> bool" where
  "outbox_row_fits m \<longleftrightarrow> length (ob_aggregate_type m) \<le> 64 \<and> length (ob_aggregate_id m) \<le> 128
     \<and> length (ob_event_type m) \<le> 128 \<and> length (ob_source m) \<le> 128
     \<and> - (2 ^ 31) \<le> ob_schema_version m \<and> ob_schema_version m < 2 ^ 31 \<and> ob_attempt_count m < 2 ^ 31
     \<and> (case ob_locked_by m of None \<Rightarrow> True | Some w \<Rightarrow> length w \<le> 128)"

definition outbox_keys_unique :: "'p outbox_row list \<Rightarrow> bool" where
  "outbox_keys_unique rows \<longleftrightarrow> distinct (map ob_id rows) \<and> distinct (map ob_event_id rows)"

definition outbox_flush :: "'p outbox_row list \<Rightarrow> 'p outbox_row list result" where
  "outbox_flush rows =
     (if \<not> list_all outbox_row_fits rows then Inl (ExternalError ''DataError'')
      else if \<not> outbox_keys_unique rows then Inl (IntegrityError ''duplicate key'')
      else Inr rows)"

section \<open>The repository\<close>

definition resolve_utc :: "int \<Rightarrow> datetime option \<Rightarrow> int result" where
  "resolve_utc clock value =
     (case value of
        None \<Rightarrow> Inr clock
      | Some (Naive _) \<Rightarrow> Inl (ValueError ''datetime must be timezone-aware'')
      | Some (Aware i) \<Rightarrow> Inr i)"

definition outbox_row_of :: "uuid \<Rightarrow> int \<Rightarrow> string \<Rightarrow> string \<Rightarrow> 'p envelope \<Rightarrow> 'p outbox_row" where
  "outbox_row_of fresh clock atype aid e =
     \<lparr>ob_id = fresh, ob_event_id = event_id e, ob_aggregate_type = atype, ob_aggregate_id = aid,
      ob_event_type = event_type e, ob_schema_version = schema_version e, ob_source = source e,
      ob_correlation_id = correlation_id e, ob_causation_id = causation_id e,
      ob_trace_context = trace_context e, ob_payload = payload e, ob_occurred_at = occurred_at e,
      ob_created_at = clock, ob_published_at = None, ob_attempt_count = 0,
      ob_next_attempt_at = occurred_at e, ob_last_error = None, ob_locked_until = None, ob_locked_by = None\<rparr>"

definition add_event ::
  "uuid \<Rightarrow> int \<Rightarrow> string \<Rightarrow> string \<Rightarrow> 'p envelope \<Rightarrow> 'p outbox_row list \<Rightarrow> 'p outbox_row list result" where
  "add_event fresh clock aggregate_type aggregate_id event rows =
     (let atype = strip aggregate_type; aid = strip aggregate_id in
      if atype = [] then Inl (ValueError ''aggregate_type must not be empty'')
      else if aid = [] then Inl (ValueError ''aggregate_id must not be empty'')
      else outbox_flush (rows @ [outbox_row_of fresh clock atype aid event]))"

definition get_backlog_snapshot :: "'p outbox_row list \<Rightarrow> backlog_snapshot" where
  "get_backlog_snapshot rows =
     (let pending = filter (\<lambda>m. ob_published_at m = None) rows in
      \<lparr>pending_count = length pending,
       oldest_pending_at = (if pending = [] then None else Some (Min (set (map ob_created_at pending))))\<rparr>)"

definition claimable :: "int \<Rightarrow> 'p outbox_row \<Rightarrow> bool" where
  "claimable now m \<longleftrightarrow> ob_published_at m = None \<and> ob_next_attempt_at m \<le> now
     \<and> (case ob_locked_until m of None \<Rightarrow> True | Some t \<Rightarrow> t \<le> now)"

definition oldest_first :: "'p outbox_row \<Rightarrow> 'p outbox_row \<Rightarrow> bool" where
  "oldest_first x y \<longleftrightarrow> ob_occurred_at x < ob_occurred_at y
     \<or> ob_occurred_at x = ob_occurred_at y \<and> ob_id x \<le> ob_id y"

text \<open>\<open>SKIP LOCKED\<close> passes over the rows other transactions have locked before \<open>LIMIT\<close> counts.\<close>

definition claim_batch :: "(uuid \<Rightarrow> bool) \<Rightarrow> int \<Rightarrow> int \<Rightarrow> 'p outbox_row list \<Rightarrow> 'p outbox_row list" where
  "claim_batch locked now batch_size rows =
     take (nat batch_size) (filter (\<lambda>m. \<not> locked (ob_id m)) (order_rows oldest_first (filter (claimable now) rows)))"

definition to_claimed_event :: "'p outbox_row \<Rightarrow> 'p claimed_event" where
  "to_claimed_event m =
     \<lparr>cl_id = ob_id m, cl_event_id = ob_event_id m, cl_aggregate_type = ob_aggregate_type m,
      cl_aggregate_id = ob_aggregate_id m, cl_event_type = ob_event_type m,
      cl_schema_version = ob_schema_version m, cl_source = ob_source m,
      cl_correlation_id = ob_correlation_id m, cl_causation_id = ob_causation_id m,
      cl_trace_context = ob_trace_context m, cl_payload = ob_payload m, cl_occurred_at = ob_occurred_at m,
      cl_attempt_count = ob_attempt_count m, cl_published_at = ob_published_at m,
      cl_locked_by = ob_locked_by m, cl_locked_until = ob_locked_until m\<rparr>"

definition lock_row :: "string \<Rightarrow> int \<Rightarrow> 'p outbox_row \<Rightarrow> 'p outbox_row" where
  "lock_row worker until m = m\<lparr>ob_locked_by := Some worker, ob_locked_until := Some until\<rparr>"

definition claim_pending ::
  "(uuid \<Rightarrow> bool) \<Rightarrow> int \<Rightarrow> string \<Rightarrow> int \<Rightarrow> int \<Rightarrow> datetime option \<Rightarrow> 'p outbox_row list
   \<Rightarrow> ('p claimed_event list \<times> 'p outbox_row list) result" where
  "claim_pending locked clock worker_id batch_size lease_seconds now rows =
     (let worker = strip worker_id in
      if worker = [] then Inl (ValueError ''worker_id must not be empty'')
      else if batch_size < 1 then Inl (ValueError ''batch_size must be greater than zero'')
      else if lease_seconds < 1 then Inl (ValueError ''lease_seconds must be greater than zero'')
      else case resolve_utc clock now of
        Inl e \<Rightarrow> Inl e
      | Inr claimed_at \<Rightarrow>
          let until = claimed_at + seconds lease_seconds;
              models = claim_batch locked claimed_at batch_size rows;
              rows' = update_where (\<lambda>m. ob_id m \<in> set (map ob_id models)) (lock_row worker until) rows
          in (case outbox_flush rows' of
                Inl e \<Rightarrow> Inl e
              | Inr rows'' \<Rightarrow> Inr (map (to_claimed_event \<circ> lock_row worker until) models, rows'')))"

definition get_claimed_model :: "uuid \<Rightarrow> string \<Rightarrow> 'p outbox_row list \<Rightarrow> 'p outbox_row option" where
  "get_claimed_model eid worker rows =
     first_where (\<lambda>m. ob_event_id m = eid \<and> ob_locked_by m = Some worker \<and> ob_published_at m = None) rows"

definition mark_published ::
  "int \<Rightarrow> uuid \<Rightarrow> string \<Rightarrow> datetime option \<Rightarrow> 'p outbox_row list \<Rightarrow> (bool \<times> 'p outbox_row list) result" where
  "mark_published clock eid worker_id published_at rows =
     (let worker = strip worker_id in
      if worker = [] then Inl (ValueError ''worker_id must not be empty'')
      else case get_claimed_model eid worker rows of
        None \<Rightarrow> Inr (False, rows)
      | Some model \<Rightarrow> (case resolve_utc clock published_at of
          Inl e \<Rightarrow> Inl e
        | Inr at \<Rightarrow>
            (case outbox_flush (update_where (\<lambda>m. ob_id m = ob_id model)
                (\<lambda>m. m\<lparr>ob_published_at := Some at, ob_locked_by := None, ob_locked_until := None,
                       ob_last_error := None\<rparr>) rows) of
               Inl e \<Rightarrow> Inl e
             | Inr rows' \<Rightarrow> Inr (True, rows'))))"

definition mark_failed ::
  "int \<Rightarrow> uuid \<Rightarrow> string \<Rightarrow> string \<Rightarrow> datetime \<Rightarrow> 'p outbox_row list \<Rightarrow> (bool \<times> 'p outbox_row list) result" where
  "mark_failed clock eid worker_id error next_attempt_at rows =
     (let worker = strip worker_id in
      if worker = [] then Inl (ValueError ''worker_id must not be empty'')
      else case get_claimed_model eid worker rows of
        None \<Rightarrow> Inr (False, rows)
      | Some model \<Rightarrow> (case resolve_utc clock (Some next_attempt_at) of
          Inl e \<Rightarrow> Inl e
        | Inr next \<Rightarrow>
            let normalized_error = strip error in
            (case outbox_flush (update_where (\<lambda>m. ob_id m = ob_id model)
                (\<lambda>m. m\<lparr>ob_attempt_count := ob_attempt_count m + 1,
                       ob_last_error := Some (if normalized_error = [] then ''unknown publish failure''
                                              else normalized_error),
                       ob_next_attempt_at := next, ob_locked_by := None, ob_locked_until := None\<rparr>) rows) of
               Inl e \<Rightarrow> Inl e
             | Inr rows' \<Rightarrow> Inr (True, rows'))))"

section \<open>Which rows a claim takes\<close>

lemma oldest_first_order:
  "oldest_first x y \<Longrightarrow> oldest_first y z \<Longrightarrow> oldest_first x z" "oldest_first x y \<or> oldest_first y x"
  by (auto simp: oldest_first_def)

lemma sorted_oldest_first: "sorted_wrt oldest_first (order_rows oldest_first rows)"
  by (rule sorted_wrt_order_rows) (use oldest_first_order in blast)+

lemma sorted_wrt_take_rest:
  assumes "sorted_wrt P xs" and "x \<in> set (take n xs)" and "y \<in> set xs" and "y \<notin> set (take n xs)"
  shows "P x y"
proof -
  have xs: "xs = take n xs @ drop n xs" by simp
  then have "y \<in> set (drop n xs)" using assms(3,4) by (metis Un_iff set_append)
  moreover have "\<forall>x \<in> set (take n xs). \<forall>y \<in> set (drop n xs). P x y"
    using assms(1) xs sorted_wrt_append by metis
  ultimately show ?thesis using assms(2) by blast
qed

lemma claim_batch_spec:
  assumes "m \<in> set (claim_batch locked now n rows)"
  shows "m \<in> set rows" and "claimable now m" and "\<not> locked (ob_id m)"
  using assms by (auto simp: claim_batch_def dest!: in_set_takeD)

lemma claim_batch_oldest:
  assumes "m \<in> set (claim_batch locked now n rows)"
    and "m' \<in> set rows" "claimable now m'" "\<not> locked (ob_id m')" "m' \<notin> set (claim_batch locked now n rows)"
  shows "oldest_first m m'" and "length (claim_batch locked now n rows) = nat n"
proof -
  let ?c = "filter (\<lambda>m. \<not> locked (ob_id m)) (order_rows oldest_first (filter (claimable now) rows))"
  have s: "sorted_wrt oldest_first ?c"
    by (rule sorted_wrt_filter) (rule sorted_oldest_first)
  have m': "m' \<in> set ?c" using assms(2-4) by simp
  show "oldest_first m m'"
    using sorted_wrt_take_rest [OF s _ m'] assms(1,5) by (simp add: claim_batch_def)
  show "length (claim_batch locked now n rows) = nat n"
    using assms(5) m' by (auto simp: claim_batch_def min_def)
qed

lemma claim_batch_bounds:
  assumes "outbox_keys_unique rows"
  shows "length (claim_batch locked now n rows) \<le> nat n"
    and "distinct (map ob_id (claim_batch locked now n rows))"
    and "sorted_wrt oldest_first (claim_batch locked now n rows)"
proof -
  let ?o = "order_rows oldest_first (filter (claimable now) rows)"
  show "length (claim_batch locked now n rows) \<le> nat n" by (simp add: claim_batch_def)
  have "distinct (map ob_id ?o)"
    using assms by (simp add: outbox_keys_unique_def distinct_map_filter)
  then show "distinct (map ob_id (claim_batch locked now n rows))"
    unfolding claim_batch_def by (simp add: take_map [symmetric] distinct_map_filter)
  show "sorted_wrt oldest_first (claim_batch locked now n rows)"
    unfolding claim_batch_def by (intro sorted_wrt_take sorted_wrt_filter sorted_oldest_first)
qed

end
