(* ===== verification/Outbox_Dispatcher.thy ===== *)
theory Outbox_Dispatcher
  imports Complex_Main Outbox_Store
begin

text \<open>
  \<open>services/outbox_dispatcher\<close>: the publisher to EventBridge (\<open>publisher.py\<close>), the dispatcher
  (\<open>dispatcher.py\<close>) and an iteration of its runner (\<open>runner.py\<close>). EventBridge is a parameter: a
  program over the log of the entries the bus has accepted, which answers like \<open>put_events\<close> or
  raises; the commit of a session may be refused.
\<close>

section \<open>The publisher\<close>

record 'p put_entry =
  pe_source :: string
  pe_detail_type :: string
  pe_detail :: "(string \<times> 'p json) list"
  pe_event_bus_name :: string

record put_result =
  res_error_code :: "string option"
  res_error_message :: "string option"
  res_event_id :: "string option"

record put_response =
  failed_entry_count :: "int option"
  response_entries :: "put_result list option"

type_synonym 'p event_bus = "'p put_entry \<Rightarrow> ('p put_entry list, put_response) prog"

definition publisher_new :: "string \<Rightarrow> string result" where
  "publisher_new event_bus_name =
     (let normalized_event_bus_name = strip event_bus_name in
      if normalized_event_bus_name = [] then Inl (ValueError ''event_bus_name must not be empty'')
      else Inr normalized_event_bus_name)"

definition starts_with :: "string \<Rightarrow> string \<Rightarrow> bool" where
  "starts_with prefix s \<longleftrightarrow> take (length prefix) s = prefix"

definition eventbridge_source_prefix :: string where
  "eventbridge_source_prefix = ''realstock.''"

definition eventbridge_source :: "string \<Rightarrow> string result" where
  "eventbridge_source src =
     (let normalized_source = strip src in
      if normalized_source = [] then Inl (ValueError ''event source must not be empty'')
      else if starts_with eventbridge_source_prefix normalized_source then Inr normalized_source
      else Inr (eventbridge_source_prefix @ normalized_source))"

definition to_event_envelope :: "'p claimed_event \<Rightarrow> 'p envelope result" where
  "to_event_envelope e =
     envelope_new (cl_event_id e) (cl_event_type e) (cl_schema_version e) (Aware (cl_occurred_at e))
       (cl_source e) (cl_correlation_id e) (cl_causation_id e) (cl_trace_context e) (cl_payload e)"

text \<open>An absent or empty text is false.\<close>

definition truthy :: "string option \<Rightarrow> bool" where
  "truthy x \<longleftrightarrow> (case x of None \<Rightarrow> False | Some s \<Rightarrow> s \<noteq> [])"

definition check_response :: "put_response \<Rightarrow> string result" where
  "check_response response =
     (let failed = (case failed_entry_count response of None \<Rightarrow> 0 | Some n \<Rightarrow> n);
          entries = (case response_entries response of None \<Rightarrow> [] | Some es \<Rightarrow> es)
      in if failed \<noteq> 0 \<or> length entries \<noteq> 1
         then Inl (RuntimeError ''EventBridge failed to publish outbox event'')
         else let entry = hd entries in
           if truthy (res_error_code entry) then Inl (RuntimeError ''EventBridge publish failed'')
           else case res_event_id entry of
             None \<Rightarrow> Inl (RuntimeError ''EventBridge publish response did not contain EventId'')
           | Some i \<Rightarrow>
               if i = [] then Inl (RuntimeError ''EventBridge publish response did not contain EventId'')
               else Inr i)"

definition publish :: "string \<Rightarrow> 'p event_bus \<Rightarrow> 'p claimed_event \<Rightarrow> ('p put_entry list, string) prog" where
  "publish event_bus_name client event =
     bind (of_result (to_event_envelope event)) (\<lambda>canonical_event.
     bind (of_result (eventbridge_source (cl_source event))) (\<lambda>src.
     bind (client \<lparr>pe_source = src, pe_detail_type = cl_event_type event,
                   pe_detail = to_event_dict canonical_event, pe_event_bus_name = event_bus_name\<rparr>) (\<lambda>response.
     of_result (check_response response))))"

section \<open>The dispatcher\<close>

record 'p outbox_world =
  outbox :: "'p outbox_row list"
  bus :: "'p put_entry list"

record 'p outbox_env =
  ob_clock :: int
  ob_locked :: "uuid \<Rightarrow> bool"
  ob_commit_error :: "'p outbox_row list \<Rightarrow> error option"
  ob_client :: "'p event_bus"
  ob_describe :: "error \<Rightarrow> string"

record dispatcher =
  d_worker_id :: string
  d_batch_size :: int
  d_lease_seconds :: int
  d_event_bus_name :: string

definition dispatcher_new :: "string \<Rightarrow> int \<Rightarrow> int \<Rightarrow> string \<Rightarrow> dispatcher result" where
  "dispatcher_new worker_id batch_size lease_seconds bus_name =
     (let normalized_worker_id = strip worker_id in
      if normalized_worker_id = [] then Inl (ValueError ''worker_id must not be empty'')
      else if batch_size < 1 then Inl (ValueError ''batch_size must be greater than zero'')
      else if lease_seconds < 1 then Inl (ValueError ''lease_seconds must be greater than zero'')
      else Inr \<lparr>d_worker_id = normalized_worker_id, d_batch_size = batch_size,
                d_lease_seconds = lease_seconds, d_event_bus_name = bus_name\<rparr>)"

text \<open>A session of its own: committed at the end, rolled back when anything raises.\<close>

definition in_session ::
  "'p outbox_env \<Rightarrow> ('p outbox_row list \<Rightarrow> ('a \<times> 'p outbox_row list) result) \<Rightarrow> ('p outbox_world, 'a) prog" where
  "in_session env f = (\<lambda>w. case f (outbox w) of
     Inl e \<Rightarrow> (Inl e, w)
   | Inr (a, rows) \<Rightarrow> (case ob_commit_error env rows of
       Some e \<Rightarrow> (Inl e, w)
     | None \<Rightarrow> (Inr a, w\<lparr>outbox := rows\<rparr>)))"

definition claim_events :: "'p outbox_env \<Rightarrow> dispatcher \<Rightarrow> int \<Rightarrow> ('p outbox_world, 'p claimed_event list) prog" where
  "claim_events env d now = in_session env
     (claim_pending (ob_locked env) (ob_clock env) (d_worker_id d) (d_batch_size d) (d_lease_seconds d)
       (Some (Aware now)))"

definition acknowledged :: "error \<Rightarrow> (bool \<times> 'r) result \<Rightarrow> (unit \<times> 'r) result" where
  "acknowledged rejected x = (case x of
     Inl e \<Rightarrow> Inl e | Inr (updated, r) \<Rightarrow> if \<not> updated then Inl rejected else Inr ((), r))"

definition record_success ::
  "'p outbox_env \<Rightarrow> dispatcher \<Rightarrow> 'p claimed_event \<Rightarrow> int \<Rightarrow> ('p outbox_world, unit) prog" where
  "record_success env d event published_at = in_session env (\<lambda>rows.
     acknowledged (RuntimeError ''outbox event publication acknowledgement rejected'')
       (mark_published (ob_clock env) (cl_event_id event) (d_worker_id d) (Some (Aware published_at)) rows))"

definition retry_delays_seconds :: "int list" where
  "retry_delays_seconds = [5, 30, 120, 600]"

definition retry_delay :: "int \<Rightarrow> int result" where
  "retry_delay attempt_count =
     (if attempt_count < 0 then Inl (ValueError ''attempt_count must not be negative'')
      else Inr (seconds (retry_delays_seconds !
             nat (min attempt_count (int (length retry_delays_seconds) - 1)))))"

definition record_failure ::
  "'p outbox_env \<Rightarrow> dispatcher \<Rightarrow> 'p claimed_event \<Rightarrow> string \<Rightarrow> int \<Rightarrow> ('p outbox_world, unit) prog" where
  "record_failure env d event error now =
     bind (of_result (retry_delay (cl_attempt_count event))) (\<lambda>delay.
     in_session env (\<lambda>rows.
       acknowledged (RuntimeError ''outbox event failure acknowledgement rejected'')
         (mark_failed (ob_clock env) (cl_event_id event) (d_worker_id d) error (Aware (now + delay)) rows)))"

definition publish_event :: "'p outbox_env \<Rightarrow> dispatcher \<Rightarrow> 'p claimed_event \<Rightarrow> ('p outbox_world, string) prog" where
  "publish_event env d event = (\<lambda>w. case publish (d_event_bus_name d) (ob_client env) event (bus w) of
     (r, accepted) \<Rightarrow> (r, w\<lparr>bus := accepted\<rparr>))"

record dispatch_result =
  dr_claimed :: int
  dr_published :: int
  dr_failed :: int

text \<open>The loop of \<open>dispatch_once\<close>: an exception of an acknowledgement ends it.\<close>

fun dispatch_events ::
  "'p outbox_env \<Rightarrow> dispatcher \<Rightarrow> int \<Rightarrow> 'p claimed_event list \<Rightarrow> dispatch_result
   \<Rightarrow> ('p outbox_world, dispatch_result) prog" where
  "dispatch_events env d now [] r = ret r"
| "dispatch_events env d now (e # es) r = (\<lambda>w. case publish_event env d e w of
     (Inl exc, w') \<Rightarrow>
       bind (record_failure env d e (ob_describe env exc) now)
         (\<lambda>_. dispatch_events env d now es (r\<lparr>dr_failed := dr_failed r + 1\<rparr>)) w'
   | (Inr _, w') \<Rightarrow>
       bind (record_success env d e now)
         (\<lambda>_. dispatch_events env d now es (r\<lparr>dr_published := dr_published r + 1\<rparr>)) w')"

definition dispatch_once :: "'p outbox_env \<Rightarrow> dispatcher \<Rightarrow> datetime option \<Rightarrow> ('p outbox_world, dispatch_result) prog" where
  "dispatch_once env d now =
     bind (of_result (resolve_utc (ob_clock env) now)) (\<lambda>effective_now.
     bind (claim_events env d effective_now) (\<lambda>events.
     dispatch_events env d effective_now events
       \<lparr>dr_claimed = int (length events), dr_published = 0, dr_failed = 0\<rparr>))"

section \<open>An iteration of the runner\<close>

datatype runner_output =
    RecordDispatch dispatch_result rat
  | RecordBacklog backlog_snapshot
  | RecordWorkerError
  | Wait rat

record runner_config =
  poll_interval_seconds :: rat
  error_backoff_seconds :: rat
  metrics_interval_seconds :: rat

definition runner_new :: "runner_config \<Rightarrow> unit result" where
  "runner_new c =
     (if poll_interval_seconds c \<le> 0 then Inl (ValueError ''poll_interval_seconds must be positive'')
      else if error_backoff_seconds c \<le> 0 then Inl (ValueError ''error_backoff_seconds must be positive'')
      else if metrics_interval_seconds c \<le> 0
      then Inl (ValueError ''metrics_interval_seconds must be positive'')
      else Inr ())"

text \<open>
  Exceptions of the metrics recorder are logged and swallowed, so only the calls are recorded.
  The readings of the monotonic clock and the answer of the snapshot provider are arguments.
\<close>

definition record_backlog_if_due ::
  "runner_config \<Rightarrow> rat \<Rightarrow> backlog_snapshot result \<Rightarrow> rat \<Rightarrow> runner_output list \<times> rat" where
  "record_backlog_if_due c now snapshot next_at =
     (if now < next_at then ([], next_at)
      else (case snapshot of Inl _ \<Rightarrow> [] | Inr s \<Rightarrow> [RecordBacklog s], now + metrics_interval_seconds c))"

definition run_iteration ::
  "runner_config \<Rightarrow> dispatch_result result \<Rightarrow> rat \<Rightarrow> rat \<Rightarrow> rat \<Rightarrow> backlog_snapshot result \<Rightarrow> rat
   \<Rightarrow> runner_output list \<times> rat" where
  "run_iteration c dispatched started_at finished_at now snapshot next_at =
     (case dispatched of
        Inl _ \<Rightarrow> ([RecordWorkerError, Wait (error_backoff_seconds c)], next_at)
      | Inr result \<Rightarrow>
          let duration_ms = max ((finished_at - started_at) * 1000) 0;
              (backlog, next_at') = record_backlog_if_due c now snapshot next_at
          in ((if 0 < dr_claimed result then [RecordDispatch result duration_ms] else [])
                @ backlog
                @ (if dr_claimed result = 0 then [Wait (poll_interval_seconds c)] else []),
              next_at'))"

end
