(* ===== verification/Lease_Store.thy ===== *)
theory Lease_Store
  imports Main
begin

text \<open>
  The contract that the outbox table and the idempotency table share: a worker claims keys for a
  limited time (a lease), then completes or releases what it claimed. The laws give mutual
  exclusion: while a lease lasts nobody else gets the key.
\<close>

text \<open>What a store holds for a key: a lease of a worker with its expiry, or a mark that the work
  is done, which itself may expire.\<close>

datatype 'w lease = Held 'w int | Done "int option"

fun free_at :: "int \<Rightarrow> 'w lease option \<Rightarrow> bool" where
  "free_at now None = True"
| "free_at now (Some (Held w t)) = (t \<le> now)"
| "free_at now (Some (Done None)) = False"
| "free_at now (Some (Done (Some t))) = (t \<le> now)"

text \<open>
  Operations with the time at which they take effect. Another operation (an insertion, an expiry)
  may drop what is free anyway.
\<close>

datatype ('w, 'k) lease_op =
    Claim int 'w int "'k set"
  | Complete int 'w 'k
  | Release int 'w 'k
  | Other int

fun op_time :: "('w, 'k) lease_op \<Rightarrow> int" where
  "op_time (Claim now w t K) = now"
| "op_time (Complete now w k) = now"
| "op_time (Release now w k) = now"
| "op_time (Other now) = now"

fun claimed_keys :: "('w, 'k) lease_op \<Rightarrow> 'k set" where
  "claimed_keys (Claim now w t K) = K"
| "claimed_keys _ = {}"

fun gives_up :: "'w \<Rightarrow> 'k \<Rightarrow> ('w, 'k) lease_op \<Rightarrow> bool" where
  "gives_up w k (Claim now w' t K) = False"
| "gives_up w k (Complete now w' k') = (w' = w \<and> k' = k)"
| "gives_up w k (Release now w' k') = (w' = w \<and> k' = k)"
| "gives_up w k (Other now) = False"

fun lease_run :: "(('w, 'k) lease_op \<Rightarrow> 's \<Rightarrow> 's \<Rightarrow> bool) \<Rightarrow> ('w, 'k) lease_op list \<Rightarrow> 's \<Rightarrow> 's \<Rightarrow> bool" where
  "lease_run performs [] s s' = (s' = s)"
| "lease_run performs (x # xs) s s' = (\<exists>s1. performs x s s1 \<and> lease_run performs xs s1 s')"

locale lease_store =
  fixes valid :: "'s \<Rightarrow> bool"
    and item :: "'s \<Rightarrow> 'k \<Rightarrow> 'w lease option"
    and performs :: "('w, 'k) lease_op \<Rightarrow> 's \<Rightarrow> 's \<Rightarrow> bool"
  assumes keeps_valid: "valid s \<Longrightarrow> performs x s s' \<Longrightarrow> valid s'"
    and claim_free: "valid s \<Longrightarrow> performs (Claim now w t K) s s' \<Longrightarrow> k \<in> K \<Longrightarrow>
      free_at now (item s k) \<and> item s' k = Some (Held w t)"
    and claim_other: "valid s \<Longrightarrow> performs (Claim now w t K) s s' \<Longrightarrow> k \<notin> K \<Longrightarrow> item s' k = item s k"
    and complete_held: "valid s \<Longrightarrow> performs (Complete now w k) s s' \<Longrightarrow>
      (\<exists>t. item s k = Some (Held w t)) \<and> (\<exists>e. item s' k = Some (Done e))"
    and complete_other: "valid s \<Longrightarrow> performs (Complete now w k) s s' \<Longrightarrow> k' \<noteq> k \<Longrightarrow> item s' k' = item s k'"
    and release_held: "valid s \<Longrightarrow> performs (Release now w k) s s' \<Longrightarrow>
      (\<exists>t. item s k = Some (Held w t)) \<and> item s' k = None"
    and release_other: "valid s \<Longrightarrow> performs (Release now w k) s s' \<Longrightarrow> k' \<noteq> k \<Longrightarrow> item s' k' = item s k'"
    and other_item: "valid s \<Longrightarrow> performs (Other now) s s' \<Longrightarrow>
      item s' k = item s k \<or> free_at now (item s k) \<and> item s' k = None"
begin

lemma run_valid: "valid s \<Longrightarrow> lease_run performs xs s s' \<Longrightarrow> valid s'"
  by (induction xs arbitrary: s) (auto intro: keeps_valid)

lemma held_step:
  assumes "valid s" and "item s k = Some (Held w t)" and "performs x s s'"
    and "op_time x < t" and "\<not> gives_up w k x"
  shows "item s' k = Some (Held w t) \<and> k \<notin> claimed_keys x"
proof (cases x)
  case (Claim now w' t' K)
  have "k \<notin> K"
  proof
    assume "k \<in> K"
    then have "t \<le> now" using claim_free [of s now w' t' K s' k] assms Claim by simp
    then show False using assms(4) Claim by simp
  qed
  then show ?thesis using claim_other [of s now w' t' K s' k] assms Claim by simp
next
  case (Complete now w' k')
  then show ?thesis
    using complete_held [of s now w' k' s'] complete_other [of s now w' k' s' k] assms by (cases "k' = k") auto
next
  case (Release now w' k')
  then show ?thesis
    using release_held [of s now w' k' s'] release_other [of s now w' k' s' k] assms by (cases "k' = k") auto
next
  case (Other now)
  then show ?thesis using other_item [of s now s' k] assms by auto
qed

text \<open>While the lease lasts and its holder does not give it up, it stays and nobody claims the key.\<close>

lemma held_until:
  assumes "valid s" and "item s k = Some (Held w t)" and "lease_run performs xs s s'"
    and "\<forall>x \<in> set xs. op_time x < t \<and> \<not> gives_up w k x"
  shows "item s' k = Some (Held w t) \<and> (\<forall>x \<in> set xs. k \<notin> claimed_keys x)"
  using assms
proof (induction xs arbitrary: s)
  case Nil
  then show ?case by simp
next
  case (Cons x xs)
  then obtain s1 where s1: "performs x s s1" "lease_run performs xs s1 s'" by auto
  then show ?case
    using held_step [OF Cons.prems(1,2) s1(1)] Cons.IH [OF keeps_valid [OF Cons.prems(1) s1(1)] _ s1(2)]
      Cons.prems(4) by simp
qed

text \<open>The lease a claim gives excludes every claim of the key until it expires.\<close>

lemma exclusion:
  assumes "valid s" and "performs (Claim now w t K) s s1" and "k \<in> K"
    and "lease_run performs xs s1 s'" and "\<forall>x \<in> set xs. op_time x < t \<and> \<not> gives_up w k x"
  shows "item s' k = Some (Held w t) \<and> (\<forall>x \<in> set xs. k \<notin> claimed_keys x)"
  using held_until [OF keeps_valid [OF assms(1,2)] _ assms(4,5)] claim_free [OF assms(1-3)] by simp

text \<open>Work that is done for good is never claimed again.\<close>

lemma done_step:
  assumes "valid s" and "item s k = Some (Done None)" and "performs x s s'"
  shows "item s' k = Some (Done None) \<and> k \<notin> claimed_keys x"
proof (cases x)
  case (Claim now w' t' K)
  have "k \<notin> K" using claim_free [of s now w' t' K s' k] assms Claim by auto
  then show ?thesis using claim_other [of s now w' t' K s' k] assms Claim by simp
next
  case (Complete now w' k')
  then show ?thesis
    using complete_held [of s now w' k' s'] complete_other [of s now w' k' s' k] assms by (cases "k' = k") auto
next
  case (Release now w' k')
  then show ?thesis
    using release_held [of s now w' k' s'] release_other [of s now w' k' s' k] assms by (cases "k' = k") auto
next
  case (Other now)
  then show ?thesis using other_item [of s now s' k] assms by auto
qed

lemma done_final:
  assumes "valid s" and "item s k = Some (Done None)" and "lease_run performs xs s s'"
  shows "item s' k = Some (Done None) \<and> (\<forall>x \<in> set xs. k \<notin> claimed_keys x)"
  using assms
proof (induction xs arbitrary: s)
  case (Cons x xs)
  then obtain s1 where s1: "performs x s s1" "lease_run performs xs s1 s'" by auto
  then show ?case
    using done_step [OF Cons.prems(1,2) s1(1)] Cons.IH [OF keeps_valid [OF Cons.prems(1) s1(1)] _ s1(2)] by simp
qed simp

end

end
