(* ===== verification/Outbox_Leases.thy ===== *)
theory Outbox_Leases
  imports Outbox_Dispatcher Lease_Store
begin

text \<open>
  The outbox table as a lease store: what a claim, an acknowledgement and an insertion do to the
  row of an event, and the interpretation of the contract on the repository.
\<close>

definition row_item :: "'p outbox_row \<Rightarrow> string lease option" where
  "row_item m =
     (if ob_published_at m \<noteq> None then Some (Done None)
      else case (ob_locked_by m, ob_locked_until m) of
        (Some w, Some t) \<Rightarrow> Some (Held w t)
      | _ \<Rightarrow> None)"

definition outbox_item :: "'p outbox_row list \<Rightarrow> uuid \<Rightarrow> string lease option" where
  "outbox_item rows k =
     (case first_where (\<lambda>m. ob_event_id m = k) rows of None \<Rightarrow> None | Some m \<Rightarrow> row_item m)"

definition lock_consistent :: "'p outbox_row \<Rightarrow> bool" where
  "lock_consistent m \<longleftrightarrow> (ob_locked_by m = None \<longleftrightarrow> ob_locked_until m = None)"

definition outbox_valid :: "'p outbox_row list \<Rightarrow> bool" where
  "outbox_valid rows \<longleftrightarrow> outbox_keys_unique rows \<and> list_all lock_consistent rows"

fun outbox_performs :: "(string, uuid) lease_op \<Rightarrow> 'p outbox_row list \<Rightarrow> 'p outbox_row list \<Rightarrow> bool" where
  "outbox_performs (Claim now w t K) rows rows' =
     (\<exists>locked clock n lease tm es. claim_pending locked clock w n lease tm rows = Inr (es, rows')
        \<and> resolve_utc clock tm = Inr now \<and> strip w = w \<and> t = now + seconds lease \<and> K = set (map cl_event_id es))"
| "outbox_performs (Complete now w k) rows rows' =
     (strip w = w \<and> (\<exists>clock tm. mark_published clock k w tm rows = Inr (True, rows')))"
| "outbox_performs (Release now w k) rows rows' =
     (strip w = w \<and> (\<exists>clock error tm. mark_failed clock k w error tm rows = Inr (True, rows')))"
| "outbox_performs (Other now) rows rows' =
     (\<exists>fresh clock atype aid e. add_event fresh clock atype aid e rows = Inr rows')"

section \<open>Row by row\<close>

lemma outbox_flush_Inr: "outbox_flush rows = Inr rows' \<longleftrightarrow> rows' = rows \<and> list_all outbox_row_fits rows \<and> outbox_keys_unique rows"
  by (auto simp: outbox_flush_def)

lemma unique_event:
  "outbox_keys_unique rows \<Longrightarrow> m \<in> set rows \<Longrightarrow> m' \<in> set rows \<Longrightarrow> ob_event_id m = ob_event_id m' \<Longrightarrow> m = m'"
  by (auto simp: outbox_keys_unique_def distinct_map inj_on_def)

lemma unique_id:
  "outbox_keys_unique rows \<Longrightarrow> m \<in> set rows \<Longrightarrow> m' \<in> set rows \<Longrightarrow> ob_id m = ob_id m' \<Longrightarrow> m = m'"
  by (auto simp: outbox_keys_unique_def distinct_map inj_on_def)

lemma first_event:
  assumes "outbox_keys_unique rows" and "m \<in> set rows"
  shows "first_where (\<lambda>x. ob_event_id x = ob_event_id m) rows = Some m"
proof (cases "first_where (\<lambda>x. ob_event_id x = ob_event_id m) rows")
  case None
  then show ?thesis using assms(2) by (auto simp: first_where_None)
next
  case (Some x)
  then show ?thesis
    using first_where_Some [OF Some] assms by (auto simp: outbox_keys_unique_def distinct_map inj_on_def)
qed

lemma outbox_item_row: "outbox_keys_unique rows \<Longrightarrow> m \<in> set rows \<Longrightarrow> outbox_item rows (ob_event_id m) = row_item m"
  by (simp add: outbox_item_def first_event)

text \<open>Changing rows chosen by their identifier, the event identifier kept.\<close>

lemma outbox_item_update:
  assumes "\<And>m. ob_event_id (f m) = ob_event_id m"
  shows "outbox_item (update_where P f rows) k =
    (case first_where (\<lambda>m. ob_event_id m = k) rows of
       None \<Rightarrow> None | Some m \<Rightarrow> row_item (if P m then f m else m))"
  unfolding outbox_item_def
  by (subst first_where_update_where) (use assms in \<open>auto split: option.splits\<close>)

lemma claim_pending_Inr:
  assumes "claim_pending locked clock w n lease tm rows = Inr (es, rows')" and "strip w = w"
    and "resolve_utc clock tm = Inr now"
  defines "models \<equiv> claim_batch locked now n rows"
  shows "rows' = update_where (\<lambda>m. ob_id m \<in> set (map ob_id models)) (lock_row w (now + seconds lease)) rows"
    and "es = map (to_claimed_event \<circ> lock_row w (now + seconds lease)) models"
    and "outbox_keys_unique rows'" and "1 \<le> n" and "1 \<le> lease" and "w \<noteq> []"
  using assms by (auto simp: claim_pending_def Let_def outbox_flush_Inr split: if_splits sum.splits)

lemma claim_batch_member:
  assumes "outbox_keys_unique rows" and "m \<in> set rows"
  shows "ob_id m \<in> set (map ob_id (claim_batch locked now n rows)) \<longleftrightarrow> m \<in> set (claim_batch locked now n rows)"
proof
  assume "ob_id m \<in> set (map ob_id (claim_batch locked now n rows))"
  then obtain x where x: "x \<in> set (claim_batch locked now n rows)" "ob_id x = ob_id m" by auto
  have "x = m"
    by (rule unique_id [OF assms(1) claim_batch_spec(1) [OF x(1)] assms(2) x(2)])
  then show "m \<in> set (claim_batch locked now n rows)" using x(1) by simp
qed auto

lemma claimable_free: "claimable now m \<Longrightarrow> free_at now (row_item m)"
  by (auto simp: claimable_def row_item_def split: option.splits)

lemma lock_row_item: "ob_published_at m = None \<Longrightarrow> row_item (lock_row w t m) = Some (Held w t)"
  by (simp add: row_item_def lock_row_def)

lemma lock_row_sel [simp]:
  "ob_event_id (lock_row w t m) = ob_event_id m" "ob_id (lock_row w t m) = ob_id m"
  "ob_published_at (lock_row w t m) = ob_published_at m"
  by (simp_all add: lock_row_def)

lemma outbox_claim_item:
  assumes v: "outbox_valid rows" and c: "outbox_performs (Claim now w t K) rows rows'"
  shows "if k \<in> K then free_at now (outbox_item rows k) \<and> outbox_item rows' k = Some (Held w t)
    else outbox_item rows' k = outbox_item rows k"
proof -
  from c obtain locked clock n lease tm es where
    run: "claim_pending locked clock w n lease tm rows = Inr (es, rows')"
    and tm: "resolve_utc clock tm = Inr now" and w: "strip w = w" and t: "t = now + seconds lease"
    and K: "K = set (map cl_event_id es)" by auto
  let ?b = "claim_batch locked now n rows"
  note cp = claim_pending_Inr [OF run w tm]
  have u: "outbox_keys_unique rows" using v by (simp add: outbox_valid_def)
  have K': "K = ob_event_id ` set ?b"
    by (auto simp: K cp(2) to_claimed_event_def)
  have mem: "m \<in> set ?b \<longleftrightarrow> ob_event_id m \<in> K" if "m \<in> set rows" for m
  proof
    assume "ob_event_id m \<in> K"
    then obtain x where x: "x \<in> set ?b" "ob_event_id m = ob_event_id x" by (auto simp: K')
    have "m = x" by (rule unique_event [OF u that claim_batch_spec(1) [OF x(1)] x(2)])
    then show "m \<in> set ?b" using x(1) by simp
  qed (simp add: K')
  have item': "outbox_item rows' k = (case first_where (\<lambda>m. ob_event_id m = k) rows of
      None \<Rightarrow> None | Some m \<Rightarrow> row_item (if k \<in> K then lock_row w t m else m))"
    using outbox_item_update [of "lock_row w t" "\<lambda>m. ob_id m \<in> set (map ob_id ?b)" rows k]
      mem claim_batch_member [OF u, of _ locked now n]
    unfolding cp(1) t [symmetric] by (auto dest!: first_where_Some split: option.splits)
  show ?thesis
  proof (cases "k \<in> K")
    case True
    then obtain m where m: "m \<in> set ?b" "k = ob_event_id m" unfolding K' by auto
    have row: "m \<in> set rows" "claimable now m" using claim_batch_spec [OF m(1)] by auto
    have first: "first_where (\<lambda>m. ob_event_id m = k) rows = Some m"
      using first_event [OF u row(1)] m(2) by simp
    have "outbox_item rows k = row_item m" by (simp add: outbox_item_def first)
    moreover have "outbox_item rows' k = row_item (lock_row w t m)" using True by (simp add: item' first)
    ultimately show ?thesis using row True by (simp add: claimable_free lock_row_item claimable_def)
  next
    case False
    then show ?thesis unfolding item' by (simp add: outbox_item_def cong: option.case_cong)
  qed
qed

lemma get_claimed_Some:
  assumes "get_claimed_model k w rows = Some m"
  shows "m \<in> set rows" "ob_event_id m = k" "ob_locked_by m = Some w" "ob_published_at m = None"
  using assms first_where_Some by (fastforce simp: get_claimed_model_def)+

text \<open>An acknowledgement changes the row of its event only.\<close>

lemma outbox_ack_item:
  assumes v: "outbox_valid rows" and m: "get_claimed_model k w rows = Some m"
    and f: "\<And>x. ob_event_id (f x) = ob_event_id x" "row_item (f m) = i"
    and r: "rows' = update_where (\<lambda>x. ob_id x = ob_id m) f rows"
  shows "\<exists>t. outbox_item rows k = Some (Held w t)" and "outbox_item rows' k = i"
    and "k' \<noteq> k \<Longrightarrow> outbox_item rows' k' = outbox_item rows k'"
proof -
  have u: "outbox_keys_unique rows" and c: "lock_consistent m"
    using v get_claimed_Some(1) [OF m] by (auto simp: outbox_valid_def list_all_iff)
  note g = get_claimed_Some [OF m]
  have first: "first_where (\<lambda>x. ob_event_id x = k) rows = Some m"
    using first_event [OF u g(1)] g(2) by simp
  show "\<exists>t. outbox_item rows k = Some (Held w t)"
    using c g(3,4) by (auto simp: outbox_item_def first row_item_def lock_consistent_def)
  show "outbox_item rows' k = i"
    using outbox_item_update [of f "\<lambda>x. ob_id x = ob_id m" rows k, OF f(1)] by (simp add: r f(2) first)
  show "outbox_item rows' k' = outbox_item rows k'" if "k' \<noteq> k"
  proof -
    have "ob_id x \<noteq> ob_id m" if "x \<in> set rows" "ob_event_id x = k'" for x
      using that g(1,2) unique_id [OF u] \<open>k' \<noteq> k\<close> by metis
    then show ?thesis
      using outbox_item_update [of f "\<lambda>x. ob_id x = ob_id m" rows k', OF f(1)]
      by (auto simp: r outbox_item_def dest: first_where_Some split: option.splits)
  qed
qed

lemma resolve_utc_Some: "resolve_utc clock tm = Inr i \<Longrightarrow> \<exists>j. tm = None \<and> i = clock \<or> tm = Some (Aware j) \<and> i = j"
  by (auto simp: resolve_utc_def split: option.splits datetime.splits)

lemma mark_published_Inr:
  assumes "mark_published clock k w tm rows = Inr (True, rows')" and "strip w = w"
  obtains m i where "get_claimed_model k w rows = Some m" and "resolve_utc clock tm = Inr i"
    and "rows' = update_where (\<lambda>x. ob_id x = ob_id m) (\<lambda>m. m\<lparr>ob_published_at := Some i, ob_locked_by := None,
        ob_locked_until := None, ob_last_error := None\<rparr>) rows"
    and "outbox_keys_unique rows'"
  using assms by (auto simp: mark_published_def Let_def outbox_flush_Inr split: if_splits option.splits sum.splits)

lemma mark_failed_Inr:
  assumes "mark_failed clock k w err tm rows = Inr (True, rows')" and "strip w = w"
  obtains m i where "get_claimed_model k w rows = Some m"
    and "rows' = update_where (\<lambda>x. ob_id x = ob_id m) (\<lambda>m. m\<lparr>ob_attempt_count := ob_attempt_count m + 1,
        ob_last_error := Some (if strip err = [] then ''unknown publish failure'' else strip err),
        ob_next_attempt_at := i, ob_locked_by := None, ob_locked_until := None\<rparr>) rows"
    and "outbox_keys_unique rows'" and "resolve_utc clock (Some tm) = Inr i"
  using assms by (auto simp: mark_failed_def Let_def outbox_flush_Inr split: if_splits option.splits sum.splits)

lemma add_event_Inr:
  assumes "add_event fresh clock atype aid e rows = Inr rows'"
  shows "rows' = rows @ [outbox_row_of fresh clock (strip atype) (strip aid) e] \<and> outbox_keys_unique rows'"
  using assms by (auto simp: add_event_def Let_def outbox_flush_Inr split: if_splits)

lemma outbox_add_item:
  assumes "outbox_performs (Other now) rows rows'"
  shows "outbox_item rows' k = outbox_item rows k"
proof -
  from assms obtain fresh clock atype aid e where
    r: "rows' = rows @ [outbox_row_of fresh clock (strip atype) (strip aid) e]"
    by (auto dest!: add_event_Inr)
  have "row_item (outbox_row_of fresh clock (strip atype) (strip aid) e) = None"
    by (simp add: row_item_def outbox_row_of_def)
  then show ?thesis
    by (cases "first_where (\<lambda>m. ob_event_id m = k) rows") (simp_all add: r outbox_item_def first_where_append)
qed

lemma list_all_update_where: "list_all Q rows \<Longrightarrow> (\<And>m. Q m \<Longrightarrow> Q (f m)) \<Longrightarrow> list_all Q (update_where P f rows)"
  by (auto simp: list_all_iff set_update_where)

lemma outbox_keeps_valid:
  assumes "outbox_valid rows" and "outbox_performs x rows rows'"
  shows "outbox_valid rows'"
proof (cases x)
  case (Claim now w t K)
  then show ?thesis
    using assms claim_pending_Inr(1,3)
    by (fastforce simp: outbox_valid_def lock_consistent_def lock_row_def intro!: list_all_update_where)
next
  case (Complete now w k)
  then show ?thesis
    using assms
    by (auto simp: outbox_valid_def elim!: mark_published_Inr)
      (auto simp: lock_consistent_def intro!: list_all_update_where)
next
  case (Release now w k)
  then show ?thesis
    using assms
    by (auto simp: outbox_valid_def elim!: mark_failed_Inr)
      (auto simp: lock_consistent_def intro!: list_all_update_where)
next
  case (Other now)
  then show ?thesis
    using assms by (auto simp: outbox_valid_def lock_consistent_def outbox_row_of_def dest!: add_event_Inr)
qed

lemma outbox_complete_item:
  assumes "outbox_valid rows" and "outbox_performs (Complete now w k) rows rows'"
  shows "(\<exists>t. outbox_item rows k = Some (Held w t)) \<and> outbox_item rows' k = Some (Done None)"
    and "k' \<noteq> k \<Longrightarrow> outbox_item rows' k' = outbox_item rows k'"
proof -
  from assms(2) obtain clock tm where "mark_published clock k w tm rows = Inr (True, rows')" "strip w = w" by auto
  then obtain m i where m: "get_claimed_model k w rows = Some m"
    and r: "rows' = update_where (\<lambda>x. ob_id x = ob_id m) (\<lambda>m. m\<lparr>ob_published_at := Some i, ob_locked_by := None,
        ob_locked_until := None, ob_last_error := None\<rparr>) rows"
    by (rule mark_published_Inr)
  show "(\<exists>t. outbox_item rows k = Some (Held w t)) \<and> outbox_item rows' k = Some (Done None)"
    using outbox_ack_item(1,2) [OF assms(1) m _ _ r] by (simp add: row_item_def)
  show "outbox_item rows' k' = outbox_item rows k'" if "k' \<noteq> k"
    using outbox_ack_item(3) [OF assms(1) m _ refl r that] by simp
qed

lemma outbox_release_item:
  assumes "outbox_valid rows" and "outbox_performs (Release now w k) rows rows'"
  shows "(\<exists>t. outbox_item rows k = Some (Held w t)) \<and> outbox_item rows' k = None"
    and "k' \<noteq> k \<Longrightarrow> outbox_item rows' k' = outbox_item rows k'"
proof -
  from assms(2) obtain clock err tm where "mark_failed clock k w err tm rows = Inr (True, rows')" "strip w = w" by auto
  then obtain m i where m: "get_claimed_model k w rows = Some m"
    and r: "rows' = update_where (\<lambda>x. ob_id x = ob_id m) (\<lambda>m. m\<lparr>ob_attempt_count := ob_attempt_count m + 1,
        ob_last_error := Some (if strip err = [] then ''unknown publish failure'' else strip err),
        ob_next_attempt_at := i, ob_locked_by := None, ob_locked_until := None\<rparr>) rows"
    by (rule mark_failed_Inr)
  show "(\<exists>t. outbox_item rows k = Some (Held w t)) \<and> outbox_item rows' k = None"
    using outbox_ack_item(1,2) [OF assms(1) m _ _ r] get_claimed_Some(4) [OF m] by (simp add: row_item_def)
  show "outbox_item rows' k' = outbox_item rows k'" if "k' \<noteq> k"
    using outbox_ack_item(3) [OF assms(1) m _ refl r that] by simp
qed

interpretation outbox: lease_store outbox_valid outbox_item outbox_performs
proof unfold_locales
  show "outbox_valid s \<Longrightarrow> outbox_performs (Claim now w t K) s s' \<Longrightarrow> k \<in> K \<Longrightarrow>
      free_at now (outbox_item s k) \<and> outbox_item s' k = Some (Held w t)"
    for s s' :: "'a outbox_row list" and now w t K k
    using outbox_claim_item [of s now w t K s' k] by (simp del: outbox_performs.simps)
  show "outbox_valid s \<Longrightarrow> outbox_performs (Claim now w t K) s s' \<Longrightarrow> k \<notin> K \<Longrightarrow> outbox_item s' k = outbox_item s k"
    for s s' :: "'a outbox_row list" and now w t K k
    using outbox_claim_item [of s now w t K s' k] by (simp del: outbox_performs.simps)
qed (blast intro: outbox_keeps_valid dest: outbox_complete_item outbox_release_item outbox_add_item)+

end
