(* ===== verification/Outbox_Protocol.thy ===== *)
theory Outbox_Protocol
  imports Outbox_Leases
begin

text \<open>
  Several dispatchers on one outbox: the transactions of \<open>dispatch_once\<close> as steps that interleave
  with those of other workers, with insertions and with crashes; what holds in every reachable
  state; and that \<open>dispatch_once\<close> is a run of these steps.
\<close>

section \<open>The bus\<close>

text \<open>
  The documented behaviour of \<open>put_events\<close>: the log of accepted entries only grows, by the entry
  sent if at all, and an answer that counts no failure and gives the entry an identifier means
  that it was accepted. It may be accepted although the call raises (a timeout).
\<close>

definition reports_accepted :: "put_response \<Rightarrow> bool" where
  "reports_accepted r \<longleftrightarrow> failed_entry_count r \<in> {None, Some 0}
     \<and> (\<exists>x. response_entries r = Some [x] \<and> \<not> truthy (res_error_code x) \<and> truthy (res_event_id x))"

definition truthful_bus :: "'p event_bus \<Rightarrow> bool" where
  "truthful_bus client \<longleftrightarrow> (\<forall>entry lg. case client entry lg of (r, lg') \<Rightarrow>
     (lg' = lg \<or> lg' = lg @ [entry])
     \<and> (case r of Inl _ \<Rightarrow> True | Inr response \<Rightarrow> reports_accepted response \<longrightarrow> lg' = lg @ [entry]))"

lemma check_response_Inr: "check_response r = Inr i \<Longrightarrow> reports_accepted r"
  by (cases "response_entries r")
    (auto simp: check_response_def reports_accepted_def truthy_def Let_def length_Suc_conv
      split: if_splits option.splits)

definition delivered :: "'p envelope result \<Rightarrow> 'p put_entry list \<Rightarrow> bool" where
  "delivered c lg \<longleftrightarrow> (\<exists>entry \<in> set lg. \<exists>e. c = Inr e \<and> pe_detail entry = to_event_dict e)"

lemma delivered_mono: "delivered c lg \<Longrightarrow> delivered c (lg @ xs)"
  by (auto simp: delivered_def)

lemma truthful_busD:
  assumes "truthful_bus client" and "client entry lg = (r, lg')"
  shows "lg' = lg \<or> lg' = lg @ [entry]"
    and "r = Inr response \<Longrightarrow> reports_accepted response \<Longrightarrow> lg' = lg @ [entry]"
  using assms(1) [unfolded truthful_bus_def, rule_format, of lg entry] assms(2) by auto

lemma publish_event_run:
  assumes "publish_event env d e w = (r, w')" and "truthful_bus (ob_client env)"
  shows "outbox w' = outbox w" and "\<exists>xs. bus w' = bus w @ xs"
    and "r = Inr i \<Longrightarrow> delivered (to_event_envelope e) (bus w')"
proof -
  obtain r0 lg where p: "publish (d_event_bus_name d) (ob_client env) e (bus w) = (r0, lg)" by fastforce
  then have w': "w' = w\<lparr>bus := lg\<rparr>" and r: "r = r0" using assms(1) by (auto simp: publish_event_def)
  show "outbox w' = outbox w" by (simp add: w')
  show "\<exists>xs. bus w' = bus w @ xs"
    using p truthful_busD(1) [OF assms(2)]
    by (fastforce simp: w' publish_def bind_run split: sum.splits prod.splits)
  show "delivered (to_event_envelope e) (bus w')" if "r = Inr i"
  proof -
    from p that r obtain c s response where c: "to_event_envelope e = Inr c"
      and run: "ob_client env \<lparr>pe_source = s, pe_detail_type = cl_event_type e, pe_detail = to_event_dict c,
          pe_event_bus_name = d_event_bus_name d\<rparr> (bus w) = (Inr response, lg)"
      and ok: "check_response response = Inr i"
      by (auto simp: publish_def elim!: bind_InrE)
    have "lg = bus w @ [\<lparr>pe_source = s, pe_detail_type = cl_event_type e, pe_detail = to_event_dict c,
          pe_event_bus_name = d_event_bus_name d\<rparr>]"
      using truthful_busD(2) [OF assms(2) run refl check_response_Inr [OF ok]] .
    then show ?thesis by (simp add: w' delivered_def c)
  qed
qed

section \<open>Steps\<close>

datatype 'p worker_state =
    Idle
  | Dispatching int "'p claimed_event list"
  | Acknowledging int "'p claimed_event" "string result" "'p claimed_event list"

record 'p outbox_system =
  world :: "'p outbox_world"
  worker :: "string \<Rightarrow> 'p worker_state"

abbreviation set_worker :: "string \<Rightarrow> 'p worker_state \<Rightarrow> 'p outbox_world \<Rightarrow> 'p outbox_system \<Rightarrow> 'p outbox_system" where
  "set_worker w st wd s \<equiv> s\<lparr>world := wd, worker := (worker s)(w := st)\<rparr>"

inductive outbox_step :: "'p outbox_system \<Rightarrow> 'p outbox_system \<Rightarrow> bool" where
  step_insert: "add_event fresh clock atype aid e (outbox (world s)) = Inr rows \<Longrightarrow>
    outbox_step s (s\<lparr>world := (world s)\<lparr>outbox := rows\<rparr>\<rparr>)"
| step_claim: "worker s (d_worker_id d) = Idle \<Longrightarrow> strip (d_worker_id d) = d_worker_id d \<Longrightarrow>
    claim_events env d now (world s) = (Inr es, wd) \<Longrightarrow>
    outbox_step s (set_worker (d_worker_id d) (Dispatching now es) wd s)"
| step_publish: "worker s (d_worker_id d) = Dispatching now (e # es) \<Longrightarrow> truthful_bus (ob_client env) \<Longrightarrow>
    publish_event env d e (world s) = (r, wd) \<Longrightarrow>
    outbox_step s (set_worker (d_worker_id d) (Acknowledging now e r es) wd s)"
| step_success: "worker s (d_worker_id d) = Acknowledging now e (Inr i) es \<Longrightarrow>
    strip (d_worker_id d) = d_worker_id d \<Longrightarrow> record_success env d e now (world s) = (Inr (), wd) \<Longrightarrow>
    outbox_step s (set_worker (d_worker_id d) (Dispatching now es) wd s)"
| step_failure: "worker s (d_worker_id d) = Acknowledging now e (Inl x) es \<Longrightarrow>
    strip (d_worker_id d) = d_worker_id d \<Longrightarrow>
    record_failure env d e (ob_describe env x) now (world s) = (Inr (), wd) \<Longrightarrow>
    outbox_step s (set_worker (d_worker_id d) (Dispatching now es) wd s)"
| step_stop: "outbox_step s (set_worker w Idle (world s) s)"

inductive_cases outbox_stepE: "outbox_step s s'"

definition initial_system :: "'p outbox_system" where
  "initial_system = \<lparr>world = \<lparr>outbox = [], bus = []\<rparr>, worker = (\<lambda>_. Idle)\<rparr>"

inductive outbox_reachable :: "'p outbox_system \<Rightarrow> bool" where
  outbox_start: "outbox_reachable initial_system"
| outbox_next: "outbox_reachable s \<Longrightarrow> outbox_step s s' \<Longrightarrow> outbox_reachable s'"

section \<open>What the transactions do to the rows\<close>

lemma in_session_Inr:
  "in_session env f wd = (Inr a, wd') \<Longrightarrow> \<exists>rows. f (outbox wd) = Inr (a, rows) \<and> wd' = wd\<lparr>outbox := rows\<rparr>"
  by (auto simp: in_session_def split: sum.splits option.splits prod.splits)

lemma in_session_Inl: "in_session env f wd = (Inl e, wd') \<Longrightarrow> wd' = wd"
  by (auto simp: in_session_def split: sum.splits option.splits prod.splits)

lemma acknowledged_Inr: "acknowledged err x = Inr ((), r) \<longleftrightarrow> x = Inr (True, r)"
  by (auto simp: acknowledged_def split: sum.splits if_splits)

lemma claim_events_Inr:
  assumes "claim_events env d now wd = (Inr es, wd')" and "strip (d_worker_id d) = d_worker_id d"
  shows "outbox_performs (Claim now (d_worker_id d) (now + seconds (d_lease_seconds d)) (set (map cl_event_id es)))
      (outbox wd) (outbox wd')" and "bus wd' = bus wd"
    and "claim_pending (ob_locked env) (ob_clock env) (d_worker_id d) (d_batch_size d) (d_lease_seconds d)
      (Some (Aware now)) (outbox wd) = Inr (es, outbox wd')"
  using assms in_session_Inr [of env _ wd es wd']
  by (fastforce simp: claim_events_def resolve_utc_def)+

lemma record_success_Inr:
  assumes "record_success env d e now wd = (Inr (), wd')" and "strip (d_worker_id d) = d_worker_id d"
  shows "mark_published (ob_clock env) (cl_event_id e) (d_worker_id d) (Some (Aware now)) (outbox wd)
      = Inr (True, outbox wd')" and "bus wd' = bus wd"
    and "outbox_performs (Complete now (d_worker_id d) (cl_event_id e)) (outbox wd) (outbox wd')"
proof -
  obtain rows where "mark_published (ob_clock env) (cl_event_id e) (d_worker_id d) (Some (Aware now)) (outbox wd)
      = Inr (True, rows)" "wd' = wd\<lparr>outbox := rows\<rparr>"
    using in_session_Inr [OF assms(1) [unfolded record_success_def]] by (auto simp: acknowledged_Inr)
  then show "mark_published (ob_clock env) (cl_event_id e) (d_worker_id d) (Some (Aware now)) (outbox wd)
      = Inr (True, outbox wd')" "bus wd' = bus wd"
    "outbox_performs (Complete now (d_worker_id d) (cl_event_id e)) (outbox wd) (outbox wd')"
    using assms(2) by auto
qed

lemma record_failure_Inr:
  assumes "record_failure env d e msg now wd = (Inr (), wd')" and "strip (d_worker_id d) = d_worker_id d"
  shows "\<exists>delay. retry_delay (cl_attempt_count e) = Inr delay \<and>
      mark_failed (ob_clock env) (cl_event_id e) (d_worker_id d) msg (Aware (now + delay)) (outbox wd)
        = Inr (True, outbox wd')"
    and "bus wd' = bus wd"
    and "outbox_performs (Release now (d_worker_id d) (cl_event_id e)) (outbox wd) (outbox wd')"
proof -
  obtain delay rows where delay: "retry_delay (cl_attempt_count e) = Inr delay"
    and "mark_failed (ob_clock env) (cl_event_id e) (d_worker_id d) msg (Aware (now + delay)) (outbox wd)
      = Inr (True, rows)" "wd' = wd\<lparr>outbox := rows\<rparr>"
    using assms(1) by (auto simp: record_failure_def acknowledged_Inr elim!: bind_InrE dest!: in_session_Inr)
  then show "\<exists>delay. retry_delay (cl_attempt_count e) = Inr delay \<and>
      mark_failed (ob_clock env) (cl_event_id e) (d_worker_id d) msg (Aware (now + delay)) (outbox wd)
        = Inr (True, outbox wd')" "bus wd' = bus wd"
    "outbox_performs (Release now (d_worker_id d) (cl_event_id e)) (outbox wd) (outbox wd')"
    using assms(2) by (auto simp del: mark_failed_def)
qed

text \<open>No transaction removes a row or changes the event it holds.\<close>

definition content :: "'p outbox_row \<Rightarrow> 'p envelope result" where
  "content m = to_event_envelope (to_claimed_event m)"

definition same_event :: "'p outbox_row \<Rightarrow> 'p outbox_row \<Rightarrow> bool" where
  "same_event m m' \<longleftrightarrow> ob_event_id m' = ob_event_id m \<and> content m' = content m"

definition rows_kept :: "'p outbox_row list \<Rightarrow> 'p outbox_row list \<Rightarrow> bool" where
  "rows_kept rows rows' \<longleftrightarrow> (\<forall>m \<in> set rows. \<exists>m' \<in> set rows'. same_event m m'
     \<and> (ob_published_at m \<noteq> None \<longrightarrow> ob_published_at m' \<noteq> None))"

lemma rows_kept_refl: "rows_kept rows rows"
  by (auto simp: rows_kept_def same_event_def)

lemma rows_kept_trans: "rows_kept a b \<Longrightarrow> rows_kept b c \<Longrightarrow> rows_kept a c"
  unfolding rows_kept_def same_event_def by (metis (no_types, lifting))

lemma rows_kept_update:
  assumes "\<And>m. same_event m (f m)" and "\<And>m. m \<in> set rows \<Longrightarrow> P m \<Longrightarrow> ob_published_at m \<noteq> None \<Longrightarrow> ob_published_at (f m) \<noteq> None"
  shows "rows_kept rows (update_where P f rows)"
  unfolding rows_kept_def
proof
  fix m assume m: "m \<in> set rows"
  show "\<exists>m' \<in> set (update_where P f rows). same_event m m' \<and> (ob_published_at m \<noteq> None \<longrightarrow> ob_published_at m' \<noteq> None)"
  proof (cases "P m")
    case True
    then have "f m \<in> set (update_where P f rows)" using m by (auto simp: set_update_where)
    then show ?thesis using assms m True by blast
  next
    case False
    then have "m \<in> set (update_where P f rows)" using m by (auto simp: set_update_where)
    then show ?thesis by (auto simp: same_event_def)
  qed
qed

lemma content_cong:
  "ob_event_id m' = ob_event_id m \<Longrightarrow> ob_event_type m' = ob_event_type m \<Longrightarrow> ob_schema_version m' = ob_schema_version m
   \<Longrightarrow> ob_occurred_at m' = ob_occurred_at m \<Longrightarrow> ob_source m' = ob_source m \<Longrightarrow> ob_correlation_id m' = ob_correlation_id m
   \<Longrightarrow> ob_causation_id m' = ob_causation_id m \<Longrightarrow> ob_trace_context m' = ob_trace_context m \<Longrightarrow> ob_payload m' = ob_payload m
   \<Longrightarrow> same_event m m'"
  by (simp add: same_event_def content_def to_event_envelope_def to_claimed_event_def)

lemma same_event_lock: "same_event m (lock_row w t m)"
  by (rule content_cong) (simp_all add: lock_row_def)

lemma performs_rows_kept:
  assumes "outbox_performs x rows rows'"
  shows "rows_kept rows rows'"
proof (cases x)
  case (Claim now w t K)
  with assms obtain locked clock n lease tm es where
    "claim_pending locked clock w n lease tm rows = Inr (es, rows')" "resolve_utc clock tm = Inr now" "strip w = w"
    by auto
  from claim_pending_Inr(1) [OF this(1,3,2)] show ?thesis
    by (auto intro!: rows_kept_update content_cong simp: lock_row_def)
next
  case (Complete now w k)
  with assms obtain clock tm where "mark_published clock k w tm rows = Inr (True, rows')" "strip w = w" by auto
  then show ?thesis by (rule mark_published_Inr) (auto intro!: rows_kept_update content_cong)
next
  case (Release now w k)
  with assms obtain clock err tm where "mark_failed clock k w err tm rows = Inr (True, rows')" "strip w = w" by auto
  then show ?thesis by (rule mark_failed_Inr) (auto intro!: rows_kept_update content_cong)
next
  case (Other now)
  then show ?thesis using assms by (auto simp: rows_kept_def same_event_def dest!: add_event_Inr)
qed

lemma update_published:
  assumes "\<And>m. same_event m (f m)" and "\<And>m. ob_published_at (f m) = ob_published_at m"
    and "m' \<in> set (update_where P f rows)" and "ob_published_at m' \<noteq> None"
  shows "\<exists>m \<in> set rows. same_event m m' \<and> ob_published_at m \<noteq> None"
proof -
  obtain m where "m \<in> set rows" "m' = f m \<or> m' = m"
    using assms(3) by (auto simp: set_update_where)
  moreover have "same_event m m" by (simp add: same_event_def)
  ultimately show ?thesis using assms(1,2,4) by metis
qed

lemma performs_published:
  assumes "outbox_performs x rows rows'" and "m' \<in> set rows'" and "ob_published_at m' \<noteq> None"
  shows "\<exists>m \<in> set rows. same_event m m' \<and>
    (ob_published_at m \<noteq> None \<or> (\<exists>now w. x = Complete now w (ob_event_id m')))"
proof (cases x)
  case (Claim now w t K)
  with assms(1) obtain locked clock n lease tm es where
    "claim_pending locked clock w n lease tm rows = Inr (es, rows')" "resolve_utc clock tm = Inr now" "strip w = w"
    by auto
  from claim_pending_Inr(1) [OF this(1,3,2)] assms(2)
  have m': "m' \<in> set (update_where (\<lambda>m. ob_id m \<in> set (map ob_id (claim_batch locked now n rows)))
      (lock_row w (now + seconds lease)) rows)" by simp
  show ?thesis
    using update_published [OF same_event_lock lock_row_sel(3) m' assms(3)] by blast
next
  case (Complete now w k)
  with assms(1) obtain clock tm where "mark_published clock k w tm rows = Inr (True, rows')" "strip w = w" by auto
  then obtain m i where m: "get_claimed_model k w rows = Some m" and u: "outbox_keys_unique rows'"
    and r: "rows' = update_where (\<lambda>x. ob_id x = ob_id m) (\<lambda>m. m\<lparr>ob_published_at := Some i, ob_locked_by := None,
        ob_locked_until := None, ob_last_error := None\<rparr>) rows"
    by (rule mark_published_Inr)
  have ids: "map ob_id rows' = map ob_id rows" unfolding r by (rule map_update_where) simp
  from assms(2) consider (new) m0 where "m0 \<in> set rows" "ob_id m0 = ob_id m"
      "m' = m0\<lparr>ob_published_at := Some i, ob_locked_by := None, ob_locked_until := None, ob_last_error := None\<rparr>"
    | (old) "m' \<in> set rows"
    by (auto simp: r set_update_where)
  then show ?thesis
  proof cases
    case new
    have "distinct (map ob_id rows)" using u ids by (simp add: outbox_keys_unique_def)
    then have "m0 = m"
      using new(1,2) get_claimed_Some(1) [OF m] by (auto simp: distinct_map inj_on_def)
    then have "ob_event_id m' = k" using new(3) get_claimed_Some(2) [OF m] by simp
    moreover have "same_event m0 m'" unfolding new(3) by (rule content_cong) simp_all
    ultimately show ?thesis using new(1) Complete by blast
  next
    case old
    then show ?thesis using assms(3) by (auto simp: same_event_def)
  qed
next
  case (Release now w k)
  with assms(1) obtain clock err tm where "mark_failed clock k w err tm rows = Inr (True, rows')" "strip w = w" by auto
  then show ?thesis
  proof (rule mark_failed_Inr)
    fix m i
    assume r: "rows' = update_where (\<lambda>x. ob_id x = ob_id m) (\<lambda>m. m\<lparr>ob_attempt_count := ob_attempt_count m + 1,
        ob_last_error := Some (if strip err = [] then ''unknown publish failure'' else strip err),
        ob_next_attempt_at := i, ob_locked_by := None, ob_locked_until := None\<rparr>) rows"
    have "\<exists>m \<in> set rows. same_event m m' \<and> ob_published_at m \<noteq> None"
      by (rule update_published [OF content_cong _ assms(2) [unfolded r] assms(3)]) simp_all
    then show ?thesis by blast
  qed
next
  case (Other now)
  with assms obtain fresh clock atype aid e where
    r: "rows' = rows @ [outbox_row_of fresh clock (strip atype) (strip aid) e]"
    by (auto dest!: add_event_Inr)
  have "ob_published_at (outbox_row_of fresh clock (strip atype) (strip aid) e) = None"
    by (simp add: outbox_row_of_def)
  then have "m' \<in> set rows" using assms(2,3) r by auto
  then show ?thesis using assms(3) same_event_def by blast
qed

section \<open>The invariant\<close>

fun held_events :: "'p worker_state \<Rightarrow> 'p claimed_event set" where
  "held_events Idle = {}"
| "held_events (Dispatching now es) = set es"
| "held_events (Acknowledging now e r es) = insert e (set es)"

definition known_event :: "'p outbox_row list \<Rightarrow> 'p claimed_event \<Rightarrow> bool" where
  "known_event rows e \<longleftrightarrow> (\<exists>m \<in> set rows. ob_event_id m = cl_event_id e \<and> content m = to_event_envelope e)"

definition protocol_inv :: "'p outbox_system \<Rightarrow> bool" where
  "protocol_inv s \<longleftrightarrow> outbox_valid (outbox (world s))
     \<and> (\<forall>m \<in> set (outbox (world s)). ob_published_at m \<noteq> None \<longrightarrow> delivered (content m) (bus (world s)))
     \<and> (\<forall>w. \<forall>e \<in> held_events (worker s w). known_event (outbox (world s)) e)
     \<and> (\<forall>w now e i es. worker s w = Acknowledging now e (Inr i) es \<longrightarrow>
          delivered (to_event_envelope e) (bus (world s)))"

lemma known_event_kept: "rows_kept rows rows' \<Longrightarrow> known_event rows e \<Longrightarrow> known_event rows' e"
  by (fastforce simp: rows_kept_def known_event_def same_event_def)

text \<open>A transaction keeps the invariant if it acknowledges only what was delivered.\<close>

lemma protocol_inv_transaction:
  assumes inv: "protocol_inv s" and p: "outbox_performs x (outbox (world s)) (outbox wd)" and b: "bus wd = bus (world s)"
    and c: "\<And>now w k m. x = Complete now w k \<Longrightarrow> m \<in> set (outbox (world s)) \<Longrightarrow> ob_event_id m = k \<Longrightarrow>
      delivered (content m) (bus (world s))"
    and st: "\<And>e. e \<in> held_events st \<Longrightarrow> known_event (outbox wd) e" and st': "\<And>now e i es. st \<noteq> Acknowledging now e (Inr i) es"
  shows "protocol_inv (set_worker w st wd s)"
proof -
  have kept: "rows_kept (outbox (world s)) (outbox wd)" by (rule performs_rows_kept [OF p])
  have pub: "delivered (content m') (bus (world s))" if m': "m' \<in> set (outbox wd)" "ob_published_at m' \<noteq> None" for m'
  proof -
    obtain m where m: "m \<in> set (outbox (world s))" "same_event m m'"
      "ob_published_at m \<noteq> None \<or> (\<exists>now w. x = Complete now w (ob_event_id m'))"
      using performs_published [OF p m'] by blast
    then have "delivered (content m) (bus (world s))"
      using inv c by (auto simp: protocol_inv_def same_event_def)
    then show ?thesis using m(2) by (simp add: same_event_def)
  qed
  show ?thesis
    using inv outbox_keeps_valid [OF _ p] known_event_kept [OF kept] st st' pub
    by (auto simp: protocol_inv_def b)
qed

lemma known_claimed:
  assumes "claim_events env d now wd0 = (Inr es, wd)" and "strip (d_worker_id d) = d_worker_id d" and "e \<in> set es"
  shows "known_event (outbox wd) e"
proof -
  have "claim_pending (ob_locked env) (ob_clock env) (d_worker_id d) (d_batch_size d) (d_lease_seconds d)
      (Some (Aware now)) (outbox wd0) = Inr (es, outbox wd)"
    by (rule claim_events_Inr(3) [OF assms(1,2)])
  note cp = claim_pending_Inr(1,2) [OF this assms(2), of now]
  let ?b = "claim_batch (ob_locked env) now (d_batch_size d) (outbox wd0)"
  let ?f = "lock_row (d_worker_id d) (now + seconds (d_lease_seconds d))"
  obtain m where m: "m \<in> set ?b" "e = to_claimed_event (?f m)"
    using assms(3) cp(2) by (auto simp: resolve_utc_def)
  have "?f m \<in> set (outbox wd)"
    using cp(1) claim_batch_spec(1) [OF m(1)] m(1) by (auto simp: resolve_utc_def set_update_where)
  then show ?thesis
    unfolding known_event_def by (rule bexI [rotated]) (simp add: m(2) content_def to_claimed_event_def)
qed

lemma protocol_inv_step:
  assumes "outbox_step s s'" and inv: "protocol_inv s"
  shows "protocol_inv s'"
  using assms(1)
proof cases
  case (step_insert fresh clock atype aid e rows)
  have p: "outbox_performs (Other 0) (outbox (world s)) (outbox ((world s)\<lparr>outbox := rows\<rparr>))"
    unfolding outbox_performs.simps using step_insert(2) by (simp, blast)
  show ?thesis
    using inv known_event_kept [OF performs_rows_kept [OF p]] outbox_keeps_valid [OF _ p] performs_published [OF p]
    unfolding step_insert(1) protocol_inv_def by (fastforce simp: same_event_def)
next
  case (step_claim d env now es wd)
  note c = claim_events_Inr [OF step_claim(4,3)]
  show ?thesis
    unfolding step_claim(1)
    by (rule protocol_inv_transaction [OF inv c(1,2)]) (auto intro: known_claimed [OF step_claim(4,3)])
next
  case (step_publish d now e es env r wd)
  note p = publish_event_run [OF step_publish(4,3)]
  have "known_event (outbox (world s)) x" if "x \<in> insert e (set es)" for x
    using inv step_publish(2) that unfolding protocol_inv_def
    by (metis held_events.simps(2) insert_iff list.simps(15))
  moreover obtain xs where "bus wd = bus (world s) @ xs" using p(2) by blast
  ultimately show ?thesis
    using inv p(1,3) unfolding step_publish(1) protocol_inv_def by (auto simp: delivered_mono)
next
  case (step_success d now e i es env wd)
  note r = record_success_Inr [OF step_success(4,3)]
  have d: "delivered (to_event_envelope e) (bus (world s))" and k: "known_event (outbox (world s)) e"
    using inv step_success(2) unfolding protocol_inv_def by (blast, metis held_events.simps(3) insertI1)
  have u: "outbox_keys_unique (outbox (world s))" using inv by (simp add: protocol_inv_def outbox_valid_def)
  have c: "delivered (content m) (bus (world s))"
    if "m \<in> set (outbox (world s))" "ob_event_id m = cl_event_id e" for m
    using k d that unique_event [OF u] by (fastforce simp: known_event_def)
  have "known_event (outbox wd) x" if "x \<in> set es" for x
    using inv step_success(2) that known_event_kept [OF performs_rows_kept [OF r(3)]]
    unfolding protocol_inv_def by (metis held_events.simps(3) insertI2)
  then show ?thesis
    unfolding step_success(1)
    by (intro protocol_inv_transaction [OF inv r(3,2)]) (auto intro: c)
next
  case (step_failure d now e x es env wd)
  note r = record_failure_Inr(2,3) [OF step_failure(4,3)]
  have "known_event (outbox wd) y" if "y \<in> set es" for y
    using inv step_failure(2) that known_event_kept [OF performs_rows_kept [OF r(2)]]
    unfolding protocol_inv_def by (metis held_events.simps(3) insertI2)
  then show ?thesis
    unfolding step_failure(1) by (intro protocol_inv_transaction [OF inv r(2,1)]) auto
next
  case (step_stop w)
  then show ?thesis using inv by (auto simp: protocol_inv_def)
qed

lemma outbox_reachable_inv: "outbox_reachable s \<Longrightarrow> protocol_inv s"
proof (induction rule: outbox_reachable.induct)
  case outbox_start
  show ?case by (simp add: protocol_inv_def initial_system_def outbox_valid_def outbox_keys_unique_def)
next
  case (outbox_next s s')
  then show ?case by (blast intro: protocol_inv_step)
qed

end
