(* ===== verification/Outbox_Properties.thy ===== *)
theory Outbox_Properties
  imports Outbox_Protocol
begin

text \<open>
  What the transactional outbox guarantees: an event is marked published only after the bus has
  accepted it, no event is lost, a lease excludes the other workers, the oldest events go first,
  and a dispatcher in front of a reliable bus publishes everything it claims.
\<close>

section \<open>Delivery\<close>

text \<open>
  C3. At-least-once delivery, never a false acknowledgement: however many dispatchers run, crash
  or lose their lease, and however their transactions interleave, an outbox row that is marked
  published was accepted by the event bus with exactly its content. Assumed of the bus is only
  that it does not report an entry as accepted that it has not accepted.
\<close>
theorem published_was_delivered:
  assumes "outbox_reachable s" and "m \<in> set (outbox (world s))" and "ob_published_at m \<noteq> None"
  shows "delivered (content m) (bus (world s))"
  using outbox_reachable_inv [OF assms(1)] assms(2,3) by (simp add: protocol_inv_def)

lemma outbox_step_kept:
  assumes "outbox_step s s'"
  shows "rows_kept (outbox (world s)) (outbox (world s'))"
  using assms
proof cases
  case (step_insert fresh clock atype aid e rows)
  have "outbox_performs (Other 0) (outbox (world s)) rows"
    unfolding outbox_performs.simps using step_insert(2) by blast
  from performs_rows_kept [OF this] show ?thesis by (simp add: step_insert(1))
next
  case (step_claim d env now es wd)
  from performs_rows_kept [OF claim_events_Inr(1) [OF step_claim(4,3)]] show ?thesis
    by (simp add: step_claim(1))
next
  case (step_publish d now e es env r wd)
  from publish_event_run(1) [OF step_publish(4,3)] show ?thesis
    by (simp add: step_publish(1) rows_kept_refl)
next
  case (step_success d now e i es env wd)
  from performs_rows_kept [OF record_success_Inr(3) [OF step_success(4,3)]] show ?thesis
    by (simp add: step_success(1))
next
  case (step_failure d now e x es env wd)
  from performs_rows_kept [OF record_failure_Inr(3) [OF step_failure(4,3)]] show ?thesis
    by (simp add: step_failure(1))
next
  case (step_stop w)
  then show ?thesis by (simp add: rows_kept_refl)
qed

lemma large_batch:
  assumes "int (length rows) \<le> n"
  shows "take (nat n) (order_rows before (filter P rows)) = order_rows before (filter P rows)"
proof -
  have "length (filter P rows) \<le> nat n"
    by (rule order_trans [OF length_filter_le]) (use assms in linarith)
  then show ?thesis by simp
qed

text \<open>
  C10. No event is lost: from any state, whatever the workers do, the row of an event stays, with
  the event unchanged; once published it stays published; and until then it may be claimed as
  soon as it is due and the lease it is under, if any, is over, as that of a crashed worker will be, and a
  dispatcher that no other transaction gets in the way of does claim it with a large enough batch.
\<close>
theorem events_never_lost:
  assumes "outbox_step\<^sup>*\<^sup>* s s'" and "m \<in> set (outbox (world s))"
  shows "\<exists>m' \<in> set (outbox (world s')). ob_event_id m' = ob_event_id m \<and> content m' = content m
    \<and> (ob_published_at m \<noteq> None \<longrightarrow> ob_published_at m' \<noteq> None)
    \<and> (ob_published_at m' = None \<longrightarrow> (\<forall>now. ob_next_attempt_at m' \<le> now
         \<and> (case ob_locked_until m' of None \<Rightarrow> True | Some lease_end \<Rightarrow> lease_end \<le> now) \<longrightarrow>
           claimable now m' \<and> (\<forall>batch_size \<ge> int (length (outbox (world s'))).
             m' \<in> set (claim_batch (\<lambda>_. False) now batch_size (outbox (world s'))))))"
proof -
  have "rows_kept (outbox (world s)) (outbox (world s'))"
    using assms(1) by induction (auto intro: rows_kept_refl rows_kept_trans outbox_step_kept)
  then obtain m' where m': "m' \<in> set (outbox (world s'))" "same_event m m'"
    "ob_published_at m \<noteq> None \<longrightarrow> ob_published_at m' \<noteq> None"
    using assms(2) unfolding rows_kept_def by blast
  have "m' \<in> set (claim_batch (\<lambda>_. False) now batch_size (outbox (world s')))"
    if "claimable now m'" "int (length (outbox (world s'))) \<le> batch_size" for now batch_size
    using that m'(1) by (simp add: claim_batch_def large_batch)
  then show ?thesis using m' by (intro bexI [of _ m']) (auto simp: same_event_def claimable_def)
qed

section \<open>Leases\<close>

text \<open>
  Mutual exclusion: after a worker has claimed events, and as long as its lease lasts and it
  has not acknowledged the event itself, no sequence of claims, acknowledgements and insertions
  by any workers claims the event again or takes it from the worker.
\<close>
theorem lease_exclusion:
  assumes "outbox_valid rows" and "outbox_performs (Claim now w t K) rows rows1" and "k \<in> K"
    and "lease_run outbox_performs xs rows1 rows'" and "\<forall>x \<in> set xs. op_time x < t \<and> \<not> gives_up w k x"
  shows "outbox_item rows' k = Some (Held w t) \<and> (\<forall>x \<in> set xs. k \<notin> claimed_keys x)"
  by (rule outbox.exclusion [OF assms])

text \<open>
  Published is final: no sequence of transactions claims the event of a published row again.
\<close>
theorem published_is_final:
  assumes "outbox_valid rows" and "outbox_item rows k = Some (Done None)"
    and "lease_run outbox_performs xs rows rows'"
  shows "outbox_item rows' k = Some (Done None) \<and> (\<forall>x \<in> set xs. k \<notin> claimed_keys x)"
  by (rule outbox.done_final [OF assms])

text \<open>
  What one claim takes: at most \<open>batch_size\<close> distinct rows, each unpublished, due and not
  under a running lease, in the order of their events; each is returned, and left in the table,
  leased to the worker until \<open>lease_seconds\<close> from now; and no eligible row that was left behind
  (other than those locked by concurrent transactions) is older than one that was taken.
\<close>
theorem claim_takes_oldest:
  assumes "outbox_valid rows" and "strip w = w"
    and "claim_pending locked clock w n lease (Some (Aware now)) rows = Inr (es, rows')"
  defines "models \<equiv> claim_batch locked now n rows"
  shows "es = map (to_claimed_event \<circ> lock_row w (now + seconds lease)) models
    \<and> int (length es) \<le> n \<and> distinct (map ob_id models) \<and> sorted_wrt oldest_first models
    \<and> (\<forall>m \<in> set models. m \<in> set rows \<and> claimable now m
         \<and> outbox_item rows' (ob_event_id m) = Some (Held w (now + seconds lease)))
    \<and> (\<forall>m \<in> set rows. claimable now m \<and> \<not> locked (ob_id m) \<and> m \<notin> set models \<longrightarrow>
         int (length es) = n \<and> (\<forall>x \<in> set models. oldest_first x m))"
proof -
  have now: "resolve_utc clock (Some (Aware now)) = Inr now" by (simp add: resolve_utc_def)
  note cp = claim_pending_Inr [OF assms(3,2) now, folded models_def]
  have u: "outbox_keys_unique rows" using assms(1) by (simp add: outbox_valid_def)
  note b = claim_batch_bounds [OF u, of locked now n, folded models_def]
  have perf: "outbox_performs (Claim now w (now + seconds lease) (set (map cl_event_id es))) rows rows'"
    unfolding outbox_performs.simps using assms(2,3) now by blast
  have "outbox_item rows' (ob_event_id m) = Some (Held w (now + seconds lease))" if "m \<in> set models" for m
    using outbox_claim_item [OF assms(1) perf, of "ob_event_id m"] that
    by (auto simp: cp(2) to_claimed_event_def image_iff split: if_splits)
  moreover have "int (length es) = n \<and> (\<forall>x \<in> set models. oldest_first x m)"
    if m: "m \<in> set rows" "claimable now m" "\<not> locked (ob_id m)" "m \<notin> set models" for m
  proof -
    have "length models = nat n"
    proof (cases models)
      case Nil
      then have "filter (\<lambda>m. \<not> locked (ob_id m)) (order_rows oldest_first (filter (claimable now) rows)) = []"
        using cp(4) by (simp add: models_def claim_batch_def)
      then show ?thesis using m by (auto simp: filter_empty_conv)
    next
      case (Cons x xs)
      then show ?thesis using claim_batch_oldest(2) [of x locked now n rows m, folded models_def] m by simp
    qed
    then show ?thesis
      using claim_batch_oldest(1) [of _ locked now n rows m, folded models_def] m cp(2,4) by simp
  qed
  ultimately show ?thesis
    using b cp(2,4) claim_batch_spec(1,2) [of _ locked now n rows, folded models_def] by simp
qed

section \<open>The dispatcher as a run of the protocol\<close>

lemma set_worker_twice [simp]:
  "set_worker w st wd (set_worker w st' wd' s) = set_worker w st wd s"
  by simp

lemma record_failure_Inl: "record_failure env d e msg now wd = (Inl x, wd') \<Longrightarrow> wd' = wd"
  by (auto simp: record_failure_def elim!: bind_InlE dest: in_session_Inl)

lemma record_success_Inl: "record_success env d e now wd = (Inl x, wd') \<Longrightarrow> wd' = wd"
  by (auto simp: record_success_def dest: in_session_Inl)

lemma dispatch_events_steps:
  assumes "strip (d_worker_id d) = d_worker_id d" and "truthful_bus (ob_client env)"
    and "worker s (d_worker_id d) = Dispatching now es"
    and "dispatch_events env d now es r0 (world s) = (r, wd)"
  shows "outbox_step\<^sup>*\<^sup>* s (set_worker (d_worker_id d) Idle wd s)"
  using assms(3,4)
proof (induction es arbitrary: s r0)
  case Nil
  then have wd: "wd = world s" by simp
  show ?case unfolding wd by (rule r_into_rtranclp) (rule step_stop)
next
  case (Cons e es)
  let ?w = "d_worker_id d"
  obtain p w1 where p: "publish_event env d e (world s) = (p, w1)" by fastforce
  let ?s1 = "set_worker ?w (Acknowledging now e p es) w1 s"
  have s1: "outbox_step s ?s1" by (rule step_publish [OF Cons.prems(1) assms(2) p])
  have stop: "outbox_step ?s1 (set_worker ?w Idle w1 s)" using step_stop [of ?s1 ?w] by simp
  have go: "outbox_step\<^sup>*\<^sup>* s (set_worker ?w Idle wd s)"
    if "outbox_step ?s1 (set_worker ?w (Dispatching now es) w2 ?s1)"
      and "dispatch_events env d now es r1 w2 = (r, wd)" for w2 r1
  proof -
    let ?s2 = "set_worker ?w (Dispatching now es) w2 s"
    have "outbox_step\<^sup>*\<^sup>* ?s2 (set_worker ?w Idle wd ?s2)"
      by (rule Cons.IH) (use that(2) in simp_all)
    then show ?thesis
      using s1 that(1) by (simp add: converse_rtranclp_into_rtranclp)
  qed
  show ?case
  proof (cases p)
    case (Inl x)
    show ?thesis
    proof (cases "record_failure env d e (ob_describe env x) now w1")
      case (Pair a w2)
      show ?thesis
      proof (cases a)
        case a: (Inl y)
        then have "wd = w1" using Cons.prems(2) p Inl Pair record_failure_Inl by fastforce
        then show ?thesis using s1 stop by (meson converse_rtranclp_into_rtranclp r_into_rtranclp)
      next
        case a: (Inr y)
        have "outbox_step ?s1 (set_worker ?w (Dispatching now es) w2 ?s1)"
          by (rule step_failure [where env = env]) (use assms(1) Inl Pair a in simp_all)
        then show ?thesis
          by (rule go) (use Cons.prems(2) p Inl Pair a in simp)
      qed
    qed
  next
    case (Inr i)
    show ?thesis
    proof (cases "record_success env d e now w1")
      case (Pair a w2)
      show ?thesis
      proof (cases a)
        case a: (Inl y)
        then have "wd = w1" using Cons.prems(2) p Inr Pair record_success_Inl by fastforce
        then show ?thesis using s1 stop by (meson converse_rtranclp_into_rtranclp r_into_rtranclp)
      next
        case a: (Inr y)
        have "outbox_step ?s1 (set_worker ?w (Dispatching now es) w2 ?s1)"
          by (rule step_success [where env = env]) (use assms(1) Inr Pair a in simp_all)
        then show ?thesis
          by (rule go) (use Cons.prems(2) p Inr Pair a in simp)
      qed
    qed
  qed
qed

lemma dispatch_once_steps:
  assumes "strip (d_worker_id d) = d_worker_id d" and "truthful_bus (ob_client env)"
    and "worker s (d_worker_id d) = Idle" and "dispatch_once env d now (world s) = (r, wd)"
  shows "outbox_step\<^sup>*\<^sup>* s (set_worker (d_worker_id d) Idle wd s)"
proof -
  let ?w = "d_worker_id d"
  have stop: "outbox_step\<^sup>*\<^sup>* s (set_worker ?w Idle (world s) s)"
    by (rule r_into_rtranclp) (rule step_stop)
  show ?thesis
  proof (cases "resolve_utc (ob_clock env) now")
    case (Inl e)
    then have "wd = world s" using assms(4) by (simp add: dispatch_once_def bind_run)
    then show ?thesis using stop by blast
  next
    case (Inr at')
    obtain c w1 where c: "claim_events env d at' (world s) = (c, w1)" by fastforce
    show ?thesis
    proof (cases c)
      case (Inl e)
      have "w1 = world s" using c Inl unfolding claim_events_def by (auto dest: in_session_Inl)
      then have "wd = world s" using assms(4) Inr Inl c by (simp add: dispatch_once_def bind_run)
      then show ?thesis using stop by blast
    next
      case es: (Inr es)
      let ?s1 = "set_worker ?w (Dispatching at' es) w1 s"
      have "outbox_step s ?s1"
        by (rule step_claim [OF assms(3,1)]) (use c es in simp)
      moreover have "outbox_step\<^sup>*\<^sup>* ?s1 (set_worker ?w Idle wd ?s1)"
        by (rule dispatch_events_steps [OF assms(1,2)])
          (use assms(4) Inr es c in \<open>simp_all add: dispatch_once_def bind_run\<close>)
      ultimately show ?thesis by (simp add: converse_rtranclp_into_rtranclp)
    qed
  qed
qed

text \<open>
  Refinement: a call of \<open>dispatch_once\<close>, whether it returns or raises, is a run of the
  protocol's steps by its worker, so everything proved of the protocol holds of the code.
\<close>
theorem dispatch_once_refines:
  assumes "strip (d_worker_id d) = d_worker_id d" and "truthful_bus (ob_client env)"
    and "worker s (d_worker_id d) = Idle" and "dispatch_once env d now (world s) = (r, wd)"
  shows "outbox_step\<^sup>*\<^sup>* s (set_worker (d_worker_id d) Idle wd s)"
  by (rule dispatch_once_steps [OF assms])

section \<open>Progress\<close>

text \<open>A bus that accepts what it is sent, and an event the publisher can send.\<close>

definition reliable_bus :: "'p event_bus \<Rightarrow> bool" where
  "reliable_bus client \<longleftrightarrow> (\<forall>entry lg. \<exists>response i. client entry lg = (Inr response, lg @ [entry])
     \<and> check_response response = Inr i)"

definition sendable :: "'p outbox_row \<Rightarrow> bool" where
  "sendable m \<longleftrightarrow> (\<exists>c. content m = Inr c) \<and> strip (ob_source m) \<noteq> []"

lemma publish_reliable:
  assumes "reliable_bus (ob_client env)" and "to_event_envelope e = Inr c" and "strip (cl_source e) \<noteq> []"
  shows "\<exists>i lg. publish_event env d e wd = (Inr i, wd\<lparr>bus := lg\<rparr>)"
proof -
  have "\<exists>s. eventbridge_source (cl_source e) = Inr s"
    using assms(3) by (simp add: eventbridge_source_def Let_def)
  then obtain s where s: "eventbridge_source (cl_source e) = Inr s" by blast
  obtain response i where "ob_client env \<lparr>pe_source = s, pe_detail_type = cl_event_type e,
      pe_detail = to_event_dict c, pe_event_bus_name = d_event_bus_name d\<rparr> (bus wd)
      = (Inr response, bus wd @ [\<lparr>pe_source = s, pe_detail_type = cl_event_type e,
          pe_detail = to_event_dict c, pe_event_bus_name = d_event_bus_name d\<rparr>])"
    "check_response response = Inr i"
    using assms(1) unfolding reliable_bus_def by blast
  then show ?thesis
    using assms(2) s by (simp add: publish_event_def publish_def bind_run) blast
qed

definition published_row :: "int \<Rightarrow> 'p outbox_row \<Rightarrow> 'p outbox_row" where
  "published_row now m = m\<lparr>ob_published_at := Some now, ob_locked_by := None, ob_locked_until := None,
     ob_last_error := None\<rparr>"

lemma published_row_sel [simp]:
  "ob_event_id (published_row now m) = ob_event_id m" "ob_id (published_row now m) = ob_id m"
  "ob_published_at (published_row now m) = Some now" "outbox_row_fits m \<Longrightarrow> outbox_row_fits (published_row now m)"
  by (simp_all add: published_row_def outbox_row_fits_def)

lemma flush_update:
  assumes "outbox_flush rows = Inr rows" and "\<And>m. outbox_row_fits m \<Longrightarrow> outbox_row_fits (f m)"
    and "\<And>m. ob_id (f m) = ob_id m" and "\<And>m. ob_event_id (f m) = ob_event_id m"
  shows "outbox_flush (update_where P f rows) = Inr (update_where P f rows)"
  using assms(1)
  by (simp add: outbox_flush_Inr outbox_keys_unique_def map_update_where assms(3,4) list_all_update_where assms(2))

lemma claimed_event_id [simp]: "cl_event_id (to_claimed_event m) = ob_event_id m"
  by (simp add: to_claimed_event_def)

lemma mark_published_run:
  assumes "outbox_flush rows = Inr rows" and "get_claimed_model k w rows = Some m" and "strip w = w" and "w \<noteq> []"
  shows "mark_published clock k w (Some (Aware now)) rows
    = Inr (True, update_where (\<lambda>x. ob_event_id x = k) (published_row now) rows)"
proof -
  have u: "outbox_keys_unique rows" using assms(1) by (simp add: outbox_flush_Inr)
  note g = get_claimed_Some [OF assms(2)]
  have "x \<in> set rows \<Longrightarrow> ob_id x = ob_id m \<longleftrightarrow> ob_event_id x = k" for x
    using unique_id [OF u _ g(1)] unique_event [OF u _ g(1)] g(2) by metis
  then have same: "update_where (\<lambda>x. ob_id x = ob_id m) (published_row now) rows
      = update_where (\<lambda>x. ob_event_id x = k) (published_row now) rows"
    by (simp add: update_where_def)
  have f: "(\<lambda>m. m\<lparr>ob_published_at := Some now, ob_locked_by := None, ob_locked_until := None, ob_last_error := None\<rparr>)
      = published_row now"
    by (simp add: published_row_def fun_eq_iff)
  show ?thesis
    using assms flush_update [OF assms(1), of "published_row now" "\<lambda>x. ob_event_id x = k"]
    by (simp add: mark_published_def resolve_utc_def Let_def f same)
qed

lemma first_where_update_other:
  assumes "\<And>x. P x \<Longrightarrow> \<not> Q x \<and> \<not> Q (f x)"
  shows "first_where Q (update_where P f rows) = first_where Q rows"
  using assms by (induction rows) (auto simp: first_where_def update_where_def)

lemma get_claimed_update:
  "k \<noteq> k' \<Longrightarrow> get_claimed_model k w (update_where (\<lambda>x. ob_event_id x = k') (published_row now) rows)
    = get_claimed_model k w rows"
  unfolding get_claimed_model_def by (rule first_where_update_other) auto

lemma update_where_twice:
  assumes "\<And>x. k (f x) = k x" and "a \<notin> A"
  shows "update_where (\<lambda>x. k x \<in> A) f (update_where (\<lambda>x. k x = a) f rows) =
    update_where (\<lambda>x. k x = a \<or> k x \<in> A) f rows"
  using assms(2) by (auto simp: update_where_def assms(1))

lemma dispatch_events_reliable:
  assumes "reliable_bus (ob_client env)" and "\<And>rows. ob_commit_error env rows = None"
    and "strip (d_worker_id d) = d_worker_id d" and "d_worker_id d \<noteq> []"
    and "outbox_flush (outbox wd) = Inr (outbox wd)" and "distinct (map cl_event_id es)"
    and "\<forall>e \<in> set es. (\<exists>m. get_claimed_model (cl_event_id e) (d_worker_id d) (outbox wd) = Some m)
      \<and> (\<exists>c. to_event_envelope e = Inr c) \<and> strip (cl_source e) \<noteq> []"
  shows "\<exists>wd'. dispatch_events env d now es r wd = (Inr (r\<lparr>dr_published := dr_published r + int (length es)\<rparr>), wd')
    \<and> outbox wd' = update_where (\<lambda>m. ob_event_id m \<in> set (map cl_event_id es)) (published_row now) (outbox wd)"
  using assms(5-7)
proof (induction es arbitrary: wd r)
  case Nil
  then show ?case by (simp add: update_where_none)
next
  case (Cons e es)
  let ?k = "cl_event_id e"
  let ?rows = "update_where (\<lambda>x. ob_event_id x = ?k) (published_row now) (outbox wd)"
  obtain c where c: "to_event_envelope e = Inr c" "strip (cl_source e) \<noteq> []" using Cons.prems(3) by auto
  obtain i lg where p: "publish_event env d e wd = (Inr i, wd\<lparr>bus := lg\<rparr>)"
    using publish_reliable [OF assms(1) c] by blast
  obtain m where m: "get_claimed_model ?k (d_worker_id d) (outbox wd) = Some m" using Cons.prems(3) by auto
  let ?wd = "wd\<lparr>bus := lg, outbox := ?rows\<rparr>"
  have "record_success env d e now (wd\<lparr>bus := lg\<rparr>) = (Inr (), ?wd)"
    using mark_published_run [OF Cons.prems(1) m assms(3,4)] assms(2)
    by (simp add: record_success_def in_session_def acknowledged_def)
  then have step: "dispatch_events env d now (e # es) r wd
      = dispatch_events env d now es (r\<lparr>dr_published := dr_published r + 1\<rparr>) ?wd"
    using p by simp
  have flush: "outbox_flush (outbox ?wd) = Inr (outbox ?wd)"
    using flush_update [OF Cons.prems(1), of "published_row now"] by simp
  have "\<forall>e' \<in> set es. (\<exists>m. get_claimed_model (cl_event_id e') (d_worker_id d) (outbox ?wd) = Some m)
      \<and> (\<exists>c. to_event_envelope e' = Inr c) \<and> strip (cl_source e') \<noteq> []"
    using Cons.prems(2,3) by (auto simp: get_claimed_update image_iff)
  then obtain wd' where "dispatch_events env d now es (r\<lparr>dr_published := dr_published r + 1\<rparr>) ?wd =
      (Inr (r\<lparr>dr_published := dr_published r + 1 + int (length es)\<rparr>), wd')"
    "outbox wd' = update_where (\<lambda>m. ob_event_id m \<in> set (map cl_event_id es)) (published_row now) ?rows"
    using Cons.IH [OF flush, of "r\<lparr>dr_published := dr_published r + 1\<rparr>"] Cons.prems(2) by auto
  then show ?case
    using step update_where_twice [of ob_event_id "published_row now" ?k "set (map cl_event_id es)" "outbox wd"]
      Cons.prems(2) by (auto simp: algebra_simps)
qed

text \<open>A claim of a batch: the rows after it, and the events it answers.\<close>

definition claimed_rows :: "string \<Rightarrow> int \<Rightarrow> 'p outbox_row list \<Rightarrow> 'p outbox_row list \<Rightarrow> 'p outbox_row list" where
  "claimed_rows w until batch rows = update_where (\<lambda>m. ob_id m \<in> set (map ob_id batch)) (lock_row w until) rows"

definition claimed_events :: "string \<Rightarrow> int \<Rightarrow> 'p outbox_row list \<Rightarrow> 'p claimed_event list" where
  "claimed_events w until batch = map (to_claimed_event \<circ> lock_row w until) batch"

lemma claimed_rows_flush: "outbox_flush rows = Inr rows \<Longrightarrow> length w \<le> 128 \<Longrightarrow> outbox_flush (claimed_rows w until batch rows) = Inr (claimed_rows w until batch rows)"
  unfolding claimed_rows_def by (intro flush_update) (auto simp: outbox_row_fits_def lock_row_def)

lemma claimed_rows_mem: "m \<in> set batch \<Longrightarrow> m \<in> set rows \<Longrightarrow> lock_row w until m \<in> set (claimed_rows w until batch rows)"
  unfolding claimed_rows_def set_update_where by fastforce

lemma claim_events_run:
  assumes "dispatcher_new w n lease bus_name = Inr d" "length (d_worker_id d) \<le> 128"
    and "\<And>rows. ob_commit_error env rows = None" "outbox_flush (outbox wd) = Inr (outbox wd)"
  shows "claim_events env d now wd = (let batch = claim_batch (ob_locked env) now n (outbox wd); until = now + seconds lease in
    (Inr (claimed_events (d_worker_id d) until batch), wd\<lparr>outbox := claimed_rows (d_worker_id d) until batch (outbox wd)\<rparr>))"
proof -
  have d: "strip (d_worker_id d) = d_worker_id d" "d_worker_id d \<noteq> []" "d_batch_size d = n" "d_lease_seconds d = lease" "1 \<le> n" "1 \<le> lease"
    using assms(1) by (auto simp: dispatcher_new_def Let_def split: if_splits)
  show ?thesis
    using d assms(3) claimed_rows_flush [OF assms(4,2)]
    by (simp add: claim_events_def in_session_def claim_pending_def resolve_utc_def claimed_rows_def claimed_events_def Let_def)
qed

lemma claimed_events_ready:
  assumes "batch = claim_batch locked now n rows" and "outbox_keys_unique rows" "\<forall>m \<in> set rows. claimable now m \<longrightarrow> sendable m"
    and "e \<in> set (claimed_events w until batch)"
  shows "(\<exists>m. get_claimed_model (cl_event_id e) w (claimed_rows w until batch rows) = Some m)
    \<and> (\<exists>c. to_event_envelope e = Inr c) \<and> strip (cl_source e) \<noteq> []"
proof -
  obtain m where m: "m \<in> set batch" "e = to_claimed_event (lock_row w until m)" using assms(4) by (auto simp: claimed_events_def)
  have spec: "m \<in> set rows" "claimable now m" using claim_batch_spec [OF m(1) [unfolded assms(1)]] by auto
  have "\<exists>x. get_claimed_model (ob_event_id m) w (claimed_rows w until batch rows) = Some x"
    unfolding get_claimed_model_def using claimed_rows_mem [OF m(1) spec(1), of w until] spec(2)
    by (cases "first_where (\<lambda>x. ob_event_id x = ob_event_id m \<and> ob_locked_by x = Some w \<and> ob_published_at x = None) (claimed_rows w until batch rows)")
      (auto simp: first_where_None lock_row_def claimable_def)
  moreover have "\<exists>c. to_event_envelope e = Inr c" "strip (cl_source e) \<noteq> []"
    using assms(3) spec same_event_lock [of m w until] m(2)
    by (auto simp: sendable_def same_event_def content_def to_claimed_event_def lock_row_def)
  ultimately show ?thesis using m(2) by simp
qed

lemma claimed_events_distinct:
  assumes "outbox_keys_unique rows"
  shows "distinct (map cl_event_id (claimed_events w until (claim_batch locked now n rows)))"
proof -
  have "inj_on ob_event_id (set (claim_batch locked now n rows))"
    by (rule inj_onI) (use unique_event [OF assms] claim_batch_spec in blast)
  then show ?thesis using claim_batch_bounds(2) [OF assms] by (simp add: claimed_events_def comp_def distinct_map)
qed

text \<open>What the claim and the marks of its whole batch leave of each row.\<close>

lemma published_batch_rows:
  assumes "outbox_keys_unique rows" "set batch \<subseteq> set rows" "m \<in> set rows"
    and "rows' = update_where (\<lambda>m. ob_event_id m \<in> set (map cl_event_id (claimed_events w until batch))) (published_row now) (claimed_rows w until batch rows)"
  shows "if m \<in> set batch then (\<exists>m' \<in> set rows'. same_event m m' \<and> ob_published_at m' = Some now) else m \<in> set rows'"
proof -
  have ids: "cl_event_id ` set (claimed_events w until batch) = ob_event_id ` set batch" by (simp add: claimed_events_def image_comp comp_def)
  have "published_row now (lock_row w until m) \<in> set rows'" if "m \<in> set batch"
    using claimed_rows_mem [OF that assms(3)] that by (auto simp: assms(4) ids set_update_where)
  moreover have "same_event m (published_row now (lock_row w until m)) \<and> ob_published_at (published_row now (lock_row w until m)) = Some now"
    by (auto intro: content_cong simp: published_row_def lock_row_def)
  moreover have "m \<in> set rows'" if "m \<notin> set batch"
  proof -
    have "ob_id m \<notin> set (map ob_id batch)"
      using that assms(3) unique_id [OF assms(1)] assms(2) by (metis (no_types, lifting) imageE list.set_map subsetD)
    then have "m \<in> set (claimed_rows w until batch rows)" using assms(3) by (auto simp: claimed_rows_def set_update_where)
    moreover have "ob_event_id m \<notin> ob_event_id ` set batch"
      using that assms(3) unique_event [OF assms(1)] assms(2) by (metis (no_types, lifting) imageE subsetD)
    ultimately show ?thesis by (simp add: assms(4) ids set_update_where)
  qed
  ultimately show ?thesis by (auto intro: bexI)
qed

lemma empty_batch_locked:
  assumes "claim_batch locked now n rows = []" "1 \<le> n" "m \<in> set rows" "claimable now m"
  shows "locked (ob_id m)"
proof (rule ccontr)
  let ?c = "filter (\<lambda>m. \<not> locked (ob_id m)) (order_rows oldest_first (filter (claimable now) rows))"
  assume "\<not> locked (ob_id m)"
  then have m: "m \<in> set ?c" using assms(3,4) by simp
  have "take (nat n) ?c = []" using assms(1) unfolding claim_batch_def .
  then have "nat n = 0 \<or> ?c = []" by (simp only: take_eq_Nil)
  then show False using m assms(2) by (elim disjE) (simp, simp only: list.set(1) empty_iff)
qed

text \<open>
  C39. Progress: in front of a reliable bus and database, a call of \<open>dispatch_once\<close> returns; it has
  published every event it claimed and failed none; exactly the rows of its batch are now marked
  published, and every other row is as it was. The batch is empty only if nothing is claimable.
\<close>
theorem reliable_dispatch_publishes:
  assumes "reliable_bus (ob_client env)" and "\<And>rows. ob_commit_error env rows = None"
    and "dispatcher_new w n lease bus_name = Inr d" and "length (d_worker_id d) \<le> 128"
    and "outbox_flush (outbox wd) = Inr (outbox wd)" and "list_all lock_consistent (outbox wd)"
    and "\<forall>m \<in> set (outbox wd). claimable now m \<longrightarrow> sendable m"
  defines "batch \<equiv> claim_batch (ob_locked env) now n (outbox wd)"
  shows "\<exists>wd'. dispatch_once env d (Some (Aware now)) wd = (Inr \<lparr>dr_claimed = int (length batch),
        dr_published = int (length batch), dr_failed = 0\<rparr>, wd')
    \<and> (\<forall>m \<in> set (outbox wd). if m \<in> set batch
         then (\<exists>m' \<in> set (outbox wd'). same_event m m' \<and> ob_published_at m' = Some now)
         else m \<in> set (outbox wd'))
    \<and> (batch = [] \<longrightarrow> (\<forall>m \<in> set (outbox wd). claimable now m \<longrightarrow> ob_locked env (ob_id m)))"
proof -
  let ?w = "d_worker_id d" and ?until = "now + seconds lease"
  let ?es = "claimed_events ?w ?until batch" and ?wd1 = "wd\<lparr>outbox := claimed_rows ?w ?until batch (outbox wd)\<rparr>"
  have d: "strip ?w = ?w" "?w \<noteq> []" "1 \<le> n" using assms(3) by (auto simp: dispatcher_new_def Let_def split: if_splits)
  have u: "outbox_keys_unique (outbox wd)" using assms(5) by (simp add: outbox_flush_Inr)
  have sub: "set batch \<subseteq> set (outbox wd)" using claim_batch_spec unfolding batch_def by blast
  have claim: "claim_events env d now wd = (Inr ?es, ?wd1)"
    using claim_events_run [OF assms(3,4,2,5)] by (simp add: Let_def batch_def)
  have len: "length ?es = length batch" by (simp add: claimed_events_def)
  have dist: "distinct (map cl_event_id ?es)" unfolding batch_def by (rule claimed_events_distinct [OF u])
  have ready: "\<forall>e \<in> set ?es. (\<exists>m. get_claimed_model (cl_event_id e) ?w (outbox ?wd1) = Some m)
      \<and> (\<exists>c. to_event_envelope e = Inr c) \<and> strip (cl_source e) \<noteq> []"
    using claimed_events_ready [OF batch_def [THEN meta_eq_to_obj_eq] u assms(7)] by simp
  obtain wd' where run: "dispatch_events env d now ?es \<lparr>dr_claimed = int (length ?es), dr_published = 0, dr_failed = 0\<rparr> ?wd1
      = (Inr \<lparr>dr_claimed = int (length ?es), dr_published = int (length ?es), dr_failed = 0\<rparr>, wd')"
    and rows': "outbox wd' = update_where (\<lambda>m. ob_event_id m \<in> set (map cl_event_id ?es)) (published_row now) (outbox ?wd1)"
    using dispatch_events_reliable [OF assms(1,2) d(1,2) _ dist ready, where now = now
        and r = "\<lparr>dr_claimed = int (length ?es), dr_published = 0, dr_failed = 0\<rparr>"] claimed_rows_flush [OF assms(5,4)]
    by auto
  have "dispatch_once env d (Some (Aware now)) wd = (Inr \<lparr>dr_claimed = int (length batch),
        dr_published = int (length batch), dr_failed = 0\<rparr>, wd')"
    using run claim by (simp add: dispatch_once_def bind_run resolve_utc_def len)
  moreover have "if m \<in> set batch then (\<exists>m' \<in> set (outbox wd'). same_event m m' \<and> ob_published_at m' = Some now)
      else m \<in> set (outbox wd')" if "m \<in> set (outbox wd)" for m
    by (rule published_batch_rows [OF u sub that]) (simp add: rows')
  moreover have "ob_locked env (ob_id m)" if "batch = []" "m \<in> set (outbox wd)" "claimable now m" for m
    using empty_batch_locked [OF _ d(3) that(2,3)] that(1) by (simp add: batch_def)
  ultimately show ?thesis by (intro exI [of _ wd'] conjI ballI impI) simp_all
qed

text \<open>
  Back-off: when a failed publication has been recorded, the row of the event is unlocked and
  unpublished, counts one attempt more and carries an error text; it cannot be claimed before the
  delay for its number of attempts (5, 30, 120, then always 600 seconds) has passed, and can be
  from then on.
\<close>
theorem failed_event_retried:
  assumes "outbox_valid (outbox wd)" and "strip (d_worker_id d) = d_worker_id d"
    and "record_failure env d e msg now wd = (Inr (), wd')"
  shows "\<exists>m \<in> set (outbox wd). \<exists>m' \<in> set (outbox wd'). ob_event_id m = cl_event_id e \<and> same_event m m'
    \<and> ob_published_at m' = None \<and> ob_attempt_count m' = ob_attempt_count m + 1
    \<and> (\<exists>text. ob_last_error m' = Some text \<and> text \<noteq> []) \<and> outbox_item (outbox wd') (cl_event_id e) = None
    \<and> (let n = cl_attempt_count e;
           delay = (if n = 0 then 5 else if n = 1 then 30 else if n = 2 then 120 else 600)
         in \<forall>t. claimable t m' \<longleftrightarrow> now + seconds delay \<le> t)"
proof -
  obtain delay where delay: "retry_delay (cl_attempt_count e) = Inr delay"
    and run: "mark_failed (ob_clock env) (cl_event_id e) (d_worker_id d) msg (Aware (now + delay)) (outbox wd)
        = Inr (True, outbox wd')"
    and perf: "outbox_performs (Release now (d_worker_id d) (cl_event_id e)) (outbox wd) (outbox wd')"
    using record_failure_Inr [OF assms(3,2)] by blast
  from run assms(2) obtain m i where m: "get_claimed_model (cl_event_id e) (d_worker_id d) (outbox wd) = Some m"
    and rows: "outbox wd' = update_where (\<lambda>x. ob_id x = ob_id m) (\<lambda>m. m\<lparr>ob_attempt_count := ob_attempt_count m + 1,
        ob_last_error := Some (if strip msg = [] then ''unknown publish failure'' else strip msg),
        ob_next_attempt_at := i, ob_locked_by := None, ob_locked_until := None\<rparr>) (outbox wd)"
    and i: "resolve_utc (ob_clock env) (Some (Aware (now + delay))) = Inr i"
    by (rule mark_failed_Inr)
  note g = get_claimed_Some [OF m]
  let ?m' = "m\<lparr>ob_attempt_count := ob_attempt_count m + 1,
        ob_last_error := Some (if strip msg = [] then ''unknown publish failure'' else strip msg),
        ob_next_attempt_at := now + delay, ob_locked_by := None, ob_locked_until := None\<rparr>"
  have i': "i = now + delay" using i by (simp add: resolve_utc_def)
  have m': "?m' \<in> set (outbox wd')" using g(1) unfolding rows i' set_update_where by blast
  have "delay = (let n = cl_attempt_count e
      in seconds (if n = 0 then 5 else if n = 1 then 30 else if n = 2 then 120 else 600))"
  proof -
    consider "cl_attempt_count e = 0" | "cl_attempt_count e = 1" | "cl_attempt_count e = 2" | "3 \<le> cl_attempt_count e"
      using delay by (force simp: retry_delay_def split: if_splits)
    then show ?thesis
      using delay by cases (auto simp: retry_delay_def retry_delays_seconds_def Let_def split: if_splits)
  qed
  then have "claimable t ?m' \<longleftrightarrow> now + (let n = cl_attempt_count e
      in seconds (if n = 0 then 5 else if n = 1 then 30 else if n = 2 then 120 else 600)) \<le> t" for t
    using g(4) by (simp add: claimable_def)
  moreover have "same_event m ?m'" by (rule content_cong) simp_all
  moreover have "outbox_item (outbox wd') (cl_event_id e) = None"
    using outbox_release_item(1) [OF assms(1) perf] by simp
  ultimately show ?thesis
    using g m' by (intro bexI [OF _ g(1)] bexI [OF _ m']) (auto simp: Let_def split: if_splits)
qed

section \<open>A scenario\<close>

text \<open>One event in the outbox, one dispatcher, and a bus that accepts everything.\<close>

definition accepting_bus :: "nat event_bus" where
  "accepting_bus = (\<lambda>entry lg. (Inr \<lparr>failed_entry_count = Some 0, response_entries =
     Some [\<lparr>res_error_code = None, res_error_message = None, res_event_id = Some ''e1''\<rparr>]\<rparr>, lg @ [entry]))"

definition calm_env :: "nat outbox_env" where
  "calm_env = \<lparr>ob_clock = 0, ob_locked = (\<lambda>_. False), ob_commit_error = (\<lambda>_. None), ob_client = accepting_bus,
     ob_describe = (\<lambda>_. ''error'')\<rparr>"

definition sample_dispatcher :: dispatcher where
  "sample_dispatcher = \<lparr>d_worker_id = ''w1'', d_batch_size = 10, d_lease_seconds = 60, d_event_bus_name = ''default''\<rparr>"

definition sample_row :: "nat outbox_row" where
  "sample_row = outbox_row_of 9 0 ''portfolio'' ''42'' sample_envelope"

definition before_dispatch :: "nat outbox_world" where
  "before_dispatch = \<lparr>outbox = [sample_row], bus = []\<rparr>"

definition after_dispatch :: "nat outbox_world" where
  "after_dispatch = \<lparr>outbox = [published_row 10 sample_row],
     bus = [\<lparr>pe_source = ''realstock.portfolio-api'', pe_detail_type = ''portfolio.created'',
             pe_detail = to_event_dict sample_envelope, pe_event_bus_name = ''default''\<rparr>]\<rparr>"

lemma accepting_bus_truthful: "truthful_bus accepting_bus"
  by (simp add: truthful_bus_def accepting_bus_def)

lemma accepting_bus_reliable: "reliable_bus accepting_bus"
  by (simp add: reliable_bus_def accepting_bus_def check_response_def truthy_def Let_def)

lemma calm_env_sel [simp]:
  "ob_client calm_env = accepting_bus" "ob_commit_error calm_env rows = None" "ob_locked calm_env i = False"
  by (simp_all add: calm_env_def)

lemma scenario_dispatch:
  "dispatch_once calm_env sample_dispatcher (Some (Aware 10)) before_dispatch =
     (Inr \<lparr>dr_claimed = 1, dr_published = 1, dr_failed = 0\<rparr>, after_dispatch)"
  by code_simp

lemma sample_row_added: "add_event 9 0 ''portfolio'' ''42'' sample_envelope [] = Inr [sample_row]"
  by code_simp

lemma sample_strip: "strip (d_worker_id sample_dispatcher) = d_worker_id sample_dispatcher"
  by code_simp

definition sample_system :: "nat outbox_system" where
  "sample_system = initial_system\<lparr>world := before_dispatch\<rparr>"

lemma sample_system_reachable: "outbox_reachable sample_system"
proof -
  have "add_event 9 0 ''portfolio'' ''42'' sample_envelope (outbox (world initial_system)) = Inr [sample_row]"
    by (simp add: initial_system_def sample_row_added)
  from outbox_next [OF outbox_start step_insert [OF this]] show ?thesis
    by (simp add: sample_system_def initial_system_def before_dispatch_def)
qed

lemma sample_run: "outbox_step\<^sup>*\<^sup>* sample_system (set_worker (d_worker_id sample_dispatcher) Idle after_dispatch sample_system)"
  by (rule dispatch_once_steps [OF sample_strip])
    (use scenario_dispatch in \<open>simp_all add: sample_system_def initial_system_def accepting_bus_truthful\<close>)

section \<open>The properties at work\<close>

lemma sample_system_delivered: "outbox_reachable (set_worker (d_worker_id sample_dispatcher) Idle after_dispatch sample_system)"
  using sample_run by (induction rule: rtranclp_induct) (auto intro: sample_system_reachable outbox_next)

theorem published_was_delivered_witness: "delivered (Inr sample_envelope) (bus after_dispatch)"
proof -
  have "content (published_row 10 sample_row) = Inr sample_envelope" by code_simp
  moreover have "outbox after_dispatch = [published_row 10 sample_row]" by (simp add: after_dispatch_def)
  ultimately show ?thesis
    using published_was_delivered [OF sample_system_delivered, of "published_row 10 sample_row"] by simp
qed

theorem events_never_lost_witness:
  "\<exists>m' \<in> set (outbox after_dispatch). ob_event_id m' = 5 \<and> content m' = content sample_row"
proof -
  have "sample_row \<in> set (outbox (world sample_system))"
    by (simp add: sample_system_def before_dispatch_def)
  moreover have "ob_event_id sample_row = 5" by code_simp
  ultimately show ?thesis using events_never_lost [OF sample_run, of sample_row] by fastforce
qed

lemma sample_rows_valid: "outbox_valid [sample_row]"
  by code_simp

definition sample_leased :: "nat outbox_row list" where
  "sample_leased = [lock_row ''w1'' 60000010 sample_row]"

lemma sample_claim: "claim_pending (\<lambda>_. False) 0 ''w1'' 10 60 (Some (Aware 10)) [sample_row]
    = Inr ([to_claimed_event (lock_row ''w1'' 60000010 sample_row)], sample_leased)"
  by code_simp

lemma sample_claim_performs: "outbox_performs (Claim 10 ''w1'' 60000010 {5}) [sample_row] sample_leased"
proof -
  have "set (map cl_event_id [to_claimed_event (lock_row ''w1'' 60000010 sample_row)]) = {5}"
    by (simp add: sample_row_def outbox_row_of_def sample_envelope_def)
  moreover have "strip ''w1'' = ''w1''" "resolve_utc 0 (Some (Aware 10)) = Inr 10" by code_simp+
  ultimately show ?thesis
    unfolding outbox_performs.simps using sample_claim
    by (intro exI [of _ "\<lambda>_. False"] exI [of _ 0] exI [of _ 10] exI [of _ 60] exI [of _ "Some (Aware 10)"] exI conjI)
      (assumption | simp)+
qed

text \<open>Another worker that looks before the lease has ended gets nothing.\<close>

lemma sample_second_claim: "outbox_performs (Claim 20 ''w2'' 60000020 {}) sample_leased sample_leased"
proof -
  have "claim_pending (\<lambda>_. False) 0 ''w2'' 10 60 (Some (Aware 20)) sample_leased = Inr ([], sample_leased)"
    "strip ''w2'' = ''w2''" "resolve_utc 0 (Some (Aware 20)) = Inr 20" by code_simp+
  then show ?thesis
    unfolding outbox_performs.simps
    by (intro exI [of _ "\<lambda>_. False"] exI [of _ 0] exI [of _ 10] exI [of _ 60] exI [of _ "Some (Aware 20)"] exI [of _ "[]"])
      simp
qed

theorem lease_exclusion_witness: "outbox_item sample_leased 5 = Some (Held ''w1'' 60000010)"
  using lease_exclusion [OF sample_rows_valid sample_claim_performs, of 5 "[Claim 20 ''w2'' 60000020 {}]" sample_leased]
    sample_second_claim by (simp del: outbox_performs.simps)

theorem published_is_final_witness:
  "outbox_item [published_row 10 sample_row] 5 = Some (Done None)"
proof -
  let ?rows = "[published_row 10 sample_row]"
  have v: "outbox_valid ?rows" and i: "outbox_item ?rows 5 = Some (Done None)" by code_simp+
  have "claim_pending (\<lambda>_. False) 0 ''w2'' 10 60 (Some (Aware 20)) ?rows = Inr ([], ?rows)"
    "strip ''w2'' = ''w2''" "resolve_utc 0 (Some (Aware 20)) = Inr 20" by code_simp+
  then have "outbox_performs (Claim 20 ''w2'' 60000020 {}) ?rows ?rows"
    unfolding outbox_performs.simps
    by (intro exI [of _ "\<lambda>_. False"] exI [of _ 0] exI [of _ 10] exI [of _ 60] exI [of _ "Some (Aware 20)"] exI [of _ "[]"])
      simp
  then show ?thesis
    using published_is_final [OF v i, of "[Claim 20 ''w2'' 60000020 {}]" ?rows] by (simp del: outbox_performs.simps)
qed

theorem claim_takes_oldest_witness:
  "outbox_item sample_leased (ob_event_id sample_row) = Some (Held ''w1'' 60000010)"
proof -
  have w: "strip ''w1'' = ''w1''" and b: "claim_batch (\<lambda>_. False) 10 10 [sample_row] = [sample_row]" by code_simp+
  show ?thesis
    using claim_takes_oldest [OF sample_rows_valid w sample_claim] b by simp
qed

theorem dispatch_once_refines_witness:
  "outbox_step\<^sup>*\<^sup>* sample_system (set_worker ''w1'' Idle after_dispatch sample_system)"
  using dispatch_once_refines [OF sample_strip, of calm_env sample_system "Some (Aware 10)"
      "Inr \<lparr>dr_claimed = 1, dr_published = 1, dr_failed = 0\<rparr>" after_dispatch] scenario_dispatch
  by (simp add: accepting_bus_truthful) (simp add: sample_system_def initial_system_def sample_dispatcher_def)

theorem reliable_dispatch_publishes_witness:
  "\<exists>wd'. dispatch_once calm_env sample_dispatcher (Some (Aware 10)) before_dispatch =
     (Inr \<lparr>dr_claimed = 1, dr_published = 1, dr_failed = 0\<rparr>, wd')
    \<and> (\<exists>m' \<in> set (outbox wd'). same_event sample_row m' \<and> ob_published_at m' = Some 10)"
proof -
  have d: "dispatcher_new '' w1 '' 10 60 ''default'' = Inr sample_dispatcher" and l: "length (d_worker_id sample_dispatcher) \<le> 128"
    and f: "outbox_flush (outbox before_dispatch) = Inr (outbox before_dispatch)"
    and c: "list_all lock_consistent (outbox before_dispatch)"
    and b: "claim_batch (\<lambda>_. False) 10 10 (outbox before_dispatch) = [sample_row]"
    and s: "content sample_row = Inr sample_envelope" "strip (ob_source sample_row) \<noteq> []"
    by code_simp+
  have o: "outbox before_dispatch = [sample_row]" by (simp add: before_dispatch_def)
  have "ob_locked calm_env = (\<lambda>_. False)" by (simp add: calm_env_def)
  then show ?thesis
    using reliable_dispatch_publishes [OF _ _ d l f c, of calm_env 10] b s
    by (fastforce simp: accepting_bus_reliable sendable_def o)
qed

lemma sample_failure:
  "record_failure calm_env sample_dispatcher (to_claimed_event (lock_row ''w1'' 60000010 sample_row)) ''down'' 10
      \<lparr>outbox = sample_leased, bus = []\<rparr>
    = (Inr (), \<lparr>outbox = [sample_row\<lparr>ob_attempt_count := 1, ob_last_error := Some ''down'', ob_next_attempt_at := 5000010,
         ob_locked_by := None, ob_locked_until := None\<rparr>], bus = []\<rparr>)"
  by code_simp

theorem failed_event_retried_witness:
  "\<exists>m \<in> set sample_leased. ob_attempt_count m + 1 = 1"
proof -
  have "outbox_valid sample_leased" by code_simp
  then show ?thesis
    using failed_event_retried [OF _ sample_strip sample_failure] by fastforce
qed

end
