(* ===== verification/Outbox_Query.thy ===== *)
theory Outbox_Query
  imports Outbox_Store
begin

text \<open>
  The read model of the outbox, \<open>services/api/outbox/query.py\<close>: the list of events by status and
  the summary. The conditions are those of the SQL statements; \<open>resolve_status\<close> is the status shown.
\<close>

datatype event_status = EV_ALL | EV_PENDING | EV_PUBLISHED | EV_FAILED

definition pending_condition :: "'p outbox_row \<Rightarrow> bool" where
  "pending_condition m \<longleftrightarrow> ob_published_at m = None \<and> ob_last_error m = None \<and> ob_attempt_count m = 0"

definition published_condition :: "'p outbox_row \<Rightarrow> bool" where
  "published_condition m \<longleftrightarrow> ob_published_at m \<noteq> None"

definition failed_condition :: "'p outbox_row \<Rightarrow> bool" where
  "failed_condition m \<longleftrightarrow> ob_published_at m = None \<and> (ob_last_error m \<noteq> None \<or> 0 < ob_attempt_count m)"

fun status_condition :: "event_status \<Rightarrow> ('p outbox_row \<Rightarrow> bool) option" where
  "status_condition EV_ALL = None"
| "status_condition EV_PENDING = Some pending_condition"
| "status_condition EV_PUBLISHED = Some published_condition"
| "status_condition EV_FAILED = Some failed_condition"

definition resolve_status :: "'p outbox_row \<Rightarrow> event_status" where
  "resolve_status m =
     (if ob_published_at m \<noteq> None then EV_PUBLISHED
      else if ob_last_error m \<noteq> None \<or> 0 < ob_attempt_count m then EV_FAILED
      else EV_PENDING)"

definition normalize_optional :: "string option \<Rightarrow> string option" where
  "normalize_optional value =
     (case value of None \<Rightarrow> None
      | Some v \<Rightarrow> let normalized = strip v in if normalized = [] then None else Some normalized)"

record event_record =
  rec_event_id :: uuid
  rec_aggregate_type :: string
  rec_aggregate_id :: string
  rec_event_type :: string
  rec_schema_version :: int
  rec_source :: string
  rec_occurred_at :: int
  rec_created_at :: int
  rec_published_at :: "int option"
  rec_attempt_count :: int
  rec_next_attempt_at :: int
  rec_last_error :: "string option"
  rec_locked_by :: "string option"
  rec_locked_until :: "int option"
  rec_status :: event_status

definition to_record :: "'p outbox_row \<Rightarrow> event_record" where
  "to_record m =
     \<lparr>rec_event_id = ob_event_id m, rec_aggregate_type = ob_aggregate_type m, rec_aggregate_id = ob_aggregate_id m,
      rec_event_type = ob_event_type m, rec_schema_version = ob_schema_version m, rec_source = ob_source m,
      rec_occurred_at = ob_occurred_at m, rec_created_at = ob_created_at m, rec_published_at = ob_published_at m,
      rec_attempt_count = ob_attempt_count m, rec_next_attempt_at = ob_next_attempt_at m,
      rec_last_error = ob_last_error m, rec_locked_by = ob_locked_by m, rec_locked_until = ob_locked_until m,
      rec_status = resolve_status m\<rparr>"

definition matches :: "('a \<Rightarrow> bool) option \<Rightarrow> 'a \<Rightarrow> bool" where
  "matches condition x = (case condition of None \<Rightarrow> True | Some P \<Rightarrow> P x)"

definition newest_event :: "'p outbox_row \<Rightarrow> 'p outbox_row \<Rightarrow> bool" where
  "newest_event x y \<longleftrightarrow> ob_created_at y < ob_created_at x
     \<or> ob_created_at x = ob_created_at y \<and> ob_id y \<le> ob_id x"

definition list_events ::
  "event_status \<Rightarrow> int \<Rightarrow> string option \<Rightarrow> string option \<Rightarrow> 'p outbox_row list \<Rightarrow> event_record list result" where
  "list_events status limit etype agg rows =
     (if \<not> (1 \<le> limit \<and> limit \<le> 100) then Inl (ValueError ''limit must be between 1 and 100'')
      else Inr (map to_record (take (nat limit) (order_rows newest_event
        (filter (\<lambda>m. matches (status_condition status) m
           \<and> (case normalize_optional etype of None \<Rightarrow> True | Some t \<Rightarrow> ob_event_type m = t)
           \<and> (case normalize_optional agg of None \<Rightarrow> True | Some i \<Rightarrow> ob_aggregate_id m = i)) rows)))))"

record summary_record =
  total_count :: nat
  sum_pending_count :: nat
  sum_published_count :: nat
  sum_failed_count :: nat
  unpublished_count :: nat
  oldest_unpublished_at :: "int option"

definition get_summary :: "'p outbox_row list \<Rightarrow> summary_record" where
  "get_summary rows =
     (let unpublished = filter (\<lambda>m. ob_published_at m = None) rows in
      \<lparr>total_count = length rows, sum_pending_count = length (filter pending_condition rows),
       sum_published_count = length (filter published_condition rows),
       sum_failed_count = length (filter failed_condition rows), unpublished_count = length unpublished,
       oldest_unpublished_at =
         (if unpublished = [] then None else Some (Min (set (map ob_created_at unpublished))))\<rparr>)"

lemma status_condition_resolve:
  "0 \<le> ob_attempt_count m \<Longrightarrow> status \<noteq> EV_ALL \<Longrightarrow> matches (status_condition status) m \<longleftrightarrow> resolve_status m = status"
  by (cases status) (auto simp: matches_def pending_condition_def published_condition_def failed_condition_def resolve_status_def)

lemma newest_event_order:
  "newest_event x y \<Longrightarrow> newest_event y z \<Longrightarrow> newest_event x z" "newest_event x y \<or> newest_event y x"
  by (auto simp: newest_event_def)

text \<open>
  The outbox screen: a list of at most 100 events, newest first, each shown with exactly the
  status that was asked for, although the filter and the status shown are computed separately; and
  the counts of the summary partition the table, the backlog snapshot of the dispatcher included.
\<close>
theorem outbox_screen_consistent:
  fixes rows :: "'p outbox_row list"
  assumes "\<forall>m \<in> set rows. 0 \<le> ob_attempt_count m"
    and "list_events status limit etype agg rows = Inr records"
  shows "(\<forall>r \<in> set records. status \<noteq> EV_ALL \<longrightarrow> rec_status r = status)
    \<and> int (length records) \<le> limit \<and> limit \<le> 100
    \<and> sorted_wrt (\<lambda>x y. rec_created_at y \<le> rec_created_at x) records
    \<and> total_count (get_summary rows)
        = sum_pending_count (get_summary rows) + sum_published_count (get_summary rows) + sum_failed_count (get_summary rows)
    \<and> unpublished_count (get_summary rows) = sum_pending_count (get_summary rows) + sum_failed_count (get_summary rows)
    \<and> pending_count (get_backlog_snapshot rows) = unpublished_count (get_summary rows)
    \<and> oldest_pending_at (get_backlog_snapshot rows) = oldest_unpublished_at (get_summary rows)"
proof -
  define P where "P = (\<lambda>m :: 'p outbox_row. matches (status_condition status) m
           \<and> (case normalize_optional etype of None \<Rightarrow> True | Some t \<Rightarrow> ob_event_type m = t)
           \<and> (case normalize_optional agg of None \<Rightarrow> True | Some i \<Rightarrow> ob_aggregate_id m = i))"
  let ?l = "take (nat limit) (order_rows newest_event (filter P rows))"
  have r: "records = map to_record ?l" and l: "1 \<le> limit" "limit \<le> 100"
    using assms(2) by (auto simp: list_events_def P_def split: if_splits)
  have "sorted_wrt newest_event ?l"
    by (intro sorted_wrt_take sorted_wrt_order_rows) (use newest_event_order in blast)+
  then have sorted: "sorted_wrt (\<lambda>x y. rec_created_at y \<le> rec_created_at x) records"
    unfolding r sorted_wrt_map by (rule sorted_wrt_mono_rel [rotated]) (auto simp: newest_event_def to_record_def)
  have shown: "rec_status x = status" if x: "x \<in> set records" and "status \<noteq> EV_ALL" for x
  proof -
    obtain m where m: "m \<in> set ?l" "x = to_record m" using x by (auto simp: r)
    then have "m \<in> set rows" "P m" by (auto dest: in_set_takeD)
    then show ?thesis
      using status_condition_resolve [of m status] assms(1) \<open>status \<noteq> EV_ALL\<close> m(2) by (simp add: P_def to_record_def)
  qed
  have counts: "length rows = length (filter pending_condition rows) + length (filter published_condition rows)
        + length (filter failed_condition rows)
      \<and> length (filter (\<lambda>m. ob_published_at m = None) rows)
        = length (filter pending_condition rows) + length (filter failed_condition rows)"
    using assms(1)
    by (induction rows) (auto simp: pending_condition_def published_condition_def failed_condition_def)
  then have parts: "total_count (get_summary rows)
        = sum_pending_count (get_summary rows) + sum_published_count (get_summary rows) + sum_failed_count (get_summary rows)"
    "unpublished_count (get_summary rows) = sum_pending_count (get_summary rows) + sum_failed_count (get_summary rows)"
    by (simp_all add: get_summary_def Let_def)
  have "int (length records) \<le> limit" using l by (simp add: r)
  then show ?thesis
    using sorted shown parts l by (simp add: get_summary_def get_backlog_snapshot_def Let_def)
qed

definition two_rows :: "nat outbox_row list" where
  "two_rows = [outbox_row_of 9 0 ''portfolio'' ''42'' sample_envelope,
     (outbox_row_of 8 1 ''portfolio'' ''43'' (sample_envelope\<lparr>event_id := 4\<rparr>))\<lparr>ob_attempt_count := 2, ob_last_error := Some ''x''\<rparr>]"

theorem outbox_screen_consistent_witness:
  "\<exists>records. list_events EV_FAILED 50 (Some '' '') None two_rows = Inr records \<and> map rec_event_id records = [4]
     \<and> (\<forall>r \<in> set records. rec_status r = EV_FAILED)"
proof -
  define records where "records = map to_record [two_rows ! 1]"
  have "list_events EV_FAILED 50 (Some '' '') None two_rows = Inr records" and "map rec_event_id records = [4]"
    and "\<forall>m \<in> set two_rows. 0 \<le> ob_attempt_count m"
    unfolding records_def by code_simp+
  then show ?thesis using outbox_screen_consistent [of two_rows EV_FAILED 50 "Some '' ''" None records] by simp
qed

end
