(* ===== verification/Market_Domain.thy ===== *)
theory Market_Domain
  imports Complex_Main Decimals Event_Envelope
begin

text \<open>
  The market data of \<open>libs/domain/market/models.py\<close> and its events (\<open>libs/events/market.py\<close>):
  validation of a quote or trade from the dictionary of an event payload, the dump back to a
  dictionary, and the derived prices. The values of a payload are JSON scalars; a \<open>Decimal\<close> and a
  \<open>datetime\<close> are dumped as text that stands for exactly that value, so they are constructors here.
\<close>

section \<open>Payload dictionaries\<close>

datatype scalar = VText string | VInt int | VDecimal decimal | VTime datetime | VUuid uuid | VNull

type_synonym payload_dict = "(string \<times> scalar) list"

fun text_value :: "scalar \<Rightarrow> string option" where
  "text_value (VText s) = Some s" | "text_value _ = None"

fun int_value :: "scalar \<Rightarrow> int option" where
  "int_value (VInt n) = Some n" | "int_value _ = None"

fun decimal_value :: "scalar \<Rightarrow> decimal option" where
  "decimal_value (VDecimal d) = Some d" | "decimal_value (VInt n) = Some (of_int n)" | "decimal_value _ = None"

fun time_value :: "scalar \<Rightarrow> datetime option" where
  "time_value (VTime t) = Some t" | "time_value _ = None"

fun uuid_value :: "scalar \<Rightarrow> uuid option" where
  "uuid_value (VUuid i) = Some i" | "uuid_value _ = None"

text \<open>
  A field of a model: \<open>None\<close> is an error that pydantic collects (missing, wrong type, constraint
  violated). \<open>checked\<close> runs a validator on it whose exception is not a \<open>ValueError\<close> and so leaves
  the validation at once.
\<close>

definition model_field :: "(scalar \<Rightarrow> 'a option) \<Rightarrow> payload_dict \<Rightarrow> string \<Rightarrow> 'a option" where
  "model_field decode fs k = Option.bind (map_of fs k) decode"

definition such_that :: "('a \<Rightarrow> bool) \<Rightarrow> 'a option \<Rightarrow> 'a option" where
  "such_that P x = (case x of None \<Rightarrow> None | Some a \<Rightarrow> if P a then Some a else None)"

definition checked :: "('a \<Rightarrow> 'b result) \<Rightarrow> 'a option \<Rightarrow> 'b option result" where
  "checked validate x = (case x of None \<Rightarrow> Inr None | Some a \<Rightarrow>
     (case validate a of Inl e \<Rightarrow> Inl e | Inr b \<Rightarrow> Inr (Some b)))"

definition no_extra :: "string list \<Rightarrow> payload_dict \<Rightarrow> bool" where
  "no_extra keys fs \<longleftrightarrow> (\<forall>k \<in> set (map fst fs). k \<in> set keys)"

section \<open>Quotes and trades\<close>

datatype market = US | JP

datatype trade_side = Buy | Sell

fun market_name :: "market \<Rightarrow> string" where
  "market_name US = ''US''" | "market_name JP = ''JP''"

definition market_value :: "scalar \<Rightarrow> market option" where
  "market_value v = (case text_value v of None \<Rightarrow> None
     | Some s \<Rightarrow> if s = ''US'' then Some US else if s = ''JP'' then Some JP else None)"

fun side_name :: "trade_side \<Rightarrow> string" where
  "side_name Buy = ''BUY''" | "side_name Sell = ''SELL''"

definition side_value :: "scalar \<Rightarrow> trade_side option" where
  "side_value v = (case text_value v of None \<Rightarrow> None
     | Some s \<Rightarrow> if s = ''BUY'' then Some Buy else if s = ''SELL'' then Some Sell else None)"

record domain_quote =
  dq_symbol :: string
  dq_market :: market
  dq_bid_price :: decimal
  dq_ask_price :: decimal
  dq_bid_size :: int
  dq_ask_size :: int
  dq_timestamp :: int

record domain_trade =
  dt_trade_id :: string
  dt_symbol :: string
  dt_market :: market
  dt_price :: decimal
  dt_quantity :: int
  dt_side :: trade_side
  dt_timestamp :: int

definition validate_symbol :: "string \<Rightarrow> string result" where
  "validate_symbol value =
     (let symbol = normal_symbol value in
      if symbol = [] then Inl (InvalidSymbolError ''symbol must not be empty'')
      else if 32 < length symbol then Inl (InvalidSymbolError ''symbol must not exceed 32 characters'')
      else Inr symbol)"

definition validate_timestamp :: "datetime \<Rightarrow> int result" where
  "validate_timestamp value =
     (case value of
        Naive _ \<Rightarrow> Inl (InvalidTimestampError ''timestamp must be timezone-aware'')
      | Aware i \<Rightarrow> Inr i)"

definition quote_keys :: "string list" where
  "quote_keys = [''symbol'', ''market'', ''bid_price'', ''ask_price'', ''bid_size'', ''ask_size'', ''timestamp'']"

definition validate_spread :: "domain_quote \<Rightarrow> domain_quote result" where
  "validate_spread q =
     (if dq_ask_price q < dq_bid_price q then Inl (InvalidPriceError ''bid_price must not exceed ask_price'')
      else Inr q)"

definition quote_model_validate :: "payload_dict \<Rightarrow> domain_quote result" where
  "quote_model_validate fs =
     (case checked (\<lambda>s. validate_symbol (trim s)) (model_field text_value fs ''symbol'') of
        Inl e \<Rightarrow> Inl e
      | Inr symbol \<Rightarrow>
     (case checked validate_timestamp (model_field time_value fs ''timestamp'') of
        Inl e \<Rightarrow> Inl e
      | Inr timestamp \<Rightarrow>
     (case (symbol, model_field market_value fs ''market'',
            such_that (\<lambda>p. 0 < p) (model_field decimal_value fs ''bid_price''),
            such_that (\<lambda>p. 0 < p) (model_field decimal_value fs ''ask_price''),
            such_that (\<lambda>n. 0 \<le> n) (model_field int_value fs ''bid_size''),
            such_that (\<lambda>n. 0 \<le> n) (model_field int_value fs ''ask_size''), timestamp) of
        (Some s, Some m, Some bid, Some ask, Some bsize, Some asize, Some t) \<Rightarrow>
          if \<not> no_extra quote_keys fs then Inl ValidationError
          else validate_spread \<lparr>dq_symbol = s, dq_market = m, dq_bid_price = bid, dq_ask_price = ask,
                 dq_bid_size = bsize, dq_ask_size = asize, dq_timestamp = t\<rparr>
      | _ \<Rightarrow> Inl ValidationError)))"

definition quote_dump :: "domain_quote \<Rightarrow> payload_dict" where
  "quote_dump q =
     [(''symbol'', VText (dq_symbol q)), (''market'', VText (market_name (dq_market q))),
      (''bid_price'', VDecimal (dq_bid_price q)), (''ask_price'', VDecimal (dq_ask_price q)),
      (''bid_size'', VInt (dq_bid_size q)), (''ask_size'', VInt (dq_ask_size q)),
      (''timestamp'', VTime (Aware (dq_timestamp q)))]"

definition mid_price :: "domain_quote \<Rightarrow> decimal" where
  "mid_price q = ddiv (dadd (dq_bid_price q) (dq_ask_price q)) 2"

definition spread :: "domain_quote \<Rightarrow> decimal" where
  "spread q = dsub (dq_ask_price q) (dq_bid_price q)"

definition trade_keys :: "string list" where
  "trade_keys = [''trade_id'', ''symbol'', ''market'', ''price'', ''quantity'', ''side'', ''timestamp'']"

definition validate_trade_id :: "string \<Rightarrow> string option" where
  "validate_trade_id value = (let trade_id = strip value in if trade_id = [] then None else Some trade_id)"

text \<open>
  The validators of price and quantity run only on values that passed \<open>gt=0\<close>, so they never raise.
\<close>

definition trade_model_validate :: "payload_dict \<Rightarrow> domain_trade result" where
  "trade_model_validate fs =
     (case checked (\<lambda>s. validate_symbol (trim s)) (model_field text_value fs ''symbol'') of
        Inl e \<Rightarrow> Inl e
      | Inr symbol \<Rightarrow>
     (case checked validate_timestamp (model_field time_value fs ''timestamp'') of
        Inl e \<Rightarrow> Inl e
      | Inr timestamp \<Rightarrow>
     (case (Option.bind (model_field text_value fs ''trade_id'') (\<lambda>s. validate_trade_id (trim s)), symbol,
            model_field market_value fs ''market'',
            such_that (\<lambda>p. 0 < p) (model_field decimal_value fs ''price''),
            such_that (\<lambda>n. 0 < n) (model_field int_value fs ''quantity''),
            model_field side_value fs ''side'', timestamp) of
        (Some i, Some s, Some m, Some p, Some n, Some sd, Some t) \<Rightarrow>
          if \<not> no_extra trade_keys fs then Inl ValidationError
          else Inr \<lparr>dt_trade_id = i, dt_symbol = s, dt_market = m, dt_price = p, dt_quantity = n,
                 dt_side = sd, dt_timestamp = t\<rparr>
      | _ \<Rightarrow> Inl ValidationError)))"

definition trade_dump :: "domain_trade \<Rightarrow> payload_dict" where
  "trade_dump t =
     [(''trade_id'', VText (dt_trade_id t)), (''symbol'', VText (dt_symbol t)),
      (''market'', VText (market_name (dt_market t))), (''price'', VDecimal (dt_price t)),
      (''quantity'', VInt (dt_quantity t)), (''side'', VText (side_name (dt_side t))),
      (''timestamp'', VTime (Aware (dt_timestamp t)))]"

definition notional :: "domain_trade \<Rightarrow> decimal" where
  "notional t = dmul (dt_price t) (of_int (dt_quantity t))"

section \<open>Market events\<close>

text \<open>The fresh identifiers are those the envelope draws when none is given.\<close>

definition create_market_quote_event ::
  "uuid \<Rightarrow> uuid \<Rightarrow> domain_quote \<Rightarrow> string \<Rightarrow> uuid option \<Rightarrow> uuid option \<Rightarrow> payload_dict envelope result" where
  "create_market_quote_event fresh_event fresh_correlation q src correlation causation =
     envelope_new fresh_event ''market.quote.received'' 1 (Aware (dq_timestamp q)) src
       (case correlation of None \<Rightarrow> fresh_correlation | Some c \<Rightarrow> c) causation None (quote_dump q)"

definition create_market_trade_event ::
  "uuid \<Rightarrow> uuid \<Rightarrow> domain_trade \<Rightarrow> string \<Rightarrow> uuid option \<Rightarrow> uuid option \<Rightarrow> payload_dict envelope result" where
  "create_market_trade_event fresh_event fresh_correlation t src correlation causation =
     envelope_new fresh_event ''market.trade.received'' 1 (Aware (dt_timestamp t)) src
       (case correlation of None \<Rightarrow> fresh_correlation | Some c \<Rightarrow> c) causation None (trade_dump t)"

section \<open>Well-formed quotes and trades\<close>

definition symbol_ok :: "string \<Rightarrow> bool" where
  "symbol_ok s \<longleftrightarrow> normal_symbol s = s \<and> s \<noteq> [] \<and> length s \<le> 32"

definition quote_ok :: "domain_quote \<Rightarrow> bool" where
  "quote_ok q \<longleftrightarrow> symbol_ok (dq_symbol q) \<and> 0 < dq_bid_price q \<and> dq_bid_price q \<le> dq_ask_price q
     \<and> 0 \<le> dq_bid_size q \<and> 0 \<le> dq_ask_size q"

definition trade_ok :: "domain_trade \<Rightarrow> bool" where
  "trade_ok t \<longleftrightarrow> strip (dt_trade_id t) = dt_trade_id t \<and> dt_trade_id t \<noteq> [] \<and> symbol_ok (dt_symbol t)
     \<and> 0 < dt_price t \<and> 0 < dt_quantity t"

lemma checked_Inr:
  "checked f x = Inr (Some b) \<longleftrightarrow> (\<exists>a. x = Some a \<and> f a = Inr b)"
  by (auto simp: checked_def split: option.splits sum.splits)

lemma such_that_Some [simp]: "such_that P x = Some a \<longleftrightarrow> x = Some a \<and> P a"
  by (auto simp: such_that_def split: option.splits)

lemma validate_symbol_Inr: "validate_symbol s = Inr s' \<longleftrightarrow> s' = normal_symbol s \<and> symbol_ok s'"
  by (auto simp: validate_symbol_def symbol_ok_def Let_def)

lemma validate_symbol_ok: "symbol_ok s \<Longrightarrow> validate_symbol s = Inr s"
  by (simp add: validate_symbol_Inr symbol_ok_def)

lemma trim_strip: "strip s = s \<Longrightarrow> trim s = s"
proof -
  assume s: "strip s = s"
  have d: "dropWhile is_space s = s"
    using s by (metis dropWhile_eq_self_iff dropWhile_head hd_Cons_tl hd_dropWhile_rev list.sel(1) neq_Nil_conv strip_def)
  have r: "dropWhile is_space (rev s) = rev s"
    using s d by (metis rev_swap strip_def)
  have "dropWhile is_white t = t" if "dropWhile is_space t = t" for t
    using that by (metis dropWhile_eq_self_iff is_white_space)
  with d r show "trim s = s" by (simp add: trim_def)
qed

lemma trim_symbol_ok: "symbol_ok s \<Longrightarrow> trim s = s"
  by (rule trim_strip) (metis strip_normal_symbol symbol_ok_def)

lemma market_value_name [simp]: "market_value (VText (market_name m)) = Some m"
  by (cases m) (simp_all add: market_value_def)

lemma side_value_name [simp]: "side_value (VText (side_name s)) = Some s"
  by (cases s) (simp_all add: side_value_def)

lemma market_name_inject [simp]: "market_name m = market_name m' \<longleftrightarrow> m = m'"
  by (cases m; cases m') simp_all

lemma quote_validated_ok: "quote_model_validate fs = Inr q \<Longrightarrow> quote_ok q"
  by (auto simp: quote_model_validate_def validate_spread_def quote_ok_def checked_Inr validate_symbol_Inr
      split: sum.splits option.splits if_splits)

lemma quote_validate_dump:
  assumes "quote_ok q" shows "quote_model_validate (quote_dump q) = Inr q"
proof -
  have "trim (dq_symbol q) = dq_symbol q" "validate_symbol (dq_symbol q) = Inr (dq_symbol q)"
    using assms by (simp_all add: quote_ok_def trim_symbol_ok validate_symbol_ok)
  then show ?thesis
    using assms by (simp add: quote_model_validate_def quote_dump_def model_field_def checked_def such_that_def
        validate_timestamp_def no_extra_def quote_keys_def validate_spread_def quote_ok_def)
qed

lemma trade_validated_ok: "trade_model_validate fs = Inr t \<Longrightarrow> trade_ok t"
  by (auto simp: trade_model_validate_def trade_ok_def checked_Inr validate_symbol_Inr validate_trade_id_def Let_def
      bind_eq_Some_conv split: sum.splits option.splits if_splits)

lemma trade_validate_dump:
  assumes "trade_ok t" shows "trade_model_validate (trade_dump t) = Inr t"
proof -
  have "trim (dt_symbol t) = dt_symbol t" "validate_symbol (dt_symbol t) = Inr (dt_symbol t)"
    and "trim (dt_trade_id t) = dt_trade_id t" "validate_trade_id (dt_trade_id t) = Some (dt_trade_id t)"
    using assms by (simp_all add: trade_ok_def trim_symbol_ok validate_symbol_ok trim_strip validate_trade_id_def)
  then show ?thesis
    using assms by (simp add: trade_model_validate_def trade_dump_def model_field_def checked_def such_that_def
        validate_timestamp_def no_extra_def trade_keys_def trade_ok_def)
qed

lemma mid_price_pos: "quote_ok q \<Longrightarrow> 0 < mid_price q"
  by (simp add: mid_price_def ddiv_def dadd_def quote_ok_def)

text \<open>The mid price lies between bid and ask when these are in the precision of the context.\<close>

lemma mid_price_between:
  assumes "quote_ok q" and "representable (dq_bid_price q)" "representable (dq_ask_price q)"
    and "representable (dq_bid_price q + dq_ask_price q)"
  shows "dq_bid_price q \<le> mid_price q \<and> mid_price q \<le> dq_ask_price q"
proof -
  have "mid_price q = dround ((dq_bid_price q + dq_ask_price q) / 2)"
    using assms(4) by (simp add: mid_price_def ddiv_def dadd_def representable_def)
  moreover have "dq_bid_price q \<le> (dq_bid_price q + dq_ask_price q) / 2" "(dq_bid_price q + dq_ask_price q) / 2 \<le> dq_ask_price q"
    using assms(1) by (auto simp: quote_ok_def)
  ultimately show ?thesis using representable_le representable_ge assms(2,3) by metis
qed

end
