(* ===== verification/Risk_Engine.thy ===== *)
theory Risk_Engine
  imports Market_Domain Outbox_Dispatcher
begin

text \<open>
  The risk engine: alerts and the price-move rule (\<open>libs/domain/risk\<close>), their events
  (\<open>libs/events/risk.py\<close>), the store of the last quotes, the service, the publisher and the
  Kinesis consumer (\<open>services/risk_engine\<close>). The service takes any store that offers
  \<open>get_quote\<close> and \<open>set_quote\<close>, as in the code. Fresh identifiers and the text of a \<open>Decimal\<close>
  are arguments; JSON and UTF-8 decoding and the EventBridge client are parameters.
\<close>

section \<open>Alerts\<close>

datatype risk_severity = WARNING | CRITICAL

datatype risk_type = PRICE_MOVE_PERCENT | SPREAD_PERCENT | POSITION_EXPOSURE | UNREALIZED_LOSS_PERCENT

fun severity_name :: "risk_severity \<Rightarrow> string" where
  "severity_name WARNING = ''WARNING''" | "severity_name CRITICAL = ''CRITICAL''"

fun risk_type_name :: "risk_type \<Rightarrow> string" where
  "risk_type_name PRICE_MOVE_PERCENT = ''PRICE_MOVE_PERCENT''"
| "risk_type_name SPREAD_PERCENT = ''SPREAD_PERCENT''"
| "risk_type_name POSITION_EXPOSURE = ''POSITION_EXPOSURE''"
| "risk_type_name UNREALIZED_LOSS_PERCENT = ''UNREALIZED_LOSS_PERCENT''"

definition severity_value :: "scalar \<Rightarrow> risk_severity option" where
  "severity_value v = Option.bind (text_value v)
     (\<lambda>s. find (\<lambda>x. severity_name x = s) [WARNING, CRITICAL])"

definition risk_type_value :: "scalar \<Rightarrow> risk_type option" where
  "risk_type_value v = Option.bind (text_value v)
     (\<lambda>s. find (\<lambda>x. risk_type_name x = s)
        [PRICE_MOVE_PERCENT, SPREAD_PERCENT, POSITION_EXPOSURE, UNREALIZED_LOSS_PERCENT])"

record risk_alert =
  ra_alert_id :: uuid
  ra_risk_type :: risk_type
  ra_severity :: risk_severity
  ra_market :: market
  ra_symbol :: string
  ra_observed_value :: decimal
  ra_threshold :: decimal
  ra_message :: string
  ra_occurred_at :: int

text \<open>The validators of an alert raise \<open>ValueError\<close>, which the validation collects.\<close>

definition alert_symbol :: "string \<Rightarrow> string option" where
  "alert_symbol value =
     (let symbol = normal_symbol value in
      if symbol = [] then None else if 32 < length symbol then None else Some symbol)"

definition alert_occurred_at :: "datetime \<Rightarrow> int option" where
  "alert_occurred_at value = (case value of Naive _ \<Rightarrow> None | Aware i \<Rightarrow> Some i)"

definition risk_alert_new ::
  "uuid \<Rightarrow> risk_type \<Rightarrow> risk_severity \<Rightarrow> market \<Rightarrow> string \<Rightarrow> decimal \<Rightarrow> decimal \<Rightarrow> string \<Rightarrow> datetime
   \<Rightarrow> risk_alert result" where
  "risk_alert_new i rt sev m symbol observed threshold message occurred =
     (case (alert_symbol (trim symbol), alert_occurred_at occurred) of
        (Some s, Some at') \<Rightarrow>
          if 0 < threshold \<and> length_between 1 512 (trim message)
          then Inr \<lparr>ra_alert_id = i, ra_risk_type = rt, ra_severity = sev, ra_market = m, ra_symbol = s,
                 ra_observed_value = observed, ra_threshold = threshold, ra_message = trim message,
                 ra_occurred_at = at'\<rparr>
          else Inl ValidationError
      | _ \<Rightarrow> Inl ValidationError)"

definition alert_dump :: "risk_alert \<Rightarrow> payload_dict" where
  "alert_dump a =
     [(''alert_id'', VUuid (ra_alert_id a)), (''risk_type'', VText (risk_type_name (ra_risk_type a))),
      (''severity'', VText (severity_name (ra_severity a))), (''market'', VText (market_name (ra_market a))),
      (''symbol'', VText (ra_symbol a)), (''observed_value'', VDecimal (ra_observed_value a)),
      (''threshold'', VDecimal (ra_threshold a)), (''message'', VText (ra_message a)),
      (''occurred_at'', VTime (Aware (ra_occurred_at a)))]"

definition alert_keys :: "string list" where
  "alert_keys = [''alert_id'', ''risk_type'', ''severity'', ''market'', ''symbol'', ''observed_value'',
     ''threshold'', ''message'', ''occurred_at'']"

text \<open>Parsing an alert from a payload; the identifier and the time have defaults.\<close>

definition alert_model_validate :: "uuid \<Rightarrow> int \<Rightarrow> payload_dict \<Rightarrow> risk_alert result" where
  "alert_model_validate fresh now fs =
     (if \<not> no_extra alert_keys fs then Inl ValidationError
      else case (if map_of fs ''alert_id'' = None then Some fresh else model_field uuid_value fs ''alert_id'',
            model_field risk_type_value fs ''risk_type'', model_field severity_value fs ''severity'',
            model_field market_value fs ''market'', model_field text_value fs ''symbol'',
            model_field decimal_value fs ''observed_value'', model_field decimal_value fs ''threshold'',
            model_field text_value fs ''message'',
            if map_of fs ''occurred_at'' = None then Some (Aware now) else model_field time_value fs ''occurred_at'') of
        (Some i, Some rt, Some sev, Some m, Some s, Some ob, Some th, Some msg, Some t) \<Rightarrow>
          risk_alert_new i rt sev m s ob th msg t
      | _ \<Rightarrow> Inl ValidationError)"

definition create_risk_alert_event ::
  "uuid \<Rightarrow> uuid \<Rightarrow> risk_alert \<Rightarrow> string \<Rightarrow> uuid option \<Rightarrow> uuid option \<Rightarrow> payload_dict envelope result" where
  "create_risk_alert_event fresh_event fresh_correlation alert src correlation causation =
     envelope_new fresh_event ''risk.alert.detected'' 1 (Aware (ra_occurred_at alert)) src
       (case correlation of None \<Rightarrow> fresh_correlation | Some c \<Rightarrow> c) causation None (alert_dump alert)"

section \<open>The price-move rule\<close>

record price_move_rule =
  warning_threshold :: decimal
  critical_threshold :: decimal

definition price_move_rule_new :: "decimal \<Rightarrow> decimal \<Rightarrow> price_move_rule result" where
  "price_move_rule_new warning critical =
     (if warning \<le> 0 then Inl (ValueError ''warning threshold must be greater than zero'')
      else if critical \<le> warning
      then Inl (ValueError ''critical threshold must be greater than warning threshold'')
      else Inr \<lparr>warning_threshold = warning, critical_threshold = critical\<rparr>)"

text \<open>What an evaluation draws or prints: the identifiers and the text of a \<open>Decimal\<close>.\<close>

record risk_env =
  rk_alert_id :: uuid
  rk_event_id :: uuid
  rk_correlation_id :: uuid
  rk_show :: "decimal \<Rightarrow> string"

definition validate_instrument :: "domain_quote \<Rightarrow> domain_quote \<Rightarrow> unit result" where
  "validate_instrument previous current =
     (if dq_market previous \<noteq> dq_market current \<or> dq_symbol previous \<noteq> dq_symbol current
      then Inl (ValueError ''quotes must belong to the same instrument'') else Inr ())"

definition change_percent :: "domain_quote \<Rightarrow> domain_quote \<Rightarrow> decimal" where
  "change_percent previous current =
     dmul (ddiv (dsub (mid_price current) (mid_price previous)) (mid_price previous)) 100"

definition price_move_message :: "risk_env \<Rightarrow> domain_quote \<Rightarrow> decimal \<Rightarrow> string" where
  "price_move_message env current change =
     ''Price move threshold exceeded for '' @ market_name (dq_market current) @ '':'' @ dq_symbol current
       @ ''; change='' @ rk_show env change @ ''%''"

definition evaluate :: "risk_env \<Rightarrow> price_move_rule \<Rightarrow> domain_quote \<Rightarrow> domain_quote \<Rightarrow> risk_alert option result" where
  "evaluate env rule previous current =
     (case validate_instrument previous current of
        Inl e \<Rightarrow> Inl e
      | Inr _ \<Rightarrow>
          let change = change_percent previous current; absolute_change = \<bar>change\<bar> in
          if absolute_change < warning_threshold rule then Inr None
          else
            let (severity, threshold) =
                  (if critical_threshold rule \<le> absolute_change then (CRITICAL, critical_threshold rule)
                   else (WARNING, warning_threshold rule))
            in map_sum id Some (risk_alert_new (rk_alert_id env) PRICE_MOVE_PERCENT severity (dq_market current)
                 (dq_symbol current) change threshold (price_move_message env current change)
                 (Aware (dq_timestamp current))))"

section \<open>The store of the last quotes\<close>

definition build_key :: "market \<Rightarrow> string \<Rightarrow> string result" where
  "build_key m symbol =
     (let normalized_symbol = normal_symbol symbol in
      if normalized_symbol = [] then Inl (ValueError ''symbol must not be empty'')
      else Inr (market_name m @ '':'' @ normalized_symbol))"

type_synonym quote_state = "string \<Rightarrow> domain_quote option"

definition memory_get_quote :: "quote_state \<Rightarrow> market \<Rightarrow> string \<Rightarrow> domain_quote option result" where
  "memory_get_quote quotes m symbol = map_sum id quotes (build_key m symbol)"

definition memory_set_quote :: "quote_state \<Rightarrow> domain_quote \<Rightarrow> quote_state result" where
  "memory_set_quote quotes q = map_sum id (\<lambda>key. quotes(key \<mapsto> q)) (build_key (dq_market q) (dq_symbol q))"

section \<open>The service\<close>

type_synonym 's getter = "'s \<Rightarrow> market \<Rightarrow> string \<Rightarrow> domain_quote option result"
type_synonym 's setter = "'s \<Rightarrow> domain_quote \<Rightarrow> 's result"

definition store_quote :: "'s setter \<Rightarrow> domain_quote \<Rightarrow> ('s, unit) prog" where
  "store_quote set_quote q = (\<lambda>s. case set_quote s q of Inl e \<Rightarrow> (Inl e, s) | Inr s' \<Rightarrow> (Inr (), s'))"

definition process_event ::
  "'s getter \<Rightarrow> 's setter \<Rightarrow> price_move_rule \<Rightarrow> risk_env \<Rightarrow> payload_dict envelope
   \<Rightarrow> ('s, payload_dict envelope option) prog" where
  "process_event get_quote set_quote rule env event =
     (if event_type event \<noteq> ''market.quote.received'' then ret None
      else bind (of_result (quote_model_validate (payload event))) (\<lambda>current_quote.
        bind get_state (\<lambda>store.
        bind (of_result (get_quote store (dq_market current_quote) (dq_symbol current_quote))) (\<lambda>previous.
        case previous of
          None \<Rightarrow> bind (store_quote set_quote current_quote) (\<lambda>_. ret None)
        | Some previous_quote \<Rightarrow>
            if dq_timestamp current_quote \<le> dq_timestamp previous_quote then ret None
            else bind (of_result (evaluate env rule previous_quote current_quote)) (\<lambda>alert.
              bind (store_quote set_quote current_quote) (\<lambda>_.
              case alert of
                None \<Rightarrow> ret None
              | Some a \<Rightarrow> bind (of_result (create_risk_alert_event (rk_event_id env) (rk_correlation_id env) a
                    ''risk-engine'' (Some (correlation_id event)) (Some (event_id event)))) (\<lambda>e. ret (Some e))))))))"

section \<open>The publisher\<close>

text \<open>The trace context to inject is an argument; an empty one leaves the event as it is.\<close>

definition prepare_outbound_event :: "dict \<Rightarrow> 'p envelope \<Rightarrow> 'p envelope" where
  "prepare_outbound_event injected event = (if injected = [] then event else event\<lparr>trace_context := Some injected\<rparr>)"

definition risk_check_response :: "put_response \<Rightarrow> string result" where
  "risk_check_response response =
     (let failed = (case failed_entry_count response of None \<Rightarrow> 0 | Some n \<Rightarrow> n);
          entries = (case response_entries response of None \<Rightarrow> [] | Some es \<Rightarrow> es)
      in if failed \<noteq> 0 \<or> length entries \<noteq> 1
         then Inl (RuntimeError ''EventBridge failed to publish risk event'')
         else let entry = hd entries in
           if truthy (res_error_code entry) then Inl (RuntimeError ''EventBridge publish failed'')
           else case res_event_id entry of
             None \<Rightarrow> Inl (RuntimeError ''EventBridge publish response did not contain EventId'')
           | Some i \<Rightarrow>
               if i = [] then Inl (RuntimeError ''EventBridge publish response did not contain EventId'')
               else Inr i)"

definition risk_publish ::
  "string \<Rightarrow> 'p event_bus \<Rightarrow> dict \<Rightarrow> 'p envelope \<Rightarrow> ('p put_entry list, string) prog" where
  "risk_publish event_bus_name client injected event =
     (if event_type event \<noteq> ''risk.alert.detected''
      then raise (ValueError ''publisher accepts only risk.alert.detected events'')
      else bind (client \<lparr>pe_source = ''realstock.risk-engine'', pe_detail_type = event_type event,
               pe_detail = to_event_dict (prepare_outbound_event injected event),
               pe_event_bus_name = event_bus_name\<rparr>) (\<lambda>response.
             of_result (risk_check_response response)))"

section \<open>The Kinesis consumer\<close>

datatype kinesis_data = DataMissing | DataBytes string | DataText string | DataOther

record consumer_env =
  decode_utf8 :: "string \<Rightarrow> string option"
  parse_json :: "string \<Rightarrow> (string \<times> payload_dict json) list option"
  ce_event_id :: uuid
  ce_correlation_id :: uuid
  ce_clock :: int
  ce_bus_name :: string
  ce_client :: "payload_dict event_bus"
  ce_trace :: dict
  ce_risk :: risk_env

record 's risk_world =
  quote_store :: 's
  risk_bus :: "payload_dict put_entry list"

record processing_result =
  pr_market_event_id :: uuid
  pr_risk_event_id :: "uuid option"
  pr_eventbridge_event_id :: "string option"

definition alert_generated :: "processing_result \<Rightarrow> bool" where
  "alert_generated r \<longleftrightarrow> pr_risk_event_id r \<noteq> None"

definition decode_data :: "consumer_env \<Rightarrow> kinesis_data \<Rightarrow> string result" where
  "decode_data env data =
     (case data of
        DataMissing \<Rightarrow> Inl (InvalidKinesisMarketEventError ''Kinesis record does not contain Data'')
      | DataBytes b \<Rightarrow> (case decode_utf8 env b of
            None \<Rightarrow> Inl (InvalidKinesisMarketEventError ''Kinesis Data is not valid UTF-8'')
          | Some text \<Rightarrow> Inr text)
      | DataText text \<Rightarrow> Inr text
      | DataOther \<Rightarrow> Inl (InvalidKinesisMarketEventError ''Kinesis Data must be bytes or string''))"

definition parse_event :: "consumer_env \<Rightarrow> string \<Rightarrow> payload_dict envelope result" where
  "parse_event env text =
     (case parse_json env text of
        None \<Rightarrow> Inl (InvalidKinesisMarketEventError ''Kinesis Data is not a valid EventEnvelope'')
      | Some fs \<Rightarrow> (case envelope_validate (ce_event_id env) (ce_correlation_id env) (ce_clock env) fs of
            Inl _ \<Rightarrow> Inl (InvalidKinesisMarketEventError ''Kinesis Data is not a valid EventEnvelope'')
          | Inr e \<Rightarrow> Inr e))"

definition on_store :: "('s, 'a) prog \<Rightarrow> ('s risk_world, 'a) prog" where
  "on_store m = (\<lambda>w. case m (quote_store w) of (r, s) \<Rightarrow> (r, w\<lparr>quote_store := s\<rparr>))"

definition on_bus :: "(payload_dict put_entry list, 'a) prog \<Rightarrow> ('s risk_world, 'a) prog" where
  "on_bus m = (\<lambda>w. case m (risk_bus w) of (r, b) \<Rightarrow> (r, w\<lparr>risk_bus := b\<rparr>))"

definition process_market_event ::
  "'s getter \<Rightarrow> 's setter \<Rightarrow> price_move_rule \<Rightarrow> consumer_env \<Rightarrow> payload_dict envelope
   \<Rightarrow> ('s risk_world, processing_result) prog" where
  "process_market_event get_quote set_quote rule env event =
     bind (on_store (process_event get_quote set_quote rule (ce_risk env) event)) (\<lambda>risk_event.
     case risk_event of
       None \<Rightarrow> ret \<lparr>pr_market_event_id = event_id event, pr_risk_event_id = None, pr_eventbridge_event_id = None\<rparr>
     | Some e \<Rightarrow> bind (on_bus (risk_publish (ce_bus_name env) (ce_client env) (ce_trace env) e)) (\<lambda>i.
         ret \<lparr>pr_market_event_id = event_id event, pr_risk_event_id = Some (event_id e),
              pr_eventbridge_event_id = Some i\<rparr>))"

definition process_record ::
  "'s getter \<Rightarrow> 's setter \<Rightarrow> price_move_rule \<Rightarrow> consumer_env \<Rightarrow> kinesis_data
   \<Rightarrow> ('s risk_world, processing_result) prog" where
  "process_record get_quote set_quote rule env data =
     bind (of_result (decode_data env data)) (\<lambda>text.
     bind (of_result (parse_event env text)) (\<lambda>event.
     process_market_event get_quote set_quote rule env event))"

end
