(* ===== verification/Idempotency_Store.thy ===== *)
theory Idempotency_Store
  imports Prelude Lease_Store
begin

text \<open>
  The idempotency table of the alert worker (\<open>services/alert_worker/idempotency.py\<close>): a DynamoDB
  table as a map from the event identifier to the item, changed by conditional writes whose
  conditions are those of the code. A call may fail before or after it took effect. The clock (in
  seconds) and the fresh claim identifier are arguments. The store is a lease store.
\<close>

section \<open>Calls to the table\<close>

record idem_item =
  it_status :: "string option"
  it_claim_id :: string
  it_created_at :: int
  it_updated_at :: int
  it_expires_at :: int

type_synonym idem_table = "string \<Rightarrow> idem_item option"

definition put_item :: "string \<Rightarrow> (idem_item option \<Rightarrow> bool) \<Rightarrow> idem_item \<Rightarrow> (idem_table, unit) prog" where
  "put_item k condition it = (\<lambda>t. if condition (t k) then (Inr (), t(k \<mapsto> it)) else (Inl ConditionalCheckFailed, t))"

definition update_item :: "string \<Rightarrow> (idem_item option \<Rightarrow> bool) \<Rightarrow> (idem_item \<Rightarrow> idem_item) \<Rightarrow> (idem_table, unit) prog" where
  "update_item k condition f =
     (\<lambda>t. if condition (t k) then (Inr (), t(k := map_option f (t k))) else (Inl ConditionalCheckFailed, t))"

definition delete_item :: "string \<Rightarrow> (idem_item option \<Rightarrow> bool) \<Rightarrow> (idem_table, unit) prog" where
  "delete_item k condition = (\<lambda>t. if condition (t k) then (Inr (), t(k := None)) else (Inl ConditionalCheckFailed, t))"

section \<open>The store\<close>

datatype idempotency_status = PROCESSING | COMPLETED

record idempotency_claim =
  ic_event_id :: string
  ic_claim_id :: string

record idem_config =
  table_name :: string
  processing_lease_seconds :: int
  completed_retention_seconds :: int

definition idem_store_new :: "string \<Rightarrow> int \<Rightarrow> int \<Rightarrow> idem_config result" where
  "idem_store_new name lease retention =
     (let normalized_table_name = strip name in
      if normalized_table_name = [] then Inl (ValueError ''table_name must not be empty'')
      else if lease \<le> 0 then Inl (ValueError ''processing_lease_seconds must be greater than zero'')
      else if retention \<le> 0 then Inl (ValueError ''completed_retention_seconds must be greater than zero'')
      else Inr \<lparr>table_name = normalized_table_name, processing_lease_seconds = lease,
             completed_retention_seconds = retention\<rparr>)"

text \<open>\<open>attribute_not_exists(event_id) OR expires_at < :now\<close>\<close>

definition claim_condition :: "int \<Rightarrow> idem_item option \<Rightarrow> bool" where
  "claim_condition now x = (case x of None \<Rightarrow> True | Some it \<Rightarrow> it_expires_at it < now)"

text \<open>\<open>claim_id = :claim_id AND #status = :processing\<close>\<close>

definition owner_condition :: "string \<Rightarrow> idem_item option \<Rightarrow> bool" where
  "owner_condition claim_id x =
     (case x of None \<Rightarrow> False | Some it \<Rightarrow> it_claim_id it = claim_id \<and> it_status it = Some ''PROCESSING'')"

definition idem_claim ::
  "idem_config \<Rightarrow> fault \<Rightarrow> int \<Rightarrow> string \<Rightarrow> string \<Rightarrow> (idem_table, idempotency_claim option) prog" where
  "idem_claim cfg f now fresh event_id =
     (let normalized_event_id = strip event_id in
      if normalized_event_id = [] then raise (ValueError ''event_id must not be empty'')
      else try_except
        (bind (with_fault f (put_item normalized_event_id (claim_condition now)
            \<lparr>it_status = Some ''PROCESSING'', it_claim_id = fresh, it_created_at = now, it_updated_at = now,
             it_expires_at = now + processing_lease_seconds cfg\<rparr>))
          (\<lambda>_. ret (Some \<lparr>ic_event_id = normalized_event_id, ic_claim_id = fresh\<rparr>)))
        (\<lambda>e. if e = ConditionalCheckFailed then ret None else raise e))"

definition parse_status :: "string option \<Rightarrow> idempotency_status result" where
  "parse_status value =
     (case value of
        None \<Rightarrow> Inl (RuntimeError ''idempotency record does not contain status'')
      | Some s \<Rightarrow>
          if s = [] then Inl (RuntimeError ''idempotency record does not contain status'')
          else if s = ''PROCESSING'' then Inr PROCESSING
          else if s = ''COMPLETED'' then Inr COMPLETED
          else Inl (RuntimeError ''unknown idempotency status''))"

definition idem_get_status :: "fault \<Rightarrow> string \<Rightarrow> (idem_table, idempotency_status option) prog" where
  "idem_get_status f event_id =
     (let normalized_event_id = strip event_id in
      if normalized_event_id = [] then raise (ValueError ''event_id must not be empty'')
      else bind (with_fault f (\<lambda>t. (Inr (t normalized_event_id), t))) (\<lambda>item.
        case item of None \<Rightarrow> ret None | Some it \<Rightarrow> of_result (map_sum id Some (parse_status (it_status it)))))"

definition idem_complete :: "idem_config \<Rightarrow> fault \<Rightarrow> int \<Rightarrow> idempotency_claim \<Rightarrow> (idem_table, unit) prog" where
  "idem_complete cfg f now c =
     with_fault f (update_item (ic_event_id c) (owner_condition (ic_claim_id c))
       (\<lambda>it. it\<lparr>it_status := Some ''COMPLETED'', it_updated_at := now,
                it_expires_at := now + completed_retention_seconds cfg\<rparr>))"

definition idem_release :: "fault \<Rightarrow> idempotency_claim \<Rightarrow> (idem_table, unit) prog" where
  "idem_release f c =
     try_except (with_fault f (delete_item (ic_event_id c) (owner_condition (ic_claim_id c))))
       (\<lambda>e. if e = ConditionalCheckFailed then ret () else raise e)"

section \<open>The store keeps leases\<close>

definition idem_item :: "idem_table \<Rightarrow> string \<Rightarrow> string lease option" where
  "idem_item t k =
     (case t k of
        None \<Rightarrow> None
      | Some it \<Rightarrow>
          if it_status it = Some ''PROCESSING'' then Some (Held (it_claim_id it) (it_expires_at it))
          else Some (Done (Some (it_expires_at it))))"

text \<open>DynamoDB deletes items some time after they expired.\<close>

definition expire_items :: "int \<Rightarrow> string set \<Rightarrow> idem_table \<Rightarrow> idem_table" where
  "expire_items now K t = (\<lambda>k. case t k of None \<Rightarrow> None
     | Some it \<Rightarrow> if k \<in> K \<and> it_expires_at it < now then None else Some it)"

fun idem_performs :: "(string, string) lease_op \<Rightarrow> idem_table \<Rightarrow> idem_table \<Rightarrow> bool" where
  "idem_performs (Claim now w t K) s s' =
     (\<exists>cfg event_id. K = {strip event_id} \<and> t = now + processing_lease_seconds cfg
        \<and> idem_claim cfg Works now w event_id s = (Inr (Some \<lparr>ic_event_id = strip event_id, ic_claim_id = w\<rparr>), s'))"
| "idem_performs (Complete now w k) s s' =
     (\<exists>cfg. idem_complete cfg Works now \<lparr>ic_event_id = k, ic_claim_id = w\<rparr> s = (Inr (), s'))"
| "idem_performs (Release now w k) s s' =
     (owner_condition w (s k) \<and> idem_release Works \<lparr>ic_event_id = k, ic_claim_id = w\<rparr> s = (Inr (), s'))"
| "idem_performs (Other now) s s' = (\<exists>K. s' = expire_items now K s)"

abbreviation claimed_item :: "idem_config \<Rightarrow> int \<Rightarrow> string \<Rightarrow> idem_item" where
  "claimed_item cfg now fresh \<equiv> \<lparr>it_status = Some ''PROCESSING'', it_claim_id = fresh, it_created_at = now,
     it_updated_at = now, it_expires_at = now + processing_lease_seconds cfg\<rparr>"

text \<open>Every outcome of a claim: granted; or the item is there or an error was reported.\<close>

lemma idem_claim_run:
  assumes "strip k = k" "k \<noteq> []"
  shows "idem_claim cfg Works now fresh k t =
      (if claim_condition now (t k) then (Inr (Some \<lparr>ic_event_id = k, ic_claim_id = fresh\<rparr>), t(k \<mapsto> claimed_item cfg now fresh)) else (Inr None, t))"
    and "snd (idem_claim cfg f now fresh k t) = t \<or>
      claim_condition now (t k) \<and> snd (idem_claim cfg f now fresh k t) = t(k \<mapsto> claimed_item cfg now fresh)"
    and "fst (idem_claim cfg f now fresh k t) = Inr (Some c) \<Longrightarrow> f = Works \<and> claim_condition now (t k)
      \<and> c = \<lparr>ic_event_id = k, ic_claim_id = fresh\<rparr>"
  using assms by (auto simp: idem_claim_def Let_def try_except_def bind_run put_item_def with_fault_def
      split: fault.splits if_splits)

lemma idem_complete_run:
  "idem_complete cfg Works now c t =
    (if owner_condition (ic_claim_id c) (t (ic_event_id c))
     then (Inr (), t(ic_event_id c := map_option (\<lambda>it. it\<lparr>it_status := Some ''COMPLETED'', it_updated_at := now,
                it_expires_at := now + completed_retention_seconds cfg\<rparr>) (t (ic_event_id c))))
     else (Inl ConditionalCheckFailed, t))"
  by (simp add: idem_complete_def update_item_def)

lemma idem_release_run:
  "idem_release Works c t =
    (Inr (), if owner_condition (ic_claim_id c) (t (ic_event_id c)) then t(ic_event_id c := None) else t)"
  by (simp add: idem_release_def try_except_def delete_item_def)

lemma claim_condition_free: "claim_condition now (t k) \<Longrightarrow> free_at now (idem_item t k)"
  by (auto simp: claim_condition_def idem_item_def split: option.splits)

lemma owner_held: "owner_condition w (t k) \<Longrightarrow> \<exists>e. idem_item t k = Some (Held w e)"
  by (auto simp: owner_condition_def idem_item_def split: option.splits)

lemma idem_claim_nonblank: "idem_claim cfg f now w k s = (Inr r, s') \<Longrightarrow> strip k \<noteq> []"
  by (auto simp: idem_claim_def Let_def)

lemma idem_claim_strip: "idem_claim cfg f now w (strip k) = idem_claim cfg f now w k"
  by (simp add: idem_claim_def)

lemma idem_claim_granted:
  assumes "idem_claim cfg Works now w event_id s = (Inr (Some c), s')"
  shows "claim_condition now (s (strip event_id))" and "idem_item s' (strip event_id) = Some (Held w (now + processing_lease_seconds cfg))"
    and "k \<noteq> strip event_id \<Longrightarrow> s' k = s k"
proof -
  have "idem_claim cfg Works now w (strip event_id) s = (Inr (Some c), s')" using assms by (simp add: idem_claim_strip)
  moreover have "strip event_id \<noteq> []" using idem_claim_nonblank [OF assms] .
  ultimately show "claim_condition now (s (strip event_id))"
    and "idem_item s' (strip event_id) = Some (Held w (now + processing_lease_seconds cfg))"
    and "k \<noteq> strip event_id \<Longrightarrow> s' k = s k"
    using idem_claim_run(1) [of "strip event_id" cfg now w s] by (auto simp: idem_item_def split: if_splits)
qed

interpretation idem: lease_store "\<lambda>_. True" idem_item idem_performs
proof (unfold_locales, goal_cases)
  case (2 s now w t K s' k)
  then show ?case using idem_claim_granted(1,2) claim_condition_free by fastforce
next
  case (3 s now w t K s' k)
  then show ?case using idem_claim_granted(3) by (fastforce simp: idem_item_def)
next
  case (4 s now w k s')
  then have "owner_condition w (s k)" by (auto simp: idem_complete_run split: if_splits)
  then show ?case using 4 owner_held [of w s k]
    by (auto simp: idem_complete_run idem_item_def owner_condition_def split: option.splits)
next
  case (5 s now w k s' k')
  then show ?case by (auto simp: idem_complete_run idem_item_def split: if_splits)
next
  case (6 s now w k s')
  then show ?case using owner_held [of w s k] by (auto simp: idem_release_run idem_item_def)
next
  case (7 s now w k s' k')
  then show ?case by (auto simp: idem_release_run idem_item_def)
next
  case (8 s now s' k)
  then show ?case by (auto simp: expire_items_def idem_item_def split: option.splits if_splits)
qed simp

end
