(* ===== verification/Identifiers.thy ===== *)
theory Identifiers
  imports Prelude
begin

text \<open>
  The text \<open>str(uuid)\<close> of an identifier, which the aggregates of the outbox, the keys of the
  idempotency table and the notifications use; it is injective and has no white space.
\<close>

section \<open>The text of an identifier\<close>

definition hex_digit :: "nat \<Rightarrow> char" where
  "hex_digit n = ''0123456789abcdef'' ! (n mod 16)"

fun hex :: "nat \<Rightarrow> nat \<Rightarrow> string" where
  "hex 0 n = []"
| "hex (Suc k) n = hex k (n div 16) @ [hex_digit (n mod 16)]"

text \<open>\<open>str(uuid)\<close>: 32 hexadecimal digits in five groups.\<close>

definition uuid_str :: "uuid \<Rightarrow> string" where
  "uuid_str i = (let h = hex 32 i in
     take 8 h @ ''-'' @ take 4 (drop 8 h) @ ''-'' @ take 4 (drop 12 h) @ ''-'' @ take 4 (drop 16 h) @ ''-'' @ drop 20 h)"

section \<open>The text identifies\<close>

lemma hex_digit_inj: "m < 16 \<Longrightarrow> n < 16 \<Longrightarrow> hex_digit m = hex_digit n \<Longrightarrow> m = n"
proof -
  have "distinct ''0123456789abcdef''" by simp
  then show "m < 16 \<Longrightarrow> n < 16 \<Longrightarrow> hex_digit m = hex_digit n \<Longrightarrow> m = n"
    by (simp add: hex_digit_def nth_eq_iff_index_eq)
qed

lemma length_hex [simp]: "length (hex k n) = k"
  by (induction k arbitrary: n) auto

lemma hex_inj: "m < 16 ^ k \<Longrightarrow> n < 16 ^ k \<Longrightarrow> hex k m = hex k n \<Longrightarrow> m = n"
proof (induction k arbitrary: m n)
  case (Suc k)
  have "hex k (m div 16) = hex k (n div 16)" and d: "hex_digit (m mod 16) = hex_digit (n mod 16)"
    using Suc.prems(3) by auto
  moreover have "m div 16 < 16 ^ k" "n div 16 < 16 ^ k" using Suc.prems by (auto simp: less_mult_imp_div_less mult.commute)
  ultimately have "m div 16 = n div 16" using Suc.IH by blast
  moreover have "m mod 16 = n mod 16" using hex_digit_inj [OF _ _ d] by simp
  ultimately show ?case by (metis div_mult_mod_eq)
qed simp

lemma take_drop_step: "take n (drop m xs) @ drop (m + n) xs = drop m xs"
  by (metis add.commute append_take_drop_id drop_drop)

lemma five_groups:
  "xs = take 8 xs @ take 4 (drop 8 xs) @ take 4 (drop 12 xs) @ take 4 (drop 16 xs) @ drop 20 xs"
  using take_drop_step [of 4 8 xs] take_drop_step [of 4 12 xs] take_drop_step [of 4 16 xs] by simp

lemma uuid_str_inj: "i < 2 ^ 128 \<Longrightarrow> j < 2 ^ 128 \<Longrightarrow> uuid_str i = uuid_str j \<Longrightarrow> i = j"
proof -
  assume b: "i < 2 ^ 128" "j < 2 ^ 128" and e: "uuid_str i = uuid_str j"
  let ?h = "hex 32 i" and ?g = "hex 32 j"
  have "take 8 ?h = take 8 ?g" "take 4 (drop 8 ?h) = take 4 (drop 8 ?g)" "take 4 (drop 12 ?h) = take 4 (drop 12 ?g)"
    "take 4 (drop 16 ?h) = take 4 (drop 16 ?g)" "drop 20 ?h = drop 20 ?g"
    using e by (simp_all add: uuid_str_def Let_def)
  then have "?h = ?g"
    using five_groups [of ?h] five_groups [of ?g] by simp
  then show ?thesis using hex_inj [of i 32 j] b by simp
qed

lemma hex_digit_not_space: "\<not> is_space (hex_digit n)"
proof -
  have "\<forall>k < 16. \<not> is_space (''0123456789abcdef'' ! k)" by code_simp
  then show ?thesis by (simp add: hex_digit_def)
qed

lemma hex_not_space: "c \<in> set (hex k n) \<Longrightarrow> \<not> is_space c"
  by (induction k arbitrary: n) (auto simp: hex_digit_not_space)

lemma uuid_str_chars: "c \<in> set (uuid_str i) \<Longrightarrow> \<not> is_space c"
proof -
  have "\<not> is_space CHR ''-''" by code_simp
  then show "c \<in> set (uuid_str i) \<Longrightarrow> \<not> is_space c"
    by (auto simp: uuid_str_def Let_def dest!: in_set_takeD in_set_dropD hex_not_space)
qed

lemma strip_no_space: "(\<And>c. c \<in> set s \<Longrightarrow> \<not> is_space c) \<Longrightarrow> strip s = s"
proof -
  assume a: "\<And>c. c \<in> set s \<Longrightarrow> \<not> is_space c"
  have "dropWhile is_space t = t" if "set t = set s" for t
    using a that by (cases t) auto
  then show ?thesis by (simp add: strip_def)
qed

lemma strip_uuid_str [simp]: "strip (uuid_str i) = uuid_str i"
  by (rule strip_no_space) (rule uuid_str_chars)

lemma uuid_str_Nil [simp]: "uuid_str i \<noteq> []"
  by (simp add: uuid_str_def Let_def)

lemma length_uuid_str [simp]: "length (uuid_str i) = 36"
  by (simp add: uuid_str_def Let_def)

end
