(* ===== verification/Alert_Worker.thy ===== *)
theory Alert_Worker
  imports Risk_Engine Idempotency_Store Identifiers
begin

text \<open>
  The alert worker (\<open>services/alert_worker\<close>): the parser of queue messages, the notification
  formatter and publisher, the service that claims, publishes and completes, and the consumer that
  polls the queue and acknowledges. SNS, SQS and the JSON parser are parameters; the faults of the
  single calls, the clock readings and the fresh claim identifier are arguments.
\<close>

section \<open>Parsing a message\<close>

record queue_message =
  qm_source :: string
  qm_detail_type :: string
  qm_detail :: "payload_dict envelope"

text \<open>A JSON document: an object with the three fields that are read, or something else.\<close>

datatype outer_event =
    OuterObject "string option" "string option" "(string \<times> payload_dict json) list option"
  | OuterOther

record sqs_message =
  msg_body :: "string option"
  msg_receipt :: "string option"

record parser_env =
  loads :: "string \<Rightarrow> outer_event option"
  pe_event_id :: uuid
  pe_correlation_id :: uuid
  pe_clock :: int

definition parse_message :: "parser_env \<Rightarrow> sqs_message \<Rightarrow> queue_message result" where
  "parse_message env message =
     (case msg_body message of
        None \<Rightarrow> Inl (InvalidAlertMessageError ''SQS message Body must be a string'')
      | Some body \<Rightarrow> (case loads env body of
          None \<Rightarrow> Inl (InvalidAlertMessageError ''SQS message Body is not valid JSON'')
        | Some OuterOther \<Rightarrow> Inl (InvalidAlertMessageError ''EventBridge event must be an object'')
        | Some (OuterObject src dtype detail) \<Rightarrow>
            if src \<noteq> Some ''realstock.risk-engine''
            then Inl (InvalidAlertMessageError ''unexpected EventBridge source'')
            else if dtype \<noteq> Some ''risk.alert.detected''
            then Inl (InvalidAlertMessageError ''unexpected EventBridge detail-type'')
            else (case detail of
              None \<Rightarrow> Inl (InvalidAlertMessageError ''EventBridge detail must be an object'')
            | Some fs \<Rightarrow> (case envelope_validate (pe_event_id env) (pe_correlation_id env) (pe_clock env) fs of
                Inl _ \<Rightarrow> Inl (InvalidAlertMessageError ''EventBridge detail is not a valid RealStock EventEnvelope'')
              | Inr event \<Rightarrow>
                  if event_type event \<noteq> ''risk.alert.detected''
                  then Inl (InvalidAlertMessageError ''inner event_type must be risk.alert.detected'')
                  else Inr \<lparr>qm_source = the src, qm_detail_type = the dtype, qm_detail = event\<rparr>))))"

section \<open>The notification\<close>

record sns_entry =
  sns_topic_arn :: string
  sns_subject :: string
  sns_message :: payload_dict
  sns_attributes :: "(string \<times> string) list"

type_synonym sns_client = "sns_entry \<Rightarrow> (sns_entry list, string option) prog"

text \<open>The identifier and clock drawn when a payload lacks them.\<close>

record notify_env =
  ne_topic_arn :: string
  ne_client :: sns_client
  ne_alert_id :: uuid
  ne_clock :: int

definition notify_new :: "string \<Rightarrow> string result" where
  "notify_new topic_arn =
     (let normalized_topic_arn = strip topic_arn in
      if normalized_topic_arn = [] then Inl (ValueError ''topic_arn must not be empty'')
      else Inr normalized_topic_arn)"

definition parse_alert :: "notify_env \<Rightarrow> payload_dict envelope \<Rightarrow> risk_alert result" where
  "parse_alert env event =
     (if event_type event \<noteq> ''risk.alert.detected''
      then Inl (ValueError ''notification formatter accepts only risk.alert.detected events'')
      else alert_model_validate (ne_alert_id env) (ne_clock env) (payload event))"

definition format_subject :: "notify_env \<Rightarrow> payload_dict envelope \<Rightarrow> string result" where
  "format_subject env event = map_sum id (\<lambda>alert. ''[RealStock] '' @ severity_name (ra_severity alert) @ '' ''
     @ market_name (ra_market alert) @ '':'' @ ra_symbol alert) (parse_alert env event)"

text \<open>The JSON text of the message stands for this dictionary.\<close>

definition format_message :: "notify_env \<Rightarrow> payload_dict envelope \<Rightarrow> payload_dict result" where
  "format_message env event = map_sum id (\<lambda>alert.
     [(''notification_type'', VText ''risk_alert''), (''event_id'', VText (uuid_str (event_id event))),
      (''correlation_id'', VText (uuid_str (correlation_id event))),
      (''causation_id'', case causation_id event of None \<Rightarrow> VNull | Some i \<Rightarrow> VText (uuid_str i)),
      (''occurred_at'', VTime (Aware (occurred_at event))),
      (''risk_type'', VText (risk_type_name (ra_risk_type alert))),
      (''severity'', VText (severity_name (ra_severity alert))), (''market'', VText (market_name (ra_market alert))),
      (''symbol'', VText (ra_symbol alert)), (''observed_value'', VDecimal (ra_observed_value alert)),
      (''threshold'', VDecimal (ra_threshold alert)), (''message'', VText (ra_message alert))]) (parse_alert env event)"

definition sns_publish :: "notify_env \<Rightarrow> payload_dict envelope \<Rightarrow> (sns_entry list, string) prog" where
  "sns_publish env event =
     bind (of_result (alert_model_validate (ne_alert_id env) (ne_clock env) (payload event))) (\<lambda>alert.
     bind (of_result (format_subject env event)) (\<lambda>subject.
     bind (of_result (format_message env event)) (\<lambda>message.
     bind (ne_client env \<lparr>sns_topic_arn = ne_topic_arn env, sns_subject = subject, sns_message = message,
         sns_attributes = [(''severity'', severity_name (ra_severity alert)),
           (''risk_type'', risk_type_name (ra_risk_type alert)), (''market'', market_name (ra_market alert)),
           (''symbol'', ra_symbol alert), (''correlation_id'', uuid_str (correlation_id event))]\<rparr>) (\<lambda>message_id.
     if truthy message_id then ret (the message_id)
     else raise (RuntimeError ''SNS publish response did not contain MessageId'')))))"

section \<open>The service\<close>

datatype processing_status = PUBLISHED | DUPLICATE | IN_PROGRESS

record alert_result =
  ar_status :: processing_status
  ar_event_id :: string
  ar_message_id :: "string option"

record alert_world =
  al_table :: idem_table
  al_sns :: "sns_entry list"
  al_deleted :: "string list"

text \<open>What one call of the service meets: clock readings, faults, fresh identifiers.\<close>

record alert_env =
  ae_parser :: parser_env
  ae_config :: idem_config
  ae_notify :: notify_env
  ae_claim_clock :: int
  ae_claim_id :: string
  ae_claim_fault :: fault
  ae_status_fault :: fault
  ae_release_fault :: fault
  ae_complete_clock :: int
  ae_complete_fault :: fault
  ae_receive :: "sqs_message list result"
  ae_delete_fault :: fault

definition on_table :: "(idem_table, 'a) prog \<Rightarrow> (alert_world, 'a) prog" where
  "on_table m = (\<lambda>w. case m (al_table w) of (r, t) \<Rightarrow> (r, w\<lparr>al_table := t\<rparr>))"

definition on_sns :: "(sns_entry list, 'a) prog \<Rightarrow> (alert_world, 'a) prog" where
  "on_sns m = (\<lambda>w. case m (al_sns w) of (r, lg) \<Rightarrow> (r, w\<lparr>al_sns := lg\<rparr>))"

definition claim_alert :: "alert_env \<Rightarrow> string \<Rightarrow> (alert_world, idempotency_claim option) prog" where
  "claim_alert env k =
     on_table (idem_claim (ae_config env) (ae_claim_fault env) (ae_claim_clock env) (ae_claim_id env) k)"

text \<open>The branch without a claim, and the branch with one.\<close>

definition answer_unclaimed :: "alert_env \<Rightarrow> string \<Rightarrow> (alert_world, alert_result) prog" where
  "answer_unclaimed env k =
     bind (on_table (idem_get_status (ae_status_fault env) k)) (\<lambda>status.
     ret \<lparr>ar_status = (if status = Some COMPLETED then DUPLICATE else IN_PROGRESS), ar_event_id = k,
          ar_message_id = None\<rparr>)"

definition notify_alert :: "alert_env \<Rightarrow> payload_dict envelope \<Rightarrow> (alert_world, string) prog" where
  "notify_alert env event = on_sns (sns_publish (ae_notify env) event)"

definition complete_alert :: "alert_env \<Rightarrow> idempotency_claim \<Rightarrow> (alert_world, unit) prog" where
  "complete_alert env claim =
     on_table (idem_complete (ae_config env) (ae_complete_fault env) (ae_complete_clock env) claim)"

definition release_alert :: "alert_env \<Rightarrow> idempotency_claim \<Rightarrow> (alert_world, unit) prog" where
  "release_alert env claim = on_table (idem_release (ae_release_fault env) claim)"

definition process_alert :: "alert_env \<Rightarrow> payload_dict envelope \<Rightarrow> (alert_world, alert_result) prog" where
  "process_alert env event =
     bind (claim_alert env (uuid_str (event_id event))) (\<lambda>claim.
     case claim of
       None \<Rightarrow> answer_unclaimed env (uuid_str (event_id event))
     | Some c \<Rightarrow>
         bind (try_except (notify_alert env event) (\<lambda>e. bind (release_alert env c) (\<lambda>_. raise e))) (\<lambda>message_id.
         bind (complete_alert env c) (\<lambda>_.
         ret \<lparr>ar_status = PUBLISHED, ar_event_id = uuid_str (event_id event), ar_message_id = Some message_id\<rparr>)))"

definition process_message :: "alert_env \<Rightarrow> sqs_message \<Rightarrow> (alert_world, alert_result) prog" where
  "process_message env message =
     bind (of_result (parse_message (ae_parser env) message)) (\<lambda>parsed. process_alert env (qm_detail parsed))"

section \<open>The consumer\<close>

definition consumer_new :: "string \<Rightarrow> int \<Rightarrow> string result" where
  "consumer_new queue_url wait_time_seconds =
     (let normalized_queue_url = strip queue_url in
      if normalized_queue_url = [] then Inl (ValueError ''queue_url must not be empty'')
      else if \<not> (0 \<le> wait_time_seconds \<and> wait_time_seconds \<le> 20)
      then Inl (ValueError ''wait_time_seconds must be between 0 and 20'')
      else Inr normalized_queue_url)"

definition delete_message :: "alert_env \<Rightarrow> string \<Rightarrow> (alert_world, unit) prog" where
  "delete_message env receipt =
     with_fault (ae_delete_fault env) (update_state (\<lambda>w. w\<lparr>al_deleted := al_deleted w @ [receipt]\<rparr>))"

definition poll_once :: "alert_env \<Rightarrow> (alert_world, alert_result option) prog" where
  "poll_once env =
     bind (of_result (ae_receive env)) (\<lambda>messages.
     case messages of
       [] \<Rightarrow> ret None
     | message # _ \<Rightarrow>
         (case msg_receipt message of
            None \<Rightarrow> raise (RuntimeError ''SQS message does not contain ReceiptHandle'')
          | Some receipt \<Rightarrow>
              bind (process_message env message) (\<lambda>r.
              bind (if ar_status r = PUBLISHED \<or> ar_status r = DUPLICATE then delete_message env receipt else ret ())
                (\<lambda>_. ret (Some r)))))"

end
