(* ===== verification/Alert_Protocol.thy ===== *)
theory Alert_Protocol
  imports Alert_Worker
begin

text \<open>
  Several alert workers on one idempotency table, one topic and one queue: the calls of
  \<open>poll_once\<close> as steps that interleave, with crashes, faults and the expiry of items; what holds in
  every reachable state; and that \<open>poll_once\<close> is a run of these steps.
\<close>

section \<open>The topic\<close>

text \<open>
  The documented behaviour of \<open>publish\<close>: the log of the topic only grows, by the entry sent if at all,
  and an answer with a message identifier means that the entry was taken.
\<close>

definition truthful_topic :: "sns_client \<Rightarrow> bool" where
  "truthful_topic client \<longleftrightarrow> (\<forall>entry lg. case client entry lg of (r, lg') \<Rightarrow>
     (lg' = lg \<or> lg' = lg @ [entry])
     \<and> (case r of Inl _ \<Rightarrow> True | Inr i \<Rightarrow> truthy i \<longrightarrow> lg' = lg @ [entry]))"

text \<open>A notification for an event, named by its identifier, is on the topic.\<close>

definition notified :: "string \<Rightarrow> sns_entry list \<Rightarrow> bool" where
  "notified k lg \<longleftrightarrow> (\<exists>entry \<in> set lg. map_of (sns_message entry) ''event_id'' = Some (VText k))"

lemma notified_mono: "notified k lg \<Longrightarrow> notified k (lg @ xs)"
  by (auto simp: notified_def)

lemma sns_publish_run:
  assumes "sns_publish env e lg = (r, lg')" and "truthful_topic (ne_client env)"
  shows "\<exists>xs. lg' = lg @ xs" and "r = Inr i \<Longrightarrow> notified (uuid_str (event_id e)) lg'"
proof -
  have t: "client_log = lg0 \<or> client_log = lg0 @ [entry]"
    "\<And>i. r0 = Inr i \<Longrightarrow> truthy i \<Longrightarrow> client_log = lg0 @ [entry]"
    if "ne_client env entry lg0 = (r0, client_log)" for entry lg0 r0 client_log
    using assms(2) [unfolded truthful_topic_def, rule_format, of lg0 entry] that by auto
  show "\<exists>xs. lg' = lg @ xs"
    using assms(1) t(1) by (fastforce simp: sns_publish_def bind_run split: prod.splits sum.splits if_splits)
  show "notified (uuid_str (event_id e)) lg'" if "r = Inr i"
  proof -
    from assms(1) that obtain subject message attrs answer where
      m: "format_message env e = Inr message"
      and c: "ne_client env \<lparr>sns_topic_arn = ne_topic_arn env, sns_subject = subject, sns_message = message,
            sns_attributes = attrs\<rparr> lg = (Inr answer, lg')" and a: "truthy answer"
      by (fastforce simp: sns_publish_def elim!: bind_InrE split: if_splits)
    have "map_of message ''event_id'' = Some (VText (uuid_str (event_id e)))"
      using m by (cases "parse_alert env e") (auto simp: format_message_def)
    then show ?thesis using t(2) [OF c refl a] by (simp add: notified_def)
  qed
qed

section \<open>Steps\<close>

text \<open>Where a worker stands in \<open>poll_once\<close>, with the receipt handle and the event in hand.\<close>

datatype alert_phase =
    Waiting
  | Received string "payload_dict envelope"
  | Claimed string "payload_dict envelope" idempotency_claim
  | Notified string "payload_dict envelope" idempotency_claim
  | Refused string "payload_dict envelope"
  | Answered string "payload_dict envelope" processing_status

record alert_system =
  al_world :: alert_world
  al_worker :: "nat \<Rightarrow> alert_phase"
  al_acked :: "(string \<times> uuid) list"

abbreviation goes :: "nat \<Rightarrow> alert_phase \<Rightarrow> alert_world \<Rightarrow> alert_system \<Rightarrow> alert_system" where
  "goes n p w s \<equiv> s\<lparr>al_world := w, al_worker := (al_worker s)(n := p)\<rparr>"

inductive alert_step :: "alert_system \<Rightarrow> alert_system \<Rightarrow> bool" where
  alert_on_receive: "al_worker s n = Waiting \<Longrightarrow> parse_message penv message = Inr parsed \<Longrightarrow>
    msg_receipt message = Some receipt \<Longrightarrow>
    alert_step s (goes n (Received receipt (qm_detail parsed)) (al_world s) s)"
| alert_on_claim: "al_worker s n = Received receipt e \<Longrightarrow>
    claim_alert env (uuid_str (event_id e)) (al_world s) = (r, w) \<Longrightarrow>
    p = (case r of Inl _ \<Rightarrow> Waiting | Inr None \<Rightarrow> Refused receipt e | Inr (Some c) \<Rightarrow> Claimed receipt e c) \<Longrightarrow>
    alert_step s (goes n p w s)"
| alert_on_refused: "al_worker s n = Refused receipt e \<Longrightarrow>
    answer_unclaimed env (uuid_str (event_id e)) (al_world s) = (r, w) \<Longrightarrow>
    p = (case r of Inl _ \<Rightarrow> Waiting | Inr result \<Rightarrow> Answered receipt e (ar_status result)) \<Longrightarrow>
    alert_step s (goes n p w s)"
| alert_on_notify: "al_worker s n = Claimed receipt e c \<Longrightarrow> truthful_topic (ne_client (ae_notify env)) \<Longrightarrow>
    notify_alert env e (al_world s) = (r, w) \<Longrightarrow>
    p = (case r of Inl _ \<Rightarrow> Claimed receipt e c | Inr i \<Rightarrow> Notified receipt e c) \<Longrightarrow>
    alert_step s (goes n p w s)"
| alert_on_release: "al_worker s n = Claimed receipt e c \<Longrightarrow> release_alert env c (al_world s) = (r, w) \<Longrightarrow>
    alert_step s (goes n Waiting w s)"
| alert_on_complete: "al_worker s n = Notified receipt e c \<Longrightarrow> complete_alert env c (al_world s) = (r, w) \<Longrightarrow>
    p = (case r of Inl _ \<Rightarrow> Waiting | Inr _ \<Rightarrow> Answered receipt e PUBLISHED) \<Longrightarrow>
    alert_step s (goes n p w s)"
| alert_on_acknowledge: "al_worker s n = Answered receipt e status \<Longrightarrow> status \<noteq> IN_PROGRESS \<Longrightarrow>
    delete_message env receipt (al_world s) = (r, w) \<Longrightarrow>
    alert_step s ((goes n Waiting w s)\<lparr>al_acked := al_acked s @ [(receipt, event_id e)]\<rparr>)"
| alert_on_stop: "alert_step s (goes n Waiting (al_world s) s)"
| alert_on_expire: "alert_step s (s\<lparr>al_world := (al_world s)\<lparr>al_table := expire_items now K (al_table (al_world s))\<rparr>\<rparr>)"

inductive_cases alert_stepE: "alert_step s s'"

definition alert_initial :: alert_system where
  "alert_initial = \<lparr>al_world = \<lparr>al_table = Map.empty, al_sns = [], al_deleted = []\<rparr>, al_worker = (\<lambda>_. Waiting),
     al_acked = []\<rparr>"

inductive alert_reachable :: "alert_system \<Rightarrow> bool" where
  alert_start: "alert_reachable alert_initial"
| alert_next: "alert_reachable s \<Longrightarrow> alert_step s s' \<Longrightarrow> alert_reachable s'"

section \<open>The invariant\<close>

text \<open>A completed item, a worker about to complete or acknowledge, and an acknowledged message all
  mean that the notification is on the topic.\<close>

definition table_notified :: "alert_world \<Rightarrow> bool" where
  "table_notified w \<longleftrightarrow> (\<forall>k it. al_table w k = Some it \<longrightarrow> it_status it \<noteq> Some ''PROCESSING'' \<longrightarrow>
     notified k (al_sns w))"

fun phase_notified :: "sns_entry list \<Rightarrow> alert_phase \<Rightarrow> bool" where
  "phase_notified lg (Claimed receipt e c) = (ic_event_id c = uuid_str (event_id e))"
| "phase_notified lg (Notified receipt e c) =
     (ic_event_id c = uuid_str (event_id e) \<and> notified (uuid_str (event_id e)) lg)"
| "phase_notified lg (Answered receipt e status) = (status \<noteq> IN_PROGRESS \<longrightarrow> notified (uuid_str (event_id e)) lg)"
| "phase_notified lg _ = True"

definition alert_inv :: "alert_system \<Rightarrow> bool" where
  "alert_inv s \<longleftrightarrow> table_notified (al_world s) \<and> (\<forall>n. phase_notified (al_sns (al_world s)) (al_worker s n))
     \<and> (\<forall>(receipt, i) \<in> set (al_acked s). notified (uuid_str i) (al_sns (al_world s)))
     \<and> set (al_deleted (al_world s)) \<subseteq> fst ` set (al_acked s)"

lemma phase_notified_mono: "phase_notified lg p \<Longrightarrow> phase_notified (lg @ xs) p"
  by (cases p) (auto intro: notified_mono)

lemma claim_alert_run:
  assumes "claim_alert env k w = (r, w')" "strip k = k" "k \<noteq> []"
  shows "al_sns w' = al_sns w" "al_deleted w' = al_deleted w"
    and "table_notified w \<Longrightarrow> table_notified w'"
    and "r = Inr (Some c) \<Longrightarrow> ic_event_id c = k"
proof -
  obtain t where w': "w' = w\<lparr>al_table := t\<rparr>"
    and c: "idem_claim (ae_config env) (ae_claim_fault env) (ae_claim_clock env) (ae_claim_id env) k (al_table w) = (r, t)"
    using assms(1) by (auto simp: claim_alert_def on_table_def split: prod.splits)
  show "al_sns w' = al_sns w" "al_deleted w' = al_deleted w" by (simp_all add: w')
  have "t = al_table w \<or> (\<exists>cfg now fresh. t = (al_table w)(k \<mapsto> claimed_item cfg now fresh))"
    using idem_claim_run(2) [OF assms(2,3), of "ae_config env" "ae_claim_fault env" "ae_claim_clock env" "ae_claim_id env" "al_table w"] c
    by auto
  then show "table_notified w \<Longrightarrow> table_notified w'" by (auto simp: table_notified_def w' split: if_splits)
  show "ic_event_id c = k" if "r = Inr (Some c)"
    using idem_claim_run(3) [OF assms(2,3)] c that by (metis fst_conv idempotency_claim.select_convs(1))
qed

lemma answer_unclaimed_run:
  assumes "answer_unclaimed env k w = (r, w')" "strip k = k"
  shows "w' = w" and "r = Inr result \<Longrightarrow> ar_status result \<noteq> IN_PROGRESS \<Longrightarrow> table_notified w \<Longrightarrow> notified k (al_sns w)"
proof -
  have w': "w' = w"
    using assms(1) by (auto simp: answer_unclaimed_def on_table_def bind_run idem_get_status_def Let_def with_fault_def
        split: prod.splits sum.splits option.splits fault.splits if_splits)
  then show "w' = w" .
  show "notified k (al_sns w)" if "r = Inr result" "ar_status result \<noteq> IN_PROGRESS" "table_notified w"
  proof -
    from assms that(1,2) obtain it where "al_table w k = Some it" "it_status it = Some ''COMPLETED''"
      by (auto simp: answer_unclaimed_def on_table_def bind_run idem_get_status_def Let_def with_fault_def parse_status_def
        split: prod.splits sum.splits option.splits fault.splits if_splits)
    then show ?thesis using that(3) by (simp add: table_notified_def)
  qed
qed

lemma notify_alert_run:
  assumes "notify_alert env e w = (r, w')" "truthful_topic (ne_client (ae_notify env))"
  shows "al_table w' = al_table w" "al_deleted w' = al_deleted w" "\<exists>xs. al_sns w' = al_sns w @ xs"
    and "r = Inr i \<Longrightarrow> notified (uuid_str (event_id e)) (al_sns w')"
  using assms(1) sns_publish_run [OF _ assms(2)]
  by (auto simp: notify_alert_def on_sns_def split: prod.splits)

lemma complete_alert_run:
  assumes "complete_alert env c w = (r, w')" "notified (ic_event_id c) (al_sns w)"
  shows "al_sns w' = al_sns w" "al_deleted w' = al_deleted w" "table_notified w \<Longrightarrow> table_notified w'"
  using assms by (auto simp: complete_alert_def on_table_def idem_complete_def with_fault_def update_item_def table_notified_def
      split: prod.splits fault.splits if_splits)

lemma release_alert_run:
  assumes "release_alert env c w = (r, w')"
  shows "al_sns w' = al_sns w" "al_deleted w' = al_deleted w" "table_notified w \<Longrightarrow> table_notified w'"
  using assms by (auto simp: release_alert_def on_table_def idem_release_def try_except_def with_fault_def delete_item_def
      table_notified_def split: prod.splits sum.splits fault.splits if_splits)

lemma delete_message_run:
  assumes "delete_message env receipt w = (r, w')"
  shows "al_sns w' = al_sns w" "al_table w' = al_table w" "set (al_deleted w') \<subseteq> insert receipt (set (al_deleted w))"
  using assms by (auto simp: delete_message_def with_fault_def split: fault.splits)

text \<open>A step that keeps the log of the topic and changes one worker.\<close>

lemma alert_inv_goes:
  assumes "alert_inv s" "al_sns w = al_sns (al_world s)" "al_deleted w = al_deleted (al_world s)"
    and "table_notified w" "phase_notified (al_sns w) p"
  shows "alert_inv (goes n p w s)"
  using assms by (simp add: alert_inv_def)

lemma alert_inv_step: "alert_inv s \<Longrightarrow> alert_step s s' \<Longrightarrow> alert_inv s'"
proof (erule alert_step.cases, goal_cases)
  case (1 s n penv message parsed receipt)
  then show ?case by (auto intro!: alert_inv_goes simp: alert_inv_def)
next
  case (2 s n receipt e env r w p)
  note c = claim_alert_run [OF 2(5) strip_uuid_str uuid_str_Nil]
  have "phase_notified (al_sns w) p"
    using c(4) 2(6) by (auto split: sum.splits option.splits)
  then show ?case using 2 c(1-3) by (auto intro!: alert_inv_goes simp: alert_inv_def)
next
  case (3 s n receipt e env r w p)
  note a = answer_unclaimed_run [OF 3(5) strip_uuid_str]
  have t: "table_notified (al_world s)" using 3 by (simp add: alert_inv_def)
  have ph: "phase_notified (al_sns w) p"
    using a(2) t 3(6) by (auto simp: a(1) split: sum.splits)
  have "al_sns w = al_sns (al_world s)" "al_deleted w = al_deleted (al_world s)" "table_notified w"
    using a(1) t by simp_all
  from alert_inv_goes [OF _ this ph] 3(1,2) show ?case using 3(3) by simp
next
  case (4 s n receipt e c env r w p)
  note a = notify_alert_run [OF 4(6,5)]
  obtain xs where xs: "al_sns w = al_sns (al_world s) @ xs" using a(3) by blast
  have "phase_notified (al_sns (al_world s)) (Claimed receipt e c)" using 4 by (metis alert_inv_def)
  then have "phase_notified (al_sns w) p"
    using a(4) 4(7) by (auto split: sum.splits)
  then show ?case
    using 4 a(1,2) by (auto simp: alert_inv_def xs table_notified_def intro: notified_mono phase_notified_mono)
next
  case (5 s n receipt e c env r w)
  then show ?case using release_alert_run [OF 5(5)] by (auto intro!: alert_inv_goes simp: alert_inv_def)
next
  case (6 s n receipt e c env r w p)
  have ph: "phase_notified (al_sns (al_world s)) (Notified receipt e c)" using 6 by (metis alert_inv_def)
  then have n: "notified (ic_event_id c) (al_sns (al_world s))" by simp
  note a = complete_alert_run [OF 6(5) n]
  have "phase_notified (al_sns w) p" using ph a(1) 6(6) by (auto split: sum.splits)
  then show ?case using 6 a by (auto intro!: alert_inv_goes simp: alert_inv_def)
next
  case (7 s n receipt e status env r w)
  have ph: "phase_notified (al_sns (al_world s)) (Answered receipt e status)" using 7 by (metis alert_inv_def)
  then show ?case
    using 7 delete_message_run [OF 7(6)] by (auto simp: alert_inv_def table_notified_def)
next
  case (8 s n)
  then show ?case by (auto intro!: alert_inv_goes simp: alert_inv_def)
next
  case (9 s now K)
  then show ?case
    by (auto simp: alert_inv_def table_notified_def expire_items_def split: option.splits if_splits)
qed

lemma alert_reachable_inv: "alert_reachable s \<Longrightarrow> alert_inv s"
proof (induction rule: alert_reachable.induct)
  case alert_start
  then show ?case by (simp add: alert_inv_def alert_initial_def table_notified_def)
next
  case (alert_next s s')
  then show ?case using alert_inv_step by blast
qed

end
