(* ===== verification/Quote_State.thy ===== *)
theory Quote_State
  imports Risk_Engine
begin

text \<open>
  The contract between the risk service and its quote store (the protocol class
  \<open>QuoteStateStore\<close> of \<open>services/risk_engine/state.py\<close>), what the service does on every store
  that keeps it, and the in-memory store as an instance. The reference is the list of the quotes
  received so far.
\<close>

section \<open>The reference: the quotes received\<close>

text \<open>The quote an event carries, if the service reads it as one.\<close>

definition quote_of :: "payload_dict envelope \<Rightarrow> domain_quote option" where
  "quote_of e =
     (if event_type e \<noteq> ''market.quote.received'' then None
      else case quote_model_validate (payload e) of Inl _ \<Rightarrow> None | Inr q \<Rightarrow> Some q)"

definition of_instrument :: "market \<Rightarrow> string \<Rightarrow> domain_quote \<Rightarrow> bool" where
  "of_instrument m s q \<longleftrightarrow> dq_market q = m \<and> dq_symbol q = s"

definition instrument_quotes :: "market \<Rightarrow> string \<Rightarrow> payload_dict envelope list \<Rightarrow> domain_quote list" where
  "instrument_quotes m s es = filter (of_instrument m s) (List.map_filter quote_of es)"

text \<open>The quote with the greatest timestamp, the first of them received.\<close>

fun newer :: "domain_quote option \<Rightarrow> domain_quote \<Rightarrow> domain_quote option" where
  "newer None q = Some q"
| "newer (Some p) q = (if dq_timestamp q \<le> dq_timestamp p then Some p else Some q)"

definition newest :: "domain_quote list \<Rightarrow> domain_quote option" where
  "newest qs = foldl newer None qs"

lemma newest_Nil [simp]: "newest [] = None"
  by (simp add: newest_def)

lemma newest_snoc [simp]: "newest (qs @ [q]) = newer (newest qs) q"
  by (simp add: newest_def)

lemma newest_single [simp]: "newest [q] = Some q"
  by (simp add: newest_def)

lemma newest_None [simp]: "newest qs = None \<longleftrightarrow> qs = []"
  by (induction qs rule: rev_induct) (auto elim: newer.elims)

lemma newest_in: "newest qs = Some q \<Longrightarrow> q \<in> set qs \<and> (\<forall>p \<in> set qs. dq_timestamp p \<le> dq_timestamp q)"
proof (induction qs arbitrary: q rule: rev_induct)
  case (snoc x qs)
  then show ?case
    by (cases "newest qs") (fastforce split: if_splits)+
qed simp

lemma newest_split:
  "newest qs = Some q \<longleftrightarrow>
     (\<exists>pre post. qs = pre @ q # post \<and> (\<forall>p \<in> set pre. dq_timestamp p < dq_timestamp q)
        \<and> (\<forall>p \<in> set post. dq_timestamp p \<le> dq_timestamp q))" (is "_ \<longleftrightarrow> ?split qs q")
proof (induction qs arbitrary: q rule: rev_induct)
  case Nil
  then show ?case by simp
next
  case (snoc x qs)
  show ?case
  proof
    assume n: "newest (qs @ [x]) = Some q"
    show "?split (qs @ [x]) q"
    proof (cases "newest qs")
      case None
      then have "qs = []" "q = x" using n by simp_all
      then show ?thesis by (intro exI [of _ "[]"]) simp
    next
      case (Some p)
      show ?thesis
      proof (cases "dq_timestamp x \<le> dq_timestamp p")
        case True
        then have q: "q = p" using n Some by simp
        obtain pre post where "qs = pre @ q # post" "\<forall>p \<in> set pre. dq_timestamp p < dq_timestamp q"
          "\<forall>p \<in> set post. dq_timestamp p \<le> dq_timestamp q"
          using snoc.IH [of q] Some q by auto
        then show ?thesis using True q by (intro exI [of _ pre] exI [of _ "post @ [x]"]) auto
      next
        case False
        then have "q = x" using n Some by simp
        then show ?thesis using newest_in [OF Some] False by (intro exI [of _ qs] exI [of _ "[]"]) fastforce
      qed
    qed
  next
    assume "?split (qs @ [x]) q"
    then obtain pre post where s: "qs @ [x] = pre @ q # post"
      and pre: "\<forall>p \<in> set pre. dq_timestamp p < dq_timestamp q" and post: "\<forall>p \<in> set post. dq_timestamp p \<le> dq_timestamp q"
      by blast
    show "newest (qs @ [x]) = Some q"
    proof (cases post rule: rev_cases)
      case Nil
      then have "qs = pre" "x = q" using s by simp_all
      then show ?thesis using pre newest_in [of qs] by (cases "newest qs") force+
    next
      case (snoc post' y)
      then have "qs = pre @ q # post'" "x = y" using s by simp_all
      then have "newest qs = Some q" using snoc.IH [of q] pre post snoc by auto
      then show ?thesis using post snoc \<open>x = y\<close> by simp
    qed
  qed
qed

section \<open>The evaluation of the rule never fails\<close>

definition rule_ok :: "price_move_rule \<Rightarrow> bool" where
  "rule_ok r \<longleftrightarrow> 0 < warning_threshold r \<and> warning_threshold r < critical_threshold r"

text \<open>The text of a \<open>Decimal\<close> of 28 digits has at most 38 characters; 64 leave a margin.\<close>

definition short_text :: "risk_env \<Rightarrow> bool" where
  "short_text env \<longleftrightarrow> (\<forall>d. length (rk_show env d) \<le> 64)"

definition move_alert :: "risk_env \<Rightarrow> price_move_rule \<Rightarrow> domain_quote \<Rightarrow> domain_quote \<Rightarrow> risk_alert" where
  "move_alert env rule p q =
     (let change = change_percent p q; critical = (critical_threshold rule \<le> \<bar>change\<bar>) in
      \<lparr>ra_alert_id = rk_alert_id env, ra_risk_type = PRICE_MOVE_PERCENT,
       ra_severity = (if critical then CRITICAL else WARNING), ra_market = dq_market q, ra_symbol = dq_symbol q,
       ra_observed_value = change,
       ra_threshold = (if critical then critical_threshold rule else warning_threshold rule),
       ra_message = price_move_message env q change, ra_occurred_at = dq_timestamp q\<rparr>)"

lemma rule_new_ok: "price_move_rule_new w c = Inr r \<Longrightarrow> rule_ok r"
  by (auto simp: price_move_rule_new_def rule_ok_def split: if_splits)

lemma alert_symbol_ok: "symbol_ok s \<Longrightarrow> alert_symbol s = Some s"
  by (simp add: alert_symbol_def symbol_ok_def)

lemma trim_ends: "\<not> is_white a \<Longrightarrow> \<not> is_white b \<Longrightarrow> trim (a # s @ [b]) = a # s @ [b]"
  by (simp add: trim_def)

lemma message_trim: "trim (price_move_message env q d) = price_move_message env q d"
proof -
  let ?s = "''rice move threshold exceeded for '' @ market_name (dq_market q) @ '':'' @ dq_symbol q
      @ ''; change='' @ rk_show env d"
  have "\<not> is_white (CHR ''P'')" "\<not> is_white (CHR ''%'')" by (simp_all add: is_white_def)
  from trim_ends [OF this, of ?s] show ?thesis
    by (simp add: price_move_message_def)
qed

lemma message_length:
  "short_text env \<Longrightarrow> symbol_ok (dq_symbol q) \<Longrightarrow> length_between 1 512 (price_move_message env q d)"
proof -
  assume s: "short_text env" "symbol_ok (dq_symbol q)"
  have "length (rk_show env d) \<le> 64" "length (dq_symbol q) \<le> 32" "length (market_name (dq_market q)) = 2"
    using s by (auto simp: short_text_def symbol_ok_def) (cases "dq_market q"; simp)
  then show ?thesis by (simp add: price_move_message_def length_between_def)
qed

lemma evaluate_total:
  assumes "rule_ok rule" "short_text env" "quote_ok q" "of_instrument (dq_market q) (dq_symbol q) p"
  shows "evaluate env rule p q =
    Inr (if \<bar>change_percent p q\<bar> < warning_threshold rule then None else Some (move_alert env rule p q))"
proof -
  have s: "symbol_ok (dq_symbol q)" using assms(3) by (simp add: quote_ok_def)
  have "risk_alert_new i rt sev m (dq_symbol q) d th (price_move_message env q c) (Aware t)
      = Inr \<lparr>ra_alert_id = i, ra_risk_type = rt, ra_severity = sev, ra_market = m, ra_symbol = dq_symbol q,
          ra_observed_value = d, ra_threshold = th, ra_message = price_move_message env q c, ra_occurred_at = t\<rparr>"
    if "0 < th" for i rt sev m d th c t
    using that s message_length [OF assms(2) s]
    by (simp add: risk_alert_new_def trim_symbol_ok alert_symbol_ok alert_occurred_at_def message_trim)
  moreover have "0 < warning_threshold rule" "0 < critical_threshold rule" using assms(1) by (auto simp: rule_ok_def)
  ultimately show ?thesis
    using assms(4) by (simp add: evaluate_def validate_instrument_def of_instrument_def move_alert_def Let_def)
qed

definition alert_ok :: "risk_alert \<Rightarrow> bool" where
  "alert_ok a \<longleftrightarrow> symbol_ok (ra_symbol a) \<and> 0 < ra_threshold a \<and> trim (ra_message a) = ra_message a
     \<and> length_between 1 512 (ra_message a)"

lemma move_alert_ok:
  "rule_ok rule \<Longrightarrow> short_text env \<Longrightarrow> quote_ok q \<Longrightarrow> alert_ok (move_alert env rule p q)"
  using message_length [of env q]
  by (auto simp: alert_ok_def move_alert_def Let_def quote_ok_def rule_ok_def message_trim)

lemma severity_value_name [simp]: "severity_value (VText (severity_name s)) = Some s"
  by (cases s) (simp_all add: severity_value_def)

lemma risk_type_value_name [simp]: "risk_type_value (VText (risk_type_name s)) = Some s"
  by (cases s) (simp_all add: risk_type_value_def)

lemma alert_validate_dump: "alert_ok a \<Longrightarrow> alert_model_validate fresh now (alert_dump a) = Inr a"
  by (simp add: alert_model_validate_def alert_dump_def model_field_def no_extra_def alert_keys_def alert_ok_def
      risk_alert_new_def trim_symbol_ok alert_symbol_ok alert_occurred_at_def)

text \<open>The event of an alert.\<close>

definition alert_event :: "risk_env \<Rightarrow> risk_alert \<Rightarrow> payload_dict envelope \<Rightarrow> payload_dict envelope" where
  "alert_event env a e =
     \<lparr>event_id = rk_event_id env, event_type = ''risk.alert.detected'', schema_version = 1,
      occurred_at = ra_occurred_at a, source = ''risk-engine'', correlation_id = correlation_id e,
      causation_id = Some (event_id e), trace_context = None, payload = alert_dump a\<rparr>"

lemma create_alert_event:
  "create_risk_alert_event (rk_event_id env) fresh a ''risk-engine'' (Some (correlation_id e)) (Some (event_id e))
     = Inr (alert_event env a e)"
proof -
  have t: "trim ''risk.alert.detected'' = ''risk.alert.detected''" "trim ''risk-engine'' = ''risk-engine''"
    "validate_event_type ''risk.alert.detected'' = Inr ''risk.alert.detected''"
    "validate_source ''risk-engine'' = Inr ''risk-engine''" by code_simp+
  show ?thesis
    by (simp add: create_risk_alert_event_def envelope_new_def t length_between_def validate_occurred_at_def alert_event_def)
qed

section \<open>What the service should hold and answer\<close>

text \<open>A store tracks a list of quotes if it holds the newest of every instrument.\<close>

definition tracks :: "'s getter \<Rightarrow> 's \<Rightarrow> payload_dict envelope list \<Rightarrow> bool" where
  "tracks get_quote st es \<longleftrightarrow>
     (\<forall>m s. symbol_ok s \<longrightarrow> get_quote st m s = Inr (newest (instrument_quotes m s es)))"

text \<open>What the service answers to an event after the events \<open>es\<close>.\<close>

definition expected_alert ::
  "price_move_rule \<Rightarrow> risk_env \<Rightarrow> payload_dict envelope list \<Rightarrow> payload_dict envelope \<Rightarrow> payload_dict envelope option" where
  "expected_alert rule env es e =
     Option.bind (quote_of e) (\<lambda>q. Option.bind (newest (instrument_quotes (dq_market q) (dq_symbol q) es)) (\<lambda>p.
       if dq_timestamp p < dq_timestamp q \<and> warning_threshold rule \<le> \<bar>change_percent p q\<bar>
       then Some (alert_event env (move_alert env rule p q) e) else None))"

definition unreadable :: "payload_dict envelope \<Rightarrow> bool" where
  "unreadable e \<longleftrightarrow> event_type e = ''market.quote.received'' \<and> quote_of e = None"

lemma quote_of_ok: "quote_of e = Some q \<Longrightarrow> quote_ok q"
  using quote_validated_ok by (auto simp: quote_of_def split: if_splits sum.splits)

lemma instrument_quotes_snoc:
  "instrument_quotes m s (es @ [e]) = instrument_quotes m s es
     @ (case quote_of e of Some q \<Rightarrow> if of_instrument m s q then [q] else [] | None \<Rightarrow> [])"
  by (auto simp: instrument_quotes_def map_filter_def split: option.splits)

lemma newest_instrument:
  "newest (instrument_quotes m s es) = Some p \<Longrightarrow> of_instrument m s p \<and> (\<exists>e \<in> set es. quote_of e = Some p)"
  by (drule newest_in) (auto simp: instrument_quotes_def map_filter_def)

lemma newest_instrument_ok: "newest (instrument_quotes m s es) = Some p \<Longrightarrow> quote_ok p"
  using newest_instrument quote_of_ok by blast

text \<open>Processing events one after the other, whatever the single calls raise.\<close>

fun risk_run ::
  "'s getter \<Rightarrow> 's setter \<Rightarrow> price_move_rule \<Rightarrow> (risk_env \<times> payload_dict envelope) list \<Rightarrow> 's \<Rightarrow> 's" where
  "risk_run get_quote set_quote rule [] st = st"
| "risk_run get_quote set_quote rule ((env, e) # xs) st =
     risk_run get_quote set_quote rule xs (snd (process_event get_quote set_quote rule env e st))"

section \<open>The contract of a quote store\<close>

locale quote_state_store =
  fixes get_quote :: "'s getter" and set_quote :: "'s setter" and empty :: 's
  assumes get_empty: "symbol_ok s \<Longrightarrow> get_quote empty m s = Inr None"
    and set_total: "quote_ok q \<Longrightarrow> \<exists>st'. set_quote st q = Inr st'"
    and get_set: "quote_ok q \<Longrightarrow> set_quote st q = Inr st' \<Longrightarrow> symbol_ok s \<Longrightarrow>
      get_quote st' m s = (if of_instrument m s q then Inr (Some q) else get_quote st m s)"
begin

lemma empty_tracks: "tracks get_quote empty []"
  by (simp add: tracks_def get_empty instrument_quotes_def map_filter_def)

lemma store_tracks:
  assumes "tracks get_quote st es" "quote_of e = Some q"
    and "\<forall>p. newest (instrument_quotes (dq_market q) (dq_symbol q) es) = Some p \<longrightarrow> dq_timestamp p < dq_timestamp q"
  shows "\<exists>st'. set_quote st q = Inr st' \<and> tracks get_quote st' (es @ [e])"
proof -
  have q: "quote_ok q" using quote_of_ok [OF assms(2)] .
  then obtain st' where st': "set_quote st q = Inr st'" using set_total by blast
  have "get_quote st' m s = Inr (newest (instrument_quotes m s (es @ [e])))" if "symbol_ok s" for m s
    using get_set [OF q st' that, of m] assms that
    by (cases "newest (instrument_quotes m s es)")
      (auto simp: tracks_def instrument_quotes_snoc of_instrument_def)
  then show ?thesis using st' by (auto simp: tracks_def)
qed

lemma skip_tracks:
  assumes "tracks get_quote st es"
    and "\<forall>q. quote_of e = Some q \<longrightarrow> (\<exists>p. newest (instrument_quotes (dq_market q) (dq_symbol q) es) = Some p
           \<and> dq_timestamp q \<le> dq_timestamp p)"
  shows "tracks get_quote st (es @ [e])"
  using assms by (fastforce simp: tracks_def instrument_quotes_snoc of_instrument_def split: option.splits)

lemma previous_quote:
  "tracks get_quote st es \<Longrightarrow> quote_of e = Some q \<Longrightarrow>
    get_quote st (dq_market q) (dq_symbol q) = Inr (newest (instrument_quotes (dq_market q) (dq_symbol q) es))"
  using quote_of_ok by (auto simp: tracks_def quote_ok_def)

lemma process_step:
  assumes "rule_ok rule" "short_text env" "tracks get_quote st es"
  shows "\<exists>r st'. process_event get_quote set_quote rule env e st = (r, st') \<and> tracks get_quote st' (es @ [e])
    \<and> (unreadable e \<longrightarrow> (\<exists>exc. r = Inl exc) \<and> st' = st)
    \<and> (\<not> unreadable e \<longrightarrow> r = Inr (expected_alert rule env es e))"
proof (cases "quote_of e")
  case None
  have t: "tracks get_quote st (es @ [e])" by (rule skip_tracks [OF assms(3)]) (simp add: None)
  show ?thesis
  proof (cases "event_type e = ''market.quote.received''")
    case True
    then obtain exc where "quote_model_validate (payload e) = Inl exc"
      using None by (auto simp: quote_of_def split: sum.splits)
    then show ?thesis using t True None by (simp add: process_event_def bind_run unreadable_def)
  next
    case False
    then show ?thesis using t None by (simp add: process_event_def unreadable_def expected_alert_def)
  qed
next
  case (Some q)
  then have ty: "event_type e = ''market.quote.received''" and v: "quote_model_validate (payload e) = Inr q"
    by (auto simp: quote_of_def split: if_splits sum.splits)
  have u: "\<not> unreadable e" using Some by (simp add: unreadable_def)
  note prev = previous_quote [OF assms(3) Some]
  let ?n = "newest (instrument_quotes (dq_market q) (dq_symbol q) es)"
  show ?thesis
  proof (cases ?n)
    case None
    then obtain st' where "set_quote st q = Inr st'" "tracks get_quote st' (es @ [e])"
      using store_tracks [OF assms(3) Some] by auto
    then show ?thesis
      using ty v u prev None Some by (simp add: process_event_def bind_run store_quote_def expected_alert_def)
  next
    case n: (Some p)
    show ?thesis
    proof (cases "dq_timestamp q \<le> dq_timestamp p")
      case True
      have "tracks get_quote st (es @ [e])" by (rule skip_tracks [OF assms(3)]) (simp add: Some n True)
      then show ?thesis
        using ty v u prev n Some True by (simp add: process_event_def bind_run expected_alert_def)
    next
      case False
      then obtain st' where st': "set_quote st q = Inr st'" "tracks get_quote st' (es @ [e])"
        using store_tracks [OF assms(3) Some] n by auto
      have ev: "evaluate env rule p q =
          Inr (if \<bar>change_percent p q\<bar> < warning_threshold rule then None else Some (move_alert env rule p q))"
        by (rule evaluate_total [OF assms(1,2) quote_of_ok [OF Some]])
          (use newest_instrument [OF n] in simp)
      show ?thesis
        using ty v u prev n Some False st' ev
        by (simp add: process_event_def bind_run store_quote_def expected_alert_def create_alert_event not_le)
    qed
  qed
qed

lemma run_tracks:
  assumes "rule_ok rule" "\<forall>(env, e) \<in> set xs. short_text env" "tracks get_quote st es"
  shows "tracks get_quote (risk_run get_quote set_quote rule xs st) (es @ map snd xs)"
  using assms(2,3)
proof (induction xs arbitrary: st es)
  case (Cons x xs)
  obtain env e where x: "x = (env, e)" by (cases x)
  then obtain r st' where p: "process_event get_quote set_quote rule env e st = (r, st')" "tracks get_quote st' (es @ [e])"
    using process_step [OF assms(1), of env st es e] Cons.prems by auto
  then have "tracks get_quote (risk_run get_quote set_quote rule xs st') ((es @ [e]) @ map snd xs)"
    using Cons.prems by (intro Cons.IH) auto
  then show ?case using p x by simp
qed simp

lemma run_from_empty:
  "rule_ok rule \<Longrightarrow> \<forall>(env, e) \<in> set xs. short_text env \<Longrightarrow>
    tracks get_quote (risk_run get_quote set_quote rule xs empty) (map snd xs)"
  using run_tracks [of rule xs empty "[]"] empty_tracks by simp

text \<open>An event that was processed is stale from then on, so processing it again answers nothing.\<close>

lemma process_again:
  assumes "rule_ok rule" "short_text env" "short_text env'" "tracks get_quote st es"
    and "process_event get_quote set_quote rule env e st = (Inr r, st')"
  shows "process_event get_quote set_quote rule env' e st' = (Inr None, st')"
proof -
  have u: "\<not> unreadable e" and t: "tracks get_quote st' (es @ [e])"
    using process_step [OF assms(1,2,4), of e] assms(5) by auto
  show ?thesis
  proof (cases "quote_of e")
    case None
    then have "event_type e \<noteq> ''market.quote.received''" using u by (simp add: unreadable_def)
    then show ?thesis by (simp add: process_event_def)
  next
    case (Some q)
    then have ty: "event_type e = ''market.quote.received''" and v: "quote_model_validate (payload e) = Inr q"
      by (auto simp: quote_of_def split: if_splits sum.splits)
    have "q \<in> set (instrument_quotes (dq_market q) (dq_symbol q) (es @ [e]))"
      by (simp add: instrument_quotes_snoc Some of_instrument_def)
    then obtain p where "newest (instrument_quotes (dq_market q) (dq_symbol q) (es @ [e])) = Some p"
      "dq_timestamp q \<le> dq_timestamp p"
      using newest_in by (metis empty_iff list.set(1) newest_None not_None_eq)
    then show ?thesis
      using previous_quote [OF t Some] ty v by (simp add: process_event_def bind_run)
  qed
qed

end

section \<open>The in-memory store\<close>

lemma build_key_ok: "symbol_ok s \<Longrightarrow> build_key m s = Inr (market_name m @ '':'' @ s)"
  by (simp add: build_key_def symbol_ok_def)

lemma market_name_append: "market_name m @ x = market_name m' @ y \<longleftrightarrow> m = m' \<and> x = y"
  by (cases m; cases m') auto

interpretation memory: quote_state_store memory_get_quote memory_set_quote Map.empty
proof (unfold_locales, goal_cases)
  case (1 s m)
  then show ?case by (simp add: memory_get_quote_def build_key_ok)
next
  case (2 q st)
  then show ?case by (simp add: memory_set_quote_def build_key_ok quote_ok_def)
next
  case (3 q st st' s m)
  then show ?case
    by (auto simp: memory_get_quote_def memory_set_quote_def build_key_ok quote_ok_def of_instrument_def market_name_append)
qed

end
