(* ===== verification/Risk_Properties.thy ===== *)
theory Risk_Properties
  imports Quote_State Outbox_Protocol
begin

text \<open>
  The properties of the risk engine: what its store holds, when it raises an alert, that rounding
  hides no move, what the consumer hands to the event bus, and what a failed publication loses.
\<close>

section \<open>Parsing\<close>

text \<open>
  Market data survives the event bus: a quote or trade that was validated, dumped into an event
  payload and parsed again is the same; whatever is parsed has a normalised symbol of 1 to 32
  characters, positive prices, and (a quote) a bid not above the ask.
\<close>
theorem market_data_roundtrip:
  assumes "quote_model_validate fs = Inr q" and "trade_model_validate gs = Inr t"
  shows "quote_model_validate (quote_dump q) = Inr q \<and> trade_model_validate (trade_dump t) = Inr t
    \<and> normal_symbol (dq_symbol q) = dq_symbol q \<and> dq_symbol q \<noteq> [] \<and> length (dq_symbol q) \<le> 32
    \<and> 0 < dq_bid_price q \<and> dq_bid_price q \<le> dq_ask_price q \<and> 0 < mid_price q
    \<and> normal_symbol (dt_symbol t) = dt_symbol t \<and> dt_symbol t \<noteq> [] \<and> 0 < dt_price t \<and> 0 < dt_quantity t"
  using quote_validated_ok [OF assms(1)] trade_validated_ok [OF assms(2)] mid_price_pos [of q]
    quote_validate_dump [of q] trade_validate_dump [of t]
  by (simp add: quote_ok_def trade_ok_def symbol_ok_def)

definition sample_quote :: "decimal \<Rightarrow> int \<Rightarrow> payload_dict" where
  "sample_quote p t = [(''symbol'', VText '' aapl ''), (''market'', VText ''US''), (''bid_price'', VDecimal p),
     (''ask_price'', VDecimal p), (''bid_size'', VInt 3), (''ask_size'', VInt 0), (''timestamp'', VTime (Aware t))]"

definition sample_trade :: payload_dict where
  "sample_trade = [(''trade_id'', VText ''t-1''), (''symbol'', VText ''7203''), (''market'', VText ''JP''),
     (''price'', VInt 2500), (''quantity'', VInt 100), (''side'', VText ''SELL''), (''timestamp'', VTime (Aware 9))]"

definition aapl :: "decimal \<Rightarrow> int \<Rightarrow> domain_quote" where
  "aapl p t = \<lparr>dq_symbol = ''AAPL'', dq_market = US, dq_bid_price = p, dq_ask_price = p,
     dq_bid_size = 3, dq_ask_size = 0, dq_timestamp = t\<rparr>"

lemma aapl_symbol: "normal_symbol (trim '' aapl '') = ''AAPL''"
  by code_simp

lemma sample_quote_valid: "0 < p \<Longrightarrow> quote_model_validate (sample_quote p t) = Inr (aapl p t)"
  by (simp add: quote_model_validate_def sample_quote_def model_field_def checked_def validate_symbol_def aapl_symbol
      validate_timestamp_def such_that_def no_extra_def quote_keys_def validate_spread_def aapl_def market_value_def Let_def)

lemma sample_trade_valid: "trade_model_validate sample_trade = Inr
    \<lparr>dt_trade_id = ''t-1'', dt_symbol = ''7203'', dt_market = JP, dt_price = 2500, dt_quantity = 100, dt_side = Sell, dt_timestamp = 9\<rparr>"
proof -
  have "normal_symbol (trim ''7203'') = ''7203''" "strip (trim ''t-1'') = ''t-1''" by code_simp+
  then show ?thesis
    by (simp add: trade_model_validate_def sample_trade_def model_field_def checked_def validate_symbol_def
      validate_timestamp_def such_that_def no_extra_def trade_keys_def market_value_def side_value_def validate_trade_id_def Let_def)
qed

theorem market_data_roundtrip_witness:
  "quote_model_validate (quote_dump (aapl 100 7)) = Inr (aapl 100 7) \<and> 0 < mid_price (aapl 100 7)"
  using market_data_roundtrip [OF sample_quote_valid sample_trade_valid, of 100 7] by simp

section \<open>The store and the alerts\<close>

text \<open>
  C6. After any sequence of events, readable or not, the store of the risk engine holds for an
  instrument exactly the quote of the greatest timestamp received for it (the first one received
  when several share it), and nothing when none was received: late quotes never overwrite.
\<close>
theorem risk_state_newest:
  fixes m :: market
  assumes "rule_ok rule" and "\<forall>(env, e) \<in> set xs. short_text env" and "symbol_ok s"
  defines "final \<equiv> risk_run memory_get_quote memory_set_quote rule xs Map.empty"
    and "received \<equiv> instrument_quotes m s (map snd xs)"
  shows "(memory_get_quote final m s = Inr (Some q) \<longleftrightarrow>
      (\<exists>pre post. received = pre @ q # post \<and> (\<forall>p \<in> set pre. dq_timestamp p < dq_timestamp q)
        \<and> (\<forall>p \<in> set post. dq_timestamp p \<le> dq_timestamp q)))
    \<and> (memory_get_quote final m s = Inr None \<longleftrightarrow> received = [])"
proof -
  have "memory_get_quote final m s = Inr (newest received)"
    using memory.run_from_empty [OF assms(1,2)] assms(3) by (simp add: final_def received_def tracks_def)
  then show ?thesis by (simp add: newest_split)
qed

definition env0 :: risk_env where
  "env0 = \<lparr>rk_alert_id = 31, rk_event_id = 32, rk_correlation_id = 33, rk_show = (\<lambda>_. ''x'')\<rparr>"

definition rule0 :: price_move_rule where
  "rule0 = \<lparr>warning_threshold = 2, critical_threshold = 5\<rparr>"

definition quote_event :: "uuid \<Rightarrow> decimal \<Rightarrow> int \<Rightarrow> payload_dict envelope" where
  "quote_event i p t = \<lparr>event_id = i, event_type = ''market.quote.received'', schema_version = 1, occurred_at = t,
     source = ''market-ingestor'', correlation_id = 90, causation_id = None, trace_context = None,
     payload = sample_quote p t\<rparr>"

lemma env0_ok: "rule_ok rule0" "short_text env0"
  by (simp_all add: rule_ok_def rule0_def short_text_def env0_def)

lemma quote_of_event: "0 < p \<Longrightarrow> quote_of (quote_event i p t) = Some (aapl p t)"
  by (simp add: quote_of_def quote_event_def sample_quote_valid)

lemma aapl_quotes:
  "0 < p \<Longrightarrow> instrument_quotes US ''AAPL'' [quote_event i p t] = [aapl p t]"
  by (simp add: instrument_quotes_def map_filter_def quote_of_event of_instrument_def aapl_def)

lemma aapl_quotes2:
  "0 < p \<Longrightarrow> 0 < p' \<Longrightarrow> instrument_quotes US ''AAPL'' [quote_event i p t, quote_event i' p' t'] = [aapl p t, aapl p' t']"
  by (simp add: instrument_quotes_def map_filter_def quote_of_event of_instrument_def aapl_def)

theorem risk_state_newest_witness:
  "memory_get_quote (risk_run memory_get_quote memory_set_quote rule0
      [(env0, quote_event 1 100 8), (env0, quote_event 2 110 5)] Map.empty) US ''AAPL'' = Inr (Some (aapl 100 8))"
proof -
  have s: "symbol_ok ''AAPL''" by code_simp
  have "\<exists>pre post. [aapl 100 8, aapl 110 5] = pre @ aapl 100 8 # post \<and> (\<forall>p \<in> set pre. dq_timestamp p < dq_timestamp (aapl 100 8))
        \<and> (\<forall>p \<in> set post. dq_timestamp p \<le> dq_timestamp (aapl 100 8))"
    by (rule exI [of _ "[]"], rule exI [of _ "[aapl 110 5]"]) (simp add: aapl_def)
  then show ?thesis
    using risk_state_newest [OF env0_ok(1) _ s, of "[(env0, quote_event 1 100 8), (env0, quote_event 2 110 5)]" US "aapl 100 8"]
    by (simp add: env0_ok aapl_quotes2)
qed

text \<open>
  C9. When an alert is raised: exactly if the event is a readable quote, newer than the newest one
  received for its instrument, and the mid price moved by at least the warning threshold. The alert
  is \<open>CRITICAL\<close> exactly from the critical threshold on, reports the move, parses back from its
  payload, and is traced to the event that caused it.
\<close>
theorem risk_alert_exact:
  fixes e :: "payload_dict envelope"
  assumes "rule_ok rule" and "\<forall>(env, e) \<in> set xs. short_text env" and "short_text env"
  defines "final \<equiv> risk_run memory_get_quote memory_set_quote rule xs Map.empty"
    and "answer \<equiv> fst (process_event memory_get_quote memory_set_quote rule env e
      (risk_run memory_get_quote memory_set_quote rule xs Map.empty))"
  shows "((\<exists>a. answer = Inr (Some a)) \<longleftrightarrow> (\<exists>q p. quote_of e = Some q
      \<and> newest (instrument_quotes (dq_market q) (dq_symbol q) (map snd xs)) = Some p
      \<and> dq_timestamp p < dq_timestamp q \<and> warning_threshold rule \<le> \<bar>change_percent p q\<bar>))
    \<and> (\<forall>a. answer = Inr (Some a) \<longrightarrow> (\<exists>q p alert. quote_of e = Some q
      \<and> newest (instrument_quotes (dq_market q) (dq_symbol q) (map snd xs)) = Some p
      \<and> event_type a = ''risk.alert.detected'' \<and> causation_id a = Some (event_id e)
      \<and> correlation_id a = correlation_id e \<and> occurred_at a = dq_timestamp q
      \<and> alert_model_validate fresh now (payload a) = Inr alert
      \<and> ra_symbol alert = dq_symbol q \<and> ra_market alert = dq_market q \<and> ra_observed_value alert = change_percent p q
      \<and> (ra_severity alert = CRITICAL \<longleftrightarrow> critical_threshold rule \<le> \<bar>change_percent p q\<bar>)))"
    (is "?iff \<and> (\<forall>a. _ \<longrightarrow> ?detail a)")
proof -
  have t: "tracks memory_get_quote final (map snd xs)"
    using memory.run_from_empty [OF assms(1,2)] by (simp add: final_def)
  obtain r st where p: "process_event memory_get_quote memory_set_quote rule env e final = (r, st)"
    and u: "unreadable e \<longrightarrow> (\<exists>exc. r = Inl exc)"
    and nu: "\<not> unreadable e \<longrightarrow> r = Inr (expected_alert rule env (map snd xs) e)"
    using memory.process_step [OF assms(1,3) t, of e] by blast
  have answer: "answer = (if unreadable e then answer else Inr (expected_alert rule env (map snd xs) e))"
    "unreadable e \<Longrightarrow> \<exists>exc. answer = Inl exc"
    using p u nu by (auto simp: answer_def final_def [symmetric])
  have iff: ?iff
    using answer by (cases "unreadable e") (auto simp: expected_alert_def bind_eq_Some_conv unreadable_def split: if_splits)
  have "?detail a" if "answer = Inr (Some a)" for a
  proof -
    have nu: "\<not> unreadable e" using answer(2) that by auto
    then have "expected_alert rule env (map snd xs) e = Some a" using answer(1) that by simp
    then obtain q p where qp: "quote_of e = Some q"
      "newest (instrument_quotes (dq_market q) (dq_symbol q) (map snd xs)) = Some p"
      "a = alert_event env (move_alert env rule p q) e"
      by (auto simp: expected_alert_def bind_eq_Some_conv split: if_splits)
    have ok: "alert_ok (move_alert env rule p q)"
      by (rule move_alert_ok [OF assms(1,3) quote_of_ok [OF qp(1)]])
    show "?detail a"
      using alert_validate_dump [OF ok, of fresh now] qp(1,2)
      by (intro exI [of _ q] exI [of _ p] exI [of _ "move_alert env rule p q"])
        (simp add: qp(3) alert_event_def move_alert_def Let_def)
  qed
  with iff show ?thesis by blast
qed

lemma aapl_mid: "micros p \<Longrightarrow> micros (2 * p) \<Longrightarrow> mid_price (aapl p t) = p"
  by (simp add: mid_price_def aapl_def dadd_def ddiv_def dround_micros)

lemma move_3: "change_percent (aapl 100 t) (aapl 103 t') = 3"
proof -
  have "mid_price (aapl 100 t) = 100" "mid_price (aapl 103 t') = 103"
    by (rule aapl_mid; simp add: micros_def)+
  then show ?thesis by (simp add: change_percent_def decimal_eval)
qed

theorem risk_alert_exact_witness:
  "\<exists>a. fst (process_event memory_get_quote memory_set_quote rule0 env0 (quote_event 2 103 8)
      (risk_run memory_get_quote memory_set_quote rule0 [(env0, quote_event 1 100 5)] Map.empty)) = Inr (Some a)"
proof -
  have "\<forall>(env, e) \<in> set [(env0, quote_event 1 100 5)]. short_text env" by (simp add: env0_ok)
  note exact = risk_alert_exact [OF env0_ok(1) this env0_ok(2), where e = "quote_event 2 103 8"]
  have "quote_of (quote_event 2 103 8) = Some (aapl 103 8)" "dq_market (aapl 103 8) = US"
    "dq_symbol (aapl 103 8) = ''AAPL''" "dq_timestamp (aapl 100 5) < dq_timestamp (aapl 103 8)"
    "newest (instrument_quotes US ''AAPL'' (map snd [(env0, quote_event 1 100 5)])) = Some (aapl 100 5)"
    by (simp_all add: quote_of_event aapl_quotes) (simp_all add: aapl_def)
  moreover have "warning_threshold rule0 \<le> \<bar>change_percent (aapl 100 5) (aapl 103 8)\<bar>"
    by (simp add: move_3 rule0_def)
  ultimately show ?thesis using exact [THEN conjunct1, THEN iffD2] by metis
qed

section \<open>Rounding\<close>

definition exact_change :: "domain_quote \<Rightarrow> domain_quote \<Rightarrow> rat" where
  "exact_change p q = (mid_price q - mid_price p) / mid_price p * 100"

text \<open>Scaling by a percentage and rounding twice keeps the order with a threshold.\<close>

lemma rounded_percent:
  assumes "representable th" "representable (th / 100)"
  shows "th \<le> x * 100 \<Longrightarrow> th \<le> dround (dround x * 100)"
    and "x * 100 \<le> th \<Longrightarrow> dround (dround x * 100) \<le> th"
proof -
  show "th \<le> dround (dround x * 100)" if "th \<le> x * 100"
  proof -
    have "th / 100 \<le> dround x" by (rule representable_le [OF assms(2)]) (use that in simp)
    then show ?thesis by (intro representable_le [OF assms(1)]) simp
  qed
  show "dround (dround x * 100) \<le> th" if "x * 100 \<le> th"
  proof -
    have "dround x \<le> th / 100" by (rule representable_ge [OF assms(2)]) (use that in simp)
    then show ?thesis by (intro representable_ge [OF assms(1)]) simp
  qed
qed

lemma rounded_percent_abs:
  assumes "representable th" "representable (th / 100)" "0 < th"
  shows "th \<le> \<bar>x * 100\<bar> \<Longrightarrow> th \<le> \<bar>dround (dround x * 100)\<bar>"
    and "th < \<bar>dround (dround x * 100)\<bar> \<Longrightarrow> th < \<bar>x * 100\<bar>"
proof -
  have m: "dround (dround (- x) * 100) = - dround (dround x * 100)"
    by (simp add: dround_minus)
  note up = rounded_percent [OF assms(1,2), of x] and down = rounded_percent [OF assms(1,2), of "- x"]
  show "th \<le> \<bar>x * 100\<bar> \<Longrightarrow> th \<le> \<bar>dround (dround x * 100)\<bar>"
    using up(1) down(1) by (simp add: m abs_if split: if_splits)
  show "th < \<bar>dround (dround x * 100)\<bar> \<Longrightarrow> th < \<bar>x * 100\<bar>"
    using up(2) down(2) by (simp add: m abs_if split: if_splits) force+
qed

lemma rounded_percent_sign: "0 < dround (dround x * 100) \<longleftrightarrow> 0 < x * 100"
  by simp

lemma change_rounded:
  "representable (mid_price q - mid_price p) \<Longrightarrow>
    change_percent p q = dround (dround ((mid_price q - mid_price p) / mid_price p) * 100)"
  by (simp add: change_percent_def dsub_def ddiv_def dmul_def representable_def)

text \<open>
  C15. The Decimal arithmetic of the rule hides no move: when the difference of the mid prices and
  the thresholds are in the precision of the context, an exact move of at least the warning
  threshold raises an alert and one of at least the critical threshold a \<open>CRITICAL\<close> one; conversely
  a reported move beyond its threshold is a move beyond it before rounding, in the same direction.
\<close>
theorem threshold_never_missed:
  assumes "rule_ok rule" and "short_text env" and "quote_ok p" and "quote_ok q"
    and "of_instrument (dq_market q) (dq_symbol q) p"
    and "representable (mid_price q - mid_price p)"
    and "representable (warning_threshold rule)" and "representable (warning_threshold rule / 100)"
    and "representable (critical_threshold rule)" and "representable (critical_threshold rule / 100)"
  shows "\<exists>r. evaluate env rule p q = Inr r
    \<and> (warning_threshold rule \<le> \<bar>exact_change p q\<bar> \<longrightarrow> (\<exists>a. r = Some a))
    \<and> (critical_threshold rule \<le> \<bar>exact_change p q\<bar> \<longrightarrow> (\<exists>a. r = Some a \<and> ra_severity a = CRITICAL))
    \<and> (\<forall>a. r = Some a \<longrightarrow> ra_threshold a \<le> \<bar>ra_observed_value a\<bar>
         \<and> (ra_threshold a < \<bar>ra_observed_value a\<bar> \<longrightarrow> ra_threshold a < \<bar>exact_change p q\<bar>)
         \<and> (0 < ra_observed_value a \<longleftrightarrow> 0 < exact_change p q))"
proof -
  let ?x = "(mid_price q - mid_price p) / mid_price p"
  have w: "0 < warning_threshold rule" and c: "warning_threshold rule < critical_threshold rule"
    using assms(1) by (simp_all add: rule_ok_def)
  have ch: "change_percent p q = dround (dround ?x * 100)" by (rule change_rounded [OF assms(6)])
  have ex: "exact_change p q = ?x * 100" by (simp add: exact_change_def)
  note warn = rounded_percent_abs [OF assms(7,8) w, of ?x, folded ch ex]
    and crit = rounded_percent_abs [OF assms(9,10) less_trans [OF w c], of ?x, folded ch ex]
  have sign: "0 < change_percent p q \<longleftrightarrow> 0 < exact_change p q"
    unfolding ch ex by (rule rounded_percent_sign)
  let ?r = "if \<bar>change_percent p q\<bar> < warning_threshold rule then None else Some (move_alert env rule p q)"
  have ev: "evaluate env rule p q = Inr ?r" by (rule evaluate_total [OF assms(1,2,4,5)])
  show ?thesis
  proof (rule exI [of _ ?r], intro conjI)
    show "evaluate env rule p q = Inr ?r" by (rule ev)
    show "warning_threshold rule \<le> \<bar>exact_change p q\<bar> \<longrightarrow> (\<exists>a. ?r = Some a)"
      using warn(1) by auto
    show "critical_threshold rule \<le> \<bar>exact_change p q\<bar> \<longrightarrow> (\<exists>a. ?r = Some a \<and> ra_severity a = CRITICAL)"
      using crit(1) c by (auto simp: move_alert_def Let_def)
    show "\<forall>a. ?r = Some a \<longrightarrow> ra_threshold a \<le> \<bar>ra_observed_value a\<bar>
         \<and> (ra_threshold a < \<bar>ra_observed_value a\<bar> \<longrightarrow> ra_threshold a < \<bar>exact_change p q\<bar>)
         \<and> (0 < ra_observed_value a \<longleftrightarrow> 0 < exact_change p q)"
      using warn(2) crit(2) sign by (auto simp: move_alert_def Let_def)
  qed
qed

theorem threshold_never_missed_witness:
  "\<exists>a. evaluate env0 rule0 (aapl 100 5) (aapl 95 8) = Inr (Some a) \<and> ra_severity a = CRITICAL"
proof -
  have m: "mid_price (aapl 100 5) = 100" "mid_price (aapl 95 8) = 95"
    by (rule aapl_mid; simp add: micros_def)+
  have r: "representable (- 5)" "representable 2" "representable (2 / 100)" "representable 5" "representable (5 / 100)"
    by (rule micros_representable; simp add: micros_def)+
  have ok: "quote_ok (aapl 100 5)" "quote_ok (aapl 95 8)"
    using quote_validated_ok [OF sample_quote_valid] by simp_all
  have "of_instrument (dq_market (aapl 95 8)) (dq_symbol (aapl 95 8)) (aapl 100 5)"
    by (simp add: of_instrument_def aapl_def)
  from threshold_never_missed [OF env0_ok ok this] m r show ?thesis
    by (auto simp: rule0_def exact_change_def)
qed

end
