(* ===== verification/Risk_Consumer.thy ===== *)
theory Risk_Consumer
  imports Risk_Properties
begin

text \<open>
  The Kinesis consumer of the risk engine in front of the in-memory store and the event bus: what a
  processed record publishes, and what is lost when the publication fails.
\<close>

definition reads :: "consumer_env \<Rightarrow> kinesis_data \<Rightarrow> payload_dict envelope \<Rightarrow> bool" where
  "reads env data e \<longleftrightarrow> (\<exists>text. decode_data env data = Inr text \<and> parse_event env text = Inr e)"

text \<open>The state of the store after a history of events.\<close>

definition after_events ::
  "price_move_rule \<Rightarrow> (risk_env \<times> payload_dict envelope) list \<Rightarrow> quote_state" where
  "after_events rule xs = risk_run memory_get_quote memory_set_quote rule xs Map.empty"

lemma risk_check_Inr: "risk_check_response r = Inr i \<Longrightarrow> reports_accepted r"
  by (cases "response_entries r")
    (auto simp: risk_check_response_def reports_accepted_def truthy_def Let_def length_Suc_conv
      split: if_splits option.splits)

lemma process_record_reads:
  "reads env data e \<Longrightarrow> process_record get_q set_q rule env data w = process_market_event get_q set_q rule env e w"
  by (auto simp: reads_def process_record_def)

lemma risk_run_snoc:
  "risk_run get_q set_q rule (xs @ [(env, e)]) st = snd (process_event get_q set_q rule env e (risk_run get_q set_q rule xs st))"
  by (induction xs arbitrary: st) auto

definition outbound_entry :: "consumer_env \<Rightarrow> payload_dict envelope \<Rightarrow> payload_dict put_entry" where
  "outbound_entry env a = \<lparr>pe_source = ''realstock.risk-engine'', pe_detail_type = ''risk.alert.detected'',
     pe_detail = to_event_dict (prepare_outbound_event (ce_trace env) a), pe_event_bus_name = ce_bus_name env\<rparr>"

lemma expected_alert_type: "expected_alert rule env es e = Some a \<Longrightarrow> event_type a = ''risk.alert.detected''"
  by (auto simp: expected_alert_def bind_eq_Some_conv alert_event_def split: if_splits)

lemma risk_publish_alert:
  "expected_alert rule renv es e = Some a \<Longrightarrow>
    risk_publish (ce_bus_name env) (ce_client env) (ce_trace env) a lg =
      (case ce_client env (outbound_entry env a) lg of
         (Inl x, lg') \<Rightarrow> (Inl x, lg') | (Inr response, lg') \<Rightarrow> (risk_check_response response, lg'))"
  by (auto simp: risk_publish_def expected_alert_type outbound_entry_def bind_run split: prod.splits sum.splits)

text \<open>The run of the consumer on an event it can read, after a history of events.\<close>

lemma process_market_run:
  fixes e :: "payload_dict envelope"
  assumes "rule_ok rule" "\<forall>(env, e) \<in> set xs. short_text env" "short_text (ce_risk env)"
    and "quote_store w = after_events rule xs"
  defines "w1 \<equiv> w\<lparr>quote_store := after_events rule (xs @ [(ce_risk env, e)])\<rparr>"
    and "expected \<equiv> expected_alert rule (ce_risk env) (map snd xs) e"
  shows "unreadable e \<Longrightarrow> \<exists>exc. process_market_event memory_get_quote memory_set_quote rule env e w = (Inl exc, w1)"
    and "\<not> unreadable e \<Longrightarrow> process_market_event memory_get_quote memory_set_quote rule env e w =
      (case expected of
         None \<Rightarrow> (Inr \<lparr>pr_market_event_id = event_id e, pr_risk_event_id = None, pr_eventbridge_event_id = None\<rparr>, w1)
       | Some a \<Rightarrow> (case risk_publish (ce_bus_name env) (ce_client env) (ce_trace env) a (risk_bus w) of
            (Inl x, lg) \<Rightarrow> (Inl x, w1\<lparr>risk_bus := lg\<rparr>)
          | (Inr i, lg) \<Rightarrow> (Inr \<lparr>pr_market_event_id = event_id e, pr_risk_event_id = Some (event_id a),
              pr_eventbridge_event_id = Some i\<rparr>, w1\<lparr>risk_bus := lg\<rparr>)))"
proof -
  have t: "tracks memory_get_quote (quote_store w) (map snd xs)"
    using memory.run_from_empty [OF assms(1,2)] by (simp add: assms(4) after_events_def)
  obtain r st where p: "process_event memory_get_quote memory_set_quote rule (ce_risk env) e (quote_store w) = (r, st)"
    and u: "unreadable e \<longrightarrow> (\<exists>exc. r = Inl exc)" "\<not> unreadable e \<longrightarrow> r = Inr expected"
    using memory.process_step [OF assms(1,3) t, of e] unfolding expected_def by blast
  have st: "w1 = w\<lparr>quote_store := st\<rparr>"
    using p by (simp add: w1_def after_events_def risk_run_snoc assms(4))
  show "\<exists>exc. process_market_event memory_get_quote memory_set_quote rule env e w = (Inl exc, w1)" if "unreadable e"
    using that u p st by (auto simp: process_market_event_def on_store_def bind_run)
  show "process_market_event memory_get_quote memory_set_quote rule env e w =
      (case expected of
         None \<Rightarrow> (Inr \<lparr>pr_market_event_id = event_id e, pr_risk_event_id = None, pr_eventbridge_event_id = None\<rparr>, w1)
       | Some a \<Rightarrow> (case risk_publish (ce_bus_name env) (ce_client env) (ce_trace env) a (risk_bus w) of
            (Inl x, lg) \<Rightarrow> (Inl x, w1\<lparr>risk_bus := lg\<rparr>)
          | (Inr i, lg) \<Rightarrow> (Inr \<lparr>pr_market_event_id = event_id e, pr_risk_event_id = Some (event_id a),
              pr_eventbridge_event_id = Some i\<rparr>, w1\<lparr>risk_bus := lg\<rparr>)))" if "\<not> unreadable e"
    using that u p by (cases expected)
      (simp_all add: st process_market_event_def on_store_def on_bus_def bind_run split: prod.splits sum.splits)
qed

text \<open>
  The consumer in front of a truthful bus: whatever happens the store takes the event in, and if
  the call returns, an alert is reported exactly if the rule raises one; then exactly one entry was
  accepted by the bus, with the alert as its detail, and otherwise nothing was sent.
\<close>
theorem risk_record_published:
  assumes "rule_ok rule" and "\<forall>(env, e) \<in> set xs. short_text env" and "short_text (ce_risk env)"
    and "quote_store w = after_events rule xs" and "truthful_bus (ce_client env)" and "reads env data e"
    and "process_record memory_get_quote memory_set_quote rule env data w = (r, w')"
  shows "quote_store w' = after_events rule (xs @ [(ce_risk env, e)])
    \<and> (\<forall>result. r = Inr result \<longrightarrow> pr_market_event_id result = event_id e
        \<and> (case expected_alert rule (ce_risk env) (map snd xs) e of
             None \<Rightarrow> \<not> alert_generated result \<and> risk_bus w' = risk_bus w
           | Some a \<Rightarrow> pr_risk_event_id result = Some (event_id a)
               \<and> risk_bus w' = risk_bus w @ [outbound_entry env a]))"
proof -
  have p: "process_market_event memory_get_quote memory_set_quote rule env e w = (r, w')"
    using assms(7) unfolding process_record_reads [OF assms(6)] .
  note run = process_market_run [OF assms(1-4), of e]
  show ?thesis
  proof (cases "unreadable e")
    case True
    then show ?thesis using run(1) p by auto
  next
    case False
    note run = run(2) [OF False]
    show ?thesis
    proof (cases "expected_alert rule (ce_risk env) (map snd xs) e")
      case None
      then show ?thesis using run p by (auto simp: alert_generated_def)
    next
      case (Some a)
      obtain r0 lg where c: "ce_client env (outbound_entry env a) (risk_bus w) = (r0, lg)" by fastforce
      have sent: "lg = risk_bus w @ [outbound_entry env a]"
        if "r0 = Inr response" "risk_check_response response = Inr i" for response i
        using truthful_busD(2) [OF assms(5) c that(1) risk_check_Inr [OF that(2)]] .
      show ?thesis
        using run p Some risk_publish_alert [OF Some, of env "risk_bus w"] c sent
        by (auto split: sum.splits)
    qed
  qed
qed

text \<open>
  C12. A failed publication loses the alert: the quote is stored before the alert is published, so
  when the bus raises, the call raises, but processing the same Kinesis record again (as often as one
  likes, with a working bus) returns normally, reports no alert and sends nothing.
\<close>
theorem failed_publish_loses_alert:
  assumes "rule_ok rule" and "\<forall>(env, e) \<in> set xs. short_text env" and "short_text (ce_risk env)"
    and "quote_store w = after_events rule xs" and "reads env data e"
    and "expected_alert rule (ce_risk env) (map snd xs) e = Some a"
    and "ce_client env (outbound_entry env a) (risk_bus w) = (Inl exc, risk_bus w)"
    and "reads retry data e" and "short_text (ce_risk retry)"
  shows "\<exists>w'. process_record memory_get_quote memory_set_quote rule env data w = (Inl exc, w')
    \<and> process_record memory_get_quote memory_set_quote rule retry data w' =
        (Inr \<lparr>pr_market_event_id = event_id e, pr_risk_event_id = None, pr_eventbridge_event_id = None\<rparr>, w')
    \<and> risk_bus w' = risk_bus w"
proof -
  let ?st = "after_events rule (xs @ [(ce_risk env, e)])"
  let ?w = "w\<lparr>quote_store := ?st\<rparr>"
  have u: "\<not> unreadable e"
    using assms(6) by (auto simp: expected_alert_def bind_eq_Some_conv unreadable_def)
  have t: "tracks memory_get_quote (after_events rule xs) (map snd xs)"
    using memory.run_from_empty [OF assms(1,2)] by (simp add: after_events_def)
  have first: "process_record memory_get_quote memory_set_quote rule env data w = (Inl exc, ?w)"
    using process_market_run(2) [OF assms(1-4) u] risk_publish_alert [OF assms(6), of env "risk_bus w"] assms(6,7)
    by (simp add: process_record_reads [OF assms(5)])
  have "process_event memory_get_quote memory_set_quote rule (ce_risk env) e (after_events rule xs)
      = (Inr (Some a), ?st)"
    using memory.process_step [OF assms(1,3) t, of e] u assms(6)
    by (auto simp: after_events_def risk_run_snoc)
  then have "process_event memory_get_quote memory_set_quote rule (ce_risk retry) e ?st = (Inr None, ?st)"
    by (rule memory.process_again [OF assms(1,3,9) t])
  then have "process_record memory_get_quote memory_set_quote rule retry data ?w =
        (Inr \<lparr>pr_market_event_id = event_id e, pr_risk_event_id = None, pr_eventbridge_event_id = None\<rparr>, ?w)"
    by (simp add: process_record_reads [OF assms(8)] process_market_event_def on_store_def bind_run)
  with first show ?thesis by (intro exI [of _ ?w]) simp
qed

section \<open>A concrete run\<close>

definition good_bus :: "payload_dict event_bus" where
  "good_bus entry lg = (Inr \<lparr>failed_entry_count = Some 0, response_entries =
     Some [\<lparr>res_error_code = None, res_error_message = None, res_event_id = Some ''e-1''\<rparr>]\<rparr>, lg @ [entry])"

definition dead_bus :: "payload_dict event_bus" where
  "dead_bus entry lg = (Inl (ExternalError ''ConnectTimeout''), lg)"

definition kinesis_env :: "payload_dict event_bus \<Rightarrow> consumer_env" where
  "kinesis_env client = \<lparr>decode_utf8 = Some, parse_json = (\<lambda>text. Some (to_event_dict (quote_event 2 103 8))),
     ce_event_id = 50, ce_correlation_id = 51, ce_clock = 9, ce_bus_name = ''default'', ce_client = client,
     ce_trace = [], ce_risk = env0\<rparr>"

lemma kinesis_reads: "reads (kinesis_env client) (DataBytes ''{}'') (quote_event 2 103 8)"
proof -
  have t: "trim ''market.quote.received'' = ''market.quote.received''" "trim ''market-ingestor'' = ''market-ingestor''"
    "validate_event_type ''market.quote.received'' = Inr ''market.quote.received''"
    "validate_source ''market-ingestor'' = Inr ''market-ingestor''" by code_simp+
  show ?thesis
    by (simp add: reads_def decode_data_def parse_event_def kinesis_env_def envelope_validate_def to_event_dict_def
        quote_event_def field_or_def json_option_def envelope_keys_def envelope_new_def t length_between_def validate_occurred_at_def)
qed

definition one_quote :: "(risk_env \<times> payload_dict envelope) list" where
  "one_quote = [(env0, quote_event 1 100 5)]"

definition world1 :: "quote_state risk_world" where
  "world1 = \<lparr>quote_store = after_events rule0 one_quote, risk_bus = []\<rparr>"

definition alert1 :: "payload_dict envelope" where
  "alert1 = alert_event env0 (move_alert env0 rule0 (aapl 100 5) (aapl 103 8)) (quote_event 2 103 8)"

lemma expected1: "expected_alert rule0 env0 (map snd one_quote) (quote_event 2 103 8) = Some alert1"
proof -
  have "newest (instrument_quotes US ''AAPL'' [quote_event 1 100 5]) = Some (aapl 100 5)"
    by (simp add: aapl_quotes)
  moreover have "dq_market (aapl 103 8) = US" "dq_symbol (aapl 103 8) = ''AAPL''"
    "dq_timestamp (aapl 103 8) = 8" "dq_timestamp (aapl 100 5) = 5" by (simp_all add: aapl_def)
  moreover have "\<bar>change_percent (aapl 100 5) (aapl 103 8)\<bar> = 3" by (simp add: move_3)
  moreover have "warning_threshold rule0 = 2" by (simp add: rule0_def)
  ultimately show ?thesis
    by (simp add: expected_alert_def one_quote_def quote_of_event alert1_def)
qed

lemma one_quote_texts: "\<forall>(env, e) \<in> set one_quote. short_text env" "short_text (ce_risk (kinesis_env c))"
  "quote_store world1 = after_events rule0 one_quote"
  by (simp_all add: one_quote_def env0_ok kinesis_env_def world1_def)

theorem risk_record_published_witness:
  "\<exists>w'. process_record memory_get_quote memory_set_quote rule0 (kinesis_env good_bus) (DataBytes ''{}'') world1
      = (Inr \<lparr>pr_market_event_id = 2, pr_risk_event_id = Some 32, pr_eventbridge_event_id = Some ''e-1''\<rparr>, w')
    \<and> risk_bus w' = [outbound_entry (kinesis_env good_bus) alert1]"
proof -
  have "truthful_bus good_bus" by (simp add: truthful_bus_def good_bus_def)
  then have tb: "truthful_bus (ce_client (kinesis_env good_bus))" by (simp add: kinesis_env_def)
  have exp: "expected_alert rule0 (ce_risk (kinesis_env good_bus)) (map snd one_quote) (quote_event 2 103 8) = Some alert1"
    using expected1 by (simp add: kinesis_env_def)
  have "risk_publish (ce_bus_name (kinesis_env good_bus)) (ce_client (kinesis_env good_bus)) (ce_trace (kinesis_env good_bus))
      alert1 (risk_bus world1) = (Inr ''e-1'', [outbound_entry (kinesis_env good_bus) alert1])"
    unfolding risk_publish_alert [OF exp]
    by (simp add: kinesis_env_def good_bus_def world1_def risk_check_response_def truthy_def)
  moreover have "\<not> unreadable (quote_event 2 103 8)" by (simp add: unreadable_def quote_of_event)
  ultimately obtain w' where "process_record memory_get_quote memory_set_quote rule0 (kinesis_env good_bus) (DataBytes ''{}'') world1
      = (Inr \<lparr>pr_market_event_id = 2, pr_risk_event_id = Some 32, pr_eventbridge_event_id = Some ''e-1''\<rparr>, w')"
    using process_market_run(2) [OF env0_ok(1) one_quote_texts, of "quote_event 2 103 8" good_bus] exp
    by (simp add: process_record_reads [OF kinesis_reads] quote_event_def alert1_def alert_event_def env0_def)
  moreover from risk_record_published [OF env0_ok(1) one_quote_texts tb kinesis_reads this] exp
  have "risk_bus w' = [outbound_entry (kinesis_env good_bus) alert1]" by (simp add: world1_def)
  ultimately show ?thesis by blast
qed

theorem failed_publish_loses_alert_witness:
  "\<exists>w'. fst (process_record memory_get_quote memory_set_quote rule0 (kinesis_env dead_bus) (DataBytes ''{}'') world1)
        = Inl (ExternalError ''ConnectTimeout'')
    \<and> process_record memory_get_quote memory_set_quote rule0 (kinesis_env good_bus) (DataBytes ''{}'') w' =
        (Inr \<lparr>pr_market_event_id = 2, pr_risk_event_id = None, pr_eventbridge_event_id = None\<rparr>, w') \<and> risk_bus w' = []"
proof -
  have exp: "expected_alert rule0 (ce_risk (kinesis_env dead_bus)) (map snd one_quote) (quote_event 2 103 8) = Some alert1"
    using expected1 by (simp add: kinesis_env_def)
  have dead: "ce_client (kinesis_env dead_bus) (outbound_entry (kinesis_env dead_bus) alert1) (risk_bus world1)
      = (Inl (ExternalError ''ConnectTimeout''), risk_bus world1)" by (simp add: kinesis_env_def dead_bus_def)
  from failed_publish_loses_alert [OF env0_ok(1) one_quote_texts kinesis_reads exp dead kinesis_reads [of good_bus] one_quote_texts(2)]
  show ?thesis by (auto simp: world1_def quote_event_def)
qed

end
