(* ===== verification/Alert_Properties.thy ===== *)
theory Alert_Properties
  imports Alert_Protocol Risk_Consumer
begin

text \<open>
  The properties of the alert worker: acknowledged means notified, whatever crashes or interleaves;
  \<open>poll_once\<close> is a run of the protocol; claims exclude each other; duplicates are suppressed and
  failures are retried; and an alert of the risk engine reaches the notification unchanged.
\<close>

section \<open>Acknowledged means notified\<close>

text \<open>
  C5. No alert is dropped silently: in every state that any number of alert workers can reach, with
  crashes, failing calls, expiring items and redelivered messages, every message deleted from the
  queue belongs to an event whose notification is on the topic; so does every completed item.
\<close>
theorem acked_alert_notified:
  assumes "alert_reachable s"
  shows "(\<forall>receipt \<in> set (al_deleted (al_world s)). \<exists>i. (receipt, i) \<in> set (al_acked s))
    \<and> (\<forall>(receipt, i) \<in> set (al_acked s). notified (uuid_str i) (al_sns (al_world s)))
    \<and> (\<forall>k it. al_table (al_world s) k = Some it \<longrightarrow> it_status it = Some ''COMPLETED'' \<longrightarrow>
         notified k (al_sns (al_world s)))"
proof -
  have inv: "alert_inv s" by (rule alert_reachable_inv [OF assms])
  then have "\<forall>receipt \<in> set (al_deleted (al_world s)). receipt \<in> fst ` set (al_acked s)"
    by (auto simp: alert_inv_def)
  then show ?thesis using inv by (force simp: alert_inv_def table_notified_def)
qed

section \<open>The program follows the protocol\<close>

abbreviation alert_run :: "alert_system \<Rightarrow> alert_system \<Rightarrow> bool" where
  "alert_run \<equiv> alert_step\<^sup>*\<^sup>*"

lemma goes_worker [simp]: "al_worker (goes n p w s) n = p" "al_world (goes n p w s) = w"
  by simp_all

lemma run_acknowledge:
  assumes "al_worker s n = Answered receipt e status" "status \<noteq> IN_PROGRESS"
    and "delete_message env receipt (al_world s) = (r, w)"
  shows "\<exists>s'. alert_run s s' \<and> al_world s' = w \<and> al_worker s' n = Waiting"
  using alert_on_acknowledge [OF assms] by (intro exI [of _ "(goes n Waiting w s)\<lparr>al_acked := al_acked s @ [(receipt, event_id e)]\<rparr>"]) auto

lemma run_stop: "\<exists>s'. alert_run s s' \<and> al_world s' = al_world s \<and> al_worker s' n = Waiting"
  using alert_on_stop [of s n] by (intro exI [of _ "goes n Waiting (al_world s) s"]) auto

lemma process_alert_refines:
  assumes "al_worker s n = Received receipt e" and "truthful_topic (ne_client (ae_notify env))"
    and "process_alert env e (al_world s) = (r, w)"
  shows "\<exists>s'. alert_run s s' \<and> al_world s' = w
    \<and> (case r of Inl _ \<Rightarrow> True | Inr result \<Rightarrow> al_worker s' n = Answered receipt e (ar_status result))"
proof -
  let ?k = "uuid_str (event_id e)"
  obtain r1 w1 where c: "claim_alert env ?k (al_world s) = (r1, w1)" by fastforce
  let ?p1 = "case r1 of Inl _ \<Rightarrow> Waiting | Inr None \<Rightarrow> Refused receipt e | Inr (Some c) \<Rightarrow> Claimed receipt e c"
  let ?s1 = "goes n ?p1 w1 s"
  have s1: "alert_step s ?s1" by (rule alert_on_claim [OF assms(1) c refl])
  show ?thesis
  proof (cases r1)
    case (Inl x)
    then show ?thesis using c s1 assms(3) by (intro exI [of _ ?s1]) (auto simp: process_alert_def)
  next
    case (Inr claim)
    show ?thesis
    proof (cases claim)
      case None
      obtain r2 w2 where a: "answer_unclaimed env ?k w1 = (r2, w2)" by fastforce
      let ?s2 = "goes n (case r2 of Inl _ \<Rightarrow> Waiting | Inr result \<Rightarrow> Answered receipt e (ar_status result)) w2 ?s1"
      have "al_worker ?s1 n = Refused receipt e" "al_world ?s1 = w1" using Inr None by simp_all
      then have "alert_step ?s1 ?s2" using alert_on_refused [of ?s1 n receipt e env r2 w2] a by simp
      moreover have "(r, w) = (r2, w2)" using assms(3) c a Inr None by (simp add: process_alert_def)
      ultimately show ?thesis using s1 by (intro exI [of _ ?s2]) (auto split: sum.splits)
    next
      case (Some cl)
      have w1: "al_worker ?s1 n = Claimed receipt e cl" "al_world ?s1 = w1" using Inr Some by simp_all
      obtain r2 w2 where nt: "notify_alert env e w1 = (r2, w2)" by fastforce
      let ?s2 = "goes n (case r2 of Inl _ \<Rightarrow> Claimed receipt e cl | Inr i \<Rightarrow> Notified receipt e cl) w2 ?s1"
      have s2: "alert_step ?s1 ?s2" by (rule alert_on_notify [OF w1(1) assms(2) _ refl]) (simp add: nt)
      show ?thesis
      proof (cases r2)
        case (Inl x)
        obtain r3 w3 where rl: "release_alert env cl w2 = (r3, w3)" by fastforce
        have w2: "al_worker ?s2 n = Claimed receipt e cl" "al_world ?s2 = w2" using Inl by simp_all
        have s3: "alert_step ?s2 (goes n Waiting w3 ?s2)" by (rule alert_on_release [OF w2(1), where env = env and r = r3]) (simp add: rl)
        have "w = w3 \<and> (\<exists>y. r = Inl y)" using assms(3) c nt rl Inr Some Inl
          by (auto simp: process_alert_def try_except_def bind_run split: sum.splits)
        then show ?thesis using s1 s2 s3 by (intro exI [of _ "goes n Waiting w3 ?s2"]) (auto intro: rtranclp.intros)
      next
        case (Inr i)
        obtain r3 w3 where cp: "complete_alert env cl w2 = (r3, w3)" by fastforce
        let ?s3 = "goes n (case r3 of Inl _ \<Rightarrow> Waiting | Inr _ \<Rightarrow> Answered receipt e PUBLISHED) w3 ?s2"
        have w2: "al_worker ?s2 n = Notified receipt e cl" "al_world ?s2 = w2" using Inr by simp_all
        have s3: "alert_step ?s2 ?s3" by (rule alert_on_complete [OF w2(1) _ refl, where env = env]) (simp add: cp)
        have "w = w3 \<and> (case r of Inl _ \<Rightarrow> True | Inr result \<Rightarrow> ar_status result = PUBLISHED \<and> (\<exists>u. r3 = Inr u))"
          using assms(3) c nt cp \<open>r1 = Inr claim\<close> Some Inr
          by (auto simp: process_alert_def try_except_def bind_run split: sum.splits)
        then show ?thesis using s1 s2 s3
          by (intro exI [of _ ?s3]) (auto intro: rtranclp.intros split: sum.splits)
      qed
    qed
  qed
qed

lemma poll_once_run:
  assumes "al_worker s n = Waiting" and "truthful_topic (ne_client (ae_notify env))"
    and "poll_once env (al_world s) = (r, w)"
  shows "\<exists>s'. alert_run s s' \<and> al_world s' = w \<and> al_worker s' n = Waiting"
proof (cases "\<exists>message rest receipt parsed. ae_receive env = Inr (message # rest) \<and> msg_receipt message = Some receipt
    \<and> parse_message (ae_parser env) message = Inr parsed")
  case False
  then have "w = al_world s"
    using assms(3) by (fastforce simp: poll_once_def bind_run process_message_def split: sum.splits list.splits option.splits)
  then show ?thesis using assms(1) by (intro exI [of _ s]) simp
next
  case True
  then obtain message rest receipt parsed where m: "ae_receive env = Inr (message # rest)" "msg_receipt message = Some receipt"
    "parse_message (ae_parser env) message = Inr parsed" by blast
  let ?e = "qm_detail parsed"
  let ?s0 = "goes n (Received receipt ?e) (al_world s) s"
  have s0: "alert_step s ?s0" by (rule alert_on_receive [OF assms(1) m(3,2)])
  obtain r1 w1 where p: "process_alert env ?e (al_world s) = (r1, w1)" by fastforce
  obtain s1 where s1: "alert_run ?s0 s1" "al_world s1 = w1"
    "case r1 of Inl _ \<Rightarrow> True | Inr result \<Rightarrow> al_worker s1 n = Answered receipt ?e (ar_status result)"
    using process_alert_refines [of ?s0 n receipt ?e env r1 w1] assms(2) p by auto
  have rest: "\<exists>s'. alert_run s1 s' \<and> al_world s' = w \<and> al_worker s' n = Waiting"
  proof (cases "\<exists>result. r1 = Inr result \<and> ar_status result \<noteq> IN_PROGRESS")
    case True
    then obtain result where res: "r1 = Inr result" "ar_status result \<noteq> IN_PROGRESS" by blast
    obtain r2 w2 where d: "delete_message env receipt w1 = (r2, w2)" by fastforce
    have "ar_status result = PUBLISHED \<or> ar_status result = DUPLICATE" using res(2) by (cases "ar_status result") auto
    then have "w = w2" using assms(3) m p d res by (auto simp: poll_once_def process_message_def bind_run split: sum.splits)
    then show ?thesis using run_acknowledge [of s1 n receipt ?e "ar_status result" env r2 w2] s1 d res by simp
  next
    case False
    then have "w = w1" using assms(3) m p by (auto simp: poll_once_def process_message_def bind_run split: sum.splits if_splits)
    then show ?thesis using run_stop [of s1 n] s1(2) by simp
  qed
  then obtain s' where "alert_run s1 s'" "al_world s' = w" "al_worker s' n = Waiting" by blast
  then show ?thesis
    using s0 s1(1) by (intro exI [of _ s']) (meson converse_rtranclp_into_rtranclp rtranclp_trans)
qed

text \<open>
  C11. Refinement: whatever a call of \<open>poll_once\<close> meets, a fault of any single call included, and
  whether it returns or raises, its effect on the table, the topic and the queue is that of a run of
  the protocol by one worker, so the safety of the protocol holds for the program.
\<close>
theorem poll_once_refines:
  assumes "al_worker s n = Waiting" and "truthful_topic (ne_client (ae_notify env))"
    and "poll_once env (al_world s) = (r, w)"
  shows "\<exists>s'. alert_run s s' \<and> al_world s' = w \<and> al_worker s' n = Waiting"
  by (rule poll_once_run [OF assms])

text \<open>
  Mutual exclusion of claims: once a worker has been granted a claim on an event, and as long as
  its lease lasts and it neither completes nor releases, no sequence of claims, completions,
  releases (of anybody, for any event) and expiries grants the event to another.
\<close>
theorem alert_claim_exclusion:
  assumes "idem_claim cfg Works now w event s = (Inr (Some c), s1)" and "lease_run idem_performs xs s1 s2"
    and "\<forall>x \<in> set xs. op_time x < now + processing_lease_seconds cfg \<and> \<not> gives_up w (strip event) x"
  shows "\<forall>x \<in> set xs. strip event \<notin> claimed_keys x"
proof -
  have c: "c = \<lparr>ic_event_id = strip event, ic_claim_id = w\<rparr>"
    using assms(1) idem_claim_run(3) [of "strip event" cfg Works now w s c] idem_claim_nonblank [OF assms(1)]
    by (simp add: idem_claim_strip)
  have "idem_performs (Claim now w (now + processing_lease_seconds cfg) {strip event}) s s1"
    using assms(1) c by auto
  from idem.exclusion [OF TrueI this _ assms(2)] assms(3) show ?thesis by auto
qed

section \<open>Duplicates and retries\<close>

lemma idem_release_owner:
  "owner_condition (ic_claim_id c) (t (ic_event_id c)) \<Longrightarrow> idem_release Works c t = (Inr (), t(ic_event_id c := None))"
  by (simp add: idem_release_run)

lemma claim_alert_works:
  assumes "ae_claim_fault env = Works"
  shows "claim_alert env (uuid_str i) w =
    (if claim_condition (ae_claim_clock env) (al_table w (uuid_str i))
     then (Inr (Some \<lparr>ic_event_id = uuid_str i, ic_claim_id = ae_claim_id env\<rparr>),
       w\<lparr>al_table := (al_table w)(uuid_str i \<mapsto> claimed_item (ae_config env) (ae_claim_clock env) (ae_claim_id env))\<rparr>)
     else (Inr None, w))"
  using idem_claim_run(1) [of "uuid_str i" "ae_config env" "ae_claim_clock env" "ae_claim_id env" "al_table w"]
  by (simp add: claim_alert_def on_table_def assms)

lemma process_alert_claimed:
  assumes "ae_claim_fault env = Works" "claim_condition (ae_claim_clock env) (al_table w (uuid_str (event_id e)))"
  shows "process_alert env e w =
    (let k = uuid_str (event_id e); c = \<lparr>ic_event_id = k, ic_claim_id = ae_claim_id env\<rparr>;
         w1 = w\<lparr>al_table := (al_table w)(k \<mapsto> claimed_item (ae_config env) (ae_claim_clock env) (ae_claim_id env))\<rparr> in
     case notify_alert env e w1 of
       (Inl x, w2) \<Rightarrow> (case release_alert env c w2 of (Inl y, w3) \<Rightarrow> (Inl y, w3) | (Inr _, w3) \<Rightarrow> (Inl x, w3))
     | (Inr i, w2) \<Rightarrow> (case complete_alert env c w2 of (Inl y, w3) \<Rightarrow> (Inl y, w3)
         | (Inr _, w3) \<Rightarrow> (Inr \<lparr>ar_status = PUBLISHED, ar_event_id = k, ar_message_id = Some i\<rparr>, w3)))"
  using assms by (simp add: process_alert_def claim_alert_works bind_run try_except_def Let_def split: prod.splits sum.splits)

lemma published_item:
  assumes "process_alert env e w = (Inr result, w')" "ar_status result = PUBLISHED"
  shows "\<exists>it. al_table w' (uuid_str (event_id e)) = Some it \<and> it_status it = Some ''COMPLETED''
    \<and> it_expires_at it = ae_complete_clock env + completed_retention_seconds (ae_config env)"
proof -
  obtain r1 w1 where c: "claim_alert env (uuid_str (event_id e)) w = (r1, w1)" by fastforce
  obtain cl where r1: "r1 = Inr (Some cl)" and k: "ic_event_id cl = uuid_str (event_id e)"
  proof (cases r1)
    case (Inl x)
    then show ?thesis using assms(1) c by (simp add: process_alert_def)
  next
    case (Inr claim)
    show ?thesis
    proof (cases claim)
      case None
      then have "ar_status result \<noteq> PUBLISHED"
        using assms(1) c Inr by (auto simp: process_alert_def answer_unclaimed_def elim!: bind_InrE split: if_splits)
      then show ?thesis using assms(2) by simp
    next
      case (Some cl)
      then show ?thesis using that claim_alert_run(4) [OF c strip_uuid_str uuid_str_Nil] Inr by blast
    qed
  qed
  obtain i w2 where cp: "complete_alert env cl w2 = (Inr (), w')"
    using assms(1) c r1 by (auto simp: process_alert_def elim!: bind_InrE)
  then have "idem_complete (ae_config env) (ae_complete_fault env) (ae_complete_clock env) cl (al_table w2) = (Inr (), al_table w')"
    by (auto simp: complete_alert_def on_table_def split: prod.splits)
  then have "owner_condition (ic_claim_id cl) (al_table w2 (uuid_str (event_id e)))"
    and "al_table w' = (al_table w2)(uuid_str (event_id e) := map_option (\<lambda>it. it\<lparr>it_status := Some ''COMPLETED'',
      it_updated_at := ae_complete_clock env,
      it_expires_at := ae_complete_clock env + completed_retention_seconds (ae_config env)\<rparr>)
      (al_table w2 (uuid_str (event_id e))))"
    by (auto simp: idem_complete_def with_fault_def update_item_def k split: fault.splits if_splits)
  then show ?thesis by (auto simp: owner_condition_def split: option.splits)
qed

text \<open>
  Duplicates are suppressed: after an event was published, any later call that sees the item it
  left, within the retention period and with a working table, answers \<open>DUPLICATE\<close>, sends nothing
  and changes nothing.
\<close>
theorem duplicate_suppressed:
  assumes "process_alert env e w = (Inr result, w')" and "ar_status result = PUBLISHED"
    and "event_id e' = event_id e"
    and "al_table v (uuid_str (event_id e)) = al_table w' (uuid_str (event_id e))"
    and "ae_claim_fault env' = Works" and "ae_status_fault env' = Works"
    and "ae_claim_clock env' \<le> ae_complete_clock env + completed_retention_seconds (ae_config env)"
  shows "process_alert env' e' v =
    (Inr \<lparr>ar_status = DUPLICATE, ar_event_id = uuid_str (event_id e), ar_message_id = None\<rparr>, v)"
proof -
  obtain it where it: "al_table v (uuid_str (event_id e)) = Some it" "it_status it = Some ''COMPLETED''"
    "it_expires_at it = ae_complete_clock env + completed_retention_seconds (ae_config env)"
    using published_item [OF assms(1,2)] assms(4) by auto
  then have "\<not> claim_condition (ae_claim_clock env') (al_table v (uuid_str (event_id e)))"
    using assms(7) by (simp add: claim_condition_def)
  then show ?thesis
    using it assms(3,5,6) by (simp add: process_alert_def claim_alert_works answer_unclaimed_def on_table_def bind_run
        idem_get_status_def parse_status_def)
qed

text \<open>A topic that takes everything it is sent.\<close>

definition reliable_topic :: "sns_client \<Rightarrow> bool" where
  "reliable_topic client \<longleftrightarrow> (\<forall>entry lg. \<exists>i. client entry lg = (Inr (Some i), lg @ [entry]) \<and> i \<noteq> [])"

lemma sns_publish_reliable:
  assumes "reliable_topic (ne_client env)" "alert_model_validate (ne_alert_id env) (ne_clock env) (payload e) = Inr alert"
    and "event_type e = ''risk.alert.detected''"
  shows "\<exists>i entry. sns_publish env e lg = (Inr i, lg @ [entry]) \<and> map_of (sns_message entry) ''event_id'' = Some (VText (uuid_str (event_id e)))
    \<and> sns_subject entry = ''[RealStock] '' @ severity_name (ra_severity alert) @ '' '' @ market_name (ra_market alert) @ '':'' @ ra_symbol alert"
proof -
  have p: "parse_alert env e = Inr alert" using assms(2,3) by (simp add: parse_alert_def)
  then obtain m where m: "format_message env e = Inr m" "map_of m ''event_id'' = Some (VText (uuid_str (event_id e)))"
    by (simp add: format_message_def)
  obtain s where s: "format_subject env e = Inr s"
    "s = ''[RealStock] '' @ severity_name (ra_severity alert) @ '' '' @ market_name (ra_market alert) @ '':'' @ ra_symbol alert"
    using p by (simp add: format_subject_def)
  let ?entry = "\<lparr>sns_topic_arn = ne_topic_arn env, sns_subject = s, sns_message = m,
         sns_attributes = [(''severity'', severity_name (ra_severity alert)),
           (''risk_type'', risk_type_name (ra_risk_type alert)), (''market'', market_name (ra_market alert)),
           (''symbol'', ra_symbol alert), (''correlation_id'', uuid_str (correlation_id e))]\<rparr>"
  obtain i where "ne_client env ?entry lg = (Inr (Some i), lg @ [?entry])" "i \<noteq> []"
    using assms(1) by (auto simp: reliable_topic_def)
  then have "sns_publish env e lg = (Inr i, lg @ [?entry])"
    using assms(2) m(1) s(1) by (simp add: sns_publish_def bind_run truthy_def)
  then show ?thesis using m(2) s(2) by (intro exI [of _ i] exI [of _ ?entry]) simp
qed

text \<open>
  A failed notification is retried: when the topic refuses an event that was free to claim, the
  call raises the topic's error and gives the claim back, so the next delivery, at any time, even
  within the lease and by another worker, publishes it with a working topic.
\<close>
theorem failed_notification_retried:
  assumes "claim_condition (ae_claim_clock env) (al_table w (uuid_str (event_id e)))"
    and "ae_claim_fault env = Works" and "ae_release_fault env = Works"
    and "sns_publish (ae_notify env) e (al_sns w) = (Inl exc, al_sns w)"
    and "ae_claim_fault env' = Works" and "ae_complete_fault env' = Works" and "reliable_topic (ne_client (ae_notify env'))"
    and "event_type e = ''risk.alert.detected''"
    and "alert_model_validate (ne_alert_id (ae_notify env')) (ne_clock (ae_notify env')) (payload e) = Inr alert"
  shows "\<exists>w1 result w2 entry. process_alert env e w = (Inl exc, w1) \<and> al_sns w1 = al_sns w
    \<and> process_alert env' e w1 = (Inr result, w2) \<and> ar_status result = PUBLISHED
    \<and> al_sns w2 = al_sns w @ [entry] \<and> notified (uuid_str (event_id e)) [entry]"
proof -
  let ?k = "uuid_str (event_id e)"
  let ?w1 = "w\<lparr>al_table := (al_table w)(?k := None)\<rparr>"
  have first: "process_alert env e w = (Inl exc, ?w1)"
    using assms(3,4) by (simp add: process_alert_claimed [OF assms(2,1)] notify_alert_def on_sns_def release_alert_def
        on_table_def idem_release_owner owner_condition_def Let_def)
  obtain i entry where p: "sns_publish (ae_notify env') e (al_sns w) = (Inr i, al_sns w @ [entry])"
    "map_of (sns_message entry) ''event_id'' = Some (VText ?k)"
    using sns_publish_reliable [OF assms(7,9,8)] by blast
  have free: "claim_condition (ae_claim_clock env') (al_table ?w1 ?k)" by (simp add: claim_condition_def)
  have "\<exists>w2. process_alert env' e ?w1 =
      (Inr \<lparr>ar_status = PUBLISHED, ar_event_id = ?k, ar_message_id = Some i\<rparr>, w2) \<and> al_sns w2 = al_sns w @ [entry]"
    using p(1) assms(6) by (simp add: process_alert_claimed [OF assms(5) free] notify_alert_def on_sns_def complete_alert_def
        on_table_def idem_complete_run owner_condition_def Let_def)
  then obtain w2 where "process_alert env' e ?w1 = (Inr \<lparr>ar_status = PUBLISHED, ar_event_id = ?k, ar_message_id = Some i\<rparr>, w2)"
    "al_sns w2 = al_sns w @ [entry]" by blast
  moreover have "notified ?k [entry]" using p(2) by (simp add: notified_def)
  ultimately show ?thesis using first
    by (intro exI [of _ ?w1] exI [of _ "\<lparr>ar_status = PUBLISHED, ar_event_id = ?k, ar_message_id = Some i\<rparr>"]
        exI [of _ w2] exI [of _ entry]) simp
qed

end
