(* ===== verification/Alert_Flow.thy ===== *)
theory Alert_Flow
  imports Alert_Properties
begin

text \<open>
  From the risk engine to the notification: what the risk engine puts on the event bus is accepted
  by the alert worker and announced with its severity and instrument. A concrete run of the worker,
  and the instances of its properties there.
\<close>

section \<open>The detail of an entry is an event again\<close>

lemma alert_event_valid:
  assumes "trimmed d"
  shows "valid_envelope (alert_event env a e)" "valid_envelope (alert_event env a e\<lparr>trace_context := Some d\<rparr>)"
proof -
  have t: "trim ''risk.alert.detected'' = ''risk.alert.detected''" "trim ''risk-engine'' = ''risk-engine''"
    "validate_event_type ''risk.alert.detected'' = Inr ''risk.alert.detected''"
    "validate_source ''risk-engine'' = Inr ''risk-engine''" by code_simp+
  have "dict_trim d = d" using trimmed_fix [of "[]" d] assms by (simp add: dict_trim_def)
  then show "valid_envelope (alert_event env a e)" "valid_envelope (alert_event env a e\<lparr>trace_context := Some d\<rparr>)"
    by (simp_all add: valid_envelope_def alert_event_def envelope_new_def t length_between_def validate_occurred_at_def)
qed

lemma outbound_valid:
  "trimmed d \<Longrightarrow> valid_envelope (prepare_outbound_event d (alert_event env a e))"
  using alert_event_valid by (simp add: prepare_outbound_event_def)

lemma outbound_simps [simp]:
  "event_type (prepare_outbound_event d x) = event_type x" "event_id (prepare_outbound_event d x) = event_id x"
  "payload (prepare_outbound_event d x) = payload x" "correlation_id (prepare_outbound_event d x) = correlation_id x"
  "causation_id (prepare_outbound_event d x) = causation_id x"
  by (simp_all add: prepare_outbound_event_def)

text \<open>The queue message EventBridge makes of an entry.\<close>

definition carries :: "parser_env \<Rightarrow> string \<Rightarrow> payload_dict put_entry \<Rightarrow> bool" where
  "carries penv body entry \<longleftrightarrow> loads penv body =
     Some (OuterObject (Some (pe_source entry)) (Some (pe_detail_type entry)) (Some (pe_detail entry)))"

lemma entry_parsed:
  assumes "trimmed (ce_trace cenv)" "carries penv body (outbound_entry cenv (alert_event env a e))"
  shows "parse_message penv \<lparr>msg_body = Some body, msg_receipt = receipt\<rparr> =
    Inr \<lparr>qm_source = ''realstock.risk-engine'', qm_detail_type = ''risk.alert.detected'',
      qm_detail = prepare_outbound_event (ce_trace cenv) (alert_event env a e)\<rparr>"
  using assms(2) envelope_validate_dump [OF outbound_valid [OF assms(1)], of "pe_event_id penv" "pe_correlation_id penv" "pe_clock penv" env a e]
  by (simp add: parse_message_def carries_def outbound_entry_def alert_event_def [of env a e, THEN arg_cong [where f = event_type]])

text \<open>
  End to end: the entry that the risk engine puts on the bus for an alert is accepted by the alert
  worker's parser as the same event, traced to the market event, and a working topic gets one
  notification that names the severity, the market and the symbol of the move.
\<close>
theorem risk_alert_delivered:
  assumes "rule_ok rule" and "short_text renv" and "expected_alert rule renv es e = Some a"
    and "trimmed (ce_trace cenv)" and "carries penv body (outbound_entry cenv a)"
    and "reliable_topic (ne_client nenv)"
  shows "\<exists>m p q i entry. parse_message penv \<lparr>msg_body = Some body, msg_receipt = receipt\<rparr> = Inr m
    \<and> event_id (qm_detail m) = event_id a \<and> correlation_id (qm_detail m) = correlation_id e
    \<and> causation_id (qm_detail m) = Some (event_id e)
    \<and> quote_of e = Some q \<and> newest (instrument_quotes (dq_market q) (dq_symbol q) es) = Some p
    \<and> sns_publish nenv (qm_detail m) lg = (Inr i, lg @ [entry]) \<and> notified (uuid_str (event_id a)) [entry]
    \<and> sns_subject entry = ''[RealStock] ''
        @ (if critical_threshold rule \<le> \<bar>change_percent p q\<bar> then ''CRITICAL'' else ''WARNING'')
        @ '' '' @ market_name (dq_market q) @ '':'' @ dq_symbol q"
proof -
  obtain q p where qp: "quote_of e = Some q"
    "newest (instrument_quotes (dq_market q) (dq_symbol q) es) = Some p"
    "a = alert_event renv (move_alert renv rule p q) e"
    using assms(3) by (auto simp: expected_alert_def bind_eq_Some_conv split: if_splits)
  let ?al = "move_alert renv rule p q"
  let ?d = "prepare_outbound_event (ce_trace cenv) a"
  have ok: "alert_ok ?al" by (rule move_alert_ok [OF assms(1,2) quote_of_ok [OF qp(1)]])
  have parsed: "parse_message penv \<lparr>msg_body = Some body, msg_receipt = receipt\<rparr> =
    Inr \<lparr>qm_source = ''realstock.risk-engine'', qm_detail_type = ''risk.alert.detected'', qm_detail = ?d\<rparr>"
    unfolding qp(3) by (rule entry_parsed [OF assms(4) assms(5) [unfolded qp(3)]])
  have d: "event_id ?d = event_id a" "correlation_id ?d = correlation_id e" "causation_id ?d = Some (event_id e)"
    "event_type ?d = ''risk.alert.detected''" "payload ?d = alert_dump ?al"
    by (simp_all add: qp(3) alert_event_def)
  have ca: "correlation_id a = correlation_id e" "causation_id a = Some (event_id e)"
    by (simp_all add: qp(3) alert_event_def)
  obtain i entry where s: "sns_publish nenv ?d lg = (Inr i, lg @ [entry])"
    "map_of (sns_message entry) ''event_id'' = Some (VText (uuid_str (event_id ?d)))"
    "sns_subject entry = ''[RealStock] '' @ severity_name (ra_severity ?al) @ '' '' @ market_name (ra_market ?al) @ '':'' @ ra_symbol ?al"
    using sns_publish_reliable [OF assms(6), of ?d ?al lg] alert_validate_dump [OF ok] d by auto
  have n: "notified (uuid_str (event_id a)) [entry]" using s(2) d(1) by (simp add: notified_def)
  have subject: "sns_subject entry = ''[RealStock] ''
        @ (if critical_threshold rule \<le> \<bar>change_percent p q\<bar> then ''CRITICAL'' else ''WARNING'')
        @ '' '' @ market_name (dq_market q) @ '':'' @ dq_symbol q"
    using s(3) by (simp add: move_alert_def Let_def)
  show ?thesis
    by (rule exI [of _ "\<lparr>qm_source = ''realstock.risk-engine'', qm_detail_type = ''risk.alert.detected'', qm_detail = ?d\<rparr>"],
        rule exI [of _ p], rule exI [of _ q], rule exI [of _ i], rule exI [of _ entry])
      (simp add: parsed d ca qp(1,2) s(1) n subject)
qed

section \<open>A concrete run\<close>

definition good_topic :: sns_client where
  "good_topic entry lg = (Inr (Some ''m-1''), lg @ [entry])"

definition dead_topic :: sns_client where
  "dead_topic entry lg = (Inl (ExternalError ''EndpointConnectionError''), lg)"

lemma good_topic_ok: "reliable_topic good_topic" "truthful_topic good_topic"
  by (simp_all add: reliable_topic_def good_topic_def truthful_topic_def)

definition penv0 :: parser_env where
  "penv0 = \<lparr>loads = (\<lambda>_. Some (OuterObject (Some ''realstock.risk-engine'') (Some ''risk.alert.detected'')
     (Some (to_event_dict alert1)))), pe_event_id = 1, pe_correlation_id = 2, pe_clock = 3\<rparr>"

definition nenv0 :: "sns_client \<Rightarrow> notify_env" where
  "nenv0 client = \<lparr>ne_topic_arn = ''arn'', ne_client = client, ne_alert_id = 1, ne_clock = 3\<rparr>"

definition aenv :: "sns_client \<Rightarrow> int \<Rightarrow> alert_env" where
  "aenv client t = \<lparr>ae_parser = penv0,
     ae_config = \<lparr>table_name = ''idem'', processing_lease_seconds = 60, completed_retention_seconds = 86400\<rparr>,
     ae_notify = nenv0 client, ae_claim_clock = t, ae_claim_id = ''c-1'', ae_claim_fault = Works, ae_status_fault = Works,
     ae_release_fault = Works, ae_complete_clock = t, ae_complete_fault = Works,
     ae_receive = Inr [\<lparr>msg_body = Some ''{}'', msg_receipt = Some ''rh''\<rparr>], ae_delete_fault = Works\<rparr>"

lemma aenv_simps [simp]:
  "ae_parser (aenv client t) = penv0" "ae_notify (aenv client t) = nenv0 client" "ae_claim_clock (aenv client t) = t"
  "ae_claim_fault (aenv client t) = Works" "ae_status_fault (aenv client t) = Works" "ae_release_fault (aenv client t) = Works"
  "ae_complete_clock (aenv client t) = t" "ae_complete_fault (aenv client t) = Works" "ae_delete_fault (aenv client t) = Works"
  "ae_receive (aenv client t) = Inr [\<lparr>msg_body = Some ''{}'', msg_receipt = Some ''rh''\<rparr>]"
  "completed_retention_seconds (ae_config (aenv client t)) = 86400" "processing_lease_seconds (ae_config (aenv client t)) = 60"
  "ne_client (nenv0 client) = client"
  by (simp_all add: aenv_def nenv0_def)

lemma carries0: "carries penv0 ''{}'' (outbound_entry (kinesis_env good_bus) alert1)"
  by (simp add: carries_def penv0_def outbound_entry_def kinesis_env_def prepare_outbound_event_def)

lemma trace0: "trimmed (ce_trace (kinesis_env good_bus))"
  by (simp add: trimmed_def kinesis_env_def)

lemma alert1_parsed: "parse_message penv0 \<lparr>msg_body = Some ''{}'', msg_receipt = Some ''rh''\<rparr> =
    Inr \<lparr>qm_source = ''realstock.risk-engine'', qm_detail_type = ''risk.alert.detected'', qm_detail = alert1\<rparr>"
  using entry_parsed [OF trace0 carries0 [unfolded alert1_def]]
  by (simp add: alert1_def [symmetric] prepare_outbound_event_def kinesis_env_def)

lemma alert1_fields: "event_id alert1 = 32" "event_type alert1 = ''risk.alert.detected''"
  by (simp_all add: alert1_def alert_event_def env0_def)

lemma alert1_valid: "\<exists>alert. alert_model_validate i t (payload alert1) = Inr alert"
  using alert_validate_dump [OF move_alert_ok [OF env0_ok quote_validated_ok [OF sample_quote_valid]], of 103 i t "aapl 100 5" 8]
  by (simp add: alert1_def alert_event_def)

definition empty_world :: alert_world where
  "empty_world = \<lparr>al_table = Map.empty, al_sns = [], al_deleted = []\<rparr>"

lemma published1:
  "\<exists>w. process_alert (aenv good_topic t) alert1 empty_world =
      (Inr \<lparr>ar_status = PUBLISHED, ar_event_id = uuid_str 32, ar_message_id = Some ''m-1''\<rparr>, w) \<and> al_deleted w = []"
proof -
  obtain alert where al: "alert_model_validate (ne_alert_id (nenv0 good_topic)) (ne_clock (nenv0 good_topic)) (payload alert1) = Inr alert"
    using alert1_valid by blast
  obtain i entry where p: "sns_publish (nenv0 good_topic) alert1 [] = (Inr i, [entry])"
    using sns_publish_reliable [of "nenv0 good_topic" alert1 alert "[]"] al good_topic_ok(1) alert1_fields(2) by auto
  have i: "i = ''m-1''"
    using p by (auto simp: sns_publish_def good_topic_def elim!: bind_InrE split: if_splits)
  show ?thesis
    using p by (subst process_alert_claimed) (simp_all add: i claim_condition_def empty_world_def alert1_fields notify_alert_def
        on_sns_def complete_alert_def on_table_def idem_complete_run owner_condition_def aenv_def Let_def)
qed

lemma polled1:
  "\<exists>w. poll_once (aenv good_topic t) empty_world =
      (Inr (Some \<lparr>ar_status = PUBLISHED, ar_event_id = uuid_str 32, ar_message_id = Some ''m-1''\<rparr>), w) \<and> al_deleted w = [''rh'']"
proof -
  obtain w where w: "process_alert (aenv good_topic t) alert1 empty_world =
      (Inr \<lparr>ar_status = PUBLISHED, ar_event_id = uuid_str 32, ar_message_id = Some ''m-1''\<rparr>, w)" "al_deleted w = []"
    using published1 by blast
  then show ?thesis
    by (simp add: poll_once_def process_message_def bind_run alert1_parsed delete_message_def)
qed

lemma reachable_run: "alert_reachable s \<Longrightarrow> alert_run s s' \<Longrightarrow> alert_reachable s'"
  by (rotate_tac 1, induction rule: rtranclp_induct) (auto intro: alert_next)

lemma reachable1: "\<exists>s. alert_reachable s \<and> al_deleted (al_world s) = [''rh''] \<and> al_worker s 0 = Waiting"
proof -
  obtain w where w: "poll_once (aenv good_topic 5) (al_world alert_initial) =
      (Inr (Some \<lparr>ar_status = PUBLISHED, ar_event_id = uuid_str 32, ar_message_id = Some ''m-1''\<rparr>), w)" "al_deleted w = [''rh'']"
    using polled1 [of 5] by (auto simp: alert_initial_def empty_world_def)
  have i: "al_worker alert_initial 0 = Waiting" by (simp add: alert_initial_def)
  have t: "truthful_topic (ne_client (ae_notify (aenv good_topic 5)))" by (simp add: good_topic_ok)
  obtain s where "alert_run alert_initial s" "al_world s = w" "al_worker s 0 = Waiting"
    using poll_once_run [OF i t w(1)] by blast
  then show ?thesis using w(2) reachable_run [OF alert_start] by auto
qed

section \<open>Instances\<close>

theorem risk_alert_delivered_witness:
  "\<exists>m i entry. parse_message penv0 \<lparr>msg_body = Some ''{}'', msg_receipt = None\<rparr> = Inr m
    \<and> sns_publish (nenv0 good_topic) (qm_detail m) [] = (Inr i, [entry]) \<and> notified (uuid_str 32) [entry]"
  using risk_alert_delivered [OF env0_ok expected1 trace0 carries0, of "nenv0 good_topic" None "[]"] good_topic_ok(1)
  by (auto simp: alert1_fields)

theorem acked_alert_notified_witness:
  "\<exists>(s :: alert_system) i. al_deleted (al_world s) = [''rh''] \<and> (''rh'', i) \<in> set (al_acked s) \<and> notified (uuid_str i) (al_sns (al_world s))"
proof -
  obtain s where s: "alert_reachable s" "al_deleted (al_world s) = [''rh'']" using reachable1 by blast
  note acked = acked_alert_notified [OF s(1)]
  then obtain i where "(''rh'', i) \<in> set (al_acked s)" using s(2) by auto
  moreover from this have "notified (uuid_str i) (al_sns (al_world s))" using acked by auto
  ultimately show ?thesis using s(2) by blast
qed

theorem poll_once_refines_witness:
  "\<exists>s'. alert_run alert_initial s' \<and> al_world s' = snd (poll_once (aenv good_topic 5) empty_world)"
proof -
  have i: "al_worker alert_initial 0 = Waiting" by (simp add: alert_initial_def)
  have t: "truthful_topic (ne_client (ae_notify (aenv good_topic 5)))" by (simp add: good_topic_ok)
  have "al_world alert_initial = empty_world" by (simp add: alert_initial_def empty_world_def)
  then show ?thesis using poll_once_refines [OF i t prod.collapse [symmetric]] by auto
qed

definition cfg0 :: idem_config where
  "cfg0 = \<lparr>table_name = ''idem'', processing_lease_seconds = 60, completed_retention_seconds = 86400\<rparr>"

theorem alert_claim_exclusion_witness:
  "strip ''e1'' \<notin> claimed_keys (Claim 30 ''b'' 90 {''other''} :: (string, string) lease_op)"
proof -
  let ?t1 = "[''e1'' \<mapsto> claimed_item cfg0 10 ''a'']"
  let ?t2 = "?t1(''other'' \<mapsto> claimed_item cfg0 30 ''b'')"
  have s: "strip ''e1'' = ''e1''" "strip ''other'' = ''other''" by code_simp+
  have c: "idem_claim cfg0 Works 10 ''a'' ''e1'' Map.empty = (Inr (Some \<lparr>ic_event_id = ''e1'', ic_claim_id = ''a''\<rparr>), ?t1)"
    using idem_claim_run(1) [OF s(1), of cfg0 10 "''a''" Map.empty] by (simp add: claim_condition_def)
  have "idem_claim cfg0 Works 30 ''b'' ''other'' ?t1 = (Inr (Some \<lparr>ic_event_id = ''other'', ic_claim_id = ''b''\<rparr>), ?t2)"
    using idem_claim_run(1) [OF s(2), of cfg0 30 "''b''" ?t1] by (simp add: claim_condition_def)
  then have "idem_performs (Claim 30 ''b'' 90 {''other''}) ?t1 ?t2"
    by (simp, intro exI [of _ cfg0] exI [of _ "''other''"]) (simp add: s cfg0_def)
  moreover have "idem_performs (Other 40) ?t2 (expire_items 40 {} ?t2)" by auto
  ultimately have "lease_run idem_performs [Claim 30 ''b'' 90 {''other''}, Other 40] ?t1 (expire_items 40 {} ?t2)"
    by (auto simp del: idem_performs.simps)
  from alert_claim_exclusion [OF c this] show ?thesis by (simp add: cfg0_def)
qed

theorem duplicate_suppressed_witness:
  "\<exists>w. fst (process_alert (aenv good_topic 5) alert1 empty_world) = Inr \<lparr>ar_status = PUBLISHED, ar_event_id = uuid_str 32, ar_message_id = Some ''m-1''\<rparr>
    \<and> process_alert (aenv dead_topic 80000) alert1 w = (Inr \<lparr>ar_status = DUPLICATE, ar_event_id = uuid_str 32, ar_message_id = None\<rparr>, w)"
proof -
  obtain w where w: "process_alert (aenv good_topic 5) alert1 empty_world =
      (Inr \<lparr>ar_status = PUBLISHED, ar_event_id = uuid_str 32, ar_message_id = Some ''m-1''\<rparr>, w)"
    using published1 by blast
  have "process_alert (aenv dead_topic 80000) alert1 w =
      (Inr \<lparr>ar_status = DUPLICATE, ar_event_id = uuid_str (event_id alert1), ar_message_id = None\<rparr>, w)"
    by (rule duplicate_suppressed [OF w _ refl refl]) simp_all
  then show ?thesis using w by (intro exI [of _ w]) (simp add: alert1_fields)
qed

theorem failed_notification_retried_witness:
  "\<exists>w1 result. process_alert (aenv dead_topic 5) alert1 empty_world = (Inl (ExternalError ''EndpointConnectionError''), w1)
    \<and> fst (process_alert (aenv good_topic 6) alert1 w1) = Inr result \<and> ar_status result = PUBLISHED"
proof -
  obtain alert where al: "alert_model_validate (ne_alert_id (nenv0 good_topic)) (ne_clock (nenv0 good_topic)) (payload alert1) = Inr alert"
    "alert_model_validate (ne_alert_id (nenv0 dead_topic)) (ne_clock (nenv0 dead_topic)) (payload alert1) = Inr alert"
    using alert1_valid by (auto simp: nenv0_def)
  have "sns_publish (nenv0 dead_topic) alert1 [] = (Inl (ExternalError ''EndpointConnectionError''), [])"
    using al(2) by (simp add: sns_publish_def bind_run format_subject_def format_message_def parse_alert_def alert1_fields dead_topic_def)
  then have "\<exists>w1 result w2 entry. process_alert (aenv dead_topic 5) alert1 empty_world = (Inl (ExternalError ''EndpointConnectionError''), w1)
    \<and> al_sns w1 = al_sns empty_world \<and> process_alert (aenv good_topic 6) alert1 w1 = (Inr result, w2) \<and> ar_status result = PUBLISHED
    \<and> al_sns w2 = al_sns empty_world @ [entry] \<and> notified (uuid_str (event_id alert1)) [entry]"
    using al(1) good_topic_ok(1) alert1_fields(2)
    by (intro failed_notification_retried) (simp_all add: claim_condition_def empty_world_def)
  then show ?thesis by fastforce
qed

end
