(* ===== verification/Paper_Trading.thy ===== *)
theory Paper_Trading
  imports Paper_Broker
begin

text \<open>
  \<open>services/trading\<close>, the layer that fetches a quote and hands it to the broker:
  \<open>QuoteService\<close> and \<open>StaticQuoteProvider\<close> (\<open>quote_service.py\<close>), the provider that reads the
  quote cache (\<open>cached_quote_provider.py\<close>), and \<open>PaperTradingService\<close>
  (\<open>paper_trading_service.py\<close>). A quote provider is a parameter: a function from the symbol to
  the quote or the exception it raises.
\<close>

section \<open>Quotes\<close>

definition normalize_symbol :: "string \<Rightarrow> string result" where
  "normalize_symbol symbol =
     (let normalized_symbol = normal_symbol symbol
      in if normalized_symbol = [] then Inl (ValueError ''Symbol must not be empty.'')
         else Inr normalized_symbol)"

type_synonym quote_provider = "string \<Rightarrow> market_quote result"

definition quote_service_get_quote :: "quote_provider \<Rightarrow> quote_provider" where
  "quote_service_get_quote provider symbol =
     (case normalize_symbol symbol of
        Inl e \<Rightarrow> Inl e
      | Inr normalized_symbol \<Rightarrow>
          (case provider normalized_symbol of
             Inl e \<Rightarrow> Inl e
           | Inr quote \<Rightarrow>
               if q_symbol quote \<noteq> normalized_symbol
               then Inl (ValueError ''Market quote provider returned an unexpected symbol'')
               else Inr quote))"

record raw_quote =
  raw_symbol :: string
  raw_bid :: decimal
  raw_ask :: decimal

text \<open>The dictionary keeps, of keys that normalise alike, the last value.\<close>

definition static_provider_init :: "(string \<times> raw_quote) list \<Rightarrow> string \<rightharpoonup> raw_quote" where
  "static_provider_init quotes = foldl (\<lambda>m (symbol, quote). m(normal_symbol symbol \<mapsto> quote)) Map.empty quotes"

definition static_provider_get_quote :: "(string \<rightharpoonup> raw_quote) \<Rightarrow> quote_provider" where
  "static_provider_get_quote quotes symbol =
     (case quotes (normal_symbol symbol) of
        None \<Rightarrow> Inl (ValueError ''No market quote available'')
      | Some raw \<Rightarrow> market_quote_new (raw_symbol raw) (raw_bid raw) (raw_ask raw))"

text \<open>
  The interface the trading services rely on: a source of quotes answers for the symbol it was
  asked for, in normal form.
\<close>

locale quote_source =
  fixes get_quote :: quote_provider
  assumes get_quote_symbol: "get_quote s = Inr q \<Longrightarrow> q_symbol q = normal_symbol s"
    and get_quote_nonempty: "get_quote s = Inr q \<Longrightarrow> normal_symbol s \<noteq> []"
    and get_quote_normal: "get_quote (normal_symbol s) = get_quote s"
begin

lemma get_quote_of_normal: "get_quote s = Inr q \<Longrightarrow> normal_symbol s = s \<Longrightarrow> q_symbol q = s"
  using get_quote_symbol by simp

end

interpretation quote_service: quote_source "quote_service_get_quote provider"
  by unfold_locales
    (auto simp: quote_service_get_quote_def normalize_symbol_def Let_def split: if_splits sum.splits)

section \<open>PaperTradingService\<close>

record book =
  bk_account :: paper_account
  bk_position :: position

record trade_execution_result =
  tr_order :: paper_order
  tr_execution :: execution

text \<open>Run the broker on the caller's account and position and an order of its own.\<close>

definition with_order :: "paper_order \<Rightarrow> (broker_state, 'a) prog \<Rightarrow> (book, 'a \<times> paper_order) prog" where
  "with_order order m = (\<lambda>s.
     case m \<lparr>b_account = bk_account s, b_order = order, b_position = bk_position s\<rparr> of
       (r, t) \<Rightarrow> (case r of Inl e \<Rightarrow> Inl e | Inr a \<Rightarrow> Inr (a, b_order t),
                  s\<lparr>bk_account := b_account t, bk_position := b_position t\<rparr>))"

definition market_trade ::
  "order_side \<Rightarrow> quote_provider \<Rightarrow> uuid \<Rightarrow> uuid \<Rightarrow> int \<Rightarrow> (book, trade_execution_result) prog" where
  "market_trade side get_quote fresh_order fresh_execution quantity = bind get_state (\<lambda>s.
     bind (of_result (paper_order_new (account_id (bk_account s)) (p_symbol (bk_position s)) side
             quantity MARKET None NEW 0 None fresh_order)) (\<lambda>order.
     bind (of_result (get_quote (p_symbol (bk_position s)))) (\<lambda>quote.
     bind (with_order order (execute_market_order quote fresh_execution)) (\<lambda>(execution, order').
     ret \<lparr>tr_order = order', tr_execution = execution\<rparr>))))"

definition paper_market_buy ::
  "quote_provider \<Rightarrow> uuid \<Rightarrow> uuid \<Rightarrow> int \<Rightarrow> (book, trade_execution_result) prog" where
  "paper_market_buy = market_trade BUY"

definition paper_market_sell ::
  "quote_provider \<Rightarrow> uuid \<Rightarrow> uuid \<Rightarrow> int \<Rightarrow> (book, trade_execution_result) prog" where
  "paper_market_sell = market_trade SELL"

definition submit_limit ::
  "order_side \<Rightarrow> quote_provider \<Rightarrow> uuid \<Rightarrow> int \<Rightarrow> decimal \<Rightarrow> (book, paper_order) prog" where
  "submit_limit side get_quote fresh_order quantity limit = bind get_state (\<lambda>s.
     bind (of_result (paper_order_new (account_id (bk_account s)) (p_symbol (bk_position s)) side
             quantity LIMIT None NEW 0 (Some limit) fresh_order)) (\<lambda>order.
     bind (of_result (get_quote (p_symbol (bk_position s)))) (\<lambda>quote.
     bind (with_order order (submit_limit_order quote)) (\<lambda>(_, order').
     ret order'))))"

definition paper_submit_limit_buy ::
  "quote_provider \<Rightarrow> uuid \<Rightarrow> int \<Rightarrow> decimal \<Rightarrow> (book, paper_order) prog" where
  "paper_submit_limit_buy = submit_limit BUY"

definition paper_submit_limit_sell ::
  "quote_provider \<Rightarrow> uuid \<Rightarrow> int \<Rightarrow> decimal \<Rightarrow> (book, paper_order) prog" where
  "paper_submit_limit_sell = submit_limit SELL"

definition paper_process_limit_order ::
  "quote_provider \<Rightarrow> uuid \<Rightarrow> (broker_state, execution option) prog" where
  "paper_process_limit_order get_quote fresh_execution = bind get_state (\<lambda>s.
     bind (of_result (get_quote (o_symbol (b_order s)))) (\<lambda>quote.
     process_quote quote fresh_execution))"

definition paper_cancel_order :: "paper_order \<Rightarrow> paper_order result" where
  "paper_cancel_order order = cancel_order order"

section \<open>What the service promises\<close>

text \<open>The order a market trade creates.\<close>

definition market_order :: "paper_account \<Rightarrow> position \<Rightarrow> order_side \<Rightarrow> int \<Rightarrow> uuid \<Rightarrow> paper_order" where
  "market_order a p side n fresh = \<lparr>o_account_id = account_id a, o_symbol = p_symbol p, o_side = side,
     o_quantity = n, o_type = MARKET, order_id = fresh, o_status = NEW, filled_quantity = 0,
     limit_price = None\<rparr>"

lemma paper_order_new_market:
  assumes "valid_position p"
  shows "paper_order_new (account_id a) (p_symbol p) side n MARKET None NEW 0 None fresh =
    (if n \<le> 0 then Inl (ValueError ''Quantity must be greater than zero.'')
     else Inr (market_order a p side n fresh))"
  using assms by (auto simp: paper_order_new_def market_order_def valid_position_def Let_def)

lemma with_order_Inr:
  assumes "with_order order m s = (Inr (a, order'), s')"
  obtains t where "m \<lparr>b_account = bk_account s, b_order = order, b_position = bk_position s\<rparr> = (Inr a, t)"
    and "order' = b_order t" and "s' = s\<lparr>bk_account := b_account t, bk_position := b_position t\<rparr>"
  using assms by (auto simp: with_order_def split: prod.splits sum.splits)

context quote_source
begin

text \<open>A market trade that raises leaves the account and the position as they were.\<close>

lemma market_trade_error:
  assumes "market_trade side get_quote fo fe n s = (Inl e, s')"
  shows "s' = s"
proof -
  have b: "t = \<lparr>b_account = bk_account s, b_order = b_order t, b_position = bk_position s\<rparr>"
    if "execute_market_order q fe \<lparr>b_account = bk_account s, b_order = r, b_position = bk_position s\<rparr> = (Inl e, t)"
    for q r t
    using that by (auto simp: execute_market_order_run dest!: fill_order_error
        split: prod.splits sum.splits if_splits)
  show ?thesis
    using assms
    by (auto simp: market_trade_def bind_run with_order_def split: sum.splits prod.splits)
      (metis b broker_state.select_convs book.surjective book.update_convs old.unit.exhaust)
qed

text \<open>One that returns created an order with the terms asked for and filled it at the quote.\<close>

lemma market_trade_fill:
  assumes "market_trade side get_quote fo fe n s = (Inr tr, s')" and p: "valid_position (bk_position s)"
  obtains q where "get_quote (p_symbol (bk_position s)) = Inr q" and "0 < n"
    and "fill_effect q fe
      \<lparr>b_account = bk_account s, b_order = market_order (bk_account s) (bk_position s) side n fo,
       b_position = bk_position s\<rparr>
      (tr_execution tr)
      \<lparr>b_account = bk_account s', b_order = tr_order tr, b_position = bk_position s'\<rparr>"
proof -
  let ?o = "market_order (bk_account s) (bk_position s) side n fo"
  let ?s = "\<lparr>b_account = bk_account s, b_order = ?o, b_position = bk_position s\<rparr>"
  from assms obtain q where n: "0 < n" and q: "get_quote (p_symbol (bk_position s)) = Inr q"
    and w: "with_order ?o (execute_market_order q fe) s = (Inr (tr_execution tr, tr_order tr), s')"
    by (auto simp: market_trade_def paper_order_new_market elim!: bind_InrE split: if_splits)
  from w obtain t where t: "execute_market_order q fe ?s = (Inr (tr_execution tr), t)"
    and "tr_order tr = b_order t" and s': "s' = s\<lparr>bk_account := b_account t, bk_position := b_position t\<rparr>"
    by (rule with_order_Inr)
  then have t': "t = \<lparr>b_account = bk_account s', b_order = tr_order tr, b_position = bk_position s'\<rparr>"
    by simp
  have "fill_effect q fe ?s (tr_execution tr) t"
    using execute_market_order_Inr [OF t]
    by (simp only: fill_effect_pending [where s = ?s and st = PENDING])
  with q n t' show ?thesis using that by simp
qed

end

end
