(* ===== verification/Quote_Cache.thy ===== *)
theory Quote_Cache
  imports Quote_State Paper_Trading
begin

text \<open>
  The cache of the latest quotes (\<open>libs/cache/market_quote_cache.py\<close>) and the quote providers of the
  trading services that read it (\<open>cached_quote_provider.py\<close>, \<open>alpaca_quote_provider.py\<close>). Redis is a
  map from keys to values with an expiry time, which is its documented behaviour for \<open>SET .. EX\<close>,
  \<open>GET\<close> and \<open>DEL\<close>; the JSON text stored stands for its dictionary. The clock is an argument.
\<close>

section \<open>Redis\<close>

type_synonym 'v redis = "string \<Rightarrow> ('v \<times> int) option"

definition redis_get :: "int \<Rightarrow> string \<Rightarrow> 'v redis \<Rightarrow> 'v option" where
  "redis_get now k r = (case r k of None \<Rightarrow> None | Some (v, expires) \<Rightarrow> if now < expires then Some v else None)"

definition redis_set :: "int \<Rightarrow> int \<Rightarrow> string \<Rightarrow> 'v \<Rightarrow> 'v redis \<Rightarrow> 'v redis" where
  "redis_set now ttl k v r = r(k \<mapsto> (v, now + ttl))"

definition redis_delete :: "int \<Rightarrow> string \<Rightarrow> 'v redis \<Rightarrow> int \<times> 'v redis" where
  "redis_delete now k r = (if redis_get now k r = None then 0 else 1, r(k := None))"

lemma redis_get_set: "redis_get now' k' (redis_set now ttl k v r) =
    (if k' = k then if now' < now + ttl then Some v else None else redis_get now' k' r)"
  by (simp add: redis_get_def redis_set_def)

section \<open>The cache\<close>

record quote_cache =
  qc_ttl_seconds :: int

definition quote_cache_new :: "int \<Rightarrow> quote_cache result" where
  "quote_cache_new ttl =
     (if ttl \<le> 0 then Inl (ValueError ''ttl_seconds must be greater than zero'') else Inr \<lparr>qc_ttl_seconds = ttl\<rparr>)"

definition cache_build_key :: "market \<Rightarrow> string \<Rightarrow> string result" where
  "cache_build_key m symbol =
     (let normalized_symbol = normal_symbol symbol in
      if normalized_symbol = [] then Inl (ValueError ''symbol must not be empty'')
      else if 32 < length normalized_symbol then Inl (ValueError ''symbol must not exceed 32 characters'')
      else Inr (''realstock:quote:'' @ market_name m @ '':'' @ normalized_symbol))"

definition cache_set_quote :: "quote_cache \<Rightarrow> int \<Rightarrow> payload_dict redis \<Rightarrow> domain_quote \<Rightarrow> payload_dict redis result" where
  "cache_set_quote c now r q =
     map_sum id (\<lambda>key. redis_set now (qc_ttl_seconds c) key (quote_dump q) r) (cache_build_key (dq_market q) (dq_symbol q))"

text \<open>
  Reading a quote back: the seven fields are looked up, the market converted, and the quote
  constructed. A text that is no number raises in the conversion, before the model sees it; a
  payload of scalars does not hold such texts.
\<close>

definition cached_payload_quote :: "payload_dict \<Rightarrow> domain_quote result" where
  "cached_payload_quote fs =
     (if \<exists>k \<in> set quote_keys. map_of fs k = None then Inl KeyError
      else if market_value (the (map_of fs ''market'')) = None then Inl (ValueError ''not a valid Market'')
      else quote_model_validate (map (\<lambda>k. (k, the (map_of fs k))) quote_keys))"

definition cache_get_quote :: "int \<Rightarrow> payload_dict redis \<Rightarrow> market \<Rightarrow> string \<Rightarrow> domain_quote option result" where
  "cache_get_quote now r m symbol =
     (case cache_build_key m symbol of
        Inl e \<Rightarrow> Inl e
      | Inr key \<Rightarrow> (case redis_get now key r of
          None \<Rightarrow> Inr None
        | Some fs \<Rightarrow> map_sum id Some (cached_payload_quote fs)))"

definition cache_delete_quote :: "int \<Rightarrow> payload_dict redis \<Rightarrow> market \<Rightarrow> string \<Rightarrow> (bool \<times> payload_dict redis) result" where
  "cache_delete_quote now r m symbol =
     map_sum id (\<lambda>key. case redis_delete now key r of (deleted, r') \<Rightarrow> (0 < deleted, r')) (cache_build_key m symbol)"

section \<open>The cache keeps the contract of a quote store\<close>

lemma cache_key_ok: "symbol_ok s \<Longrightarrow> cache_build_key m s = Inr (''realstock:quote:'' @ market_name m @ '':'' @ s)"
  by (simp add: cache_build_key_def symbol_ok_def)

lemma cached_payload_dump: "quote_ok q \<Longrightarrow> cached_payload_quote (quote_dump q) = Inr q"
proof -
  assume q: "quote_ok q"
  have "map (\<lambda>k. (k, the (map_of (quote_dump q) k))) quote_keys = quote_dump q"
    by (simp add: quote_keys_def quote_dump_def)
  moreover have "\<not> (\<exists>k \<in> set quote_keys. map_of (quote_dump q) k = None)"
    by (simp add: quote_keys_def quote_dump_def)
  moreover have "map_of (quote_dump q) ''market'' = Some (VText (market_name (dq_market q)))"
    by (simp add: quote_dump_def)
  ultimately show ?thesis using quote_validate_dump [OF q] by (simp add: cached_payload_quote_def)
qed

text \<open>What a read finds after a write, within and after the time to live.\<close>

lemma cache_get_after_set:
  assumes "quote_ok q" "cache_set_quote c now r q = Inr r'" "symbol_ok s"
  shows "cache_get_quote now' r' m s =
    (if of_instrument m s q then Inr (if now' < now + qc_ttl_seconds c then Some q else None) else cache_get_quote now' r m s)"
proof -
  have "symbol_ok (dq_symbol q)" using assms(1) by (simp add: quote_ok_def)
  then show ?thesis
    using assms cached_payload_dump [OF assms(1)]
    by (auto simp: cache_set_quote_def cache_get_quote_def cache_key_ok redis_get_set of_instrument_def market_name_append)
qed

definition default_cache :: quote_cache where
  "default_cache = \<lparr>qc_ttl_seconds = 30\<rparr>"

interpretation cache: quote_state_store "cache_get_quote now" "cache_set_quote default_cache now" Map.empty for now :: int
proof (unfold_locales, goal_cases)
  case (1 s m)
  then show ?case by (simp add: cache_get_quote_def cache_key_ok redis_get_def)
next
  case (2 q st)
  then show ?case by (simp add: cache_set_quote_def cache_key_ok quote_ok_def)
next
  case (3 q st st' s m)
  then show ?case by (simp add: cache_get_after_set default_cache_def)
qed

section \<open>Quote providers of the trading services\<close>

definition provider_symbol :: "string \<Rightarrow> string result" where
  "provider_symbol symbol =
     (let normalized_symbol = normal_symbol symbol in
      if normalized_symbol = [] then Inl (ValueError ''Symbol must not be empty.'') else Inr normalized_symbol)"

definition cached_provider_get_quote :: "market \<Rightarrow> int \<Rightarrow> payload_dict redis \<Rightarrow> quote_provider" where
  "cached_provider_get_quote m now r symbol =
     (case provider_symbol symbol of
        Inl e \<Rightarrow> Inl e
      | Inr normalized_symbol \<Rightarrow> (case cache_get_quote now r m normalized_symbol of
          Inl e \<Rightarrow> Inl e
        | Inr None \<Rightarrow> Inl (ValueError ''No current bid/ask market quote available'')
        | Inr (Some q) \<Rightarrow>
            if dq_symbol q \<noteq> normalized_symbol
            then Inl (ValueError ''Cached market quote returned an unexpected symbol'')
            else if dq_market q \<noteq> m
            then Inl (ValueError ''Cached market quote returned an unexpected market'')
            else market_quote_new (dq_symbol q) (dq_bid_price q) (dq_ask_price q)))"

interpretation cached_provider: quote_source "cached_provider_get_quote m now r"
  for m :: market and now :: int and r :: "payload_dict redis"
  by unfold_locales
    (auto simp: cached_provider_get_quote_def provider_symbol_def market_quote_new_def Let_def
      split: if_splits sum.splits option.splits)

text \<open>
  The Alpaca provider: the cache first, else a request whose answer is a parameter; its errors and
  unusable prices become one error. The answer is what the five fields of the JSON hold.
\<close>

record alpaca_answer =
  al_bid :: decimal
  al_ask :: decimal
  al_bid_size :: int
  al_ask_size :: int
  al_time :: datetime

record alpaca_provider =
  ap_key_id :: string
  ap_secret_key :: string
  ap_feed :: string
  ap_market :: market

definition alpaca_new :: "string \<Rightarrow> string \<Rightarrow> string \<Rightarrow> rat \<Rightarrow> market \<Rightarrow> alpaca_provider result" where
  "alpaca_new key secret feed timeout m =
     (if strip key = [] then Inl (ValueError ''Alpaca API key id must not be empty.'')
      else if strip secret = [] then Inl (ValueError ''Alpaca API secret key must not be empty.'')
      else if lower (strip feed) \<notin> set [''iex'', ''sip'', ''delayed_sip'', ''boats'', ''overnight'', ''otc'']
      then Inl (ValueError ''Unsupported Alpaca stock data feed.'')
      else if timeout \<le> 0 then Inl (ValueError ''timeout_seconds must be greater than zero'')
      else Inr \<lparr>ap_key_id = strip key, ap_secret_key = strip secret, ap_feed = lower (strip feed), ap_market = m\<rparr>)"

definition alpaca_symbol :: "string \<Rightarrow> string result" where
  "alpaca_symbol symbol =
     (let normalized = normal_symbol symbol in
      if normalized = [] then Inl (ValueError ''Symbol must not be empty.'')
      else if 32 < length normalized then Inl (ValueError ''Symbol must not exceed 32 characters.'')
      else Inr normalized)"

definition alpaca_unavailable :: error where
  "alpaca_unavailable = ValueError ''No current bid/ask market quote available''"

definition fetch_and_cache ::
  "alpaca_provider \<Rightarrow> quote_cache \<Rightarrow> int \<Rightarrow> (string \<Rightarrow> alpaca_answer option) \<Rightarrow> string
   \<Rightarrow> (payload_dict redis, domain_quote) prog" where
  "fetch_and_cache p c now http symbol =
     (case http symbol of
        None \<Rightarrow> raise alpaca_unavailable
      | Some a \<Rightarrow>
          if al_bid a \<le> 0 \<or> al_ask a \<le> 0 \<or> al_ask a < al_bid a then raise alpaca_unavailable
          else bind (of_result (quote_model_validate [(''symbol'', VText symbol),
                 (''market'', VText (market_name (ap_market p))), (''bid_price'', VDecimal (al_bid a)),
                 (''ask_price'', VDecimal (al_ask a)), (''bid_size'', VInt (max (al_bid_size a) 0)),
                 (''ask_size'', VInt (max (al_ask_size a) 0)), (''timestamp'', VTime (al_time a))])) (\<lambda>q.
               bind (store_quote (cache_set_quote c now) q) (\<lambda>_. ret q)))"

definition alpaca_get_quote ::
  "alpaca_provider \<Rightarrow> quote_cache \<Rightarrow> int \<Rightarrow> (string \<Rightarrow> alpaca_answer option) \<Rightarrow> string
   \<Rightarrow> (payload_dict redis, market_quote) prog" where
  "alpaca_get_quote p c now http symbol =
     bind (of_result (alpaca_symbol symbol)) (\<lambda>normalized_symbol.
     bind get_state (\<lambda>r.
     bind (of_result (cache_get_quote now r (ap_market p) normalized_symbol)) (\<lambda>cached.
     bind (case cached of Some q \<Rightarrow> ret q | None \<Rightarrow> fetch_and_cache p c now http normalized_symbol) (\<lambda>q.
     of_result (market_quote_new (dq_symbol q) (dq_bid_price q) (dq_ask_price q))))))"

definition alpaca_refresh_quote ::
  "alpaca_provider \<Rightarrow> quote_cache \<Rightarrow> int \<Rightarrow> (string \<Rightarrow> alpaca_answer option) \<Rightarrow> string
   \<Rightarrow> (payload_dict redis, market_quote) prog" where
  "alpaca_refresh_quote p c now http symbol =
     bind (of_result (alpaca_symbol symbol)) (\<lambda>normalized_symbol.
     bind (fetch_and_cache p c now http normalized_symbol) (\<lambda>q.
     of_result (market_quote_new (dq_symbol q) (dq_bid_price q) (dq_ask_price q))))"

end
