(* ===== verification/Market_Ingestor.thy ===== *)
theory Market_Ingestor
  imports Quote_Cache
begin

text \<open>
  The market ingestor (\<open>services/market_ingestor\<close>): the mock provider that generates market data, the
  Kinesis producer, the ingestion service that also fills the quote cache, and the runner of the
  command-line generator. The random draws, the clock, the Kinesis client and the requests to stop
  are parameters.
\<close>

section \<open>The mock provider\<close>

record mock_instrument =
  mi_symbol :: string
  mi_market :: market
  mi_base_price :: decimal

definition mock_instrument_new :: "string \<Rightarrow> market \<Rightarrow> decimal \<Rightarrow> mock_instrument result" where
  "mock_instrument_new symbol m base =
     (let s = normal_symbol symbol in
      if s = [] then Inl (ValueError ''symbol must not be empty'')
      else if base \<le> 0 then Inl (ValueError ''base_price must be greater than zero'')
      else Inr \<lparr>mi_symbol = s, mi_market = m, mi_base_price = base\<rparr>)"

text \<open>
  What one generation draws: an index for \<open>choice\<close>, basis points of -50 to 50, a half spread of 1 to
  10, sizes or a quantity, and a side.
\<close>

record draws =
  dr_index :: nat
  dr_basis_points :: int
  dr_half_spread :: int
  dr_size1 :: int
  dr_size2 :: int
  dr_buy :: bool
  dr_now :: int

definition possible_draws :: "draws \<Rightarrow> bool" where
  "possible_draws d \<longleftrightarrow> - 50 \<le> dr_basis_points d \<and> dr_basis_points d \<le> 50
     \<and> 1 \<le> dr_half_spread d \<and> dr_half_spread d \<le> 10 \<and> 1 \<le> dr_size1 d \<and> 1 \<le> dr_size2 d"

definition mock_provider_new :: "mock_instrument list \<Rightarrow> mock_instrument list result" where
  "mock_provider_new selected =
     (if selected = [] then Inl (ValueError ''at least one instrument is required'') else Inr selected)"

definition select_instrument :: "mock_instrument list \<Rightarrow> draws \<Rightarrow> mock_instrument" where
  "select_instrument instruments d = instruments ! (dr_index d mod length instruments)"

definition price_delta :: "decimal \<Rightarrow> draws \<Rightarrow> decimal" where
  "price_delta base d = dmul base (ddiv (of_int (dr_basis_points d)) 10000)"

text \<open>\<open>quantize(Decimal("0.01"), ROUND_HALF_UP)\<close>, which fails if the result needs more than 28 digits.\<close>

definition normalize_price :: "decimal \<Rightarrow> decimal result" where
  "normalize_price value =
     (let cents = round_half_up (value * 100) in
      if 10 ^ 28 \<le> \<bar>cents\<bar> then Inl (ExternalError ''InvalidOperation'') else Inr (of_int cents / 100))"

definition lower_market :: "market \<Rightarrow> string" where
  "lower_market m = lower (market_name m)"

text \<open>The number with ten digits in a trade identifier.\<close>

fun decimal_digits :: "nat \<Rightarrow> nat \<Rightarrow> string" where
  "decimal_digits 0 n = []"
| "decimal_digits (Suc k) n = decimal_digits k (n div 10) @ [''0123456789'' ! (n mod 10)]"

definition padded10 :: "nat \<Rightarrow> string" where
  "padded10 n = decimal_digits (max 10 (ndigits n)) n"

text \<open>The counter of the trades is the state; a trade takes its next value once the price is computed.\<close>

definition generate_trade :: "mock_instrument list \<Rightarrow> draws \<Rightarrow> (nat, domain_trade) prog" where
  "generate_trade instruments d trades =
     (let selected = select_instrument instruments d in
      case normalize_price (dadd (mi_base_price selected) (price_delta (mi_base_price selected) d)) of
        Inl e \<Rightarrow> (Inl e, trades)
      | Inr p \<Rightarrow>
          let price = (if p \<le> 0 then 1 / 100 else p);
              trade_id = ''mock-'' @ lower_market (mi_market selected) @ ''-'' @ lower (mi_symbol selected) @ ''-''
                @ padded10 (trades + 1)
          in (trade_model_validate [(''trade_id'', VText trade_id), (''symbol'', VText (mi_symbol selected)),
               (''market'', VText (market_name (mi_market selected))), (''price'', VDecimal price),
               (''quantity'', VInt (dr_size1 d)), (''side'', VText (side_name (if dr_buy d then Buy else Sell))),
               (''timestamp'', VTime (Aware (dr_now d)))], trades + 1))"

definition generate_quote :: "mock_instrument list \<Rightarrow> draws \<Rightarrow> domain_quote result" where
  "generate_quote instruments d =
     (let selected = select_instrument instruments d in
      case normalize_price (dadd (mi_base_price selected) (price_delta (mi_base_price selected) d)) of
        Inl e \<Rightarrow> Inl e
      | Inr p \<Rightarrow>
          let mid = (if p \<le> 0 then 1 / 100 else p);
              half_spread = ddiv (of_int (dr_half_spread d)) 200
          in case normalize_price (dsub mid half_spread) of
            Inl e \<Rightarrow> Inl e
          | Inr b \<Rightarrow> (case normalize_price (dadd mid half_spread) of
              Inl e \<Rightarrow> Inl e
            | Inr a \<Rightarrow>
                let bid_price = (if b \<le> 0 then 1 / 100 else b);
                    ask_price = (if a < bid_price then bid_price else a)
                in quote_model_validate [(''symbol'', VText (mi_symbol selected)),
                     (''market'', VText (market_name (mi_market selected))), (''bid_price'', VDecimal bid_price),
                     (''ask_price'', VDecimal ask_price), (''bid_size'', VInt (dr_size1 d)),
                     (''ask_size'', VInt (dr_size2 d)), (''timestamp'', VTime (Aware (dr_now d)))]))"

section \<open>The producer\<close>

record kinesis_record =
  kr_stream :: string
  kr_data :: "(string \<times> payload_dict json) list"
  kr_partition_key :: string

type_synonym kinesis_client = "kinesis_record \<Rightarrow> (kinesis_record list, string \<times> string) prog"

text \<open>The length of the UTF-8 encoding of a text whose characters are below 256.\<close>

definition utf8_length :: "string \<Rightarrow> nat" where
  "utf8_length s = sum_list (map (\<lambda>c. if (of_char c :: nat) < 128 then 1 else 2) s)"

definition producer_publish ::
  "string \<Rightarrow> kinesis_client \<Rightarrow> payload_dict envelope \<Rightarrow> string \<Rightarrow> (kinesis_record list, string \<times> string) prog" where
  "producer_publish stream client event partition_key =
     (let normalized_partition_key = strip partition_key in
      if normalized_partition_key = [] then raise (ValueError ''partition_key must not be empty'')
      else if 256 < utf8_length normalized_partition_key
      then raise (ValueError ''partition_key must not exceed 256 bytes'')
      else client \<lparr>kr_stream = stream, kr_data = to_event_dict event, kr_partition_key = normalized_partition_key\<rparr>)"

section \<open>The ingestion service\<close>

record ingest_world =
  iw_records :: "kinesis_record list"
  iw_cache :: "payload_dict redis"

record ingest_env =
  ie_stream :: string
  ie_client :: kinesis_client
  ie_cache :: quote_cache
  ie_cache_fault :: fault
  ie_clock :: int
  ie_event_id :: uuid
  ie_correlation_id :: uuid

definition on_stream :: "(kinesis_record list, 'a) prog \<Rightarrow> (ingest_world, 'a) prog" where
  "on_stream m = (\<lambda>w. case m (iw_records w) of (r, ks) \<Rightarrow> (r, w\<lparr>iw_records := ks\<rparr>))"

definition on_cache :: "(payload_dict redis, 'a) prog \<Rightarrow> (ingest_world, 'a) prog" where
  "on_cache m = (\<lambda>w. case m (iw_cache w) of (r, c) \<Rightarrow> (r, w\<lparr>iw_cache := c\<rparr>))"

definition publish_market_event ::
  "ingest_env \<Rightarrow> payload_dict envelope \<Rightarrow> market \<Rightarrow> string \<Rightarrow> (ingest_world, string \<times> string) prog" where
  "publish_market_event env event m symbol =
     on_stream (producer_publish (ie_stream env) (ie_client env) event (market_name m @ '':'' @ symbol))"

definition ingest_trade :: "ingest_env \<Rightarrow> domain_trade \<Rightarrow> (ingest_world, string \<times> string) prog" where
  "ingest_trade env trade =
     bind (of_result (create_market_trade_event (ie_event_id env) (ie_correlation_id env) trade ''market-ingestor'' None None))
       (\<lambda>event. publish_market_event env event (dt_market trade) (dt_symbol trade))"

text \<open>Any exception of the cache is logged and swallowed.\<close>

definition update_quote_cache :: "ingest_env \<Rightarrow> domain_quote \<Rightarrow> (ingest_world, unit) prog" where
  "update_quote_cache env quote =
     try_except (on_cache (with_fault (ie_cache_fault env) (store_quote (cache_set_quote (ie_cache env) (ie_clock env)) quote)))
       (\<lambda>_. ret ())"

definition ingest_quote :: "ingest_env \<Rightarrow> domain_quote \<Rightarrow> (ingest_world, string \<times> string) prog" where
  "ingest_quote env quote =
     bind (of_result (create_market_quote_event (ie_event_id env) (ie_correlation_id env) quote ''market-ingestor'' None None))
       (\<lambda>event. bind (publish_market_event env event (dq_market quote) (dq_symbol quote)) (\<lambda>result.
         bind (update_quote_cache env quote) (\<lambda>_. ret result)))"

section \<open>The runner\<close>

datatype runner_mode = TRADE | QUOTE | BOTH

record ingest_config =
  ic_stream_name :: string
  ic_mode :: runner_mode
  ic_interval_seconds :: rat
  ic_max_events :: "int option"

definition ingest_config_new :: "ingest_config \<Rightarrow> ingest_config result" where
  "ingest_config_new c =
     (if strip (ic_stream_name c) = [] then Inl (ValueError ''stream_name must not be empty'')
      else if ic_interval_seconds c < 0 then Inl (ValueError ''interval_seconds must be >= 0'')
      else if (case ic_max_events c of None \<Rightarrow> False | Some n \<Rightarrow> n \<le> 0)
      then Inl (ValueError ''max_events must be greater than zero'')
      else Inr c)"

text \<open>The events of the runner have a payload of their own.\<close>

definition runner_trade_payload :: "domain_trade \<Rightarrow> payload_dict" where
  "runner_trade_payload t =
     [(''trade_id'', VText (dt_trade_id t)), (''symbol'', VText (dt_symbol t)),
      (''market'', VText (market_name (dt_market t))), (''price'', VDecimal (dt_price t)),
      (''quantity'', VInt (dt_quantity t)), (''side'', VText (side_name (dt_side t)))]"

definition runner_quote_payload :: "domain_quote \<Rightarrow> payload_dict" where
  "runner_quote_payload q =
     [(''symbol'', VText (dq_symbol q)), (''market'', VText (market_name (dq_market q))),
      (''bid_price'', VDecimal (dq_bid_price q)), (''ask_price'', VDecimal (dq_ask_price q)),
      (''bid_size'', VInt (dq_bid_size q)), (''ask_size'', VInt (dq_ask_size q)),
      (''mid_price'', VDecimal (mid_price q)), (''spread'', VDecimal (spread q))]"

definition create_trade_event :: "uuid \<Rightarrow> uuid \<Rightarrow> domain_trade \<Rightarrow> payload_dict envelope result" where
  "create_trade_event fresh_event fresh_correlation t =
     envelope_new fresh_event ''market.trade.received'' 1 (Aware (dt_timestamp t)) ''market-ingestor''
       fresh_correlation None None (runner_trade_payload t)"

definition create_quote_event :: "uuid \<Rightarrow> uuid \<Rightarrow> domain_quote \<Rightarrow> payload_dict envelope result" where
  "create_quote_event fresh_event fresh_correlation q =
     envelope_new fresh_event ''market.quote.received'' 1 (Aware (dq_timestamp q)) ''market-ingestor''
       fresh_correlation None None (runner_quote_payload q)"

text \<open>
  The state of a runner; \<open>rn_sequence\<close> counts the trades generated and \<open>rn_steps\<close> the draws and the
  readings of the stop event made so far, which the environment gives by number.
\<close>

record runner_state =
  rn_published_count :: int
  rn_publish_trade_next :: bool
  rn_sequence :: nat
  rn_steps :: nat
  rn_records :: "kinesis_record list"

record runner_env =
  re_config :: ingest_config
  re_instruments :: "mock_instrument list"
  re_draws :: "nat \<Rightarrow> draws"
  re_event_id :: "nat \<Rightarrow> uuid"
  re_correlation_id :: "nat \<Rightarrow> uuid"
  re_client :: kinesis_client
  re_stopped :: "nat \<Rightarrow> bool"
  re_wait :: "rat \<Rightarrow> error option"

definition runner_initial :: "kinesis_record list \<Rightarrow> runner_state" where
  "runner_initial ks = \<lparr>rn_published_count = 0, rn_publish_trade_next = True, rn_sequence = 0, rn_steps = 0, rn_records = ks\<rparr>"

definition should_stop :: "runner_env \<Rightarrow> runner_state \<Rightarrow> bool" where
  "should_stop env s \<longleftrightarrow> re_stopped env (rn_steps s)
     \<or> (case ic_max_events (re_config env) of None \<Rightarrow> False | Some n \<Rightarrow> n \<le> rn_published_count s)"

definition next_event_is_trade :: "runner_env \<Rightarrow> runner_state \<Rightarrow> bool \<times> runner_state" where
  "next_event_is_trade env s =
     (case ic_mode (re_config env) of
        TRADE \<Rightarrow> (True, s)
      | QUOTE \<Rightarrow> (False, s)
      | BOTH \<Rightarrow> (rn_publish_trade_next s, s\<lparr>rn_publish_trade_next := \<not> rn_publish_trade_next s\<rparr>))"

definition runner_send :: "runner_env \<Rightarrow> payload_dict envelope result \<Rightarrow> string \<Rightarrow> runner_state \<Rightarrow> unit result \<times> runner_state" where
  "runner_send env event symbol s =
     (case event of
        Inl e \<Rightarrow> (Inl e, s)
      | Inr ev \<Rightarrow> (case producer_publish (ic_stream_name (re_config env)) (re_client env) ev symbol (rn_records s) of
          (Inl e, ks) \<Rightarrow> (Inl e, s\<lparr>rn_records := ks\<rparr>)
        | (Inr _, ks) \<Rightarrow> (Inr (), s\<lparr>rn_records := ks, rn_published_count := rn_published_count s + 1\<rparr>)))"

definition publish_trade :: "runner_env \<Rightarrow> (runner_state, unit) prog" where
  "publish_trade env s =
     (let n = rn_steps s in
      case generate_trade (re_instruments env) (re_draws env n) (rn_sequence s) of
        (Inl e, k) \<Rightarrow> (Inl e, s\<lparr>rn_sequence := k\<rparr>)
      | (Inr t, k) \<Rightarrow> runner_send env (create_trade_event (re_event_id env n) (re_correlation_id env n) t) (dt_symbol t)
          (s\<lparr>rn_sequence := k\<rparr>))"

definition publish_quote :: "runner_env \<Rightarrow> (runner_state, unit) prog" where
  "publish_quote env s =
     (let n = rn_steps s in
      case generate_quote (re_instruments env) (re_draws env n) of
        Inl e \<Rightarrow> (Inl e, s)
      | Inr q \<Rightarrow> runner_send env (create_quote_event (re_event_id env n) (re_correlation_id env n) q) (dq_symbol q) s)"

definition runner_publish_once :: "runner_env \<Rightarrow> (runner_state, unit) prog" where
  "runner_publish_once env s =
     (case next_event_is_trade env s of (trade, s1) \<Rightarrow> if trade then publish_trade env s1 else publish_quote env s1)"

abbreviation tick :: "runner_state \<Rightarrow> runner_state" where
  "tick s \<equiv> s\<lparr>rn_steps := Suc (rn_steps s)\<rparr>"

text \<open>
  The loop of \<open>run\<close>: the stop condition is read before and after each event. The wait between events
  changes nothing, but it raises for an interval that \<open>Event.wait\<close> cannot represent (\<open>re_wait\<close>). \<open>None\<close> stands for a loop that never ends.
\<close>

partial_function (option) runner_loop :: "runner_env \<Rightarrow> runner_state \<Rightarrow> (unit result \<times> runner_state) option" where
  "runner_loop env s =
     (if should_stop env s then Some (Inr (), s)
      else case runner_publish_once env s of
        (Inl e, s1) \<Rightarrow> Some (Inl e, s1)
      | (Inr _, s1) \<Rightarrow> (if should_stop env (tick s1) then Some (Inr (), tick s1)
          else case re_wait env (ic_interval_seconds (re_config env)) of
           Some e \<Rightarrow> Some (Inl e, tick s1)
         | None \<Rightarrow> runner_loop env (tick (tick s1))))"

definition runner_run :: "runner_env \<Rightarrow> kinesis_record list \<Rightarrow> (unit result \<times> runner_state) option" where
  "runner_run env ks = runner_loop env (runner_initial ks)"

section \<open>The process\<close>

definition default_instruments :: "mock_instrument list" where
  "default_instruments =
     [\<lparr>mi_symbol = ''AAPL'', mi_market = US, mi_base_price = 459 / 2\<rparr>,
      \<lparr>mi_symbol = ''MSFT'', mi_market = US, mi_base_price = 4173 / 10\<rparr>,
      \<lparr>mi_symbol = ''NVDA'', mi_market = US, mi_base_price = 642 / 5\<rparr>,
      \<lparr>mi_symbol = ''7203'', mi_market = JP, mi_base_price = 2865\<rparr>,
      \<lparr>mi_symbol = ''6758'', mi_market = JP, mi_base_price = 13820\<rparr>]"

text \<open>The arguments of the command line are \<open>c\<close>; every exception is logged and ends with code 1.\<close>

definition ingestor_main :: "runner_env \<Rightarrow> ingest_config \<Rightarrow> kinesis_record list \<Rightarrow> (int \<times> runner_state) option" where
  "ingestor_main env c ks = (case ingest_config_new c of
     Inl _ \<Rightarrow> Some (1, runner_initial ks)
   | Inr cfg \<Rightarrow> (case mock_provider_new default_instruments of
       Inl _ \<Rightarrow> Some (1, runner_initial ks)
     | Inr instruments \<Rightarrow> (case runner_run (env\<lparr>re_config := cfg, re_instruments := instruments\<rparr>) ks of
         None \<Rightarrow> None
       | Some (Inl _, s) \<Rightarrow> Some (1, s)
       | Some (Inr _, s) \<Rightarrow> Some (0, s))))"

end
