(* ===== verification/Ingestor_Properties.thy ===== *)
theory Ingestor_Properties
  imports Market_Ingestor Risk_Consumer
begin

text \<open>
  The properties of the market ingestor: the generated data is well formed, the bounded runner ends
  after exactly its number of events, what the ingestion service sends is what the risk engine and
  the trading services read, and what the runner sends is refused by the risk engine.
\<close>

section \<open>Generated data\<close>

definition instrument_ok :: "mock_instrument \<Rightarrow> bool" where
  "instrument_ok i \<longleftrightarrow> symbol_ok (mi_symbol i) \<and> 0 < mi_base_price i \<and> mi_base_price i \<le> 10 ^ 20"

lemma normalize_price_ok: "\<bar>v\<bar> \<le> 10 ^ 21 \<Longrightarrow> \<exists>c. normalize_price v = Inr (of_int c / 100) \<and> \<bar>c\<bar> \<le> 10 ^ 23 + 1"
proof -
  assume v: "\<bar>v\<bar> \<le> 10 ^ 21"
  then have "\<bar>v * 100\<bar> \<le> of_int (10 ^ 23)" by (simp add: abs_mult)
  then have "\<bar>round_half_up (v * 100)\<bar> \<le> 10 ^ 23 + 1" by (rule round_half_up_bound)
  then show ?thesis by (auto simp: normalize_price_def Let_def)
qed

lemma dround_bound: "micros b \<Longrightarrow> \<bar>q\<bar> \<le> b \<Longrightarrow> \<bar>dround q\<bar> \<le> b"
  using representable_ge [OF micros_representable, of b q] representable_ge [OF micros_representable, of b "- q"]
  by (auto simp: dround_minus abs_if split: if_splits)

lemma price_delta_bound:
  assumes "possible_draws d" "0 < base" "base \<le> 10 ^ 20"
  shows "\<bar>price_delta base d\<bar> \<le> 10 ^ 20"
proof -
  have r: "\<bar>dround (of_int (dr_basis_points d) / 10000)\<bar> \<le> 1"
  proof (rule dround_bound)
    show "micros 1" by (simp add: micros_def)
    have "\<bar>dr_basis_points d\<bar> \<le> 50" using assms(1) by (auto simp: possible_draws_def)
    then have "\<bar>of_int (dr_basis_points d) :: rat\<bar> \<le> 50" by (metis of_int_abs of_int_le_iff of_int_numeral)
    then show "\<bar>of_int (dr_basis_points d) / 10000 :: rat\<bar> \<le> 1" by simp
  qed
  have "\<bar>base * dround (of_int (dr_basis_points d) / 10000)\<bar> \<le> 10 ^ 20 * 1"
    unfolding abs_mult using assms r by (intro mult_mono) auto
  then show ?thesis unfolding price_delta_def dmul_def ddiv_def
    by (intro dround_bound) (simp_all add: micros_def)
qed

lemma generated_mid:
  assumes "possible_draws d" "instrument_ok i"
  shows "\<exists>c. normalize_price (dadd (mi_base_price i) (price_delta (mi_base_price i) d)) = Inr (of_int c / 100) \<and> \<bar>c\<bar> \<le> 10 ^ 23 + 1"
proof -
  have "\<bar>mi_base_price i + price_delta (mi_base_price i) d\<bar> \<le> 2 * 10 ^ 20"
    using price_delta_bound [OF assms(1), of "mi_base_price i"] assms(2) by (auto simp: instrument_ok_def)
  then have "\<bar>dadd (mi_base_price i) (price_delta (mi_base_price i) d)\<bar> \<le> 2 * 10 ^ 20"
    unfolding dadd_def by (rule dround_bound [rotated]) (simp add: micros_def)
  then show ?thesis by (intro normalize_price_ok) simp
qed

lemma strip_ends: "\<not> is_space a \<Longrightarrow> \<not> is_space b \<Longrightarrow> strip (a # s @ [b]) = a # s @ [b]"
  by (simp add: strip_def)

lemma decimal_digits_last: "0 < k \<Longrightarrow> \<exists>s c. decimal_digits k n = s @ [c] \<and> \<not> is_space c"
proof (cases k)
  case (Suc j)
  have "\<forall>m < 10. \<not> is_space (''0123456789'' ! m)" by code_simp
  then show ?thesis using Suc by auto
qed simp

lemma trade_id_ok: "strip (''mock-'' @ s @ padded10 n) = ''mock-'' @ s @ padded10 n"
proof -
  obtain t c where t: "padded10 n = t @ [c]" "\<not> is_space c"
    using decimal_digits_last [of "max 10 (ndigits n)" n] by (auto simp: padded10_def less_max_iff_disj)
  have "\<not> is_space CHR ''m''" by code_simp
  from strip_ends [OF this t(2), of "''ock-'' @ s @ t"] show ?thesis by (simp add: t(1))
qed

lemma select_in: "instruments \<noteq> [] \<Longrightarrow> select_instrument instruments d \<in> set instruments"
  by (simp add: select_instrument_def)

text \<open>The mid price of a generation, in whole cents, and the rounding of a price near it.\<close>

lemma generated_mid_cents:
  assumes "possible_draws d" "instrument_ok i"
  shows "\<exists>p cm. normalize_price (dadd (mi_base_price i) (price_delta (mi_base_price i) d)) = Inr p
    \<and> (if p \<le> 0 then 1 / 100 else p) = of_int cm / 100 \<and> 0 < cm \<and> cm \<le> 10 ^ 23 + 1"
proof -
  obtain c0 where c0: "normalize_price (dadd (mi_base_price i) (price_delta (mi_base_price i) d)) = Inr (of_int c0 / 100)"
    "\<bar>c0\<bar> \<le> 10 ^ 23 + 1" using generated_mid [OF assms] by blast
  let ?cm = "if c0 \<le> 0 then 1 else c0"
  have "(if of_int c0 / 100 \<le> (0::rat) then 1 / 100 else of_int c0 / 100) = (of_int ?cm / 100 :: rat)"
    by (simp add: divide_le_0_iff)
  moreover have "0 < ?cm" "?cm \<le> 10 ^ 23 + 1" using c0(2) by auto
  ultimately show ?thesis using c0(1) by blast
qed

lemma near_price:
  assumes "0 < cm" "cm \<le> 10 ^ 23 + 1" "\<bar>h\<bar> \<le> 1"
  shows "\<exists>c. normalize_price (dround (of_int cm / 100 + h)) = Inr (of_int c / 100)"
proof -
  have "(of_int cm :: rat) \<le> of_int (10 ^ 23 + 1)" "(0::rat) < of_int cm" using assms(1,2) by (simp_all only: of_int_le_iff of_int_0_less_iff)
  then have "of_int cm / 100 \<le> (2 * 10 ^ 21 :: rat)" "0 < of_int cm / (100::rat)" by simp_all
  then have "\<bar>of_int cm / 100 + h\<bar> \<le> 10 ^ 22" using assms(3) by (simp add: abs_le_iff)
  then have "\<bar>dround (of_int cm / 100 + h)\<bar> \<le> 10 ^ 22" by (rule dround_bound [rotated]) (simp add: micros_def)
  then have "\<bar>dround (of_int cm / 100 + h) * 100\<bar> \<le> of_int (10 ^ 24)" by (simp add: abs_mult)
  then have "\<bar>round_half_up (dround (of_int cm / 100 + h) * 100)\<bar> \<le> 10 ^ 24 + 1" by (rule round_half_up_bound)
  then show ?thesis by (auto simp: normalize_price_def Let_def)
qed

lemma generated_quote:
  assumes "possible_draws d" "instrument_ok (select_instrument instruments d)"
  shows "\<exists>q c c'. generate_quote instruments d = Inr q \<and> quote_ok q
      \<and> dq_bid_price q = of_int c / 100 \<and> dq_ask_price q = of_int c' / 100 \<and> 0 < c \<and> c \<le> c'"
proof -
  let ?i = "select_instrument instruments d"
  let ?half = "ddiv (of_int (dr_half_spread d)) 200"
  obtain p cm where p: "normalize_price (dadd (mi_base_price ?i) (price_delta (mi_base_price ?i) d)) = Inr p"
    and cm: "(if p \<le> 0 then 1 / 100 else p) = of_int cm / 100" "0 < cm" "cm \<le> 10 ^ 23 + 1"
    using generated_mid_cents [OF assms] by blast
  have half: "\<bar>?half\<bar> \<le> 1"
    unfolding ddiv_def using assms(1) by (intro dround_bound) (auto simp: micros_def possible_draws_def)
  then obtain b a where b: "normalize_price (dsub (of_int cm / 100) ?half) = Inr (of_int b / 100)"
    and a: "normalize_price (dadd (of_int cm / 100) ?half) = Inr (of_int a / 100)"
    using near_price [OF cm(2,3), of ?half] near_price [OF cm(2,3), of "- ?half"] by (auto simp: dsub_def dadd_def)
  define cb where "cb = (if b \<le> 0 then 1 else b)"
  define ca where "ca = (if a < cb then cb else a)"
  have cb: "(if of_int b / 100 \<le> (0::rat) then 1 / 100 else of_int b / 100) = (of_int cb / 100 :: rat)" "0 < cb"
    by (auto simp: cb_def divide_le_0_iff)
  have ca: "(if of_int a / 100 < (of_int cb / 100 :: rat) then of_int cb / 100 else of_int a / 100) = (of_int ca / 100 :: rat)" "cb \<le> ca"
    by (auto simp: ca_def divide_strict_right_mono)
  let ?q = "\<lparr>dq_symbol = mi_symbol ?i, dq_market = mi_market ?i, dq_bid_price = of_int cb / 100, dq_ask_price = of_int ca / 100,
    dq_bid_size = dr_size1 d, dq_ask_size = dr_size2 d, dq_timestamp = dr_now d\<rparr>"
  have qok: "quote_ok ?q"
    using assms cb(2) ca(2) by (simp add: quote_ok_def instrument_ok_def possible_draws_def divide_right_mono)
  have "generate_quote instruments d = quote_model_validate (quote_dump ?q)"
    by (simp only: generate_quote_def Let_def p sum.case cm(1) b a cb(1) ca(1) quote_dump_def domain_quote.simps)
  then have "generate_quote instruments d = Inr ?q" using quote_validate_dump [OF qok] by simp
  then show ?thesis using qok cb(2) ca(2) by (intro exI [of _ ?q] exI [of _ cb] exI [of _ ca]) simp
qed

lemma generated_trade:
  assumes "possible_draws d" "instrument_ok (select_instrument instruments d)"
  shows "\<exists>t. generate_trade instruments d n = (Inr t, n + 1) \<and> trade_ok t"
proof -
  let ?i = "select_instrument instruments d"
  obtain p cm where p: "normalize_price (dadd (mi_base_price ?i) (price_delta (mi_base_price ?i) d)) = Inr p"
    and cm: "(if p \<le> 0 then 1 / 100 else p) = of_int cm / 100" "0 < cm"
    using generated_mid_cents [OF assms] by blast
  let ?t = "\<lparr>dt_trade_id = ''mock-'' @ lower_market (mi_market ?i) @ ''-'' @ lower (mi_symbol ?i) @ ''-'' @ padded10 (n + 1),
    dt_symbol = mi_symbol ?i, dt_market = mi_market ?i, dt_price = of_int cm / 100, dt_quantity = dr_size1 d,
    dt_side = (if dr_buy d then Buy else Sell), dt_timestamp = dr_now d\<rparr>"
  have tok: "trade_ok ?t"
    using assms cm(2) trade_id_ok [of "lower_market (mi_market ?i) @ ''-'' @ lower (mi_symbol ?i) @ ''-''" "n + 1"]
    by (simp add: trade_ok_def instrument_ok_def possible_draws_def)
  have "generate_trade instruments d n = (trade_model_validate (trade_dump ?t), n + 1)"
    by (simp only: generate_trade_def Let_def p sum.case cm(1) trade_dump_def domain_trade.simps)
  then have "generate_trade instruments d n = (Inr ?t, n + 1)" using trade_validate_dump [OF tok] by simp
  then show ?thesis using tok by blast
qed

text \<open>
  The mock provider never fails and never produces bad data: for positive base prices up to
  \<open>10^20\<close> and any draw of the random generator, it yields a quote with a positive bid not above the
  ask, in whole cents, and a trade with a positive price and quantity; both are valid market data.
\<close>
theorem mock_data_valid:
  assumes "mock_provider_new selected = Inr instruments" and "\<forall>i \<in> set instruments. instrument_ok i" and "possible_draws d"
  shows "(\<exists>q c c'. generate_quote instruments d = Inr q \<and> quote_model_validate (quote_dump q) = Inr q
      \<and> dq_bid_price q = of_int c / 100 \<and> dq_ask_price q = of_int c' / 100 \<and> 0 < c \<and> c \<le> c')
    \<and> (\<exists>t. generate_trade instruments d n = (Inr t, n + 1) \<and> trade_model_validate (trade_dump t) = Inr t)"
proof -
  have ok: "instrument_ok (select_instrument instruments d)"
    using assms(1,2) select_in by (auto simp: mock_provider_new_def split: if_splits)
  show ?thesis
    using generated_quote [OF assms(3) ok] generated_trade [OF assms(3) ok, of n] quote_validate_dump trade_validate_dump by blast
qed

section \<open>The events\<close>

lemma market_event_new:
  assumes "t = ''market.trade.received'' \<or> t = ''market.quote.received''"
  shows "envelope_new i t 1 (Aware at') ''market-ingestor'' c cause None p = Inr \<lparr>event_id = i, event_type = t,
    schema_version = 1, occurred_at = at', source = ''market-ingestor'', correlation_id = c, causation_id = cause,
    trace_context = None, payload = p\<rparr>"
proof -
  have t: "trim t = t" "validate_event_type t = Inr t" "length_between 3 128 t"
    using assms by (elim disjE; simp; code_simp)+
  have s: "trim ''market-ingestor'' = ''market-ingestor''" "validate_source ''market-ingestor'' = Inr ''market-ingestor''"
    by code_simp+
  show ?thesis by (simp add: envelope_new_def t s length_between_def [of _ _ "''market-ingestor''"] validate_occurred_at_def)
qed

lemma market_event_valid:
  assumes "t = ''market.trade.received'' \<or> t = ''market.quote.received''"
    and "envelope_new i t 1 (Aware at') ''market-ingestor'' c cause None p = Inr ev"
  shows "valid_envelope ev" "event_type ev = t" "payload ev = p" "occurred_at ev = at'"
proof -
  have "ev = \<lparr>event_id = i, event_type = t, schema_version = 1, occurred_at = at', source = ''market-ingestor'',
    correlation_id = c, causation_id = cause, trace_context = None, payload = p\<rparr>"
    using assms(2) market_event_new [OF assms(1), of i at' c cause p] by simp
  then show "valid_envelope ev" "event_type ev = t" "payload ev = p" "occurred_at ev = at'"
    using market_event_new [OF assms(1), of i at' c cause p] by (simp_all add: valid_envelope_def)
qed

text \<open>
  What the runner sends the risk engine cannot read: the quote events of the command-line
  generator carry two fields more than a quote has and no timestamp, so the risk engine refuses every
  one of them, whatever the quote; the consumer raises, nothing is stored and nothing is sent.
\<close>
theorem runner_quotes_rejected:
  assumes "quote_ok q" and "create_quote_event i c q = Inr ev" and "reads env data ev"
  shows "quote_model_validate (payload ev) = Inl ValidationError
    \<and> process_event get_q set_q rule (ce_risk env) ev st = (Inl ValidationError, st)
    \<and> process_record get_q set_q rule env data w = (Inl ValidationError, w)"
proof -
  have ev: "event_type ev = ''market.quote.received''" "payload ev = runner_quote_payload q"
    using market_event_valid [OF disjI2 [OF refl] assms(2) [unfolded create_quote_event_def]] by simp_all
  have "symbol_ok (dq_symbol q)" using assms(1) by (simp add: quote_ok_def)
  then have refused: "quote_model_validate (payload ev) = Inl ValidationError"
    by (simp add: ev(2) quote_model_validate_def runner_quote_payload_def model_field_def checked_def
        trim_symbol_ok validate_symbol_ok split: option.split)
  then have run: "process_event get_q set_q rule (ce_risk env) ev st = (Inl ValidationError, st)" for st
    by (simp add: process_event_def ev(1) bind_run)
  then have "process_record get_q set_q rule env data w = (Inl ValidationError, w)"
    by (simp add: process_record_reads [OF assms(3)] process_market_event_def on_store_def bind_run)
  with refused run show ?thesis by blast
qed

text \<open>The stream of the documented \<open>put_record\<close>: success means the record was appended.\<close>

definition truthful_stream :: "kinesis_client \<Rightarrow> bool" where
  "truthful_stream client \<longleftrightarrow> (\<forall>entry lg. case client entry lg of (r, lg') \<Rightarrow>
     (lg' = lg \<or> lg' = lg @ [entry]) \<and> (case r of Inl _ \<Rightarrow> True | Inr _ \<Rightarrow> lg' = lg @ [entry]))"

lemma producer_publish_Inr:
  assumes "producer_publish stream client ev k lg = (Inr r, lg')" "truthful_stream client"
  shows "lg' = lg @ [\<lparr>kr_stream = stream, kr_data = to_event_dict ev, kr_partition_key = strip k\<rparr>]"
proof -
  let ?entry = "\<lparr>kr_stream = stream, kr_data = to_event_dict ev, kr_partition_key = strip k\<rparr>"
  have "client ?entry lg = (Inr r, lg')" using assms(1) by (auto simp: producer_publish_def Let_def split: if_splits)
  then show ?thesis using assms(2) [unfolded truthful_stream_def, rule_format, of lg ?entry] by simp
qed

lemma update_cache_run: "\<exists>c. update_quote_cache env q w = (Inr (), w\<lparr>iw_cache := c\<rparr>)"
proof -
  let ?m = "with_fault (ie_cache_fault env) (store_quote (cache_set_quote (ie_cache env) (ie_clock env)) q)"
  obtain r c where m: "?m (iw_cache w) = (r, c)" by fastforce
  show ?thesis
    by (rule exI [of _ c], cases r) (simp_all add: update_quote_cache_def try_except_def on_cache_def m)
qed

text \<open>
  From ingestion to its readers: when the ingestion service has taken a valid quote, one record
  was appended to the stream that the risk engine reads as exactly this quote; if the cache worked,
  the trading services' provider answers with its bid and ask until the time to live is over and
  refuses afterwards; a fault of the cache fails nothing, and a fault of the stream changes no cache.
\<close>
theorem ingested_quote_reaches_readers:
  assumes "quote_ok q" and "truthful_stream (ie_client env)" and "ingest_quote env q w = (r, w')"
  shows "(\<forall>res. r = Inr res \<longrightarrow> (\<exists>entry ev. iw_records w' = iw_records w @ [entry]
        \<and> envelope_validate i c now (kr_data entry) = Inr ev \<and> quote_of ev = Some q \<and> occurred_at ev = dq_timestamp q)
      \<and> (ie_cache_fault env = Works \<longrightarrow> cached_provider_get_quote (dq_market q) t (iw_cache w') (dq_symbol q) =
          (if t < ie_clock env + qc_ttl_seconds (ie_cache env)
           then Inr \<lparr>q_symbol = dq_symbol q, bid = dq_bid_price q, ask = dq_ask_price q\<rparr>
           else Inl (ValueError ''No current bid/ask market quote available''))))
    \<and> (\<forall>e. r = Inl e \<longrightarrow> iw_cache w' = iw_cache w)"
proof -
  obtain ev where new: "create_market_quote_event (ie_event_id env) (ie_correlation_id env) q ''market-ingestor'' None None = Inr ev"
    and ev: "valid_envelope ev" "event_type ev = ''market.quote.received''" "payload ev = quote_dump q" "occurred_at ev = dq_timestamp q"
    using market_event_valid [OF disjI2 [OF refl]] market_event_new [OF disjI2 [OF refl]]
    by (metis create_market_quote_event_def option.case(1))
  let ?k = "market_name (dq_market q) @ '':'' @ dq_symbol q"
  obtain r1 ks where p: "producer_publish (ie_stream env) (ie_client env) ev ?k (iw_records w) = (r1, ks)" by fastforce
  have qo: "quote_of ev = Some q" using ev quote_validate_dump [OF assms(1)] by (simp add: quote_of_def)
  show ?thesis
  proof (cases r1)
    case (Inl e)
    then have "r = Inl e \<and> w' = w\<lparr>iw_records := ks\<rparr>"
      using assms(3) p new by (simp add: ingest_quote_def publish_market_event_def on_stream_def)
    then show ?thesis by simp
  next
    case (Inr res)
    let ?entry = "\<lparr>kr_stream = ie_stream env, kr_data = to_event_dict ev, kr_partition_key = strip ?k\<rparr>"
    have ks: "ks = iw_records w @ [?entry]" using producer_publish_Inr [OF _ assms(2)] p Inr by blast
    obtain u where u: "update_quote_cache env q (w\<lparr>iw_records := ks\<rparr>) = (Inr (), u)" "iw_records u = ks"
      using update_cache_run [of env q "w\<lparr>iw_records := ks\<rparr>"] by auto
    then have w': "w' = u" "r = Inr res"
      using assms(3) p new Inr by (simp_all add: ingest_quote_def publish_market_event_def on_stream_def)
    have sent: "iw_records w' = iw_records w @ [?entry] \<and> envelope_validate i c now (kr_data ?entry) = Inr ev
        \<and> quote_of ev = Some q \<and> occurred_at ev = dq_timestamp q"
      using u(2) ks qo ev(4) envelope_validate_dump [OF ev(1)] by (simp add: w'(1))
    have sym: "symbol_ok (dq_symbol q)" and prices: "0 < dq_bid_price q" "dq_bid_price q \<le> dq_ask_price q"
      using assms(1) by (auto simp: quote_ok_def)
    have cached: "cached_provider_get_quote (dq_market q) t (iw_cache w') (dq_symbol q) =
          (if t < ie_clock env + qc_ttl_seconds (ie_cache env)
           then Inr \<lparr>q_symbol = dq_symbol q, bid = dq_bid_price q, ask = dq_ask_price q\<rparr>
           else Inl (ValueError ''No current bid/ask market quote available''))" if "ie_cache_fault env = Works"
    proof -
      have "cache_set_quote (ie_cache env) (ie_clock env) (iw_cache w) q = Inr (iw_cache w')"
        using u(1) that sym by (auto simp: w'(1) update_quote_cache_def try_except_def on_cache_def store_quote_def
            cache_set_quote_def cache_key_ok)
      from cache_get_after_set [OF assms(1) this sym] show ?thesis
        using sym prices by (auto simp: cached_provider_get_quote_def provider_symbol_def symbol_ok_def of_instrument_def
            market_quote_new_def Let_def)
    qed
    show ?thesis using sent cached w'(2) by blast
  qed
qed

section \<open>The runner ends\<close>

definition record_kind :: "kinesis_record \<Rightarrow> payload_dict json option" where
  "record_kind k = map_of (kr_data k) ''event_type''"

text \<open>The kinds of the next \<open>n\<close> events of a mode.\<close>

fun expected_kinds :: "runner_mode \<Rightarrow> bool \<Rightarrow> nat \<Rightarrow> payload_dict json option list" where
  "expected_kinds m b 0 = []"
| "expected_kinds m b (Suc n) =
     Some (JText (if m = TRADE \<or> m = BOTH \<and> b then ''market.trade.received'' else ''market.quote.received''))
       # expected_kinds m (\<not> b) n"

lemma expected_kinds_mode: "m \<noteq> BOTH \<Longrightarrow> expected_kinds m b n = expected_kinds m b' n"
  by (induction n arbitrary: b b') (cases m; simp)+

lemma runner_send_run:
  assumes "runner_send env event symbol s = (r, s1)" "truthful_stream (re_client env)"
    and "\<forall>ev. event = Inr ev \<longrightarrow> event_type ev = kind"
  shows "rn_steps s1 = rn_steps s \<and> rn_publish_trade_next s1 = rn_publish_trade_next s
    \<and> (\<forall>e. r = Inl e \<longrightarrow> rn_published_count s1 = rn_published_count s)
    \<and> (r = Inr () \<longrightarrow> rn_published_count s1 = rn_published_count s + 1
      \<and> (\<exists>k. rn_records s1 = rn_records s @ [k] \<and> record_kind k = Some (JText kind)))"
  using assms(1,3) producer_publish_Inr [OF _ assms(2)]
  by (fastforce simp: runner_send_def record_kind_def to_event_dict_def split: sum.splits prod.splits)

lemma publish_once_run:
  assumes "runner_publish_once env s = (r, s1)" "truthful_stream (re_client env)"
  defines "m \<equiv> ic_mode (re_config env)" and "b \<equiv> rn_publish_trade_next s"
  shows "rn_steps s1 = rn_steps s" "rn_publish_trade_next s1 = (if m = BOTH then \<not> b else b)"
    and "r = Inl e \<Longrightarrow> rn_published_count s1 = rn_published_count s"
    and "r = Inr () \<Longrightarrow> rn_published_count s1 = rn_published_count s + 1
      \<and> (\<exists>k. rn_records s1 = rn_records s @ [k] \<and> [record_kind k] = expected_kinds m b 1)"
proof -
  let ?trade = "m = TRADE \<or> m = BOTH \<and> b"
  let ?s = "if m = BOTH then s\<lparr>rn_publish_trade_next := \<not> b\<rparr> else s"
  have n: "next_event_is_trade env s = (?trade, ?s)"
    by (cases m) (auto simp: next_event_is_trade_def m_def b_def)
  have kinds: "create_trade_event i c t = Inr ev \<Longrightarrow> event_type ev = ''market.trade.received''"
    "create_quote_event i c q = Inr ev \<Longrightarrow> event_type ev = ''market.quote.received''" for i c t q and ev :: "payload_dict envelope"
    unfolding create_trade_event_def create_quote_event_def
    by (rule market_event_valid(2) [OF disjI1 [OF refl]], assumption)
       (rule market_event_valid(2) [OF disjI2 [OF refl]], assumption)
  have "rn_steps s1 = rn_steps s \<and> rn_publish_trade_next s1 = rn_publish_trade_next ?s
    \<and> (\<forall>e. r = Inl e \<longrightarrow> rn_published_count s1 = rn_published_count s)
    \<and> (r = Inr () \<longrightarrow> rn_published_count s1 = rn_published_count s + 1
      \<and> (\<exists>k. rn_records s1 = rn_records s @ [k] \<and> record_kind k =
           Some (JText (if ?trade then ''market.trade.received'' else ''market.quote.received''))))"
  proof (cases ?trade)
    case True
    obtain g k where g: "generate_trade (re_instruments env) (re_draws env (rn_steps ?s)) (rn_sequence ?s) = (g, k)" by fastforce
    have p: "publish_trade env ?s = (r, s1)" using assms(1) n True by (simp add: runner_publish_once_def)
    show ?thesis
    proof (cases g)
      case (Inl e)
      then show ?thesis using p g by (auto simp: publish_trade_def Let_def)
    next
      case (Inr t)
      then have "runner_send env (create_trade_event (re_event_id env (rn_steps ?s)) (re_correlation_id env (rn_steps ?s)) t)
          (dt_symbol t) (?s\<lparr>rn_sequence := k\<rparr>) = (r, s1)" using p g by (simp add: publish_trade_def Let_def)
      from runner_send_run [OF this assms(2), of "''market.trade.received''"] show ?thesis using True kinds by auto
    qed
  next
    case False
    have p: "publish_quote env ?s = (r, s1)" using assms(1) n False by (simp add: runner_publish_once_def)
    show ?thesis
    proof (cases "generate_quote (re_instruments env) (re_draws env (rn_steps ?s))")
      case (Inl e)
      then show ?thesis using p by (auto simp: publish_quote_def Let_def)
    next
      case (Inr q)
      then have "runner_send env (create_quote_event (re_event_id env (rn_steps ?s)) (re_correlation_id env (rn_steps ?s)) q)
          (dq_symbol q) ?s = (r, s1)" using p by (simp add: publish_quote_def Let_def)
      from runner_send_run [OF this assms(2), of "''market.quote.received''"] show ?thesis using False kinds by auto
    qed
  qed
  then show "rn_steps s1 = rn_steps s" "rn_publish_trade_next s1 = (if m = BOTH then \<not> b else b)"
    and "r = Inl e \<Longrightarrow> rn_published_count s1 = rn_published_count s"
    and "r = Inr () \<Longrightarrow> rn_published_count s1 = rn_published_count s + 1
      \<and> (\<exists>k. rn_records s1 = rn_records s @ [k] \<and> [record_kind k] = expected_kinds m b 1)"
    by (auto simp: b_def)
qed

lemma expected_kinds_append:
  "expected_kinds m b (Suc n) = expected_kinds m b 1 @ expected_kinds m (if m = BOTH then \<not> b else b) n"
  using expected_kinds_mode [of m "\<not> b" n b] by auto

text \<open>With a bound of \<open>n\<close> events the loop ends; the induction is on the events still allowed.\<close>

lemma runner_loop_ends:
  assumes "truthful_stream (re_client env)" "ic_max_events (re_config env) = Some n"
    and "nat (n - rn_published_count s) = k" "rn_published_count s \<le> n"
  shows "\<exists>r s'. runner_loop env s = Some (r, s') \<and> rn_published_count s' \<le> n
    \<and> (r = Inr () \<longrightarrow> (\<exists>new. rn_records s' = rn_records s @ new \<and> rn_published_count s' = rn_published_count s + int (length new)
         \<and> map record_kind new = expected_kinds (ic_mode (re_config env)) (rn_publish_trade_next s) (length new))
       \<and> ((\<forall>i. \<not> re_stopped env i) \<longrightarrow> rn_published_count s' = n))"
  using assms(3,4)
proof (induction k arbitrary: s rule: less_induct)
  case (less k)
  let ?m = "ic_mode (re_config env)" and ?b = "rn_publish_trade_next s"
  note loop = runner_loop.simps [of env s]
  show ?case
  proof (cases "should_stop env s")
    case True
    then show ?thesis using loop less.prems by (auto simp: should_stop_def assms(2))
  next
    case False
    then have c: "rn_published_count s < n" by (auto simp: should_stop_def assms(2))
    obtain r s1 where p: "runner_publish_once env s = (r, s1)" by fastforce
    note run = publish_once_run [OF p assms(1)]
    show ?thesis
    proof (cases r)
      case (Inl e)
      then show ?thesis using loop False p run(3) c by auto
    next
      case (Inr u)
      then obtain x where x: "rn_published_count s1 = rn_published_count s + 1" "rn_records s1 = rn_records s @ [x]"
        "[record_kind x] = expected_kinds ?m ?b 1" using run(4) by auto
      show ?thesis
      proof (cases "should_stop env (tick s1)")
        case True
        then have ended: "runner_loop env s = Some (Inr (), tick s1)" using loop False p Inr by simp
        have "(\<forall>i. \<not> re_stopped env i) \<longrightarrow> rn_published_count s1 = n"
          using True x(1) c by (auto simp: should_stop_def assms(2))
        then show ?thesis using x c
          by (intro exI [of _ "Inr ()"] exI [of _ "tick s1"] conjI ended impI exI [of _ "[x]"]) simp_all
      next
        case go: False
        let ?s2 = "tick (tick s1)"
        show ?thesis
        proof (cases "re_wait env (ic_interval_seconds (re_config env))")
          case (Some e)
          then have "runner_loop env s = Some (Inl e, tick s1)" using loop False p Inr go by simp
          then show ?thesis using x(1) c by auto
        next
          case None
          have eq: "runner_loop env s = runner_loop env ?s2" using loop False p Inr go None by simp
          have "nat (n - rn_published_count ?s2) < k" "rn_published_count ?s2 \<le> n" using less.prems(1) x(1) c by auto
          from less.IH [OF this(1) refl this(2)] obtain r' s' where l: "runner_loop env ?s2 = Some (r', s')" "rn_published_count s' \<le> n"
            and ok: "r' = Inr () \<Longrightarrow> (\<exists>new. rn_records s' = rn_records s1 @ new
              \<and> rn_published_count s' = rn_published_count s1 + int (length new)
              \<and> map record_kind new = expected_kinds ?m (rn_publish_trade_next s1) (length new))"
            "r' = Inr () \<Longrightarrow> (\<forall>i. \<not> re_stopped env i) \<Longrightarrow> rn_published_count s' = n" by auto
          have "\<exists>new. rn_records s' = rn_records s @ new \<and> rn_published_count s' = rn_published_count s + int (length new)
              \<and> map record_kind new = expected_kinds ?m ?b (length new)" if ended: "r' = Inr ()"
          proof -
            obtain new where n: "rn_records s' = rn_records s1 @ new" "rn_published_count s' = rn_published_count s1 + int (length new)"
              "map record_kind new = expected_kinds ?m (rn_publish_trade_next s1) (length new)" using ok(1) [OF ended] by blast
            have "map record_kind (x # new) = expected_kinds ?m ?b (length (x # new))"
              using n(3) x(3) run(2) expected_kinds_append [of ?m ?b "length new"] by simp
            then show ?thesis using n x by (intro exI [of _ "x # new"]) simp
          qed
          then show ?thesis using l ok(2) eq by auto
        qed
      qed
    qed
  qed
qed

lemma runner_run_ends:
  assumes "ingest_config_new c = Inr (re_config env)" and "ic_max_events (re_config env) = Some n"
    and "truthful_stream (re_client env)"
  shows "\<exists>r s. runner_run env ks = Some (r, s) \<and> rn_published_count s \<le> n
    \<and> (r = Inr () \<longrightarrow> (\<exists>new. rn_records s = ks @ new \<and> rn_published_count s = int (length new)
         \<and> map record_kind new = expected_kinds (ic_mode (re_config env)) True (length new))
       \<and> ((\<forall>i. \<not> re_stopped env i) \<longrightarrow> rn_published_count s = n))"
proof -
  have "0 < n" using assms(1,2) by (auto simp: ingest_config_new_def split: if_splits)
  then show ?thesis
    using runner_loop_ends [OF assms(3,2) refl, of "runner_initial ks"] by (simp add: runner_run_def runner_initial_def)
qed

text \<open>
  C29. The generator ends: with a bound of \<open>n\<close> events, any mode and any other arguments, the process ends
  with code 0 or 1 after at most \<open>n\<close> published events, even if the wait between two of them raises. With code 0 the arguments were valid, and the records
  appended to the stream are as many as it counted, of the kinds of its mode (a trade and a quote in turn),
  and exactly \<open>n\<close> if nobody asked it to stop; invalid arguments end it with code 1 and nothing published.
\<close>

theorem bounded_runner_ends:
  assumes "ic_max_events c = Some n" and "truthful_stream (re_client env)"
  shows "\<exists>code s. ingestor_main env c ks = Some (code, s) \<and> (code = 0 \<or> code = 1) \<and> rn_published_count s \<le> max 0 n
    \<and> ((\<exists>e. ingest_config_new c = Inl e) \<longrightarrow> code = 1 \<and> rn_records s = ks)
    \<and> (code = 0 \<longrightarrow> (\<exists>new. rn_records s = ks @ new \<and> rn_published_count s = int (length new)
         \<and> map record_kind new = expected_kinds (ic_mode c) True (length new))
       \<and> ((\<forall>i. \<not> re_stopped env i) \<longrightarrow> rn_published_count s = n))"
proof (cases "ingest_config_new c")
  case (Inl e)
  then show ?thesis by (simp add: ingestor_main_def runner_initial_def)
next
  case (Inr cfg)
  then have cfg: "cfg = c" by (auto simp: ingest_config_new_def split: if_splits)
  let ?env = "env\<lparr>re_config := c, re_instruments := default_instruments\<rparr>"
  obtain r s where r: "runner_run ?env ks = Some (r, s)" "rn_published_count s \<le> n"
    "r = Inr () \<longrightarrow> (\<exists>new. rn_records s = ks @ new \<and> rn_published_count s = int (length new)
         \<and> map record_kind new = expected_kinds (ic_mode c) True (length new))
       \<and> ((\<forall>i. \<not> re_stopped env i) \<longrightarrow> rn_published_count s = n)"
    using runner_run_ends [of c ?env n ks] Inr cfg assms by auto
  have "ingestor_main env c ks = Some (case r of Inl _ \<Rightarrow> (1, s) | Inr _ \<Rightarrow> (0, s))"
    using r(1) Inr cfg by (auto simp: ingestor_main_def mock_provider_new_def default_instruments_def split: sum.splits)
  then show ?thesis using r(2,3) Inr by (cases r) auto
qed

section \<open>Instances\<close>

definition draw0 :: draws where
  "draw0 = \<lparr>dr_index = 3, dr_basis_points = - 50, dr_half_spread = 10, dr_size1 = 7, dr_size2 = 1, dr_buy = True, dr_now = 5\<rparr>"

definition toyota :: mock_instrument where
  "toyota = \<lparr>mi_symbol = ''7203'', mi_market = JP, mi_base_price = 2865\<rparr>"

lemma toyota_ok: "instrument_ok toyota" "mock_provider_new [toyota] = Inr [toyota]" "possible_draws draw0"
proof -
  have "symbol_ok ''7203''" by code_simp
  then show "instrument_ok toyota" by (simp add: instrument_ok_def toyota_def)
qed (simp_all add: mock_provider_new_def possible_draws_def draw0_def)

theorem mock_data_valid_witness:
  "\<exists>q t. generate_quote [toyota] draw0 = Inr q \<and> quote_model_validate (quote_dump q) = Inr q
    \<and> generate_trade [toyota] draw0 41 = (Inr t, 42)"
  using mock_data_valid [OF toyota_ok(2) _ toyota_ok(3), of 41] toyota_ok(1) by auto

definition ok_stream :: kinesis_client where
  "ok_stream entry lg = (Inr (''shard-0'', ''1''), lg @ [entry])"

lemma ok_stream_truthful: "truthful_stream ok_stream"
  by (simp add: truthful_stream_def ok_stream_def)

lemma aapl_ok: "0 < p \<Longrightarrow> quote_ok (aapl p t)"
  using quote_validated_ok [OF sample_quote_valid] .

definition runner_event :: "payload_dict envelope" where
  "runner_event = \<lparr>event_id = 1, event_type = ''market.quote.received'', schema_version = 1, occurred_at = 7,
     source = ''market-ingestor'', correlation_id = 2, causation_id = None, trace_context = None,
     payload = runner_quote_payload (aapl 100 7)\<rparr>"

lemma runner_event_new: "create_quote_event 1 2 (aapl 100 7) = Inr runner_event"
  using market_event_new [OF disjI2 [OF refl], of 1 7 2 None "runner_quote_payload (aapl 100 7)"]
  by (simp add: create_quote_event_def runner_event_def aapl_def)

definition kinesis_of :: "payload_dict envelope \<Rightarrow> consumer_env" where
  "kinesis_of ev = (kinesis_env good_bus)\<lparr>parse_json := (\<lambda>_. Some (to_event_dict ev))\<rparr>"

lemma kinesis_of_reads: "valid_envelope ev \<Longrightarrow> reads (kinesis_of ev) (DataText ''{}'') ev"
  by (simp add: reads_def decode_data_def parse_event_def kinesis_of_def envelope_validate_dump)

theorem runner_quotes_rejected_witness:
  "process_record memory_get_quote memory_set_quote rule0 (kinesis_of runner_event) (DataText ''{}'')
     \<lparr>quote_store = Map.empty, risk_bus = []\<rparr> = (Inl ValidationError, \<lparr>quote_store = Map.empty, risk_bus = []\<rparr>)"
proof -
  have "valid_envelope runner_event"
    using market_event_valid(1) [OF disjI2 [OF refl] runner_event_new [unfolded create_quote_event_def]] .
  then show ?thesis
    using runner_quotes_rejected [OF aapl_ok runner_event_new kinesis_of_reads, of memory_get_quote memory_set_quote rule0
        Map.empty "\<lparr>quote_store = Map.empty, risk_bus = []\<rparr>"] by simp
qed

definition ingest0 :: ingest_env where
  "ingest0 = \<lparr>ie_stream = ''s'', ie_client = ok_stream, ie_cache = default_cache, ie_cache_fault = Works, ie_clock = 100,
     ie_event_id = 1, ie_correlation_id = 2\<rparr>"

theorem ingested_quote_reaches_readers_witness:
  "\<exists>w'. ingest_quote ingest0 (aapl 100 7) \<lparr>iw_records = [], iw_cache = Map.empty\<rparr> = (Inr (''shard-0'', ''1''), w')
    \<and> cached_provider_get_quote US 129 (iw_cache w') ''AAPL'' = Inr \<lparr>q_symbol = ''AAPL'', bid = 100, ask = 100\<rparr>"
proof -
  let ?w = "\<lparr>iw_records = [], iw_cache = Map.empty\<rparr> :: ingest_world"
  obtain r w' where run: "ingest_quote ingest0 (aapl 100 7) ?w = (r, w')" by fastforce
  have key: "strip (market_name US @ '':'' @ ''AAPL'') = ''US:AAPL''" "utf8_length ''US:AAPL'' = 7" by code_simp+
  obtain ev where ev: "create_market_quote_event 1 2 (aapl 100 7) ''market-ingestor'' None None = Inr ev"
    using market_event_new [OF disjI2 [OF refl]] by (metis create_market_quote_event_def option.case(1))
  have "\<exists>w1. publish_market_event ingest0 ev US ''AAPL'' ?w = (Inr (''shard-0'', ''1''), w1)"
    by (simp add: publish_market_event_def on_stream_def producer_publish_def ok_stream_def Let_def ingest0_def key [simplified])
  then obtain w1 where sent: "publish_market_event ingest0 ev US ''AAPL'' ?w = (Inr (''shard-0'', ''1''), w1)" by blast
  have fields: "ie_event_id ingest0 = 1" "ie_correlation_id ingest0 = 2" "dq_market (aapl 100 7) = US" "dq_symbol (aapl 100 7) = ''AAPL''"
    by (simp_all add: ingest0_def aapl_def)
  obtain c where "update_quote_cache ingest0 (aapl 100 7) w1 = (Inr (), w1\<lparr>iw_cache := c\<rparr>)"
    using update_cache_run [of ingest0 "aapl 100 7" w1] by blast
  then have "r = Inr (''shard-0'', ''1'')" using run sent by (simp add: ingest_quote_def bind_run fields ev [simplified])
  moreover from ingested_quote_reaches_readers [OF aapl_ok _ run, of 0 0 0 129] ok_stream_truthful this
  have "cached_provider_get_quote US 129 (iw_cache w') ''AAPL'' = Inr \<lparr>q_symbol = ''AAPL'', bid = 100, ask = 100\<rparr>"
    by (simp add: ingest0_def aapl_def default_cache_def)
  ultimately show ?thesis using run by simp
qed

definition runner0 :: runner_env where
  "runner0 = \<lparr>re_config = \<lparr>ic_stream_name = ''s'', ic_mode = BOTH, ic_interval_seconds = 1, ic_max_events = Some 3\<rparr>,
     re_instruments = [toyota], re_draws = (\<lambda>_. draw0), re_event_id = id, re_correlation_id = id, re_client = ok_stream,
     re_stopped = (\<lambda>_. False), re_wait = (\<lambda>_. None)\<rparr>"

theorem bounded_runner_ends_witness:
  "\<exists>code s. ingestor_main runner0 (re_config runner0) [] = Some (code, s) \<and> (code = 0 \<longrightarrow> length (rn_records s) = 3)"
proof -
  have m: "ic_max_events (re_config runner0) = Some 3" "truthful_stream (re_client runner0)" "\<forall>i. \<not> re_stopped runner0 i"
    by (simp_all add: runner0_def ok_stream_truthful)
  from bounded_runner_ends [OF m(1,2), of "[]"] m(3) show ?thesis by (elim exE conjE) auto
qed

end
