(* ===== verification/Portfolio_Domain.thy ===== *)
theory Portfolio_Domain
  imports Market_Domain
begin

text \<open>
  The portfolio aggregate (\<open>libs/domain/portfolio/models.py\<close>) and its events
  (\<open>libs/events/portfolio.py\<close>). A \<open>Position\<close> of a portfolio is called \<open>holding\<close> here, to keep it apart
  from the position of a paper account; its quantity is a Decimal.
\<close>

section \<open>Holdings\<close>

datatype currency = USD | JPY

fun currency_name :: "currency \<Rightarrow> string" where
  "currency_name USD = ''USD''" | "currency_name JPY = ''JPY''"

definition currency_value :: "string \<Rightarrow> currency option" where
  "currency_value s = (if s = ''USD'' then Some USD else if s = ''JPY'' then Some JPY else None)"

record holding =
  h_id :: uuid
  h_symbol :: string
  h_market :: market
  h_quantity :: decimal
  h_average_cost :: decimal
  h_created_at :: int
  h_updated_at :: int

text \<open>The validators raise \<open>ValueError\<close>, which pydantic turns into its own error.\<close>

definition normalize_holding_symbol :: "string \<Rightarrow> string option" where
  "normalize_holding_symbol value =
     (let symbol = normal_symbol value in if symbol = [] \<or> 32 < length symbol then None else Some symbol)"

definition normalize_timestamp :: "datetime \<Rightarrow> int option" where
  "normalize_timestamp value = (case value of Naive _ \<Rightarrow> None | Aware i \<Rightarrow> Some i)"

definition holding_new ::
  "uuid \<Rightarrow> string \<Rightarrow> market \<Rightarrow> decimal \<Rightarrow> decimal \<Rightarrow> datetime \<Rightarrow> datetime \<Rightarrow> holding result" where
  "holding_new i symbol m quantity average_cost created updated =
     (case (normalize_holding_symbol (trim symbol), normalize_timestamp created, normalize_timestamp updated) of
        (Some s, Some c, Some u) \<Rightarrow>
          if quantity \<le> 0 \<or> average_cost \<le> 0 then Inl ValidationError
          else Inr \<lparr>h_id = i, h_symbol = s, h_market = m, h_quantity = quantity, h_average_cost = average_cost,
                 h_created_at = c, h_updated_at = u\<rparr>
      | _ \<Rightarrow> Inl ValidationError)"

definition cost_basis :: "holding \<Rightarrow> decimal" where
  "cost_basis h = dmul (h_quantity h) (h_average_cost h)"

definition instrument_key :: "holding \<Rightarrow> string" where
  "instrument_key h = market_name (h_market h) @ '':'' @ h_symbol h"

section \<open>Portfolios\<close>

record portfolio =
  pf_id :: uuid
  pf_user_id :: string
  pf_name :: string
  pf_currency :: currency
  pf_positions :: "holding list"
  pf_created_at :: int
  pf_updated_at :: int

definition validate_user_id :: "string \<Rightarrow> string result" where
  "validate_user_id value =
     (let user_id = strip value in
      if user_id = [] then Inl (InvalidUserIdError ''user_id must not be empty'')
      else if 128 < length user_id then Inl (InvalidUserIdError ''user_id must not exceed 128 characters'')
      else Inr user_id)"

definition validate_name :: "string \<Rightarrow> string result" where
  "validate_name value =
     (let name = strip value in
      if name = [] then Inl (InvalidPortfolioNameError ''portfolio name must not be empty'')
      else if 100 < length name then Inl (InvalidPortfolioNameError ''portfolio name must not exceed 100 characters'')
      else Inr name)"

fun validate_unique_positions :: "string set \<Rightarrow> holding list \<Rightarrow> unit result" where
  "validate_unique_positions seen [] = Inr ()"
| "validate_unique_positions seen (h # hs) =
     (if instrument_key h \<in> seen then Inl (DuplicatePositionError ''duplicate position'')
      else validate_unique_positions (insert (instrument_key h) seen) hs)"

definition portfolio_new ::
  "uuid \<Rightarrow> string \<Rightarrow> string \<Rightarrow> currency \<Rightarrow> holding list \<Rightarrow> datetime \<Rightarrow> datetime \<Rightarrow> portfolio result" where
  "portfolio_new i user_id name c positions created updated =
     (case validate_user_id (trim user_id) of
        Inl e \<Rightarrow> Inl e
      | Inr u \<Rightarrow> (case validate_name (trim name) of
          Inl e \<Rightarrow> Inl e
        | Inr n \<Rightarrow> (case (normalize_timestamp created, normalize_timestamp updated) of
            (Some ct, Some ut) \<Rightarrow> (case validate_unique_positions {} positions of
              Inl e \<Rightarrow> Inl e
            | Inr _ \<Rightarrow> Inr \<lparr>pf_id = i, pf_user_id = u, pf_name = n, pf_currency = c, pf_positions = positions,
                pf_created_at = ct, pf_updated_at = ut\<rparr>)
          | _ \<Rightarrow> Inl ValidationError)))"

definition total_cost_basis :: "portfolio \<Rightarrow> decimal" where
  "total_cost_basis p = dsum (map cost_basis (pf_positions p))"

definition portfolio_get_position :: "portfolio \<Rightarrow> market \<Rightarrow> string \<Rightarrow> holding option" where
  "portfolio_get_position p m symbol =
     first_where (\<lambda>h. h_market h = m \<and> h_symbol h = normal_symbol symbol) (pf_positions p)"

section \<open>Events\<close>

text \<open>The source is the default, no correlation is given, and there is no causation.\<close>

definition portfolio_event :: "uuid \<Rightarrow> uuid \<Rightarrow> string \<Rightarrow> datetime \<Rightarrow> payload_dict \<Rightarrow> payload_dict envelope result" where
  "portfolio_event fresh_event fresh_correlation kind occurred p =
     envelope_new fresh_event kind 1 occurred ''portfolio-api'' fresh_correlation None None p"

definition create_portfolio_created_event :: "uuid \<Rightarrow> uuid \<Rightarrow> portfolio \<Rightarrow> payload_dict envelope result" where
  "create_portfolio_created_event i c p =
     portfolio_event i c ''portfolio.created'' (Aware (pf_created_at p))
       [(''portfolio_id'', VUuid (pf_id p)), (''user_id'', VText (pf_user_id p)), (''name'', VText (pf_name p)),
        (''currency'', VText (currency_name (pf_currency p))), (''created_at'', VTime (Aware (pf_created_at p)))]"

definition create_position_added_event :: "uuid \<Rightarrow> uuid \<Rightarrow> uuid \<Rightarrow> holding \<Rightarrow> payload_dict envelope result" where
  "create_position_added_event i c portfolio h =
     portfolio_event i c ''portfolio.position.added'' (Aware (h_created_at h))
       [(''portfolio_id'', VUuid portfolio), (''position_id'', VUuid (h_id h)), (''symbol'', VText (h_symbol h)),
        (''market'', VText (market_name (h_market h))), (''quantity'', VDecimal (h_quantity h)),
        (''average_cost'', VDecimal (h_average_cost h)), (''created_at'', VTime (Aware (h_created_at h)))]"

definition create_position_updated_event ::
  "uuid \<Rightarrow> uuid \<Rightarrow> uuid \<Rightarrow> holding \<Rightarrow> holding \<Rightarrow> payload_dict envelope result" where
  "create_position_updated_event i c portfolio previous h =
     portfolio_event i c ''portfolio.position.updated'' (Aware (h_updated_at h))
       [(''portfolio_id'', VUuid portfolio), (''position_id'', VUuid (h_id h)), (''symbol'', VText (h_symbol h)),
        (''market'', VText (market_name (h_market h))), (''previous_quantity'', VDecimal (h_quantity previous)),
        (''quantity'', VDecimal (h_quantity h)), (''previous_average_cost'', VDecimal (h_average_cost previous)),
        (''average_cost'', VDecimal (h_average_cost h)), (''updated_at'', VTime (Aware (h_updated_at h)))]"

definition create_position_removed_event ::
  "uuid \<Rightarrow> uuid \<Rightarrow> uuid \<Rightarrow> holding \<Rightarrow> datetime \<Rightarrow> payload_dict envelope result" where
  "create_position_removed_event i c portfolio h removed_at =
     (case removed_at of
        Naive _ \<Rightarrow> Inl (ValueError ''removed_at must be timezone-aware'')
      | Aware event_time \<Rightarrow> portfolio_event i c ''portfolio.position.removed'' (Aware event_time)
          [(''portfolio_id'', VUuid portfolio), (''position_id'', VUuid (h_id h)), (''symbol'', VText (h_symbol h)),
           (''market'', VText (market_name (h_market h))), (''quantity'', VDecimal (h_quantity h)),
           (''average_cost'', VDecimal (h_average_cost h)), (''removed_at'', VTime (Aware event_time))])"

section \<open>What construction gives\<close>

lemma holding_new_Inr:
  "holding_new i s m q c t u = Inr h \<Longrightarrow> h_id h = i \<and> h_market h = m \<and> h_quantity h = q \<and> h_average_cost h = c
     \<and> 0 < q \<and> 0 < c \<and> symbol_ok (h_symbol h)"
  by (auto simp: holding_new_def normalize_holding_symbol_def Let_def symbol_ok_def split: option.splits if_splits)

lemma holding_new_ok:
  "symbol_ok s \<Longrightarrow> 0 < q \<Longrightarrow> 0 < c \<Longrightarrow> holding_new i s m q c (Aware t) (Aware u) =
     Inr \<lparr>h_id = i, h_symbol = s, h_market = m, h_quantity = q, h_average_cost = c, h_created_at = t, h_updated_at = u\<rparr>"
  by (simp add: holding_new_def normalize_holding_symbol_def normalize_timestamp_def trim_symbol_ok symbol_ok_def)

lemma holding_new_refused: "q \<le> 0 \<or> c \<le> 0 \<Longrightarrow> holding_new i s m q c t u = Inl ValidationError"
  by (auto simp: holding_new_def split: option.splits)

lemma portfolio_event_Inr:
  assumes "kind \<in> {''portfolio.created'', ''portfolio.position.added'', ''portfolio.position.updated'', ''portfolio.position.removed''}"
  shows "portfolio_event i c kind (Aware t) p = Inr \<lparr>event_id = i, event_type = kind, schema_version = 1, occurred_at = t,
    source = ''portfolio-api'', correlation_id = c, causation_id = None, trace_context = None, payload = p\<rparr>"
proof -
  have k: "trim kind = kind" "validate_event_type kind = Inr kind" "length_between 3 128 kind"
    using assms by (elim insertE emptyE; simp; code_simp)+
  have s: "trim ''portfolio-api'' = ''portfolio-api''" "validate_source ''portfolio-api'' = Inr ''portfolio-api''"
    by code_simp+
  show ?thesis
    by (simp add: portfolio_event_def envelope_new_def k s length_between_def [of _ _ "''portfolio-api''"] validate_occurred_at_def)
qed

end
