(* ===== verification/Portfolio_Store.thy ===== *)
theory Portfolio_Store
  imports Portfolio_Domain Outbox_Store Identifiers
begin

text \<open>
  The tables of portfolios and of their positions (\<open>libs/database/models/portfolio.py\<close>), what the
  server checks at a flush, and \<open>PortfolioRepository\<close> (\<open>libs/database/repositories/portfolio.py\<close>).
  A reading method is a function of the tables, a writing method gives the tables it leaves in the
  session. The outbox is a table of the same database.
\<close>

section \<open>Rows\<close>

record portfolio_row =
  pr_id :: uuid
  pr_user_id :: string
  pr_name :: string
  pr_currency :: string
  pr_created_at :: int
  pr_updated_at :: int

record holding_row =
  hr_id :: uuid
  hr_portfolio_id :: uuid
  hr_symbol :: string
  hr_market :: string
  hr_quantity :: decimal
  hr_average_cost :: decimal
  hr_created_at :: int
  hr_updated_at :: int

record portfolio_tables =
  pt_portfolios :: "portfolio_row list"
  pt_positions :: "holding_row list"
  pt_outbox :: "payload_dict outbox_row list"

text \<open>
  A \<open>Numeric(38, 10)\<close> column rounds what it stores to ten decimals, half away from zero, and takes
  no more than 28 digits before the point.
\<close>

definition numeric :: "decimal \<Rightarrow> decimal" where
  "numeric q = of_int (round_half_up (q * 10 ^ 10)) / 10 ^ 10"

definition numeric_fits :: "decimal \<Rightarrow> bool" where
  "numeric_fits q \<longleftrightarrow> \<bar>numeric q\<bar> < 10 ^ 28"

definition portfolio_row_fits :: "portfolio_row \<Rightarrow> bool" where
  "portfolio_row_fits r \<longleftrightarrow> length (pr_user_id r) \<le> 128 \<and> length (pr_name r) \<le> 100 \<and> length (pr_currency r) \<le> 3"

definition holding_row_fits :: "holding_row \<Rightarrow> bool" where
  "holding_row_fits r \<longleftrightarrow> length (hr_symbol r) \<le> 32 \<and> length (hr_market r) \<le> 16
     \<and> numeric_fits (hr_quantity r) \<and> numeric_fits (hr_average_cost r)"

definition instrument_column :: "holding_row \<Rightarrow> uuid \<times> string \<times> string" where
  "instrument_column r = (hr_portfolio_id r, hr_market r, hr_symbol r)"

definition position_unique_constraint :: string where
  "position_unique_constraint = ''uq_positions_portfolio_market_symbol''"

definition portfolio_flush :: "portfolio_tables \<Rightarrow> unit result" where
  "portfolio_flush t =
     (if \<not> (list_all portfolio_row_fits (pt_portfolios t) \<and> list_all holding_row_fits (pt_positions t))
      then Inl (ExternalError ''DataError'')
      else if \<not> distinct (map pr_id (pt_portfolios t)) then Inl (IntegrityError ''portfolios_pkey'')
      else if \<not> distinct (map hr_id (pt_positions t)) then Inl (IntegrityError ''positions_pkey'')
      else if \<not> distinct (map instrument_column (pt_positions t)) then Inl (IntegrityError position_unique_constraint)
      else if \<not> set (map hr_portfolio_id (pt_positions t)) \<subseteq> set (map pr_id (pt_portfolios t))
      then Inl (IntegrityError ''positions_portfolio_id_fkey'')
      else Inr ())"

section \<open>Rows and domain objects\<close>

definition parse_market :: "string \<Rightarrow> market result" where
  "parse_market s = (if s = ''US'' then Inr US else if s = ''JP'' then Inr JP
     else Inl (ValueError ''not a valid Market''))"

definition to_domain_position :: "holding_row \<Rightarrow> holding result" where
  "to_domain_position r =
     (case parse_market (hr_market r) of
        Inl e \<Rightarrow> Inl e
      | Inr m \<Rightarrow> holding_new (hr_id r) (hr_symbol r) m (hr_quantity r) (hr_average_cost r)
          (Aware (hr_created_at r)) (Aware (hr_updated_at r)))"

fun all_results :: "'a result list \<Rightarrow> 'a list result" where
  "all_results [] = Inr []"
| "all_results (Inl e # rs) = Inl e"
| "all_results (Inr a # rs) = map_sum id (Cons a) (all_results rs)"

definition to_domain_portfolio :: "holding_row list \<Rightarrow> portfolio_row \<Rightarrow> portfolio result" where
  "to_domain_portfolio positions r =
     (case all_results (map to_domain_position (filter (\<lambda>m. hr_portfolio_id m = pr_id r) positions)) of
        Inl e \<Rightarrow> Inl e
      | Inr hs \<Rightarrow> (case currency_value (pr_currency r) of
          None \<Rightarrow> Inl (ValueError ''not a valid Currency'')
        | Some c \<Rightarrow> portfolio_new (pr_id r) (pr_user_id r) (pr_name r) c hs
            (Aware (pr_created_at r)) (Aware (pr_updated_at r))))"

definition holding_row_of :: "uuid \<Rightarrow> holding \<Rightarrow> holding_row" where
  "holding_row_of portfolio h =
     \<lparr>hr_id = h_id h, hr_portfolio_id = portfolio, hr_symbol = h_symbol h, hr_market = market_name (h_market h),
      hr_quantity = numeric (h_quantity h), hr_average_cost = numeric (h_average_cost h),
      hr_created_at = h_created_at h, hr_updated_at = h_updated_at h\<rparr>"

definition portfolio_row_of :: "portfolio \<Rightarrow> portfolio_row" where
  "portfolio_row_of p =
     \<lparr>pr_id = pf_id p, pr_user_id = pf_user_id p, pr_name = pf_name p, pr_currency = currency_name (pf_currency p),
      pr_created_at = pf_created_at p, pr_updated_at = pf_updated_at p\<rparr>"

section \<open>The repository\<close>

definition load_or_none :: "('r \<Rightarrow> 'a result) \<Rightarrow> 'r option \<Rightarrow> 'a option result" where
  "load_or_none to_domain r = (case r of None \<Rightarrow> Inr None | Some m \<Rightarrow> map_sum id Some (to_domain m))"

definition repo_get_portfolio :: "uuid \<Rightarrow> portfolio_tables \<Rightarrow> portfolio option result" where
  "repo_get_portfolio i t =
     load_or_none (to_domain_portfolio (pt_positions t)) (first_where (\<lambda>r. pr_id r = i) (pt_portfolios t))"

definition repo_create_portfolio :: "portfolio \<Rightarrow> portfolio_tables \<Rightarrow> portfolio_tables" where
  "repo_create_portfolio p t = t\<lparr>pt_portfolios := pt_portfolios t @ [portfolio_row_of p]\<rparr>"

definition repo_list_portfolios :: "string \<Rightarrow> portfolio_tables \<Rightarrow> portfolio list result" where
  "repo_list_portfolios user_id t =
     all_results (map (to_domain_portfolio (pt_positions t))
       (order_rows (\<lambda>x y. pr_created_at x \<le> pr_created_at y) (filter (\<lambda>r. pr_user_id r = user_id) (pt_portfolios t))))"

definition touch_portfolio :: "uuid \<Rightarrow> int \<Rightarrow> portfolio_tables \<Rightarrow> portfolio_tables" where
  "touch_portfolio i timestamp t =
     t\<lparr>pt_portfolios := update_where (\<lambda>r. pr_id r = i) (\<lambda>r. r\<lparr>pr_updated_at := timestamp\<rparr>) (pt_portfolios t)\<rparr>"

definition repo_add_position :: "uuid \<Rightarrow> holding \<Rightarrow> portfolio_tables \<Rightarrow> portfolio_tables" where
  "repo_add_position portfolio h t =
     touch_portfolio portfolio (h_updated_at h) (t\<lparr>pt_positions := pt_positions t @ [holding_row_of portfolio h]\<rparr>)"

definition repo_get_position :: "uuid \<Rightarrow> market \<Rightarrow> string \<Rightarrow> portfolio_tables \<Rightarrow> holding option result" where
  "repo_get_position portfolio m symbol t =
     load_or_none to_domain_position (first_where (\<lambda>r. hr_portfolio_id r = portfolio \<and> hr_market r = market_name m
       \<and> hr_symbol r = normal_symbol symbol) (pt_positions t))"

definition is_position :: "uuid \<Rightarrow> uuid \<Rightarrow> holding_row \<Rightarrow> bool" where
  "is_position portfolio i r \<longleftrightarrow> hr_portfolio_id r = portfolio \<and> hr_id r = i"

definition repo_get_position_by_id :: "uuid \<Rightarrow> uuid \<Rightarrow> portfolio_tables \<Rightarrow> holding option result" where
  "repo_get_position_by_id portfolio i t =
     load_or_none to_domain_position (first_where (is_position portfolio i) (pt_positions t))"

text \<open>What update and delete return is the loaded object; \<open>None\<close> if the row is missing.\<close>

definition set_position :: "holding \<Rightarrow> holding_row \<Rightarrow> holding_row" where
  "set_position h r = r\<lparr>hr_quantity := numeric (h_quantity h), hr_average_cost := numeric (h_average_cost h),
     hr_updated_at := h_updated_at h\<rparr>"

definition repo_update_position ::
  "uuid \<Rightarrow> holding \<Rightarrow> portfolio_tables \<Rightarrow> (holding option result \<times> portfolio_tables)" where
  "repo_update_position portfolio h t =
     (case first_where (is_position portfolio (h_id h)) (pt_positions t) of
        None \<Rightarrow> (Inr None, t)
      | Some r \<Rightarrow>
          (map_sum id Some (to_domain_position (r\<lparr>hr_quantity := h_quantity h, hr_average_cost := h_average_cost h,
             hr_updated_at := h_updated_at h\<rparr>)),
           touch_portfolio portfolio (h_updated_at h)
             (t\<lparr>pt_positions := update_where (is_position portfolio (h_id h)) (set_position h) (pt_positions t)\<rparr>)))"

definition repo_delete_position ::
  "uuid \<Rightarrow> uuid \<Rightarrow> int \<Rightarrow> portfolio_tables \<Rightarrow> (holding option result \<times> portfolio_tables)" where
  "repo_delete_position portfolio i timestamp t =
     (case first_where (is_position portfolio i) (pt_positions t) of
        None \<Rightarrow> (Inr None, t)
      | Some r \<Rightarrow> (case to_domain_position r of
          Inl e \<Rightarrow> (Inl e, t)
        | Inr h \<Rightarrow> (Inr (Some h), touch_portfolio portfolio timestamp
            (t\<lparr>pt_positions := filter (\<lambda>r. \<not> is_position portfolio i r) (pt_positions t)\<rparr>))))"

text \<open>The order of texts is the collation of the database, a parameter.\<close>

definition repo_list_positions :: "(string \<Rightarrow> string \<Rightarrow> bool) \<Rightarrow> uuid \<Rightarrow> portfolio_tables \<Rightarrow> holding list result" where
  "repo_list_positions collation portfolio t =
     all_results (map to_domain_position (order_rows
       (\<lambda>x y. if hr_market x = hr_market y then collation (hr_symbol x) (hr_symbol y) else collation (hr_market x) (hr_market y))
       (filter (\<lambda>r. hr_portfolio_id r = portfolio) (pt_positions t))))"

end
