(* ===== verification/Portfolio_Service.thy ===== *)
theory Portfolio_Service
  imports Portfolio_Store
begin

text \<open>
  \<open>PortfolioService\<close> (\<open>services/api/portfolio/service.py\<close>) and the ownership check and error answers
  of its routes (\<open>services/api/routes/portfolio.py\<close>). An operation runs in a unit of work: a program
  over the committed tables and the tables its session sees. Each statement sees what other
  transactions have committed by then (READ COMMITTED); the lock of a position's row keeps them off
  this row from the locking read to the commit.
\<close>

section \<open>The unit of work\<close>

record portfolio_uow =
  pu_db :: portfolio_tables
  pu_view :: portfolio_tables
  pu_step :: nat

text \<open>
  What an operation draws and meets: fresh identifiers, clock readings, what other transactions
  commit before each of its statements, and a failure of the commit.
\<close>

record portfolio_env =
  pv_new_id :: uuid
  pv_event_id :: uuid
  pv_correlation_id :: uuid
  pv_row_id :: uuid
  pv_created_at :: int
  pv_updated_at :: int
  pv_clock :: int
  pv_others :: "nat \<Rightarrow> portfolio_tables \<Rightarrow> portfolio_tables"
  pv_commit_error :: "error option"

definition await :: "portfolio_env \<Rightarrow> (portfolio_uow, unit) prog" where
  "await env = update_state (\<lambda>u. let t = pv_others env (pu_step u) (pu_db u) in
     \<lparr>pu_db = t, pu_view = t, pu_step = Suc (pu_step u)\<rparr>)"

definition viewing :: "(portfolio_tables \<Rightarrow> 'a result) \<Rightarrow> (portfolio_uow, 'a) prog" where
  "viewing f = (\<lambda>u. (f (pu_view u), u))"

definition selecting :: "portfolio_env \<Rightarrow> (portfolio_tables \<Rightarrow> 'a result) \<Rightarrow> (portfolio_uow, 'a) prog" where
  "selecting env f = bind (await env) (\<lambda>_. viewing f)"

text \<open>A write of the session with its flush.\<close>

definition flushing :: "(portfolio_tables \<Rightarrow> portfolio_tables) \<Rightarrow> (portfolio_uow, unit) prog" where
  "flushing f = bind (update_state (\<lambda>u. u\<lparr>pu_view := f (pu_view u)\<rparr>)) (\<lambda>_. viewing portfolio_flush)"

definition recording ::
  "portfolio_env \<Rightarrow> uuid \<Rightarrow> payload_dict envelope \<Rightarrow> (portfolio_uow, unit) prog" where
  "recording env portfolio event = (\<lambda>u.
     case add_event (pv_row_id env) (pv_clock env) ''portfolio'' (uuid_str portfolio) event (pt_outbox (pu_view u)) of
       Inl e \<Rightarrow> (Inl e, u)
     | Inr rows \<Rightarrow> (Inr (), u\<lparr>pu_view := (pu_view u)\<lparr>pt_outbox := rows\<rparr>\<rparr>))"

definition committing :: "portfolio_env \<Rightarrow> (portfolio_uow, unit) prog" where
  "committing env = (case pv_commit_error env of
     Some e \<Rightarrow> raise e | None \<Rightarrow> update_state (\<lambda>u. u\<lparr>pu_db := pu_view u\<rparr>))"

text \<open>Leaving the unit of work discards what the session sees and nobody committed.\<close>

definition in_uow :: "(portfolio_uow, 'a) prog \<Rightarrow> (portfolio_tables, 'a) prog" where
  "in_uow body = (\<lambda>t. case body \<lparr>pu_db = t, pu_view = t, pu_step = 0\<rparr> of (r, u) \<Rightarrow> (r, pu_db u))"

section \<open>Operations\<close>

definition require_portfolio :: "portfolio_env \<Rightarrow> uuid \<Rightarrow> (portfolio_uow, portfolio) prog" where
  "require_portfolio env i =
     bind (selecting env (repo_get_portfolio i)) (\<lambda>p.
     case p of None \<Rightarrow> raise PortfolioNotFoundError | Some p \<Rightarrow> ret p)"

definition create_portfolio :: "portfolio_env \<Rightarrow> string \<Rightarrow> string \<Rightarrow> currency \<Rightarrow> (portfolio_tables, portfolio) prog" where
  "create_portfolio env user_id name c =
     bind (of_result (portfolio_new (pv_new_id env) user_id name c [] (Aware (pv_created_at env)) (Aware (pv_updated_at env))))
       (\<lambda>p. in_uow (
     bind (await env) (\<lambda>_.
     bind (flushing (repo_create_portfolio p)) (\<lambda>_.
     bind (viewing (repo_get_portfolio (pf_id p))) (\<lambda>found.
     case found of
       None \<Rightarrow> raise (RuntimeError ''created portfolio could not be reloaded'')
     | Some result \<Rightarrow>
         bind (of_result (create_portfolio_created_event (pv_event_id env) (pv_correlation_id env) result)) (\<lambda>event.
         bind (recording env (pf_id result) event) (\<lambda>_.
         bind (committing env) (\<lambda>_. ret result))))))))"

definition get_portfolio :: "portfolio_env \<Rightarrow> uuid \<Rightarrow> (portfolio_tables, portfolio) prog" where
  "get_portfolio env i = in_uow (require_portfolio env i)"

definition list_portfolios :: "portfolio_env \<Rightarrow> string \<Rightarrow> (portfolio_tables, portfolio list) prog" where
  "list_portfolios env user_id = in_uow (selecting env (repo_list_portfolios user_id))"

definition add_position_body ::
  "portfolio_env \<Rightarrow> uuid \<Rightarrow> string \<Rightarrow> market \<Rightarrow> decimal \<Rightarrow> decimal \<Rightarrow> (portfolio_uow, holding) prog" where
  "add_position_body env portfolio symbol m quantity average_cost =
     bind (require_portfolio env portfolio) (\<lambda>_.
     bind (selecting env (repo_get_position portfolio m symbol)) (\<lambda>existing.
     case existing of
       Some _ \<Rightarrow> raise PositionAlreadyExistsError
     | None \<Rightarrow>
         bind (of_result (holding_new (pv_new_id env) symbol m quantity average_cost
                 (Aware (pv_created_at env)) (Aware (pv_updated_at env)))) (\<lambda>h.
         bind (await env) (\<lambda>_.
         bind (flushing (repo_add_position portfolio h)) (\<lambda>_.
         bind (of_result (create_position_added_event (pv_event_id env) (pv_correlation_id env) portfolio h)) (\<lambda>event.
         bind (recording env portfolio event) (\<lambda>_.
         bind (committing env) (\<lambda>_. ret h))))))))"

text \<open>The violated constraint of an \<open>IntegrityError\<close> decides which error the caller sees.\<close>

definition add_position ::
  "portfolio_env \<Rightarrow> uuid \<Rightarrow> string \<Rightarrow> market \<Rightarrow> decimal \<Rightarrow> decimal \<Rightarrow> (portfolio_tables, holding) prog" where
  "add_position env portfolio symbol m quantity average_cost =
     try_except (in_uow (add_position_body env portfolio symbol m quantity average_cost))
       (\<lambda>e. raise (if e = IntegrityError position_unique_constraint then PositionAlreadyExistsError else e))"

definition require_position :: "portfolio_env \<Rightarrow> uuid \<Rightarrow> uuid \<Rightarrow> (portfolio_uow, holding) prog" where
  "require_position env portfolio i =
     bind (require_portfolio env portfolio) (\<lambda>_.
     bind (selecting env (repo_get_position_by_id portfolio i)) (\<lambda>existing.
     case existing of None \<Rightarrow> raise PositionNotFoundError | Some h \<Rightarrow> ret h))"

definition update_position ::
  "portfolio_env \<Rightarrow> uuid \<Rightarrow> uuid \<Rightarrow> decimal option \<Rightarrow> decimal option \<Rightarrow> (portfolio_tables, holding) prog" where
  "update_position env portfolio i quantity average_cost =
     bind (raise_if (quantity = None \<and> average_cost = None) (ValueError ''at least one position field must be provided''))
       (\<lambda>_. in_uow (
     bind (require_position env portfolio i) (\<lambda>existing.
     bind (of_result (holding_new (h_id existing) (h_symbol existing) (h_market existing)
             (case quantity of None \<Rightarrow> h_quantity existing | Some q \<Rightarrow> q)
             (case average_cost of None \<Rightarrow> h_average_cost existing | Some c \<Rightarrow> c)
             (Aware (h_created_at existing)) (Aware (pv_updated_at env)))) (\<lambda>updated.
     bind (viewing (\<lambda>t. Inr (fst (repo_update_position portfolio updated t)))) (\<lambda>loaded.
     bind (flushing (\<lambda>t. snd (repo_update_position portfolio updated t))) (\<lambda>_.
     bind (of_result loaded) (\<lambda>found.
     case found of
       None \<Rightarrow> raise PositionNotFoundError
     | Some result \<Rightarrow>
         bind (of_result (create_position_updated_event (pv_event_id env) (pv_correlation_id env) portfolio existing result))
           (\<lambda>event.
         bind (recording env portfolio event) (\<lambda>_.
         bind (committing env) (\<lambda>_. ret result))))))))))"

definition delete_position :: "portfolio_env \<Rightarrow> uuid \<Rightarrow> uuid \<Rightarrow> (portfolio_tables, unit) prog" where
  "delete_position env portfolio i = in_uow (
     bind (require_position env portfolio i) (\<lambda>_.
     bind (viewing (\<lambda>t. fst (repo_delete_position portfolio i (pv_updated_at env) t))) (\<lambda>found.
     bind (flushing (\<lambda>t. snd (repo_delete_position portfolio i (pv_updated_at env) t))) (\<lambda>_.
     case found of
       None \<Rightarrow> raise PositionNotFoundError
     | Some deleted \<Rightarrow>
         bind (of_result (create_position_removed_event (pv_event_id env) (pv_correlation_id env) portfolio deleted
                 (Aware (pv_updated_at env)))) (\<lambda>event.
         bind (recording env portfolio event) (\<lambda>_.
         committing env))))))"

definition list_positions ::
  "portfolio_env \<Rightarrow> (string \<Rightarrow> string \<Rightarrow> bool) \<Rightarrow> uuid \<Rightarrow> (portfolio_tables, holding list) prog" where
  "list_positions env collation portfolio = in_uow (
     bind (require_portfolio env portfolio) (\<lambda>_. selecting env (repo_list_positions collation portfolio)))"

section \<open>Routes\<close>

definition not_found :: "string \<Rightarrow> error" where
  "not_found detail = HTTPException 404 detail"

definition get_owned_portfolio :: "portfolio_env \<Rightarrow> string \<Rightarrow> uuid \<Rightarrow> (portfolio_tables, portfolio) prog" where
  "get_owned_portfolio env user_id i =
     bind (try_except (get_portfolio env i)
       (\<lambda>e. raise (if e = PortfolioNotFoundError then not_found ''portfolio not found'' else e))) (\<lambda>p.
     if pf_user_id p \<noteq> user_id then raise (not_found ''portfolio not found'') else ret p)"

definition portfolio_answer :: "error \<Rightarrow> error" where
  "portfolio_answer e = (case e of
     PortfolioNotFoundError \<Rightarrow> not_found ''portfolio not found''
   | PositionNotFoundError \<Rightarrow> not_found ''position not found''
   | PositionAlreadyExistsError \<Rightarrow> HTTPException 409 ''position already exists''
   | _ \<Rightarrow> e)"

text \<open>A route draws one environment for the ownership check and one for the operation.\<close>

definition route_add_position ::
  "portfolio_env \<Rightarrow> portfolio_env \<Rightarrow> string \<Rightarrow> uuid \<Rightarrow> string \<Rightarrow> market \<Rightarrow> decimal \<Rightarrow> decimal
   \<Rightarrow> (portfolio_tables, holding) prog" where
  "route_add_position check env user_id portfolio symbol m quantity average_cost =
     bind (get_owned_portfolio check user_id portfolio) (\<lambda>_.
     try_except (add_position env portfolio symbol m quantity average_cost)
       (\<lambda>e. raise (case e of IntegrityError _ \<Rightarrow> HTTPException 409 ''position already exists'' | _ \<Rightarrow> portfolio_answer e)))"

definition route_update_position ::
  "portfolio_env \<Rightarrow> portfolio_env \<Rightarrow> string \<Rightarrow> uuid \<Rightarrow> uuid \<Rightarrow> decimal option \<Rightarrow> decimal option
   \<Rightarrow> (portfolio_tables, holding) prog" where
  "route_update_position check env user_id portfolio i quantity average_cost =
     bind (get_owned_portfolio check user_id portfolio) (\<lambda>_.
     try_except (update_position env portfolio i quantity average_cost) (\<lambda>e. raise (portfolio_answer e)))"

definition route_delete_position ::
  "portfolio_env \<Rightarrow> portfolio_env \<Rightarrow> string \<Rightarrow> uuid \<Rightarrow> uuid \<Rightarrow> (portfolio_tables, unit) prog" where
  "route_delete_position check env user_id portfolio i =
     bind (get_owned_portfolio check user_id portfolio) (\<lambda>_.
     try_except (delete_position env portfolio i) (\<lambda>e. raise (portfolio_answer e)))"

end
