(* ===== verification/Portfolio_Replay.thy ===== *)
theory Portfolio_Replay
  imports Portfolio_Service
begin

text \<open>
  What an operation of the portfolio service does to the tables: it leaves them to the other
  transactions when it raises, and otherwise appends one event to the outbox whose replay is the
  change. Replaying the events of the outbox is the specification of the tables.
\<close>

section \<open>Replay\<close>

text \<open>The contents that events carry: the rows without the time of their last update.\<close>

definition portfolio_fact :: "portfolio_row \<Rightarrow> portfolio_row" where
  "portfolio_fact r = r\<lparr>pr_updated_at := 0\<rparr>"

definition holding_fact :: "holding_row \<Rightarrow> holding_row" where
  "holding_fact r = r\<lparr>hr_updated_at := 0\<rparr>"

type_synonym contents = "portfolio_row list \<times> holding_row list"

definition contents :: "portfolio_tables \<Rightarrow> contents" where
  "contents t = (map portfolio_fact (pt_portfolios t), map holding_fact (pt_positions t))"

definition event_log :: "portfolio_tables \<Rightarrow> (string \<times> payload_dict) list" where
  "event_log t = map (\<lambda>m. (ob_event_type m, ob_payload m)) (pt_outbox t)"

definition created_row :: "payload_dict \<Rightarrow> portfolio_row option" where
  "created_row p = (case (model_field uuid_value p ''portfolio_id'', model_field text_value p ''user_id'',
       model_field text_value p ''name'', model_field text_value p ''currency'', model_field time_value p ''created_at'') of
     (Some i, Some u, Some n, Some c, Some (Aware ct)) \<Rightarrow>
       Some \<lparr>pr_id = i, pr_user_id = u, pr_name = n, pr_currency = c, pr_created_at = ct, pr_updated_at = 0\<rparr>
   | _ \<Rightarrow> None)"

definition added_row :: "payload_dict \<Rightarrow> holding_row option" where
  "added_row p = (case (model_field uuid_value p ''portfolio_id'', model_field uuid_value p ''position_id'',
       model_field text_value p ''symbol'', model_field text_value p ''market'', model_field decimal_value p ''quantity'',
       model_field decimal_value p ''average_cost'', model_field time_value p ''created_at'') of
     (Some f, Some i, Some s, Some m, Some q, Some c, Some (Aware ct)) \<Rightarrow>
       Some \<lparr>hr_id = i, hr_portfolio_id = f, hr_symbol = s, hr_market = m, hr_quantity = numeric q,
         hr_average_cost = numeric c, hr_created_at = ct, hr_updated_at = 0\<rparr>
   | _ \<Rightarrow> None)"

definition updated_positions :: "payload_dict \<Rightarrow> holding_row list \<Rightarrow> holding_row list" where
  "updated_positions p hs = (case (model_field uuid_value p ''portfolio_id'', model_field uuid_value p ''position_id'',
       model_field decimal_value p ''quantity'', model_field decimal_value p ''average_cost'') of
     (Some f, Some i, Some q, Some c) \<Rightarrow>
       update_where (is_position f i) (\<lambda>r. r\<lparr>hr_quantity := numeric q, hr_average_cost := numeric c\<rparr>) hs
   | _ \<Rightarrow> hs)"

definition remaining_positions :: "payload_dict \<Rightarrow> holding_row list \<Rightarrow> holding_row list" where
  "remaining_positions p hs = (case (model_field uuid_value p ''portfolio_id'', model_field uuid_value p ''position_id'') of
     (Some f, Some i) \<Rightarrow> filter (\<lambda>r. \<not> is_position f i r) hs
   | _ \<Rightarrow> hs)"

definition apply_event :: "string \<times> payload_dict \<Rightarrow> contents \<Rightarrow> contents" where
  "apply_event e c = (case e of (kind, p) \<Rightarrow>
     if kind = ''portfolio.created'' then (fst c @ (case created_row p of None \<Rightarrow> [] | Some r \<Rightarrow> [r]), snd c)
     else if kind = ''portfolio.position.added'' then (fst c, snd c @ (case added_row p of None \<Rightarrow> [] | Some r \<Rightarrow> [r]))
     else if kind = ''portfolio.position.updated'' then (fst c, updated_positions p (snd c))
     else if kind = ''portfolio.position.removed'' then (fst c, remaining_positions p (snd c))
     else c)"

definition replay :: "(string \<times> payload_dict) list \<Rightarrow> contents \<Rightarrow> contents" where
  "replay events c = fold apply_event events c"

lemma replay_append [simp]: "replay (xs @ ys) c = replay ys (replay xs c)"
  by (simp add: replay_def)

lemma replay_simps [simp]: "replay [] c = c" "replay (e # es) c = replay es (apply_event e c)"
  by (simp_all add: replay_def)

section \<open>The statements of a unit of work\<close>

text \<open>The committed tables before the first \<open>n\<close> statements, and the state that has run them.\<close>

definition after_others :: "portfolio_env \<Rightarrow> nat \<Rightarrow> portfolio_tables \<Rightarrow> portfolio_tables" where
  "after_others env n t = fold (pv_others env) [0..<n] t"

definition at_statement :: "portfolio_env \<Rightarrow> portfolio_tables \<Rightarrow> nat \<Rightarrow> portfolio_uow" where
  "at_statement env t n = \<lparr>pu_db = after_others env n t, pu_view = after_others env n t, pu_step = n\<rparr>"

lemma in_uow_run:
  "in_uow body t = (case body (at_statement env t 0) of (r, u) \<Rightarrow> (r, pu_db u))"
  by (simp add: in_uow_def at_statement_def after_others_def)

lemma at_statement_run [simp]:
  "await env (at_statement env t n) = (Inr (), at_statement env t (Suc n))"
  "viewing f (at_statement env t n) = (f (after_others env n t), at_statement env t n)"
  "pu_db (at_statement env t n) = after_others env n t" "pu_view (at_statement env t n) = after_others env n t"
  by (simp_all add: await_def at_statement_def after_others_def viewing_def Let_def)

lemma selecting_run [simp]:
  "selecting env f (at_statement env t n) = (f (after_others env (Suc n) t), at_statement env t (Suc n))"
  by (simp add: selecting_def bind_run)

lemma require_portfolio_run:
  "require_portfolio env i (at_statement env t n) =
     (case repo_get_portfolio i (after_others env (Suc n) t) of
        Inl e \<Rightarrow> Inl e | Inr None \<Rightarrow> Inl PortfolioNotFoundError | Inr (Some p) \<Rightarrow> Inr p, at_statement env t (Suc n))"
  by (simp add: require_portfolio_def bind_run split: sum.split option.split)

lemma require_position_run:
  "require_position env f i (at_statement env t n) = (r, u) \<Longrightarrow>
     (\<exists>m. u = at_statement env t m) \<and> (\<forall>h. r = Inr h \<longrightarrow> (\<exists>m. u = at_statement env t m
       \<and> repo_get_position_by_id f i (after_others env m t) = Inr (Some h)))"
  by (auto simp: require_position_def bind_run require_portfolio_run split: sum.splits option.splits)

text \<open>Everything from the write to the commit: the event is the last row of the outbox, or nothing happened.\<close>

definition write_and_record ::
  "portfolio_env \<Rightarrow> uuid \<Rightarrow> (portfolio_tables \<Rightarrow> portfolio_tables) \<Rightarrow> payload_dict envelope result \<Rightarrow> (portfolio_uow, unit) prog" where
  "write_and_record env i w event =
     bind (flushing w) (\<lambda>_. bind (of_result event) (\<lambda>e. bind (recording env i e) (\<lambda>_. committing env)))"

definition outbox_row_for :: "portfolio_env \<Rightarrow> uuid \<Rightarrow> payload_dict envelope \<Rightarrow> payload_dict outbox_row" where
  "outbox_row_for env i e = outbox_row_of (pv_row_id env) (pv_clock env) ''portfolio'' (uuid_str i) e"

lemma strip_portfolio [simp]: "strip ''portfolio'' = ''portfolio''"
  by code_simp

lemma write_and_record_run:
  assumes "write_and_record env i w event (at_statement env t n) = (r, u)"
  shows "case r of Inl _ \<Rightarrow> pu_db u = after_others env n t
    | Inr _ \<Rightarrow> \<exists>e. event = Inr e \<and> portfolio_flush (w (after_others env n t)) = Inr ()
        \<and> pu_db u = (w (after_others env n t))\<lparr>pt_outbox := pt_outbox (w (after_others env n t)) @ [outbox_row_for env i e]\<rparr>"
  using assms
  by (auto simp: write_and_record_def flushing_def bind_run viewing_def recording_def committing_def add_event_def
      outbox_flush_def outbox_row_for_def at_statement_def Let_def split: sum.splits option.splits if_splits)

section \<open>What the writes change\<close>

lemma event_payload_simps [simp]:
  "model_field d ((k', v) # fs) k = (if k = k' then d v else model_field d fs k)"
  by (simp add: model_field_def)

lemma holding_fact_simps [simp]:
  "hr_id (holding_fact r) = hr_id r" "hr_portfolio_id (holding_fact r) = hr_portfolio_id r"
  "is_position f i (holding_fact r) = is_position f i r"
  by (simp_all add: holding_fact_def is_position_def)

lemma contents_outbox [simp]: "contents (t\<lparr>pt_outbox := rows\<rparr>) = contents t"
  by (simp add: contents_def)

lemma contents_touch [simp]: "contents (touch_portfolio i at' t) = contents t"
  by (auto simp: contents_def touch_portfolio_def update_where_def portfolio_fact_def)

lemma outbox_touch [simp]: "pt_outbox (touch_portfolio i at' t) = pt_outbox t" "pt_positions (touch_portfolio i at' t) = pt_positions t"
  by (simp_all add: touch_portfolio_def)

lemma currency_value_name [simp]: "currency_value (currency_name c) = Some c"
  by (cases c) (simp_all add: currency_value_def)

text \<open>A portfolio that was constructed is its own normal form: reading its row gives its fields.\<close>

lemma portfolio_new_Inr:
  assumes "portfolio_new i u n c hs (Aware ct) (Aware ut) = Inr p"
  shows "pf_id p = i \<and> pf_currency p = c \<and> pf_positions p = hs \<and> pf_created_at p = ct \<and> pf_updated_at p = ut
    \<and> pf_user_id p = strip (trim u) \<and> pf_name p = strip (trim n)
    \<and> pf_user_id p \<noteq> [] \<and> length (pf_user_id p) \<le> 128 \<and> pf_name p \<noteq> [] \<and> length (pf_name p) \<le> 100"
  using assms by (auto simp: portfolio_new_def validate_user_id_def validate_name_def normalize_timestamp_def Let_def
      split: sum.splits if_splits)

definition portfolio_normal :: "portfolio \<Rightarrow> bool" where
  "portfolio_normal p \<longleftrightarrow> strip (pf_user_id p) = pf_user_id p \<and> strip (pf_name p) = pf_name p"

lemma portfolio_reloaded:
  assumes "portfolio_normal p" "to_domain_portfolio hs (portfolio_row_of p) = Inr q"
  shows "pf_id q = pf_id p \<and> pf_user_id q = pf_user_id p \<and> pf_name q = pf_name p \<and> pf_currency q = pf_currency p
    \<and> pf_created_at q = pf_created_at p"
proof -
  obtain ps where "portfolio_new (pf_id p) (pf_user_id p) (pf_name p) (pf_currency p) ps (Aware (pf_created_at p)) (Aware (pf_updated_at p)) = Inr q"
    using assms(2) by (auto simp: to_domain_portfolio_def portfolio_row_of_def split: sum.splits)
  from portfolio_new_Inr [OF this] show ?thesis using assms(1) by (simp add: portfolio_normal_def trim_strip)
qed

lemma created_change:
  assumes "portfolio_normal p" "to_domain_portfolio hs (portfolio_row_of p) = Inr q"
    and "create_portfolio_created_event i c q = Inr e"
  shows "contents (repo_create_portfolio p t) = apply_event (event_type e, payload e) (contents t)"
  using portfolio_reloaded [OF assms(1,2)] assms(3)
  by (auto simp: create_portfolio_created_event_def portfolio_event_Inr contents_def repo_create_portfolio_def apply_event_def
      created_row_def portfolio_fact_def portfolio_row_of_def)

lemma added_change:
  assumes "create_position_added_event i c f h = Inr e"
  shows "contents (repo_add_position f h t) = apply_event (event_type e, payload e) (contents t)"
  using assms
  by (auto simp: create_position_added_event_def portfolio_event_Inr repo_add_position_def contents_def [of "t\<lparr>pt_positions := _\<rparr>"]
      contents_def [of t] apply_event_def added_row_def holding_row_of_def holding_fact_def)

text \<open>The object an update returns, and the change of the row.\<close>

lemma update_position_found:
  assumes "repo_update_position f h t = (Inr (Some r), t')"
  shows "h_id r = h_id h \<and> h_quantity r = h_quantity h \<and> h_average_cost r = h_average_cost h \<and> h_updated_at r = h_updated_at h"
  using assms
  by (auto simp: repo_update_position_def to_domain_position_def is_position_def holding_new_def normalize_timestamp_def
      split: option.splits sum.splits if_splits dest!: first_where_Some)

lemma updated_change:
  assumes "repo_update_position f h t = (Inr (Some r), t')" "create_position_updated_event i c f previous r = Inr e"
  shows "contents t' = apply_event (event_type e, payload e) (contents t)"
proof -
  have t': "t' = touch_portfolio f (h_updated_at h) (t\<lparr>pt_positions := update_where (is_position f (h_id h)) (set_position h) (pt_positions t)\<rparr>)"
    using assms(1) by (auto simp: repo_update_position_def split: option.splits)
  have "map holding_fact (update_where (is_position f (h_id h)) (set_position h) hs) =
      update_where (is_position f (h_id h)) (\<lambda>r. r\<lparr>hr_quantity := numeric (h_quantity h), hr_average_cost := numeric (h_average_cost h)\<rparr>)
        (map holding_fact hs)" for hs
    by (auto simp: update_where_def holding_fact_def set_position_def is_position_def)
  then show ?thesis
    using assms(2) update_position_found [OF assms(1)]
    by (auto simp: create_position_updated_event_def portfolio_event_Inr t' contents_def [of "t\<lparr>pt_positions := _\<rparr>"]
        contents_def [of t] apply_event_def updated_positions_def)
qed

lemma removed_change:
  assumes "repo_delete_position f i at' t = (Inr (Some h), t')" "create_position_removed_event j c f h (Aware at') = Inr e"
  shows "contents t' = apply_event (event_type e, payload e) (contents t)"
proof -
  have h: "h_id h = i" "t' = touch_portfolio f at' (t\<lparr>pt_positions := filter (\<lambda>r. \<not> is_position f i r) (pt_positions t)\<rparr>)"
    using assms(1) by (auto simp: repo_delete_position_def to_domain_position_def is_position_def split: option.splits sum.splits
        dest!: first_where_Some holding_new_Inr)
  have "map holding_fact (filter (\<lambda>r. \<not> is_position f i r) hs) = filter (\<lambda>r. \<not> is_position f i r) (map holding_fact hs)" for hs
    by (induction hs) auto
  then show ?thesis
    using assms(2)
    by (auto simp: create_position_removed_event_def portfolio_event_Inr h contents_def [of "t\<lparr>pt_positions := _\<rparr>"]
        contents_def [of t] apply_event_def remaining_positions_def)
qed

end
