(* ===== verification/Portfolio_Outcome.thy ===== *)
theory Portfolio_Outcome
  imports Portfolio_Replay
begin

text \<open>
  The outcome of every operation, under any behaviour of the other transactions: nothing of its own
  when it raises; one change with its event, committed together, when it returns.
\<close>

definition outcome :: "portfolio_env \<Rightarrow> portfolio_tables \<Rightarrow> 'a result \<Rightarrow> portfolio_tables \<Rightarrow> bool" where
  "outcome env t r t' \<longleftrightarrow> (\<exists>n. case r of Inl _ \<Rightarrow> t' = after_others env n t
     | Inr _ \<Rightarrow> \<exists>i e. pt_outbox t' = pt_outbox (after_others env n t) @ [outbox_row_for env i e]
         \<and> contents t' = apply_event (event_type e, payload e) (contents (after_others env n t))
         \<and> portfolio_flush t' = Inr ())"

lemma outcome_Inl: "isl r \<Longrightarrow> t' = after_others env n t \<Longrightarrow> outcome env t r t'"
  by (auto simp: outcome_def isl_def)

lemma portfolio_flush_outbox [simp]: "portfolio_flush (t\<lparr>pt_outbox := rows\<rparr>) = portfolio_flush t"
  by (simp add: portfolio_flush_def)

lemma outcome_Inr:
  assumes "portfolio_flush w = Inr ()" "pt_outbox w = pt_outbox (after_others env n t)"
    and "contents w = apply_event (event_type e, payload e) (contents (after_others env n t))"
    and "t' = w\<lparr>pt_outbox := pt_outbox w @ [outbox_row_for env i e]\<rparr>"
  shows "outcome env t (Inr a) t'"
  unfolding outcome_def by (rule exI [of _ n]) (use assms in auto)

text \<open>The last steps of every operation, from a session that has flushed its write \<open>w\<close>.\<close>

definition wrote :: "portfolio_env \<Rightarrow> portfolio_tables \<Rightarrow> nat \<Rightarrow> portfolio_tables \<Rightarrow> portfolio_uow" where
  "wrote env t n w = (at_statement env t n)\<lparr>pu_view := w\<rparr>"

lemma wrote_simps [simp]:
  "viewing f (wrote env t n w) = (f w, wrote env t n w)" "pu_db (wrote env t n w) = after_others env n t"
  by (simp_all add: wrote_def viewing_def at_statement_def)

lemma flushing_run:
  "flushing f (at_statement env t n) = (portfolio_flush (f (after_others env n t)), wrote env t n (f (after_others env n t)))"
  by (simp add: flushing_def bind_run wrote_def viewing_def at_statement_def)

lemma recorded:
  assumes "bind (recording env i e) (\<lambda>_. bind (committing env) (\<lambda>_. ret a)) (wrote env t n w) = (r, u)"
    and "portfolio_flush w = Inr ()" "pt_outbox w = pt_outbox (after_others env n t)"
    and "contents w = apply_event (event_type e, payload e) (contents (after_others env n t))"
  shows "outcome env t r (pu_db u)"
proof (cases r)
  case (Inl x)
  then show ?thesis using assms(1)
    by (intro outcome_Inl [where n = n])
       (auto simp: bind_run recording_def committing_def wrote_def at_statement_def split: sum.splits option.splits)
next
  case (Inr x)
  have "pu_db u = w\<lparr>pt_outbox := pt_outbox w @ [outbox_row_for env i e]\<rparr>"
    using assms(1) Inr
    by (auto simp: bind_run recording_def committing_def wrote_def at_statement_def add_event_def outbox_flush_def
        outbox_row_for_def Let_def split: sum.splits option.splits if_splits)
  then show ?thesis unfolding Inr by (intro outcome_Inr [OF assms(2,3,4)])
qed

lemma bind_ret: "bind m ret = m"
  by (auto simp: fun_eq_iff bind_run split: prod.split sum.split)

section \<open>The operations\<close>

lemma create_outcome:
  assumes "create_portfolio env u n c t = (r, t')"
  shows "outcome env t r t'"
proof (cases "portfolio_new (pv_new_id env) u n c [] (Aware (pv_created_at env)) (Aware (pv_updated_at env))")
  case (Inl e)
  then have "r = Inl e \<and> t' = after_others env 0 t" using assms by (simp add: create_portfolio_def bind_run after_others_def)
  then show ?thesis by (intro outcome_Inl [where n = 0]) simp_all
next
  case (Inr p)
  have normal: "portfolio_normal p" using portfolio_new_Inr [OF Inr] by (simp add: portfolio_normal_def)
  let ?b = "after_others env (Suc 0) t"
  let ?w = "repo_create_portfolio p ?b"
  let ?found = "to_domain_portfolio (pt_positions ?w) (portfolio_row_of p)"
  note run = assms [unfolded create_portfolio_def bind_run [of "of_result (portfolio_new _ _ _ _ _ _ _)"] of_result_run Inr prod.case sum.case,
      unfolded in_uow_run [where env = env]]
  show ?thesis
  proof (cases "portfolio_flush ?w")
    case (Inl e)
    then show ?thesis using run by (auto simp: bind_run flushing_run intro!: outcome_Inl [where n = "Suc 0"])
  next
    case flushed: (Inr x)
    then have flush: "portfolio_flush ?w = Inr ()" by simp
    have first: "first_where (\<lambda>r. pr_id r = pf_id p) (pt_portfolios ?w) = Some (portfolio_row_of p)"
    proof -
      have d: "distinct (map pr_id (pt_portfolios ?w))" using flush by (auto simp: portfolio_flush_def split: if_splits)
      then have "first_where (\<lambda>r. pr_id r = pf_id p) (pt_portfolios ?b) = None"
        by (force simp: first_where_None repo_create_portfolio_def portfolio_row_of_def)
      then show ?thesis by (simp add: repo_create_portfolio_def first_where_append portfolio_row_of_def)
    qed
    show ?thesis
    proof (cases ?found)
      case (Inl e)
      then have "r = Inl e \<and> t' = after_others env (Suc 0) t"
        using run flush by (simp add: bind_run flushing_run repo_get_portfolio_def first load_or_none_def)
      then show ?thesis by (intro outcome_Inl [where n = "Suc 0"]) simp_all
    next
      case found: (Inr q)
      have id: "pf_id q = pf_id p" using portfolio_reloaded [OF normal found] by simp
      obtain e where e: "create_portfolio_created_event (pv_event_id env) (pv_correlation_id env) q = Inr e"
        by (simp add: create_portfolio_created_event_def portfolio_event_Inr)
      obtain v where v: "bind (recording env (pf_id q) e) (\<lambda>_. bind (committing env) (\<lambda>_. ret q)) (wrote env t (Suc 0) ?w) = (r, v)" "t' = pu_db v"
        using run flush found e by (auto simp: bind_run flushing_run repo_get_portfolio_def first load_or_none_def split: prod.splits)
      show ?thesis unfolding v(2)
        by (rule recorded [OF v(1) flush _ created_change [OF normal found e]]) (simp add: repo_create_portfolio_def)
    qed
  qed
qed

lemma add_body_outcome:
  assumes "in_uow (add_position_body env f s m q c) t = (r, t')"
  shows "outcome env t r t'"
proof -
  let ?p = "repo_get_portfolio f (after_others env 1 t)" and ?x = "repo_get_position f m s (after_others env 2 t)"
  let ?h = "holding_new (pv_new_id env) s m q c (Aware (pv_created_at env)) (Aware (pv_updated_at env))"
  note run = assms [unfolded in_uow_run [where env = env] add_position_body_def]
  note simps = bind_run require_portfolio_run flushing_run numeral_2_eq_2 numeral_3_eq_3
  consider (p) "\<And>p. ?p \<noteq> Inr (Some p)" | (x) p where "?p = Inr (Some p)" "?x \<noteq> Inr None"
    | (h) p e where "?p = Inr (Some p)" "?x = Inr None" "?h = Inl e" | (ok) p h where "?p = Inr (Some p)" "?x = Inr None" "?h = Inr h"
    by (cases ?h) fastforce+
  then show ?thesis
  proof cases
    case p
    then show ?thesis using run by (auto simp: simps intro!: outcome_Inl [where n = 1] split: sum.splits option.splits)
  next
    case x
    then show ?thesis using run by (auto simp: simps intro!: outcome_Inl [where n = 2] split: sum.splits option.splits)
  next
    case h
    then have "r = Inl e \<and> t' = after_others env 2 t" using run by (simp add: simps)
    then show ?thesis by (intro outcome_Inl [where n = 2]) simp_all
  next
    case ok
    let ?w = "repo_add_position f h (after_others env 3 t)"
    obtain e where e: "create_position_added_event (pv_event_id env) (pv_correlation_id env) f h = Inr e"
      by (simp add: create_position_added_event_def portfolio_event_Inr)
    show ?thesis
    proof (cases "portfolio_flush ?w")
      case (Inl x)
      then show ?thesis using run ok by (auto simp: simps intro!: outcome_Inl [where n = 3])
    next
      case (Inr x)
      then have flush: "portfolio_flush ?w = Inr ()" by simp
      obtain v where v: "bind (recording env f e) (\<lambda>_. bind (committing env) (\<lambda>_. ret h)) (wrote env t 3 ?w) = (r, v)" "t' = pu_db v"
        using run flush ok e by (auto simp: simps split: prod.splits)
      show ?thesis unfolding v(2)
        by (rule recorded [OF v(1) flush _ added_change [OF e]]) (simp add: repo_add_position_def)
    qed
  qed
qed

lemma add_outcome:
  assumes "add_position env f s m q c t = (r, t')"
  shows "outcome env t r t'"
proof -
  obtain r0 where r0: "in_uow (add_position_body env f s m q c) t = (r0, t')" "\<And>a. r = Inr a \<Longrightarrow> r0 = Inr a" "\<And>e. r = Inl e \<Longrightarrow> \<exists>e'. r0 = Inl e'"
    using assms by (auto simp: add_position_def try_except_def split: prod.splits sum.splits)
  then show ?thesis using add_body_outcome [OF r0(1)] by (cases r) (auto simp: outcome_def)
qed

lemma require_position_outcome:
  assumes "require_position env f i (at_statement env t 0) = (Inl e, u)"
  shows "outcome env t (Inl e :: 'a result) (pu_db u)"
  using require_position_run [OF assms] by (auto intro!: outcome_Inl)

lemma update_outcome:
  assumes "update_position env f i q c t = (r, t')"
  shows "outcome env t r t'"
proof (cases "q = None \<and> c = None")
  case True
  then have "isl r \<and> t' = after_others env 0 t"
    using assms by (auto simp: update_position_def bind_run after_others_def)
  then show ?thesis by (intro outcome_Inl [where n = 0]) simp_all
next
  case False
  obtain r0 u where p: "require_position env f i (at_statement env t 0) = (r0, u)" by fastforce
  note run = assms [unfolded update_position_def in_uow_run [where env = env] bind_run [of "raise_if _ _"], simplified False]
  show ?thesis
  proof (cases r0)
    case (Inl e)
    then have "isl r \<and> t' = pu_db u" using run p by (auto simp: bind_run in_uow_run [where env = env])
    then show ?thesis using require_position_outcome [OF p [unfolded Inl]] by (auto simp: outcome_def isl_def)
  next
    case (Inr existing)
    then obtain n where u: "u = at_statement env t n" using require_position_run [OF p] by blast
    let ?new = "holding_new (h_id existing) (h_symbol existing) (h_market existing)
             (case q of None \<Rightarrow> h_quantity existing | Some q \<Rightarrow> q) (case c of None \<Rightarrow> h_average_cost existing | Some c \<Rightarrow> c)
             (Aware (h_created_at existing)) (Aware (pv_updated_at env))"
    show ?thesis
    proof (cases ?new)
      case (Inl e)
      then have "r = Inl e \<and> t' = after_others env n t" using run p Inr u by (simp add: bind_run in_uow_run [where env = env])
      then show ?thesis by (intro outcome_Inl [where n = n]) simp_all
    next
      case new: (Inr h)
      obtain loaded w where w: "repo_update_position f h (after_others env n t) = (loaded, w)" by fastforce
      show ?thesis
      proof (cases "isl (portfolio_flush w) \<or> isl loaded \<or> loaded = Inr None")
        case True
        then have "isl r \<and> t' = after_others env n t" using run p Inr u new w
          by (auto simp: bind_run in_uow_run [where env = env] flushing_run isl_def split: sum.splits)
        then show ?thesis by (intro outcome_Inl [where n = n]) simp_all
      next
        case False
        then obtain result where loaded: "loaded = Inr (Some result)" "portfolio_flush w = Inr ()"
          by (cases loaded; cases "portfolio_flush w") auto
        obtain e where e: "create_position_updated_event (pv_event_id env) (pv_correlation_id env) f existing result = Inr e"
          by (simp add: create_position_updated_event_def portfolio_event_Inr)
        obtain v where v: "bind (recording env f e) (\<lambda>_. bind (committing env) (\<lambda>_. ret result)) (wrote env t n w) = (r, v)" "t' = pu_db v"
          using run p Inr u new w loaded e by (auto simp: bind_run in_uow_run [where env = env] flushing_run split: prod.splits)
        have "pt_outbox w = pt_outbox (after_others env n t)"
          using w by (auto simp: repo_update_position_def split: option.splits)
        then show ?thesis unfolding v(2)
          by (rule recorded [OF v(1) loaded(2) _ updated_change [OF w [unfolded loaded] e]])
      qed
    qed
  qed
qed

lemma delete_outcome:
  assumes "delete_position env f i t = (r, t')"
  shows "outcome env t r t'"
proof -
  obtain r0 u where p: "require_position env f i (at_statement env t 0) = (r0, u)" by fastforce
  note run = assms [unfolded delete_position_def in_uow_run [where env = env]]
  show ?thesis
  proof (cases r0)
    case (Inl e)
    then have "isl r \<and> t' = pu_db u" using run p by (auto simp: bind_run)
    then show ?thesis using require_position_outcome [OF p [unfolded Inl]] by (auto simp: outcome_def isl_def)
  next
    case (Inr existing)
    then obtain n where u: "u = at_statement env t n" using require_position_run [OF p] by blast
    obtain found w where w: "repo_delete_position f i (pv_updated_at env) (after_others env n t) = (found, w)" by fastforce
    show ?thesis
    proof (cases "isl (portfolio_flush w) \<or> isl found \<or> found = Inr None")
      case True
      then have "isl r \<and> t' = after_others env n t" using run p Inr u w
        by (cases "portfolio_flush w"; cases found) (auto simp: bind_run flushing_run, metis sum.disc(1))
      then show ?thesis by (intro outcome_Inl [where n = n]) simp_all
    next
      case False
      then obtain h where found: "found = Inr (Some h)" "portfolio_flush w = Inr ()"
        by (cases found; cases "portfolio_flush w") auto
      obtain e where e: "create_position_removed_event (pv_event_id env) (pv_correlation_id env) f h (Aware (pv_updated_at env)) = Inr e"
        by (simp add: create_position_removed_event_def portfolio_event_Inr)
      obtain v where v: "bind (recording env f e) (\<lambda>_. bind (committing env) (\<lambda>_. ret ())) (wrote env t n w) = (r, v)" "t' = pu_db v"
        using run p Inr u w found e by (auto simp: bind_run flushing_run bind_ret split: prod.splits)
      have "pt_outbox w = pt_outbox (after_others env n t)"
        using w by (auto simp: repo_delete_position_def split: option.splits sum.splits)
      then show ?thesis unfolding v(2)
        by (rule recorded [OF v(1) found(2) _ removed_change [OF w [unfolded found] e]])
    qed
  qed
qed

end
