(* ===== verification/Portfolio_Properties.thy ===== *)
theory Portfolio_Properties
  imports Portfolio_Outcome
begin

text \<open>
  The properties of the portfolio service over all histories of its tables: operations with any
  nesting of other transactions between their statements, and the outbox dispatcher at work.
\<close>

section \<open>Histories\<close>

datatype portfolio_call =
    Create string string currency
  | Add uuid string market decimal decimal
  | Update uuid uuid "decimal option" "decimal option"
  | Delete uuid uuid

definition no_answer :: "'a result \<Rightarrow> unit result" where
  "no_answer = map_sum id (\<lambda>_. ())"

fun run_portfolio_call :: "portfolio_env \<Rightarrow> portfolio_call \<Rightarrow> (portfolio_tables, unit) prog" where
  "run_portfolio_call env (Create u n c) t = (case create_portfolio env u n c t of (r, t') \<Rightarrow> (no_answer r, t'))"
| "run_portfolio_call env (Add f s m q c) t = (case add_position env f s m q c t of (r, t') \<Rightarrow> (no_answer r, t'))"
| "run_portfolio_call env (Update f i q c) t = (case update_position env f i q c t of (r, t') \<Rightarrow> (no_answer r, t'))"
| "run_portfolio_call env (Delete f i) t = delete_position env f i t"

text \<open>The outbox repository of the dispatcher, on the same database.\<close>

definition dispatcher_step :: "payload_dict outbox_row list \<Rightarrow> payload_dict outbox_row list \<Rightarrow> bool" where
  "dispatcher_step rows rows' \<longleftrightarrow>
     (\<exists>locked clock w n lease tm es. claim_pending locked clock w n lease tm rows = Inr (es, rows'))
     \<or> (\<exists>clock k w tm b. mark_published clock k w tm rows = Inr (b, rows'))
     \<or> (\<exists>clock k w err tm b. mark_failed clock k w err tm rows = Inr (b, rows'))"

text \<open>
  \<open>evolves t t'\<close>: the tables went from \<open>t\<close> to \<open>t'\<close>. What other transactions commit between the
  statements of a call is itself such an evolution.
\<close>

inductive evolves :: "portfolio_tables \<Rightarrow> portfolio_tables \<Rightarrow> bool" where
  unchanged: "evolves t t"
| called: "evolves t u \<Longrightarrow> (\<And>n x. evolves x (pv_others env n x)) \<Longrightarrow> run_portfolio_call env call u = (r, w) \<Longrightarrow> evolves t w"
| dispatched: "evolves t u \<Longrightarrow> dispatcher_step (pt_outbox u) rows \<Longrightarrow> evolves t (u\<lparr>pt_outbox := rows\<rparr>)"

definition no_tables :: portfolio_tables where
  "no_tables = \<lparr>pt_portfolios = [], pt_positions = [], pt_outbox = []\<rparr>"

lemma outcome_no_answer: "outcome env t (no_answer r) t' = outcome env t r t'"
  by (cases r) (simp_all add: outcome_def no_answer_def)

lemma call_outcome: "run_portfolio_call env call t = (r, t') \<Longrightarrow> outcome env t r t'"
  by (cases call) (auto split: prod.splits simp: outcome_no_answer
      intro: create_outcome add_outcome update_outcome delete_outcome)

lemma after_others_keeps: "(\<And>n x. P x \<Longrightarrow> P (pv_others env n x)) \<Longrightarrow> P t \<Longrightarrow> P (after_others env n t)"
  by (induction n) (simp_all add: after_others_def)

lemma event_log_append: "pt_outbox t' = pt_outbox t @ [outbox_row_for env i e] \<Longrightarrow> event_log t' = event_log t @ [(event_type e, payload e)]"
  by (simp add: event_log_def outbox_row_for_def outbox_row_of_def)

lemma outbox_flush_same: "outbox_flush rows = Inr rows' \<Longrightarrow> rows' = rows"
  by (simp add: outbox_flush_def split: if_splits)

definition event_column :: "payload_dict outbox_row \<Rightarrow> string \<times> payload_dict" where
  "event_column m = (ob_event_type m, ob_payload m)"

lemma event_column_update: "(\<And>m. event_column (f m) = event_column m) \<Longrightarrow> map event_column (update_where P f rows) = map event_column rows"
  by (rule map_update_where)

lemma claim_keeps_events: "claim_pending locked clock w n lease tm rows = Inr (es, rows') \<Longrightarrow> map event_column rows' = map event_column rows"
  by (auto simp: claim_pending_def Let_def event_column_def lock_row_def split: if_splits sum.splits
      dest!: outbox_flush_same intro!: event_column_update)

lemma published_keeps_events: "mark_published clock k w tm rows = Inr (b, rows') \<Longrightarrow> map event_column rows' = map event_column rows"
  by (cases "get_claimed_model k (strip w) rows"; cases "resolve_utc clock tm")
     (auto simp: mark_published_def Let_def event_column_def split: if_splits sum.splits
      dest!: outbox_flush_same intro!: event_column_update)

lemma failed_keeps_events: "mark_failed clock k w err tm rows = Inr (b, rows') \<Longrightarrow> map event_column rows' = map event_column rows"
  by (cases "get_claimed_model k (strip w) rows"; cases "resolve_utc clock (Some tm)")
     (auto simp: mark_failed_def Let_def event_column_def split: if_splits sum.splits
      dest!: outbox_flush_same intro!: event_column_update)

lemma dispatcher_step_events: "dispatcher_step rows rows' \<Longrightarrow> map event_column rows' = map event_column rows"
  unfolding dispatcher_step_def by (elim disjE exE) (rule claim_keeps_events published_keeps_events failed_keeps_events; assumption)+

lemma event_log_columns: "event_log t = map event_column (pt_outbox t)"
  by (simp add: event_log_def event_column_def fun_eq_iff)

text \<open>An evolution keeps the tables the replay of the outbox, and their keys unique.\<close>

definition rebuilt :: "portfolio_tables \<Rightarrow> bool" where
  "rebuilt t \<longleftrightarrow> contents t = replay (event_log t) ([], []) \<and> portfolio_flush t = Inr ()"

lemma evolves_rebuilt: "evolves t u \<Longrightarrow> rebuilt t \<Longrightarrow> rebuilt u"
proof (induction rule: evolves.induct)
  case (called t u env call r w)
  have o: "outcome env u r w" using call_outcome [OF called.hyps(3)] .
  have others: "rebuilt (after_others env n u)" for n
    by (rule after_others_keeps) (erule called.IH(2), rule called.IH(1) [OF called.prems])
  from o show ?case
  proof (cases r)
    case (Inl e)
    then show ?thesis using o others by (auto simp: outcome_def)
  next
    case (Inr a)
    then obtain n i e where w: "pt_outbox w = pt_outbox (after_others env n u) @ [outbox_row_for env i e]"
      "contents w = apply_event (event_type e, payload e) (contents (after_others env n u))" "portfolio_flush w = Inr ()"
      using o by (auto simp: outcome_def)
    show ?thesis using others [of n] w(2,3) by (simp add: rebuilt_def event_log_append [OF w(1)])
  qed
next
  case (dispatched t u rows)
  then show ?case using dispatcher_step_events [OF dispatched.hyps(2)] by (simp add: rebuilt_def event_log_columns)
qed simp

lemma flushed_keys:
  assumes "portfolio_flush t = Inr ()"
  shows "distinct (map pr_id (pt_portfolios t)) \<and> distinct (map hr_id (pt_positions t))
    \<and> distinct (map instrument_column (pt_positions t))
    \<and> (\<forall>r \<in> set (pt_positions t). \<exists>p \<in> set (pt_portfolios t). pr_id p = hr_portfolio_id r)"
proof -
  have "set (map hr_portfolio_id (pt_positions t)) \<subseteq> set (map pr_id (pt_portfolios t))"
    using assms by (auto simp: portfolio_flush_def split: if_splits)
  then have "\<forall>r \<in> set (pt_positions t). hr_portfolio_id r \<in> pr_id ` set (pt_portfolios t)" by auto
  then have "\<forall>r \<in> set (pt_positions t). \<exists>p \<in> set (pt_portfolios t). pr_id p = hr_portfolio_id r" by (metis imageE)
  then show ?thesis using assms by (auto simp: portfolio_flush_def split: if_splits)
qed

text \<open>
  C4. The outbox is a complete history of the portfolios: in every history, with any interleaving of
  transactions and with the dispatcher marking and locking rows, replaying the events of the outbox
  in order gives exactly the stored portfolios and positions (up to the times of their last update),
  and no portfolio holds two positions in one instrument or a position without a portfolio.
\<close>
theorem portfolio_events_rebuild:
  assumes "evolves no_tables t"
  shows "contents t = replay (event_log t) ([], []) \<and> distinct (map instrument_column (pt_positions t))
    \<and> distinct (map pr_id (pt_portfolios t))
    \<and> (\<forall>r \<in> set (pt_positions t). \<exists>p \<in> set (pt_portfolios t). pr_id p = hr_portfolio_id r)"
proof -
  have "rebuilt no_tables" by (simp add: rebuilt_def no_tables_def contents_def event_log_def portfolio_flush_def)
  then have "rebuilt t" by (rule evolves_rebuilt [OF assms])
  then show ?thesis using flushed_keys by (auto simp: rebuilt_def)
qed

text \<open>
  C13. An operation changes everything or nothing: whatever other transactions do, a call that raises
  leaves the tables as these left them, a failed commit included; a call that returns has added
  exactly one event to the outbox, and its replay is exactly the change of the tables.
\<close>
theorem portfolio_change_atomic:
  "\<exists>n. case run_portfolio_call env call t of
     (Inl e, t') \<Rightarrow> t' = after_others env n t
   | (Inr _, t') \<Rightarrow> \<exists>m. pt_outbox t' = pt_outbox (after_others env n t) @ [m] \<and> ob_aggregate_type m = ''portfolio''
       \<and> ob_published_at m = None \<and> contents t' = replay [(ob_event_type m, ob_payload m)] (contents (after_others env n t))"
proof -
  obtain r t' where c: "run_portfolio_call env call t = (r, t')" by fastforce
  from call_outcome [OF c] show ?thesis
    by (cases r) (fastforce simp: c outcome_def outbox_row_for_def outbox_row_of_def)+
qed

section \<open>Losing a race\<close>

text \<open>
  Two requests add the same instrument: both may pass the check that it is not held, and the
  unique constraint lets one in. The other sees the answer of the check, \<open>PositionAlreadyExistsError\<close>,
  not a database error, and leaves nothing behind.
\<close>
theorem position_race_lost:
  assumes "repo_get_portfolio f (after_others env 1 t) = Inr (Some p)"
    and "repo_get_position f m s (after_others env 2 t) = Inr None"
    and "holding_new (pv_new_id env) s m q c (Aware (pv_created_at env)) (Aware (pv_updated_at env)) = Inr h"
    and "after_others env 3 t = b" and "portfolio_flush b = Inr ()"
    and "numeric_fits (numeric q)" and "numeric_fits (numeric c)" and "pv_new_id env \<notin> hr_id ` set (pt_positions b)"
    and "(f, market_name m, h_symbol h) \<in> instrument_column ` set (pt_positions b)"
  shows "add_position env f s m q c t = (Inl PositionAlreadyExistsError, b)"
proof -
  have h: "h_id h = pv_new_id env" "h_market h = m" "h_quantity h = q" "h_average_cost h = c" "symbol_ok (h_symbol h)"
    using holding_new_Inr [OF assms(3)] by simp_all
  have b: "list_all portfolio_row_fits (pt_portfolios b)" "list_all holding_row_fits (pt_positions b)"
    "distinct (map pr_id (pt_portfolios b))" "distinct (map hr_id (pt_positions b))"
    using assms(5) by (auto simp: portfolio_flush_def split: if_splits)
  have len: "length (market_name m) \<le> 16" by (cases m) simp_all
  have "instrument_column (holding_row_of f h) \<in> instrument_column ` set (pt_positions b)"
    using assms(9) h(2) by (simp add: instrument_column_def holding_row_of_def)
  then have "portfolio_flush (repo_add_position f h b) = Inl (IntegrityError position_unique_constraint)"
    using b h len assms(6-8)
    by (auto simp: portfolio_flush_def repo_add_position_def touch_portfolio_def map_update_where list_all_iff set_update_where
        portfolio_row_fits_def holding_row_fits_def holding_row_of_def symbol_ok_def)
  then show ?thesis
    using assms(1-4)
    by (simp add: add_position_def try_except_def in_uow_run [where env = env] add_position_body_def bind_run require_portfolio_run
        flushing_run numeral_2_eq_2 numeral_3_eq_3)
qed

section \<open>The owner\<close>

text \<open>
  Only the owner gets through: whatever the request, a user who does not own the portfolio gets
  the answer for a portfolio that does not exist, from every route, and changes nothing.
\<close>
theorem route_owner_only:
  assumes "repo_get_portfolio f (after_others check 1 t) = Inr found" and "\<And>p. found = Some p \<Longrightarrow> pf_user_id p \<noteq> user"
  defines "refused \<equiv> HTTPException 404 ''portfolio not found''"
  shows "get_owned_portfolio check user f t = (Inl refused, after_others check 1 t)
    \<and> route_add_position check env user f s m q c t = (Inl refused, after_others check 1 t)
    \<and> route_update_position check env user f i q' c' t = (Inl refused, after_others check 1 t)
    \<and> route_delete_position check env user f i t = (Inl refused, after_others check 1 t)"
proof -
  have "get_owned_portfolio check user f t = (Inl refused, after_others check 1 t)"
    using assms(1,2)
    by (cases found) (simp_all add: get_owned_portfolio_def get_portfolio_def in_uow_run [where env = check] bind_run try_except_def
        require_portfolio_run not_found_def refused_def)
  then show ?thesis
    by (simp add: route_add_position_def route_update_position_def route_delete_position_def bind_run)
qed

section \<open>A quantity that rounds to nothing\<close>

lemma all_results_member: "all_results rs = Inr as \<Longrightarrow> r \<in> set rs \<Longrightarrow> \<exists>a. r = Inr a"
proof (induction rs arbitrary: as)
  case (Cons x rs)
  then show ?case by (cases x; cases "all_results rs") auto
qed simp

lemma recording_wrote: "recording env i e (wrote env t n w) =
    (case add_event (pv_row_id env) (pv_clock env) ''portfolio'' (uuid_str i) e (pt_outbox w) of
       Inl x \<Rightarrow> (Inl x, wrote env t n w) | Inr rows \<Rightarrow> (Inr (), wrote env t n (w\<lparr>pt_outbox := rows\<rparr>)))"
  by (simp add: recording_def wrote_def at_statement_def split: sum.split)

lemma committing_wrote: "committing env (wrote env t n w) =
    (case pv_commit_error env of Some e \<Rightarrow> (Inl e, wrote env t n w)
     | None \<Rightarrow> (Inr (), \<lparr>pu_db = w, pu_view = w, pu_step = n\<rparr>))"
  by (simp add: committing_def wrote_def at_statement_def split: option.split)

lemma added_position_stored:
  assumes "add_position env f s m q c t = (Inr h, t')"
  shows "holding_row_of f h \<in> set (pt_positions t')" "h_quantity h = q"
proof -
  have body: "in_uow (add_position_body env f s m q c) t = (Inr h, t')"
    using assms by (auto simp: add_position_def try_except_def split: prod.splits sum.splits)
  then have "holding_row_of f h \<in> set (pt_positions t') \<and> h_quantity h = q"
    by (auto simp: in_uow_run [where env = env] add_position_body_def bind_run require_portfolio_run flushing_run
        recording_wrote committing_wrote repo_add_position_def touch_portfolio_def
        split: sum.splits option.splits prod.splits dest!: holding_new_Inr)
  then show "holding_row_of f h \<in> set (pt_positions t')" "h_quantity h = q" by simp_all
qed

text \<open>
  C14. A quantity below half of the tenth decimal makes a portfolio unusable: the service accepts it
  and answers with it, but the column stores zero, and the stored row is no valid position. From then
  on no operation on the portfolio succeeds, reading it and deleting the position included.
\<close>
theorem tiny_quantity_bricks:
  assumes "add_position env f s m q c t = (Inr h, t')" and "q < 1 / (2 * 10 ^ 10)" and "pv_others env' = (\<lambda>_ x. x)"
  shows "0 < h_quantity h \<and> (\<exists>r \<in> set (pt_positions t'). hr_portfolio_id r = f \<and> hr_quantity r = 0)
    \<and> (\<exists>e. get_portfolio env' f t' = (Inl e, t')) \<and> (\<exists>e. add_position env' f s' m' q' c' t' = (Inl e, t'))
    \<and> (\<exists>e. update_position env' f i uq uc t' = (Inl e, t')) \<and> (\<exists>e. delete_position env' f i t' = (Inl e, t'))"
proof -
  have row: "holding_row_of f h \<in> set (pt_positions t')" and hq: "h_quantity h = q" using added_position_stored [OF assms(1)] by simp_all
  have pos: "0 < q"
    using assms(1) hq by (auto simp: add_position_def try_except_def in_uow_run [where env = env] add_position_body_def bind_run
        require_portfolio_run split: prod.splits sum.splits option.splits dest!: holding_new_Inr)
  have "\<bar>q * 10 ^ 10\<bar> < 1 / 2" using assms(2) pos by (simp add: abs_mult)
  then have zero: "hr_quantity (holding_row_of f h) = 0"
    by (simp add: holding_row_of_def numeric_def hq round_half_up_zero_iff [THEN iffD2])
  have same: "after_others env' n t' = t'" for n by (induction n) (simp_all add: after_others_def assms(3))
  have "repo_get_portfolio f t' \<noteq> Inr (Some p)" for p
  proof
    assume "repo_get_portfolio f t' = Inr (Some p)"
    then obtain r hs where r: "all_results (map to_domain_position (filter (\<lambda>m. hr_portfolio_id m = f) (pt_positions t'))) = Inr hs"
      by (auto simp: repo_get_portfolio_def load_or_none_def to_domain_portfolio_def dest!: first_where_Some split: option.splits sum.splits)
    have "hr_portfolio_id (holding_row_of f h) = f" by (simp add: holding_row_of_def)
    then have "to_domain_position (holding_row_of f h)
        \<in> set (map to_domain_position (filter (\<lambda>m. hr_portfolio_id m = f) (pt_positions t')))" using row by simp
    from all_results_member [OF r this] obtain a where "to_domain_position (holding_row_of f h) = Inr a" by blast
    then show False using zero by (auto simp: to_domain_position_def holding_new_refused split: sum.splits)
  qed
  then have "\<exists>e. \<forall>n. require_portfolio env' f (at_statement env' t' n) = (Inl e, at_statement env' t' (Suc n))"
    by (cases "repo_get_portfolio f t'") (auto simp: require_portfolio_run same split: option.splits)
  then obtain e where e: "require_portfolio env' f (at_statement env' t' n) = (Inl e, at_statement env' t' (Suc n))" for n by blast
  have "get_portfolio env' f t' = (Inl e, t')" "\<exists>e. add_position env' f s' m' q' c' t' = (Inl e, t')"
    "\<exists>e. update_position env' f i uq uc t' = (Inl e, t')" "\<exists>e. delete_position env' f i t' = (Inl e, t')"
    by (simp_all add: get_portfolio_def add_position_def add_position_body_def update_position_def delete_position_def require_position_def
        in_uow_run [where env = env'] bind_run e same try_except_def)
  moreover have "\<exists>r \<in> set (pt_positions t'). hr_portfolio_id r = f \<and> hr_quantity r = 0"
    by (rule bexI [OF _ row]) (simp add: zero, simp add: holding_row_of_def)
  ultimately show ?thesis using pos hq by blast
qed

section \<open>Instances\<close>

definition penv :: "nat \<Rightarrow> portfolio_env" where
  "penv k = \<lparr>pv_new_id = k, pv_event_id = k, pv_correlation_id = k, pv_row_id = k, pv_created_at = 1, pv_updated_at = 2,
     pv_clock = 3, pv_others = (\<lambda>_ t. t), pv_commit_error = None\<rparr>"

lemma penv_simps [simp]: "after_others (penv k) n t = t" "pv_new_id (penv k) = k" "pv_event_id (penv k) = k"
  "pv_correlation_id (penv k) = k" "pv_row_id (penv k) = k" "pv_created_at (penv k) = 1" "pv_updated_at (penv k) = 2"
  "pv_clock (penv k) = 3" "pv_others (penv k) = (\<lambda>_ x. x)" "pv_commit_error (penv k) = None"
  by (induction n) (simp_all add: penv_def after_others_def)

definition alice :: portfolio where
  "alice = \<lparr>pf_id = 7, pf_user_id = ''alice'', pf_name = ''Growth'', pf_currency = USD, pf_positions = [], pf_created_at = 1, pf_updated_at = 2\<rparr>"

lemma alice_new: "portfolio_new 7 '' alice'' ''Growth'' USD [] (Aware 1) (Aware 2) = Inr alice"
  "portfolio_new 7 ''alice'' ''Growth'' USD [] (Aware 1) (Aware 2) = Inr alice"
  by code_simp+

definition created_event :: "payload_dict envelope" where
  "created_event = (case create_portfolio_created_event 7 7 alice of Inr e \<Rightarrow> e)"

lemma created_event: "create_portfolio_created_event 7 7 alice = Inr created_event" "event_type created_event = ''portfolio.created''"
  "schema_version created_event = 1" "source created_event = ''portfolio-api''" "event_id created_event = 7"
  by (simp_all add: created_event_def create_portfolio_created_event_def portfolio_event_Inr)

definition tables1 :: portfolio_tables where
  "tables1 = \<lparr>pt_portfolios = [portfolio_row_of alice], pt_positions = [], pt_outbox = [outbox_row_for (penv 7) 7 created_event]\<rparr>"

lemma tables1_flush: "portfolio_flush tables1 = Inr ()" "repo_get_portfolio 7 tables1 = Inr (Some alice)"
  using alice_new(2)
  by (simp_all add: portfolio_flush_def tables1_def portfolio_row_fits_def portfolio_row_of_def alice_def repo_get_portfolio_def
      load_or_none_def to_domain_portfolio_def currency_value_def)

lemma tables1_created: "create_portfolio (penv 7) '' alice'' ''Growth'' USD no_tables = (Inr alice, tables1)"
proof -
  have w: "repo_create_portfolio alice no_tables = tables1\<lparr>pt_outbox := []\<rparr>"
    by (simp add: repo_create_portfolio_def no_tables_def tables1_def)
  have g: "repo_get_portfolio 7 (tables1\<lparr>pt_outbox := []\<rparr>) = Inr (Some alice)"
    using tables1_flush(2) by (simp add: repo_get_portfolio_def)
  have a: "add_event 7 3 ''portfolio'' (uuid_str 7) created_event [] = Inr [outbox_row_for (penv 7) 7 created_event]"
    by (simp add: add_event_def outbox_flush_def outbox_row_for_def outbox_row_of_def outbox_row_fits_def created_event outbox_keys_unique_def)
  have i: "pf_id alice = 7" by (simp add: alice_def)
  show ?thesis
    using alice_new(1) g a tables1_flush(1)
    by (simp add: create_portfolio_def bind_run in_uow_run [where env = "penv 7"] flushing_run w i created_event(1) recording_wrote
        committing_wrote del: One_nat_def) (simp add: tables1_def)
qed

definition holding_a :: "decimal \<Rightarrow> nat \<Rightarrow> holding" where
  "holding_a q k = \<lparr>h_id = k, h_symbol = ''AAPL'', h_market = US, h_quantity = q, h_average_cost = 5, h_created_at = 1, h_updated_at = 2\<rparr>"

definition added_event :: "decimal \<Rightarrow> payload_dict envelope" where
  "added_event q = (case create_position_added_event 8 8 7 (holding_a q 8) of Inr e \<Rightarrow> e)"

lemma added_event: "create_position_added_event 8 8 7 (holding_a q 8) = Inr (added_event q)"
  "event_type (added_event q) = ''portfolio.position.added''" "schema_version (added_event q) = 1"
  "source (added_event q) = ''portfolio-api''" "event_id (added_event q) = 8"
  by (simp_all add: added_event_def create_position_added_event_def portfolio_event_Inr)

definition tables2 :: "decimal \<Rightarrow> portfolio_tables" where
  "tables2 q = (repo_add_position 7 (holding_a q 8) tables1)\<lparr>pt_outbox := pt_outbox tables1 @ [outbox_row_for (penv 8) 7 (added_event q)]\<rparr>"

lemma aapl_normal: "normal_symbol '' aapl '' = ''AAPL''" "trim '' aapl '' = ''aapl''" "normal_symbol ''aapl'' = ''AAPL''"
  by code_simp+

lemma holding_a_new: "0 < q \<Longrightarrow> holding_new k '' aapl '' US q 5 (Aware 1) (Aware 2) = Inr (holding_a q k)"
  by (simp add: holding_new_def normalize_holding_symbol_def normalize_timestamp_def aapl_normal holding_a_def)

lemma numeric_bound: "\<bar>q\<bar> \<le> of_int n \<Longrightarrow> \<bar>numeric q\<bar> \<le> of_int (n + 1)"
proof -
  assume "\<bar>q\<bar> \<le> of_int n"
  then have "\<bar>q * 10 ^ 10\<bar> \<le> of_int (n * 10 ^ 10)" by (simp add: abs_mult)
  then have "\<bar>round_half_up (q * 10 ^ 10)\<bar> \<le> n * 10 ^ 10 + 1" by (rule round_half_up_bound)
  then have "\<bar>of_int (round_half_up (q * 10 ^ 10)) :: rat\<bar> \<le> of_int (n * 10 ^ 10 + 1)" by (metis of_int_abs of_int_le_iff)
  then show ?thesis by (simp add: numeric_def field_simps)
qed

lemma numeric_small: "\<bar>q\<bar> \<le> 100 \<Longrightarrow> numeric_fits (numeric q)"
  using numeric_bound [of q 100] numeric_bound [of "numeric q" 101] by (simp add: numeric_fits_def)

lemma numeric_five: "numeric 5 = 5"
  by (simp add: numeric_def round_half_up_def floor_eq_iff)

lemma tables2_flush: "numeric_fits (numeric q) \<Longrightarrow> portfolio_flush (repo_add_position 7 (holding_a q 8) tables1) = Inr ()"
  by (simp add: portfolio_flush_def repo_add_position_def touch_portfolio_def tables1_def update_where_def portfolio_row_fits_def
      portfolio_row_of_def alice_def holding_row_fits_def holding_row_of_def holding_a_def numeric_five numeric_fits_def)

lemma tables2_added:
  assumes "0 < q" "numeric_fits (numeric q)"
  shows "add_position (penv 8) 7 '' aapl '' US q 5 tables1 = (Inr (holding_a q 8), tables2 q)"
proof -
  have a: "add_event 8 3 ''portfolio'' (uuid_str 7) (added_event q) (pt_outbox tables1) =
      Inr (pt_outbox tables1 @ [outbox_row_for (penv 8) 7 (added_event q)])"
    unfolding add_event_def Let_def outbox_flush_def
    by (simp add: outbox_row_for_def outbox_row_of_def outbox_row_fits_def created_event added_event outbox_keys_unique_def tables1_def)
  have n: "repo_get_position 7 US '' aapl '' tables1 = Inr None" by (simp add: repo_get_position_def tables1_def load_or_none_def)
  have o: "pt_outbox (repo_add_position 7 (holding_a q 8) tables1) = pt_outbox tables1" by (simp add: repo_add_position_def)
  show ?thesis
    using a n tables1_flush(2) tables2_flush [OF assms(2)] holding_a_new [OF assms(1), of 8]
    by (simp add: add_position_def try_except_def add_position_body_def bind_run in_uow_run [where env = "penv 8"] require_portfolio_run
        flushing_run added_event(1) recording_wrote committing_wrote o tables2_def)
qed

lemma tables2_evolves: "evolves no_tables (tables2 10)"
proof -
  have first: "run_portfolio_call (penv 7) (Create '' alice'' ''Growth'' USD) no_tables = (Inr (), tables1)"
    by (simp add: tables1_created no_answer_def)
  have "run_portfolio_call (penv 8) (Add 7 '' aapl '' US 10 5) tables1 = (Inr (), tables2 10)"
    using tables2_added [of 10] numeric_small [of 10] by (simp add: no_answer_def)
  from evolves.called [OF evolves.called [OF evolves.unchanged _ first] _ this] show ?thesis by (simp add: evolves.unchanged)
qed

theorem portfolio_events_rebuild_witness:
  "length (pt_positions (tables2 10)) = 1 \<and> contents (tables2 10) = replay (event_log (tables2 10)) ([], [])"
  using portfolio_events_rebuild [OF tables2_evolves]
  by (simp add: tables2_def repo_add_position_def tables1_def)

definition race_env :: portfolio_env where
  "race_env = (penv 9)\<lparr>pv_others := (\<lambda>n t. if n = 2 then tables2 10 else t)\<rparr>"

theorem position_race_lost_witness:
  "add_position race_env 7 '' aapl '' US 3 5 tables1 = (Inl PositionAlreadyExistsError, tables2 10)"
proof -
  have after: "after_others race_env 1 tables1 = tables1" "after_others race_env 2 tables1 = tables1"
    "after_others race_env 3 tables1 = tables2 10"
    by (simp_all add: after_others_def race_env_def upt_conv_Cons numeral_2_eq_2 numeral_3_eq_3)
  have fits: "numeric_fits (numeric 10)" "numeric_fits (numeric 3)" "numeric_fits (numeric 5)"
    by (simp_all add: numeric_small)
  have new: "holding_new (pv_new_id race_env) '' aapl '' US 3 5 (Aware (pv_created_at race_env)) (Aware (pv_updated_at race_env)) =
      Inr (holding_a 3 9)" using holding_a_new [of 3 9] by (simp add: race_env_def)
  have n: "repo_get_position 7 US '' aapl '' tables1 = Inr None" by (simp add: repo_get_position_def tables1_def load_or_none_def)
  have positions: "pt_positions (tables2 10) = [holding_row_of 7 (holding_a 10 8)]"
    by (simp add: tables2_def repo_add_position_def tables1_def)
  have flush: "portfolio_flush (tables2 10) = Inr ()" using tables2_flush [OF fits(1)] by (simp add: tables2_def)
  show ?thesis
    using position_race_lost [where env = race_env and t = tables1 and p = alice and m = US and s = "'' aapl ''" and q = 3 and c = 5 and f = 7,
        OF _ _ new after(3) flush fits(2,3)] tables1_flush(2) n after(1,2)
    by (simp add: positions race_env_def instrument_column_def holding_row_of_def holding_a_def)
qed

theorem route_owner_only_witness:
  "route_delete_position (penv 1) (penv 2) ''mallory'' 7 8 tables1 = (Inl (HTTPException 404 ''portfolio not found''), tables1)"
  using route_owner_only [where check = "penv 1" and env = "penv 2" and user = "''mallory''" and f = 7 and i = 8 and t = tables1 and found = "Some alice"]
    tables1_flush(2) by (simp add: alice_def)

theorem tiny_quantity_bricks_witness:
  "\<exists>e t'. add_position (penv 8) 7 '' aapl '' US (1 / 10 ^ 11) 5 tables1 = (Inr (holding_a (1 / 10 ^ 11) 8), t')
    \<and> delete_position (penv 9) 7 8 t' = (Inl e, t')"
proof -
  have a: "add_position (penv 8) 7 '' aapl '' US (1 / 10 ^ 11) 5 tables1 = (Inr (holding_a (1 / 10 ^ 11) 8), tables2 (1 / 10 ^ 11))"
    by (rule tables2_added) (simp_all add: numeric_small)
  show ?thesis using tiny_quantity_bricks [OF a, of "penv 9"] a by auto
qed

end
