(* ===== verification/Twelve_Data.thy ===== *)
theory Twelve_Data
  imports Decimals
begin

text \<open>
  The Twelve Data provider (\<open>services/market_ingestor/providers/twelve_data.py\<close>): the readers of the
  fields of a JSON answer, the parsers of quotes and candles, and the requests for a price, a quote, a
  batch of quotes and a time series. The HTTP client is a parameter: the answer to an endpoint with
  its parameters is an error or a JSON value.
\<close>

section \<open>JSON values\<close>

text \<open>A float is the number its \<open>repr\<close> shows, \<open>None\<close> if it is not finite.\<close>

datatype jvalue =
    JvNull | JvBool bool | JvInt int | JvFloat "rat option" | JvText string
  | JvArray "jvalue list" | JvObject "(string \<times> jvalue) list"

type_synonym jobject = "(string \<times> jvalue) list"

definition payload_get :: "jobject \<Rightarrow> string \<Rightarrow> jvalue" where
  "payload_get payload k = (case map_of payload k of None \<Rightarrow> JvNull | Some v \<Rightarrow> v)"

section \<open>Numbers as text\<close>

definition is_digit :: "char \<Rightarrow> bool" where
  "is_digit c = (let n = of_char c :: nat in 48 \<le> n \<and> n \<le> 57)"

definition digits_value :: "string \<Rightarrow> int" where
  "digits_value s = foldl (\<lambda>a c. 10 * a + (of_char c - 48)) 0 s"

definition read_sign :: "string \<Rightarrow> int \<times> string" where
  "read_sign s = (case s of [] \<Rightarrow> (1, [])
     | c # r \<Rightarrow> if c = CHR ''-'' then (- 1, r) else if c = CHR ''+'' then (1, r) else (1, s))"

definition read_exponent :: "string \<Rightarrow> int option" where
  "read_exponent s = (case s of [] \<Rightarrow> Some 0
     | c # r \<Rightarrow> if c \<noteq> CHR ''e'' \<and> c \<noteq> CHR ''E'' then None
        else (case read_sign r of (sg, ds) \<Rightarrow>
          if ds = [] \<or> (\<exists>d \<in> set ds. \<not> is_digit d) then None else Some (sg * digits_value ds)))"

text \<open>\<open>Decimal(text)\<close> without the special values, which are not finite and refused later anyway.\<close>

definition decimal_of_text :: "string \<Rightarrow> decimal option" where
  "decimal_of_text s =
     (case read_sign (filter (\<lambda>c. c \<noteq> CHR ''_'') (strip s)) of (sg, r) \<Rightarrow>
      let ip = takeWhile is_digit r; r1 = dropWhile is_digit r;
          point = (r1 \<noteq> [] \<and> hd r1 = CHR ''.'');
          fp = (if point then takeWhile is_digit (tl r1) else []);
          r2 = (if point then dropWhile is_digit (tl r1) else r1)
      in if ip = [] \<and> fp = [] then None
         else case read_exponent r2 of
           None \<Rightarrow> None
         | Some e \<Rightarrow> Some (of_int (sg * digits_value (ip @ fp)) * 10 powi (e - int (length fp))))"

fun grouped_digits :: "string \<Rightarrow> bool" where
  "grouped_digits [] = False"
| "grouped_digits [c] = is_digit c"
| "grouped_digits (c # d # s) = (is_digit c \<and> (if d = CHR ''_'' then grouped_digits s else grouped_digits (d # s)))"

definition int_of_text :: "string \<Rightarrow> int option" where
  "int_of_text s = (case read_sign (strip s) of (sg, r) \<Rightarrow>
     if grouped_digits r then Some (sg * digits_value (filter is_digit r)) else None)"

section \<open>Fields\<close>

abbreviation bad :: "string \<Rightarrow> error" where
  "bad message \<equiv> TwelveDataResponseError message"

definition td_decimal :: "jvalue \<Rightarrow> string \<Rightarrow> decimal result" where
  "td_decimal value field_name = (case value of
     JvNull \<Rightarrow> Inl (bad (''Missing field: '' @ field_name))
   | JvInt n \<Rightarrow> Inr (of_int n)
   | JvFloat (Some q) \<Rightarrow> Inr q
   | JvText s \<Rightarrow> (case decimal_of_text s of
       None \<Rightarrow> Inl (bad (''Invalid decimal field: '' @ field_name)) | Some q \<Rightarrow> Inr q)
   | _ \<Rightarrow> Inl (bad (''Invalid decimal field: '' @ field_name)))"

text \<open>The text of a float has a point or an exponent, so it is no integer.\<close>

definition td_integer :: "jvalue \<Rightarrow> string \<Rightarrow> int result" where
  "td_integer value field_name = (case value of
     JvNull \<Rightarrow> Inl (bad (''Missing field: '' @ field_name))
   | JvInt n \<Rightarrow> Inr n
   | JvText s \<Rightarrow> (case int_of_text s of
       None \<Rightarrow> Inl (bad (''Invalid integer field: '' @ field_name)) | Some n \<Rightarrow> Inr n)
   | _ \<Rightarrow> Inl (bad (''Invalid integer field: '' @ field_name)))"

definition td_boolean :: "jvalue \<Rightarrow> string \<Rightarrow> bool result" where
  "td_boolean value field_name = (case value of
     JvBool b \<Rightarrow> Inr b | _ \<Rightarrow> Inl (bad (''Invalid boolean field: '' @ field_name)))"

definition required_string :: "jobject \<Rightarrow> string \<Rightarrow> string result" where
  "required_string payload field_name = (case payload_get payload field_name of
     JvNull \<Rightarrow> Inl (bad (''Missing field: '' @ field_name))
   | JvText s \<Rightarrow> (let r = strip s in if r = [] then Inl (bad (''Empty field: '' @ field_name)) else Inr r)
   | _ \<Rightarrow> Inl (bad (''Invalid string field: '' @ field_name)))"

text \<open>\<open>datetime.fromtimestamp\<close> takes the seconds of the years 1 to 9999; the result is in microseconds.\<close>

definition td_timestamp :: "jvalue \<Rightarrow> string \<Rightarrow> int result" where
  "td_timestamp value field_name = (case td_integer value field_name of
     Inl e \<Rightarrow> Inl e
   | Inr n \<Rightarrow> if - 62135596800 \<le> n \<and> n \<le> 253402300799 then Inr (seconds n)
       else Inl (bad (''Invalid timestamp field: '' @ field_name)))"

definition td_optional_timestamp :: "jvalue \<Rightarrow> string \<Rightarrow> int option result" where
  "td_optional_timestamp value field_name = (case value of
     JvNull \<Rightarrow> Inr None
   | JvText s \<Rightarrow> if strip s = [] then Inr None else map_sum id Some (td_timestamp (JvText (strip s)) field_name)
   | _ \<Rightarrow> map_sum id Some (td_timestamp value field_name))"

section \<open>Quotes\<close>

record year_range =
  yr_low :: decimal
  yr_high :: decimal
  yr_low_change :: decimal
  yr_high_change :: decimal
  yr_low_change_percent :: decimal
  yr_high_change_percent :: decimal
  yr_range :: string

record snapshot =
  sn_symbol :: string
  sn_name :: string
  sn_exchange :: string
  sn_mic_code :: string
  sn_currency :: string
  sn_open :: decimal
  sn_high :: decimal
  sn_low :: decimal
  sn_close :: decimal
  sn_previous_close :: decimal
  sn_change :: decimal
  sn_percent_change :: decimal
  sn_volume :: int
  sn_average_volume :: int
  sn_is_market_open :: bool
  sn_timestamp :: int
  sn_last_quote_at :: "int option"
  sn_fifty_two_week :: "year_range option"

text \<open>\<open>x \<leftarrow> m; k x\<close> on results: the first exception ends the construction.\<close>

definition try_then :: "'a result \<Rightarrow> ('a \<Rightarrow> 'b result) \<Rightarrow> 'b result" where
  "try_then m k = (case m of Inl e \<Rightarrow> Inl e | Inr a \<Rightarrow> k a)"

lemma try_then_Inr: "try_then m k = Inr b \<longleftrightarrow> (\<exists>a. m = Inr a \<and> k a = Inr b)"
  by (auto simp: try_then_def split: sum.split)

definition parse_fifty_two_week :: "jobject \<Rightarrow> year_range option result" where
  "parse_fifty_two_week payload = (case payload_get payload ''fifty_two_week'' of
     JvNull \<Rightarrow> Inr None
   | JvObject p \<Rightarrow>
       try_then (td_decimal (payload_get p ''low'') ''fifty_two_week.low'') (\<lambda>lo.
       try_then (td_decimal (payload_get p ''high'') ''fifty_two_week.high'') (\<lambda>hi.
       try_then (td_decimal (payload_get p ''low_change'') ''fifty_two_week.low_change'') (\<lambda>lc.
       try_then (td_decimal (payload_get p ''high_change'') ''fifty_two_week.high_change'') (\<lambda>hc.
       try_then (td_decimal (payload_get p ''low_change_percent'') ''fifty_two_week.low_change_percent'') (\<lambda>lp.
       try_then (td_decimal (payload_get p ''high_change_percent'') ''fifty_two_week.high_change_percent'') (\<lambda>hp.
       try_then (required_string p ''range'') (\<lambda>rg.
       if hi < lo then Inl (bad ''Invalid fifty_two_week range: high is lower than low'')
       else Inr (Some \<lparr>yr_low = lo, yr_high = hi, yr_low_change = lc, yr_high_change = hc,
              yr_low_change_percent = lp, yr_high_change_percent = hp, yr_range = rg\<rparr>))))))))
   | _ \<Rightarrow> Inl (bad ''Invalid field: fifty_two_week''))"

definition parse_quote_payload :: "jobject \<Rightarrow> snapshot result" where
  "parse_quote_payload p =
     try_then (required_string p ''symbol'') (\<lambda>symbol.
     try_then (required_string p ''name'') (\<lambda>nm.
     try_then (required_string p ''exchange'') (\<lambda>ex.
     try_then (required_string p ''mic_code'') (\<lambda>mic.
     try_then (required_string p ''currency'') (\<lambda>cur.
     try_then (td_decimal (payload_get p ''open'') ''open'') (\<lambda>op.
     try_then (td_decimal (payload_get p ''high'') ''high'') (\<lambda>hi.
     try_then (td_decimal (payload_get p ''low'') ''low'') (\<lambda>lo.
     try_then (td_decimal (payload_get p ''close'') ''close'') (\<lambda>cl.
     try_then (td_decimal (payload_get p ''previous_close'') ''previous_close'') (\<lambda>pc.
     try_then (td_decimal (payload_get p ''change'') ''change'') (\<lambda>ch.
     try_then (td_decimal (payload_get p ''percent_change'') ''percent_change'') (\<lambda>pch.
     try_then (td_integer (payload_get p ''volume'') ''volume'') (\<lambda>vol.
     try_then (td_integer (payload_get p ''average_volume'') ''average_volume'') (\<lambda>avol.
     try_then (td_boolean (payload_get p ''is_market_open'') ''is_market_open'') (\<lambda>mo.
     try_then (td_timestamp (payload_get p ''timestamp'') ''timestamp'') (\<lambda>ts.
     try_then (td_optional_timestamp (payload_get p ''last_quote_at'') ''last_quote_at'') (\<lambda>lq.
     try_then (parse_fifty_two_week p) (\<lambda>fw.
     Inr \<lparr>sn_symbol = upper symbol, sn_name = nm, sn_exchange = ex, sn_mic_code = mic, sn_currency = upper cur, sn_open = op,
       sn_high = hi, sn_low = lo, sn_close = cl, sn_previous_close = pc, sn_change = ch, sn_percent_change = pch,
       sn_volume = vol, sn_average_volume = avol, sn_is_market_open = mo, sn_timestamp = ts, sn_last_quote_at = lq,
       sn_fifty_two_week = fw\<rparr>))))))))))))))))))"

definition parse_expected_quote :: "jobject \<Rightarrow> string \<Rightarrow> snapshot result" where
  "parse_expected_quote payload expected_symbol =
     try_then (parse_quote_payload payload) (\<lambda>quote.
     if sn_symbol quote \<noteq> expected_symbol
     then Inl (bad ''Twelve Data quote symbol does not match requested symbol'') else Inr quote)"

section \<open>Requests\<close>

text \<open>
  The answer of the server, \<open>Inr None\<close> if its body is no JSON. An exception of the client is an \<open>httpx.HTTPError\<close>, also
  that of \<open>raise_for_status\<close>, or another one, which is not caught.
\<close>

type_synonym http_client = "string \<Rightarrow> (string \<times> string) list \<Rightarrow> jvalue option result"

record twelve_data =
  td_api_key :: string
  td_base_url :: string
  td_timeout_seconds :: rat

definition rstrip_slash :: "string \<Rightarrow> string" where
  "rstrip_slash s = rev (dropWhile (\<lambda>c. c = CHR ''/'') (rev s))"

definition twelve_data_new :: "string \<Rightarrow> string \<Rightarrow> rat \<Rightarrow> twelve_data result" where
  "twelve_data_new api_key base_url timeout =
     (if strip api_key = [] then Inl (ValueError ''api_key must not be empty'')
      else if rstrip_slash (strip base_url) = [] then Inl (ValueError ''base_url must not be empty'')
      else if timeout \<le> 0 then Inl (ValueError ''timeout_seconds must be greater than zero'')
      else Inr \<lparr>td_api_key = strip api_key, td_base_url = rstrip_slash (strip base_url), td_timeout_seconds = timeout\<rparr>)"

definition http_error :: error where
  "http_error = ExternalError ''httpx.HTTPError''"

definition td_request :: "http_client \<Rightarrow> string \<Rightarrow> (string \<times> string) list \<Rightarrow> jobject result" where
  "td_request client endpoint params = (case client endpoint params of
     Inl e \<Rightarrow> if e = http_error then Inl (TwelveDataRequestError ''Twelve Data request failed'') else Inl e
   | Inr None \<Rightarrow> Inl (bad ''Twelve Data returned invalid JSON'')
   | Inr (Some (JvObject payload)) \<Rightarrow>
       if payload_get payload ''status'' = JvText ''error'' then Inl (bad ''Twelve Data API error'') else Inr payload
   | Inr (Some _) \<Rightarrow> Inl (bad ''Twelve Data response must be a JSON object''))"

definition td_get_price :: "http_client \<Rightarrow> string \<Rightarrow> decimal result" where
  "td_get_price client symbol =
     (let normalized_symbol = normal_symbol symbol in
      if normalized_symbol = [] then Inl (ValueError ''symbol must not be empty'')
      else try_then (td_request client ''price'' [(''symbol'', normalized_symbol)]) (\<lambda>payload.
        td_decimal (payload_get payload ''price'') ''price''))"

definition td_get_quote :: "http_client \<Rightarrow> string \<Rightarrow> snapshot result" where
  "td_get_quote client symbol =
     (let normalized_symbol = normal_symbol symbol in
      if normalized_symbol = [] then Inl (ValueError ''symbol must not be empty'')
      else try_then (td_request client ''quote'' [(''symbol'', normalized_symbol)]) (\<lambda>payload.
        parse_expected_quote payload normalized_symbol))"

record batch_result =
  br_quotes :: "(string \<times> snapshot) list"
  br_errors :: "(string \<times> string) list"

fun normalize_symbols :: "string list \<Rightarrow> string list \<Rightarrow> string list result" where
  "normalize_symbols seen [] = Inr []"
| "normalize_symbols seen (s # ss) =
     (let n = normal_symbol s in
      if n = [] then Inl (ValueError ''symbols must not contain empty values'')
      else if n \<in> set seen then normalize_symbols seen ss
      else try_then (normalize_symbols (n # seen) ss) (\<lambda>ns. Inr (n # ns)))"

fun join_commas :: "string list \<Rightarrow> string" where
  "join_commas [] = []" | "join_commas [s] = s" | "join_commas (s # t # ss) = s @ '','' @ join_commas (t # ss)"

text \<open>The answer for one symbol of a batch: the later of two keys that are equal once normalised wins.\<close>

definition symbol_payload :: "jobject \<Rightarrow> string \<Rightarrow> jvalue" where
  "symbol_payload payload symbol = payload_get (rev (map (\<lambda>(k, v). (normal_symbol k, v)) payload)) symbol"

definition batch_item :: "jobject \<Rightarrow> string \<Rightarrow> string + snapshot" where
  "batch_item payload symbol = (case symbol_payload payload symbol of
     JvObject p \<Rightarrow>
       if payload_get p ''status'' = JvText ''error''
       then Inl ''Market data provider rejected the symbol or quota request.''
       else (case parse_expected_quote p symbol of
          Inl _ \<Rightarrow> Inl ''Invalid market data response.'' | Inr q \<Rightarrow> Inr q)
   | _ \<Rightarrow> Inl ''Market data was not returned.'')"

definition batch_of :: "(string \<times> (string + snapshot)) list \<Rightarrow> batch_result" where
  "batch_of items = \<lparr>br_quotes = concat (map (\<lambda>(s, r). case r of Inl _ \<Rightarrow> [] | Inr q \<Rightarrow> [(s, q)]) items),
     br_errors = concat (map (\<lambda>(s, r). case r of Inl e \<Rightarrow> [(s, e)] | Inr _ \<Rightarrow> []) items)\<rparr>"

definition td_get_quotes :: "http_client \<Rightarrow> string list \<Rightarrow> batch_result result" where
  "td_get_quotes client symbols =
     try_then (normalize_symbols [] symbols) (\<lambda>normalized_symbols.
     if normalized_symbols = [] then Inl (ValueError ''symbols must not be empty'')
     else try_then (td_request client ''quote'' [(''symbol'', join_commas normalized_symbols)]) (\<lambda>payload.
       if length normalized_symbols = 1 \<and> map_of payload ''symbol'' \<noteq> None
       then Inr (batch_of [(hd normalized_symbols, case parse_expected_quote payload (hd normalized_symbols) of
                   Inl _ \<Rightarrow> Inl ''Invalid market data response.'' | Inr q \<Rightarrow> Inr q)])
       else Inr (batch_of (map (\<lambda>s. (s, batch_item payload s)) normalized_symbols))))"

section \<open>Time series\<close>

record candle =
  cd_datetime :: string
  cd_open :: decimal
  cd_high :: decimal
  cd_low :: decimal
  cd_close :: decimal

definition parse_candle :: "jvalue \<Rightarrow> candle result" where
  "parse_candle item = (case item of
     JvObject p \<Rightarrow>
       try_then (required_string p ''datetime'') (\<lambda>dt.
       try_then (td_decimal (payload_get p ''open'') ''open'') (\<lambda>op.
       try_then (td_decimal (payload_get p ''high'') ''high'') (\<lambda>hi.
       try_then (td_decimal (payload_get p ''low'') ''low'') (\<lambda>lo.
       try_then (td_decimal (payload_get p ''close'') ''close'') (\<lambda>cl.
       if hi < lo then Inl (bad ''Invalid time-series OHLC: high is lower than low'')
       else if \<not> (lo \<le> op \<and> op \<le> hi) then Inl (bad ''Invalid time-series OHLC: open is outside high/low range'')
       else if \<not> (lo \<le> cl \<and> cl \<le> hi) then Inl (bad ''Invalid time-series OHLC: close is outside high/low range'')
       else Inr \<lparr>cd_datetime = dt, cd_open = op, cd_high = hi, cd_low = lo, cd_close = cl\<rparr>)))))
   | _ \<Rightarrow> Inl (bad ''Invalid time-series item''))"

fun parse_candles :: "jvalue list \<Rightarrow> candle list result" where
  "parse_candles [] = Inr []"
| "parse_candles (v # vs) = try_then (parse_candle v) (\<lambda>c. try_then (parse_candles vs) (\<lambda>cs. Inr (c # cs)))"

definition time_series_intervals :: "string list" where
  "time_series_intervals = [''1min'', ''5min'', ''15min'', ''30min'', ''45min'', ''1h'', ''2h'', ''4h'', ''8h'',
     ''1day'', ''1week'', ''1month'']"

text \<open>\<open>outputsize_text\<close> is \<open>str(outputsize)\<close>.\<close>

definition td_get_time_series :: "http_client \<Rightarrow> string \<Rightarrow> string \<Rightarrow> int \<Rightarrow> string \<Rightarrow> candle list result" where
  "td_get_time_series client symbol interval outputsize outputsize_text =
     (let normalized_symbol = normal_symbol symbol; normalized_interval = lower (strip interval) in
      if normalized_symbol = [] then Inl (ValueError ''symbol must not be empty'')
      else if normalized_interval \<notin> set time_series_intervals then Inl (ValueError ''unsupported time-series interval'')
      else if outputsize < 1 then Inl (ValueError ''outputsize must be positive'')
      else if 5000 < outputsize then Inl (ValueError ''outputsize must not exceed 5000'')
      else try_then (td_request client ''time_series'' [(''symbol'', normalized_symbol), (''interval'', normalized_interval),
             (''outputsize'', outputsize_text), (''order'', ''asc''), (''timezone'', ''UTC'')]) (\<lambda>payload.
        case payload_get payload ''values'' of
          JvArray raw_values \<Rightarrow> parse_candles raw_values
        | _ \<Rightarrow> Inl (bad ''Twelve Data time-series response must contain a values list'')))"

end
