(* ===== verification/Market_Batch.thy ===== *)
theory Market_Batch
  imports Twelve_Data Quote_Cache
begin

text \<open>
  The batch quotes of the API: \<open>MarketSnapshotCache\<close> (\<open>services/api/market_snapshot_cache.py\<close>) with a
  fresh and a stale copy of each quote, and \<open>BatchMarketQuoteService\<close> (\<open>services/api/market_batch.py\<close>),
  which asks the fresh cache, the provider and the stale cache in this order. A \<open>MarketQuoteResponse\<close>
  has the fields of the provider's snapshot, so it is that record; a cached text that does not parse is
  \<open>None\<close>.
\<close>

section \<open>The snapshot cache\<close>

type_synonym snapshot_redis = "snapshot option redis"

record snapshot_cache =
  sc_fresh_ttl_seconds :: int
  sc_stale_ttl_seconds :: int

definition snapshot_cache_new :: "int \<Rightarrow> int \<Rightarrow> snapshot_cache result" where
  "snapshot_cache_new fresh stale =
     (if fresh \<le> 0 then Inl (ValueError ''fresh_ttl_seconds must be greater than zero'')
      else if stale \<le> fresh then Inl (ValueError ''stale_ttl_seconds must be greater than fresh_ttl_seconds'')
      else Inr \<lparr>sc_fresh_ttl_seconds = fresh, sc_stale_ttl_seconds = stale\<rparr>)"

definition fresh_key :: "string \<Rightarrow> string" where
  "fresh_key symbol = ''realstock:market-snapshot:v1:fresh:'' @ symbol"

definition stale_key :: "string \<Rightarrow> string" where
  "stale_key symbol = ''realstock:market-snapshot:v1:stale:'' @ symbol"

definition deserialize :: "snapshot option option \<Rightarrow> snapshot option" where
  "deserialize raw = (case raw of None \<Rightarrow> None | Some q \<Rightarrow> q)"

text \<open>The dictionary a reading method returns.\<close>

definition get_many :: "(string \<Rightarrow> string) \<Rightarrow> int \<Rightarrow> string list \<Rightarrow> snapshot_redis \<Rightarrow> string \<Rightarrow> snapshot option" where
  "get_many key now symbols r symbol =
     (if symbol \<in> set symbols then deserialize (redis_get now (key symbol) r) else None)"

definition get_fresh_many where "get_fresh_many = get_many fresh_key"
definition get_stale_many where "get_stale_many = get_many stale_key"

definition put_commands :: "snapshot_cache \<Rightarrow> snapshot list \<Rightarrow> (int \<times> string \<times> snapshot) list" where
  "put_commands c quotes = concat (map (\<lambda>q.
     [(sc_fresh_ttl_seconds c, fresh_key (sn_symbol q), q), (sc_stale_ttl_seconds c, stale_key (sn_symbol q), q)]) quotes)"

definition run_commands :: "int \<Rightarrow> (int \<times> string \<times> snapshot) list \<Rightarrow> snapshot_redis \<Rightarrow> snapshot_redis" where
  "run_commands now cs r = fold (\<lambda>(ttl, k, q). redis_set now ttl k (Some q)) cs r"

text \<open>The pipeline is no transaction: a failure leaves the first commands done.\<close>

definition put_many :: "snapshot_cache \<Rightarrow> (nat \<times> error) option \<Rightarrow> int \<Rightarrow> snapshot list \<Rightarrow> (snapshot_redis, unit) prog" where
  "put_many c failure now quotes = (\<lambda>r.
     if quotes = [] then (Inr (), r)
     else case failure of
       None \<Rightarrow> (Inr (), run_commands now (put_commands c quotes) r)
     | Some (n, e) \<Rightarrow> (Inl e, run_commands now (take n (put_commands c quotes)) r))"

section \<open>The batch service\<close>

datatype item_status = ITEM_OK | ITEM_STALE | ITEM_ERROR

datatype item_source = FROM_PROVIDER | FROM_CACHE | FROM_STALE_CACHE

record quote_item =
  qi_symbol :: string
  qi_status :: item_status
  qi_source :: "item_source option"
  qi_quote :: "snapshot option"
  qi_error :: "string option"

record batch_response =
  bq_requested :: nat
  bq_succeeded :: nat
  bq_stale :: nat
  bq_failed :: nat
  bq_items :: "quote_item list"

record batch_env =
  be_cache :: snapshot_cache
  be_client :: http_client
  be_clock :: int
  be_fresh_failure :: "error option"
  be_put_failure :: "(nat \<times> error) option"
  be_stale_failure :: "error option"

text \<open>A read of the cache; a \<open>RedisError\<close> counts as an empty cache, another exception is not caught.\<close>

definition read_cache :: "error option \<Rightarrow> (string \<Rightarrow> snapshot option) \<Rightarrow> (string \<Rightarrow> snapshot option) result" where
  "read_cache failure found = (case failure of
     None \<Rightarrow> Inr found | Some (RedisError _) \<Rightarrow> Inr (\<lambda>_. None) | Some e \<Rightarrow> Inl e)"

definition suppress_redis_error :: "(snapshot_redis, unit) prog \<Rightarrow> (snapshot_redis, unit) prog" where
  "suppress_redis_error m = try_except m (\<lambda>e. case e of RedisError _ \<Rightarrow> ret () | _ \<Rightarrow> raise e)"

definition ask_provider ::
  "batch_env \<Rightarrow> string list \<Rightarrow> (snapshot_redis, (string \<Rightarrow> snapshot option) \<times> string set) prog" where
  "ask_provider env missing =
     (if missing = [] then ret (\<lambda>_. None, {})
      else case td_get_quotes (be_client env) missing of
        Inl (TwelveDataRequestError _) \<Rightarrow> ret (\<lambda>_. None, set missing)
      | Inl (TwelveDataResponseError _) \<Rightarrow> ret (\<lambda>_. None, set missing)
      | Inl e \<Rightarrow> raise e
      | Inr b \<Rightarrow>
          bind (if br_quotes b = [] then ret ()
                else suppress_redis_error (put_many (be_cache env) (be_put_failure env) (be_clock env) (map snd (br_quotes b))))
            (\<lambda>_. ret (map_of (br_quotes b), set (map fst (br_errors b)))))"

definition item_for ::
  "(string \<Rightarrow> snapshot option) \<Rightarrow> (string \<Rightarrow> snapshot option) \<Rightarrow> (string \<Rightarrow> snapshot option) \<Rightarrow> string set \<Rightarrow> string \<Rightarrow> quote_item" where
  "item_for fresh provided stale provider_errors symbol =
     (case fresh symbol of
        Some q \<Rightarrow> \<lparr>qi_symbol = symbol, qi_status = ITEM_OK, qi_source = Some FROM_CACHE, qi_quote = Some q, qi_error = None\<rparr>
      | None \<Rightarrow> (case provided symbol of
          Some q \<Rightarrow> \<lparr>qi_symbol = symbol, qi_status = ITEM_OK, qi_source = Some FROM_PROVIDER, qi_quote = Some q, qi_error = None\<rparr>
        | None \<Rightarrow> (case stale symbol of
            Some q \<Rightarrow> \<lparr>qi_symbol = symbol, qi_status = ITEM_STALE, qi_source = Some FROM_STALE_CACHE, qi_quote = Some q,
              qi_error = Some ''Live market data is temporarily unavailable. Returning the last cached snapshot.''\<rparr>
          | None \<Rightarrow> \<lparr>qi_symbol = symbol, qi_status = ITEM_ERROR, qi_source = None, qi_quote = None,
              qi_error = Some (if symbol \<in> provider_errors
                then ''The upstream market provider could not return this symbol.''
                else ''Market data is currently unavailable for this symbol.'')\<rparr>)))"

definition response_of :: "quote_item list \<Rightarrow> batch_response" where
  "response_of items =
     \<lparr>bq_requested = length items,
      bq_succeeded = length (filter (\<lambda>i. qi_status i = ITEM_OK) items),
      bq_stale = length (filter (\<lambda>i. qi_status i = ITEM_STALE) items),
      bq_failed = length (filter (\<lambda>i. qi_status i = ITEM_ERROR) items), bq_items = items\<rparr>"

definition batch_get_quotes :: "batch_env \<Rightarrow> string list \<Rightarrow> (snapshot_redis, batch_response) prog" where
  "batch_get_quotes env symbols =
     bind get_state (\<lambda>r.
     bind (if symbols = [] then ret (\<lambda>_. None)
           else of_result (read_cache (be_fresh_failure env) (get_fresh_many (be_clock env) symbols r))) (\<lambda>fresh.
     let missing = filter (\<lambda>s. fresh s = None) symbols in
     bind (ask_provider env missing) (\<lambda>(provided, provider_errors).
     let unresolved = filter (\<lambda>s. provided s = None) missing in
     bind get_state (\<lambda>r'.
     bind (if unresolved = [] then ret (\<lambda>_. None)
           else of_result (read_cache (be_stale_failure env) (get_stale_many (be_clock env) unresolved r'))) (\<lambda>stale.
     ret (response_of (map (item_for fresh provided stale provider_errors) symbols)))))))"

end
