(* ===== verification/Portfolio_Valuation.thy ===== *)
theory Portfolio_Valuation
  imports Portfolio_Domain Market_Batch
begin

text \<open>
  The valuation of a portfolio: the models of \<open>libs/domain/valuation/models.py\<close>, the price source over
  batch quotes (\<open>services/api/portfolio/valuation_price.py\<close>) and \<open>PortfolioValuationService\<close>
  (\<open>services/api/portfolio/valuation.py\<close>) with a quote cache or a price source.
\<close>

section \<open>Valuations\<close>

record position_valuation =
  va_position_id :: uuid
  va_symbol :: string
  va_market :: market
  va_quantity :: decimal
  va_average_cost :: decimal
  va_cost_basis :: decimal
  va_market_price :: "decimal option"
  va_market_value :: "decimal option"
  va_unrealized_pnl :: "decimal option"
  va_unrealized_pnl_percent :: "decimal option"
  va_quote_timestamp :: "int option"
  va_quote_available :: bool

definition quote_fields :: "position_valuation \<Rightarrow> bool list" where
  "quote_fields v = [va_market_price v = None, va_market_value v = None, va_unrealized_pnl v = None,
     va_unrealized_pnl_percent v = None, va_quote_timestamp v = None]"

definition validate_quote_state :: "position_valuation \<Rightarrow> position_valuation result" where
  "validate_quote_state v =
     (if va_quote_available v
      then if list_ex id (quote_fields v) then Inl ValidationError else Inr v
      else if \<not> list_all id (quote_fields v) then Inl ValidationError else Inr v)"

definition valuation_from_market_price :: "holding \<Rightarrow> decimal option \<Rightarrow> int option \<Rightarrow> position_valuation result" where
  "valuation_from_market_price h market_price quote_timestamp =
     (let v = \<lparr>va_position_id = h_id h, va_symbol = h_symbol h, va_market = h_market h, va_quantity = h_quantity h,
           va_average_cost = h_average_cost h, va_cost_basis = cost_basis h, va_market_price = None, va_market_value = None,
           va_unrealized_pnl = None, va_unrealized_pnl_percent = None, va_quote_timestamp = None, va_quote_available = False\<rparr>
      in case market_price of
        None \<Rightarrow>
          if quote_timestamp \<noteq> None then Inl (ValueError ''missing market price must not contain a quote timestamp'')
          else validate_quote_state v
      | Some price \<Rightarrow>
          if quote_timestamp = None then Inl (ValueError ''priced position requires a quote timestamp'')
          else if price \<le> 0 then Inl (ValueError ''market price must be greater than zero'')
          else if cost_basis h = 0 then Inl (ExternalError ''DivisionByZero'')
          else
            let market_value = dmul (h_quantity h) price; pnl = dsub market_value (cost_basis h)
            in validate_quote_state (v\<lparr>va_market_price := Some price, va_market_value := Some market_value,
                 va_unrealized_pnl := Some pnl, va_unrealized_pnl_percent := Some (dmul (ddiv pnl (cost_basis h)) 100),
                 va_quote_timestamp := quote_timestamp, va_quote_available := True\<rparr>))"

definition valuation_from_position :: "holding \<Rightarrow> domain_quote option \<Rightarrow> position_valuation result" where
  "valuation_from_position h quote =
     (case quote of
        None \<Rightarrow> valuation_from_market_price h None None
      | Some q \<Rightarrow>
          if dq_market q \<noteq> h_market h \<or> dq_symbol q \<noteq> h_symbol h
          then Inl (ValueError ''quote instrument does not match position'')
          else valuation_from_market_price h (Some (mid_price q)) (Some (dq_timestamp q)))"

record portfolio_valuation =
  vp_portfolio_id :: uuid
  vp_total_cost_basis :: decimal
  vp_priced_cost_basis :: decimal
  vp_total_market_value :: decimal
  vp_total_unrealized_pnl :: decimal
  vp_priced_positions :: nat
  vp_missing_quotes :: nat
  vp_valuation_complete :: bool
  vp_positions :: "position_valuation list"

definition somes :: "'a option list \<Rightarrow> 'a list" where
  "somes xs = map the (filter (\<lambda>x. x \<noteq> None) xs)"

definition valuation_from_positions :: "portfolio \<Rightarrow> position_valuation list \<Rightarrow> portfolio_valuation" where
  "valuation_from_positions p positions =
     (let priced = filter va_quote_available positions;
          missing = length positions - length priced
      in \<lparr>vp_portfolio_id = pf_id p, vp_total_cost_basis = total_cost_basis p,
          vp_priced_cost_basis = dsum (map va_cost_basis priced),
          vp_total_market_value = dsum (somes (map va_market_value priced)),
          vp_total_unrealized_pnl = dsum (somes (map va_unrealized_pnl priced)),
          vp_priced_positions = length priced, vp_missing_quotes = missing,
          vp_valuation_complete = (missing = 0), vp_positions = positions\<rparr>)"

section \<open>The price source\<close>

type_synonym valuation_instrument = "market \<times> string"

definition valuation_instrument_new :: "market \<Rightarrow> string \<Rightarrow> valuation_instrument result" where
  "valuation_instrument_new m symbol =
     (let s = normal_symbol symbol in if s = [] then Inl (ValueError ''symbol must not be empty'') else Inr (m, s))"

record valuation_price =
  vl_market :: market
  vl_symbol :: string
  vl_price :: decimal
  vl_timestamp :: int
  vl_stale :: bool

definition keep_first :: "'a list \<Rightarrow> 'a list" where
  "keep_first xs = rev (remdups (rev xs))"

definition markets_of :: "valuation_instrument list \<Rightarrow> string \<Rightarrow> market list" where
  "markets_of instruments symbol = remdups (map fst (filter (\<lambda>i. snd i = symbol) instruments))"

definition requested_symbols :: "valuation_instrument list \<Rightarrow> string list" where
  "requested_symbols instruments =
     filter (\<lambda>s. length (markets_of instruments s) = 1) (keep_first (map snd instruments))"

definition price_of_item :: "valuation_instrument list \<Rightarrow> quote_item \<Rightarrow> valuation_price option" where
  "price_of_item instruments item =
     (if qi_status item = ITEM_ERROR then None
      else case qi_quote item of
        None \<Rightarrow> None
      | Some quote \<Rightarrow>
          let symbol = normal_symbol (qi_symbol item); markets = markets_of instruments symbol in
          if length markets \<noteq> 1 then None
          else if sn_close quote \<le> 0 then None
          else Some \<lparr>vl_market = hd markets, vl_symbol = symbol, vl_price = sn_close quote,
                 vl_timestamp = sn_timestamp quote, vl_stale = (qi_status item = ITEM_STALE)\<rparr>)"

definition collect_prices :: "valuation_instrument list \<Rightarrow> quote_item list \<Rightarrow> valuation_instrument \<Rightarrow> valuation_price option" where
  "collect_prices instruments items =
     fold (\<lambda>item prices. case price_of_item instruments item of
        None \<Rightarrow> prices | Some v \<Rightarrow> prices((vl_market v, vl_symbol v) \<mapsto> v)) items (\<lambda>_. None)"

definition batch_get_prices ::
  "(string list \<Rightarrow> ('s, batch_response) prog) \<Rightarrow> valuation_instrument list
   \<Rightarrow> ('s, valuation_instrument \<Rightarrow> valuation_price option) prog" where
  "batch_get_prices get_quotes instruments =
     (if instruments = [] then ret (\<lambda>_. None)
      else if requested_symbols instruments = [] then ret (\<lambda>_. None)
      else bind (get_quotes (requested_symbols instruments)) (\<lambda>response.
        ret (collect_prices instruments (bq_items response))))"

section \<open>The service\<close>

text \<open>With a quote cache, or with a price source; both may not be given.\<close>

datatype 's valuation_source =
    QuoteCache int "payload_dict redis"
  | PriceSource "valuation_instrument list \<Rightarrow> ('s, valuation_instrument \<Rightarrow> valuation_price option) prog"

definition valuation_service_new ::
  "(int \<times> payload_dict redis) option \<Rightarrow> (valuation_instrument list \<Rightarrow> ('s, valuation_instrument \<Rightarrow> valuation_price option) prog) option
   \<Rightarrow> int \<times> payload_dict redis \<Rightarrow> 's valuation_source result" where
  "valuation_service_new cache src fallback =
     (case (cache, src) of
        (Some _, Some _) \<Rightarrow> Inl (ValueError ''quote_cache and price_source cannot both be configured'')
      | (_, Some s) \<Rightarrow> Inr (PriceSource s)
      | (Some (now, r), None) \<Rightarrow> Inr (QuoteCache now r)
      | (None, None) \<Rightarrow> Inr (QuoteCache (fst fallback) (snd fallback)))"

definition value_position_from_quote :: "int \<Rightarrow> payload_dict redis \<Rightarrow> holding \<Rightarrow> position_valuation result" where
  "value_position_from_quote now r h =
     (case cache_get_quote now r (h_market h) (h_symbol h) of
        Inl e \<Rightarrow> Inl e | Inr q \<Rightarrow> valuation_from_position h q)"

definition value_position_from_price :: "holding \<Rightarrow> valuation_price option \<Rightarrow> position_valuation result" where
  "value_position_from_price h price =
     (case price of
        None \<Rightarrow> valuation_from_market_price h None None
      | Some v \<Rightarrow>
          if vl_market v \<noteq> h_market h \<or> vl_symbol v \<noteq> h_symbol h
          then Inl (ValueError ''valuation price instrument does not match position'')
          else valuation_from_market_price h (Some (vl_price v)) (Some (vl_timestamp v)))"

fun each_result :: "('a \<Rightarrow> 'b result) \<Rightarrow> 'a list \<Rightarrow> 'b list result" where
  "each_result f [] = Inr []"
| "each_result f (x # xs) = try_then (f x) (\<lambda>y. try_then (each_result f xs) (\<lambda>ys. Inr (y # ys)))"

lemma each_result_all: "(\<And>x. x \<in> set xs \<Longrightarrow> f x = Inr (g x)) \<Longrightarrow> each_result f xs = Inr (map g xs)"
  by (induction xs) (simp_all add: try_then_def)

definition value_positions_from_prices ::
  "(valuation_instrument list \<Rightarrow> ('s, valuation_instrument \<Rightarrow> valuation_price option) prog) \<Rightarrow> portfolio
   \<Rightarrow> ('s, position_valuation list) prog" where
  "value_positions_from_prices get_prices p =
     (if pf_positions p = [] then ret []
      else bind (of_result (each_result (\<lambda>h. valuation_instrument_new (h_market h) (h_symbol h)) (pf_positions p))) (\<lambda>instruments.
        bind (get_prices instruments) (\<lambda>prices.
        of_result (each_result (\<lambda>h. value_position_from_price h (prices (h_market h, h_symbol h))) (pf_positions p)))))"

definition value_portfolio :: "'s valuation_source \<Rightarrow> portfolio \<Rightarrow> ('s, portfolio_valuation) prog" where
  "value_portfolio src p =
     (case src of
        QuoteCache now r \<Rightarrow>
          bind (of_result (each_result (value_position_from_quote now r) (pf_positions p))) (\<lambda>vs.
          ret (valuation_from_positions p vs))
      | PriceSource get_prices \<Rightarrow>
          bind (value_positions_from_prices get_prices p) (\<lambda>vs. ret (valuation_from_positions p vs)))"

end
