(* ===== verification/Batch_Properties.thy ===== *)
theory Batch_Properties
  imports Market_Batch
begin

text \<open>
  The properties of the provider and of the batch quotes: every symbol asked for gets one answer, of
  its own symbol; the service answers whatever fails; and its answer ages from fresh to stale to an
  error while the provider is down.
\<close>

section \<open>The provider's batch\<close>

lemma normalize_symbols_Inr:
  "normalize_symbols seen ss = Inr ns \<Longrightarrow> distinct ns \<and> set ns \<inter> set seen = {}
     \<and> set ns \<union> set seen = normal_symbol ` set ss \<union> set seen \<and> [] \<notin> set ns"
proof (induction seen ss arbitrary: ns rule: normalize_symbols.induct)
  case (2 seen s ss)
  let ?n = "normal_symbol s"
  have n: "?n \<noteq> []" using "2.prems" by (auto simp: Let_def)
  show ?case
  proof (cases "?n \<in> set seen")
    case True
    then have "normalize_symbols seen ss = Inr ns" using "2.prems" n by (simp add: Let_def)
    from "2.IH" (1) [OF refl n True this] True show ?thesis by auto
  next
    case False
    then obtain ms where ms: "normalize_symbols (?n # seen) ss = Inr ms" "ns = ?n # ms"
      using "2.prems" n by (auto simp: Let_def try_then_Inr)
    from "2.IH" (2) [OF refl n False ms(1)] False n ms(2) show ?thesis by auto
  qed
qed simp

lemma normalize_symbols_ok: "[] \<notin> normal_symbol ` set ss \<Longrightarrow> \<exists>ns. normalize_symbols seen ss = Inr ns"
proof (induction seen ss rule: normalize_symbols.induct)
  case (2 seen s ss)
  then show ?case by (cases "normal_symbol s \<in> set seen") (auto simp: Let_def try_then_Inr)
qed simp

text \<open>Distinct symbols in normal form are asked for as they are.\<close>

lemma normalize_symbols_id:
  "distinct ss \<Longrightarrow> set ss \<inter> set seen = {} \<Longrightarrow> \<forall>s \<in> set ss. normal_symbol s = s \<and> s \<noteq> [] \<Longrightarrow> normalize_symbols seen ss = Inr ss"
  by (induction seen ss rule: normalize_symbols.induct) (auto simp: Let_def try_then_Inr)

lemma expected_symbol: "parse_expected_quote p s = Inr q \<Longrightarrow> sn_symbol q = s"
  by (auto simp: parse_expected_quote_def try_then_Inr split: if_splits)

lemma batch_item_symbol: "batch_item body s = Inr q \<Longrightarrow> sn_symbol q = s"
  by (auto simp: batch_item_def split: jvalue.splits if_splits sum.splits dest: expected_symbol)

lemma batch_of_keys:
  "set (map fst (br_quotes (batch_of items))) = {s. \<exists>q. (s, Inr q) \<in> set items}"
  "set (map fst (br_errors (batch_of items))) = {s. \<exists>e. (s, Inl e) \<in> set items}"
  by (force simp: batch_of_def split: sum.splits)+

lemma batch_of_quotes: "(s, q) \<in> set (br_quotes (batch_of items)) \<longleftrightarrow> (s, Inr q) \<in> set items"
  by (force simp: batch_of_def split: sum.splits)

text \<open>The answer to a batch in normal form: one item for each symbol.\<close>

lemma td_get_quotes_items:
  assumes "td_get_quotes client symbols = Inr b"
  obtains ns items where "normalize_symbols [] symbols = Inr ns" "b = batch_of items" "map fst items = ns"
    "\<And>s q. (s, Inr q) \<in> set items \<Longrightarrow> sn_symbol q = s"
proof -
  obtain ns body where n: "normalize_symbols [] symbols = Inr ns" "ns \<noteq> []" and p:
    "b = (if length ns = 1 \<and> map_of body ''symbol'' \<noteq> None
       then batch_of [(hd ns, case parse_expected_quote body (hd ns) of
                   Inl _ \<Rightarrow> Inl ''Invalid market data response.'' | Inr q \<Rightarrow> Inr q)]
       else batch_of (map (\<lambda>s. (s, batch_item body s)) ns))"
  proof -
    obtain ns where ns: "normalize_symbols [] symbols = Inr ns" using assms by (auto simp: td_get_quotes_def try_then_Inr)
    then have ne: "ns \<noteq> []" using assms by (auto simp: td_get_quotes_def try_then_Inr)
    obtain body where "td_request client ''quote'' [(''symbol'', join_commas ns)] = Inr body"
      using assms ns ne by (auto simp: td_get_quotes_def try_then_Inr)
    then show thesis using assms ns ne by (intro that [of ns body]) (auto simp: td_get_quotes_def try_then_def)
  qed
  show ?thesis
  proof (cases "length ns = 1 \<and> map_of body ''symbol'' \<noteq> None")
    case True
    then obtain s where "ns = [s]" by (cases ns) auto
    then show ?thesis using True p n(1)
      by (intro that [of ns "[(s, case parse_expected_quote body s of Inl _ \<Rightarrow> Inl ''Invalid market data response.'' | Inr q \<Rightarrow> Inr q)]"])
         (auto split: sum.splits dest: expected_symbol)
  next
    case False
    then show ?thesis using p n(1)
      by (intro that [of ns "map (\<lambda>s. (s, batch_item body s)) ns"]) (auto simp: comp_def intro: batch_item_symbol sym)
  qed
qed

text \<open>
  Every requested symbol gets exactly one answer: what the server sends for a batch, however
  malformed, is split into quotes and errors whose symbols are disjoint and together are exactly the
  normal forms of the symbols asked for; and a quote is filed only under its own symbol.
\<close>
theorem batch_quotes_partition:
  assumes "td_get_quotes client symbols = Inr b"
  shows "set (map fst (br_quotes b)) \<inter> set (map fst (br_errors b)) = {}
    \<and> set (map fst (br_quotes b)) \<union> set (map fst (br_errors b)) = normal_symbol ` set symbols
    \<and> distinct (map fst (br_quotes b)) \<and> (\<forall>(s, q) \<in> set (br_quotes b). sn_symbol q = s)"
proof -
  obtain ns items where items: "normalize_symbols [] symbols = Inr ns" "b = batch_of items" "map fst items = ns"
    "\<And>s q. (s, Inr q) \<in> set items \<Longrightarrow> sn_symbol q = s" using td_get_quotes_items [OF assms] by metis
  have n: "distinct ns" "set ns = normal_symbol ` set symbols" using normalize_symbols_Inr [OF items(1)] by auto
  have once: "(s, x) \<in> set items \<Longrightarrow> (s, y) \<in> set items \<Longrightarrow> x = y" for s x y
    using n(1) items(3) by (metis eq_key_imp_eq_value)
  have all: "s \<in> set ns \<Longrightarrow> \<exists>x. (s, x) \<in> set items" for s using items(3) by force
  have d: "distinct (map fst (br_quotes (batch_of items)))"
  proof -
    have "map fst (br_quotes (batch_of xs)) = map fst (filter (\<lambda>(s, r). \<not> isl r) xs)" for xs
      by (induction xs) (auto simp: batch_of_def split: sum.splits)
    moreover have "distinct (map fst items)" using n(1) items(3) by simp
    ultimately show ?thesis by (metis distinct_map_filter)
  qed
  have "set (map fst (br_quotes b)) \<union> set (map fst (br_errors b)) = set ns"
    unfolding items(2) batch_of_keys items(3) [symmetric]
  proof (intro set_eqI iffI)
    fix s assume "s \<in> set (map fst items)"
    then obtain x where "(s, x) \<in> set items" by auto
    then show "s \<in> {s. \<exists>q. (s, Inr q) \<in> set items} \<union> {s. \<exists>e. (s, Inl e) \<in> set items}" by (cases x) auto
  qed force
  then show ?thesis
    using once d items(4) n(2) unfolding items(2) batch_of_keys by (auto simp: batch_of_quotes)
qed

section \<open>Candles\<close>

definition candle_ok :: "candle \<Rightarrow> bool" where
  "candle_ok c \<longleftrightarrow> cd_low c \<le> cd_open c \<and> cd_open c \<le> cd_high c \<and> cd_low c \<le> cd_close c \<and> cd_close c \<le> cd_high c"

lemma parse_candles_ok: "parse_candles vs = Inr cs \<Longrightarrow> length cs = length vs \<and> list_all candle_ok cs"
  by (induction vs arbitrary: cs)
     (auto simp: try_then_Inr parse_candle_def candle_ok_def split: jvalue.splits if_splits)

section \<open>The batch service answers\<close>

definition redis_failure :: "error option \<Rightarrow> bool" where
  "redis_failure f \<longleftrightarrow> (case f of None \<Rightarrow> True | Some (RedisError _) \<Rightarrow> True | _ \<Rightarrow> False)"

lemma read_cache_ok: "redis_failure f \<Longrightarrow> \<exists>m. read_cache f found = Inr m \<and> (\<forall>s q. m s = Some q \<longrightarrow> found s = Some q)"
  by (auto simp: redis_failure_def read_cache_def split: option.splits error.splits)

definition httpx_failures :: "http_client \<Rightarrow> bool" where
  "httpx_failures client \<longleftrightarrow> (\<forall>ep ps e. client ep ps = Inl e \<longrightarrow> e = http_error)"

lemma td_request_error:
  "td_request client ep ps = Inl e \<Longrightarrow> httpx_failures client \<Longrightarrow> (\<exists>m. e = TwelveDataRequestError m) \<or> (\<exists>m. e = TwelveDataResponseError m)"
  by (auto simp: td_request_def httpx_failures_def split: sum.splits option.splits jvalue.splits if_splits)

lemma td_get_quotes_error:
  assumes "td_get_quotes client symbols = Inl e" "symbols \<noteq> []" "[] \<notin> normal_symbol ` set symbols" "httpx_failures client"
  shows "(\<exists>m. e = TwelveDataRequestError m) \<or> (\<exists>m. e = TwelveDataResponseError m)"
proof -
  obtain ns where ns: "normalize_symbols [] symbols = Inr ns" using normalize_symbols_ok [OF assms(3)] by blast
  then have "ns \<noteq> []" using normalize_symbols_Inr [OF ns] assms(2) by auto
  then have "td_request client ''quote'' [(''symbol'', join_commas ns)] = Inl e"
    using assms(1) ns by (auto simp: td_get_quotes_def try_then_def split: sum.splits if_splits)
  then show ?thesis by (rule td_request_error) (rule assms(4))
qed

lemma put_suppressed:
  "redis_failure (map_option snd f) \<Longrightarrow> \<exists>r'. suppress_redis_error (put_many c f now qs) r = (Inr (), r')"
  by (cases f) (auto simp: suppress_redis_error_def try_except_def put_many_def redis_failure_def split: error.splits)

lemma ask_provider_ok:
  assumes "[] \<notin> normal_symbol ` set missing" "redis_failure (map_option snd (be_put_failure env))" "httpx_failures (be_client env)"
  shows "\<exists>provided errs r'. ask_provider env missing r = (Inr (provided, errs), r')"
proof (cases "missing = []")
  case False
  show ?thesis
  proof (cases "td_get_quotes (be_client env) missing")
    case (Inl e)
    then show ?thesis using td_get_quotes_error [OF Inl False assms(1,3)] False by (auto simp: ask_provider_def)
  next
    case (Inr b)
    then show ?thesis
      using put_suppressed [OF assms(2), of "be_cache env" "be_clock env" "map snd (br_quotes b)" r] False
      by (auto simp: ask_provider_def bind_run)
  qed
qed (simp add: ask_provider_def)

lemma item_for_sound:
  "qi_symbol (item_for fr pr st errs s) = s"
  "qi_status (item_for fr pr st errs s) = ITEM_ERROR \<longleftrightarrow> qi_quote (item_for fr pr st errs s) = None"
  by (auto simp: item_for_def split: option.splits)

lemma response_counts:
  "bq_succeeded (response_of items) + bq_stale (response_of items) + bq_failed (response_of items) = length items"
proof (induction items)
  case (Cons i items)
  then show ?case by (cases "qi_status i") (auto simp: response_of_def)
qed (simp add: response_of_def)

lemma batch_answers:
  assumes "[] \<notin> normal_symbol ` set symbols"
    and "redis_failure (be_fresh_failure env)" "redis_failure (map_option snd (be_put_failure env))" "redis_failure (be_stale_failure env)"
    and "httpx_failures (be_client env)"
  shows "\<exists>fr pr st errs r'. batch_get_quotes env symbols r = (Inr (response_of (map (item_for fr pr st errs) symbols)), r')"
proof -
  obtain fr where fr: "(if symbols = [] then ret (\<lambda>_. None)
           else of_result (read_cache (be_fresh_failure env) (get_fresh_many (be_clock env) symbols r))) r = (Inr fr, r)"
    using read_cache_ok [OF assms(2), of "get_fresh_many (be_clock env) symbols r"] by (cases "symbols = []") auto
  have "[] \<notin> normal_symbol ` set (filter (\<lambda>s. fr s = None) symbols)" using assms(1) by auto
  from ask_provider_ok [OF this assms(3,5), of r] obtain pr errs r1
    where pr: "ask_provider env (filter (\<lambda>s. fr s = None) symbols) r = (Inr (pr, errs), r1)" by blast
  let ?un = "filter (\<lambda>s. pr s = None) (filter (\<lambda>s. fr s = None) symbols)"
  obtain st where st: "(if ?un = [] then ret (\<lambda>_. None)
           else of_result (read_cache (be_stale_failure env) (get_stale_many (be_clock env) ?un r1))) r1 = (Inr st, r1)"
    using read_cache_ok [OF assms(4), of "get_stale_many (be_clock env) ?un r1"] by (cases "?un = []") (auto simp del: filter_filter)
  have "batch_get_quotes env symbols r = (Inr (response_of (map (item_for fr pr st errs) symbols)), r1)"
    using fr pr st by (simp add: batch_get_quotes_def bind_run Let_def del: filter_filter)
  then show ?thesis by blast
qed

text \<open>
  A batch request is always answered: for symbols that are not blank, and whatever of Redis (its
  reads, its writes half way through a pipeline) and of the provider fails, the service returns one
  item for each symbol in the order asked for, with a quote exactly when its status is no error, and
  counts that add up to the number of symbols.
\<close>
theorem batch_always_answers:
  assumes "[] \<notin> normal_symbol ` set symbols"
    and "redis_failure (be_fresh_failure env)" "redis_failure (map_option snd (be_put_failure env))" "redis_failure (be_stale_failure env)"
    and "httpx_failures (be_client env)"
  shows "\<exists>resp r'. batch_get_quotes env symbols r = (Inr resp, r') \<and> map qi_symbol (bq_items resp) = symbols
    \<and> bq_requested resp = length symbols \<and> bq_succeeded resp + bq_stale resp + bq_failed resp = length symbols
    \<and> (\<forall>item \<in> set (bq_items resp). qi_status item = ITEM_ERROR \<longleftrightarrow> qi_quote item = None)"
proof -
  obtain fr pr st errs r' where run: "batch_get_quotes env symbols r = (Inr (response_of (map (item_for fr pr st errs) symbols)), r')"
    using batch_answers [OF assms, of r] by blast
  let ?items = "map (item_for fr pr st errs) symbols"
  have "map qi_symbol (bq_items (response_of ?items)) = symbols" "bq_requested (response_of ?items) = length symbols"
    by (simp_all add: response_of_def comp_def item_for_sound)
  moreover have "\<forall>item \<in> set (bq_items (response_of ?items)). qi_status item = ITEM_ERROR \<longleftrightarrow> qi_quote item = None"
    using item_for_sound(2) by (auto simp: response_of_def)
  ultimately show ?thesis using run response_counts [of ?items] by (intro exI conjI) (assumption | simp)+
qed

section \<open>Ageing\<close>

lemma batch_single:
  assumes "batch_get_quotes env [s] r = (Inr resp, r')" "normal_symbol s = s" "s \<noteq> []"
    and "bq_items resp = [item]" "qi_source item = Some FROM_PROVIDER" "be_put_failure env = None"
  shows "\<exists>q. qi_quote item = Some q \<and> sn_symbol q = s
    \<and> r' = run_commands (be_clock env) (put_commands (be_cache env) [q]) r"
proof -
  obtain fr where fr: "read_cache (be_fresh_failure env) (get_fresh_many (be_clock env) [s] r) = Inr fr"
    using assms(1) by (auto simp: batch_get_quotes_def bind_run split: sum.splits)
  have none: "fr s = None"
  proof (rule ccontr)
    assume "fr s \<noteq> None"
    then obtain q where "fr s = Some q" by blast
    then show False using assms(1,4,5) fr
      by (auto simp: batch_get_quotes_def bind_run ask_provider_def response_of_def item_for_def)
  qed
  obtain b where b: "td_get_quotes (be_client env) [s] = Inr b" "map_of (br_quotes b) s \<noteq> None"
  proof (cases "td_get_quotes (be_client env) [s]")
    case (Inl e)
    then show ?thesis using assms(1,4,5) fr none
      by (auto simp: batch_get_quotes_def bind_run ask_provider_def response_of_def item_for_def Let_def
          split: error.splits sum.splits option.splits if_splits)
  next
    case (Inr b)
    moreover have "map_of (br_quotes b) s \<noteq> None"
    proof
      assume "map_of (br_quotes b) s = None"
      then show False using Inr assms(1,4,5,6) fr none
        by (auto simp: batch_get_quotes_def bind_run ask_provider_def response_of_def item_for_def suppress_redis_error_def
            try_except_def put_many_def Let_def split: sum.splits option.splits if_splits)
    qed
    ultimately show ?thesis by (rule that)
  qed
  obtain ns items where items: "normalize_symbols [] [s] = Inr ns" "b = batch_of items" "map fst items = ns"
    "\<And>s q. (s, Inr q) \<in> set items \<Longrightarrow> sn_symbol q = s" using td_get_quotes_items [OF b(1)] by metis
  have "ns = [s]" using items(1) assms(2,3) by (simp add: Let_def try_then_def)
  then obtain x where x: "items = [(s, x)]" using items(3) by (cases items) auto
  then obtain q where q: "x = Inr q" using b(2) items(2) by (cases x) (auto simp: batch_of_def)
  then have quotes: "br_quotes b = [(s, q)]" "sn_symbol q = s" using items(2,4) x by (auto simp: batch_of_def)
  then have "qi_quote item = Some q \<and> r' = run_commands (be_clock env) (put_commands (be_cache env) [q]) r"
    using assms(1,4,6) fr none b(1)
    by (auto simp: batch_get_quotes_def bind_run ask_provider_def response_of_def item_for_def suppress_redis_error_def
        try_except_def put_many_def Let_def split: sum.splits)
  then show ?thesis using quotes(2) by blast
qed

lemma run_commands_get:
  "redis_get now (fresh_key (sn_symbol q)) (run_commands t0 (put_commands c [q]) r) =
     (if now < t0 + sc_fresh_ttl_seconds c then Some (Some q) else None)"
  "redis_get now (stale_key (sn_symbol q)) (run_commands t0 (put_commands c [q]) r) =
     (if now < t0 + sc_stale_ttl_seconds c then Some (Some q) else None)"
  by (simp_all add: run_commands_def put_commands_def redis_get_set fresh_key_def stale_key_def)

text \<open>
  An answer ages while the provider is down: once a symbol was answered by the provider and
  cached, a request at any later time with an unreachable provider is answered from the fresh copy
  until its time to live is over, then with the same quote marked stale until the stale copy expires,
  and with an error after that; it never answers with another quote and never extends a life.
\<close>
theorem quote_degrades_gracefully:
  assumes "snapshot_cache_new f g = Inr (be_cache env)" and "normal_symbol s = s" and "s \<noteq> []"
    and "batch_get_quotes env [s] r = (Inr resp, r1)" and "bq_items resp = [item]" and "qi_source item = Some FROM_PROVIDER"
    and "be_put_failure env = None"
    and "\<And>ep ps. be_client down ep ps = Inl http_error" and "be_fresh_failure down = None" and "be_stale_failure down = None"
  shows "\<exists>q. qi_quote item = Some q \<and> sn_symbol q = s \<and> (\<exists>resp'. batch_get_quotes down [s] r1 = (Inr resp', r1)
    \<and> (\<exists>e'. bq_items resp' = [
       if be_clock down < be_clock env + f
       then \<lparr>qi_symbol = s, qi_status = ITEM_OK, qi_source = Some FROM_CACHE, qi_quote = Some q, qi_error = None\<rparr>
       else if be_clock down < be_clock env + g
       then \<lparr>qi_symbol = s, qi_status = ITEM_STALE, qi_source = Some FROM_STALE_CACHE, qi_quote = Some q, qi_error = Some e'\<rparr>
       else \<lparr>qi_symbol = s, qi_status = ITEM_ERROR, qi_source = None, qi_quote = None, qi_error = Some e'\<rparr>]))"
proof -
  have ttl: "sc_fresh_ttl_seconds (be_cache env) = f" "sc_stale_ttl_seconds (be_cache env) = g" "f < g"
    using assms(1) by (auto simp: snapshot_cache_new_def split: if_splits dest!: sym [of _ "be_cache env"])
  obtain q where q: "qi_quote item = Some q" "sn_symbol q = s" "r1 = run_commands (be_clock env) (put_commands (be_cache env) [q]) r"
    using batch_single [OF assms(4,2,3,5,6,7)] by blast
  have fresh: "get_fresh_many (be_clock down) [s] r1 s = (if be_clock down < be_clock env + f then Some q else None)"
    using run_commands_get(1) [of "be_clock down" q "be_clock env" "be_cache env" r]
    by (simp add: get_fresh_many_def get_many_def deserialize_def q(2,3) ttl)
  have stale: "get_stale_many (be_clock down) [s] r1 s = (if be_clock down < be_clock env + g then Some q else None)"
    using run_commands_get(2) [of "be_clock down" q "be_clock env" "be_cache env" r]
    by (simp add: get_stale_many_def get_many_def deserialize_def q(2,3) ttl)
  have provider: "td_get_quotes (be_client down) [s] = Inl (TwelveDataRequestError ''Twelve Data request failed'')"
    using assms(2,3,8) by (simp add: td_get_quotes_def try_then_def td_request_def)
  have "\<exists>resp'. batch_get_quotes down [s] r1 = (Inr resp', r1) \<and> bq_items resp' = [item_for (get_fresh_many (be_clock down) [s] r1) (\<lambda>_. None)
      (if get_fresh_many (be_clock down) [s] r1 s = None then get_stale_many (be_clock down) [s] r1 else (\<lambda>_. None))
      (if get_fresh_many (be_clock down) [s] r1 s = None then {s} else {}) s]"
    by (cases "get_fresh_many (be_clock down) [s] r1 s")
       (simp_all add: batch_get_quotes_def bind_run read_cache_def assms(9,10) ask_provider_def provider response_of_def Let_def)
  then show ?thesis using q(1,2) fresh stale ttl(3)
    by (cases "be_clock down < be_clock env + f"; cases "be_clock down < be_clock env + g") (auto simp: item_for_def)
qed

section \<open>Instances\<close>

definition spy_json :: "(string \<times> jvalue) list" where
  "spy_json = [(''symbol'', JvText ''spy''), (''name'', JvText ''SPDR S&P 500''), (''exchange'', JvText ''NYSE''),
     (''mic_code'', JvText ''ARCX''), (''currency'', JvText ''USD''), (''open'', JvText ''500.5''), (''high'', JvText ''501''),
     (''low'', JvFloat (Some 499)), (''close'', JvText '' 5.0025e2 ''), (''previous_close'', JvInt 499), (''change'', JvText ''-1''),
     (''percent_change'', JvText ''+.2''), (''volume'', JvText ''1_000''), (''average_volume'', JvInt 7), (''is_market_open'', JvBool True),
     (''timestamp'', JvInt 1700000000), (''last_quote_at'', JvText '' '')]"

definition spy :: snapshot where
  "spy = \<lparr>sn_symbol = ''SPY'', sn_name = ''SPDR S&P 500'', sn_exchange = ''NYSE'', sn_mic_code = ''ARCX'', sn_currency = ''USD'',
     sn_open = 1001 / 2, sn_high = 501, sn_low = 499, sn_close = 2001 / 4, sn_previous_close = 499, sn_change = - 1,
     sn_percent_change = 1 / 5, sn_volume = 1000, sn_average_volume = 7, sn_is_market_open = True,
     sn_timestamp = 1700000000000000, sn_last_quote_at = None, sn_fifty_two_week = None\<rparr>"

lemma spy_parsed: "parse_quote_payload spy_json = Inr spy"
  by code_simp

definition answering :: http_client where
  "answering ep ps = Inr (Some (JvObject spy_json))"

lemma answering_failures [simp]: "httpx_failures answering"
  by (simp add: httpx_failures_def answering_def)

definition silent :: http_client where
  "silent ep ps = Inl http_error"

lemma silent_failures [simp]: "httpx_failures silent"
  by (simp add: httpx_failures_def silent_def)

lemma spy_normal: "normal_symbol ''SPY'' = ''SPY''"
  by code_simp

lemma spy_quotes: "td_get_quotes answering [''SPY''] = Inr \<lparr>br_quotes = [(''SPY'', spy)], br_errors = []\<rparr>"
proof -
  have "payload_get spy_json ''status'' = JvNull" "map_of spy_json ''symbol'' = Some (JvText ''spy'')"
    by (simp_all add: payload_get_def spy_json_def)
  moreover have "parse_expected_quote spy_json ''SPY'' = Inr spy"
    using spy_parsed by (simp add: parse_expected_quote_def try_then_def spy_def)
  ultimately show ?thesis
    by (simp add: td_get_quotes_def try_then_def Let_def spy_normal td_request_def answering_def batch_of_def)
qed

theorem batch_quotes_partition_witness:
  "(\<exists>b. td_get_quotes answering ['' spy'', ''SPY''] = Inr b
    \<and> set (map fst (br_quotes b)) \<union> set (map fst (br_errors b)) = {''SPY''})"
proof -
  have n: "normal_symbol '' spy'' = ''SPY''" by code_simp
  then have "td_get_quotes answering ['' spy'', ''SPY''] = td_get_quotes answering [''SPY'']"
    by (simp add: td_get_quotes_def try_then_def Let_def spy_normal)
  then have "td_get_quotes answering ['' spy'', ''SPY''] = Inr \<lparr>br_quotes = [(''SPY'', spy)], br_errors = []\<rparr>"
    using spy_quotes by simp
  from batch_quotes_partition [OF this] this show ?thesis using n spy_normal by simp
qed

definition benv :: "http_client \<Rightarrow> int \<Rightarrow> batch_env" where
  "benv client now = \<lparr>be_cache = \<lparr>sc_fresh_ttl_seconds = 60, sc_stale_ttl_seconds = 3600\<rparr>, be_client = client, be_clock = now,
     be_fresh_failure = None, be_put_failure = None, be_stale_failure = None\<rparr>"

theorem batch_always_answers_witness:
  "\<exists>resp r'. batch_get_quotes ((benv silent 0)\<lparr>be_fresh_failure := Some (RedisError ''down'')\<rparr>) [''SPY''] Map.empty = (Inr resp, r')
    \<and> map qi_symbol (bq_items resp) = [''SPY'']"
proof -
  let ?env = "(benv silent 0)\<lparr>be_fresh_failure := Some (RedisError ''down'')\<rparr>"
  have "redis_failure (be_fresh_failure ?env)" "redis_failure (map_option snd (be_put_failure ?env))" "redis_failure (be_stale_failure ?env)"
    "httpx_failures (be_client ?env)"
    by (simp_all add: benv_def redis_failure_def)
  from batch_always_answers [OF _ this, of "[''SPY'']" Map.empty] show ?thesis by (auto simp: spy_normal)
qed

theorem quote_degrades_gracefully_witness:
  "\<exists>r1 resp e. batch_get_quotes (benv silent 1000) [''SPY''] r1 = (Inr resp, r1) \<and> bq_items resp =
     [\<lparr>qi_symbol = ''SPY'', qi_status = ITEM_STALE, qi_source = Some FROM_STALE_CACHE, qi_quote = Some spy, qi_error = Some e\<rparr>]"
proof -
  let ?item = "\<lparr>qi_symbol = ''SPY'', qi_status = ITEM_OK, qi_source = Some FROM_PROVIDER, qi_quote = Some spy, qi_error = None\<rparr>"
  obtain r1 where run: "batch_get_quotes (benv answering 0) [''SPY''] Map.empty = (Inr (response_of [?item]), r1)"
    by (simp add: batch_get_quotes_def bind_run benv_def read_cache_def get_fresh_many_def get_many_def redis_get_def deserialize_def
        ask_provider_def spy_quotes suppress_redis_error_def try_except_def put_many_def item_for_def Let_def)
  have "snapshot_cache_new 60 3600 = Inr (be_cache (benv answering 0))" by (simp add: snapshot_cache_new_def benv_def)
  from quote_degrades_gracefully [OF this spy_normal _ run, of ?item "benv silent 1000"]
  show ?thesis by (auto simp: response_of_def benv_def silent_def)
qed

end
