(* ===== verification/Valuation_Properties.thy ===== *)
theory Valuation_Properties
  imports Portfolio_Valuation Batch_Properties
begin

text \<open>
  The valuation of a portfolio from batch quotes, with Redis and the provider free to fail: it is
  always produced, every position is valued from its own quote or marked as missing, and the totals
  are those of the valued positions.
\<close>

section \<open>One position\<close>

definition holding_ok :: "holding \<Rightarrow> bool" where
  "holding_ok h \<longleftrightarrow> symbol_ok (h_symbol h) \<and> 0 < h_quantity h \<and> 0 < h_average_cost h"

lemma cost_basis_pos: "holding_ok h \<Longrightarrow> 0 < cost_basis h"
  by (simp add: holding_ok_def cost_basis_def dmul_def)

text \<open>What a valuation says: nothing without a price, everything from the price otherwise.\<close>

definition valued_at :: "holding \<Rightarrow> (decimal \<times> int) option \<Rightarrow> position_valuation" where
  "valued_at h price =
     \<lparr>va_position_id = h_id h, va_symbol = h_symbol h, va_market = h_market h, va_quantity = h_quantity h,
      va_average_cost = h_average_cost h, va_cost_basis = cost_basis h, va_market_price = map_option fst price,
      va_market_value = map_option (\<lambda>p. dmul (h_quantity h) (fst p)) price,
      va_unrealized_pnl = map_option (\<lambda>p. dsub (dmul (h_quantity h) (fst p)) (cost_basis h)) price,
      va_unrealized_pnl_percent =
        map_option (\<lambda>p. dmul (ddiv (dsub (dmul (h_quantity h) (fst p)) (cost_basis h)) (cost_basis h)) 100) price,
      va_quote_timestamp = map_option snd price, va_quote_available = (price \<noteq> None)\<rparr>"

lemma valued_none: "valuation_from_market_price h None None = Inr (valued_at h None)"
  by (simp add: valuation_from_market_price_def valued_at_def validate_quote_state_def quote_fields_def Let_def)

lemma valued_some: "holding_ok h \<Longrightarrow> 0 < p \<Longrightarrow> valuation_from_market_price h (Some p) (Some t) = Inr (valued_at h (Some (p, t)))"
  using cost_basis_pos [of h]
  by (simp add: valuation_from_market_price_def valued_at_def validate_quote_state_def quote_fields_def Let_def)

section \<open>Prices\<close>

definition instruments_of :: "portfolio \<Rightarrow> valuation_instrument list" where
  "instruments_of p = map (\<lambda>h. (h_market h, h_symbol h)) (pf_positions p)"

lemma instruments_valid:
  "\<forall>h \<in> set hs. holding_ok h \<Longrightarrow>
   each_result (\<lambda>h. valuation_instrument_new (h_market h) (h_symbol h)) hs = Inr (map (\<lambda>h. (h_market h, h_symbol h)) hs)"
  by (rule each_result_all) (auto simp: valuation_instrument_new_def holding_ok_def symbol_ok_def)

text \<open>A price is that of an answered item of the symbol, which only one market holds.\<close>

definition priced_by :: "valuation_instrument list \<Rightarrow> quote_item list \<Rightarrow> valuation_instrument \<Rightarrow> valuation_price \<Rightarrow> bool" where
  "priced_by instruments items k v \<longleftrightarrow> (vl_market v, vl_symbol v) = k \<and> 0 < vl_price v \<and> markets_of instruments (snd k) = [fst k]
     \<and> (\<exists>item q. item \<in> set items \<and> qi_status item \<noteq> ITEM_ERROR \<and> qi_quote item = Some q \<and> normal_symbol (qi_symbol item) = snd k
          \<and> sn_close q = vl_price v \<and> sn_timestamp q = vl_timestamp v \<and> vl_stale v = (qi_status item = ITEM_STALE))"

lemma single_list: "length xs = 1 \<longleftrightarrow> (\<exists>x. xs = [x])"
  by (cases xs) auto

lemma price_of_item_sound: "price_of_item instruments item = Some v \<Longrightarrow> item \<in> set items \<Longrightarrow> priced_by instruments items (vl_market v, vl_symbol v) v"
  by (auto simp: price_of_item_def priced_by_def Let_def length_Suc_conv split: if_splits option.splits)

lemma collect_step:
  "fold (\<lambda>item prices. case price_of_item instruments item of
        None \<Rightarrow> prices | Some v \<Rightarrow> prices((vl_market v, vl_symbol v) \<mapsto> v)) items m k =
   (case first_where (\<lambda>item. \<exists>v. price_of_item instruments item = Some v \<and> (vl_market v, vl_symbol v) = k) (rev items) of
      None \<Rightarrow> m k | Some item \<Rightarrow> price_of_item instruments item)"
proof (induction items arbitrary: m)
  case (Cons item items)
  show ?case
    by (cases "first_where (\<lambda>item. \<exists>v. price_of_item instruments item = Some v \<and> (vl_market v, vl_symbol v) = k) (rev items)")
       (auto simp: Cons.IH first_where_append split: option.splits)
qed simp

lemma collected: "collect_prices instruments items k = Some v \<Longrightarrow> priced_by instruments items k v"
  using price_of_item_sound [of instruments _ v items]
  by (auto simp: collect_prices_def collect_step split: option.splits dest!: first_where_Some)

text \<open>A symbol that one market holds and that is answered with a positive price is priced.\<close>

lemma collected_complete:
  assumes "item \<in> set items" "qi_status item \<noteq> ITEM_ERROR" "qi_quote item = Some q" "0 < sn_close q"
    and "markets_of instruments (normal_symbol (qi_symbol item)) = [m]"
  shows "collect_prices instruments items (m, normal_symbol (qi_symbol item)) \<noteq> None"
proof -
  let ?k = "(m, normal_symbol (qi_symbol item))"
  obtain v where v: "price_of_item instruments item = Some v" "(vl_market v, vl_symbol v) = ?k"
    using assms by (auto simp: price_of_item_def Let_def)
  let ?P = "\<lambda>item. \<exists>v. price_of_item instruments item = Some v \<and> (vl_market v, vl_symbol v) = ?k"
  have "first_where ?P (rev items) \<noteq> None" using v assms(1) by (auto simp: first_where_None)
  then obtain item' where f: "first_where ?P (rev items) = Some item'" by blast
  then obtain v' where "price_of_item instruments item' = Some v'" by (auto dest: first_where_Some)
  moreover have "collect_prices instruments items ?k = price_of_item instruments item'"
    unfolding collect_prices_def collect_step f by simp
  ultimately show ?thesis by simp
qed

section \<open>The portfolio\<close>

lemma keep_first_set [simp]: "set (keep_first xs) = set xs"
  by (simp add: keep_first_def)

lemma requested_clean: "\<forall>h \<in> set (pf_positions p). holding_ok h \<Longrightarrow> [] \<notin> normal_symbol ` set (requested_symbols (instruments_of p))"
  by (auto simp: requested_symbols_def instruments_of_def holding_ok_def symbol_ok_def)

definition expected_failures :: "batch_env \<Rightarrow> bool" where
  "expected_failures env \<longleftrightarrow> redis_failure (be_fresh_failure env) \<and> redis_failure (map_option snd (be_put_failure env))
     \<and> redis_failure (be_stale_failure env) \<and> httpx_failures (be_client env)"

lemma response_items [simp]: "bq_items (response_of items) = items"
  by (simp add: response_of_def)

lemma prices_run:
  assumes "\<forall>h \<in> set (pf_positions p). holding_ok h" "expected_failures env"
  shows "\<exists>items r'. batch_get_prices (batch_get_quotes env) (instruments_of p) r = (Inr (collect_prices (instruments_of p) items), r')
    \<and> (if requested_symbols (instruments_of p) = [] then items = [] \<and> r' = r
        else batch_get_quotes env (requested_symbols (instruments_of p)) r = (Inr (response_of items), r'))
    \<and> (\<forall>item \<in> set items. qi_status item = ITEM_ERROR \<longleftrightarrow> qi_quote item = None)"
proof (cases "requested_symbols (instruments_of p) = []")
  case True
  then show ?thesis by (intro exI [of _ "[]"] exI [of _ r]) (auto simp: batch_get_prices_def collect_prices_def)
next
  case False
  then have "instruments_of p \<noteq> []" by (auto simp: requested_symbols_def keep_first_def)
  moreover obtain fr pr st errs r' where "batch_get_quotes env (requested_symbols (instruments_of p)) r =
      (Inr (response_of (map (item_for fr pr st errs) (requested_symbols (instruments_of p)))), r')"
    using batch_answers [OF requested_clean [OF assms(1)], of env r] assms(2) by (auto simp: expected_failures_def)
  ultimately show ?thesis using False
    by (intro exI [of _ "map (item_for fr pr st errs) (requested_symbols (instruments_of p))"] exI [of _ r'])
       (auto simp: batch_get_prices_def bind_run comp_def item_for_sound)
qed

definition price_pair :: "valuation_price option \<Rightarrow> (decimal \<times> int) option" where
  "price_pair = map_option (\<lambda>v. (vl_price v, vl_timestamp v))"

lemma value_position_run:
  assumes "holding_ok h" "\<And>v. price = Some v \<Longrightarrow> priced_by instruments items (h_market h, h_symbol h) v"
  shows "value_position_from_price h price = Inr (valued_at h (price_pair price))"
  using assms by (cases price) (auto simp: value_position_from_price_def price_pair_def valued_none valued_some priced_by_def)

text \<open>The totals are those of the positions that have a price.\<close>

lemma valuation_totals:
  fixes price :: "holding \<Rightarrow> (decimal \<times> int) option" and hs p
  defines "priced \<equiv> filter (\<lambda>h. price h \<noteq> None) hs" and "v \<equiv> valuation_from_positions p (map (\<lambda>h. valued_at h (price h)) hs)"
  shows "vp_total_market_value v = dsum (map (\<lambda>h. dmul (h_quantity h) (fst (the (price h)))) priced)
    \<and> vp_total_unrealized_pnl v = dsum (map (\<lambda>h. dsub (dmul (h_quantity h) (fst (the (price h)))) (cost_basis h)) priced)
    \<and> vp_priced_cost_basis v = dsum (map cost_basis priced) \<and> vp_total_cost_basis v = dsum (map cost_basis (pf_positions p))
    \<and> vp_portfolio_id v = pf_id p \<and> vp_priced_positions v = length priced
    \<and> vp_missing_quotes v = length hs - length priced \<and> vp_positions v = map (\<lambda>h. valued_at h (price h)) hs
    \<and> (vp_valuation_complete v \<longleftrightarrow> priced = hs)"
proof -
  have avail: "filter va_quote_available (map (\<lambda>h. valued_at h (price h)) hs) = map (\<lambda>h. valued_at h (price h)) priced"
    by (simp add: priced_def filter_map comp_def valued_at_def)
  have "va_cost_basis \<circ> (\<lambda>h. valued_at h (price h)) = cost_basis" by (simp add: fun_eq_iff valued_at_def)
  moreover have "somes (map va_market_value (map (\<lambda>h. valued_at h (price h)) hs')) =
      map (\<lambda>h. dmul (h_quantity h) (fst (the (price h)))) (filter (\<lambda>h. price h \<noteq> None) hs')" for hs'
    by (induction hs') (auto simp: somes_def valued_at_def)
  moreover have "somes (map va_unrealized_pnl (map (\<lambda>h. valued_at h (price h)) hs')) =
      map (\<lambda>h. dsub (dmul (h_quantity h) (fst (the (price h)))) (cost_basis h)) (filter (\<lambda>h. price h \<noteq> None) hs')" for hs'
    by (induction hs') (auto simp: somes_def valued_at_def)
  moreover have "length hs - length priced = 0 \<longleftrightarrow> priced = hs"
    unfolding priced_def by (metis diff_is_0_eq filter_id_conv length_filter_less not_le order_refl)
  moreover have "filter (\<lambda>h. \<exists>a b. price h = Some (a, b)) priced = priced" by (auto simp: priced_def filter_id_conv)
  ultimately show ?thesis by (simp add: v_def valuation_from_positions_def Let_def avail priced_def [symmetric] total_cost_basis_def)
qed

lemma value_portfolio_run:
  assumes "\<forall>h \<in> set (pf_positions p). holding_ok h"
    and "batch_get_prices (batch_get_quotes env) (instruments_of p) r = (Inr (collect_prices (instruments_of p) items), r')"
    and "requested_symbols (instruments_of p) = [] \<longrightarrow> r' = r"
  shows "value_portfolio (PriceSource (batch_get_prices (batch_get_quotes env))) p r = (Inr (valuation_from_positions p
    (map (\<lambda>h. valued_at h (price_pair (collect_prices (instruments_of p) items (h_market h, h_symbol h)))) (pf_positions p))), r')"
proof (cases "pf_positions p = []")
  case True
  then have "requested_symbols (instruments_of p) = []" by (simp add: instruments_of_def requested_symbols_def keep_first_def)
  then show ?thesis using assms(3) True by (simp add: value_portfolio_def value_positions_from_prices_def bind_run)
next
  case False
  have "each_result (\<lambda>h. value_position_from_price h (collect_prices (instruments_of p) items (h_market h, h_symbol h))) (pf_positions p) =
      Inr (map (\<lambda>h. valued_at h (price_pair (collect_prices (instruments_of p) items (h_market h, h_symbol h)))) (pf_positions p))"
    using assms(1) by (intro each_result_all) (auto intro!: value_position_run dest: collected)
  then show ?thesis
    using False assms(2) instruments_valid [OF assms(1)]
    by (simp add: value_portfolio_def value_positions_from_prices_def bind_run instruments_of_def)
qed

text \<open>
  C19. A portfolio is always valued, whatever of Redis and of the requests to the market data provider fails (with a
  \<open>RedisError\<close> or an \<open>httpx.HTTPError\<close>). Each
  position, in order, is valued at a positive price that was answered for its symbol, with the time of the quote, and only if no
  other market holds this symbol; otherwise it has no value at all. A position whose symbol is
  answered with a positive price and held in one market is never left out. The total market value, the
  total unrealized profit and the priced cost basis are sums over the valued positions, the total cost basis is that
  of all positions; the positions without a value are counted as missing, and the valuation is complete exactly
  when there is none.
\<close>
theorem portfolio_valued:
  assumes "\<forall>h \<in> set (pf_positions p). holding_ok h" and "expected_failures env"
  shows "\<exists>items (price :: holding \<Rightarrow> (decimal \<times> int) option) v r'. value_portfolio (PriceSource (batch_get_prices (batch_get_quotes env))) p r = (Inr v, r')
    \<and> (if requested_symbols (instruments_of p) = [] then items = []
        else batch_get_quotes env (requested_symbols (instruments_of p)) r = (Inr (response_of items), r'))
    \<and> vp_positions v = map (\<lambda>h. valued_at h (price h)) (pf_positions p)
    \<and> (\<forall>h x t. price h = Some (x, t) \<longrightarrow> 0 < x \<and> markets_of (instruments_of p) (h_symbol h) = [h_market h]
        \<and> (\<exists>item q. item \<in> set items \<and> qi_quote item = Some q \<and> normal_symbol (qi_symbol item) = h_symbol h
          \<and> sn_close q = x \<and> sn_timestamp q = t))
    \<and> (\<forall>h item q. item \<in> set items \<longrightarrow> qi_quote item = Some q \<longrightarrow> normal_symbol (qi_symbol item) = h_symbol h \<longrightarrow> 0 < sn_close q
        \<longrightarrow> markets_of (instruments_of p) (h_symbol h) = [h_market h] \<longrightarrow> price h \<noteq> None)
    \<and> (let priced = filter (\<lambda>h. price h \<noteq> None) (pf_positions p) in
        vp_total_market_value v = dsum (map (\<lambda>h. dmul (h_quantity h) (fst (the (price h)))) priced)
        \<and> vp_total_unrealized_pnl v = dsum (map (\<lambda>h. dsub (dmul (h_quantity h) (fst (the (price h)))) (cost_basis h)) priced)
        \<and> vp_priced_cost_basis v = dsum (map cost_basis priced)
        \<and> vp_total_cost_basis v = dsum (map cost_basis (pf_positions p)) \<and> vp_portfolio_id v = pf_id p
        \<and> vp_priced_positions v = length priced \<and> vp_missing_quotes v = length (pf_positions p) - length priced
        \<and> (vp_valuation_complete v \<longleftrightarrow> priced = pf_positions p))"
proof -
  let ?hs = "pf_positions p" and ?ins = "instruments_of p"
  obtain items r' where run: "batch_get_prices (batch_get_quotes env) ?ins r = (Inr (collect_prices ?ins items), r')"
    and asked: "if requested_symbols ?ins = [] then items = [] \<and> r' = r
        else batch_get_quotes env (requested_symbols ?ins) r = (Inr (response_of items), r')"
    and items: "\<forall>item \<in> set items. qi_status item = ITEM_ERROR \<longleftrightarrow> qi_quote item = None" using prices_run [OF assms, of r] by blast
  define price :: "holding \<Rightarrow> (decimal \<times> int) option" where "price h = price_pair (collect_prices ?ins items (h_market h, h_symbol h))" for h
  let ?v = "valuation_from_positions p (map (\<lambda>h. valued_at h (price h)) ?hs)"
  have run_all: "value_portfolio (PriceSource (batch_get_prices (batch_get_quotes env))) p r = (Inr ?v, r')"
    using value_portfolio_run [OF assms(1) run] asked unfolding price_def by (simp split: if_splits)
  have sound: "0 < x \<and> markets_of ?ins (h_symbol h) = [h_market h]
      \<and> (\<exists>item q. item \<in> set items \<and> qi_quote item = Some q \<and> normal_symbol (qi_symbol item) = h_symbol h
        \<and> sn_close q = x \<and> sn_timestamp q = t)"
    if h: "price h = Some (x, t)" for h x t
  proof -
    obtain v where v: "collect_prices ?ins items (h_market h, h_symbol h) = Some v" "x = vl_price v" "t = vl_timestamp v"
      using h by (auto simp: price_def price_pair_def)
    from collected [OF v(1)] v(2,3) show ?thesis by (auto simp: priced_by_def)
  qed
  have complete: "price h \<noteq> None" if "item \<in> set items" "qi_quote item = Some q" "normal_symbol (qi_symbol item) = h_symbol h"
      "0 < sn_close q" "markets_of ?ins (h_symbol h) = [h_market h]" for h item q
    using collected_complete [of item items q ?ins "h_market h"] that items by (auto simp: price_def price_pair_def)
  have "if requested_symbols ?ins = [] then items = []
      else batch_get_quotes env (requested_symbols ?ins) r = (Inr (response_of items), r')" using asked by (simp split: if_splits)
  then show ?thesis unfolding Let_def using sound complete valuation_totals [of p price ?hs]
    by (intro exI [of _ items] exI [of _ price] exI [of _ ?v] exI [of _ r'] conjI run_all) (assumption | blast)+
qed

section \<open>An instance\<close>

definition spy_portfolio :: portfolio where
  "spy_portfolio = \<lparr>pf_id = 7, pf_user_id = ''alice'', pf_name = ''Growth'', pf_currency = USD,
     pf_positions = [\<lparr>h_id = 8, h_symbol = ''SPY'', h_market = US, h_quantity = 3 / 2, h_average_cost = 400, h_created_at = 1, h_updated_at = 2\<rparr>],
     pf_created_at = 1, pf_updated_at = 2\<rparr>"

theorem portfolio_valued_witness:
  "\<exists>v r'. value_portfolio (PriceSource (batch_get_prices (batch_get_quotes (benv answering 0)))) spy_portfolio Map.empty = (Inr v, r')
    \<and> length (vp_positions v) = 1"
proof -
  have ok: "\<forall>h \<in> set (pf_positions spy_portfolio). holding_ok h"
    by (simp add: spy_portfolio_def holding_ok_def symbol_ok_def spy_normal)
  have redis: "expected_failures (benv answering 0)" by (simp add: expected_failures_def redis_failure_def benv_def)
  have one: "length (pf_positions spy_portfolio) = 1" by (simp add: spy_portfolio_def)
  obtain price v r' where "value_portfolio (PriceSource (batch_get_prices (batch_get_quotes (benv answering 0)))) spy_portfolio Map.empty = (Inr v, r')"
    "vp_positions v = map (\<lambda>h. valued_at h (price h)) (pf_positions spy_portfolio)"
    using portfolio_valued [OF ok redis, of Map.empty] by (elim exE conjE) (erule (1) that)
  then show ?thesis using one by (intro exI [of _ v] exI [of _ r'] conjI) simp_all
qed

end
