(* ===== verification/Trading_Store.thy ===== *)
theory Trading_Store
  imports Paper_Trading
begin

text \<open>
  The persistence of paper trading: the rows of \<open>libs/database/models/trading.py\<close>, the
  repositories of \<open>libs/database/repositories/trading.py\<close> and the transaction boundary of
  \<open>libs/database/unit_of_work.py\<close>. PostgreSQL and SQLAlchemy are outside the repository. What the
  code relies on is a parameter (\<open>db_env\<close>): the conversion of a Decimal by a
  \<open>Numeric(20, 6)\<close> column, what other transactions commit while this one, which holds the locks on
  the accounts given, waits for another row lock,
  why the server may refuse a commit, the clock and the collation of texts. Columns with a \<open>StrEnum\<close> value have the type of the
  enumeration; columns that no code reads (\<open>currency\<close>, \<open>updated_at\<close>, the surrogate key of a
  position) are left out.
\<close>

section \<open>Rows\<close>

record account_row =
  ar_id :: uuid
  ar_user_id :: string
  ar_initial_cash :: decimal
  ar_cash_balance :: decimal

record position_row =
  pr_account_id :: uuid
  pr_symbol :: string
  pr_quantity :: int
  pr_average_cost :: decimal
  pr_realized_pnl :: decimal

record order_row =
  or_id :: uuid
  or_account_id :: uuid
  or_symbol :: string
  or_side :: order_side
  or_type :: order_type
  or_status :: order_status
  or_quantity :: int
  or_filled_quantity :: int
  or_limit_price :: "decimal option"
  or_created_at :: int

record execution_row =
  er_id :: uuid
  er_order_id :: uuid
  er_account_id :: uuid
  er_symbol :: string
  er_side :: order_side
  er_quantity :: int
  er_price :: decimal
  er_executed_at :: int

record tables =
  accounts :: "account_row list"
  positions :: "position_row list"
  orders :: "order_row list"
  executions :: "execution_row list"

record db_env =
  numeric :: "decimal \<Rightarrow> decimal"
  lock_wait :: "uuid set \<Rightarrow> tables \<Rightarrow> tables"
  commit_error :: "tables \<Rightarrow> error option"
  utc_now :: int
  text_le :: "string \<Rightarrow> string \<Rightarrow> bool"

text \<open>
  The constraints the models declare: the check constraints, the keys, the unique constraint on
  positions and the foreign keys.
\<close>

definition account_row_ok :: "account_row \<Rightarrow> bool" where
  "account_row_ok a \<longleftrightarrow> 0 < ar_initial_cash a \<and> 0 \<le> ar_cash_balance a"

definition position_row_ok :: "position_row \<Rightarrow> bool" where
  "position_row_ok p \<longleftrightarrow> 0 \<le> pr_quantity p \<and> 0 \<le> pr_average_cost p"

definition order_row_ok :: "order_row \<Rightarrow> bool" where
  "order_row_ok r \<longleftrightarrow> 0 < or_quantity r \<and> 0 \<le> or_filled_quantity r \<and> or_filled_quantity r \<le> or_quantity r"

definition execution_row_ok :: "execution_row \<Rightarrow> bool" where
  "execution_row_ok e \<longleftrightarrow> 0 < er_quantity e \<and> 0 < er_price e"

definition constraints_ok :: "tables \<Rightarrow> bool" where
  "constraints_ok t \<longleftrightarrow>
     list_all account_row_ok (accounts t) \<and> distinct (map ar_id (accounts t)) \<and>
     list_all position_row_ok (positions t) \<and>
     distinct (map (\<lambda>p. (pr_account_id p, pr_symbol p)) (positions t)) \<and>
     list_all (\<lambda>p. pr_account_id p \<in> set (map ar_id (accounts t))) (positions t) \<and>
     list_all order_row_ok (orders t) \<and> distinct (map or_id (orders t)) \<and>
     list_all (\<lambda>r. or_account_id r \<in> set (map ar_id (accounts t))) (orders t) \<and>
     list_all execution_row_ok (executions t) \<and> distinct (map er_id (executions t)) \<and>
     list_all (\<lambda>e. er_order_id e \<in> set (map or_id (orders t))
                 \<and> er_account_id e \<in> set (map ar_id (accounts t))) (executions t)"

text \<open>What the column types admit: \<open>String(n)\<close>, \<open>Integer\<close> (32 bits), \<open>Numeric(20, 6)\<close>.\<close>

definition fits_numeric :: "decimal \<Rightarrow> bool" where
  "fits_numeric x \<longleftrightarrow> \<bar>x\<bar> < 10 ^ 14"

definition fits_integer :: "int \<Rightarrow> bool" where
  "fits_integer n \<longleftrightarrow> - (2 ^ 31) \<le> n \<and> n < 2 ^ 31"

definition columns_fit :: "tables \<Rightarrow> bool" where
  "columns_fit t \<longleftrightarrow>
     list_all (\<lambda>a. length (ar_user_id a) \<le> 128 \<and> fits_numeric (ar_initial_cash a)
                 \<and> fits_numeric (ar_cash_balance a)) (accounts t) \<and>
     list_all (\<lambda>p. length (pr_symbol p) \<le> 32 \<and> fits_integer (pr_quantity p)
                 \<and> fits_numeric (pr_average_cost p) \<and> fits_numeric (pr_realized_pnl p)) (positions t) \<and>
     list_all (\<lambda>r. length (or_symbol r) \<le> 32 \<and> fits_integer (or_quantity r)
                 \<and> (case or_limit_price r of None \<Rightarrow> True | Some x \<Rightarrow> fits_numeric x)) (orders t) \<and>
     list_all (\<lambda>e. length (er_symbol e) \<le> 32 \<and> fits_integer (er_quantity e)
                 \<and> fits_numeric (er_price e)) (executions t)"

section \<open>Repositories\<close>

text \<open>A repository method reads the tables of the session, or returns them changed.\<close>

definition account_to_domain :: "account_row \<Rightarrow> paper_account result" where
  "account_to_domain m =
     paper_account_new (ar_initial_cash m) (Some (ar_id m)) (Some (ar_cash_balance m)) (ar_id m)"

definition load :: "('r \<Rightarrow> 'a result) \<Rightarrow> 'r option \<Rightarrow> 'a option result" where
  "load to_domain m =
     (case m of None \<Rightarrow> Inr None
      | Some r \<Rightarrow> (case to_domain r of Inl e \<Rightarrow> Inl e | Inr a \<Rightarrow> Inr (Some a)))"

fun load_all :: "('r \<Rightarrow> 'a result) \<Rightarrow> 'r list \<Rightarrow> 'a list result" where
  "load_all to_domain [] = Inr []"
| "load_all to_domain (r # rs) =
     (case to_domain r of
        Inl e \<Rightarrow> Inl e
      | Inr a \<Rightarrow> (case load_all to_domain rs of Inl e \<Rightarrow> Inl e | Inr as \<Rightarrow> Inr (a # as)))"

definition account_repo_add :: "db_env \<Rightarrow> string \<Rightarrow> paper_account \<Rightarrow> tables \<Rightarrow> tables" where
  "account_repo_add env user_id a t = t\<lparr>accounts := accounts t @
     [\<lparr>ar_id = account_id a, ar_user_id = user_id, ar_initial_cash = numeric env (initial_cash a),
       ar_cash_balance = numeric env (cash_balance a)\<rparr>]\<rparr>"

definition account_repo_get :: "uuid \<Rightarrow> tables \<Rightarrow> paper_account option result" where
  "account_repo_get aid t = load account_to_domain (first_where (\<lambda>m. ar_id m = aid) (accounts t))"

definition account_repo_get_by_user_id :: "string \<Rightarrow> tables \<Rightarrow> paper_account option result" where
  "account_repo_get_by_user_id user_id t =
     (let normalized_user_id = strip user_id
      in if normalized_user_id = [] then Inl (ValueError ''User ID must not be empty.'')
         else load account_to_domain
                (first_where (\<lambda>m. ar_user_id m = normalized_user_id) (accounts t)))"

definition account_repo_update :: "db_env \<Rightarrow> paper_account \<Rightarrow> tables \<Rightarrow> tables result" where
  "account_repo_update env a t =
     (case first_where (\<lambda>m. ar_id m = account_id a) (accounts t) of
        None \<Rightarrow> Inl (ValueError ''Paper account not found.'')
      | Some _ \<Rightarrow> Inr (t\<lparr>accounts := update_where (\<lambda>m. ar_id m = account_id a)
          (\<lambda>m. m\<lparr>ar_cash_balance := numeric env (cash_balance a)\<rparr>) (accounts t)\<rparr>))"

definition position_to_domain :: "position_row \<Rightarrow> position result" where
  "position_to_domain m =
     position_new (pr_symbol m) (pr_quantity m) (pr_average_cost m) (pr_realized_pnl m)"

definition position_key :: "uuid \<Rightarrow> string \<Rightarrow> position_row \<Rightarrow> bool" where
  "position_key aid symbol m \<longleftrightarrow> pr_account_id m = aid \<and> pr_symbol m = symbol"

definition position_repo_get :: "uuid \<Rightarrow> string \<Rightarrow> tables \<Rightarrow> position option result" where
  "position_repo_get aid symbol t =
     load position_to_domain (first_where (position_key aid (normal_symbol symbol)) (positions t))"

definition position_repo_upsert :: "db_env \<Rightarrow> uuid \<Rightarrow> position \<Rightarrow> tables \<Rightarrow> tables" where
  "position_repo_upsert env aid p t =
     (let normalized_symbol = normal_symbol (p_symbol p) in
      case first_where (position_key aid normalized_symbol) (positions t) of
        None \<Rightarrow> t\<lparr>positions := positions t @
          [\<lparr>pr_account_id = aid, pr_symbol = normalized_symbol, pr_quantity = p_quantity p,
            pr_average_cost = numeric env (average_cost p),
            pr_realized_pnl = numeric env (realized_pnl p)\<rparr>]\<rparr>
      | Some _ \<Rightarrow> t\<lparr>positions := update_where (position_key aid normalized_symbol)
          (\<lambda>m. m\<lparr>pr_quantity := p_quantity p, pr_average_cost := numeric env (average_cost p),
                 pr_realized_pnl := numeric env (realized_pnl p)\<rparr>) (positions t)\<rparr>)"

definition order_to_domain :: "order_row \<Rightarrow> paper_order result" where
  "order_to_domain m =
     paper_order_new (or_account_id m) (or_symbol m) (or_side m) (or_quantity m) (or_type m)
       (Some (or_id m)) (or_status m) (or_filled_quantity m) (or_limit_price m) (or_id m)"

definition order_row_of :: "db_env \<Rightarrow> paper_order \<Rightarrow> order_row" where
  "order_row_of env r = \<lparr>or_id = order_id r, or_account_id = o_account_id r, or_symbol = o_symbol r,
     or_side = o_side r, or_type = o_type r, or_status = o_status r, or_quantity = o_quantity r,
     or_filled_quantity = filled_quantity r,
     or_limit_price = map_option (numeric env) (limit_price r), or_created_at = utc_now env\<rparr>"

definition order_repo_add :: "db_env \<Rightarrow> paper_order \<Rightarrow> tables \<Rightarrow> tables" where
  "order_repo_add env r t = t\<lparr>orders := orders t @ [order_row_of env r]\<rparr>"

definition order_repo_get :: "uuid \<Rightarrow> tables \<Rightarrow> paper_order option result" where
  "order_repo_get oid t = load order_to_domain (first_where (\<lambda>m. or_id m = oid) (orders t))"

definition order_repo_update :: "db_env \<Rightarrow> paper_order \<Rightarrow> tables \<Rightarrow> tables result" where
  "order_repo_update env r t =
     (case first_where (\<lambda>m. or_id m = order_id r) (orders t) of
        None \<Rightarrow> Inl (ValueError ''Paper order not found.'')
      | Some _ \<Rightarrow> Inr (t\<lparr>orders := update_where (\<lambda>m. or_id m = order_id r)
          (\<lambda>m. m\<lparr>or_status := o_status r, or_filled_quantity := filled_quantity r,
                 or_limit_price := map_option (numeric env) (limit_price r)\<rparr>) (orders t)\<rparr>))"

definition execution_to_domain :: "execution_row \<Rightarrow> execution result" where
  "execution_to_domain m =
     execution_new (er_order_id m) (er_symbol m) (er_side m) (er_quantity m) (er_price m)
       (Some (er_id m)) (er_id m)"

definition execution_row_of :: "db_env \<Rightarrow> uuid \<Rightarrow> execution \<Rightarrow> execution_row" where
  "execution_row_of env aid e = \<lparr>er_id = execution_id e, er_order_id = ex_order_id e,
     er_account_id = aid, er_symbol = ex_symbol e, er_side = ex_side e, er_quantity = ex_quantity e,
     er_price = numeric env (ex_price e), er_executed_at = utc_now env\<rparr>"

definition execution_repo_add :: "db_env \<Rightarrow> uuid \<Rightarrow> execution \<Rightarrow> tables \<Rightarrow> tables" where
  "execution_repo_add env aid e t = t\<lparr>executions := executions t @ [execution_row_of env aid e]\<rparr>"

section \<open>Listings\<close>

text \<open>
  The statements with \<open>order_by\<close> and \<open>limit\<close>. The order of texts is the collation of the
  database; the identifiers break ties between timestamps.
\<close>

definition validate_read_limit :: "int \<Rightarrow> int result" where
  "validate_read_limit limit =
     (if \<not> (1 \<le> limit \<and> limit \<le> 500) then Inl (ValueError ''Read limit must be between 1 and 500.'')
      else Inr limit)"

definition position_repo_list_by_account :: "db_env \<Rightarrow> uuid \<Rightarrow> tables \<Rightarrow> position list result" where
  "position_repo_list_by_account env aid t =
     load_all position_to_domain
       (order_rows (\<lambda>x y. text_le env (pr_symbol x) (pr_symbol y))
          (filter (\<lambda>m. pr_account_id m = aid) (positions t)))"

definition newest_order :: "order_row \<Rightarrow> order_row \<Rightarrow> bool" where
  "newest_order x y \<longleftrightarrow> or_created_at y < or_created_at x
     \<or> or_created_at x = or_created_at y \<and> or_id y \<le> or_id x"

definition order_repo_list_by_account :: "uuid \<Rightarrow> int \<Rightarrow> tables \<Rightarrow> paper_order list result" where
  "order_repo_list_by_account aid limit t =
     (case validate_read_limit limit of
        Inl e \<Rightarrow> Inl e
      | Inr validated_limit \<Rightarrow>
          load_all order_to_domain (take (nat validated_limit)
            (order_rows newest_order (filter (\<lambda>m. or_account_id m = aid) (orders t)))))"

definition open_order_statuses :: "order_status list" where
  "open_order_statuses = [NEW, PENDING, PARTIALLY_FILLED]"

definition order_repo_list_open_by_account :: "uuid \<Rightarrow> int \<Rightarrow> tables \<Rightarrow> paper_order list result" where
  "order_repo_list_open_by_account aid limit t =
     (case validate_read_limit limit of
        Inl e \<Rightarrow> Inl e
      | Inr validated_limit \<Rightarrow>
          load_all order_to_domain (take (nat validated_limit)
            (order_rows newest_order
               (filter (\<lambda>m. or_account_id m = aid \<and> or_status m \<in> set open_order_statuses) (orders t)))))"

definition newest_execution :: "execution_row \<Rightarrow> execution_row \<Rightarrow> bool" where
  "newest_execution x y \<longleftrightarrow> er_executed_at y < er_executed_at x
     \<or> er_executed_at x = er_executed_at y \<and> er_id y \<le> er_id x"

definition execution_repo_list_by_account :: "uuid \<Rightarrow> int \<Rightarrow> tables \<Rightarrow> execution list result" where
  "execution_repo_list_by_account aid limit t =
     (case validate_read_limit limit of
        Inl e \<Rightarrow> Inl e
      | Inr validated_limit \<Rightarrow>
          load_all execution_to_domain (take (nat validated_limit)
            (order_rows newest_execution (filter (\<lambda>m. er_account_id m = aid) (executions t)))))"

end
