(* ===== verification/Unit_Of_Work.thy ===== *)
theory Unit_Of_Work
  imports Trading_Store
begin

text \<open>
  \<open>SqlAlchemyUnitOfWork\<close> (\<open>libs/database/unit_of_work.py\<close>) over the tables of paper trading: the
  committed tables, the tables as the session of the running transaction sees them, the two
  flags, and the accounts whose rows the transaction has locked. Programs over this state are the bodies of \<open>with self.unit_of_work\<close>.
\<close>

record unit_of_work =
  db :: tables
  session :: tables
  committed :: bool
  rolled_back :: bool
  held :: "uuid set"

text \<open>
  A request, a market operation of a worker and each order of the order worker get a session of
  \<open>get_session_factory()\<close>: it has nothing pending and holds no lock, and what it reads first is what is
  committed then. A session that goes on to a second unit of work begins its next transaction in the same way,
  since every unit of work here ends clean (\<open>with_uow_clean\<close> below); \<open>__enter__\<close> itself only resets the flags.
\<close>

definition new_session :: "unit_of_work \<Rightarrow> unit_of_work" where
  "new_session u = u\<lparr>session := db u, held := {}\<rparr>"

definition uow_enter :: "unit_of_work \<Rightarrow> unit_of_work" where
  "uow_enter u = u\<lparr>committed := False, rolled_back := False\<rparr>"

definition uow_rollback :: "unit_of_work \<Rightarrow> unit_of_work" where
  "uow_rollback u = (if rolled_back u then u else u\<lparr>session := db u, rolled_back := True\<rparr>)"

text \<open>What the server checks when the session is flushed, and at the commit.\<close>

definition flush_error :: "tables \<Rightarrow> error option" where
  "flush_error t =
     (if \<not> columns_fit t then Some (ExternalError ''DataError'')
      else if \<not> constraints_ok t then Some (IntegrityError ''constraint violated'')
      else None)"

definition session_flush :: "(unit_of_work, unit) prog" where
  "session_flush = (\<lambda>u. case flush_error (session u) of
     Some e \<Rightarrow> (Inl e, u) | None \<Rightarrow> (Inr (), u))"

definition session_commit :: "db_env \<Rightarrow> (unit_of_work, unit) prog" where
  "session_commit env = (\<lambda>u. case flush_error (session u) of
     Some e \<Rightarrow> (Inl e, u)
   | None \<Rightarrow> (case commit_error env (session u) of
       Some e \<Rightarrow> (Inl e, u)
     | None \<Rightarrow> (Inr (), u\<lparr>db := session u\<rparr>)))"

definition uow_commit :: "db_env \<Rightarrow> (unit_of_work, unit) prog" where
  "uow_commit env =
     bind (try_except (session_commit env) (\<lambda>e. bind (update_state uow_rollback) (\<lambda>_. raise e)))
       (\<lambda>_. update_state (\<lambda>u. u\<lparr>committed := True\<rparr>))"

definition uow_exit :: "unit_of_work \<Rightarrow> unit_of_work" where
  "uow_exit u = (if \<not> committed u then uow_rollback u else u)"

definition with_uow :: "(unit_of_work, 'a) prog \<Rightarrow> (unit_of_work, 'a) prog" where
  "with_uow body = (\<lambda>u. case body (uow_enter (new_session u)) of (r, u') \<Rightarrow> (r, uow_exit u'))"

text \<open>Reads and writes of the session; a lock is granted after other transactions committed.\<close>

definition reading :: "(tables \<Rightarrow> 'a result) \<Rightarrow> (unit_of_work, 'a) prog" where
  "reading f = (\<lambda>u. (f (session u), u))"

definition writing :: "(tables \<Rightarrow> tables result) \<Rightarrow> (unit_of_work, unit) prog" where
  "writing f = (\<lambda>u. case f (session u) of
     Inl e \<Rightarrow> (Inl e, u) | Inr t \<Rightarrow> (Inr (), u\<lparr>session := t\<rparr>))"

definition locking :: "db_env \<Rightarrow> (tables \<Rightarrow> 'a result) \<Rightarrow> (unit_of_work, 'a) prog" where
  "locking env f = (\<lambda>u.
     let u' = u\<lparr>db := lock_wait env (held u) (db u), session := lock_wait env (held u) (session u)\<rparr>
     in (f (session u'), u'))"

definition hold :: "uuid \<Rightarrow> (unit_of_work, unit) prog" where
  "hold aid = update_state (\<lambda>u. u\<lparr>held := insert aid (held u)\<rparr>)"

text \<open>
  Between two statements that lock nothing, other transactions may commit as well; the database
  runs at READ COMMITTED, so the next statement sees what they did.
\<close>

definition others_commit :: "db_env \<Rightarrow> (unit_of_work, unit) prog" where
  "others_commit env = locking env (\<lambda>_. Inr ())"

section \<open>Atomicity\<close>

text \<open>
  A quiet program leaves the committed tables to the other transactions and the flags alone.
\<close>

inductive by_others :: "db_env \<Rightarrow> tables \<Rightarrow> tables \<Rightarrow> bool" for env where
  by_others_refl [simp, intro]: "by_others env t t"
| by_others_wait: "by_others env t t' \<Longrightarrow> by_others env t (lock_wait env L t')"

lemma by_others_step: "by_others env t (lock_wait env L t)"
  by (rule by_others_wait) (rule by_others_refl)

lemma by_others_trans: "by_others env t' t'' \<Longrightarrow> by_others env t t' \<Longrightarrow> by_others env t t''"
  by (induction rule: by_others.induct) (auto intro: by_others_wait)

text \<open>Without other transactions, nothing changes.\<close>

lemma by_others_alone: "by_others env t t' \<Longrightarrow> lock_wait env = (\<lambda>_ t. t) \<Longrightarrow> t' = t"
  by (induction rule: by_others.induct) simp_all

lemma by_others_keeps:
  "by_others env t t' \<Longrightarrow> (\<And>L t. P t \<Longrightarrow> P (lock_wait env L t)) \<Longrightarrow> P t \<Longrightarrow> P t'"
  by (induction rule: by_others.induct) simp_all

definition quiet :: "db_env \<Rightarrow> (unit_of_work, 'a) prog \<Rightarrow> bool" where
  "quiet env m \<longleftrightarrow> (\<forall>u. by_others env (db u) (db (snd (m u)))
     \<and> committed (snd (m u)) = committed u \<and> rolled_back (snd (m u)) = rolled_back u)"

named_theorems quiet_intros "rules for programs that leave the committed tables alone"

lemma quietD:
  "quiet env m \<Longrightarrow> m u = (r, u') \<Longrightarrow>
   by_others env (db u) (db u') \<and> committed u' = committed u \<and> rolled_back u' = rolled_back u"
  by (metis quiet_def snd_conv)

lemma quiet_basic [quiet_intros]:
  "quiet env (ret a)" "quiet env (raise e)" "quiet env (of_result x)" "quiet env (raise_if b e)"
  "quiet env (reading f)" "quiet env session_flush"
  by (simp_all add: quiet_def reading_def session_flush_def split: option.splits)

lemma quiet_writing [quiet_intros]: "quiet env (writing f)"
  by (auto simp: quiet_def writing_def split: sum.splits)

lemma quiet_locking [quiet_intros]: "quiet env (locking env f)"
  by (simp add: quiet_def locking_def Let_def by_others_step)

lemma quiet_others_commit [quiet_intros]: "quiet env (others_commit env)"
  unfolding others_commit_def by (rule quiet_locking)

lemma quiet_hold [quiet_intros]: "quiet env (hold aid)"
  by (simp add: quiet_def hold_def)

lemma quiet_bind [quiet_intros]:
  assumes "quiet env m" and "\<And>a. quiet env (f a)"
  shows "quiet env (bind m f)"
  unfolding quiet_def
proof
  fix u
  obtain r u' where m: "m u = (r, u')" by fastforce
  show "by_others env (db u) (db (snd (bind m f u)))
     \<and> committed (snd (bind m f u)) = committed u \<and> rolled_back (snd (bind m f u)) = rolled_back u"
  proof (cases r)
    case (Inl e)
    then show ?thesis using quietD [OF assms(1) m] m by (simp add: bind_run)
  next
    case (Inr a)
    have "bind m f u = f a u'" using m Inr by simp
    then show ?thesis
      using quietD [OF assms(1) m] assms(2) [of a, unfolded quiet_def, rule_format, of u']
      by (auto intro: by_others_trans)
  qed
qed

text \<open>
  A transaction body that commits last: it raises with nothing of its own committed, or it
  returns with exactly its session committed.
\<close>

definition commits_last :: "db_env \<Rightarrow> (unit_of_work, 'a) prog \<Rightarrow> bool" where
  "commits_last env m \<longleftrightarrow> (\<forall>u r u'. m u = (r, u') \<longrightarrow> \<not> committed u \<longrightarrow> \<not> rolled_back u \<longrightarrow>
     (case r of
        Inl _ \<Rightarrow> \<not> committed u' \<and> by_others env (db u) (db u') \<and> (rolled_back u' \<longrightarrow> session u' = db u')
      | Inr _ \<Rightarrow> committed u' \<and> db u' = session u' \<and> flush_error (db u') = None))"

lemma commits_last_Inl:
  "commits_last env m \<Longrightarrow> m u = (Inl e, u') \<Longrightarrow> \<not> committed u \<Longrightarrow> \<not> rolled_back u \<Longrightarrow>
   \<not> committed u' \<and> by_others env (db u) (db u') \<and> (rolled_back u' \<longrightarrow> session u' = db u')"
  unfolding commits_last_def by (drule spec [of _ u], drule spec [of _ "Inl e"], drule spec [of _ u']) simp

lemma commits_last_Inr:
  "commits_last env m \<Longrightarrow> m u = (Inr a, u') \<Longrightarrow> \<not> committed u \<Longrightarrow> \<not> rolled_back u \<Longrightarrow>
   committed u' \<and> db u' = session u' \<and> flush_error (db u') = None"
  unfolding commits_last_def by (drule spec [of _ u], drule spec [of _ "Inr a"], drule spec [of _ u']) auto

lemma uow_commit_run:
  "uow_commit env u =
     (case flush_error (session u) of
        Some e \<Rightarrow> (Inl e, uow_rollback u)
      | None \<Rightarrow> (case commit_error env (session u) of
          Some e \<Rightarrow> (Inl e, uow_rollback u)
        | None \<Rightarrow> (Inr (), u\<lparr>db := session u, committed := True\<rparr>)))"
  by (simp add: uow_commit_def session_commit_def bind_run try_except_def split: option.splits)

lemma uow_rollback_sel [simp]:
  "db (uow_rollback u) = db u" "committed (uow_rollback u) = committed u"
  by (simp_all add: uow_rollback_def)

lemma commits_last_commit: "commits_last env (bind (uow_commit env) (\<lambda>_. ret a))"
  by (auto simp: commits_last_def uow_commit_run bind_run uow_rollback_def split: option.splits)

lemma commits_last_bind:
  assumes "quiet env m" and "\<And>a. commits_last env (f a)"
  shows "commits_last env (bind m f)"
  unfolding commits_last_def
proof (intro allI impI)
  fix u r u'
  assume b: "bind m f u = (r, u')" and c: "\<not> committed u" "\<not> rolled_back u"
  obtain x v where m: "m u = (x, v)" by fastforce
  note q = quietD [OF assms(1) m]
  show "case r of
      Inl _ \<Rightarrow> \<not> committed u' \<and> by_others env (db u) (db u') \<and> (rolled_back u' \<longrightarrow> session u' = db u')
    | Inr _ \<Rightarrow> committed u' \<and> db u' = session u' \<and> flush_error (db u') = None"
  proof (cases x)
    case (Inl e)
    then show ?thesis using b m q c by (auto simp: bind_run)
  next
    case (Inr a)
    then have "f a v = (r, u')" using b m by simp
    then show ?thesis
      using assms(2) [of a] q c by (fastforce simp: commits_last_def intro: by_others_trans split: sum.splits)
  qed
qed

lemma commits_last_if:
  "commits_last env m \<Longrightarrow> commits_last env m' \<Longrightarrow> commits_last env (if b then m else m')"
  by simp

lemma uow_enter_sel [simp]:
  "db (uow_enter (new_session u)) = db u" "session (uow_enter (new_session u)) = db u"
  "committed (uow_enter (new_session u)) = False" "rolled_back (uow_enter (new_session u)) = False"
  by (simp_all add: uow_enter_def new_session_def)

lemma held_uow_enter [simp]: "held (uow_enter (new_session u)) = {}"
  by (simp add: uow_enter_def new_session_def)

text \<open>
  The transaction boundary: a body that commits last either takes effect as a whole, or raises
  and leaves the committed tables to the other transactions.
\<close>

lemma with_uow_error:
  assumes "commits_last env m" and "with_uow m u = (Inl e, u')"
  shows "by_others env (db u) (db u')"
proof -
  obtain v where m: "m (uow_enter (new_session u)) = (Inl e, v)" and u': "u' = uow_exit v"
    using assms(2) by (auto simp: with_uow_def split: prod.splits)
  have "\<not> committed v \<and> by_others env (db u) (db v)"
    using commits_last_Inl [OF assms(1) m] by simp
  then show ?thesis by (simp add: u' uow_exit_def)
qed

lemma with_uow_success:
  assumes "commits_last env m" and "with_uow m u = (Inr a, u')"
  shows "m (uow_enter (new_session u)) = (Inr a, u') \<and> committed u' \<and> db u' = session u' \<and> flush_error (db u') = None"
proof -
  obtain v where m: "m (uow_enter (new_session u)) = (Inr a, v)" and u': "u' = uow_exit v"
    using assms(2) by (auto simp: with_uow_def split: prod.splits)
  have "committed v \<and> db v = session v \<and> flush_error (db v) = None"
    by (rule commits_last_Inr [OF assms(1) m]) simp_all
  then show ?thesis using m u' by (metis uow_exit_def)
qed

text \<open>A read-only body: no commit, so the exit rolls back and nothing is changed.\<close>

lemma with_uow_quiet:
  assumes "quiet env m" and "with_uow m u = (r, u')"
  shows "by_others env (db u) (db u')"
proof -
  obtain v where m: "m (uow_enter (new_session u)) = (r, v)" and u': "u' = uow_exit v"
    using assms(2) by (auto simp: with_uow_def split: prod.splits)
  then show ?thesis using quietD [OF assms(1) m] by (simp add: uow_exit_def)
qed

text \<open>
  Nothing is left pending in the session when a unit of work ends, however it ends: a body that does
  not commit is rolled back, a failed commit has rolled back already, and a commit leaves the session as the
  database is. So the session a second unit of work enters hides nothing.
\<close>

definition clean :: "unit_of_work \<Rightarrow> bool" where
  "clean u \<longleftrightarrow> session u = db u"

lemma new_session_clean: "clean (new_session u)"
  by (simp add: clean_def new_session_def)

lemma uow_exit_clean: "\<not> committed u \<Longrightarrow> (rolled_back u \<Longrightarrow> clean u) \<Longrightarrow> clean (uow_exit u)"
  by (simp add: clean_def uow_exit_def uow_rollback_def)

lemma with_uow_quiet_clean: "quiet env m \<Longrightarrow> clean (snd (with_uow m u))"
  unfolding with_uow_def
  by (auto dest: quietD intro!: uow_exit_clean split: prod.splits)

lemma with_uow_clean:
  assumes "commits_last env m"
  shows "clean (snd (with_uow m u))"
proof -
  obtain r v where m: "m (uow_enter (new_session u)) = (r, v)" by fastforce
  have "clean (uow_exit v)"
  proof (cases r)
    case (Inl e)
    have "\<not> committed v \<and> (rolled_back v \<longrightarrow> clean v)"
      using commits_last_Inl [OF assms m [unfolded Inl]] by (simp add: clean_def)
    then show ?thesis by (simp add: uow_exit_clean)
  next
    case (Inr a)
    show ?thesis
      using commits_last_Inr [OF assms m [unfolded Inr]] by (simp add: clean_def uow_exit_def)
  qed
  then show ?thesis using m by (simp add: with_uow_def)
qed

end
