(* ===== verification/Persistent_Trading.thy ===== *)
theory Persistent_Trading
  imports Unit_Of_Work
begin

text \<open>
  \<open>PersistentPaperTradingService\<close> (\<open>services/trading/persistent_paper_trading_service.py\<close>) and the
  services around it: opening an account (\<open>trading_account_service.py\<close>), the queries
  (\<open>trading_query_service.py\<close>), the checks of ownership (\<open>trading_write_service.py\<close>) and one pass
  of the worker over the pending orders (\<open>pending_order_worker.py\<close>).
\<close>

section \<open>Loading under lock\<close>

definition require_account_for_update :: "db_env \<Rightarrow> uuid \<Rightarrow> (unit_of_work, paper_account) prog" where
  "require_account_for_update env aid =
     bind (locking env (account_repo_get aid)) (\<lambda>account.
     case account of
       None \<Rightarrow> raise (ValueError ''Paper account not found.'')
     | Some a \<Rightarrow> bind (hold aid) (\<lambda>_. ret a))"

definition get_or_create_position_for_update ::
  "db_env \<Rightarrow> uuid \<Rightarrow> string \<Rightarrow> (unit_of_work, position) prog" where
  "get_or_create_position_for_update env aid symbol =
     bind (locking env (position_repo_get aid symbol)) (\<lambda>position.
     case position of
       Some p \<Rightarrow> ret p
     | None \<Rightarrow> of_result (position_new symbol 0 0 0))"

section \<open>Persisting what the broker did\<close>

definition add_order :: "db_env \<Rightarrow> paper_order \<Rightarrow> (unit_of_work, unit) prog" where
  "add_order env r = bind (writing (\<lambda>t. Inr (order_repo_add env r t))) (\<lambda>_. session_flush)"

definition persist_execution ::
  "db_env \<Rightarrow> paper_account \<Rightarrow> position \<Rightarrow> trade_execution_result \<Rightarrow> (unit_of_work, unit) prog" where
  "persist_execution env account position result =
     (let aid = account_id account in
      bind (writing (account_repo_update env account)) (\<lambda>_.
      bind (writing (\<lambda>t. Inr (position_repo_upsert env aid position t))) (\<lambda>_.
      bind (add_order env (tr_order result)) (\<lambda>_.
      writing (\<lambda>t. Inr (execution_repo_add env aid (tr_execution result) t))))))"

definition persist_limit_execution ::
  "db_env \<Rightarrow> paper_account \<Rightarrow> position \<Rightarrow> paper_order \<Rightarrow> execution \<Rightarrow> (unit_of_work, unit) prog" where
  "persist_limit_execution env account position order execution =
     (let aid = account_id account in
      bind (raise_if (o_account_id order \<noteq> aid)
              (RuntimeError ''Paper order does not belong to the locked account.'')) (\<lambda>_.
      bind (raise_if (ex_order_id execution \<noteq> order_id order)
              (RuntimeError ''Execution does not belong to the processed paper order.'')) (\<lambda>_.
      bind (writing (account_repo_update env account)) (\<lambda>_.
      bind (writing (\<lambda>t. Inr (position_repo_upsert env aid position t))) (\<lambda>_.
      bind (writing (order_repo_update env order)) (\<lambda>_.
      writing (\<lambda>t. Inr (execution_repo_add env aid execution t))))))))"

section \<open>The operations\<close>

text \<open>Run the trading service on objects this transaction loaded.\<close>

definition on_objects :: "'s \<Rightarrow> ('s, 'a) prog \<Rightarrow> (unit_of_work, 'a \<times> 's) prog" where
  "on_objects s m = (case m s of
     (Inl e, _) \<Rightarrow> raise e
   | (Inr a, s') \<Rightarrow> ret (a, s'))"

definition market_body ::
  "order_side \<Rightarrow> db_env \<Rightarrow> quote_provider \<Rightarrow> uuid \<Rightarrow> uuid \<Rightarrow> uuid \<Rightarrow> string \<Rightarrow> int
   \<Rightarrow> (unit_of_work, trade_execution_result) prog" where
  "market_body side env provider fresh_order fresh_execution aid symbol quantity =
     bind (require_account_for_update env aid) (\<lambda>account.
     bind (get_or_create_position_for_update env aid symbol) (\<lambda>position.
     bind (on_objects \<lparr>bk_account = account, bk_position = position\<rparr>
             (market_trade side (quote_service_get_quote provider) fresh_order fresh_execution quantity))
       (\<lambda>(result, objects).
     bind (persist_execution env (bk_account objects) (bk_position objects) result) (\<lambda>_.
     bind (uow_commit env) (\<lambda>_.
     ret result)))))"

definition market_operation ::
  "order_side \<Rightarrow> db_env \<Rightarrow> quote_provider \<Rightarrow> uuid \<Rightarrow> uuid \<Rightarrow> uuid \<Rightarrow> string \<Rightarrow> int
   \<Rightarrow> (unit_of_work, trade_execution_result) prog" where
  "market_operation side env provider fresh_order fresh_execution aid symbol quantity =
     bind (of_result (normalize_symbol symbol)) (\<lambda>normalized_symbol.
     with_uow (market_body side env provider fresh_order fresh_execution aid normalized_symbol quantity))"

definition market_buy where "market_buy = market_operation BUY"
definition market_sell where "market_sell = market_operation SELL"

definition submit_body ::
  "order_side \<Rightarrow> db_env \<Rightarrow> quote_provider \<Rightarrow> uuid \<Rightarrow> uuid \<Rightarrow> string \<Rightarrow> int \<Rightarrow> decimal
   \<Rightarrow> (unit_of_work, paper_order) prog" where
  "submit_body side env provider fresh_order aid symbol quantity limit =
     bind (require_account_for_update env aid) (\<lambda>account.
     bind (get_or_create_position_for_update env aid symbol) (\<lambda>position.
     bind (on_objects \<lparr>bk_account = account, bk_position = position\<rparr>
             (submit_limit side (quote_service_get_quote provider) fresh_order quantity limit))
       (\<lambda>(order, _).
     bind (add_order env order) (\<lambda>_.
     bind (uow_commit env) (\<lambda>_.
     ret order)))))"

definition submit_operation ::
  "order_side \<Rightarrow> db_env \<Rightarrow> quote_provider \<Rightarrow> uuid \<Rightarrow> uuid \<Rightarrow> string \<Rightarrow> int \<Rightarrow> decimal
   \<Rightarrow> (unit_of_work, paper_order) prog" where
  "submit_operation side env provider fresh_order aid symbol quantity limit =
     bind (of_result (normalize_symbol symbol)) (\<lambda>normalized_symbol.
     with_uow (submit_body side env provider fresh_order aid normalized_symbol quantity limit))"

definition submit_limit_buy where "submit_limit_buy = submit_operation BUY"
definition submit_limit_sell where "submit_limit_sell = submit_operation SELL"

text \<open>The order is read once without a lock to find the account, then again under lock.\<close>

definition lock_order :: "db_env \<Rightarrow> uuid \<Rightarrow> (unit_of_work, paper_account \<times> paper_order) prog" where
  "lock_order env oid =
     bind (reading (order_repo_get oid)) (\<lambda>routing_order.
     case routing_order of
       None \<Rightarrow> raise (ValueError ''Paper order not found.'')
     | Some routing \<Rightarrow>
         bind (require_account_for_update env (o_account_id routing)) (\<lambda>account.
         bind (locking env (order_repo_get oid)) (\<lambda>order.
         case order of
           None \<Rightarrow> raise (ValueError ''Paper order not found.'')
         | Some r \<Rightarrow>
             bind (raise_if (o_account_id r \<noteq> account_id account)
                     (RuntimeError ''Paper order account changed while acquiring transaction locks.''))
               (\<lambda>_. ret (account, r)))))"

definition process_body ::
  "db_env \<Rightarrow> quote_provider \<Rightarrow> uuid \<Rightarrow> uuid \<Rightarrow> (unit_of_work, execution option) prog" where
  "process_body env provider fresh_execution oid =
     bind (lock_order env oid) (\<lambda>(account, order).
     bind (get_or_create_position_for_update env (o_account_id order) (o_symbol order)) (\<lambda>position.
     bind (on_objects \<lparr>b_account = account, b_order = order, b_position = position\<rparr>
             (paper_process_limit_order (quote_service_get_quote provider) fresh_execution))
       (\<lambda>(execution, objects).
     case execution of
       None \<Rightarrow> bind (uow_commit env) (\<lambda>_. ret None)
     | Some ex \<Rightarrow>
         bind (persist_limit_execution env (b_account objects) (b_position objects)
                 (b_order objects) ex) (\<lambda>_.
         bind (uow_commit env) (\<lambda>_.
         ret (Some ex))))))"

definition process_limit_order where
  "process_limit_order env provider fresh_execution oid =
     with_uow (process_body env provider fresh_execution oid)"

definition cancel_body :: "db_env \<Rightarrow> uuid \<Rightarrow> (unit_of_work, paper_order) prog" where
  "cancel_body env oid =
     bind (lock_order env oid) (\<lambda>(_, order).
     bind (of_result (paper_cancel_order order)) (\<lambda>order'.
     bind (writing (order_repo_update env order')) (\<lambda>_.
     bind (uow_commit env) (\<lambda>_.
     ret order'))))"

definition cancel_limit_order where
  "cancel_limit_order env oid = with_uow (cancel_body env oid)"

section \<open>Accounts\<close>

definition open_body :: "db_env \<Rightarrow> uuid \<Rightarrow> string \<Rightarrow> decimal \<Rightarrow> (unit_of_work, paper_account) prog" where
  "open_body env fresh user_id initial =
     bind (reading (account_repo_get_by_user_id user_id)) (\<lambda>existing.
     bind (raise_if (existing \<noteq> None) TradingAccountAlreadyExistsError) (\<lambda>_.
     bind (of_result (paper_account_new initial None None fresh)) (\<lambda>account.
     bind (others_commit env) (\<lambda>_.
     bind (writing (\<lambda>t. Inr (account_repo_add env user_id account t))) (\<lambda>_.
     bind (uow_commit env) (\<lambda>_.
     ret account))))))"

definition open_account where
  "open_account env fresh user_id initial =
     (let normalized_user_id = strip user_id in
      bind (raise_if (normalized_user_id = []) (ValueError ''user_id must not be empty'')) (\<lambda>_.
      bind (raise_if (initial \<le> 0) (ValueError ''initial_cash must be greater than zero'')) (\<lambda>_.
      with_uow (open_body env fresh normalized_user_id initial))))"

section \<open>Queries\<close>

definition require_account_id_for_user :: "string \<Rightarrow> (unit_of_work, uuid) prog" where
  "require_account_id_for_user user_id =
     bind (reading (account_repo_get_by_user_id user_id)) (\<lambda>account.
     case account of
       None \<Rightarrow> raise (ValueError ''Paper account for user not found.'')
     | Some a \<Rightarrow> ret (account_id a))"

definition query_get_account :: "string \<Rightarrow> (unit_of_work, paper_account option) prog" where
  "query_get_account user_id = with_uow (reading (account_repo_get_by_user_id user_id))"

definition query_get_order :: "string \<Rightarrow> uuid \<Rightarrow> (unit_of_work, paper_order option) prog" where
  "query_get_order user_id oid = with_uow (
     bind (require_account_id_for_user user_id) (\<lambda>aid.
     bind (reading (order_repo_get oid)) (\<lambda>order.
     case order of
       None \<Rightarrow> ret None
     | Some r \<Rightarrow> if o_account_id r \<noteq> aid then ret None else ret (Some r))))"

definition query_list :: "(uuid \<Rightarrow> tables \<Rightarrow> 'a list result) \<Rightarrow> string \<Rightarrow> (unit_of_work, 'a list) prog" where
  "query_list listing user_id = with_uow (
     bind (require_account_id_for_user user_id) (\<lambda>aid. reading (listing aid)))"

definition query_list_positions where
  "query_list_positions env = query_list (position_repo_list_by_account env)"

definition query_list_orders where
  "query_list_orders limit = query_list (\<lambda>aid. order_repo_list_by_account aid limit)"

definition query_list_open_orders where
  "query_list_open_orders limit = query_list (\<lambda>aid. order_repo_list_open_by_account aid limit)"

definition query_list_executions where
  "query_list_executions limit = query_list (\<lambda>aid. execution_repo_list_by_account aid limit)"

section \<open>Operations on behalf of a user\<close>

definition write_account_id :: "string \<Rightarrow> (unit_of_work, uuid) prog" where
  "write_account_id user_id =
     bind (query_get_account user_id) (\<lambda>account.
     case account of
       None \<Rightarrow> raise TradingWriteAccountNotFoundError
     | Some a \<Rightarrow> ret (account_id a))"

definition owned_order :: "string \<Rightarrow> uuid \<Rightarrow> (unit_of_work, paper_order) prog" where
  "owned_order user_id oid =
     bind (write_account_id user_id) (\<lambda>_.
     bind (query_get_order user_id oid) (\<lambda>order.
     case order of
       None \<Rightarrow> raise TradingWriteOrderNotFoundError
     | Some r \<Rightarrow> ret r))"

definition write_market_buy where
  "write_market_buy env provider fo fe user_id symbol quantity =
     bind (write_account_id user_id) (\<lambda>aid. market_buy env provider fo fe aid symbol quantity)"

definition write_market_sell where
  "write_market_sell env provider fo fe user_id symbol quantity =
     bind (write_account_id user_id) (\<lambda>aid. market_sell env provider fo fe aid symbol quantity)"

definition write_submit_limit_buy where
  "write_submit_limit_buy env provider fo user_id symbol quantity limit =
     bind (write_account_id user_id) (\<lambda>aid. submit_limit_buy env provider fo aid symbol quantity limit)"

definition write_submit_limit_sell where
  "write_submit_limit_sell env provider fo user_id symbol quantity limit =
     bind (write_account_id user_id) (\<lambda>aid. submit_limit_sell env provider fo aid symbol quantity limit)"

definition write_cancel_limit_order where
  "write_cancel_limit_order env user_id oid =
     bind (owned_order user_id oid) (\<lambda>_. cancel_limit_order env oid)"

definition write_process_limit_order where
  "write_process_limit_order env provider fe user_id oid =
     bind (owned_order user_id oid) (\<lambda>_. process_limit_order env provider fe oid)"

section \<open>One pass over the pending orders\<close>

record worker_result =
  discovered :: int
  wr_filled :: int
  still_pending :: int
  wr_failed :: int

text \<open>
  The statement has no \<open>order_by\<close>: which of the pending limit orders come first is the server's
  choice (\<open>pick\<close>), of which \<open>limit\<close> keeps \<open>batch_size\<close>.
\<close>

definition is_pending_limit :: "order_row \<Rightarrow> bool" where
  "is_pending_limit m \<longleftrightarrow> or_type m = LIMIT \<and> or_status m = PENDING"

definition discover_pending_order_ids ::
  "(uuid list \<Rightarrow> uuid list) \<Rightarrow> int \<Rightarrow> tables \<Rightarrow> uuid list" where
  "discover_pending_order_ids pick batch_size t =
     take (nat batch_size) (pick (map or_id (filter is_pending_limit (orders t))))"

text \<open>The loop of \<open>run_once\<close>; the i-th order is processed with the i-th execution id.\<close>

fun process_pending ::
  "(uuid \<Rightarrow> uuid \<Rightarrow> (unit_of_work, execution option) prog) \<Rightarrow> (nat \<Rightarrow> uuid) \<Rightarrow> nat \<Rightarrow> uuid list
   \<Rightarrow> worker_result \<Rightarrow> unit_of_work \<Rightarrow> worker_result \<times> unit_of_work" where
  "process_pending process_one fresh i [] w u = (w, u)"
| "process_pending process_one fresh i (oid # oids) w u =
     (case process_one (fresh i) oid u of
        (Inl _, u') \<Rightarrow> process_pending process_one fresh (Suc i) oids (w\<lparr>wr_failed := wr_failed w + 1\<rparr>) u'
      | (Inr None, u') \<Rightarrow>
          process_pending process_one fresh (Suc i) oids (w\<lparr>still_pending := still_pending w + 1\<rparr>) u'
      | (Inr (Some _), u') \<Rightarrow>
          process_pending process_one fresh (Suc i) oids (w\<lparr>wr_filled := wr_filled w + 1\<rparr>) u')"

definition run_once ::
  "db_env \<Rightarrow> quote_provider \<Rightarrow> (uuid list \<Rightarrow> uuid list) \<Rightarrow> int \<Rightarrow> (nat \<Rightarrow> uuid) \<Rightarrow> unit_of_work
   \<Rightarrow> worker_result \<times> unit_of_work" where
  "run_once env provider pick batch_size fresh u =
     (let order_ids = discover_pending_order_ids pick batch_size (db u)
      in process_pending (process_limit_order env provider) fresh 0 order_ids
           \<lparr>discovered = int (length order_ids), wr_filled = 0, still_pending = 0, wr_failed = 0\<rparr> u)"

definition worker_new :: "int \<Rightarrow> rat \<Rightarrow> unit result" where
  "worker_new batch_size poll_interval_seconds =
     (if batch_size \<le> 0 then Inl (ValueError ''batch_size must be greater than zero'')
      else if poll_interval_seconds \<le> 0
      then Inl (ValueError ''poll_interval_seconds must be greater than zero'')
      else Inr ())"

end
