(* ===== verification/Trading_Portfolio.thy ===== *)
theory Trading_Portfolio
  imports Persistent_Trading Portfolio_Valuation
begin

text \<open>
  The value of a paper account: \<open>PortfolioCalculator\<close> (\<open>libs/trading/portfolio.py\<close>), the price sources
  (\<open>services/trading/trading_valuation_price.py\<close>) and \<open>TradingPortfolioService\<close>
  (\<open>services/trading/trading_portfolio_service.py\<close>).
\<close>

section \<open>The calculator\<close>

record portfolio_totals =
  pt_cash_balance :: decimal
  pt_market_value :: decimal
  pt_equity :: decimal
  pt_unrealized_pnl :: decimal
  pt_realized_pnl :: decimal

text \<open>The loop over the positions carries the three totals.\<close>

fun calculate_loop ::
  "(string \<Rightarrow> decimal option) \<Rightarrow> decimal \<Rightarrow> decimal \<Rightarrow> decimal \<Rightarrow> position list \<Rightarrow> (decimal \<times> decimal \<times> decimal) result" where
  "calculate_loop prices value unrealized realized [] = Inr (value, unrealized, realized)"
| "calculate_loop prices value unrealized realized (p # ps) =
     (let realized' = dadd realized (realized_pnl p) in
      if \<not> is_open p then calculate_loop prices value unrealized realized' ps
      else case prices (p_symbol p) of
        None \<Rightarrow> Inl (ValueError ''Missing market price.'')
      | Some mark_price \<Rightarrow> (case position_market_value mark_price p of
          Inl e \<Rightarrow> Inl e
        | Inr v \<Rightarrow> (case position_unrealized_pnl mark_price p of
            Inl e \<Rightarrow> Inl e
          | Inr u \<Rightarrow> calculate_loop prices (dadd value v) (dadd unrealized u) realized' ps)))"

definition calculate :: "paper_account \<Rightarrow> position list \<Rightarrow> (string \<Rightarrow> decimal option) \<Rightarrow> portfolio_totals result" where
  "calculate account owned prices =
     (case calculate_loop prices 0 0 0 owned of
        Inl e \<Rightarrow> Inl e
      | Inr (value, unrealized, realized) \<Rightarrow>
          Inr \<lparr>pt_cash_balance = cash_balance account, pt_market_value = value, pt_equity = dadd (cash_balance account) value,
            pt_unrealized_pnl = unrealized, pt_realized_pnl = realized\<rparr>)"

section \<open>Price sources\<close>

text \<open>A source may read a state that it shares with others, here the Redis of the quotes.\<close>

fun cached_prices_loop :: "market \<Rightarrow> int \<Rightarrow> payload_dict redis \<Rightarrow> string list \<Rightarrow> (string \<Rightarrow> decimal option) \<Rightarrow> (string \<Rightarrow> decimal option) result" where
  "cached_prices_loop m now r [] prices = Inr prices"
| "cached_prices_loop m now r (raw # symbols) prices =
     (let symbol = normal_symbol raw in
      if symbol = [] then cached_prices_loop m now r symbols prices
      else case cache_get_quote now r m symbol of
        Inl e \<Rightarrow> Inl e
      | Inr None \<Rightarrow> cached_prices_loop m now r symbols prices
      | Inr (Some quote) \<Rightarrow>
          if mid_price quote \<le> 0 then cached_prices_loop m now r symbols prices
          else cached_prices_loop m now r symbols (prices(symbol \<mapsto> mid_price quote)))"

definition cached_get_prices :: "market \<Rightarrow> int \<Rightarrow> payload_dict redis \<Rightarrow> string list \<Rightarrow> (string \<Rightarrow> decimal option) result" where
  "cached_get_prices m now r symbols = cached_prices_loop m now r symbols (\<lambda>_. None)"

definition batch_trading_prices ::
  "(valuation_instrument list \<Rightarrow> ('s, valuation_instrument \<Rightarrow> valuation_price option) prog) \<Rightarrow> market \<Rightarrow> string list
   \<Rightarrow> ('s, string \<Rightarrow> decimal option) prog" where
  "batch_trading_prices get_prices m symbols =
     (let normalized = map normal_symbol (filter (\<lambda>s. strip s \<noteq> []) symbols) in
      if normalized = [] then ret (\<lambda>_. None)
      else bind (of_result (each_result (valuation_instrument_new m) normalized)) (\<lambda>instruments.
        bind (get_prices instruments) (\<lambda>valuation_prices.
        ret (\<lambda>s. if s \<notin> set normalized then None
          else case valuation_prices (m, s) of
            None \<Rightarrow> None
          | Some v \<Rightarrow> if vl_price v \<le> 0 then None else Some (vl_price v)))))"

section \<open>The service\<close>

record trading_valuation =
  tv_symbol :: string
  tv_quantity :: int
  tv_average_cost :: decimal
  tv_mark_price :: "decimal option"
  tv_cost_basis :: decimal
  tv_market_value :: decimal
  tv_realized_pnl :: decimal
  tv_unrealized_pnl :: decimal

definition tv_total_pnl :: "trading_valuation \<Rightarrow> decimal" where
  "tv_total_pnl v = dadd (tv_realized_pnl v) (tv_unrealized_pnl v)"

record trading_snapshot =
  ts_account_id :: uuid
  ts_initial_cash :: decimal
  ts_cash_balance :: decimal
  ts_total_cost_basis :: decimal
  ts_market_value :: decimal
  ts_equity :: decimal
  ts_realized_pnl :: decimal
  ts_unrealized_pnl :: decimal
  ts_positions :: "trading_valuation list"

definition ts_total_pnl :: "trading_snapshot \<Rightarrow> decimal" where
  "ts_total_pnl s = dadd (ts_realized_pnl s) (ts_unrealized_pnl s)"

text \<open>
  The account and its positions are two statements of a transaction at READ COMMITTED, and neither locks: what others
  commit in between is seen by the second only.
\<close>

definition load_account_state :: "db_env \<Rightarrow> string \<Rightarrow> (unit_of_work, paper_account \<times> position list) prog" where
  "load_account_state env user_id = with_uow (
     bind (reading (account_repo_get_by_user_id user_id)) (\<lambda>account.
     case account of
       None \<Rightarrow> raise TradingPortfolioAccountNotFoundError
     | Some a \<Rightarrow> bind (others_commit env) (\<lambda>_.
         bind (reading (position_repo_list_by_account env (account_id a))) (\<lambda>owned. ret (a, owned)))))"

fun validate_market_prices :: "(string \<Rightarrow> decimal option) \<Rightarrow> string list \<Rightarrow> unit result" where
  "validate_market_prices prices [] = Inr ()"
| "validate_market_prices prices (s # ss) =
     (case prices s of
        None \<Rightarrow> Inl (TradingPortfolioValuationUnavailableError ''Missing market price.'')
      | Some price \<Rightarrow>
          if price \<le> 0 then Inl (TradingPortfolioValuationUnavailableError ''Invalid market price.'')
          else validate_market_prices prices ss)"

definition value_position :: "(string \<Rightarrow> decimal option) \<Rightarrow> position \<Rightarrow> trading_valuation result" where
  "value_position prices p =
     (if \<not> is_open p
      then Inr \<lparr>tv_symbol = p_symbol p, tv_quantity = p_quantity p, tv_average_cost = average_cost p, tv_mark_price = None,
             tv_cost_basis = 0, tv_market_value = 0, tv_realized_pnl = realized_pnl p, tv_unrealized_pnl = 0\<rparr>
      else case prices (p_symbol p) of
        None \<Rightarrow> Inl KeyError
      | Some mark_price \<Rightarrow> (case position_market_value mark_price p of
          Inl e \<Rightarrow> Inl e
        | Inr v \<Rightarrow> (case position_unrealized_pnl mark_price p of
            Inl e \<Rightarrow> Inl e
          | Inr u \<Rightarrow> Inr \<lparr>tv_symbol = p_symbol p, tv_quantity = p_quantity p, tv_average_cost = average_cost p,
              tv_mark_price = Some mark_price, tv_cost_basis = dmul (average_cost p) (of_int (p_quantity p)),
              tv_market_value = v, tv_realized_pnl = realized_pnl p, tv_unrealized_pnl = u\<rparr>)))"

definition snapshot_of :: "paper_account \<Rightarrow> position list \<Rightarrow> (string \<Rightarrow> decimal option) \<Rightarrow> trading_snapshot result" where
  "snapshot_of account owned prices =
     (case validate_market_prices prices (map p_symbol (filter is_open owned)) of
        Inl e \<Rightarrow> Inl e
      | Inr _ \<Rightarrow> (case calculate account owned prices of
          Inl e \<Rightarrow> Inl e
        | Inr totals \<Rightarrow> (case each_result (value_position prices) owned of
            Inl e \<Rightarrow> Inl e
          | Inr valuations \<Rightarrow> Inr \<lparr>ts_account_id = account_id account, ts_initial_cash = initial_cash account,
              ts_cash_balance = pt_cash_balance totals, ts_total_cost_basis = dsum (map tv_cost_basis valuations),
              ts_market_value = pt_market_value totals, ts_equity = pt_equity totals, ts_realized_pnl = pt_realized_pnl totals,
              ts_unrealized_pnl = pt_unrealized_pnl totals, ts_positions = valuations\<rparr>)))"

definition get_snapshot ::
  "db_env \<Rightarrow> (string list \<Rightarrow> (string \<Rightarrow> decimal option) result) \<Rightarrow> string \<Rightarrow> (unit_of_work, trading_snapshot) prog" where
  "get_snapshot env price_source user_id =
     bind (load_account_state env user_id) (\<lambda>(account, owned).
     let open_symbols = map p_symbol (filter is_open owned) in
     bind (if open_symbols = [] then ret (\<lambda>_. None) else of_result (price_source open_symbols)) (\<lambda>market_prices.
     of_result (snapshot_of account owned market_prices)))"

section \<open>What a snapshot says\<close>

text \<open>The valuation of a position at its mark price.\<close>

definition marked :: "(string \<Rightarrow> decimal option) \<Rightarrow> position \<Rightarrow> trading_valuation" where
  "marked prices p =
     (if is_open p
      then let x = the (prices (p_symbol p)) in
        \<lparr>tv_symbol = p_symbol p, tv_quantity = p_quantity p, tv_average_cost = average_cost p, tv_mark_price = Some x,
         tv_cost_basis = dmul (average_cost p) (of_int (p_quantity p)), tv_market_value = dmul x (of_int (p_quantity p)),
         tv_realized_pnl = realized_pnl p, tv_unrealized_pnl = dmul (dsub x (average_cost p)) (of_int (p_quantity p))\<rparr>
      else \<lparr>tv_symbol = p_symbol p, tv_quantity = p_quantity p, tv_average_cost = average_cost p, tv_mark_price = None,
         tv_cost_basis = 0, tv_market_value = 0, tv_realized_pnl = realized_pnl p, tv_unrealized_pnl = 0\<rparr>)"

definition all_priced :: "(string \<Rightarrow> decimal option) \<Rightarrow> position list \<Rightarrow> bool" where
  "all_priced prices owned \<longleftrightarrow> (\<forall>p \<in> set owned. is_open p \<longrightarrow> (\<exists>x. prices (p_symbol p) = Some x \<and> 0 < x))"

lemma validated: "validate_market_prices prices (map p_symbol (filter is_open owned)) = Inr () \<longleftrightarrow> all_priced prices owned"
  by (induction owned) (auto simp: all_priced_def split: option.splits)

lemma priced_position:
  "is_open p \<Longrightarrow> prices (p_symbol p) = Some x \<Longrightarrow> 0 < x \<Longrightarrow>
     position_market_value x p = Inr (tv_market_value (marked prices p))
     \<and> position_unrealized_pnl x p = Inr (tv_unrealized_pnl (marked prices p))"
  by (simp add: position_market_value_def position_unrealized_pnl_def validate_mark_price_def marked_def Let_def)

lemma value_position_marked: "all_priced prices owned \<Longrightarrow> each_result (value_position prices) owned = Inr (map (marked prices) owned)"
proof (rule each_result_all)
  fix p
  assume "all_priced prices owned" "p \<in> set owned"
  then show "value_position prices p = Inr (marked prices p)"
    by (cases "is_open p")
       (auto simp: all_priced_def value_position_def marked_def position_market_value_def position_unrealized_pnl_def
         validate_mark_price_def Let_def)
qed

text \<open>A closed position adds zero, which changes no total.\<close>

lemma calculate_loop_totals:
  assumes "all_priced prices owned" "representable v" "representable u"
  shows "calculate_loop prices v u r owned = Inr (foldl dadd v (map (tv_market_value \<circ> marked prices) owned),
    foldl dadd u (map (tv_unrealized_pnl \<circ> marked prices) owned), foldl dadd r (map (tv_realized_pnl \<circ> marked prices) owned))"
  using assms
proof (induction owned arbitrary: v u r)
  case (Cons p owned)
  have rest: "all_priced prices owned" using Cons.prems(1) by (simp add: all_priced_def)
  have r: "tv_realized_pnl (marked prices p) = realized_pnl p" by (simp add: marked_def Let_def)
  show ?case
  proof (cases "is_open p")
    case True
    then obtain x where "prices (p_symbol p) = Some x" "0 < x" using Cons.prems(1) by (auto simp: all_priced_def)
    then show ?thesis using True priced_position [of p prices x] Cons.IH [OF rest] by (simp add: Let_def r dadd_def)
  next
    case False
    then show ?thesis using Cons.IH [OF rest Cons.prems(2,3)] Cons.prems(2,3)
      by (simp add: Let_def r) (simp add: marked_def dadd_def representable_def)
  qed
qed simp

lemma snapshot_of_marked:
  "snapshot_of a owned prices = Inr s \<longleftrightarrow> all_priced prices owned \<and> s =
     \<lparr>ts_account_id = account_id a, ts_initial_cash = initial_cash a, ts_cash_balance = cash_balance a,
      ts_total_cost_basis = dsum (map tv_cost_basis (map (marked prices) owned)),
      ts_market_value = dsum (map tv_market_value (map (marked prices) owned)),
      ts_equity = dadd (cash_balance a) (dsum (map tv_market_value (map (marked prices) owned))),
      ts_realized_pnl = dsum (map tv_realized_pnl (map (marked prices) owned)),
      ts_unrealized_pnl = dsum (map tv_unrealized_pnl (map (marked prices) owned)), ts_positions = map (marked prices) owned\<rparr>"
proof (cases "all_priced prices owned")
  case True
  then show ?thesis using validated [of prices owned]
    by (auto simp: snapshot_of_def calculate_def calculate_loop_totals value_position_marked dsum_def)
next
  case False
  then show ?thesis using validated [of prices owned] by (cases "validate_market_prices prices (map p_symbol (filter is_open owned))") (auto simp: snapshot_of_def)
qed

end
