(* ===== verification/Trading_Transactions.thy ===== *)
theory Trading_Transactions
  imports Persistent_Trading
begin

text \<open>
  The persistent operations as transactions: each takes effect as a whole or not at all. The
  contract is a locale, interpreted on the body of every operation.
\<close>

locale transactional =
  fixes env :: db_env and body :: "(unit_of_work, 'a) prog"
  assumes body_commits_last: "commits_last env body"
begin

lemma failure: "with_uow body u = (Inl e, u') \<Longrightarrow> by_others env (db u) (db u')"
  by (rule with_uow_error [OF body_commits_last])

lemma success:
  "with_uow body u = (Inr a, u') \<Longrightarrow>
   body (uow_enter (new_session u)) = (Inr a, u') \<and> committed u' \<and> db u' = session u' \<and> flush_error (db u') = None"
  by (rule with_uow_success [OF body_commits_last])

text \<open>When it returns, the committed tables satisfy every constraint of the schema.\<close>

lemma success_constraints: "with_uow body u = (Inr a, u') \<Longrightarrow> constraints_ok (db u') \<and> columns_fit (db u')"
  using success [of u a u'] by (auto simp: flush_error_def split: if_splits)

end

section \<open>The bodies are quiet up to the commit\<close>

lemma quiet_require_account [quiet_intros]: "quiet env (require_account_for_update env aid)"
  by (auto simp: require_account_for_update_def intro!: quiet_intros split: option.splits)

lemma quiet_get_or_create_position [quiet_intros]:
  "quiet env (get_or_create_position_for_update env aid symbol)"
  by (auto simp: get_or_create_position_for_update_def intro!: quiet_intros split: option.splits)

lemma quiet_on_objects [quiet_intros]: "quiet env (on_objects s m)"
  by (auto simp: on_objects_def intro!: quiet_intros split: prod.splits sum.splits)

lemma quiet_add_order [quiet_intros]: "quiet env (add_order env' r)"
  by (auto simp: add_order_def intro!: quiet_intros)

lemma quiet_persist [quiet_intros]:
  "quiet env (persist_execution env' a p result)" "quiet env (persist_limit_execution env' a p r ex)"
  by (auto simp: persist_execution_def persist_limit_execution_def Let_def intro!: quiet_intros)

lemma quiet_lock_order [quiet_intros]: "quiet env (lock_order env oid)"
  by (auto simp: lock_order_def intro!: quiet_intros split: option.splits)

lemma quiet_require_account_id [quiet_intros]: "quiet env (require_account_id_for_user user)"
  by (auto simp: require_account_id_for_user_def intro!: quiet_intros split: option.splits)

lemmas commits_last_intros = commits_last_bind quiet_intros commits_last_commit

interpretation market_tx: transactional env "market_body side env provider fo fe aid symbol n"
  by unfold_locales (auto simp: market_body_def intro!: commits_last_intros split: prod.splits)

interpretation submit_tx: transactional env "submit_body side env provider fo aid symbol n limit"
  by unfold_locales (auto simp: submit_body_def intro!: commits_last_intros split: prod.splits)

interpretation process_tx: transactional env "process_body env provider fe oid"
  by unfold_locales
    (auto simp: process_body_def intro!: commits_last_intros split: prod.splits option.splits)

interpretation cancel_tx: transactional env "cancel_body env oid"
  by unfold_locales (auto simp: cancel_body_def intro!: commits_last_intros split: prod.splits)

interpretation open_tx: transactional env "open_body env fresh user initial"
  by unfold_locales (auto simp: open_body_def intro!: commits_last_intros split: prod.splits)

section \<open>All or nothing\<close>

definition sound_commit :: "unit_of_work \<Rightarrow> bool" where
  "sound_commit u \<longleftrightarrow> constraints_ok (db u) \<and> columns_fit (db u) \<and> committed u"

context transactional
begin

lemma success_sound: "with_uow body u = (Inr a, u') \<Longrightarrow> sound_commit u'"
  using success [of u a u'] success_constraints [of u a u'] by (simp add: sound_commit_def)

end

lemma operation_sound:
  "market_operation side env provider fo fe aid symbol n u = (Inr tr, u') \<Longrightarrow> sound_commit u'"
  "submit_operation side env provider fo aid symbol n x u = (Inr r, u') \<Longrightarrow> sound_commit u'"
  "process_limit_order env provider fe oid u = (Inr ex, u') \<Longrightarrow> sound_commit u'"
  "cancel_limit_order env oid u = (Inr r, u') \<Longrightarrow> sound_commit u'"
  "open_account env i user x u = (Inr a, u') \<Longrightarrow> sound_commit u'"
  by (auto simp: market_operation_def submit_operation_def process_limit_order_def
      cancel_limit_order_def open_account_def Let_def elim!: bind_InrE split: if_splits
      dest: market_tx.success_sound submit_tx.success_sound process_tx.success_sound
        cancel_tx.success_sound open_tx.success_sound)

lemma market_operation_error:
  "market_operation side env provider fo fe aid symbol n u = (Inl e, u') \<Longrightarrow> by_others env (db u) (db u')"
  by (auto simp: market_operation_def elim!: bind_InlE dest: market_tx.failure)

lemma submit_operation_error:
  "submit_operation side env provider fo aid symbol n limit u = (Inl e, u') \<Longrightarrow>
   by_others env (db u) (db u')"
  by (auto simp: submit_operation_def elim!: bind_InlE dest: submit_tx.failure)

lemma process_limit_order_error:
  "process_limit_order env provider fe oid u = (Inl e, u') \<Longrightarrow> by_others env (db u) (db u')"
  by (simp add: process_limit_order_def process_tx.failure)

lemma cancel_limit_order_error:
  "cancel_limit_order env oid u = (Inl e, u') \<Longrightarrow> by_others env (db u) (db u')"
  by (simp add: cancel_limit_order_def cancel_tx.failure)

lemma open_account_error:
  "open_account env fresh user initial u = (Inl e, u') \<Longrightarrow> by_others env (db u) (db u')"
  by (auto simp: open_account_def Let_def elim!: bind_InlE split: if_splits dest: open_tx.failure)

text \<open>
  The calls that change the tables, as the callers see them.
\<close>

datatype call =
    MarketBuy uuid uuid uuid string int
  | MarketSell uuid uuid uuid string int
  | SubmitLimitBuy uuid uuid string int decimal
  | SubmitLimitSell uuid uuid string int decimal
  | ProcessLimitOrder uuid uuid
  | CancelLimitOrder uuid
  | OpenAccount uuid string decimal

definition returned :: "('s, 'a) prog \<Rightarrow> 's \<Rightarrow> bool \<times> 's" where
  "returned m s = (case m s of (Inl _, s') \<Rightarrow> (False, s') | (Inr _, s') \<Rightarrow> (True, s'))"

fun run_call :: "db_env \<Rightarrow> quote_provider \<Rightarrow> call \<Rightarrow> unit_of_work \<Rightarrow> bool \<times> unit_of_work" where
  "run_call env p (MarketBuy fo fe aid sy n) = returned (market_buy env p fo fe aid sy n)"
| "run_call env p (MarketSell fo fe aid sy n) = returned (market_sell env p fo fe aid sy n)"
| "run_call env p (SubmitLimitBuy fo aid sy n x) = returned (submit_limit_buy env p fo aid sy n x)"
| "run_call env p (SubmitLimitSell fo aid sy n x) = returned (submit_limit_sell env p fo aid sy n x)"
| "run_call env p (ProcessLimitOrder fe oid) = returned (process_limit_order env p fe oid)"
| "run_call env p (CancelLimitOrder oid) = returned (cancel_limit_order env oid)"
| "run_call env p (OpenAccount i user x) = returned (open_account env i user x)"

lemma returned_False: "returned m s = (False, s') \<Longrightarrow> \<exists>e. m s = (Inl e, s')"
  by (auto simp: returned_def split: prod.splits sum.splits)

lemma returned_True: "returned m s = (True, s') \<Longrightarrow> \<exists>a. m s = (Inr a, s')"
  by (auto simp: returned_def split: prod.splits sum.splits)

end
