(* ===== verification/Trading_Ledger.thy ===== *)
theory Trading_Ledger
  imports Trading_Transactions
begin

text \<open>
  The tables of paper trading as a ledger: the executions of an account, replayed in order of
  insertion, give its cash balance and its positions, and every order has been executed exactly
  once if it is FILLED and never otherwise. Every operation keeps this, also when other
  transactions commit while it waits for its locks.
\<close>

section \<open>Replaying executions\<close>

definition cash_step :: "db_env \<Rightarrow> decimal \<Rightarrow> execution_row \<Rightarrow> decimal" where
  "cash_step env c e = numeric env
     (let amount = dmul (er_price e) (of_int (er_quantity e))
      in case er_side e of BUY \<Rightarrow> dsub c amount | SELL \<Rightarrow> dadd c amount)"

definition stored :: "db_env \<Rightarrow> position \<Rightarrow> position" where
  "stored env p = p\<lparr>average_cost := numeric env (average_cost p), realized_pnl := numeric env (realized_pnl p)\<rparr>"

definition position_step :: "db_env \<Rightarrow> position \<Rightarrow> execution_row \<Rightarrow> position" where
  "position_step env p e = stored env
     (case er_side e of
        BUY \<Rightarrow> bought_position (er_quantity e) (er_price e) p
      | SELL \<Rightarrow> sold_position (er_quantity e) (er_price e) p)"

definition flat_position :: "string \<Rightarrow> position" where
  "flat_position sy = \<lparr>p_symbol = sy, p_quantity = 0, average_cost = 0, realized_pnl = 0\<rparr>"

definition executions_of :: "uuid \<Rightarrow> tables \<Rightarrow> execution_row list" where
  "executions_of aid t = filter (\<lambda>e. er_account_id e = aid) (executions t)"

definition position_of_row :: "position_row \<Rightarrow> position" where
  "position_of_row m = \<lparr>p_symbol = pr_symbol m, p_quantity = pr_quantity m,
     average_cost = pr_average_cost m, realized_pnl = pr_realized_pnl m\<rparr>"

definition stored_position :: "uuid \<Rightarrow> string \<Rightarrow> tables \<Rightarrow> position" where
  "stored_position aid sy t =
     (case first_where (position_key aid sy) (positions t) of
        None \<Rightarrow> flat_position sy
      | Some m \<Rightarrow> position_of_row m)"

definition cash_ledger :: "db_env \<Rightarrow> uuid \<Rightarrow> tables \<Rightarrow> bool" where
  "cash_ledger env aid t \<longleftrightarrow> (\<forall>a \<in> set (accounts t). ar_id a = aid \<longrightarrow>
     ar_cash_balance a = foldl (cash_step env) (ar_initial_cash a) (executions_of aid t))"

definition position_ledger :: "db_env \<Rightarrow> uuid \<Rightarrow> tables \<Rightarrow> bool" where
  "position_ledger env aid t \<longleftrightarrow> (\<forall>sy. stored_position aid sy t =
     foldl (position_step env) (flat_position sy) (filter (\<lambda>e. er_symbol e = sy) (executions_of aid t)))"

definition order_ledger :: "uuid \<Rightarrow> tables \<Rightarrow> bool" where
  "order_ledger aid t \<longleftrightarrow>
     (\<forall>r \<in> set (orders t). or_account_id r = aid \<longrightarrow>
        length (filter (\<lambda>e. er_order_id e = or_id r) (executions_of aid t))
          = (if or_status r = FILLED then 1 else 0)) \<and>
     (\<forall>e \<in> set (executions_of aid t). \<exists>r \<in> set (orders t). or_account_id r = aid \<and> or_id r = er_order_id e)"

definition ledger :: "db_env \<Rightarrow> tables \<Rightarrow> bool" where
  "ledger env t \<longleftrightarrow> constraints_ok t
     \<and> (\<forall>aid. cash_ledger env aid t \<and> position_ledger env aid t \<and> order_ledger aid t)"

text \<open>The rows of one account; a row lock on the account protects them.\<close>

definition account_slice :: "uuid \<Rightarrow> tables \<Rightarrow>
    account_row list \<times> position_row list \<times> order_row list \<times> execution_row list" where
  "account_slice aid t =
     (filter (\<lambda>a. ar_id a = aid) (accounts t), filter (\<lambda>p. pr_account_id p = aid) (positions t),
      filter (\<lambda>r. or_account_id r = aid) (orders t), filter (\<lambda>e. er_account_id e = aid) (executions t))"

lemma first_where_filter: "filter P xs = filter P ys \<Longrightarrow> first_where P xs = first_where P ys"
proof -
  have "first_where P zs = (case filter P zs of [] \<Rightarrow> None | z # _ \<Rightarrow> Some z)" for zs
    by (induction zs) (simp_all add: first_where_def)
  then show "filter P xs = filter P ys \<Longrightarrow> ?thesis" by simp
qed

lemma filter_filter_eq:
  assumes "filter P xs = filter P ys" and "\<And>x. Q x \<Longrightarrow> P x"
  shows "filter Q xs = filter Q ys"
proof -
  have "filter Q zs = filter Q (filter P zs)" for zs
    using assms(2) by (induction zs) auto
  then show ?thesis using assms(1) by metis
qed

lemma slice_Ball:
  assumes "filter P xs = filter P ys"
  shows "(\<forall>x \<in> set xs. P x \<longrightarrow> R x) = (\<forall>x \<in> set ys. P x \<longrightarrow> R x)"
  using arg_cong [OF assms, of set] by (auto simp: set_eq_iff)

lemma slice_Bex:
  assumes "filter P xs = filter P ys"
  shows "(\<exists>x \<in> set xs. P x \<and> R x) = (\<exists>x \<in> set ys. P x \<and> R x)"
  using arg_cong [OF assms, of set] by (auto simp: set_eq_iff)

lemma slice_ledgers:
  assumes "account_slice aid t = account_slice aid t'"
  shows "cash_ledger env aid t = cash_ledger env aid t'"
    and "position_ledger env aid t = position_ledger env aid t'"
    and "order_ledger aid t = order_ledger aid t'"
proof -
  have a: "filter (\<lambda>a. ar_id a = aid) (accounts t) = filter (\<lambda>a. ar_id a = aid) (accounts t')"
    and p: "filter (\<lambda>p. pr_account_id p = aid) (positions t) = filter (\<lambda>p. pr_account_id p = aid) (positions t')"
    and r: "filter (\<lambda>r. or_account_id r = aid) (orders t) = filter (\<lambda>r. or_account_id r = aid) (orders t')"
    and e: "executions_of aid t = executions_of aid t'"
    using assms by (simp_all add: account_slice_def executions_of_def)
  show "cash_ledger env aid t = cash_ledger env aid t'"
    unfolding cash_ledger_def e by (rule slice_Ball [OF a])
  have "stored_position aid sy t = stored_position aid sy t'" for sy
    unfolding stored_position_def
    by (subst first_where_filter [OF filter_filter_eq [OF p]]) (auto simp: position_key_def)
  then show "position_ledger env aid t = position_ledger env aid t'"
    by (simp add: position_ledger_def e)
  show "order_ledger aid t = order_ledger aid t'"
    unfolding order_ledger_def e slice_Ball [OF r] slice_Bex [OF r] ..
qed

text \<open>
  What the proofs assume of the outside: the prices quoted have at most the decimals of a price
  column; a lock on an account keeps its rows from changing; the other transactions keep the
  ledger too.
\<close>

definition prices_exact :: "db_env \<Rightarrow> quote_provider \<Rightarrow> bool" where
  "prices_exact env provider \<longleftrightarrow> (\<forall>s q. provider s = Inr q \<longrightarrow>
     numeric env (bid q) = bid q \<and> numeric env (ask q) = ask q)"

definition locks_respected :: "db_env \<Rightarrow> bool" where
  "locks_respected env \<longleftrightarrow> (\<forall>L t aid. aid \<in> L \<longrightarrow>
     account_slice aid (lock_wait env L t) = account_slice aid t)"

definition others_keep_ledger :: "db_env \<Rightarrow> bool" where
  "others_keep_ledger env \<longleftrightarrow> (\<forall>L t. ledger env t \<longrightarrow> ledger env (lock_wait env L t))"

section \<open>Inserting an execution\<close>

lemma executions_of_add:
  "executions_of aid (execution_repo_add env aid' e t) =
     executions_of aid t @ (if aid' = aid then [execution_row_of env aid' e] else [])"
  by (simp add: executions_of_def execution_repo_add_def execution_row_of_def)

lemma account_repo_update_Inr:
  assumes "account_repo_update env a t = Inr t'"
  shows "t' = t\<lparr>accounts := update_where (\<lambda>m. ar_id m = account_id a)
    (\<lambda>m. m\<lparr>ar_cash_balance := numeric env (cash_balance a)\<rparr>) (accounts t)\<rparr>"
  using assms by (auto simp: account_repo_update_def split: option.splits)

lemma order_repo_update_Inr:
  assumes "order_repo_update env r t = Inr t'"
  shows "t' = t\<lparr>orders := update_where (\<lambda>m. or_id m = order_id r)
    (\<lambda>m. m\<lparr>or_status := o_status r, or_filled_quantity := filled_quantity r,
           or_limit_price := map_option (numeric env) (limit_price r)\<rparr>) (orders t)\<rparr>"
  using assms by (auto simp: order_repo_update_def split: option.splits)

lemma position_repo_upsert_sel [simp]:
  "accounts (position_repo_upsert env aid p t) = accounts t"
  "orders (position_repo_upsert env aid p t) = orders t"
  "executions (position_repo_upsert env aid p t) = executions t"
  by (simp_all add: position_repo_upsert_def Let_def split: option.splits)

lemma add_sel [simp]:
  "accounts (execution_repo_add env aid e t) = accounts t" "positions (execution_repo_add env aid e t) = positions t"
  "orders (execution_repo_add env aid e t) = orders t"
  "accounts (order_repo_add env r t) = accounts t" "positions (order_repo_add env r t) = positions t"
  "executions (order_repo_add env r t) = executions t"
  by (simp_all add: execution_repo_add_def order_repo_add_def)

lemma stored_position_upsert:
  assumes "normal_symbol (p_symbol p) = p_symbol p"
  shows "stored_position aid sy (position_repo_upsert env aid' p t) =
    (if aid = aid' \<and> sy = p_symbol p then stored env p else stored_position aid sy t)"
proof (cases "first_where (position_key aid' (p_symbol p)) (positions t)")
  case None
  let ?m = "\<lparr>pr_account_id = aid', pr_symbol = p_symbol p, pr_quantity = p_quantity p,
    pr_average_cost = numeric env (average_cost p), pr_realized_pnl = numeric env (realized_pnl p)\<rparr>"
  have u: "positions (position_repo_upsert env aid' p t) = positions t @ [?m]"
    using None assms by (simp add: position_repo_upsert_def Let_def)
  have m: "position_key aid sy ?m \<longleftrightarrow> aid = aid' \<and> sy = p_symbol p"
    by (auto simp: position_key_def)
  have "position_of_row ?m = stored env p" by (simp add: position_of_row_def stored_def)
  then show ?thesis
    using None m by (auto simp: stored_position_def u first_where_append split: option.splits)
next
  case (Some m)
  have k: "position_key aid' (p_symbol p) m" using first_where_Some [OF Some] by blast
  define f where "f = (\<lambda>m :: position_row. m\<lparr>pr_quantity := p_quantity p, pr_average_cost := numeric env (average_cost p),
    pr_realized_pnl := numeric env (realized_pnl p)\<rparr>)"
  have u: "positions (position_repo_upsert env aid' p t)
      = update_where (position_key aid' (p_symbol p)) f (positions t)"
    using Some assms by (simp add: position_repo_upsert_def Let_def f_def)
  have up: "first_where (position_key aid sy) (positions (position_repo_upsert env aid' p t)) =
      map_option (\<lambda>r. if position_key aid' (p_symbol p) r then f r else r)
        (first_where (position_key aid sy) (positions t))"
    unfolding u by (rule first_where_update_where) (simp add: position_key_def f_def)
  show ?thesis
  proof (cases "aid = aid' \<and> sy = p_symbol p")
    case True
    have "position_of_row (f m) = stored env p"
      using k by (simp add: position_of_row_def stored_def f_def position_key_def)
    moreover have "first_where (position_key aid sy) (positions (position_repo_upsert env aid' p t)) = Some (f m)"
      using up True Some k by simp
    ultimately show ?thesis using True by (simp only: stored_position_def option.case simp_thms if_True)
  next
    case False
    have "\<not> position_key aid' (p_symbol p) r" if "first_where (position_key aid sy) (positions t) = Some r" for r
      using first_where_Some [OF that] False by (auto simp: position_key_def)
    then have "first_where (position_key aid sy) (positions (position_repo_upsert env aid' p t))
        = first_where (position_key aid sy) (positions t)"
      unfolding up by (cases "first_where (position_key aid sy) (positions t)") simp_all
    then show ?thesis by (simp only: stored_position_def False if_False)
  qed
qed

text \<open>A fill, as the execution row it leaves, is one step of the replay.\<close>

lemma fill_effect_steps:
  assumes "fill_effect q fe s ex s'" and "numeric env (bid q) = bid q" and "numeric env (ask q) = ask q"
  shows "cash_step env (cash_balance (b_account s)) (execution_row_of env aid ex)
       = numeric env (cash_balance (b_account s'))"
    and "position_step env (b_position s) (execution_row_of env aid ex) = stored env (b_position s')"
    and "ex_symbol ex = o_symbol (b_order s)" and "ex_order_id ex = order_id (b_order s)"
    and "p_symbol (b_position s') = p_symbol (b_position s)"
    and "account_id (b_account s') = account_id (b_account s)"
    and "b_order s' = filled_order (b_order s)"
  using assms
  by (auto simp: fill_effect_def cash_step_def position_step_def execution_row_of_def execution_of_def
      Let_def split: order_side.splits)

lemma unique_row:
  "distinct (map k rows) \<Longrightarrow> r \<in> set rows \<Longrightarrow> r' \<in> set rows \<Longrightarrow> k r = k r' \<Longrightarrow> r = r'"
  by (auto simp: distinct_map inj_on_def)

lemma cash_ledger_trade:
  assumes c: "constraints_ok t" and l: "cash_ledger env aid t"
    and m: "first_where (\<lambda>m. ar_id m = aid) (accounts t) = Some m"
    and acc: "accounts t' = update_where (\<lambda>m. ar_id m = aid) (\<lambda>m. m\<lparr>ar_cash_balance := c'\<rparr>) (accounts t)"
    and ex: "executions_of aid t' = executions_of aid t @ [row]"
    and step: "cash_step env (ar_cash_balance m) row = c'"
  shows "cash_ledger env aid t'"
proof -
  have d: "distinct (map ar_id (accounts t))" using c by (simp add: constraints_ok_def)
  have mm: "m \<in> set (accounts t)" "ar_id m = aid" using first_where_Some [OF m] by auto
  have one: "m0 = m" if "m0 \<in> set (accounts t)" "ar_id m0 = aid" for m0
    using unique_row [OF d that(1) mm(1)] that(2) mm(2) by simp
  have "ar_cash_balance m = foldl (cash_step env) (ar_initial_cash m) (executions_of aid t)"
    using l mm by (simp add: cash_ledger_def)
  moreover have "a = m\<lparr>ar_cash_balance := c'\<rparr>" if a: "a \<in> set (accounts t')" "ar_id a = aid" for a
  proof -
    obtain m0 where m0: "m0 \<in> set (accounts t)" "a = (if ar_id m0 = aid then m0\<lparr>ar_cash_balance := c'\<rparr> else m0)"
      using a(1) by (auto simp: acc set_update_where)
    then have "ar_id m0 = aid" using a(2) by (auto split: if_splits)
    with m0 one show ?thesis by simp
  qed
  ultimately have "ar_cash_balance a = foldl (cash_step env) (ar_initial_cash a) (executions_of aid t')"
    if "a \<in> set (accounts t')" "ar_id a = aid" for a
    using that step by (metis (no_types, lifting) account_row.select_convs(3,4)
      account_row.surjective account_row.update_convs(4) ex foldl.simps foldl_append)
  then show ?thesis by (simp add: cash_ledger_def)
qed

lemma position_ledger_trade:
  assumes l: "position_ledger env aid t" and n: "normal_symbol (p_symbol p') = p_symbol p'"
    and pos: "positions t' = positions (position_repo_upsert env aid p' t)"
    and ex: "executions_of aid t' = executions_of aid t @ [row]"
    and row: "er_symbol row = p_symbol p'"
    and step: "position_step env (stored_position aid (p_symbol p') t) row = stored env p'"
  shows "position_ledger env aid t'"
proof -
  have "stored_position aid sy t' = (if sy = p_symbol p' then stored env p' else stored_position aid sy t)" for sy
    using stored_position_upsert [OF n, of aid sy env aid t] pos by (simp add: stored_position_def)
  then show ?thesis
    using l step by (auto simp: position_ledger_def ex row)
qed

lemma order_ledger_new:
  assumes l: "order_ledger aid t"
    and r: "orders t' = orders t @ [r]" "or_account_id r = aid" "or_id r \<notin> set (map or_id (orders t))"
    and ex: "executions_of aid t' = executions_of aid t @ rows"
    and rows: "rows = [] \<and> or_status r \<noteq> FILLED
      \<or> (\<exists>e. rows = [e] \<and> er_order_id e = or_id r) \<and> or_status r = FILLED"
  shows "order_ledger aid t'"
proof -
  have none: "filter (\<lambda>e. er_order_id e = or_id r) (executions_of aid t) = []"
  proof (rule ccontr)
    assume "\<not> ?thesis"
    then obtain e where e: "e \<in> set (executions_of aid t)" "er_order_id e = or_id r"
      by (auto simp: filter_empty_conv)
    then obtain x where "x \<in> set (orders t)" "or_id x = er_order_id e"
      using l by (auto simp: order_ledger_def)
    with e(2) r(3) show False by (metis image_eqI set_map)
  qed
  have old: "or_id x \<noteq> or_id r" if "x \<in> set (orders t)" for x
    using that r(3) by (metis image_eqI set_map)
  have count: "length (filter (\<lambda>e. er_order_id e = or_id x) (executions_of aid t'))
      = (if or_status x = FILLED then 1 else 0)"
    if "x \<in> set (orders t')" "or_account_id x = aid" for x
  proof (cases "x = r")
    case True
    then show ?thesis using none rows by (auto simp: ex)
  next
    case False
    then have x: "x \<in> set (orders t)" using that r by auto
    have "filter (\<lambda>e. er_order_id e = or_id x) rows = []" using rows old [OF x] by auto
    then show ?thesis using l x that(2) by (simp add: order_ledger_def ex)
  qed
  have "\<exists>x \<in> set (orders t'). or_account_id x = aid \<and> or_id x = er_order_id e"
    if "e \<in> set (executions_of aid t')" for e
    using that l r rows by (auto simp: ex order_ledger_def)
  with count show ?thesis by (simp add: order_ledger_def)
qed

lemma order_ledger_update:
  assumes l: "order_ledger aid t" and d: "distinct (map or_id (orders t))"
    and r: "r \<in> set (orders t)" "or_account_id r = aid" "or_id r = oid" "or_status r \<noteq> FILLED"
    and up: "orders t' = update_where (\<lambda>m. or_id m = oid) f (orders t)"
    and f: "\<And>m. or_id (f m) = or_id m" "\<And>m. or_account_id (f m) = or_account_id m"
      "\<And>m. or_status (f m) = st"
    and ex: "executions_of aid t' = executions_of aid t @ rows"
    and rows: "rows = [] \<and> st \<noteq> FILLED \<or> (\<exists>e. rows = [e] \<and> er_order_id e = oid) \<and> st = FILLED"
  shows "order_ledger aid t'"
proof -
  have zero: "length (filter (\<lambda>e. er_order_id e = oid) (executions_of aid t)) = 0"
    using l r by (auto simp: order_ledger_def)
  have count: "length (filter (\<lambda>e. er_order_id e = or_id x) (executions_of aid t'))
      = (if or_status x = FILLED then 1 else 0)"
    if x: "x \<in> set (orders t')" "or_account_id x = aid" for x
  proof (cases "or_id x = oid")
    case True
    then have "or_status x = st" using x(1) f by (auto simp: up set_update_where)
    then show ?thesis using zero rows True by (auto simp: ex)
  next
    case False
    then have "x \<in> set (orders t)" using x(1) f by (auto simp: up set_update_where)
    moreover have "filter (\<lambda>e. er_order_id e = or_id x) rows = []" using rows False by auto
    ultimately show ?thesis using l x(2) by (simp add: order_ledger_def ex)
  qed
  have keep: "\<exists>x' \<in> set (orders t'). or_account_id x' = or_account_id x \<and> or_id x' = or_id x"
    if "x \<in> set (orders t)" for x
  proof (cases "or_id x = oid")
    case True
    then have "f x \<in> set (orders t')" using that by (auto simp: up set_update_where)
    then show ?thesis using f by blast
  next
    case False
    then have "x \<in> set (orders t')" using that by (simp add: up set_update_where)
    then show ?thesis by blast
  qed
  have "\<exists>x \<in> set (orders t'). or_account_id x = aid \<and> or_id x = er_order_id e"
    if "e \<in> set (executions_of aid t')" for e
  proof (cases "e \<in> set (executions_of aid t)")
    case True
    then obtain x where "x \<in> set (orders t)" "or_account_id x = aid" "or_id x = er_order_id e"
      using l by (auto simp: order_ledger_def)
    then show ?thesis using keep [of x] by simp
  next
    case False
    then have "er_order_id e = oid" using that rows by (auto simp: ex)
    then show ?thesis using keep [OF r(1)] r by simp
  qed
  with count show ?thesis by (simp add: order_ledger_def)
qed

end
