(* ===== verification/Ledger_Steps.thy ===== *)
theory Ledger_Steps
  imports Trading_Ledger
begin

text \<open>
  What a transaction of \<open>PersistentPaperTradingService\<close> has done to the tables when it returns,
  and that each of them takes a ledger to a ledger.
\<close>

section \<open>The steps of a body\<close>

definition account_of_row :: "account_row \<Rightarrow> paper_account" where
  "account_of_row m = \<lparr>account_id = ar_id m, initial_cash = ar_initial_cash m, cash_balance = ar_cash_balance m\<rparr>"

definition locked_account :: "uuid \<Rightarrow> tables \<Rightarrow> account_row \<Rightarrow> bool" where
  "locked_account aid t m \<longleftrightarrow> first_where (\<lambda>m. ar_id m = aid) (accounts t) = Some m \<and> ar_id m = aid"

lemma require_account_Inr:
  assumes "require_account_for_update env aid u = (Inr a, u')"
  obtains m where "locked_account aid (session u') m" and "a = account_of_row m"
    and "session u' = lock_wait env (held u) (session u)" and "db u' = lock_wait env (held u) (db u)"
    and "held u' = insert aid (held u)"
  using assms first_where_Some [of "\<lambda>m. ar_id m = aid"]
  by (fastforce simp: require_account_for_update_def bind_run locking_def account_repo_get_def load_def
      account_to_domain_def paper_account_new_def account_of_row_def hold_def Let_def locked_account_def
      split: option.splits if_splits sum.splits)

lemma get_or_create_position_Inr:
  assumes "get_or_create_position_for_update env aid sy u = (Inr p, u')" and "normal_symbol sy = sy"
  shows "p = stored_position aid sy (session u') \<and> valid_position p \<and> p_symbol p = sy
    \<and> session u' = lock_wait env (held u) (session u) \<and> db u' = lock_wait env (held u) (db u)
    \<and> held u' = held u"
proof -
  have "normal_symbol (pr_symbol m) = sy" if "first_where (position_key aid sy) rows = Some m" for m rows
    using first_where_Some [OF that] assms(2) by (simp add: position_key_def)
  moreover have "pr_symbol m = sy" if "first_where (position_key aid sy) rows = Some m" for m rows
    using first_where_Some [OF that] by (simp add: position_key_def)
  ultimately show ?thesis
    using assms
    by (auto simp: get_or_create_position_for_update_def bind_run locking_def position_repo_get_def load_def
        position_to_domain_def position_new_def position_of_row_def stored_position_def flat_position_def
        valid_position_def Let_def split: option.splits if_splits sum.splits)
qed

lemma on_objects_Inr:
  "on_objects s m u = (Inr (a, s'), u') \<Longrightarrow> m s = (Inr a, s') \<and> u' = u"
  by (auto simp: on_objects_def split: prod.splits sum.splits)

lemma writing_Inr: "writing f u = (Inr (), u') \<Longrightarrow> \<exists>t. f (session u) = Inr t \<and> u' = u\<lparr>session := t\<rparr>"
  by (auto simp: writing_def split: sum.splits)

lemma add_order_Inr:
  assumes "add_order env r u = (Inr (), u')"
  shows "u' = u\<lparr>session := order_repo_add env r (session u)\<rparr>"
  using assms by (auto simp: add_order_def bind_run writing_def session_flush_def split: option.splits)

lemma persist_execution_Inr:
  assumes "persist_execution env a p tr u = (Inr (), u')"
  obtains t where "account_repo_update env a (session u) = Inr t"
    and "u' = u\<lparr>session := execution_repo_add env (account_id a) (tr_execution tr)
      (order_repo_add env (tr_order tr) (position_repo_upsert env (account_id a) p t))\<rparr>"
  using assms
  by (auto simp: persist_execution_def Let_def elim!: bind_InrE dest!: writing_Inr add_order_Inr)

lemma persist_limit_execution_Inr:
  assumes "persist_limit_execution env a p r ex u = (Inr (), u')"
  obtains t t' where "account_repo_update env a (session u) = Inr t"
    and "order_repo_update env r (position_repo_upsert env (account_id a) p t) = Inr t'"
    and "u' = u\<lparr>session := execution_repo_add env (account_id a) ex t'\<rparr>"
    and "o_account_id r = account_id a" and "ex_order_id ex = order_id r"
  using assms
  by (auto simp: persist_limit_execution_def Let_def elim!: bind_InrE dest!: writing_Inr split: if_splits)

lemma uow_commit_Inr:
  assumes "uow_commit env u = (Inr (), u')"
  shows "flush_error (session u) = None \<and> u' = u\<lparr>db := session u, committed := True\<rparr>"
  using assms by (auto simp: uow_commit_run split: option.splits)

lemma flush_ok: "flush_error t = None \<longleftrightarrow> columns_fit t \<and> constraints_ok t"
  by (simp add: flush_error_def)

definition loaded_order :: "uuid \<Rightarrow> tables \<Rightarrow> order_row \<Rightarrow> paper_order \<Rightarrow> bool" where
  "loaded_order oid t m r \<longleftrightarrow> first_where (\<lambda>m. or_id m = oid) (orders t) = Some m
     \<and> order_to_domain m = Inr r \<and> or_id m = oid"

lemma order_to_domain_sel:
  assumes "order_to_domain m = Inr r"
  shows "order_id r = or_id m" and "o_account_id r = or_account_id m" and "o_status r = or_status m"
    and "o_symbol r = normal_symbol (or_symbol m)" and "filled_quantity r = or_filled_quantity m"
    and "o_quantity r = or_quantity m" and "o_side r = or_side m" and "valid_order r"
    and "o_type r = or_type m" and "limit_price r = or_limit_price m"
  using assms paper_order_new_valid [OF assms [unfolded order_to_domain_def]]
  by (auto simp: order_to_domain_def paper_order_new_def Let_def split: if_splits)

lemma lock_order_Inr:
  assumes "lock_order env oid u = (Inr (a, r), u')"
  obtains aid ma m where "locked_account aid (lock_wait env (held u) (session u)) ma" and "a = account_of_row ma"
    and "loaded_order oid (session u') m r" and "or_account_id m = aid"
    and "session u' = lock_wait env (insert aid (held u)) (lock_wait env (held u) (session u))"
    and "db u' = lock_wait env (insert aid (held u)) (lock_wait env (held u) (db u))"
    and "held u' = insert aid (held u)"
proof -
  from assms obtain routing :: paper_order and v where
    acc: "require_account_for_update env (o_account_id routing) u = (Inr a, v)"
    and lock: "locking env (order_repo_get oid) v = (Inr (Some r), u')" "o_account_id r = account_id a"
    by (auto simp: lock_order_def reading_def elim!: bind_InrE split: option.splits if_splits)
  from acc obtain ma where ma: "locked_account (o_account_id routing) (session v) ma" "a = account_of_row ma"
    and v: "session v = lock_wait env (held u) (session u)" "db v = lock_wait env (held u) (db u)"
      "held v = insert (o_account_id routing) (held u)"
    by (rule require_account_Inr)
  from lock obtain m where "loaded_order oid (session u') m r" "or_account_id m = account_id a"
    and "session u' = lock_wait env (held v) (session v)" "db u' = lock_wait env (held v) (db v)"
    "held u' = held v"
    by (auto simp: locking_def order_repo_get_def load_def loaded_order_def Let_def
        order_to_domain_sel dest: first_where_Some split: option.splits sum.splits if_splits)
  moreover have "account_id a = o_account_id routing"
    using ma by (simp add: account_of_row_def locked_account_def)
  ultimately show ?thesis using that ma v by simp
qed

section \<open>Keeping the ledger\<close>

lemma ledger_one_account:
  assumes "ledger env t" and "constraints_ok t'"
    and "\<And>b. b \<noteq> aid \<Longrightarrow> account_slice b t' = account_slice b t"
    and "cash_ledger env aid t'" and "position_ledger env aid t'" and "order_ledger aid t'"
  shows "ledger env t'"
proof -
  have "cash_ledger env b t' \<and> position_ledger env b t' \<and> order_ledger b t'" for b
    using assms(1,4,5,6) slice_ledgers(1,2) [OF assms(3), of b env] slice_ledgers(3) [OF assms(3), of b]
    by (cases "b = aid") (auto simp: ledger_def)
  then show ?thesis using assms(2) by (simp add: ledger_def)
qed

text \<open>Where the tables of a transaction that holds the lock of \<open>aid\<close> may differ.\<close>

lemma slice_trade:
  assumes "b \<noteq> aid"
    and "accounts t' = update_where (\<lambda>m. ar_id m = aid) (\<lambda>m. m\<lparr>ar_cash_balance := c\<rparr>) (accounts t)"
    and "positions t' = positions (position_repo_upsert env aid p t)"
    and "filter (\<lambda>r. or_account_id r = b) (orders t') = filter (\<lambda>r. or_account_id r = b) (orders t)"
    and "executions t' = executions t @ [row]" and "er_account_id row = aid"
  shows "account_slice b t' = account_slice b t"
proof -
  have "filter (\<lambda>a. ar_id a = b) (accounts t') = filter (\<lambda>a. ar_id a = b) (accounts t)"
    unfolding assms(2) using assms(1) by (subst filter_update_where) (auto intro!: update_where_none)
  moreover have "filter (\<lambda>p. pr_account_id p = b) (positions t') = filter (\<lambda>p. pr_account_id p = b) (positions t)"
    unfolding assms(3) position_repo_upsert_def Let_def
    using assms(1) by (auto simp: filter_update_where position_key_def intro: update_where_none split: option.splits)
  ultimately show ?thesis
    using assms(1,4-6) by (simp add: account_slice_def)
qed

lemma locked_account_domain [simp]:
  "account_id (account_of_row m) = ar_id m" "cash_balance (account_of_row m) = ar_cash_balance m"
  by (simp_all add: account_of_row_def)

text \<open>A fill that is persisted takes a ledger to a ledger, once the orders do.\<close>

lemma ledger_fill:
  assumes l: "ledger env t" and m: "locked_account aid t m"
    and p: "stored_position aid (p_symbol p) t = p" "valid_position p"
    and fe: "fill_effect q f s ex s'" "numeric env (bid q) = bid q" "numeric env (ask q) = ask q"
    and s: "b_account s = account_of_row m" "b_position s = p" "o_symbol (b_order s) = p_symbol p"
    and acc: "accounts t' = update_where (\<lambda>m. ar_id m = aid)
      (\<lambda>m. m\<lparr>ar_cash_balance := numeric env (cash_balance (b_account s'))\<rparr>) (accounts t)"
    and pos: "positions t' = positions (position_repo_upsert env aid (b_position s') t)"
    and ord: "order_ledger aid t'"
      "\<And>b. b \<noteq> aid \<Longrightarrow> filter (\<lambda>r. or_account_id r = b) (orders t') = filter (\<lambda>r. or_account_id r = b) (orders t)"
    and ex: "executions t' = executions t @ [execution_row_of env aid ex]"
    and c: "constraints_ok t'"
  shows "ledger env t'"
proof (rule ledger_one_account [OF l c])
  note fs = fill_effect_steps(1,2) [OF fe, of aid] fill_effect_steps(3-) [OF fe]
  have e: "executions_of aid t' = executions_of aid t @ [execution_row_of env aid ex]"
    by (simp add: executions_of_def ex execution_row_of_def)
  show "account_slice b t' = account_slice b t" if "b \<noteq> aid" for b
    by (rule slice_trade [OF that acc pos ord(2) [OF that] ex]) (simp add: execution_row_of_def)
  show "cash_ledger env aid t'"
    using l m by (intro cash_ledger_trade [OF _ _ _ acc e])
      (auto simp: ledger_def locked_account_def fs(1) [symmetric] s(1))
  have sy: "p_symbol (b_position s') = p_symbol p" using fs(5) s(2) by simp
  show "position_ledger env aid t'"
  proof (rule position_ledger_trade [OF _ _ pos e])
    show "position_ledger env aid t" using l by (simp add: ledger_def)
    show "normal_symbol (p_symbol (b_position s')) = p_symbol (b_position s')"
      using p(2) sy by (simp add: valid_position_def)
    show "er_symbol (execution_row_of env aid ex) = p_symbol (b_position s')"
      using fs(3) s(3) sy by (simp add: execution_row_of_def)
    show "position_step env (stored_position aid (p_symbol (b_position s')) t) (execution_row_of env aid ex)
        = stored env (b_position s')"
      using fs(2) p(1) s(2) sy by simp
  qed
  show "order_ledger aid t'" by (rule ord(1))
qed

section \<open>The operations\<close>

definition well_behaved :: "db_env \<Rightarrow> quote_provider \<Rightarrow> bool" where
  "well_behaved env provider \<longleftrightarrow>
     prices_exact env provider \<and> locks_respected env \<and> others_keep_ledger env"

lemma well_behavedD:
  assumes "well_behaved env provider"
  shows "aid \<in> L \<Longrightarrow> account_slice aid (lock_wait env L t) = account_slice aid t"
    and "ledger env t \<Longrightarrow> ledger env (lock_wait env L t)"
    and "quote_service_get_quote provider sy = Inr q \<Longrightarrow> numeric env (bid q) = bid q"
    and "quote_service_get_quote provider sy = Inr q \<Longrightarrow> numeric env (ask q) = ask q"
proof -
  show "aid \<in> L \<Longrightarrow> account_slice aid (lock_wait env L t) = account_slice aid t"
    using assms unfolding well_behaved_def locks_respected_def by blast
  show "ledger env t \<Longrightarrow> ledger env (lock_wait env L t)"
    using assms unfolding well_behaved_def others_keep_ledger_def by blast
  have "\<exists>s. provider s = Inr q" if "quote_service_get_quote provider sy = Inr q"
    using that by (auto simp: quote_service_get_quote_def split: sum.splits if_splits)
  then show "quote_service_get_quote provider sy = Inr q \<Longrightarrow> numeric env (bid q) = bid q"
    and "quote_service_get_quote provider sy = Inr q \<Longrightarrow> numeric env (ask q) = ask q"
    using assms unfolding well_behaved_def prices_exact_def by blast+
qed

lemma locked_account_slice:
  assumes "account_slice aid t = account_slice aid t'"
  shows "locked_account aid t m = locked_account aid t' m"
proof -
  have "filter (\<lambda>m. ar_id m = aid) (accounts t) = filter (\<lambda>m. ar_id m = aid) (accounts t')"
    using assms by (simp add: account_slice_def)
  then have "first_where (\<lambda>m. ar_id m = aid) (accounts t) = first_where (\<lambda>m. ar_id m = aid) (accounts t')"
    by (rule first_where_filter)
  then show ?thesis by (simp add: locked_account_def)
qed

lemma by_others_ledger: "by_others env t t' \<Longrightarrow> well_behaved env provider \<Longrightarrow> ledger env t \<Longrightarrow> ledger env t'"
  by (erule by_others_keeps [where P = "ledger env"]) (erule (1) well_behavedD(2))

lemma market_body_Inr:
  assumes "market_body side env provider fo fe aid sy n u = (Inr tr, u')" and "normal_symbol sy = sy"
    and "well_behaved env provider" and "held u = {}"
  obtains t m p q s t' where "t = lock_wait env {aid} (lock_wait env {} (session u))"
    and "locked_account aid t m" and "p = stored_position aid sy t" and "valid_position p" and "p_symbol p = sy"
    and "quote_service_get_quote provider sy = Inr q"
    and "fill_effect q fe \<lparr>b_account = account_of_row m, b_order = market_order (account_of_row m) p side n fo,
        b_position = p\<rparr> (tr_execution tr) s" and "b_order s = tr_order tr"
    and "account_repo_update env (b_account s) t = Inr t'"
    and "db u' = execution_repo_add env aid (tr_execution tr)
      (order_repo_add env (tr_order tr) (position_repo_upsert env aid (b_position s) t'))"
    and "constraints_ok (db u')" and "held u' = {aid}"
proof -
  from assms(1) obtain a u1 p u2 s u3 where
    acc: "require_account_for_update env aid u = (Inr a, u1)"
    and pos: "get_or_create_position_for_update env aid sy u1 = (Inr p, u2)"
    and obj: "market_trade side (quote_service_get_quote provider) fo fe n \<lparr>bk_account = a, bk_position = p\<rparr>
      = (Inr tr, s)"
    and per: "persist_execution env (bk_account s) (bk_position s) tr u2 = (Inr (), u3)"
    and com: "uow_commit env u3 = (Inr (), u')"
    by (auto simp: market_body_def elim!: bind_InrE dest!: on_objects_Inr)
  from acc obtain m where m: "locked_account aid (session u1) m" "a = account_of_row m"
    and u1: "session u1 = lock_wait env {} (session u)" "held u1 = {aid}"
    by (rule require_account_Inr) (simp add: assms(4))
  have p: "p = stored_position aid sy (session u2)" "valid_position p" "p_symbol p = sy"
    and u2: "session u2 = lock_wait env {aid} (session u1)" "held u2 = {aid}"
    using get_or_create_position_Inr [OF pos assms(2)] u1(2) by auto
  from obj obtain q where q: "quote_service_get_quote provider sy = Inr q"
    and fe: "fill_effect q fe \<lparr>b_account = a, b_order = market_order a p side n fo, b_position = p\<rparr>
      (tr_execution tr) \<lparr>b_account = bk_account s, b_order = tr_order tr, b_position = bk_position s\<rparr>"
    by (rule quote_service.market_trade_fill) (use p in auto)
  have id: "account_id (bk_account s) = aid"
    using fill_effect_steps(6) [OF fe] well_behavedD(3,4) [OF assms(3) q] m
    by (simp add: account_of_row_def locked_account_def)
  from per obtain t' where t': "account_repo_update env (bk_account s) (session u2) = Inr t'"
    and u3: "u3 = u2\<lparr>session := execution_repo_add env aid (tr_execution tr)
      (order_repo_add env (tr_order tr) (position_repo_upsert env aid (bk_position s) t'))\<rparr>"
    by (rule persist_execution_Inr) (simp add: id)
  have "account_slice aid (session u1) = account_slice aid (session u2)"
    unfolding u2(1) by (rule well_behavedD(1) [OF assms(3), symmetric]) simp
  then have "locked_account aid (session u2) m"
    using m(1) locked_account_slice by blast
  moreover have "db u' = session u3" "constraints_ok (db u')" "held u' = {aid}"
    using uow_commit_Inr [OF com] u2(2) u3 by (auto simp: flush_ok)
  ultimately show ?thesis
    using that [OF _ _ p q fe [unfolded m(2)], of t'] t' u3 by (simp add: u2(1) u1(1))
qed

lemma position_upsert_cong: "positions t = positions t' \<Longrightarrow>
    positions (position_repo_upsert env aid p t) = positions (position_repo_upsert env aid p t')"
  by (simp add: position_repo_upsert_def Let_def split: option.splits)

lemma new_order_row:
  assumes "constraints_ok t'" and "orders t' = orders t @ [r]"
  shows "or_id r \<notin> set (map or_id (orders t))"
  using assms by (simp add: constraints_ok_def)

lemma market_body_ledger:
  assumes b: "market_body side env provider fo fe aid sy n u = (Inr tr, u')" and sy: "normal_symbol sy = sy"
    and w: "well_behaved env provider" and h: "held u = {}" and l: "ledger env (session u)"
  shows "ledger env (db u')"
proof -
  from b sy w h obtain t m p q s t' where t: "t = lock_wait env {aid} (lock_wait env {} (session u))"
    and m: "locked_account aid t m" and p: "p = stored_position aid sy t" "valid_position p" "p_symbol p = sy"
    and q: "quote_service_get_quote provider sy = Inr q"
    and fe: "fill_effect q fe \<lparr>b_account = account_of_row m, b_order = market_order (account_of_row m) p side n fo,
        b_position = p\<rparr> (tr_execution tr) s"
    and r: "b_order s = tr_order tr" and t': "account_repo_update env (b_account s) t = Inr t'"
    and u': "db u' = execution_repo_add env aid (tr_execution tr)
      (order_repo_add env (tr_order tr) (position_repo_upsert env aid (b_position s) t'))"
    and c: "constraints_ok (db u')"
    by (rule market_body_Inr)
  have exact: "numeric env (bid q) = bid q" "numeric env (ask q) = ask q"
    by (rule well_behavedD(3,4) [OF w q])+
  have aid: "ar_id m = aid" using m by (simp add: locked_account_def)
  note fs = fill_effect_steps [OF fe exact]
  have r': "tr_order tr = filled_order (market_order (account_of_row m) p side n fo)"
    using fs(7) r by simp
  have ex: "executions (db u') = executions t @ [execution_row_of env aid (tr_execution tr)]"
    and acc: "accounts (db u') = update_where (\<lambda>m. ar_id m = aid)
        (\<lambda>m. m\<lparr>ar_cash_balance := numeric env (cash_balance (b_account s))\<rparr>) (accounts t)"
    and ord: "orders (db u') = orders t @ [order_row_of env (tr_order tr)]"
    using account_repo_update_Inr [OF t'] fs(6) aid
    by (simp_all add: u' execution_repo_add_def order_repo_add_def)
  have pos: "positions (db u') = positions (position_repo_upsert env aid (b_position s) t)"
    using position_upsert_cong [of t' t] account_repo_update_Inr [OF t'] unfolding u' by simp
  have o: "or_account_id (order_row_of env (tr_order tr)) = aid" "or_status (order_row_of env (tr_order tr)) = FILLED"
    by (simp_all add: order_row_of_def r' market_order_def aid)
  have lt: "ledger env t"
    unfolding t by (intro well_behavedD(2) [OF w] l)
  have "order_ledger aid (db u')"
  proof (rule order_ledger_new [OF _ ord o(1) new_order_row [OF c ord]])
    show "order_ledger aid t" using lt by (simp add: ledger_def)
    show "executions_of aid (db u') = executions_of aid t @ [execution_row_of env aid (tr_execution tr)]"
      by (simp add: executions_of_def ex execution_row_of_def)
    show "[execution_row_of env aid (tr_execution tr)] = [] \<and> or_status (order_row_of env (tr_order tr)) \<noteq> FILLED
      \<or> (\<exists>e. [execution_row_of env aid (tr_execution tr)] = [e] \<and> er_order_id e = or_id (order_row_of env (tr_order tr)))
        \<and> or_status (order_row_of env (tr_order tr)) = FILLED"
      using fs(4) o by (simp add: execution_row_of_def order_row_of_def r')
  qed
  then show ?thesis
    using o by (intro ledger_fill [OF lt m _ p(2) fe exact _ _ _ acc pos _ _ ex c])
      (auto simp: p(1)[symmetric] p(3) ord market_order_def)
qed

lemma broker_objects_order:
  "submit_limit side gq fo n x s = (Inr r, s') \<Longrightarrow>
   o_status r \<noteq> FILLED \<and> o_account_id r = account_id (bk_account s)"
  by (auto simp: submit_limit_def submit_limit_order_def paper_order_new_def Let_def validate_common_def
      on_order_def mark_pending_def elim!: bind_InrE with_order_Inr split: if_splits sum.splits)

lemma submit_body_ledger:
  assumes b: "submit_body side env provider fo aid sy n x u = (Inr r, u')" and sy: "normal_symbol sy = sy"
    and w: "well_behaved env provider" and h: "held u = {}" and l: "ledger env (session u)"
  shows "ledger env (db u')"
proof -
  from b obtain a u1 p u2 s u3 where
    acc: "require_account_for_update env aid u = (Inr a, u1)"
    and pos: "get_or_create_position_for_update env aid sy u1 = (Inr p, u2)"
    and obj: "submit_limit side (quote_service_get_quote provider) fo n x \<lparr>bk_account = a, bk_position = p\<rparr>
      = (Inr r, s)"
    and add: "add_order env r u2 = (Inr (), u3)" and com: "uow_commit env u3 = (Inr (), u')"
    by (auto simp: submit_body_def elim!: bind_InrE dest!: on_objects_Inr)
  from acc obtain m where m: "locked_account aid (session u1) m" "a = account_of_row m"
    and u1: "session u1 = lock_wait env {} (session u)" "held u1 = {aid}"
    by (rule require_account_Inr) (simp add: h)
  have u2: "session u2 = lock_wait env {aid} (session u1)"
    using get_or_create_position_Inr [OF pos sy] u1(2) by auto
  have r: "o_status r \<noteq> FILLED" "o_account_id r = aid"
    using broker_objects_order [OF obj] m by (auto simp: locked_account_def)
  let ?t = "session u2"
  have db: "db u' = order_repo_add env r ?t" and c: "constraints_ok (db u')"
    using uow_commit_Inr [OF com] add_order_Inr [OF add] by (auto simp: flush_ok)
  have lt: "ledger env ?t"
    unfolding u2 u1 by (intro well_behavedD(2) [OF w] l)
  have ord: "orders (db u') = orders ?t @ [order_row_of env r]"
    by (simp add: db order_repo_add_def)
  have o: "or_account_id (order_row_of env r) = aid" "or_status (order_row_of env r) \<noteq> FILLED"
    using r by (simp_all add: order_row_of_def)
  show ?thesis
  proof (rule ledger_one_account [OF lt c])
    show "account_slice b (db u') = account_slice b ?t" if "b \<noteq> aid" for b
      using that o by (simp add: account_slice_def db order_repo_add_def)
    show "cash_ledger env aid (db u')" "position_ledger env aid (db u')"
      using lt by (simp_all add: ledger_def cash_ledger_def position_ledger_def stored_position_def
          executions_of_def db order_repo_add_def)
    show "order_ledger aid (db u')"
      by (rule order_ledger_new [OF _ ord o(1) new_order_row [OF c ord], of "[]"])
        (use lt o in \<open>simp_all add: ledger_def executions_of_def db\<close>)
  qed
qed

lemma order_slice:
  assumes "account_slice aid t = account_slice aid t'" and "m \<in> set (orders t)" and "or_account_id m = aid"
  shows "m \<in> set (orders t')"
proof -
  have "set (filter (\<lambda>r. or_account_id r = aid) (orders t)) = set (filter (\<lambda>r. or_account_id r = aid) (orders t'))"
    using assms(1) by (simp add: account_slice_def)
  then show ?thesis using assms(2,3) by auto
qed

text \<open>Updating the order of the locked account.\<close>

lemma order_updated:
  assumes l: "ledger env t" and m: "m \<in> set (orders t)" "or_account_id m = aid" "or_status m \<noteq> FILLED"
    and up: "orders t' = update_where (\<lambda>x. or_id x = or_id m)
      (\<lambda>x. x\<lparr>or_status := st, or_filled_quantity := k, or_limit_price := y\<rparr>) (orders t)"
    and ex: "executions_of aid t' = executions_of aid t @ rows"
    and rows: "rows = [] \<and> st \<noteq> FILLED \<or> (\<exists>e. rows = [e] \<and> er_order_id e = or_id m) \<and> st = FILLED"
  shows "order_ledger aid t'"
    and "b \<noteq> aid \<Longrightarrow> filter (\<lambda>r. or_account_id r = b) (orders t') = filter (\<lambda>r. or_account_id r = b) (orders t)"
proof -
  have d: "distinct (map or_id (orders t))" using l by (simp add: ledger_def constraints_ok_def)
  show "order_ledger aid t'"
    by (rule order_ledger_update [OF _ d m(1,2) refl m(3) up _ _ _ ex rows])
      (use l in \<open>simp_all add: ledger_def\<close>)
  show "filter (\<lambda>r. or_account_id r = b) (orders t') = filter (\<lambda>r. or_account_id r = b) (orders t)"
    if b: "b \<noteq> aid"
  proof -
    have "or_id x \<noteq> or_id m" if "x \<in> set (orders t)" "or_account_id x = b" for x
      using unique_row [OF d that(1) m(1)] that(2) m(2) b by auto
    then show ?thesis
      unfolding up by (subst filter_update_where) (auto intro!: update_where_none)
  qed
qed

text \<open>What the processing of an order commits.\<close>

lemma process_body_Inr:
  assumes b: "process_body env provider fe oid u = (Inr ex, u')"
    and w: "well_behaved env provider" and h: "held u = {}" and l: "ledger env (session u)"
  obtains t aid ma m r p where "by_others env (session u) t" and "ledger env t" and "held u' = {aid}"
    and "locked_account aid t ma" and "m \<in> set (orders t)" and "or_id m = oid" and "or_account_id m = aid"
    and "order_to_domain m = Inr r" and "p = stored_position aid (o_symbol r) t" and "valid_position p"
    and "p_symbol p = o_symbol r" and "constraints_ok (db u')"
    and "case ex of None \<Rightarrow> db u' = t
      | Some e \<Rightarrow> (\<exists>q s t1 t2. quote_service_get_quote provider (o_symbol r) = Inr q
          \<and> process_quote q fe \<lparr>b_account = account_of_row ma, b_order = r, b_position = p\<rparr> = (Inr (Some e), s)
          \<and> account_repo_update env (b_account s) t = Inr t1
          \<and> order_repo_update env (b_order s) (position_repo_upsert env aid (b_position s) t1) = Inr t2
          \<and> db u' = execution_repo_add env aid e t2)"
proof -
  from b obtain a r u1 p u2 s u3 where
    lock: "lock_order env oid u = (Inr (a, r), u1)"
    and pos: "get_or_create_position_for_update env (o_account_id r) (o_symbol r) u1 = (Inr p, u2)"
    and obj: "paper_process_limit_order (quote_service_get_quote provider) fe
      \<lparr>b_account = a, b_order = r, b_position = p\<rparr> = (Inr ex, s)"
    and per: "case ex of None \<Rightarrow> u3 = u2
      | Some e \<Rightarrow> persist_limit_execution env (b_account s) (b_position s) (b_order s) e u2 = (Inr (), u3)"
    and com: "uow_commit env u3 = (Inr (), u')"
    by (fastforce simp: process_body_def elim!: bind_InrE dest!: on_objects_Inr split: option.splits prod.splits)
  from lock obtain aid ma m where ma: "locked_account aid (lock_wait env {} (session u)) ma" "a = account_of_row ma"
    and m: "loaded_order oid (session u1) m r" "or_account_id m = aid"
    and u1: "session u1 = lock_wait env {aid} (lock_wait env {} (session u))" "held u1 = {aid}"
    by (rule lock_order_Inr) (simp add: h)
  have r: "order_to_domain m = Inr r" "o_account_id r = aid" "normal_symbol (o_symbol r) = o_symbol r"
    using m order_to_domain_sel [of m r] by (auto simp: loaded_order_def)
  have p: "p = stored_position aid (o_symbol r) (session u2)" "valid_position p" "p_symbol p = o_symbol r"
    and u2: "session u2 = lock_wait env {aid} (session u1)" "held u2 = {aid}"
    using get_or_create_position_Inr [OF pos r(3)] u1(2) r(2) by auto
  note slice = well_behavedD(1) [OF w, of aid "{aid}", symmetric]
  have s1: "account_slice aid (lock_wait env {} (session u)) = account_slice aid (session u1)"
    and s2: "account_slice aid (session u1) = account_slice aid (session u2)"
    unfolding u1(1) u2(1) by (rule slice, simp)+
  have ma2: "locked_account aid (session u2) ma"
    using ma(1) s1 s2 locked_account_slice by metis
  have m2: "m \<in> set (orders (session u2))" "or_id m = oid"
    using order_slice [OF s2 _ m(2)] m(1) first_where_Some by (fastforce simp: loaded_order_def)+
  have bo: "by_others env (session u) (session u2)"
    unfolding u1 u2 by (intro by_others_wait by_others_refl)
  have lt: "ledger env (session u2)" by (rule by_others_ledger [OF bo w l])
  have com': "db u' = session u3" "held u' = held u3" "constraints_ok (session u3)"
    using uow_commit_Inr [OF com] by (auto simp: flush_ok)
  have body: "held u' = {aid} \<and> (case ex of None \<Rightarrow> db u' = session u2
      | Some e \<Rightarrow> (\<exists>q s t1 t2. quote_service_get_quote provider (o_symbol r) = Inr q
          \<and> process_quote q fe \<lparr>b_account = account_of_row ma, b_order = r, b_position = p\<rparr> = (Inr (Some e), s)
          \<and> account_repo_update env (b_account s) (session u2) = Inr t1
          \<and> order_repo_update env (b_order s) (position_repo_upsert env aid (b_position s) t1) = Inr t2
          \<and> db u' = execution_repo_add env aid e t2))"
  proof (cases ex)
    case None
    then show ?thesis using per u2 com' by simp
  next
    case (Some e)
    then obtain q where q: "quote_service_get_quote provider (o_symbol r) = Inr q"
      and pq: "process_quote q fe \<lparr>b_account = a, b_order = r, b_position = p\<rparr> = (Inr (Some e), s)"
      using obj by (auto simp: paper_process_limit_order_def elim!: bind_InrE)
    have "fill_effect q fe \<lparr>b_account = a, b_order = r, b_position = p\<rparr> e s"
      using process_quote_Some [OF pq] by blast
    then have id: "account_id (b_account s) = aid"
      using fill_effect_steps(6) [OF _ well_behavedD(3,4) [OF w q]] ma
      by (fastforce simp: locked_account_def)
    from per have "persist_limit_execution env (b_account s) (b_position s) (b_order s) e u2 = (Inr (), u3)"
      by (simp add: Some)
    then obtain t1 t2 where "account_repo_update env (b_account s) (session u2) = Inr t1"
      and "order_repo_update env (b_order s) (position_repo_upsert env aid (b_position s) t1) = Inr t2"
      and "u3 = u2\<lparr>session := execution_repo_add env aid e t2\<rparr>"
      by (rule persist_limit_execution_Inr) (simp add: id)
    then show ?thesis
      using q pq [unfolded ma(2)] u2(2) com' by (auto simp: Some)
  qed
  show ?thesis
    by (rule that [OF bo lt _ ma2 m2(1,2) m(2) r(1) p _ conjunct2 [OF body]]) (use body com' in simp_all)
qed

lemma process_body_ledger:
  assumes b: "process_body env provider fe oid u = (Inr ex, u')"
    and w: "well_behaved env provider" and h: "held u = {}" and l: "ledger env (session u)"
  shows "ledger env (db u')"
proof -
  from b w h l obtain t aid ma m r p where lt: "ledger env t" and ma: "locked_account aid t ma"
    and m: "m \<in> set (orders t)" "or_id m = oid" "or_account_id m = aid" and r: "order_to_domain m = Inr r"
    and p: "p = stored_position aid (o_symbol r) t" "valid_position p" "p_symbol p = o_symbol r"
    and c: "constraints_ok (db u')"
    and res: "case ex of None \<Rightarrow> db u' = t
      | Some e \<Rightarrow> (\<exists>q s t1 t2. quote_service_get_quote provider (o_symbol r) = Inr q
          \<and> process_quote q fe \<lparr>b_account = account_of_row ma, b_order = r, b_position = p\<rparr> = (Inr (Some e), s)
          \<and> account_repo_update env (b_account s) t = Inr t1
          \<and> order_repo_update env (b_order s) (position_repo_upsert env aid (b_position s) t1) = Inr t2
          \<and> db u' = execution_repo_add env aid e t2)"
    by (rule process_body_Inr)
  show ?thesis
  proof (cases ex)
    case None
    then show ?thesis using res lt by simp
  next
    case (Some e)
    let ?s = "\<lparr>b_account = account_of_row ma, b_order = r, b_position = p\<rparr>"
    from res obtain q s t1 t2 where q: "quote_service_get_quote provider (o_symbol r) = Inr q"
      and pq: "process_quote q fe ?s = (Inr (Some e), s)"
      and t1: "account_repo_update env (b_account s) t = Inr t1"
      and t2: "order_repo_update env (b_order s) (position_repo_upsert env aid (b_position s) t1) = Inr t2"
      and u': "db u' = execution_repo_add env aid e t2"
      by (auto simp: Some)
    have exact: "numeric env (bid q) = bid q" "numeric env (ask q) = ask q"
      by (rule well_behavedD(3,4) [OF w q])+
    have fe: "fill_effect q fe ?s e s" and pending: "o_status r = PENDING"
      using process_quote_Some [OF pq] by auto
    note fs = fill_effect_steps(3-) [OF fe exact, simplified]
    have aid: "ar_id ma = aid" using ma by (simp add: locked_account_def)
    have st: "or_status m \<noteq> FILLED" using order_to_domain_sel(3) [OF r] pending by simp
    have ex: "executions (db u') = executions t @ [execution_row_of env aid e]"
      and acc: "accounts (db u') = update_where (\<lambda>m. ar_id m = aid)
        (\<lambda>m. m\<lparr>ar_cash_balance := numeric env (cash_balance (b_account s))\<rparr>) (accounts t)"
      and ord: "orders (db u') = update_where (\<lambda>x. or_id x = or_id m)
        (\<lambda>x. x\<lparr>or_status := FILLED, or_filled_quantity := o_quantity r,
               or_limit_price := map_option (numeric env) (limit_price r)\<rparr>) (orders t)"
      using account_repo_update_Inr [OF t1] order_repo_update_Inr [OF t2] fs aid order_to_domain_sel(1) [OF r]
      by (simp_all add: u' execution_repo_add_def)
    have pos: "positions (db u') = positions (position_repo_upsert env aid (b_position s) t)"
      using position_upsert_cong [of t1 t] account_repo_update_Inr [OF t1] order_repo_update_Inr [OF t2]
      unfolding u' by simp
    have exo: "executions_of aid (db u') = executions_of aid t @ [execution_row_of env aid e]"
      by (simp add: executions_of_def ex execution_row_of_def)
    have row: "[execution_row_of env aid e] = [] \<and> FILLED \<noteq> FILLED
        \<or> (\<exists>e'. [execution_row_of env aid e] = [e'] \<and> er_order_id e' = or_id m) \<and> FILLED = FILLED"
      using fs(2) order_to_domain_sel(1) [OF r] by (simp add: execution_row_of_def)
    show ?thesis
      by (rule ledger_fill [OF lt ma _ p(2) fe exact _ _ _ acc pos
            order_updated(1) [OF lt m(1,3) st ord exo row] order_updated(2) [OF lt m(1,3) st ord exo row] ex c])
        (use p in simp_all)
  qed
qed

lemma cancel_body_Inr:
  assumes b: "cancel_body env oid u = (Inr r', u')"
    and w: "well_behaved env provider" and h: "held u = {}" and l: "ledger env (session u)"
  obtains t aid m r where "by_others env (session u) t" and "ledger env t" and "m \<in> set (orders t)"
    and "or_id m = oid" and "or_account_id m = aid" and "order_to_domain m = Inr r" and "cancel r = Inr r'"
    and "order_repo_update env r' t = Inr (db u')" and "constraints_ok (db u')" and "held u' = {aid}"
proof -
  from b obtain a r u1 t where lock: "lock_order env oid u = (Inr (a, r), u1)" and c: "cancel r = Inr r'"
    and up: "order_repo_update env r' (session u1) = Inr t"
    and com: "uow_commit env (u1\<lparr>session := t\<rparr>) = (Inr (), u')"
    by (auto simp: cancel_body_def paper_cancel_order_def cancel_order_def elim!: bind_InrE dest!: writing_Inr
        split: prod.splits)
  from lock obtain aid m where m: "loaded_order oid (session u1) m r" "or_account_id m = aid"
    and u1: "session u1 = lock_wait env {aid} (lock_wait env {} (session u))" "held u1 = {aid}"
    by (rule lock_order_Inr) (simp add: h)
  have bo: "by_others env (session u) (session u1)"
    unfolding u1 by (intro by_others_wait by_others_refl)
  have "m \<in> set (orders (session u1))" "or_id m = oid" "order_to_domain m = Inr r"
    using m(1) first_where_Some by (fastforce simp: loaded_order_def)+
  then show ?thesis
    using that [OF bo by_others_ledger [OF bo w l] _ _ m(2) _ c] up uow_commit_Inr [OF com] u1(2)
    by (simp add: flush_ok)
qed

lemma cancel_body_ledger:
  assumes "cancel_body env oid u = (Inr r', u')"
    and "well_behaved env provider" and "held u = {}" and "ledger env (session u)"
  shows "ledger env (db u')"
proof -
  from assms obtain t aid m r where lt: "ledger env t" and m: "m \<in> set (orders t)" "or_id m = oid" "or_account_id m = aid"
    and r: "order_to_domain m = Inr r" and c: "cancel r = Inr r'"
    and up: "order_repo_update env r' t = Inr (db u')" and ok: "constraints_ok (db u')"
    by (rule cancel_body_Inr)
  have c': "r' = r\<lparr>o_status := CANCELLED\<rparr>" "o_status r \<noteq> FILLED"
    using c by (auto simp: cancel_def split: if_splits)
  have st: "or_status m \<noteq> FILLED" using c'(2) order_to_domain_sel(3) [OF r] by simp
  have ord: "orders (db u') = update_where (\<lambda>x. or_id x = or_id m)
      (\<lambda>x. x\<lparr>or_status := CANCELLED, or_filled_quantity := filled_quantity r,
             or_limit_price := map_option (numeric env) (limit_price r)\<rparr>) (orders t)"
    and same: "accounts (db u') = accounts t" "positions (db u') = positions t" "executions (db u') = executions t"
    using order_repo_update_Inr [OF up] order_to_domain_sel(1) [OF r] by (simp_all add: c'(1))
  have ex: "executions_of aid (db u') = executions_of aid t @ []"
    by (simp add: executions_of_def same)
  have row: "[] = [] \<and> CANCELLED \<noteq> FILLED
      \<or> (\<exists>e. [] = [e] \<and> er_order_id e = or_id m) \<and> CANCELLED = FILLED" by simp
  note upd = order_updated [OF lt m(1,3) st ord ex row]
  show ?thesis
  proof (rule ledger_one_account [OF lt ok])
    show "account_slice b (db u') = account_slice b t" if "b \<noteq> aid" for b
      using upd(2) [OF that] by (simp add: account_slice_def same)
    show "cash_ledger env aid (db u')" "position_ledger env aid (db u')"
      using lt by (simp_all add: ledger_def cash_ledger_def position_ledger_def stored_position_def
          executions_of_def same)
    show "order_ledger aid (db u')" by (rule upd(1))
  qed
qed

lemma open_body_ledger:
  assumes b: "open_body env fresh user x v = (Inr a, u')" and w: "well_behaved env provider" and l': "ledger env (session v)"
  shows "ledger env (db u')"
proof -
  define u where "u = v\<lparr>db := lock_wait env (held v) (db v), session := lock_wait env (held v) (session v)\<rparr>"
  from b have a: "paper_account_new x None None fresh = Inr a"
    and com: "uow_commit env (u\<lparr>session := account_repo_add env user a (session u)\<rparr>) = (Inr (), u')"
    by (auto simp: u_def open_body_def reading_def others_commit_def locking_def Let_def elim!: bind_InrE dest!: writing_Inr split: if_splits)
  have l: "ledger env (session u)" using well_behavedD(2) [OF w l'] by (simp add: u_def)
  have a': "a = \<lparr>account_id = fresh, initial_cash = x, cash_balance = x\<rparr>"
    using a by (auto simp: paper_account_new_def split: if_splits)
  have db: "db u' = account_repo_add env user a (session u)" and ok: "constraints_ok (db u')"
    using uow_commit_Inr [OF com] by (auto simp: flush_ok)
  let ?row = "\<lparr>ar_id = fresh, ar_user_id = user, ar_initial_cash = numeric env x, ar_cash_balance = numeric env x\<rparr>"
  have acc: "accounts (db u') = accounts (session u) @ [?row]"
    and same: "positions (db u') = positions (session u)" "orders (db u') = orders (session u)"
      "executions (db u') = executions (session u)"
    by (simp_all add: db account_repo_add_def a')
  have new: "fresh \<notin> set (map ar_id (accounts (session u)))"
    using ok by (simp add: constraints_ok_def acc)
  have none: "executions_of fresh (session u) = []"
    using l new by (auto simp: executions_of_def ledger_def constraints_ok_def list_all_iff filter_empty_conv)
  show ?thesis
  proof (rule ledger_one_account [OF l ok])
    show "account_slice b (db u') = account_slice b (session u)" if "b \<noteq> fresh" for b
      using that by (simp add: account_slice_def acc same)
    show "cash_ledger env fresh (db u')"
      using none new by (auto simp: cash_ledger_def executions_of_def acc same)
    show "position_ledger env fresh (db u')" "order_ledger fresh (db u')"
      using l by (simp_all add: ledger_def position_ledger_def order_ledger_def stored_position_def
          executions_of_def same)
  qed
qed

text \<open>Every operation, whether it returns or raises.\<close>

context transactional
begin

lemma with_uow_ledger:
  assumes "well_behaved env provider" and "ledger env (db u)"
    and "\<And>a u0 u'. held u0 = {} \<Longrightarrow> ledger env (session u0) \<Longrightarrow> body u0 = (Inr a, u') \<Longrightarrow> ledger env (db u')"
  shows "ledger env (db (snd (with_uow body u)))"
proof -
  obtain r u' where run: "with_uow body u = (r, u')" by fastforce
  show ?thesis
  proof (cases r)
    case (Inl e)
    then show ?thesis using by_others_ledger [OF failure assms(1,2)] run by simp
  next
    case (Inr a)
    then show ?thesis
      using success [of u a u'] assms(3) [of "uow_enter (new_session u)" a u'] assms(2) run by (simp add: uow_enter_def new_session_def)
  qed
qed

end

end
