(* ===== verification/Trading_Scenario.thy ===== *)
theory Trading_Scenario
  imports Ledger_Steps
begin

text \<open>
  A concrete database and market, on which the properties of the trading services are
  instantiated: a \<open>Numeric(20, 6)\<close> column rounds half away from zero, as PostgreSQL documents, no
  other transaction runs, and every symbol is quoted 99 to 100.
\<close>

definition numeric_20_6 :: "decimal \<Rightarrow> decimal" where
  "numeric_20_6 x = (if x < 0 then - of_int \<lfloor>- x * 10 ^ 6 + 1 / 2\<rfloor> else of_int \<lfloor>x * 10 ^ 6 + 1 / 2\<rfloor>) / 10 ^ 6"

lemma numeric_20_6_of_int: "numeric_20_6 (of_int n) = of_int n"
proof -
  have "\<lfloor>(of_int m :: rat) + 1 / 2\<rfloor> = m" for m :: int by linarith
  from this [of "n * 10 ^ 6"] this [of "- n * 10 ^ 6"] show ?thesis
    by (auto simp: numeric_20_6_def)
qed

lemma numeric_20_6_numeral [simp]:
  "numeric_20_6 (numeral k) = numeral k" "numeric_20_6 0 = 0" "numeric_20_6 1 = 1"
  using numeric_20_6_of_int [of "numeral k"] numeric_20_6_of_int [of 0] numeric_20_6_of_int [of 1] by simp_all

definition quiet_db :: db_env where
  "quiet_db = \<lparr>numeric = numeric_20_6, lock_wait = (\<lambda>_ t. t), commit_error = (\<lambda>_. None),
     utc_now = 0, text_le = (\<lambda>_ _. True)\<rparr>"

definition flat_market :: quote_provider where
  "flat_market = (\<lambda>s. market_quote_new s 99 100)"

lemma quiet_db_sel [simp]:
  "numeric quiet_db = numeric_20_6" "lock_wait quiet_db L t = t" "commit_error quiet_db t = None"
  "utc_now quiet_db = 0"
  by (simp_all add: quiet_db_def)

lemma quiet_market_well_behaved: "well_behaved quiet_db flat_market"
  by (auto simp: well_behaved_def prices_exact_def locks_respected_def others_keep_ledger_def
      flat_market_def market_quote_new_def Let_def split: if_splits)

text \<open>The tables after an account was opened, and after it bought five shares.\<close>

definition opened_tables :: tables where
  "opened_tables = \<lparr>accounts = [\<lparr>ar_id = 10, ar_user_id = ''ann'', ar_initial_cash = 1000, ar_cash_balance = 1000\<rparr>],
     positions = [], orders = [], executions = []\<rparr>"

definition bought_tables :: tables where
  "bought_tables = \<lparr>accounts = [\<lparr>ar_id = 10, ar_user_id = ''ann'', ar_initial_cash = 1000, ar_cash_balance = 500\<rparr>],
     positions = [\<lparr>pr_account_id = 10, pr_symbol = ''AAPL'', pr_quantity = 5, pr_average_cost = 100, pr_realized_pnl = 0\<rparr>],
     orders = [\<lparr>or_id = 2, or_account_id = 10, or_symbol = ''AAPL'', or_side = BUY, or_type = MARKET,
       or_status = FILLED, or_quantity = 5, or_filled_quantity = 5, or_limit_price = None, or_created_at = 0\<rparr>],
     executions = [\<lparr>er_id = 3, er_order_id = 2, er_account_id = 10, er_symbol = ''AAPL'', er_side = BUY,
       er_quantity = 5, er_price = 100, er_executed_at = 0\<rparr>]\<rparr>"

definition idle :: "tables \<Rightarrow> unit_of_work" where
  "idle t = \<lparr>db = t, session = t, committed = False, rolled_back = False, held = {}\<rparr>"

lemma aapl [simp]: "normal_symbol ''aapl'' = ''AAPL''" "normal_symbol ''AAPL'' = ''AAPL''"
  by code_simp+

lemma ann [simp]: "strip ''ann'' = ''ann''"
  by code_simp

lemmas scenario_simps = prog_simps with_uow_def uow_enter_def new_session_def uow_exit_def idle_def reading_def writing_def locking_def others_commit_def
  hold_def uow_commit_run flush_error_def constraints_ok_def columns_fit_def session_flush_def
  require_account_for_update_def get_or_create_position_for_update_def account_repo_get_def
  account_repo_get_by_user_id_def position_repo_get_def position_key_def load_def account_to_domain_def
  position_to_domain_def paper_account_new_def position_new_def on_objects_def normalize_symbol_def
  first_where_def update_where_def
  account_row_ok_def position_row_ok_def order_row_ok_def execution_row_ok_def fits_numeric_def
  fits_integer_def Let_def

lemmas flat_market_simps = quote_service_get_quote_def flat_market_def market_quote_new_def

lemma open_scenario:
  "open_account quiet_db 10 ''ann'' 1000 (idle new)
     = (Inr \<lparr>account_id = 10, initial_cash = 1000, cash_balance = 1000\<rparr>,
        \<lparr>db = opened_tables, session = opened_tables, committed = True, rolled_back = False, held = {}\<rparr>)"
  if "new = \<lparr>accounts = [], positions = [], orders = [], executions = []\<rparr>"
  by (simp add: that open_account_def open_body_def scenario_simps account_repo_add_def opened_tables_def)

lemma trade_scenario:
  "market_trade BUY (quote_service_get_quote flat_market) 2 3 5
     \<lparr>bk_account = \<lparr>account_id = 10, initial_cash = 1000, cash_balance = 1000\<rparr>, bk_position = flat_position ''AAPL''\<rparr>
   = (Inr \<lparr>tr_order = \<lparr>o_account_id = 10, o_symbol = ''AAPL'', o_side = BUY, o_quantity = 5, o_type = MARKET,
         order_id = 2, o_status = FILLED, filled_quantity = 5, limit_price = None\<rparr>,
       tr_execution = \<lparr>ex_order_id = 2, ex_symbol = ''AAPL'', ex_side = BUY, ex_quantity = 5, ex_price = 100,
         execution_id = 3\<rparr>\<rparr>,
      \<lparr>bk_account = \<lparr>account_id = 10, initial_cash = 1000, cash_balance = 500\<rparr>,
       bk_position = \<lparr>p_symbol = ''AAPL'', p_quantity = 5, average_cost = 100, realized_pnl = 0\<rparr>\<rparr>)"
  by (simp add: market_trade_def scenario_simps flat_market_simps with_order_def execute_market_order_run validate_common_def
      fill_order_run execute_buy_run paper_order_new_def flat_position_def execution_of_def filled_order_def
      bought_position_def remaining_quantity_def decimal_eval)

definition scenario_trade :: trade_execution_result where
  "scenario_trade = \<lparr>tr_order = \<lparr>o_account_id = 10, o_symbol = ''AAPL'', o_side = BUY, o_quantity = 5,
       o_type = MARKET, order_id = 2, o_status = FILLED, filled_quantity = 5, limit_price = None\<rparr>,
     tr_execution = \<lparr>ex_order_id = 2, ex_symbol = ''AAPL'', ex_side = BUY, ex_quantity = 5, ex_price = 100,
       execution_id = 3\<rparr>\<rparr>"

lemma buy_scenario:
  "market_buy quiet_db flat_market 2 3 10 ''aapl'' 5 (idle opened_tables) = (Inr scenario_trade,
     \<lparr>db = bought_tables, session = bought_tables, committed = True, rolled_back = False, held = {10}\<rparr>)"
proof -
  note trade = trade_scenario [unfolded flat_position_def, folded scenario_trade_def]
  have "market_body BUY quiet_db flat_market 2 3 10 ''AAPL'' 5 (uow_enter (new_session (idle opened_tables))) = (Inr scenario_trade,
     \<lparr>db = bought_tables, session = bought_tables, committed = True, rolled_back = False, held = {10}\<rparr>)"
    by (simp add: market_body_def scenario_simps trade persist_execution_def add_order_def
        account_repo_update_def position_repo_upsert_def order_repo_add_def execution_repo_add_def
        order_row_of_def execution_row_of_def opened_tables_def bought_tables_def scenario_trade_def
        )
  then show ?thesis
    by (simp add: market_buy_def market_operation_def normalize_symbol_def Let_def bind_run with_uow_def uow_exit_def)
qed

text \<open>Ten times as many shares cost more than there is.\<close>

lemma poor_scenario:
  "market_buy quiet_db flat_market 2 3 10 ''aapl'' 50 (idle opened_tables) =
    (Inl (InsufficientBuyingPowerError ''Required cash exceeds buying power.''),
     (idle opened_tables)\<lparr>rolled_back := True, held := {10}\<rparr>)"
proof -
  have "market_body BUY quiet_db flat_market 2 3 10 ''AAPL'' 50 (uow_enter (new_session (idle opened_tables))) =
    (Inl (InsufficientBuyingPowerError ''Required cash exceeds buying power.''),
     (idle opened_tables)\<lparr>held := {10}\<rparr>)"
    by (simp add: market_body_def scenario_simps flat_market_simps opened_tables_def market_trade_def with_order_def
        execute_market_order_run validate_common_def fill_order_run execute_buy_run paper_order_new_def
        remaining_quantity_def decimal_eval)
  then show ?thesis
    by (simp add: market_buy_def market_operation_def normalize_symbol_def Let_def bind_run with_uow_def
        uow_exit_def uow_rollback_def idle_def)
qed

text \<open>A limit order at the ask, submitted and then processed.\<close>

definition pending_tables :: tables where
  "pending_tables = opened_tables\<lparr>orders := [\<lparr>or_id = 2, or_account_id = 10, or_symbol = ''AAPL'', or_side = BUY,
     or_type = LIMIT, or_status = PENDING, or_quantity = 5, or_filled_quantity = 0, or_limit_price = Some 100,
     or_created_at = 0\<rparr>]\<rparr>"

lemma submit_scenario:
  "\<exists>r. submit_limit_buy quiet_db flat_market 2 10 ''aapl'' 5 100 (idle opened_tables) = (Inr r,
     \<lparr>db = pending_tables, session = pending_tables, committed = True, rolled_back = False, held = {10}\<rparr>)"
  by (simp add: submit_limit_buy_def submit_operation_def submit_body_def scenario_simps flat_market_simps
      submit_limit_def submit_limit_order_def validate_common_def on_order_def mark_pending_def with_order_def
      paper_order_new_def add_order_def order_repo_add_def order_row_of_def opened_tables_def pending_tables_def)

definition limit_execution :: execution where
  "limit_execution = \<lparr>ex_order_id = 2, ex_symbol = ''AAPL'', ex_side = BUY, ex_quantity = 5, ex_price = 100,
     execution_id = 3\<rparr>"

lemma process_scenario:
  "\<exists>u'. process_limit_order quiet_db flat_market 3 2 (idle pending_tables) = (Inr (Some limit_execution), u')"
  by (simp add: process_limit_order_def process_body_def lock_order_def scenario_simps flat_market_simps
      paper_process_limit_order_def process_quote_run limit_is_triggered_def fill_order_run execute_buy_run
      order_repo_get_def order_to_domain_def paper_order_new_def persist_limit_execution_def
      account_repo_update_def order_repo_update_def position_repo_upsert_def execution_repo_add_def
      execution_row_of_def execution_of_def filled_order_def bought_position_def remaining_quantity_def
      opened_tables_def pending_tables_def limit_execution_def decimal_eval)

lemma cancel_scenario: "\<exists>r u'. cancel_limit_order quiet_db 2 (idle pending_tables) = (Inr r, u')"
  by (simp add: cancel_limit_order_def cancel_body_def lock_order_def scenario_simps paper_cancel_order_def
      cancel_order_def cancel_def order_repo_get_def order_to_domain_def paper_order_new_def
      order_repo_update_def opened_tables_def pending_tables_def)

end
