(* ===== verification/Trading_Valuation.thy ===== *)
theory Trading_Valuation
  imports Trading_Portfolio Trading_Scenario
begin

text \<open>
  The snapshot of a paper account: all or nothing and adding up, of an account and of positions that two
  statements read, so that a trade committed in between is counted in one and not in the other.
\<close>

lemma load_account_state_run:
  "load_account_state env user u = (r, u') \<Longrightarrow> by_others env (db u) (db u') \<and> (\<forall>a owned. r = Inr (a, owned) \<longrightarrow>
     account_repo_get_by_user_id user (db u) = Inr (Some a) \<and> position_repo_list_by_account env (account_id a) (db u') = Inr owned)"
  by (auto simp: load_account_state_def with_uow_def bind_run reading_def others_commit_def locking_def Let_def uow_exit_def
      by_others_step split: sum.splits option.splits)

text \<open>
  C20. The snapshot of a paper account is all or nothing and adds up. It writes nothing, and is returned only if
  every open position has a positive price; then every position is listed at its mark price, cost basis, market value,
  realized and unrealized profit are the sums over the listed positions, and equity is the cash plus the market
  value. The account is the one at the start and the positions are the ones at the end, after what other
  transactions committed in between: without such commits both are of one state of the database.
\<close>
theorem trading_snapshot_adds_up:
  assumes "get_snapshot env src user u = (r, u')"
  shows "by_others env (db u) (db u') \<and> (lock_wait env = (\<lambda>_ t. t) \<longrightarrow> db u' = db u)
    \<and> (\<forall>s. r = Inr s \<longrightarrow> (\<exists>a owned prices. account_repo_get_by_user_id user (db u) = Inr (Some a)
      \<and> position_repo_list_by_account env (account_id a) (db u') = Inr owned
      \<and> (filter is_open owned \<noteq> [] \<longrightarrow> src (map p_symbol (filter is_open owned)) = Inr prices)
      \<and> (\<forall>p \<in> set owned. is_open p \<longrightarrow> (\<exists>x. prices (p_symbol p) = Some x \<and> 0 < x))
      \<and> ts_positions s = map (marked prices) owned
      \<and> ts_account_id s = account_id a \<and> ts_initial_cash s = initial_cash a \<and> ts_cash_balance s = cash_balance a
      \<and> ts_total_cost_basis s = dsum (map tv_cost_basis (ts_positions s))
      \<and> ts_market_value s = dsum (map tv_market_value (ts_positions s))
      \<and> ts_equity s = dadd (ts_cash_balance s) (ts_market_value s)
      \<and> ts_realized_pnl s = dsum (map tv_realized_pnl (ts_positions s))
      \<and> ts_unrealized_pnl s = dsum (map tv_unrealized_pnl (ts_positions s))))"
proof -
  obtain r0 u0 where load: "load_account_state env user u = (r0, u0)" by fastforce
  note read = load_account_state_run [OF load]
  have db: "db u' = db u0"
    using assms load by (cases r0) (auto simp: get_snapshot_def bind_run Let_def split: sum.splits if_splits)
  have *: "\<exists>prices. (filter is_open owned \<noteq> [] \<longrightarrow> src (map p_symbol (filter is_open owned)) = Inr prices)
      \<and> snapshot_of a owned prices = Inr s" if "r = Inr s" "r0 = Inr (a, owned)" for s a owned
    using assms load that
    by (cases "filter is_open owned = []") (auto simp: get_snapshot_def bind_run Let_def split: sum.splits)
  have "\<exists>a owned. r0 = Inr (a, owned)" if "r = Inr s" for s
    using assms load that by (cases r0) (auto simp: get_snapshot_def bind_run)
  then show ?thesis
    using db read by_others_alone [of env "db u" "db u0"] * by (fastforce simp: snapshot_of_marked all_priced_def)
qed

text \<open>
  The trade of five shares at 100 that another transaction commits between the two statements: the snapshot
  has the cash of before and the shares of after, and an equity of 1500 where both states have 1000.
\<close>

definition buy_between :: db_env where
  "buy_between = quiet_db\<lparr>lock_wait := (\<lambda>_ t. if t = opened_tables then bought_tables else t)\<rparr>"

abbreviation aapl_position :: position where
  "aapl_position \<equiv> \<lparr>p_symbol = ''AAPL'', p_quantity = 5, average_cost = 100, realized_pnl = 0\<rparr>"

lemma load_torn:
  "load_account_state buy_between ''ann'' (idle opened_tables)
     = (Inr (\<lparr>account_id = 10, initial_cash = 1000, cash_balance = 1000\<rparr>, [aapl_position]),
        (idle bought_tables)\<lparr>rolled_back := True\<rparr>)"
proof -
  have r: "account_repo_get_by_user_id ''ann'' opened_tables = Inr (Some \<lparr>account_id = 10, initial_cash = 1000, cash_balance = 1000\<rparr>)"
    by (simp add: scenario_simps opened_tables_def)
  have p: "position_repo_list_by_account buy_between 10 bought_tables = Inr [aapl_position]"
    by (simp add: scenario_simps bought_tables_def position_repo_list_by_account_def)
  show ?thesis
    by (simp add: load_account_state_def with_uow_def uow_enter_def new_session_def idle_def bind_run reading_def
        others_commit_def locking_def Let_def r p buy_between_def [THEN arg_cong [where f = lock_wait]]
        uow_exit_def uow_rollback_def)
qed

lemma torn_run:
  obtains s where "snapshot_of \<lparr>account_id = 10, initial_cash = 1000, cash_balance = 1000\<rparr> [aapl_position] (\<lambda>_. Some 100) = Inr s"
    and "get_snapshot buy_between (\<lambda>_. Inr (\<lambda>_. Some 100)) ''ann'' (idle opened_tables)
      = (Inr s, (idle bought_tables)\<lparr>rolled_back := True\<rparr>)"
proof -
  let ?a = "\<lparr>account_id = 10, initial_cash = 1000, cash_balance = 1000\<rparr>"
  have "all_priced (\<lambda>_. Some 100) [aapl_position]" by (simp add: all_priced_def)
  then obtain s where s: "snapshot_of ?a [aapl_position] (\<lambda>_. Some 100) = Inr s" using snapshot_of_marked by blast
  then have "get_snapshot buy_between (\<lambda>_. Inr (\<lambda>_. Some 100)) ''ann'' (idle opened_tables)
      = (Inr s, (idle bought_tables)\<lparr>rolled_back := True\<rparr>)"
    by (simp add: get_snapshot_def bind_run load_torn is_open_def)
  with s show ?thesis by (rule that)
qed

lemma snapshot_torn:
  "\<exists>s u'. get_snapshot buy_between (\<lambda>_. Inr (\<lambda>_. Some 100)) ''ann'' (idle opened_tables) = (Inr s, u')
    \<and> ts_cash_balance s = 1000 \<and> ts_market_value s = 500 \<and> ts_equity s = 1500"
proof -
  obtain s where "snapshot_of \<lparr>account_id = 10, initial_cash = 1000, cash_balance = 1000\<rparr> [aapl_position] (\<lambda>_. Some 100) = Inr s"
    and run: "get_snapshot buy_between (\<lambda>_. Inr (\<lambda>_. Some 100)) ''ann'' (idle opened_tables)
      = (Inr s, (idle bought_tables)\<lparr>rolled_back := True\<rparr>)" by (rule torn_run)
  then have "ts_cash_balance s = 1000 \<and> ts_market_value s = 500 \<and> ts_equity s = 1500"
    by (simp add: snapshot_of_marked marked_def is_open_def dsum_def decimal_eval)
  with run show ?thesis by blast
qed

theorem trading_snapshot_adds_up_witness:
  "\<exists>s. get_snapshot buy_between (\<lambda>_. Inr (\<lambda>_. Some 100)) ''ann'' (idle opened_tables)
      = (Inr s, (idle bought_tables)\<lparr>rolled_back := True\<rparr>)
    \<and> by_others buy_between opened_tables bought_tables \<and> ts_market_value s = 500"
proof -
  obtain s where s: "snapshot_of \<lparr>account_id = 10, initial_cash = 1000, cash_balance = 1000\<rparr> [aapl_position] (\<lambda>_. Some 100) = Inr s"
    and run: "get_snapshot buy_between (\<lambda>_. Inr (\<lambda>_. Some 100)) ''ann'' (idle opened_tables)
      = (Inr s, (idle bought_tables)\<lparr>rolled_back := True\<rparr>)" by (rule torn_run)
  have "by_others buy_between opened_tables bought_tables" "ts_market_value s = dsum (map tv_market_value (ts_positions s))"
    using trading_snapshot_adds_up [OF run] by (auto simp: idle_def)
  moreover have "dsum (map tv_market_value (ts_positions s)) = 500"
    using s by (simp add: snapshot_of_marked marked_def is_open_def dsum_def decimal_eval)
  ultimately show ?thesis using run by auto
qed

end
