(* ===== verification/Watchlist.thy ===== *)
theory Watchlist
  imports Prelude
begin

text \<open>
  The watchlist of a user: the table (\<open>libs/database/models/watchlist.py\<close>), the repository
  (\<open>libs/database/repositories/watchlist.py\<close>), \<open>WatchlistService\<close> (\<open>services/api/watchlist/service.py\<close>)
  and the identity and error answers of its routes (\<open>services/api/routes/watchlist.py\<close>). Before each
  statement other transactions may have committed.
\<close>

section \<open>The table\<close>

record watchlist_row =
  wl_id :: uuid
  wl_user_id :: string
  wl_symbol :: string
  wl_created_at :: int

definition watchlist_row_fits :: "watchlist_row \<Rightarrow> bool" where
  "watchlist_row_fits m \<longleftrightarrow> length (wl_user_id m) \<le> 128 \<and> length (wl_symbol m) \<le> 20"

definition watchlist_key :: "watchlist_row \<Rightarrow> string \<times> string" where
  "watchlist_key m = (wl_user_id m, wl_symbol m)"

definition watchlist_flush :: "watchlist_row list \<Rightarrow> unit result" where
  "watchlist_flush rows =
     (if \<not> list_all watchlist_row_fits rows then Inl (ExternalError ''DataError'')
      else if \<not> distinct (map wl_id rows) then Inl (IntegrityError ''watchlist_items_pkey'')
      else if \<not> distinct (map watchlist_key rows) then Inl (IntegrityError ''uq_watchlist_items_user_symbol'')
      else Inr ())"

section \<open>The repository\<close>

definition wl_list_for_user :: "(string \<Rightarrow> string \<Rightarrow> bool) \<Rightarrow> string \<Rightarrow> watchlist_row list \<Rightarrow> watchlist_row list" where
  "wl_list_for_user collation user_id rows =
     order_rows (\<lambda>x y. wl_created_at x < wl_created_at y \<or> wl_created_at x = wl_created_at y \<and> collation (wl_symbol x) (wl_symbol y))
       (filter (\<lambda>m. wl_user_id m = user_id) rows)"

definition wl_count_for_user :: "string \<Rightarrow> watchlist_row list \<Rightarrow> nat" where
  "wl_count_for_user user_id rows = length (filter (\<lambda>m. wl_user_id m = user_id) rows)"

definition wl_get :: "string \<Rightarrow> string \<Rightarrow> watchlist_row list \<Rightarrow> watchlist_row option result" where
  "wl_get user_id symbol rows =
     (case filter (\<lambda>m. wl_user_id m = user_id \<and> wl_symbol m = symbol) rows of
        [] \<Rightarrow> Inr None | [m] \<Rightarrow> Inr (Some m) | _ \<Rightarrow> Inl (ExternalError ''MultipleResultsFound''))"

section \<open>Transactions\<close>

record watchlist_session =
  ws_db :: "watchlist_row list"
  ws_view :: "watchlist_row list"
  ws_step :: nat

record watchlist_env =
  wv_new_id :: uuid
  wv_now :: int
  wv_others :: "nat \<Rightarrow> watchlist_row list \<Rightarrow> watchlist_row list"
  wv_commit_error :: "error option"

definition wl_await :: "watchlist_env \<Rightarrow> (watchlist_session, unit) prog" where
  "wl_await env = update_state (\<lambda>s. let rows = wv_others env (ws_step s) (ws_db s) in
     \<lparr>ws_db = rows, ws_view = rows, ws_step = Suc (ws_step s)\<rparr>)"

definition wl_reading :: "watchlist_env \<Rightarrow> (watchlist_row list \<Rightarrow> 'a result) \<Rightarrow> (watchlist_session, 'a) prog" where
  "wl_reading env f = bind (wl_await env) (\<lambda>_ s. (f (ws_view s), s))"

definition wl_commit :: "watchlist_env \<Rightarrow> (watchlist_session, unit) prog" where
  "wl_commit env = (case wv_commit_error env of
     Some e \<Rightarrow> raise e | None \<Rightarrow> update_state (\<lambda>s. s\<lparr>ws_db := ws_view s\<rparr>))"

definition wl_rollback :: "(watchlist_session, unit) prog" where
  "wl_rollback = update_state (\<lambda>s. s\<lparr>ws_view := ws_db s\<rparr>)"

definition wl_add :: "watchlist_env \<Rightarrow> string \<Rightarrow> string \<Rightarrow> (watchlist_session, watchlist_row) prog" where
  "wl_add env user_id symbol =
     (let model = \<lparr>wl_id = wv_new_id env, wl_user_id = user_id, wl_symbol = symbol, wl_created_at = wv_now env\<rparr> in
      bind (wl_await env) (\<lambda>_.
      bind (update_state (\<lambda>s. s\<lparr>ws_view := ws_view s @ [model]\<rparr>)) (\<lambda>_.
      bind (\<lambda>s. (watchlist_flush (ws_view s), s)) (\<lambda>_. ret model))))"

definition wl_delete :: "watchlist_env \<Rightarrow> string \<Rightarrow> string \<Rightarrow> (watchlist_session, bool) prog" where
  "wl_delete env user_id symbol =
     bind (wl_reading env (wl_get user_id symbol)) (\<lambda>found.
     case found of
       None \<Rightarrow> ret False
     | Some m \<Rightarrow>
         bind (wl_await env) (\<lambda>_.
         bind (update_state (\<lambda>s. s\<lparr>ws_view := filter (\<lambda>x. wl_id x \<noteq> wl_id m) (ws_view s)\<rparr>)) (\<lambda>_. ret True)))"

section \<open>The service\<close>

definition watchlist_service_new :: "int \<Rightarrow> int result" where
  "watchlist_service_new max_items =
     (if max_items \<le> 0 then Inl (ValueError ''max_items must be greater than zero'') else Inr max_items)"

definition symbol_char :: "char \<Rightarrow> bool" where
  "symbol_char c \<longleftrightarrow> c \<in> set ''ABCDEFGHIJKLMNOPQRSTUVWXYZ0123456789.^-''"

definition normalize_watchlist_symbol :: "string \<Rightarrow> string result" where
  "normalize_watchlist_symbol symbol =
     (let normalized = normal_symbol symbol in
      if normalized = [] then Inl (InvalidWatchlistSymbolError ''symbol must not be empty'')
      else if \<not> (list_all symbol_char normalized \<and> length normalized \<le> 20)
      then Inl (InvalidWatchlistSymbolError ''invalid symbol format'')
      else Inr normalized)"

definition wl_refresh :: "watchlist_env \<Rightarrow> watchlist_row \<Rightarrow> (watchlist_session, watchlist_row) prog" where
  "wl_refresh env m = wl_reading env (\<lambda>rows. case first_where (\<lambda>x. wl_id x = wl_id m) rows of
     None \<Rightarrow> Inl (ExternalError ''InvalidRequestError'') | Some x \<Rightarrow> Inr x)"

definition wl_add_item :: "int \<Rightarrow> watchlist_env \<Rightarrow> string \<Rightarrow> string \<Rightarrow> (watchlist_session, watchlist_row) prog" where
  "wl_add_item max_items env user_id symbol =
     bind (of_result (normalize_watchlist_symbol symbol)) (\<lambda>normalized.
     bind (wl_reading env (wl_get user_id normalized)) (\<lambda>existing.
     bind (raise_if (existing \<noteq> None) WatchlistItemAlreadyExistsError) (\<lambda>_.
     bind (wl_reading env (\<lambda>rows. Inr (wl_count_for_user user_id rows))) (\<lambda>count.
     bind (raise_if (max_items \<le> int count) WatchlistLimitExceededError) (\<lambda>_.
     bind (try_except (bind (wl_add env user_id normalized) (\<lambda>m. bind (wl_commit env) (\<lambda>_. ret m)))
             (\<lambda>e. bind wl_rollback (\<lambda>_. raise (case e of IntegrityError _ \<Rightarrow> WatchlistItemAlreadyExistsError | _ \<Rightarrow> e)))) (\<lambda>model.
     wl_refresh env model))))))"

definition wl_delete_item :: "watchlist_env \<Rightarrow> string \<Rightarrow> string \<Rightarrow> (watchlist_session, unit) prog" where
  "wl_delete_item env user_id symbol =
     bind (of_result (normalize_watchlist_symbol symbol)) (\<lambda>normalized.
     try_except
       (bind (wl_delete env user_id normalized) (\<lambda>deleted.
        if \<not> deleted then bind wl_rollback (\<lambda>_. raise WatchlistItemNotFoundError) else wl_commit env))
       (\<lambda>e. if e = WatchlistItemNotFoundError then raise e else bind wl_rollback (\<lambda>_. raise e)))"

definition wl_list_items :: "watchlist_env \<Rightarrow> (string \<Rightarrow> string \<Rightarrow> bool) \<Rightarrow> string \<Rightarrow> (watchlist_session, watchlist_row list) prog" where
  "wl_list_items env collation user_id = wl_reading env (\<lambda>rows. Inr (wl_list_for_user collation user_id rows))"

text \<open>A request opens a session on the committed table and closes it.\<close>

definition in_session :: "(watchlist_session, 'a) prog \<Rightarrow> (watchlist_row list, 'a) prog" where
  "in_session body = (\<lambda>rows. case body \<lparr>ws_db = rows, ws_view = rows, ws_step = 0\<rparr> of (r, s) \<Rightarrow> (r, ws_db s))"

section \<open>Routes\<close>

definition watchlist_user_id :: "string option \<Rightarrow> string result" where
  "watchlist_user_id x_user_id =
     (case x_user_id of
        None \<Rightarrow> Inl (HTTPException 401 ''missing user identity'')
      | Some x \<Rightarrow> if strip x = [] then Inl (HTTPException 401 ''missing user identity'')
          else if 128 < length (strip x) then Inl (HTTPException 422 ''user identity is too long'') else Inr (strip x))"

definition watchlist_answer :: "error \<Rightarrow> error" where
  "watchlist_answer e = (case e of
     InvalidWatchlistSymbolError m \<Rightarrow> HTTPException 422 m
   | WatchlistItemAlreadyExistsError \<Rightarrow> HTTPException 409 ''symbol already exists in watchlist''
   | WatchlistLimitExceededError \<Rightarrow> HTTPException 409 ''watchlist item limit exceeded''
   | WatchlistItemNotFoundError \<Rightarrow> HTTPException 404 ''watchlist item not found''
   | _ \<Rightarrow> e)"

definition create_watchlist_item ::
  "int \<Rightarrow> watchlist_env \<Rightarrow> string option \<Rightarrow> string \<Rightarrow> (watchlist_row list, watchlist_row) prog" where
  "create_watchlist_item max_items env x_user_id symbol =
     bind (of_result (watchlist_user_id x_user_id)) (\<lambda>user_id.
     try_except (in_session (wl_add_item max_items env user_id symbol)) (\<lambda>e. raise (watchlist_answer e)))"

definition delete_watchlist_item :: "watchlist_env \<Rightarrow> string option \<Rightarrow> string \<Rightarrow> (watchlist_row list, unit) prog" where
  "delete_watchlist_item env x_user_id symbol =
     bind (of_result (watchlist_user_id x_user_id)) (\<lambda>user_id.
     try_except (in_session (wl_delete_item env user_id symbol)) (\<lambda>e. raise (watchlist_answer e)))"

section \<open>Runs\<close>

definition wl_after :: "watchlist_env \<Rightarrow> nat \<Rightarrow> watchlist_row list \<Rightarrow> watchlist_row list" where
  "wl_after env n rows = fold (wv_others env) [0..<n] rows"

definition wl_at :: "watchlist_env \<Rightarrow> watchlist_row list \<Rightarrow> nat \<Rightarrow> watchlist_session" where
  "wl_at env rows n = \<lparr>ws_db = wl_after env n rows, ws_view = wl_after env n rows, ws_step = n\<rparr>"

lemma wl_at_run [simp]:
  "wl_await env (wl_at env rows n) = (Inr (), wl_at env rows (Suc n))"
  "wl_reading env f (wl_at env rows n) = (f (wl_after env (Suc n) rows), wl_at env rows (Suc n))"
  "ws_db (wl_at env rows n) = wl_after env n rows" "ws_view (wl_at env rows n) = wl_after env n rows"
  by (simp_all add: wl_await_def wl_reading_def wl_at_def wl_after_def bind_run Let_def)

lemma in_session_run: "in_session body rows = (case body (wl_at env rows 0) of (r, s) \<Rightarrow> (r, ws_db s))"
  by (simp add: in_session_def wl_at_def wl_after_def)

lemma wl_add_run:
  "wl_add env user s (wl_at env rows n) =
     (let m = \<lparr>wl_id = wv_new_id env, wl_user_id = user, wl_symbol = s, wl_created_at = wv_now env\<rparr>; d = wl_after env (Suc n) rows in
      (case watchlist_flush (d @ [m]) of Inl e \<Rightarrow> Inl e | Inr _ \<Rightarrow> Inr m, \<lparr>ws_db = d, ws_view = d @ [m], ws_step = Suc n\<rparr>))"
  by (simp add: wl_add_def bind_run Let_def split: sum.splits) (simp add: wl_at_def)

lemma wl_refresh_db: "ws_db (snd (wl_refresh env m t)) = wv_others env (ws_step t) (ws_db t)"
  by (simp add: wl_refresh_def wl_reading_def wl_await_def bind_run Let_def)

lemma wl_add_item_adds:
  fixes env user s rows
  defines "b \<equiv> wl_after env 3 rows @ [\<lparr>wl_id = wv_new_id env, wl_user_id = user, wl_symbol = s, wl_created_at = wv_now env\<rparr>]"
  assumes "normalize_watchlist_symbol symbol = Inr s" "wl_get user s (wl_after env (Suc 0) rows) = Inr None"
    "int (wl_count_for_user user (wl_after env 2 rows)) < mx" "watchlist_flush b = Inr ()" "wv_commit_error env = None"
  shows "snd (in_session (wl_add_item mx env user symbol) rows) = wv_others env 3 b"
  using assms wl_refresh_db [of env _ "\<lparr>ws_db = b, ws_view = b, ws_step = 3\<rparr>"]
  by (simp add: in_session_run [where env = env] wl_add_item_def bind_run try_except_def wl_add_run wl_commit_def
      numeral_2_eq_2 numeral_3_eq_3 Let_def) (simp add: case_prod_beta)

text \<open>Adding: what the table is afterwards, for every outcome of the checks and of the commit.\<close>

lemma wl_add_item_db:
  assumes "in_session (wl_add_item mx env user symbol) rows = (r, rows')"
  shows "(\<exists>n. rows' = wl_after env n rows) \<or> (\<exists>s b3. normalize_watchlist_symbol symbol = Inr s
    \<and> b3 = wl_after env 3 rows @ [\<lparr>wl_id = wv_new_id env, wl_user_id = user, wl_symbol = s, wl_created_at = wv_now env\<rparr>]
    \<and> int (wl_count_for_user user (wl_after env 2 rows)) < mx \<and> watchlist_flush b3 = Inr ()
    \<and> rows' = wv_others env 3 b3)"
proof -
  note run = assms [unfolded in_session_run [where env = env] wl_add_item_def]
  show ?thesis
  proof (cases "normalize_watchlist_symbol symbol")
    case (Inl e)
    then show ?thesis using run by (intro disjI1 exI [of _ 0]) (simp add: bind_run)
  next
    case (Inr s)
    let ?b3 = "wl_after env 3 rows @ [\<lparr>wl_id = wv_new_id env, wl_user_id = user, wl_symbol = s, wl_created_at = wv_now env\<rparr>]"
    consider "wl_get user s (wl_after env (Suc 0) rows) \<noteq> Inr None"
      | "wl_get user s (wl_after env (Suc 0) rows) = Inr None" "mx \<le> int (wl_count_for_user user (wl_after env 2 rows))"
      | (ok) "wl_get user s (wl_after env (Suc 0) rows) = Inr None" "int (wl_count_for_user user (wl_after env 2 rows)) < mx"
      by linarith
    then show ?thesis
    proof cases
      case 1
      then show ?thesis using run Inr
        by (intro disjI1 exI [of _ "Suc 0"]) (auto simp: bind_run split: sum.splits option.splits)
    next
      case 2
      then show ?thesis using run Inr by (intro disjI1 exI [of _ 2]) (simp add: bind_run numeral_2_eq_2)
    next
      case ok
      show ?thesis
      proof (cases "watchlist_flush ?b3 = Inr () \<and> wv_commit_error env = None")
        case True
        then have "rows' = wv_others env 3 ?b3"
          using wl_add_item_adds [OF Inr ok] True assms by simp
        then show ?thesis using True ok(2) Inr by blast
      next
        case False
        then have "rows' = wl_after env 3 rows"
          using run Inr ok
          by (cases "watchlist_flush ?b3"; cases "wv_commit_error env")
             (simp_all add: bind_run try_except_def wl_add_run wl_commit_def wl_rollback_def numeral_2_eq_2 numeral_3_eq_3 Let_def)
        then show ?thesis by blast
      qed
    qed
  qed
qed

lemma wl_delete_item_db:
  assumes "in_session (wl_delete_item env user symbol) rows = (r, rows')"
  shows "(\<exists>n. rows' = wl_after env n rows) \<or> (\<exists>i. rows' = filter (\<lambda>x. wl_id x \<noteq> i) (wl_after env 2 rows))"
proof -
  note run = assms [unfolded in_session_run [where env = env] wl_delete_item_def]
  show ?thesis
  proof (cases "normalize_watchlist_symbol symbol")
    case (Inl e)
    then show ?thesis using run by (intro disjI1 exI [of _ 0]) (simp add: bind_run)
  next
    case (Inr s)
    show ?thesis
    proof (cases "\<exists>m. wl_get user s (wl_after env (Suc 0) rows) = Inr (Some m)")
      case False
      have "rows' = wl_after env (Suc 0) rows"
      proof (cases "wl_get user s (wl_after env (Suc 0) rows)")
        case (Inl e)
        then show ?thesis using run \<open>normalize_watchlist_symbol symbol = Inr s\<close>
          by (cases "e = WatchlistItemNotFoundError") (simp_all add: bind_run try_except_def wl_delete_def wl_rollback_def)
      next
        case (Inr found)
        then show ?thesis using run \<open>normalize_watchlist_symbol symbol = Inr s\<close> False
          by (cases found) (simp_all add: bind_run try_except_def wl_delete_def wl_rollback_def)
      qed
      then show ?thesis by blast
    next
      case True
      then obtain m where m: "wl_get user s (wl_after env (Suc 0) rows) = Inr (Some m)" by blast
      show ?thesis
      proof (cases "wv_commit_error env")
        case None
        then have "rows' = filter (\<lambda>x. wl_id x \<noteq> wl_id m) (wl_after env 2 rows)" using run Inr m
          by (simp add: bind_run try_except_def wl_delete_def wl_commit_def numeral_2_eq_2)
        then show ?thesis by blast
      next
        case (Some e)
        then have "rows' = wl_after env 2 rows" using run Inr m
          by (simp add: bind_run try_except_def wl_delete_def wl_commit_def wl_rollback_def numeral_2_eq_2 split: if_splits)
        then show ?thesis by blast
      qed
    qed
  qed
qed

end
