(* ===== verification/Watchlist_Properties.thy ===== *)
theory Watchlist_Properties
  imports Watchlist
begin

text \<open>
  What the watchlist table keeps: the invariant of the rows, that the operations preserve it, the
  bound on a user's list when requests run one after the other, and the schedule on which the
  bound is passed.
\<close>

section \<open>The invariant\<close>

definition watchlist_rows_ok :: "watchlist_row list \<Rightarrow> bool" where
  "watchlist_rows_ok rows \<longleftrightarrow> watchlist_flush rows = Inr ()
     \<and> list_all (\<lambda>m. list_all symbol_char (wl_symbol m) \<and> wl_symbol m \<noteq> []) rows"

text \<open>Transactions that keep the invariant, and runs without concurrent transactions.\<close>

definition watchlist_peers_ok :: "watchlist_env \<Rightarrow> bool" where
  "watchlist_peers_ok env \<longleftrightarrow> (\<forall>n rows. watchlist_rows_ok rows \<longrightarrow> watchlist_rows_ok (wv_others env n rows))"

definition watchlist_alone :: "watchlist_env \<Rightarrow> bool" where
  "watchlist_alone env \<longleftrightarrow> wv_others env = (\<lambda>_ rows. rows)"

lemma wl_after_alone [simp]: "watchlist_alone env \<Longrightarrow> wl_after env n rows = rows"
  by (induction n) (simp_all add: wl_after_def watchlist_alone_def)

lemma wl_after_ok: "watchlist_peers_ok env \<Longrightarrow> watchlist_rows_ok rows \<Longrightarrow> watchlist_rows_ok (wl_after env n rows)"
  by (induction n) (simp_all add: wl_after_def watchlist_peers_ok_def)

lemma peers_ok_alone: "watchlist_alone env \<Longrightarrow> watchlist_peers_ok env"
  by (simp add: watchlist_alone_def watchlist_peers_ok_def)

lemma watchlist_flush_ok:
  "watchlist_flush rows = Inr () \<longleftrightarrow> list_all watchlist_row_fits rows \<and> distinct (map wl_id rows) \<and> distinct (map watchlist_key rows)"
  by (simp add: watchlist_flush_def)

lemma watchlist_rows_ok_filter: "watchlist_rows_ok rows \<Longrightarrow> watchlist_rows_ok (filter P rows)"
  by (auto simp: watchlist_rows_ok_def watchlist_flush_ok list_all_iff distinct_map_filter)

lemma normalized_symbol_ok:
  "normalize_watchlist_symbol symbol = Inr s \<Longrightarrow> list_all symbol_char s \<and> s \<noteq> [] \<and> length s \<le> 20"
  by (auto simp: normalize_watchlist_symbol_def Let_def split: if_splits)

lemma wl_count_filter: "wl_count_for_user user (filter P rows) \<le> wl_count_for_user user rows"
  by (induction rows) (auto simp: wl_count_for_user_def)

section \<open>Requests\<close>

datatype watchlist_request =
    PostItem watchlist_env "string option" string
  | DeleteItem watchlist_env "string option" string

fun request_env :: "watchlist_request \<Rightarrow> watchlist_env" where
  "request_env (PostItem env _ _) = env"
| "request_env (DeleteItem env _ _) = env"

fun serve_request :: "int \<Rightarrow> watchlist_request \<Rightarrow> watchlist_row list \<Rightarrow> watchlist_row list" where
  "serve_request mx (PostItem env header symbol) rows = snd (create_watchlist_item mx env header symbol rows)"
| "serve_request mx (DeleteItem env header symbol) rows = snd (delete_watchlist_item env header symbol rows)"

lemma create_snd:
  "snd (create_watchlist_item mx env header symbol rows) =
     (case watchlist_user_id header of Inl _ \<Rightarrow> rows | Inr user \<Rightarrow> snd (in_session (wl_add_item mx env user symbol) rows))"
  by (cases "watchlist_user_id header")
     (auto simp: create_watchlist_item_def bind_run try_except_def split: prod.splits sum.splits)

lemma delete_snd:
  "snd (delete_watchlist_item env header symbol rows) =
     (case watchlist_user_id header of Inl _ \<Rightarrow> rows | Inr user \<Rightarrow> snd (in_session (wl_delete_item env user symbol) rows))"
  by (cases "watchlist_user_id header")
     (auto simp: delete_watchlist_item_def bind_run try_except_def split: prod.splits sum.splits)

lemma serve_request_ok:
  assumes "watchlist_peers_ok (request_env req)" "watchlist_rows_ok rows"
  shows "watchlist_rows_ok (serve_request mx req rows)"
proof (cases req)
  case (PostItem env header symbol)
  show ?thesis
  proof (cases "watchlist_user_id header")
    case (Inr user)
    obtain r rows' where run: "in_session (wl_add_item mx env user symbol) rows = (r, rows')" by (cases "in_session (wl_add_item mx env user symbol) rows")
    have peers: "watchlist_peers_ok env" using assms PostItem by simp
    from wl_add_item_db [OF run] have "watchlist_rows_ok rows'"
    proof (elim disjE exE conjE)
      fix n assume "rows' = wl_after env n rows"
      then show ?thesis using wl_after_ok [OF peers assms(2)] by simp
    next
      fix s b3
      assume s: "normalize_watchlist_symbol symbol = Inr s" and rows': "rows' = wv_others env 3 b3" and flush: "watchlist_flush b3 = Inr ()"
        and b3: "b3 = wl_after env 3 rows @ [\<lparr>wl_id = wv_new_id env, wl_user_id = user, wl_symbol = s, wl_created_at = wv_now env\<rparr>]"
      have "watchlist_rows_ok b3"
        using flush normalized_symbol_ok [OF s] wl_after_ok [OF peers assms(2), of 3] by (simp add: watchlist_rows_ok_def b3)
      then show ?thesis using peers by (simp add: rows' watchlist_peers_ok_def)
    qed
    then show ?thesis using run PostItem Inr by (simp add: create_snd)
  qed (use assms PostItem in \<open>simp add: create_snd\<close>)
next
  case (DeleteItem env header symbol)
  show ?thesis
  proof (cases "watchlist_user_id header")
    case (Inr user)
    obtain r rows' where run: "in_session (wl_delete_item env user symbol) rows = (r, rows')" by (cases "in_session (wl_delete_item env user symbol) rows")
    have peers: "watchlist_peers_ok env" using assms DeleteItem by simp
    from wl_delete_item_db [OF run] have "watchlist_rows_ok rows'"
      using wl_after_ok [OF peers assms(2)] watchlist_rows_ok_filter by blast
    then show ?thesis using run DeleteItem Inr by (simp add: delete_snd)
  qed (use assms DeleteItem in \<open>simp add: delete_snd\<close>)
qed

lemma serve_request_bound:
  assumes "watchlist_alone (request_env req)" "int (wl_count_for_user u rows) \<le> mx"
  shows "int (wl_count_for_user u (serve_request mx req rows)) \<le> mx"
proof (cases req)
  case (PostItem env header symbol)
  show ?thesis
  proof (cases "watchlist_user_id header")
    case (Inr user)
    obtain r rows' where run: "in_session (wl_add_item mx env user symbol) rows = (r, rows')" by (cases "in_session (wl_add_item mx env user symbol) rows")
    have alone: "watchlist_alone env" using assms PostItem by simp
    from wl_add_item_db [OF run] have "int (wl_count_for_user u rows') \<le> mx"
      using assms(2) by (elim disjE exE conjE) (use alone in \<open>auto simp: wl_count_for_user_def watchlist_alone_def [of env]\<close>)
    then show ?thesis using run PostItem Inr by (simp add: create_snd)
  qed (use assms PostItem in \<open>simp add: create_snd\<close>)
next
  case (DeleteItem env header symbol)
  show ?thesis
  proof (cases "watchlist_user_id header")
    case (Inr user)
    obtain r rows' where run: "in_session (wl_delete_item env user symbol) rows = (r, rows')" by (cases "in_session (wl_delete_item env user symbol) rows")
    have alone: "watchlist_alone env" using assms DeleteItem by simp
    from wl_delete_item_db [OF run] have "wl_count_for_user u rows' \<le> wl_count_for_user u rows"
      using alone wl_count_filter by auto
    then show ?thesis using run DeleteItem Inr assms(2) by (simp add: delete_snd)
  qed (use assms DeleteItem in \<open>simp add: delete_snd\<close>)
qed

text \<open>
  Served one after the other on an empty table, add and delete requests keep every user's
  watchlist within \<open>max_items\<close>, a symbol at most once in a user's list, and every symbol stored in
  its canonical form (1 to 20 characters of the pattern).
\<close>

theorem watchlist_bounded:
  assumes "0 \<le> mx" "\<forall>req\<in>set reqs. watchlist_alone (request_env req)"
  defines "rows \<equiv> fold (serve_request mx) reqs []"
  shows "int (wl_count_for_user user rows) \<le> mx \<and> distinct (map watchlist_key rows)
    \<and> list_all (\<lambda>m. list_all symbol_char (wl_symbol m) \<and> length (wl_symbol m) \<in> {1..20}) rows"
proof -
  have "int (wl_count_for_user user rows) \<le> mx \<and> watchlist_rows_ok rows"
    unfolding rows_def using assms(2)
  proof (induction reqs rule: rev_induct)
    case Nil
    then show ?case using assms(1) by (simp add: wl_count_for_user_def watchlist_rows_ok_def watchlist_flush_ok)
  next
    case (snoc req reqs)
    then show ?case using serve_request_bound serve_request_ok peers_ok_alone by simp
  qed
  then show ?thesis
    by (auto simp: watchlist_rows_ok_def watchlist_flush_ok watchlist_row_fits_def list_all_iff Suc_le_eq)
qed

section \<open>Two requests at once\<close>

text \<open>
  \<open>add_item\<close> counts the rows and inserts without a lock between: \<open>posting_between\<close> is a
  request during which another one is served, after the count and before the insert.
\<close>

definition posting_between :: "int \<Rightarrow> watchlist_request \<Rightarrow> watchlist_env \<Rightarrow> watchlist_env" where
  "posting_between mx other env = env\<lparr>wv_others := (\<lambda>n rows. if n = 2 then serve_request mx other rows else rows)\<rparr>"

definition fresh_post :: "string \<Rightarrow> string \<Rightarrow> watchlist_env \<Rightarrow> watchlist_row list \<Rightarrow> bool" where
  "fresh_post user s env rows \<longleftrightarrow> watchlist_user_id (Some user) = Inr user \<and> normalize_watchlist_symbol s = Inr s
     \<and> (user, s) \<notin> watchlist_key ` set rows \<and> wv_new_id env \<notin> wl_id ` set rows \<and> wv_commit_error env = None"

lemma wl_get_absent: "(user, s) \<notin> watchlist_key ` set rows \<Longrightarrow> wl_get user s rows = Inr None"
proof -
  assume "(user, s) \<notin> watchlist_key ` set rows"
  then have "filter (\<lambda>m. wl_user_id m = user \<and> wl_symbol m = s) rows = []"
    by (auto simp: filter_empty_conv watchlist_key_def)
  then show ?thesis by (simp add: wl_get_def)
qed

lemma watchlist_user_bound: "watchlist_user_id (Some user) = Inr user \<Longrightarrow> length user \<le> 128"
  by (auto simp: watchlist_user_id_def split: if_splits)

lemma fresh_post_flush:
  assumes "fresh_post user s env rows" "watchlist_flush rows = Inr ()"
  shows "watchlist_flush (rows @ [\<lparr>wl_id = wv_new_id env, wl_user_id = user, wl_symbol = s, wl_created_at = wv_now env\<rparr>]) = Inr ()"
  using assms normalized_symbol_ok [of s s] watchlist_user_bound [of user]
  by (auto simp: watchlist_flush_ok fresh_post_def watchlist_key_def watchlist_row_fits_def)

lemma alone_post_adds:
  assumes "fresh_post user s env rows" "watchlist_flush rows = Inr ()" "watchlist_alone env" "int (wl_count_for_user user rows) < mx"
  shows "serve_request mx (PostItem env (Some user) s) rows =
    rows @ [\<lparr>wl_id = wv_new_id env, wl_user_id = user, wl_symbol = s, wl_created_at = wv_now env\<rparr>]"
  using assms fresh_post_flush [OF assms(1,2)] wl_get_absent [of user s rows]
    wl_add_item_adds [of s s user env rows mx]
  by (simp add: create_snd fresh_post_def watchlist_alone_def [of env])

text \<open>
  C21. The limit is not enforced against concurrent requests: when a user is one item below
  \<open>max_items\<close> and two requests for two new symbols overlap (the second is served between the count
  and the insert of the first), both are stored and the list holds one item more than
  \<open>max_items\<close>.
\<close>

theorem watchlist_limit_race:
  assumes "watchlist_flush rows = Inr ()" "int (wl_count_for_user user rows) = mx - 1"
    and "fresh_post user a env rows" "fresh_post user b env' rows" "a \<noteq> b" "wv_new_id env \<noteq> wv_new_id env'" "watchlist_alone env'"
  shows "int (wl_count_for_user user (serve_request mx
    (PostItem (posting_between mx (PostItem env' (Some user) b) env) (Some user) a) rows)) = mx + 1"
proof -
  let ?env = "posting_between mx (PostItem env' (Some user) b) env"
  let ?rows = "rows @ [\<lparr>wl_id = wv_new_id env', wl_user_id = user, wl_symbol = b, wl_created_at = wv_now env'\<rparr>]"
  have other: "serve_request mx (PostItem env' (Some user) b) rows = ?rows"
    using alone_post_adds [OF assms(4,1,7)] assms(2) by simp
  have after: "wl_after ?env (Suc 0) rows = rows" "wl_after ?env 2 rows = rows" "wl_after ?env 3 rows = ?rows"
    using other by (simp_all add: wl_after_def posting_between_def upt_rec numeral_2_eq_2 numeral_3_eq_3 del: serve_request.simps)
  have fresh: "fresh_post user a env ?rows"
    using assms(3,5,6) by (auto simp: fresh_post_def watchlist_key_def)
  have "serve_request mx (PostItem ?env (Some user) a) rows =
      ?rows @ [\<lparr>wl_id = wv_new_id env, wl_user_id = user, wl_symbol = a, wl_created_at = wv_now env\<rparr>]"
    using wl_add_item_adds [of a a user ?env rows mx] after fresh_post_flush [OF fresh fresh_post_flush [OF assms(4,1)]]
      wl_get_absent [of user a rows] assms(2,3)
    by (simp add: create_snd fresh_post_def posting_between_def del: serve_request.simps(2))
  then show ?thesis using assms(2) by (simp add: wl_count_for_user_def)
qed

section \<open>Witnesses\<close>

definition quiet_watchlist :: "nat \<Rightarrow> watchlist_env" where
  "quiet_watchlist i = \<lparr>wv_new_id = i, wv_now = 0, wv_others = (\<lambda>_ rows. rows), wv_commit_error = None\<rparr>"

lemma quiet_watchlist_alone [simp]: "watchlist_alone (quiet_watchlist i)"
  by (simp add: watchlist_alone_def quiet_watchlist_def)

theorem watchlist_bounded_witness:
  "int (wl_count_for_user ''ann'' (fold (serve_request 1)
     [PostItem (quiet_watchlist 7) (Some ''ann'') '' aapl '', PostItem (quiet_watchlist 8) (Some ''ann'') ''MSFT'',
      DeleteItem (quiet_watchlist 9) (Some ''ann'') ''TSLA''] [])) \<le> 1"
  using watchlist_bounded [of 1 "[PostItem (quiet_watchlist 7) (Some ''ann'') '' aapl '', PostItem (quiet_watchlist 8) (Some ''ann'') ''MSFT'',
      DeleteItem (quiet_watchlist 9) (Some ''ann'') ''TSLA'']" "''ann''"] by simp

theorem watchlist_limit_race_witness:
  "int (wl_count_for_user ''ann'' (serve_request 1
    (PostItem (posting_between 1 (PostItem (quiet_watchlist 8) (Some ''ann'') ''MSFT'') (quiet_watchlist 7)) (Some ''ann'') ''AAPL'') [])) = 2"
proof -
  have "watchlist_flush [] = Inr ()" by (simp add: watchlist_flush_ok)
  moreover have "fresh_post ''ann'' ''AAPL'' (quiet_watchlist 7) []" "fresh_post ''ann'' ''MSFT'' (quiet_watchlist 8) []"
    by code_simp+
  ultimately show ?thesis
    using watchlist_limit_race [of "[]" "''ann''" 1 "''AAPL''" "quiet_watchlist 7" "''MSFT''" "quiet_watchlist 8"]
    by (simp add: wl_count_for_user_def quiet_watchlist_def watchlist_alone_def)
qed

end
