(* ===== verification/Account_Race.thy ===== *)
theory Account_Race
  imports Trading_Scenario
begin

text \<open>
  Two requests that open an account for the same user at the same time.
\<close>

definition accounts_of_user :: "string \<Rightarrow> tables \<Rightarrow> account_row list" where
  "accounts_of_user user t = filter (\<lambda>m. ar_user_id m = strip user) (accounts t)"

text \<open>The database while another request opens an account between the statements.\<close>

definition opening_between :: "db_env \<Rightarrow> uuid \<Rightarrow> string \<Rightarrow> decimal \<Rightarrow> db_env" where
  "opening_between env i user x = env\<lparr>lock_wait := (\<lambda>_ t. db (snd (open_account env i user x (idle t))))\<rparr>"

definition opened_row :: "db_env \<Rightarrow> uuid \<Rightarrow> string \<Rightarrow> decimal \<Rightarrow> account_row" where
  "opened_row env i user x = \<lparr>ar_id = i, ar_user_id = strip user, ar_initial_cash = numeric env x, ar_cash_balance = numeric env x\<rparr>"

lemma open_account_run:
  assumes "strip user \<noteq> []" "0 < x" "accounts_of_user user t = []"
    and "flush_error (t'\<lparr>accounts := accounts t' @ [opened_row env i user x]\<rparr>) = None" "\<And>s. commit_error env s = None"
    and "lock_wait env {} t = t'"
  shows "\<exists>a u'. open_account env i user x (idle t) = (Inr a, u') \<and> db u' = t'\<lparr>accounts := accounts t' @ [opened_row env i user x]\<rparr>"
proof -
  have "first_where (\<lambda>m. ar_user_id m = strip user) (accounts t) = None"
    using assms(3) by (auto simp: first_where_def accounts_of_user_def find_None_iff filter_empty_conv)
  then show ?thesis using assms
    by (simp add: open_account_def open_body_def with_uow_def idle_def uow_enter_def new_session_def bind_run reading_def load_def
        account_repo_get_by_user_id_def paper_account_new_def others_commit_def locking_def writing_def account_repo_add_def
        uow_commit_run uow_exit_def opened_row_def Let_def)
qed

text \<open>
  C27. Opening an account checks that the user has none and inserts without a lock, and no constraint
  of the tables forbids a second one: when a request for the same user commits between the check and
  the insert, both requests return an account and both accounts are stored.
\<close>

theorem open_account_race:
  fixes t env user i x j y
  defines "one \<equiv> t\<lparr>accounts := accounts t @ [opened_row env j user y]\<rparr>"
  assumes "accounts_of_user user t = []" "strip user \<noteq> []" "0 < x" "0 < y"
    and "\<And>s. commit_error env s = None" "lock_wait env = (\<lambda>_ t. t)"
    and "flush_error one = None" "flush_error (one\<lparr>accounts := accounts one @ [opened_row env i user x]\<rparr>) = None"
  shows "\<exists>a u'. open_account (opening_between env j user y) i user x (idle t) = (Inr a, u')
    \<and> accounts_of_user user (db u') = [opened_row env j user y, opened_row env i user x]"
proof -
  let ?env = "opening_between env j user y"
  have "\<exists>a u'. open_account env j user y (idle t) = (Inr a, u') \<and> db u' = one"
    using open_account_run [of user y t t env j] assms by (simp add: one_def)
  then have between: "lock_wait ?env {} t = one" by (auto simp: opening_between_def)
  have quick: "commit_error ?env s = None" for s using assms(6) by (simp add: opening_between_def)
  have row: "opened_row ?env i user x = opened_row env i user x" by (simp add: opened_row_def opening_between_def)
  obtain a u' where "open_account ?env i user x (idle t) = (Inr a, u')"
    and "db u' = one\<lparr>accounts := accounts one @ [opened_row env i user x]\<rparr>"
    using open_account_run [OF assms(3,4,2), of one ?env i, unfolded row, OF assms(9) quick between] by blast
  then show ?thesis using assms(2) by (auto simp: accounts_of_user_def one_def opened_row_def)
qed

theorem open_account_race_witness:
  "\<exists>a u'. open_account (opening_between quiet_db 8 ''ann'' 500) 7 ''ann'' 1000
      (idle \<lparr>accounts = [], positions = [], orders = [], executions = []\<rparr>) = (Inr a, u')
    \<and> map ar_id (accounts_of_user ''ann'' (db u')) = [8, 7]"
proof -
  let ?t = "\<lparr>accounts = [], positions = [], orders = [], executions = []\<rparr>"
  have "accounts_of_user ''ann'' ?t = []" by (simp add: accounts_of_user_def)
  moreover have "lock_wait quiet_db = (\<lambda>_ t. t)" by (simp add: quiet_db_def)
  ultimately obtain a u' where "open_account (opening_between quiet_db 8 ''ann'' 500) 7 ''ann'' 1000 (idle ?t) = (Inr a, u')"
    and "accounts_of_user ''ann'' (db u') = [opened_row quiet_db 8 ''ann'' 500, opened_row quiet_db 7 ''ann'' 1000]"
    using open_account_race [of "''ann''" ?t 1000 500 quiet_db 8 7]
    by (auto simp: flush_error_def columns_fit_def constraints_ok_def opened_row_def account_row_ok_def fits_numeric_def)
  then show ?thesis by (auto simp: opened_row_def)
qed

end
