(* ===== verification/News_Provider.thy ===== *)
theory News_Provider
  imports Twelve_Data
begin

text \<open>
  The news provider (\<open>services/api/news_provider.py\<close>): the pages of press releases it asks for, the
  parser of a release, and its summary. The HTTP client, \<open>html.unescape\<close> and the parser of ISO 8601
  texts are parameters. Titles and summaries are lists of code points, because a summary may end with
  an ellipsis, which is no ASCII character.
\<close>

section \<open>Texts\<close>

type_synonym code_points = "nat list"

definition code_points :: "string \<Rightarrow> code_points" where
  "code_points s = map of_char s"

text \<open>What \<open>str.isspace\<close> and \<open>\s\<close> accept.\<close>

definition space_point :: "nat \<Rightarrow> bool" where
  "space_point c \<longleftrightarrow> c \<in> {9..13} \<or> c \<in> {28..32} \<or> c \<in> {133, 160, 5760} \<or> c \<in> {8192..8202}
     \<or> c \<in> {8232, 8233, 8239, 8287, 12288}"

definition rstrip_points :: "code_points \<Rightarrow> code_points" where
  "rstrip_points s = rev (dropWhile space_point (rev s))"

definition strip_points :: "code_points \<Rightarrow> code_points" where
  "strip_points s = rstrip_points (dropWhile space_point s)"

text \<open>\<open>re.sub("<[^>]+>", " ", s)\<close>\<close>

function remove_tags :: "code_points \<Rightarrow> code_points" where
  "remove_tags [] = []"
| "remove_tags (c # s) =
     (if c = 60 \<and> takeWhile (\<lambda>d. d \<noteq> 62) s \<noteq> [] \<and> dropWhile (\<lambda>d. d \<noteq> 62) s \<noteq> []
      then 32 # remove_tags (tl (dropWhile (\<lambda>d. d \<noteq> 62) s)) else c # remove_tags s)"
  by pat_completeness auto
termination
proof (relation "measure length")
  fix s :: code_points
  have "length (tl (dropWhile (\<lambda>d. d \<noteq> 62) s)) \<le> length s"
    by (metis diff_le_self le_trans length_dropWhile_le length_tl)
  then show "(tl (dropWhile (\<lambda>d. d \<noteq> 62) s), c # s) \<in> measure length" for c by simp
qed simp_all

text \<open>\<open>re.sub("\s+", " ", s)\<close>: a run of whitespace becomes one space.\<close>

fun collapse_spaces :: "bool \<Rightarrow> code_points \<Rightarrow> code_points" where
  "collapse_spaces in_run [] = []"
| "collapse_spaces in_run (c # s) =
     (if space_point c then (if in_run then collapse_spaces True s else 32 # collapse_spaces True s)
      else c # collapse_spaces False s)"

text \<open>\<open>shortened[:shortened.rfind(" ")]\<close> if the last space is not the first character.\<close>

definition cut_last_word :: "code_points \<Rightarrow> code_points" where
  "cut_last_word s =
     (let kept = rev (tl (dropWhile (\<lambda>c. c \<noteq> 32) (rev s))) in
      if 32 \<in> set s \<and> kept \<noteq> [] then kept else s)"

definition build_summary :: "(code_points \<Rightarrow> code_points) \<Rightarrow> string \<Rightarrow> code_points" where
  "build_summary unescape body =
     (let normalized = strip_points (collapse_spaces False (unescape (remove_tags (code_points body)))) in
      if length normalized \<le> 280 then normalized
      else rstrip_points (cut_last_word (take 279 normalized)) @ [8230])"

section \<open>Releases\<close>

record news_item =
  ni_id :: string
  ni_published_at :: datetime
  ni_title :: code_points
  ni_summary :: code_points

record news_tools =
  nt_fromisoformat :: "string \<Rightarrow> datetime option"
  nt_unescape :: "code_points \<Rightarrow> code_points"

definition replace_z :: "string \<Rightarrow> string" where
  "replace_z s = concat (map (\<lambda>c. if c = CHR ''Z'' then ''+00:00'' else [c]) s)"

definition parse_item :: "news_tools \<Rightarrow> jvalue \<Rightarrow> news_item option" where
  "parse_item tools raw_item = (case raw_item of
     JvObject p \<Rightarrow> (case (payload_get p ''id'', payload_get p ''datetime'', payload_get p ''title'') of
       (JvText raw_id, JvText raw_datetime, JvText raw_title) \<Rightarrow>
         if strip raw_id = [] \<or> strip raw_title = [] then None
         else (case nt_fromisoformat tools (replace_z raw_datetime) of
           None \<Rightarrow> None
         | Some published_at \<Rightarrow>
             let summary = build_summary (nt_unescape tools) (case payload_get p ''body'' of JvText b \<Rightarrow> b | _ \<Rightarrow> []) in
             Some \<lparr>ni_id = strip raw_id, ni_published_at = published_at, ni_title = code_points (strip raw_title),
               ni_summary = (if summary = [] then code_points (strip raw_title) else summary)\<rparr>)
     | _ \<Rightarrow> None)
   | _ \<Rightarrow> None)"

section \<open>Pages\<close>

text \<open>
  The client answers a request (symbols, language, page size, page) with the HTTP status and the body,
  \<open>None\<close> if it is no JSON, or raises.
\<close>

type_synonym news_client = "string \<Rightarrow> string \<Rightarrow> nat \<Rightarrow> nat \<Rightarrow> (nat \<times> jvalue option) result"

definition connection_error :: error where
  "connection_error = ExternalError ''httpx.RequestError''"

definition get_error_message :: "jvalue option \<Rightarrow> string" where
  "get_error_message body = (case body of
     None \<Rightarrow> ''invalid provider response''
   | Some (JvObject payload) \<Rightarrow> (case payload_get payload ''message'' of JvText m \<Rightarrow> m | _ \<Rightarrow> ''unknown provider error'')
   | Some _ \<Rightarrow> ''unknown provider error'')"

definition request_page :: "news_client \<Rightarrow> string \<Rightarrow> string \<Rightarrow> nat \<Rightarrow> nat \<Rightarrow> jobject result" where
  "request_page client symbols language output_size page = (case client symbols language output_size page of
     Inl e \<Rightarrow> Inl (if e = connection_error then NewsProviderError ''Unable to connect to Twelve Data.'' else e)
   | Inr (status, body) \<Rightarrow>
       if 400 \<le> status \<and> status \<le> 599 then Inl (NewsProviderError (''Twelve Data returned an HTTP error: '' @ get_error_message body))
       else (case body of
         None \<Rightarrow> Inl (NewsProviderError ''Twelve Data returned invalid JSON.'')
       | Some (JvObject payload) \<Rightarrow>
           if payload_get payload ''status'' = JvText ''error''
           then Inl (NewsProviderError (case payload_get payload ''message'' of JvText m \<Rightarrow> m | _ \<Rightarrow> ''Unknown provider error.''))
           else Inr payload
       | Some _ \<Rightarrow> Inl (NewsProviderError ''Unexpected Twelve Data response structure.'')))"

definition put_release :: "news_tools \<Rightarrow> jvalue \<Rightarrow> (string \<times> news_item) list \<Rightarrow> (string \<times> news_item) list" where
  "put_release tools raw d = (case parse_item tools raw of None \<Rightarrow> d | Some item \<Rightarrow> dict_put (ni_id item) item d)"

definition max_pages :: nat where "max_pages = 5"

definition max_page_size :: nat where "max_page_size = 10"

function fetch_pages ::
  "news_tools \<Rightarrow> news_client \<Rightarrow> string \<Rightarrow> string \<Rightarrow> nat \<Rightarrow> nat \<Rightarrow> (string \<times> news_item) list \<Rightarrow> (string \<times> news_item) list result" where
  "fetch_pages tools client symbols language limit page unique =
     (if length unique < limit \<and> page \<le> max_pages then
        let output_size = min (max (limit - length unique) 1) max_page_size in
        (case request_page client symbols language output_size page of
           Inl e \<Rightarrow> Inl e
         | Inr payload \<Rightarrow> (case payload_get payload ''press_releases'' of
             JvNull \<Rightarrow> Inl (NewsProviderError ''Twelve Data response does not contain press_releases.'')
           | JvArray releases \<Rightarrow>
               if releases = [] then Inr unique
               else let unique' = fold (put_release tools) releases unique in
                 if length releases < output_size then Inr unique'
                 else fetch_pages tools client symbols language limit (page + 1) unique'
           | _ \<Rightarrow> Inl (NewsProviderError ''Twelve Data press_releases must be a list.'')))
      else Inr unique)"
  by pat_completeness auto
termination
  by (relation "measure (\<lambda>(_, _, _, _, _, page, _). Suc max_pages - page)") auto

declare fetch_pages.simps [simp del]

section \<open>The latest news\<close>

fun news_symbols :: "string list \<Rightarrow> string list \<Rightarrow> string list" where
  "news_symbols seen [] = []"
| "news_symbols seen (s # ss) =
     (let n = normal_symbol s in
      if n = [] \<or> n \<in> set seen then news_symbols seen ss else n # news_symbols (n # seen) ss)"

definition is_naive :: "news_item \<Rightarrow> bool" where
  "is_naive i = (case ni_published_at i of Naive _ \<Rightarrow> True | Aware _ \<Rightarrow> False)"

definition clock_of :: "datetime \<Rightarrow> int" where
  "clock_of d = (case d of Naive t \<Rightarrow> t | Aware t \<Rightarrow> t)"

text \<open>
  \<open>items.sort(key=published_at, reverse=True)\<close>: stable, latest first. Comparing a time with a zone to
  one without raises, and a sort of a list that holds both makes such a comparison.
\<close>

definition sort_items :: "news_item list \<Rightarrow> news_item list result" where
  "sort_items items =
     (if list_ex is_naive items \<and> list_ex (\<lambda>i. \<not> is_naive i) items
      then Inl (TypeError ''can't compare offset-naive and offset-aware datetimes'')
      else Inr (sort_key (\<lambda>i. - clock_of (ni_published_at i)) items))"

definition news_get_latest :: "news_tools \<Rightarrow> news_client \<Rightarrow> string list \<Rightarrow> int \<Rightarrow> string \<Rightarrow> news_item list result" where
  "news_get_latest tools client symbols limit language =
     (let normalized_symbols = news_symbols [] symbols in
      if normalized_symbols = [] \<or> limit < 1 then Inr []
      else let requested_limit = nat (min limit 20) in
        (case fetch_pages tools client (join_commas normalized_symbols) language requested_limit 1 [] of
           Inl e \<Rightarrow> Inl e
         | Inr unique \<Rightarrow> map_sum id (take requested_limit) (sort_items (map snd unique))))"

end
