(* ===== verification/Cache_Aside.thy ===== *)
theory Cache_Aside
  imports Prelude
begin

text \<open>
  The contract that the API's services over a provider share: a fresh copy is served first, then the
  provider is asked and its answer stored, and when it fails in an expected way a stale copy is served.
  The services of the news and of the candles are instances.
\<close>

locale cache_aside =
  fixes serve :: "'e \<Rightarrow> ('s, 'r) prog"
    and fresh stale :: "'e \<Rightarrow> 's \<Rightarrow> 'v option"
    and ask :: "'e \<Rightarrow> 'v result"
    and caught :: "error \<Rightarrow> bool"
    and store :: "'e \<Rightarrow> 'v \<Rightarrow> 's \<Rightarrow> 's"
    and answer :: "'e \<Rightarrow> bool \<Rightarrow> 'v \<Rightarrow> 'r"
    and unavailable :: "error \<Rightarrow> error"
    and tolerable :: "'e \<Rightarrow> bool"
  assumes from_fresh: "tolerable e \<Longrightarrow> fresh e s = Some v \<Longrightarrow> serve e s = (Inr (answer e True v), s)"
    and from_provider: "tolerable e \<Longrightarrow> fresh e s = None \<Longrightarrow> ask e = Inr v \<Longrightarrow> serve e s = (Inr (answer e False v), store e v s)"
    and from_stale: "tolerable e \<Longrightarrow> fresh e s = None \<Longrightarrow> ask e = Inl x \<Longrightarrow> caught x \<Longrightarrow> stale e s = Some v
      \<Longrightarrow> serve e s = (Inr (answer e True v), s)"
    and from_nothing: "tolerable e \<Longrightarrow> fresh e s = None \<Longrightarrow> ask e = Inl x \<Longrightarrow> caught x \<Longrightarrow> stale e s = None
      \<Longrightarrow> serve e s = (Inl (unavailable x), s)"
    and uncaught: "tolerable e \<Longrightarrow> fresh e s = None \<Longrightarrow> ask e = Inl x \<Longrightarrow> \<not> caught x \<Longrightarrow> serve e s = (Inl x, s)"
begin

text \<open>When a call returns an answer.\<close>

lemma answers_iff:
  assumes "tolerable e"
  shows "(\<exists>r. fst (serve e s) = Inr r) \<longleftrightarrow>
    fresh e s \<noteq> None \<or> (\<exists>v. ask e = Inr v) \<or> (\<exists>x. ask e = Inl x \<and> caught x) \<and> stale e s \<noteq> None"
proof (cases "fresh e s")
  case None
  show ?thesis
  proof (cases "ask e")
    case (Inl x)
    then show ?thesis
      using None assms from_stale from_nothing uncaught by (cases "caught x"; cases "stale e s") auto
  qed (use None assms from_provider in auto)
qed (use assms from_fresh in auto)

end

text \<open>The same service over a store whose entries expire: what the stored copies return later.\<close>

locale expiring_cache_aside = cache_aside +
  fixes working :: "'a \<Rightarrow> bool"
    and key :: "'a \<Rightarrow> 'k"
    and clock fresh_ttl stale_ttl :: "'a \<Rightarrow> int"
  assumes working_tolerable: "working e \<Longrightarrow> tolerable e"
    and fresh_stored: "working e \<Longrightarrow> working e' \<Longrightarrow> key e' = key e
      \<Longrightarrow> fresh e' (store e v s) = (if clock e' < clock e + fresh_ttl e then Some v else None)"
    and stale_stored: "working e \<Longrightarrow> working e' \<Longrightarrow> key e' = key e
      \<Longrightarrow> stale e' (store e v s) = (if clock e' < clock e + stale_ttl e then Some v else None)"
    and ttls: "working e \<Longrightarrow> fresh_ttl e < stale_ttl e"
begin

text \<open>An answer of the provider is served again while the provider fails, until the longer expiry.\<close>

lemma served_again:
  assumes "working e" "working e'" "key e' = key e" "fresh e s = None" "ask e = Inr v" "ask e' = Inl x" "caught x"
  shows "serve e s = (Inr (answer e False v), store e v s)
    \<and> serve e' (store e v s) =
        (if clock e' < clock e + stale_ttl e then Inr (answer e' True v) else Inl (unavailable x), store e v s)"
proof -
  note t = working_tolerable [OF assms(1)] working_tolerable [OF assms(2)]
  note now = fresh_stored [OF assms(1-3), of v s] stale_stored [OF assms(1-3), of v s] ttls [OF assms(1)]
  have "serve e' (store e v s) =
      (if clock e' < clock e + stale_ttl e then Inr (answer e' True v) else Inl (unavailable x), store e v s)"
  proof (cases "clock e' < clock e + fresh_ttl e")
    case True
    then have "fresh e' (store e v s) = Some v" "clock e' < clock e + stale_ttl e" using now by auto
    then show ?thesis using from_fresh [OF t(2)] by simp
  next
    case False
    then have none: "fresh e' (store e v s) = None" using now(1) by simp
    show ?thesis
    proof (cases "clock e' < clock e + stale_ttl e")
      case True
      then show ?thesis using now(2) from_stale [OF t(2) none assms(6,7)] by simp
    next
      case False
      then show ?thesis using now(2) from_nothing [OF t(2) none assms(6,7)] by simp
    qed
  qed
  then show ?thesis using from_provider [OF t(1) assms(4,5)] by blast
qed

end

end
