(* ===== verification/News_Service.thy ===== *)
theory News_Service
  imports News_Provider Quote_Cache Cache_Aside Watchlist "HOL-Library.List_Lexorder" "HOL-Library.Char_ord"
begin

text \<open>
  The news of a user's watchlist: \<open>NewsCache\<close> (\<open>services/api/news_cache.py\<close>), \<open>NewsService\<close>
  (\<open>services/api/news_service.py\<close>) and the route (\<open>services/api/routes/news.py\<close>). The SHA-256 digest is
  a parameter; a cached text that does not validate is \<open>None\<close>.
\<close>

section \<open>The cache\<close>

type_synonym news_redis = "news_item list option redis"

record news_cache =
  nc_fresh_ttl_seconds :: int
  nc_stale_ttl_seconds :: int

definition news_cache_new :: "int \<Rightarrow> int \<Rightarrow> news_cache result" where
  "news_cache_new fresh stale =
     (if fresh \<le> 0 then Inl (ValueError ''fresh_ttl_seconds must be positive'')
      else if stale \<le> fresh then Inl (ValueError ''stale_ttl_seconds must be greater than fresh_ttl_seconds'')
      else Inr \<lparr>nc_fresh_ttl_seconds = fresh, nc_stale_ttl_seconds = stale\<rparr>)"

definition news_signature :: "(string \<Rightarrow> string) \<Rightarrow> string list \<Rightarrow> string" where
  "news_signature digest symbols =
     take 24 (digest (join_commas (sort (remdups (map normal_symbol (filter (\<lambda>s. strip s \<noteq> []) symbols))))))"

definition news_fresh_key :: "(string \<Rightarrow> string) \<Rightarrow> string list \<Rightarrow> string" where
  "news_fresh_key digest symbols = ''realstock:news:v1:'' @ news_signature digest symbols @ '':fresh''"

definition news_stale_key :: "(string \<Rightarrow> string) \<Rightarrow> string list \<Rightarrow> string" where
  "news_stale_key digest symbols = ''realstock:news:v1:'' @ news_signature digest symbols @ '':stale''"

definition news_read :: "error option \<Rightarrow> int \<Rightarrow> string \<Rightarrow> news_redis \<Rightarrow> news_item list option result" where
  "news_read failure now key r = (case failure of
     Some e \<Rightarrow> Inl e
   | None \<Rightarrow> (case redis_get now key r of
       None \<Rightarrow> Inr None
     | Some None \<Rightarrow> Inl (ValueError ''invalid JSON'')
     | Some (Some items) \<Rightarrow> Inr (Some items)))"

text \<open>The two commands of the pipeline, which is no transaction.\<close>

definition news_put ::
  "news_cache \<Rightarrow> (string \<Rightarrow> string) \<Rightarrow> (nat \<times> error) option \<Rightarrow> int \<Rightarrow> string list \<Rightarrow> news_item list \<Rightarrow> (news_redis, unit) prog" where
  "news_put c digest failure now symbols items = (\<lambda>r.
     let r1 = redis_set now (nc_fresh_ttl_seconds c) (news_fresh_key digest symbols) (Some items) r;
         r2 = redis_set now (nc_stale_ttl_seconds c) (news_stale_key digest symbols) (Some items) r1
     in case failure of None \<Rightarrow> (Inr (), r2) | Some (n, e) \<Rightarrow> (Inl e, if n = 0 then r else if n = 1 then r1 else r2))"

section \<open>The service\<close>

record news_response =
  nr_items :: "news_item list"
  nr_count :: nat
  nr_cached :: bool

text \<open>A call: the objects it uses, the time, the failures of Redis during it, and its arguments.\<close>

record news_call =
  nl_cache :: news_cache
  nl_tools :: news_tools
  nl_client :: news_client
  nl_digest :: "string \<Rightarrow> string"
  nl_clock :: int
  nl_fresh_failure :: "error option"
  nl_put_failure :: "(nat \<times> error) option"
  nl_stale_failure :: "error option"
  nl_symbols :: "string list"
  nl_limit :: nat

definition news_response_of :: "news_call \<Rightarrow> bool \<Rightarrow> news_item list \<Rightarrow> news_response" where
  "news_response_of e cached items =
     (let shown = take (nl_limit e) items in \<lparr>nr_items = shown, nr_count = length shown, nr_cached = cached\<rparr>)"

text \<open>\<open>except (RedisError, ValueError)\<close> around a read.\<close>

definition tolerant_read :: "news_item list option result \<Rightarrow> news_item list option result" where
  "tolerant_read x = (case x of Inl (RedisError _) \<Rightarrow> Inr None | Inl (ValueError _) \<Rightarrow> Inr None | _ \<Rightarrow> x)"

definition provider_fetch_limit :: int where "provider_fetch_limit = 20"

definition news_ask :: "news_call \<Rightarrow> news_item list result" where
  "news_ask e = news_get_latest (nl_tools e) (nl_client e) (news_symbols [] (nl_symbols e)) provider_fetch_limit ''en''"

definition news_serve :: "news_call \<Rightarrow> (news_redis, news_response) prog" where
  "news_serve e =
     (let symbols = news_symbols [] (nl_symbols e) in
      if symbols = [] then ret \<lparr>nr_items = [], nr_count = 0, nr_cached = False\<rparr>
      else bind get_state (\<lambda>r.
      bind (of_result (tolerant_read (news_read (nl_fresh_failure e) (nl_clock e) (news_fresh_key (nl_digest e) symbols) r))) (\<lambda>fresh.
      case fresh of
        Some items \<Rightarrow> ret (news_response_of e True items)
      | None \<Rightarrow>
          try_except
            (bind (of_result (news_ask e)) (\<lambda>items.
             bind (try_except (news_put (nl_cache e) (nl_digest e) (nl_put_failure e) (nl_clock e) symbols items)
                     (\<lambda>x. case x of RedisError _ \<Rightarrow> ret () | _ \<Rightarrow> raise x)) (\<lambda>_.
             ret (news_response_of e False items))))
            (\<lambda>x. case x of
               NewsProviderError _ \<Rightarrow>
                 bind get_state (\<lambda>r'.
                 bind (of_result (tolerant_read (news_read (nl_stale_failure e) (nl_clock e) (news_stale_key (nl_digest e) symbols) r'))) (\<lambda>stale.
                 case stale of
                   Some items \<Rightarrow> ret (news_response_of e True items)
                 | None \<Rightarrow> raise (NewsProviderError ''Live news is currently unavailable and no cached news is available.'')))
             | _ \<Rightarrow> raise x))))"

section \<open>The route\<close>

text \<open>The symbols are those of the user's watchlist, listed first in a session of its own.\<close>

definition read_latest_news ::
  "watchlist_env \<Rightarrow> (string \<Rightarrow> string \<Rightarrow> bool) \<Rightarrow> news_call \<Rightarrow> string option \<Rightarrow> nat \<Rightarrow> watchlist_row list
   \<Rightarrow> (news_redis, news_response) prog" where
  "read_latest_news env collation e x_user_id limit rows =
     bind (of_result (watchlist_user_id x_user_id)) (\<lambda>user_id.
     bind (raise_if (limit < 1 \<or> 20 < limit) (HTTPException 422 ''limit'')) (\<lambda>_.
     bind (of_result (fst (in_session (wl_list_items env collation user_id) rows))) (\<lambda>items.
     try_except (news_serve (e\<lparr>nl_symbols := map wl_symbol items, nl_limit := limit\<rparr>))
       (\<lambda>x. raise (case x of NewsProviderError _ \<Rightarrow> HTTPException 502 ''Live news provider is unavailable.'' | _ \<Rightarrow> x)))))"

end
