(* ===== verification/News_Properties.thy ===== *)
theory News_Properties
  imports News_Service
begin

text \<open>
  What the news of the API guarantee: the list of the provider, the fall back from the fresh copy to
  the provider to the stale copy, and the two cases in which the code loses news that are there.
\<close>

section \<open>The service is a cache-aside service\<close>

definition news_tolerable :: "news_call \<Rightarrow> bool" where
  "news_tolerable e \<longleftrightarrow> news_symbols [] (nl_symbols e) \<noteq> []
     \<and> (\<forall>x. nl_fresh_failure e = Some x \<or> nl_stale_failure e = Some x \<or> (\<exists>n. nl_put_failure e = Some (n, x)) \<longrightarrow> (\<exists>m. x = RedisError m))"

text \<open>The copies that a call can read.\<close>

definition news_copy :: "error option \<Rightarrow> int \<Rightarrow> string \<Rightarrow> news_redis \<Rightarrow> news_item list option" where
  "news_copy failure now key r = (case redis_get now key r of Some (Some items) \<Rightarrow> if failure = None then Some items else None | _ \<Rightarrow> None)"

definition news_fresh :: "news_call \<Rightarrow> news_redis \<Rightarrow> news_item list option" where
  "news_fresh e = news_copy (nl_fresh_failure e) (nl_clock e) (news_fresh_key (nl_digest e) (news_symbols [] (nl_symbols e)))"

definition news_stale :: "news_call \<Rightarrow> news_redis \<Rightarrow> news_item list option" where
  "news_stale e = news_copy (nl_stale_failure e) (nl_clock e) (news_stale_key (nl_digest e) (news_symbols [] (nl_symbols e)))"

definition news_store :: "news_call \<Rightarrow> news_item list \<Rightarrow> news_redis \<Rightarrow> news_redis" where
  "news_store e items r = snd (news_put (nl_cache e) (nl_digest e) (nl_put_failure e) (nl_clock e) (news_symbols [] (nl_symbols e)) items r)"

definition provider_failure :: "error \<Rightarrow> bool" where
  "provider_failure x = (case x of NewsProviderError _ \<Rightarrow> True | _ \<Rightarrow> False)"

definition no_news :: error where
  "no_news = NewsProviderError ''Live news is currently unavailable and no cached news is available.''"

lemma tolerant_news_read:
  assumes "\<And>x. failure = Some x \<Longrightarrow> \<exists>m. x = RedisError m"
  shows "tolerant_read (news_read failure now key r) = Inr (news_copy failure now key r)"
  using assms by (cases failure) (auto simp: tolerant_read_def news_read_def news_copy_def split: option.splits)

lemma news_put_tolerated:
  assumes "\<And>n x. nl_put_failure e = Some (n, x) \<Longrightarrow> \<exists>m. x = RedisError m"
  shows "try_except (news_put (nl_cache e) (nl_digest e) (nl_put_failure e) (nl_clock e) (news_symbols [] (nl_symbols e)) items)
      (\<lambda>x. case x of RedisError _ \<Rightarrow> ret () | _ \<Rightarrow> raise x) r = (Inr (), news_store e items r)"
  using assms
  by (cases "nl_put_failure e") (auto simp: news_store_def news_put_def try_except_def Let_def)

lemma news_serve_run:
  assumes "news_tolerable e"
  shows "news_serve e r = (case news_fresh e r of
      Some items \<Rightarrow> (Inr (news_response_of e True items), r)
    | None \<Rightarrow> (case news_ask e of
        Inr items \<Rightarrow> (Inr (news_response_of e False items), news_store e items r)
      | Inl x \<Rightarrow> (if provider_failure x
          then case news_stale e r of Some items \<Rightarrow> (Inr (news_response_of e True items), r) | None \<Rightarrow> (Inl no_news, r)
          else (Inl x, r))))"
proof -
  have reads: "tolerant_read (news_read (nl_fresh_failure e) now k t) = Inr (news_copy (nl_fresh_failure e) now k t)"
    "tolerant_read (news_read (nl_stale_failure e) now k t) = Inr (news_copy (nl_stale_failure e) now k t)" for now k t
    using assms by (auto intro!: tolerant_news_read simp: news_tolerable_def)
  have put: "try_except (news_put (nl_cache e) (nl_digest e) (nl_put_failure e) (nl_clock e) (news_symbols [] (nl_symbols e)) items)
      (\<lambda>x. case x of RedisError _ \<Rightarrow> ret () | _ \<Rightarrow> raise x) r = (Inr (), news_store e items r)" for items
    using assms by (intro news_put_tolerated) (auto simp: news_tolerable_def)
  have symbols: "news_symbols [] (nl_symbols e) \<noteq> []" using assms by (simp add: news_tolerable_def)
  show ?thesis
  proof (cases "news_fresh e r")
    case None
    show ?thesis
    proof (cases "news_ask e")
      case (Inl x)
      then show ?thesis using None symbols
        by (cases x) (auto simp: news_serve_def bind_run reads news_fresh_def news_stale_def try_except_def provider_failure_def
            no_news_def Let_def split: option.splits)
    next
      case (Inr items)
      then show ?thesis using None symbols
        by (simp add: news_serve_def bind_run reads news_fresh_def put try_except_def [of "bind _ _"] Let_def)
    qed
  qed (use symbols in \<open>simp add: news_serve_def bind_run reads news_fresh_def Let_def\<close>)
qed

definition news_working :: "news_call \<Rightarrow> bool" where
  "news_working e \<longleftrightarrow> news_symbols [] (nl_symbols e) \<noteq> [] \<and> nl_fresh_failure e = None \<and> nl_stale_failure e = None
     \<and> nl_put_failure e = None \<and> (\<exists>f g. news_cache_new f g = Inr (nl_cache e))"

lemma news_cache_ttls: "news_cache_new f g = Inr c \<Longrightarrow> 0 < nc_fresh_ttl_seconds c \<and> nc_fresh_ttl_seconds c < nc_stale_ttl_seconds c"
  by (auto simp: news_cache_new_def split: if_splits)

lemma news_keys_differ: "news_fresh_key digest symbols \<noteq> news_stale_key digest symbols'"
proof -
  have "last (news_fresh_key digest symbols) = CHR ''h''" "last (news_stale_key digest symbols') = CHR ''e''"
    by (simp_all add: news_fresh_key_def news_stale_key_def)
  then have "last (news_fresh_key digest symbols) \<noteq> last (news_stale_key digest symbols')" by simp
  then show ?thesis by auto
qed

interpretation news: expiring_cache_aside news_serve news_fresh news_stale news_ask provider_failure news_store news_response_of
  "\<lambda>_. no_news" news_tolerable news_working "\<lambda>e. news_signature (nl_digest e) (news_symbols [] (nl_symbols e))" nl_clock
  "\<lambda>e. nc_fresh_ttl_seconds (nl_cache e)" "\<lambda>e. nc_stale_ttl_seconds (nl_cache e)"
proof (unfold_locales)
  fix e :: news_call
  show "news_working e \<Longrightarrow> news_tolerable e" by (simp add: news_working_def news_tolerable_def)
  show "news_working e \<Longrightarrow> nc_fresh_ttl_seconds (nl_cache e) < nc_stale_ttl_seconds (nl_cache e)"
    using news_cache_ttls by (auto simp: news_working_def)
next
  fix e e' :: news_call and v r
  assume "news_working e" "news_working e'"
    and key: "news_signature (nl_digest e') (news_symbols [] (nl_symbols e')) = news_signature (nl_digest e) (news_symbols [] (nl_symbols e))"
  then show "news_fresh e' (news_store e v r) = (if nl_clock e' < nl_clock e + nc_fresh_ttl_seconds (nl_cache e) then Some v else None)"
    and "news_stale e' (news_store e v r) = (if nl_clock e' < nl_clock e + nc_stale_ttl_seconds (nl_cache e) then Some v else None)"
    using news_keys_differ [of "nl_digest e'" "news_symbols [] (nl_symbols e')"]
    by (simp_all add: news_working_def news_fresh_def news_stale_def news_store_def news_copy_def news_put_def Let_def redis_get_set
        news_fresh_key_def [of "nl_digest e"] news_stale_key_def [of "nl_digest e"] news_fresh_key_def [of "nl_digest e'"]
        news_stale_key_def [of "nl_digest e'"])
qed (simp_all add: news_serve_run)

section \<open>The list of the provider\<close>

text \<open>What the summary of a release is, from the text of its body without tags and with single spaces.\<close>

definition plain_text :: "news_tools \<Rightarrow> string \<Rightarrow> code_points" where
  "plain_text tools body = strip_points (collapse_spaces False (nt_unescape tools (remove_tags (code_points body))))"

definition summarises :: "code_points \<Rightarrow> code_points \<Rightarrow> code_points \<Rightarrow> bool" where
  "summarises summary title text \<longleftrightarrow>
     (if text = [] then summary = title
      else if length text \<le> 280 then summary = text
      else length summary \<le> 280 \<and> (\<exists>w rest. summary = w @ [8230] \<and> w \<noteq> [] \<and> take 279 text = w @ rest
        \<and> (32 \<in> set (take 279 text) \<longrightarrow> space_point (text ! length w))))"

definition describes :: "news_tools \<Rightarrow> jvalue \<Rightarrow> news_item \<Rightarrow> bool" where
  "describes tools raw i \<longleftrightarrow> (\<exists>p raw_id raw_time raw_title. raw = JvObject p
     \<and> payload_get p ''id'' = JvText raw_id \<and> ni_id i = strip raw_id \<and> ni_id i \<noteq> []
     \<and> payload_get p ''datetime'' = JvText raw_time \<and> nt_fromisoformat tools (replace_z raw_time) = Some (ni_published_at i)
     \<and> payload_get p ''title'' = JvText raw_title \<and> ni_title i = code_points (strip raw_title) \<and> ni_title i \<noteq> []
     \<and> summarises (ni_summary i) (ni_title i) (plain_text tools (case payload_get p ''body'' of JvText b \<Rightarrow> b | _ \<Rightarrow> [])))"

lemma rstrip_split: "\<exists>rest. s = rstrip_points s @ rest \<and> (\<forall>c \<in> set rest. space_point c)"
proof (intro exI conjI ballI)
  have "rev s = takeWhile space_point (rev s) @ dropWhile space_point (rev s)" by simp
  then show "s = rstrip_points s @ rev (takeWhile space_point (rev s))"
    unfolding rstrip_points_def by (metis rev_append rev_rev_ident)
qed (auto dest: set_takeWhileD)

lemma cut_split:
  assumes "32 \<in> set s" "hd s \<noteq> 32"
  obtains rest where "s = cut_last_word s @ 32 # rest" "cut_last_word s \<noteq> []"
proof -
  let ?d = "dropWhile (\<lambda>c. c \<noteq> 32) (rev s)" and ?t = "takeWhile (\<lambda>c. c \<noteq> 32) (rev s)"
  have "?d \<noteq> []" using assms(1) by (simp add: dropWhile_eq_Nil_conv)
  then obtain t where d: "?d = 32 # t" using hd_dropWhile [of "\<lambda>c. c \<noteq> 32" "rev s"] by (cases ?d) auto
  have "rev s = ?t @ 32 # t" using d by (metis takeWhile_dropWhile_id)
  then have s: "s = rev t @ 32 # rev ?t" by (metis append_Cons append_Nil append_assoc rev.simps(2) rev_append rev_rev_ident)
  have "t \<noteq> []" using s assms(2) by (metis append_Nil list.sel(1) rev.simps(1))
  then have "cut_last_word s = rev t" using assms(1) by (simp add: cut_last_word_def d)
  then show ?thesis using that [of "rev ?t"] s \<open>t \<noteq> []\<close> by simp
qed

lemma long_summary:
  assumes "280 < length text" "\<not> space_point (hd text)"
  shows "summarises (rstrip_points (cut_last_word (take 279 text)) @ [8230]) title text"
proof -
  let ?s = "take 279 text" and ?w = "rstrip_points (cut_last_word (take 279 text))"
  have hd: "?s \<noteq> []" "hd ?s = hd text" using assms(1) by (cases "text", simp_all)
  then have "hd ?s \<noteq> 32" using assms(2) by (auto simp: space_point_def)
  obtain tail where cut: "?s = cut_last_word ?s @ tail" "cut_last_word ?s \<noteq> []" "32 \<in> set ?s \<Longrightarrow> \<exists>rest. tail = 32 # rest"
  proof (cases "32 \<in> set ?s")
    case True
    then obtain rest where "?s = cut_last_word ?s @ 32 # rest" "cut_last_word ?s \<noteq> []"
      using cut_split \<open>hd ?s \<noteq> 32\<close> by blast
    then show ?thesis using that by blast
  next
    case False
    then have "cut_last_word ?s = ?s" by (simp add: cut_last_word_def Let_def)
    then show ?thesis using that [of "[]"] hd(1) False by simp
  qed
  obtain gap where w: "cut_last_word ?s = ?w @ gap" "\<forall>c \<in> set gap. space_point c" using rstrip_split by blast
  have "hd (cut_last_word ?s) = hd text" using cut(1,2) hd(2) by (metis hd_append2)
  then have "?w \<noteq> []" using w cut(2) assms(2) by (metis append_Nil hd_in_set)
  have s: "?s = ?w @ gap @ tail" using cut(1) w(1) by (metis append_assoc)
  have "space_point (text ! length ?w)" if "32 \<in> set ?s"
  proof -
    obtain rest where "tail = 32 # rest" using cut(3) \<open>32 \<in> set ?s\<close> by blast
    then obtain c xs where c: "gap @ tail = c # xs" "space_point c"
      using w(2) by (cases gap) (auto simp: space_point_def)
    have s': "?s = ?w @ c # xs" using s c(1) by simp
    have "?s ! length ?w = c" by (subst s') simp
    moreover have "length ?w < length ?s" using arg_cong [OF s', of length] by simp
    ultimately have "text ! length ?w = c" by simp
    then show ?thesis using c(2) by simp
  qed
  moreover have "length ?w \<le> 279" using arg_cong [OF s, of length] by simp
  ultimately show ?thesis using s \<open>?w \<noteq> []\<close> assms(1) by (fastforce simp: summarises_def)
qed

lemma strip_points_hd: "strip_points s \<noteq> [] \<Longrightarrow> \<not> space_point (hd (strip_points s))"
proof -
  assume ne: "strip_points s \<noteq> []"
  let ?d = "dropWhile space_point s"
  obtain rest where d: "?d = strip_points s @ rest" using rstrip_split [of "?d"] by (auto simp: strip_points_def)
  then have "?d \<noteq> []" "hd ?d = hd (strip_points s)" using ne by auto
  then show ?thesis using hd_dropWhile [of space_point s] by simp
qed

lemma build_summary_summarises:
  "summarises (if build_summary (nt_unescape tools) body = [] then title else build_summary (nt_unescape tools) body)
     title (plain_text tools body)"
proof (cases "length (plain_text tools body) \<le> 280")
  case True
  then show ?thesis by (simp add: summarises_def build_summary_def plain_text_def Let_def)
next
  case False
  then have "\<not> space_point (hd (plain_text tools body))"
    unfolding plain_text_def by (intro strip_points_hd) auto
  then show ?thesis
    using long_summary [of "plain_text tools body" title] False by (simp add: build_summary_def plain_text_def Let_def)
qed

lemma parse_item_describes:
  assumes "parse_item tools raw = Some i"
  shows "describes tools raw i"
proof -
  obtain p raw_id raw_time raw_title where raw: "raw = JvObject p" "payload_get p ''id'' = JvText raw_id"
    "payload_get p ''datetime'' = JvText raw_time" "payload_get p ''title'' = JvText raw_title"
    using assms unfolding parse_item_def by (cases raw) (simp_all split: jvalue.splits)
  define body where "body = (case payload_get p ''body'' of JvText b \<Rightarrow> b | _ \<Rightarrow> [])"
  obtain time where time: "nt_fromisoformat tools (replace_z raw_time) = Some time" "strip raw_id \<noteq> []" "strip raw_title \<noteq> []"
    and i: "i = \<lparr>ni_id = strip raw_id, ni_published_at = time, ni_title = code_points (strip raw_title),
      ni_summary = (if build_summary (nt_unescape tools) body = [] then code_points (strip raw_title)
        else build_summary (nt_unescape tools) body)\<rparr>"
    using assms raw unfolding parse_item_def body_def [symmetric] by (simp add: Let_def body_def [symmetric] split: if_splits option.splits)
  show ?thesis
    using raw time build_summary_summarises [of tools body "code_points (strip raw_title)"]
    unfolding describes_def by (intro exI [of _ p] exI [of _ raw_id] exI [of _ raw_time] exI [of _ raw_title])
      (simp add: i body_def [symmetric] code_points_def)
qed

text \<open>The releases on the pages that the client gave.\<close>

definition released :: "news_client \<Rightarrow> string \<Rightarrow> string \<Rightarrow> jvalue \<Rightarrow> bool" where
  "released client symbols language raw \<longleftrightarrow> (\<exists>size page payload releases.
     request_page client symbols language size page = Inr payload \<and> payload_get payload ''press_releases'' = JvArray releases
     \<and> size \<le> max_page_size \<and> page \<le> max_pages \<and> raw \<in> set releases)"

definition offered :: "news_tools \<Rightarrow> news_client \<Rightarrow> string \<Rightarrow> string \<Rightarrow> news_item \<Rightarrow> bool" where
  "offered tools client symbols language i \<longleftrightarrow>
     (\<exists>raw. released client symbols language raw \<and> parse_item tools raw = Some i)"

definition dict_ok :: "(news_item \<Rightarrow> bool) \<Rightarrow> (string \<times> news_item) list \<Rightarrow> bool" where
  "dict_ok P d \<longleftrightarrow> distinct (map fst d) \<and> (\<forall>(k, i) \<in> set d. ni_id i = k \<and> P i)"

lemma put_releases_ok:
  assumes "dict_ok P d" "\<And>raw i. raw \<in> set releases \<Longrightarrow> parse_item tools raw = Some i \<Longrightarrow> P i"
  shows "dict_ok P (fold (put_release tools) releases d)"
  using assms
proof (induction releases arbitrary: d)
  case (Cons raw releases)
  have "dict_ok P (put_release tools raw d)"
  proof (cases "parse_item tools raw")
    case (Some i)
    then show ?thesis
      using Cons.prems dict_put_set [of "ni_id i" i d] by (fastforce simp: put_release_def dict_ok_def dict_put_distinct)
  qed (use Cons.prems in \<open>simp add: put_release_def\<close>)
  then have "dict_ok P (fold (put_release tools) releases (put_release tools raw d))"
    by (rule Cons.IH) (use Cons.prems(2) in auto)
  then show ?case by simp
qed simp

lemma fetch_pages_ok:
  assumes "fetch_pages tools client symbols language limit page unique = Inr d" "dict_ok (offered tools client symbols language) unique"
  shows "dict_ok (offered tools client symbols language) d"
  using assms
proof (induction tools client symbols language limit page unique rule: fetch_pages.induct)
  case (1 tools client symbols language limit page unique)
  note run = "1.prems"(1) [unfolded fetch_pages.simps [of tools client symbols language limit page unique]]
  show ?case
  proof (cases "length unique < limit \<and> page \<le> max_pages")
    case True
    define size where "size = min (max (limit - length unique) 1) max_page_size"
    obtain payload releases where payload: "request_page client symbols language size page = Inr payload"
        "payload_get payload ''press_releases'' = JvArray releases"
      using run True by (auto simp: size_def Let_def split: sum.splits jvalue.splits)
    have offered: "offered tools client symbols language i" if "raw \<in> set releases" "parse_item tools raw = Some i" for raw i
      unfolding offered_def released_def using payload that True
      by (intro exI [of _ raw] conjI exI [of _ size] exI [of _ page] exI [of _ payload] exI [of _ releases]) (simp_all add: size_def)
    let ?d = "fold (put_release tools) releases unique"
    have ok: "dict_ok (offered tools client symbols language) ?d"
      using payload True "1.prems"(2) by (intro put_releases_ok) (auto intro: offered simp: size_def)
    show ?thesis
    proof (cases "releases = [] \<or> length releases < size")
      case True': True
      then have "d = (if releases = [] then unique else ?d)" using run True payload by (auto simp: size_def Let_def)
      then show ?thesis using ok "1.prems"(2) by simp
    next
      case False
      then have "fetch_pages tools client symbols language limit (page + 1) ?d = Inr d"
        using run True payload by (auto simp: size_def Let_def split: if_splits)
      then show ?thesis using "1.IH" [OF True size_def payload] False ok by blast
    qed
  qed (use "1.prems"(2) run in auto)
qed

text \<open>
  C22. A list of the provider holds at most the requested number of items (and never more than 20), no
  item twice, the latest first. Every item is a release of one of the pages, with its id, title and time. Its
  summary is the text of the body if that has at most 280 characters, the title if it has none, and
  otherwise a beginning of it with an ellipsis, of at most 280 characters and cut after a word.
\<close>

theorem news_list_sound:
  assumes "news_get_latest tools client symbols limit language = Inr items"
  shows "length items \<le> nat (min limit 20) \<and> distinct (map ni_id items)
    \<and> sorted_wrt (\<lambda>i j. clock_of (ni_published_at j) \<le> clock_of (ni_published_at i)) items
    \<and> (\<forall>i \<in> set items. \<exists>raw. released client (join_commas (news_symbols [] symbols)) language raw \<and> describes tools raw i)"
proof (cases "news_symbols [] symbols = [] \<or> limit < 1")
  case True
  then show ?thesis using assms by (auto simp: news_get_latest_def)
next
  case False
  obtain d where d: "fetch_pages tools client (join_commas (news_symbols [] symbols)) language (nat (min limit 20)) 1 [] = Inr d"
    and items: "items = take (nat (min limit 20)) (sort_key (\<lambda>i. - clock_of (ni_published_at i)) (map snd d))"
    using assms False by (auto simp: news_get_latest_def sort_items_def Let_def split: sum.splits if_splits)
  let ?sorted = "sort_key (\<lambda>i. - clock_of (ni_published_at i)) (map snd d)"
  have ok: "dict_ok (offered tools client (join_commas (news_symbols [] symbols)) language) d"
    by (rule fetch_pages_ok [OF d]) (simp add: dict_ok_def)
  then have keys: "map ni_id (map snd d) = map fst d" by (auto simp: dict_ok_def)
  have "distinct (map ni_id (map snd d))" unfolding keys using ok by (simp add: dict_ok_def)
  then have "distinct (map ni_id ?sorted)"
    unfolding distinct_map set_sort distinct_sort .
  then have "distinct (map ni_id items)" by (simp add: items flip: take_map)
  moreover have "sorted_wrt (\<lambda>i j. clock_of (ni_published_at j) \<le> clock_of (ni_published_at i)) ?sorted"
    using sorted_sort_key [of "\<lambda>i. - clock_of (ni_published_at i)" "map snd d"] by (simp add: sorted_map)
  then have "sorted_wrt (\<lambda>i j. clock_of (ni_published_at j) \<le> clock_of (ni_published_at i)) items"
    by (simp add: items sorted_wrt_take)
  moreover have "offered tools client (join_commas (news_symbols [] symbols)) language i" if "i \<in> set items" for i
  proof -
    have "i \<in> snd ` set d" using that by (auto simp: items dest: in_set_takeD)
    then show ?thesis using ok by (auto simp: dict_ok_def)
  qed
  moreover have "\<exists>raw. released client (join_commas (news_symbols [] symbols)) language raw \<and> describes tools raw i"
    if "offered tools client (join_commas (news_symbols [] symbols)) language i" for i
    using that parse_item_describes [of tools] unfolding offered_def by blast
  moreover have "length items \<le> nat (min limit 20)" by (simp add: items)
  ultimately show ?thesis by (intro conjI ballI) (assumption | blast)+
qed

section \<open>Pages of a changing size\<close>

text \<open>
  The documented server: page \<open>p\<close> of size \<open>n\<close> holds the releases from number \<open>(p - 1) n\<close> on.
\<close>

definition paged_server :: "jvalue list \<Rightarrow> news_client" where
  "paged_server releases = (\<lambda>symbols language size page.
     Inr (200, Some (JvObject [(''press_releases'', JvArray (take size (drop ((page - 1) * size) releases)))])))"

lemma fetch_page_step:
  fixes releases unique limit
  defines "n \<equiv> min (max (limit - length unique) 1) max_page_size"
  assumes "length unique < limit" "page \<le> max_pages" "(page - 1) * n + n \<le> length releases"
  shows "fetch_pages tools (paged_server releases) symbols language limit page unique =
    fetch_pages tools (paged_server releases) symbols language limit (page + 1)
      (fold (put_release tools) (take n (drop ((page - 1) * n) releases)) unique)"
proof -
  have n: "0 < n" by (simp add: n_def max_page_size_def)
  have "request_page (paged_server releases) symbols language n page =
      Inr [(''press_releases'', JvArray (take n (drop ((page - 1) * n) releases)))]"
    by (simp add: request_page_def paged_server_def payload_get_def)
  moreover have "min (limit - length unique) max_page_size = n" using assms(2) by (simp add: n_def)
  ultimately show ?thesis
    using assms(2-) n unfolding fetch_pages.simps [of tools _ symbols language limit page unique]
    by (simp add: payload_get_def Let_def)
qed

lemma put_known: "parse_item tools raw = None \<or> (\<exists>i. parse_item tools raw = Some i \<and> map_of d (ni_id i) = Some i)
  \<Longrightarrow> put_release tools raw d = d"
  by (auto simp: put_release_def dict_put_same)

lemma fold_put_known:
  "(\<And>raw. raw \<in> set releases \<Longrightarrow> parse_item tools raw = None \<or> (\<exists>i. parse_item tools raw = Some i \<and> map_of d (ni_id i) = Some i))
   \<Longrightarrow> fold (put_release tools) releases d = d"
  by (induction releases) (simp_all add: put_known)

definition parsed :: "news_tools \<Rightarrow> jvalue list \<Rightarrow> news_item list" where
  "parsed tools releases = List.map_filter (parse_item tools) releases"

lemma parsed_simps [simp]:
  "parsed tools [] = []" "parsed tools (xs @ ys) = parsed tools xs @ parsed tools ys"
  "parsed tools (raw # xs) = (case parse_item tools raw of None \<Rightarrow> parsed tools xs | Some i \<Rightarrow> i # parsed tools xs)"
  by (simp_all add: parsed_def map_filter_def split: option.splits)

lemma set_parsed: "set (parsed tools releases) = {i. \<exists>raw \<in> set releases. parse_item tools raw = Some i}"
  by (induction releases) (auto split: option.splits)

lemma length_parsed: "length (parsed tools releases) + length (filter (\<lambda>r. parse_item tools r = None) releases) = length releases"
  by (induction releases) (auto split: option.splits)

definition dict_of :: "news_item list \<Rightarrow> (string \<times> news_item) list" where
  "dict_of items = map (\<lambda>i. (ni_id i, i)) items"

lemma fold_put_new:
  "distinct (map ni_id (items @ parsed tools releases))
   \<Longrightarrow> fold (put_release tools) releases (dict_of items) = dict_of (items @ parsed tools releases)"
proof (induction releases arbitrary: items)
  case (Cons raw releases)
  show ?case
  proof (cases "parse_item tools raw")
    case (Some i)
    have "put_release tools raw (dict_of items) = dict_of (items @ [i])"
      using Cons.prems Some by (simp add: put_release_def dict_of_def dict_put_new image_image)
    then show ?thesis using Cons.IH [of "items @ [i]"] Cons.prems Some by simp
  qed (use Cons in \<open>simp add: put_release_def\<close>)
qed simp

lemma map_of_dict_of: "distinct (map ni_id items) \<Longrightarrow> i \<in> set items \<Longrightarrow> map_of (dict_of items) (ni_id i) = Some i"
  by (auto simp: dict_of_def comp_def intro!: map_of_is_SomeI)

lemma parsed_known:
  assumes "raw \<in> set releases" "distinct (map ni_id (parsed tools releases))"
  shows "parse_item tools raw = None \<or> (\<exists>i. parse_item tools raw = Some i \<and> map_of (dict_of (parsed tools releases)) (ni_id i) = Some i)"
proof (cases "parse_item tools raw")
  case (Some i)
  then have "i \<in> set (parsed tools releases)" using assms(1) by (auto simp: set_parsed)
  then show ?thesis using Some map_of_dict_of [OF assms(2)] by simp
qed simp

text \<open>
  C23. The size of a page is the number of items still missing, so the pages are not consecutive: if one
  to four of the first twenty releases are unusable, the third to the fifth request ask again for
  releases that are already there, and fewer than twenty items are returned, whatever releases follow.
\<close>

theorem news_pages_overlap:
  fixes releases tools
  defines "k \<equiv> length (filter (\<lambda>r. parse_item tools r = None) (take 20 releases))"
  assumes "1 \<le> k" "k \<le> 4" "20 \<le> length releases"
    and "distinct (map ni_id (parsed tools (take 20 releases)))" "list_all (\<lambda>i. \<not> is_naive i) (parsed tools (take 20 releases))"
    and "news_symbols [] symbols \<noteq> []"
  shows "\<exists>items. news_get_latest tools (paged_server releases) symbols 20 language = Inr items
    \<and> set items = set (parsed tools (take 20 releases)) \<and> length items = 20 - k"
proof -
  let ?fetch = "fetch_pages tools (paged_server releases) (join_commas (news_symbols [] symbols)) language 20"
  let ?first = "parsed tools (take 10 releases)" and ?all = "parsed tools (take 20 releases)"
  have twenty: "take 20 releases = take 10 releases @ take 10 (drop 10 releases)"
    by (metis take_add numeral_Bit0)
  have len: "length ?all = 20 - k" "length ?first \<le> 10"
    using length_parsed [of tools "take 20 releases"] length_parsed [of tools "take 10 releases"] assms(4) by (simp_all add: k_def)
  have one: "?fetch 1 [] = ?fetch 2 (dict_of ?first)"
    using fetch_page_step [of "[]" 20 1 releases tools] fold_put_new [of "[]" tools "take 10 releases"] assms(4,5)
    by (simp add: max_pages_def max_page_size_def dict_of_def [of "[]"] twenty numeral_2_eq_2)
  have size: "min (max (20 - length (dict_of ?first)) 1) max_page_size = 10"
    using len(2) by (simp add: dict_of_def max_page_size_def)
  have "fold (put_release tools) (take 10 (drop 10 releases)) (dict_of ?first) = dict_of ?all"
    using fold_put_new [of ?first tools "take 10 (drop 10 releases)"] assms(5) by (simp add: twenty)
  then have two: "?fetch 2 (dict_of ?first) = ?fetch 3 (dict_of ?all)"
    using fetch_page_step [of "dict_of ?first" 20 2 releases tools, unfolded size] assms(4) len(2)
    by (simp add: max_pages_def dict_of_def [of ?first] numeral_3_eq_3)
  have again: "?fetch page (dict_of ?all) = ?fetch (page + 1) (dict_of ?all)" if "1 \<le> page" "page \<le> 5" for page
  proof -
    have size: "min (max (20 - length (dict_of ?all)) 1) max_page_size = k"
      using len(1) assms(2,3) by (simp add: dict_of_def max_page_size_def)
    have "(page - 1) * k + k = page * k" using that(1) by (cases page) simp_all
    moreover have "page * k \<le> 5 * 4" using that(2) assms(3) by (rule mult_le_mono)
    ultimately have within: "(page - 1) * k + k \<le> 20" by simp
    have "set (take k (drop ((page - 1) * k) releases)) \<subseteq> set (take 20 releases)"
    proof
      fix raw assume "raw \<in> set (take k (drop ((page - 1) * k) releases))"
      then have "raw \<in> set (take ((page - 1) * k + k) releases)" by (simp add: take_add)
      then show "raw \<in> set (take 20 releases)" using set_take_subset_set_take [OF within, of releases] by blast
    qed
    then have "fold (put_release tools) (take k (drop ((page - 1) * k) releases)) (dict_of ?all) = dict_of ?all"
      using assms(5) by (intro fold_put_known parsed_known) auto
    then show ?thesis
      using fetch_page_step [of "dict_of ?all" 20 page releases tools, unfolded size] within that len(1) assms(2,4)
      by (simp add: max_pages_def dict_of_def)
  qed
  have "?fetch 6 (dict_of ?all) = Inr (dict_of ?all)"
    by (simp add: fetch_pages.simps max_pages_def)
  then have fetched: "?fetch 1 [] = Inr (dict_of ?all)"
    using one two again [of 3] again [of 4] again [of 5] by simp
  have shown: "map snd (dict_of ?all) = ?all" by (simp add: dict_of_def comp_def)
  have "\<not> list_ex is_naive ?all" using assms(6) by (auto simp: list_all_iff list_ex_iff)
  then show ?thesis
    using fetched assms(7) len(1) unfolding news_get_latest_def
    by (simp add: Let_def sort_items_def shown)
qed

section \<open>Naive and aware times\<close>

lemma news_symbols_canonical:
  "s \<in> set (news_symbols seen symbols) \<longleftrightarrow> s \<in> normal_symbol ` set symbols \<and> s \<noteq> [] \<and> s \<notin> set seen"
  by (induction seen symbols rule: news_symbols.induct) (auto simp: Let_def)

lemma distinct_news_symbols: "distinct (news_symbols seen symbols)"
  by (induction seen symbols rule: news_symbols.induct) (auto simp: Let_def news_symbols_canonical)

lemma news_symbols_fix:
  "distinct symbols \<Longrightarrow> (\<And>s. s \<in> set symbols \<Longrightarrow> normal_symbol s = s \<and> s \<noteq> [] \<and> s \<notin> set seen) \<Longrightarrow> news_symbols seen symbols = symbols"
  by (induction seen symbols rule: news_symbols.induct) (auto simp: Let_def)

lemma news_symbols_idem [simp]: "news_symbols [] (news_symbols [] symbols) = news_symbols [] symbols"
  by (rule news_symbols_fix [OF distinct_news_symbols]) (auto simp: news_symbols_canonical)

text \<open>
  A page on which one release has a time zone and another has none makes the whole call fail with a
  \<open>TypeError\<close> out of the sort, which is none of the expected errors of a provider: even with a stale copy
  in the cache the user gets no news.
\<close>

theorem news_zones_clash:
  assumes "news_tolerable e" "news_fresh e r = None"
    and "nl_client e (join_commas (news_symbols [] (nl_symbols e))) ''en'' 10 1
      = Inr (200, Some (JvObject [(''press_releases'', JvArray [raw, raw'])]))"
    and "parse_item (nl_tools e) raw = Some i" "parse_item (nl_tools e) raw' = Some j" "ni_id i \<noteq> ni_id j"
    and "is_naive i" "\<not> is_naive j"
  shows "\<exists>m. news_serve e r = (Inl (TypeError m), r)"
proof -
  have "request_page (nl_client e) (join_commas (news_symbols [] (nl_symbols e))) ''en'' 10 1 = Inr [(''press_releases'', JvArray [raw, raw'])]"
    using assms(3) by (simp add: request_page_def payload_get_def)
  moreover have "fold (put_release (nl_tools e)) [raw, raw'] [] = [(ni_id i, i), (ni_id j, j)]"
    using assms(4-6) by (simp add: put_release_def)
  ultimately have "fetch_pages (nl_tools e) (nl_client e) (join_commas (news_symbols [] (nl_symbols e))) ''en'' 20 1 []
      = Inr [(ni_id i, i), (ni_id j, j)]"
    by (simp add: fetch_pages.simps payload_get_def max_pages_def max_page_size_def)
  then have "\<exists>m. news_ask e = Inl (TypeError m)"
    using assms(1,7,8) by (simp add: news_ask_def news_get_latest_def provider_fetch_limit_def news_tolerable_def sort_items_def)
  then obtain m where "news_ask e = Inl (TypeError m)" by blast
  then show ?thesis using news.uncaught [OF assms(1,2)] by (auto simp: provider_failure_def)
qed

section \<open>Falling back\<close>

lemma news_signature_set:
  assumes "set (news_symbols [] symbols') = set (news_symbols [] symbols)"
  shows "news_signature digest (news_symbols [] symbols') = news_signature digest (news_symbols [] symbols)"
proof -
  have "normal_symbol ` {s \<in> set (news_symbols [] ss). strip s \<noteq> []} = set (news_symbols [] ss)" for ss
    by (force simp: news_symbols_canonical)
  then have "set (map normal_symbol (filter (\<lambda>s. strip s \<noteq> []) (news_symbols [] symbols')))
      = set (map normal_symbol (filter (\<lambda>s. strip s \<noteq> []) (news_symbols [] symbols)))"
    using assms by simp
  then have "sort (remdups (map normal_symbol (filter (\<lambda>s. strip s \<noteq> []) (news_symbols [] symbols'))))
      = sort (remdups (map normal_symbol (filter (\<lambda>s. strip s \<noteq> []) (news_symbols [] symbols))))"
    by (metis sorted_list_of_set_sort_remdups)
  then show ?thesis by (simp add: news_signature_def)
qed

text \<open>
  News that the provider gave for a watchlist are served again to every user with the same symbols,
  in any order, when the provider fails: as a cached answer until the longer expiry, cut to the limit of
  the new request; after it the call raises \<open>NewsProviderError\<close>.
\<close>

theorem news_served_again:
  assumes "news_working e" "news_working e'" "nl_digest e' = nl_digest e"
    and "set (news_symbols [] (nl_symbols e')) = set (news_symbols [] (nl_symbols e))"
    and "news_fresh e r = None" "news_ask e = Inr items" "news_ask e' = Inl (NewsProviderError m)"
  shows "\<exists>r'. news_serve e r = (Inr (news_response_of e False items), r')
    \<and> news_serve e' r' = (if nl_clock e' < nl_clock e + nc_stale_ttl_seconds (nl_cache e)
        then Inr (news_response_of e' True items) else Inl no_news, r')"
  using news.served_again [OF assms(1,2) _ assms(5-7)] assms(3) news_signature_set [OF assms(4)]
  by (simp add: provider_failure_def)

section \<open>Witnesses\<close>

definition release_json :: "string \<Rightarrow> string \<Rightarrow> jvalue" where
  "release_json i t = JvObject [(''id'', JvText i), (''datetime'', JvText t), (''title'', JvText ''news'')]"

definition plain_tools :: news_tools where
  "plain_tools = \<lparr>nt_fromisoformat = (\<lambda>s. if s = ''noon'' then Some (Naive 0) else if s = ''dawn'' then Some (Aware 0) else None),
     nt_unescape = (\<lambda>s. s)\<rparr>"

definition news_of :: "string \<Rightarrow> datetime \<Rightarrow> news_item" where
  "news_of i t = \<lparr>ni_id = i, ni_published_at = t, ni_title = [110, 101, 119, 115], ni_summary = [110, 101, 119, 115]\<rparr>"

lemma plain_releases [simp]:
  "parse_item plain_tools (release_json ''a'' ''noon'') = Some (news_of ''a'' (Naive 0))"
  "parse_item plain_tools (release_json ''b'' ''dawn'') = Some (news_of ''b'' (Aware 0))"
  by code_simp+

definition news_call_at :: "news_client \<Rightarrow> int \<Rightarrow> news_call" where
  "news_call_at client now = \<lparr>nl_cache = \<lparr>nc_fresh_ttl_seconds = 300, nc_stale_ttl_seconds = 1800\<rparr>, nl_tools = plain_tools,
     nl_client = client, nl_digest = (\<lambda>s. s), nl_clock = now, nl_fresh_failure = None, nl_put_failure = None,
     nl_stale_failure = None, nl_symbols = [''SPY''], nl_limit = 20\<rparr>"

lemma spy_symbols [simp]: "normal_symbol ''SPY'' = ''SPY''"
  by code_simp

lemma news_ttls [simp]: "\<exists>f g. news_cache_new f g = Inr \<lparr>nc_fresh_ttl_seconds = 300, nc_stale_ttl_seconds = 1800\<rparr>"
  by (intro exI [of _ 300] exI [of _ 1800]) (simp add: news_cache_new_def)

lemma news_call_at_sel [simp]:
  "news_tolerable (news_call_at client now)" "news_working (news_call_at client now)"
  "nl_symbols (news_call_at client now) = [''SPY'']" "nl_client (news_call_at client now) = client"
  "nl_clock (news_call_at client now) = now" "nl_tools (news_call_at client now) = plain_tools"
  "nl_cache (news_call_at client now) = \<lparr>nc_fresh_ttl_seconds = 300, nc_stale_ttl_seconds = 1800\<rparr>"
  "nl_digest (news_call_at client now) = (\<lambda>s. s)" "news_fresh (news_call_at client now) Map.empty = None"
  by (simp_all add: news_call_at_def news_tolerable_def news_working_def news_fresh_def news_copy_def redis_get_def)

definition two_zones :: news_client where
  "two_zones = (\<lambda>_ _ _ _. Inr (200, Some (JvObject [(''press_releases'', JvArray [release_json ''a'' ''noon'', release_json ''b'' ''dawn''])])))"

theorem news_zones_clash_witness:
  "\<exists>m. news_serve (news_call_at two_zones 0) Map.empty = (Inl (TypeError m), Map.empty)"
  by (rule news_zones_clash [of _ _ "release_json ''a'' ''noon''" "release_json ''b'' ''dawn''" "news_of ''a'' (Naive 0)" "news_of ''b'' (Aware 0)"])
     (simp_all add: two_zones_def news_of_def is_naive_def)

lemma ask_one_release:
  "news_ask (news_call_at (paged_server [release_json ''b'' ''dawn'']) now) = Inr [news_of ''b'' (Aware 0)]"
proof -
  have "request_page (paged_server [release_json ''b'' ''dawn'']) s l 10 1 = Inr [(''press_releases'', JvArray [release_json ''b'' ''dawn''])]" for s l
    by (simp add: request_page_def paged_server_def payload_get_def)
  then have "fetch_pages plain_tools (paged_server [release_json ''b'' ''dawn'']) s l 20 1 [] = Inr [(''b'', news_of ''b'' (Aware 0))]" for s l
    by (simp add: fetch_pages.simps payload_get_def max_pages_def max_page_size_def put_release_def news_of_def)
  then show ?thesis
    by (simp add: news_ask_def news_get_latest_def provider_fetch_limit_def sort_items_def is_naive_def news_of_def)
qed

lemma ask_no_one: "news_ask (news_call_at (\<lambda>_ _ _ _. Inl connection_error) now) = Inl (NewsProviderError ''Unable to connect to Twelve Data.'')"
  by (simp add: news_ask_def news_get_latest_def provider_fetch_limit_def fetch_pages.simps request_page_def max_pages_def)

theorem news_served_again_witness:
  "\<exists>r'. news_serve (news_call_at (\<lambda>_ _ _ _. Inl connection_error) 1000) r'
    = (Inr \<lparr>nr_items = [news_of ''b'' (Aware 0)], nr_count = 1, nr_cached = True\<rparr>, r')"
proof -
  have "\<exists>r'. news_serve (news_call_at (\<lambda>_ _ _ _. Inl connection_error) 1000) r'
      = (Inr (news_response_of (news_call_at (\<lambda>_ _ _ _. Inl connection_error) 1000) True [news_of ''b'' (Aware 0)]), r')"
    using news_served_again [of "news_call_at (paged_server [release_json ''b'' ''dawn'']) 0" "news_call_at (\<lambda>_ _ _ _. Inl connection_error) 1000",
        OF _ _ _ _ _ ask_one_release ask_no_one, of Map.empty]
    by auto
  then show ?thesis by (simp add: news_response_of_def news_call_at_def)
qed

theorem news_list_sound_witness:
  "\<exists>items. news_get_latest plain_tools (paged_server [release_json ''b'' ''dawn'']) [''SPY''] 20 ''en'' = Inr items
    \<and> items = [news_of ''b'' (Aware 0)] \<and> length items \<le> 20 \<and> distinct (map ni_id items)"
  using ask_one_release [of 0] news_list_sound [of plain_tools "paged_server [release_json ''b'' ''dawn'']" "[''SPY'']" 20 "''en''"]
  by (simp add: news_ask_def provider_fetch_limit_def)

text \<open>Twenty-five releases, the first of which has no title.\<close>

definition many_releases :: "jvalue list" where
  "many_releases = JvObject [] # map (\<lambda>n. JvObject [(''id'', JvText (replicate n CHR ''x'')), (''datetime'', JvText ''dawn''), (''title'', JvText ''news'')]) [1..<25]"

theorem news_pages_overlap_witness:
  "\<exists>items. news_get_latest plain_tools (paged_server many_releases) [''SPY''] 20 ''en'' = Inr items \<and> length items = 19"
proof -
  have none: "filter (\<lambda>r. parse_item plain_tools r = None) (take 20 many_releases) = [JvObject []]"
    and items: "map ni_id (parsed plain_tools (take 20 many_releases)) = map (\<lambda>n. replicate n CHR ''x'') [1..<20]"
      "list_all (\<lambda>i. \<not> is_naive i) (parsed plain_tools (take 20 many_releases))"
      "20 \<le> length many_releases"
    by code_simp+
  have "distinct (map ni_id (parsed plain_tools (take 20 many_releases)))" unfolding items(1) by code_simp
  then show ?thesis
    using news_pages_overlap [of plain_tools many_releases "[''SPY'']" "''en''"] none items(2,3) by auto
qed

end
