(* ===== verification/Trading_Routes.thy ===== *)
theory Trading_Routes
  imports Trading_Transactions Trading_Portfolio
begin

text \<open>
  The routes of paper trading (\<open>services/api/routes/trading.py\<close>) with their schemas
  (\<open>services/api/schemas/trading.py\<close>, \<open>trading_write.py\<close>), the identity of the caller
  (\<open>services/api/dependencies.py\<close>) and the local simulation of quotes
  (\<open>services/api/routes/trading_simulation.py\<close>). An answer that is no exception has the status code
  of the route; an exception other than \<open>HTTPException\<close> is answered 500 by the framework. The exception
  class \<open>InvalidOrderError\<close> is raised nowhere.
\<close>

section \<open>Requests and responses\<close>

definition get_current_user_id :: "string option \<Rightarrow> string result" where
  "get_current_user_id x_user_id = (case x_user_id of
     None \<Rightarrow> Inl (HTTPException 401 ''missing X-User-Id header'')
   | Some h \<Rightarrow>
       let user_id = strip h in
       if user_id = [] then Inl (HTTPException 401 ''invalid X-User-Id header'')
       else if 128 < length user_id then Inl (HTTPException 401 ''invalid X-User-Id header'')
       else Inr user_id)"

text \<open>A request that does not validate is answered 422 by the framework.\<close>

definition invalid_request :: error where
  "invalid_request = HTTPException 422 ''invalid request''"

definition market_order_request :: "string \<Rightarrow> int \<Rightarrow> (string \<times> int) result" where
  "market_order_request symbol quantity =
     (let s = trim symbol in
      if 1 \<le> length s \<and> length s \<le> 32 \<and> 0 < quantity then Inr (s, quantity) else Inl invalid_request)"

definition limit_order_request :: "string \<Rightarrow> int \<Rightarrow> decimal \<Rightarrow> (string \<times> int \<times> decimal) result" where
  "limit_order_request symbol quantity limit =
     (case market_order_request symbol quantity of
        Inl e \<Rightarrow> Inl e
      | Inr (s, n) \<Rightarrow> if 0 < limit then Inr (s, n, limit) else Inl invalid_request)"

definition create_account_request :: "decimal option \<Rightarrow> decimal result" where
  "create_account_request initial =
     (case initial of None \<Rightarrow> Inr 100000 | Some x \<Rightarrow> if 0 < x then Inr x else Inl invalid_request)"

definition read_limit :: "int option \<Rightarrow> int result" where
  "read_limit limit = (case limit of None \<Rightarrow> Inr 100 | Some n \<Rightarrow> if 1 \<le> n \<and> n \<le> 500 then Inr n else Inl invalid_request)"

record account_response =
  pa_account_id :: uuid
  pa_initial_cash :: decimal
  pa_cash_balance :: decimal

definition account_response_of :: "paper_account \<Rightarrow> account_response" where
  "account_response_of a = \<lparr>pa_account_id = account_id a, pa_initial_cash = initial_cash a, pa_cash_balance = cash_balance a\<rparr>"

record position_response =
  pp_symbol :: string
  pp_quantity :: int
  pp_average_cost :: decimal
  pp_realized_pnl :: decimal

definition position_response_of :: "position \<Rightarrow> position_response" where
  "position_response_of p = \<lparr>pp_symbol = p_symbol p, pp_quantity = p_quantity p, pp_average_cost = average_cost p,
     pp_realized_pnl = realized_pnl p\<rparr>"

record order_response =
  po_order_id :: uuid
  po_account_id :: uuid
  po_symbol :: string
  po_side :: order_side
  po_quantity :: int
  po_order_type :: order_type
  po_status :: order_status
  po_filled_quantity :: int
  po_limit_price :: "decimal option"

definition order_response_of :: "paper_order \<Rightarrow> order_response" where
  "order_response_of r = \<lparr>po_order_id = order_id r, po_account_id = o_account_id r, po_symbol = o_symbol r, po_side = o_side r,
     po_quantity = o_quantity r, po_order_type = o_type r, po_status = o_status r, po_filled_quantity = filled_quantity r,
     po_limit_price = limit_price r\<rparr>"

record execution_response =
  pe_execution_id :: uuid
  pe_order_id :: uuid
  pe_symbol :: string
  pe_side :: order_side
  pe_quantity :: int
  pe_price :: decimal

definition execution_response_of :: "execution \<Rightarrow> execution_response" where
  "execution_response_of x = \<lparr>pe_execution_id = execution_id x, pe_order_id = ex_order_id x, pe_symbol = ex_symbol x,
     pe_side = ex_side x, pe_quantity = ex_quantity x, pe_price = ex_price x\<rparr>"

record valuation_response =
  pv_symbol :: string
  pv_quantity :: int
  pv_average_cost :: decimal
  pv_mark_price :: "decimal option"
  pv_cost_basis :: decimal
  pv_market_value :: decimal
  pv_realized_pnl :: decimal
  pv_unrealized_pnl :: decimal
  pv_total_pnl :: decimal

definition valuation_response_of :: "trading_valuation \<Rightarrow> valuation_response" where
  "valuation_response_of v = \<lparr>pv_symbol = tv_symbol v, pv_quantity = tv_quantity v, pv_average_cost = tv_average_cost v,
     pv_mark_price = tv_mark_price v, pv_cost_basis = tv_cost_basis v, pv_market_value = tv_market_value v,
     pv_realized_pnl = tv_realized_pnl v, pv_unrealized_pnl = tv_unrealized_pnl v, pv_total_pnl = tv_total_pnl v\<rparr>"

record trading_portfolio_response =
  tp_account_id :: uuid
  tp_initial_cash :: decimal
  tp_cash_balance :: decimal
  tp_total_cost_basis :: decimal
  tp_market_value :: decimal
  tp_equity :: decimal
  tp_realized_pnl :: decimal
  tp_unrealized_pnl :: decimal
  tp_total_pnl :: decimal
  tp_positions :: "valuation_response list"

definition trading_portfolio_response_of :: "trading_snapshot \<Rightarrow> trading_portfolio_response" where
  "trading_portfolio_response_of s = \<lparr>tp_account_id = ts_account_id s, tp_initial_cash = ts_initial_cash s,
     tp_cash_balance = ts_cash_balance s, tp_total_cost_basis = ts_total_cost_basis s, tp_market_value = ts_market_value s,
     tp_equity = ts_equity s, tp_realized_pnl = ts_realized_pnl s, tp_unrealized_pnl = ts_unrealized_pnl s,
     tp_total_pnl = ts_total_pnl s, tp_positions = map valuation_response_of (ts_positions s)\<rparr>"

record process_response =
  lp_order_id :: uuid
  lp_executed :: bool
  lp_execution :: "execution_response option"

definition process_response_of :: "uuid \<Rightarrow> execution option \<Rightarrow> process_response" where
  "process_response_of oid x = \<lparr>lp_order_id = oid, lp_executed = (x \<noteq> None), lp_execution = map_option execution_response_of x\<rparr>"

section \<open>Exceptions as answers\<close>

definition is_value_error :: "error \<Rightarrow> bool" where
  "is_value_error e = (case e of
     ValueError _ \<Rightarrow> True | TradingAccountAlreadyExistsError \<Rightarrow> True | TradingWriteAccountNotFoundError \<Rightarrow> True
   | TradingWriteOrderNotFoundError \<Rightarrow> True | TradingPortfolioAccountNotFoundError \<Rightarrow> True
   | TradingPortfolioValuationUnavailableError _ \<Rightarrow> True | InvalidAlertMessageError _ \<Rightarrow> True
   | InvalidKinesisMarketEventError _ \<Rightarrow> True | ValidationError \<Rightarrow> True | _ \<Rightarrow> False)"

definition paper_account_not_found :: error where
  "paper_account_not_found = HTTPException 404 ''paper account not found''"

definition paper_order_not_found :: error where
  "paper_order_not_found = HTTPException 404 ''paper order not found''"

definition no_quote :: error where
  "no_quote = ValueError ''No current bid/ask market quote available''"

definition write_answer :: "error \<Rightarrow> error" where
  "write_answer e = (case e of
     TradingWriteAccountNotFoundError \<Rightarrow> paper_account_not_found
   | TradingWriteOrderNotFoundError \<Rightarrow> paper_order_not_found
   | InsufficientBuyingPowerError m \<Rightarrow> HTTPException 409 m
   | InsufficientPositionError m \<Rightarrow> HTTPException 409 m
   | _ \<Rightarrow> if is_value_error e
          then if e = no_quote then HTTPException 503 ''current trading quote is unavailable''
               else HTTPException 422 (case e of ValueError m \<Rightarrow> m | _ \<Rightarrow> [])
          else e)"

definition read_answer :: "error \<Rightarrow> error" where
  "read_answer e = (if is_value_error e then paper_account_not_found else e)"

definition snapshot_answer :: "error \<Rightarrow> error" where
  "snapshot_answer e = (case e of
     TradingPortfolioAccountNotFoundError \<Rightarrow> paper_account_not_found
   | TradingPortfolioValuationUnavailableError _ \<Rightarrow> HTTPException 503 ''paper portfolio valuation is unavailable''
   | _ \<Rightarrow> e)"

definition open_answer :: "error \<Rightarrow> error" where
  "open_answer e = (if e = TradingAccountAlreadyExistsError then HTTPException 409 ''paper account already exists'' else e)"

definition answering_with :: "(error \<Rightarrow> error) \<Rightarrow> ('s, 'a) prog \<Rightarrow> ('s, 'a) prog" where
  "answering_with h m = try_except m (\<lambda>e. raise (h e))"

section \<open>Routes\<close>

definition route_account :: "string option \<Rightarrow> (unit_of_work, account_response) prog" where
  "route_account header =
     bind (of_result (get_current_user_id header)) (\<lambda>user_id.
     bind (query_get_account user_id) (\<lambda>account.
     case account of None \<Rightarrow> raise paper_account_not_found | Some a \<Rightarrow> ret (account_response_of a)))"

definition route_portfolio ::
  "db_env \<Rightarrow> (string list \<Rightarrow> (string \<Rightarrow> decimal option) result) \<Rightarrow> string option \<Rightarrow> (unit_of_work, trading_portfolio_response) prog" where
  "route_portfolio env price_source header =
     bind (of_result (get_current_user_id header)) (\<lambda>user_id.
     bind (answering_with snapshot_answer (get_snapshot env price_source user_id)) (\<lambda>snapshot.
     ret (trading_portfolio_response_of snapshot)))"

definition route_positions :: "db_env \<Rightarrow> string option \<Rightarrow> (unit_of_work, position_response list) prog" where
  "route_positions env header =
     bind (of_result (get_current_user_id header)) (\<lambda>user_id.
     bind (answering_with read_answer (query_list_positions env user_id)) (\<lambda>owned. ret (map position_response_of owned)))"

definition route_orders :: "string option \<Rightarrow> int option \<Rightarrow> (unit_of_work, order_response list) prog" where
  "route_orders header limit =
     bind (of_result (get_current_user_id header)) (\<lambda>user_id.
     bind (of_result (read_limit limit)) (\<lambda>n.
     bind (answering_with read_answer (query_list_orders n user_id)) (\<lambda>rs. ret (map order_response_of rs))))"

definition route_open_orders :: "string option \<Rightarrow> int option \<Rightarrow> (unit_of_work, order_response list) prog" where
  "route_open_orders header limit =
     bind (of_result (get_current_user_id header)) (\<lambda>user_id.
     bind (of_result (read_limit limit)) (\<lambda>n.
     bind (answering_with read_answer (query_list_open_orders n user_id)) (\<lambda>rs. ret (map order_response_of rs))))"

definition route_executions :: "string option \<Rightarrow> int option \<Rightarrow> (unit_of_work, execution_response list) prog" where
  "route_executions header limit =
     bind (of_result (get_current_user_id header)) (\<lambda>user_id.
     bind (of_result (read_limit limit)) (\<lambda>n.
     bind (answering_with read_answer (query_list_executions n user_id)) (\<lambda>xs. ret (map execution_response_of xs))))"

definition route_market_buy where
  "route_market_buy env provider fo fe header symbol quantity =
     bind (of_result (get_current_user_id header)) (\<lambda>user_id.
     bind (of_result (market_order_request symbol quantity)) (\<lambda>(s, n).
     bind (answering_with write_answer (write_market_buy env provider fo fe user_id s n)) (\<lambda>result.
     ret (order_response_of (tr_order result), execution_response_of (tr_execution result)))))"

definition route_market_sell where
  "route_market_sell env provider fo fe header symbol quantity =
     bind (of_result (get_current_user_id header)) (\<lambda>user_id.
     bind (of_result (market_order_request symbol quantity)) (\<lambda>(s, n).
     bind (answering_with write_answer (write_market_sell env provider fo fe user_id s n)) (\<lambda>result.
     ret (order_response_of (tr_order result), execution_response_of (tr_execution result)))))"

definition route_limit_buy where
  "route_limit_buy env provider fo header symbol quantity limit =
     bind (of_result (get_current_user_id header)) (\<lambda>user_id.
     bind (of_result (limit_order_request symbol quantity limit)) (\<lambda>(s, n, x).
     bind (answering_with write_answer (write_submit_limit_buy env provider fo user_id s n x)) (\<lambda>r.
     ret (order_response_of r))))"

definition route_limit_sell where
  "route_limit_sell env provider fo header symbol quantity limit =
     bind (of_result (get_current_user_id header)) (\<lambda>user_id.
     bind (of_result (limit_order_request symbol quantity limit)) (\<lambda>(s, n, x).
     bind (answering_with write_answer (write_submit_limit_sell env provider fo user_id s n x)) (\<lambda>r.
     ret (order_response_of r))))"

definition route_cancel where
  "route_cancel env header oid =
     bind (of_result (get_current_user_id header)) (\<lambda>user_id.
     bind (answering_with write_answer (write_cancel_limit_order env user_id oid)) (\<lambda>r. ret (order_response_of r)))"

definition route_process where
  "route_process env provider fe header oid =
     bind (of_result (get_current_user_id header)) (\<lambda>user_id.
     bind (answering_with write_answer (write_process_limit_order env provider fe user_id oid)) (\<lambda>x.
     ret (process_response_of oid x)))"

definition route_create_account where
  "route_create_account env fresh header initial =
     bind (of_result (get_current_user_id header)) (\<lambda>user_id.
     bind (of_result (create_account_request initial)) (\<lambda>x.
     bind (answering_with open_answer (open_account env fresh user_id x)) (\<lambda>a. ret (account_response_of a))))"

section \<open>Simulated quotes\<close>

definition require_local :: "bool \<Rightarrow> unit result" where
  "require_local is_local = (if is_local then Inr () else Inl (HTTPException 404 ''not found''))"

definition route_simulated_quote :: "bool \<Rightarrow> int \<Rightarrow> string \<Rightarrow> (payload_dict redis, domain_quote) prog" where
  "route_simulated_quote is_local now symbol =
     bind (of_result (require_local is_local)) (\<lambda>_.
     bind get_state (\<lambda>r.
     bind (of_result (cache_get_quote now r US symbol)) (\<lambda>found.
     case found of None \<Rightarrow> raise (HTTPException 404 ''simulated quote not found'') | Some q \<Rightarrow> ret q)))"

record simulated_quote_request =
  sq_symbol :: string
  sq_bid_price :: decimal
  sq_ask_price :: decimal
  sq_bid_size :: int
  sq_ask_size :: int
  sq_ttl_seconds :: int

definition simulated_quote_request_new :: "simulated_quote_request \<Rightarrow> simulated_quote_request result" where
  "simulated_quote_request_new q =
     (let s = trim (sq_symbol q) in
      if 1 \<le> length s \<and> length s \<le> 32 \<and> 0 < sq_bid_price q \<and> 0 < sq_ask_price q \<and> 0 \<le> sq_bid_size q \<and> 0 \<le> sq_ask_size q
         \<and> 1 \<le> sq_ttl_seconds q \<and> sq_ttl_seconds q \<le> 86400 \<and> sq_bid_price q \<le> sq_ask_price q
      then Inr (q\<lparr>sq_symbol := s\<rparr>) else Inl invalid_request)"

definition simulated_payload :: "simulated_quote_request \<Rightarrow> int \<Rightarrow> payload_dict" where
  "simulated_payload q now =
     [(''symbol'', VText (sq_symbol q)), (''market'', VText (market_name US)), (''bid_price'', VDecimal (sq_bid_price q)),
      (''ask_price'', VDecimal (sq_ask_price q)), (''bid_size'', VInt (sq_bid_size q)), (''ask_size'', VInt (sq_ask_size q)),
      (''timestamp'', VTime (Aware now))]"

text \<open>The clock of Redis counts seconds, the timestamp of a quote microseconds.\<close>

definition route_set_simulated_quote ::
  "bool \<Rightarrow> int \<Rightarrow> int \<Rightarrow> simulated_quote_request \<Rightarrow> (payload_dict redis, domain_quote) prog" where
  "route_set_simulated_quote is_local now timestamp raw =
     bind (of_result (simulated_quote_request_new raw)) (\<lambda>q.
     bind (of_result (require_local is_local)) (\<lambda>_.
     bind (of_result (quote_model_validate (simulated_payload q timestamp))) (\<lambda>quote.
     bind (of_result (quote_cache_new (sq_ttl_seconds q))) (\<lambda>cache.
     bind get_state (\<lambda>r.
     bind (of_result (cache_set_quote cache now r quote)) (\<lambda>r'.
     bind (update_state (\<lambda>_. r')) (\<lambda>_. ret quote)))))))"

end
