(* ===== verification/Ledger_Properties.thy ===== *)
theory Ledger_Properties
  imports Trading_Scenario
begin

text \<open>
  The tables of paper trading are a ledger in every state that the operations, called in any
  order and interleaved with other transactions, can reach; an order is never executed twice;
  only the owner of an order can process or cancel it; and the accounts of one pass of the worker
  add up.
\<close>

section \<open>All or nothing\<close>

text \<open>
  C7. A trading operation that raises, for whatever reason (a missing row, an invalid argument,
  the quote provider, the broker, a constraint, the commit itself), leaves the committed tables
  exactly as the other transactions made them: there is no partial trade.
\<close>
theorem failed_call_changes_nothing:
  assumes "run_call env provider c u = (False, u')"
  shows "by_others env (db u) (db u')"
  using assms
  by (cases c) (auto simp: market_buy_def market_sell_def submit_limit_buy_def submit_limit_sell_def
      dest!: returned_False market_operation_error submit_operation_error process_limit_order_error
        cancel_limit_order_error open_account_error)

theorem failed_call_changes_nothing_witness:
  "db (snd (run_call quiet_db flat_market (MarketBuy 2 3 10 ''aapl'' 50) (idle opened_tables))) = opened_tables"
proof -
  let ?u = "(idle opened_tables)\<lparr>rolled_back := True, held := {10}\<rparr>"
  have run: "run_call quiet_db flat_market (MarketBuy 2 3 10 ''aapl'' 50) (idle opened_tables) = (False, ?u)"
    by (simp add: returned_def poor_scenario)
  have "db ?u = db (idle opened_tables)"
    by (rule by_others_alone [OF failed_call_changes_nothing [OF run]]) (simp add: quiet_db_def)
  then show ?thesis using run by (simp add: idle_def)
qed

text \<open>
  C8. A market operation that returns has settled the trade, on the tables as other transactions
  left them and with no row besides: with the quote of the provider, a buy at the ask needs the cash and takes it, a sale at
  the bid needs the shares and pays for them; the position of the account in the symbol has the new quantity, the
  weighted average cost or the realized profit, and every other position is as it was; one FILLED market order and one execution of the whole quantity
  are appended; and the tables satisfy every constraint.
\<close>
theorem market_trade_settled:
  assumes "well_behaved env provider"
    and "market_operation side env provider fo fe aid symbol n u = (Inr tr, u')"
  shows "\<exists>t m q x. by_others env (db u) t \<and> m \<in> set (accounts t) \<and> ar_id m = aid
    \<and> quote_service_get_quote provider (normal_symbol symbol) = Inr q
    \<and> x = (case side of BUY \<Rightarrow> ask q | SELL \<Rightarrow> bid q) \<and> 0 < x \<and> 0 < n
    \<and> (let sy = normal_symbol symbol; p = stored_position aid sy t; p' = stored_position aid sy (db u');
          amount = dmul x (of_int n)
        in (case side of
             BUY \<Rightarrow> amount \<le> ar_cash_balance m \<and> p_quantity p' = p_quantity p + n
               \<and> average_cost p' = numeric env (ddiv (dadd (dmul (average_cost p) (of_int (p_quantity p))) amount)
                   (of_int (p_quantity p + n)))
               \<and> realized_pnl p' = numeric env (realized_pnl p)
           | SELL \<Rightarrow> n \<le> p_quantity p \<and> p_quantity p' = p_quantity p - n
               \<and> average_cost p' = numeric env (if p_quantity p = n then 0 else average_cost p)
               \<and> realized_pnl p' = numeric env (dadd (realized_pnl p) (dmul (dsub x (average_cost p)) (of_int n))))
         \<and> accounts (db u') = update_where (\<lambda>a. ar_id a = aid) (\<lambda>a. a\<lparr>ar_cash_balance := numeric env
             (case side of BUY \<Rightarrow> dsub (ar_cash_balance m) amount | SELL \<Rightarrow> dadd (ar_cash_balance m) amount)\<rparr>) (accounts t)
         \<and> orders (db u') = orders t @ [\<lparr>or_id = fo, or_account_id = aid, or_symbol = sy, or_side = side, or_type = MARKET,
             or_status = FILLED, or_quantity = n, or_filled_quantity = n, or_limit_price = None, or_created_at = utc_now env\<rparr>]
         \<and> executions (db u') = executions t @ [\<lparr>er_id = fe, er_order_id = fo, er_account_id = aid, er_symbol = sy,
             er_side = side, er_quantity = n, er_price = x, er_executed_at = utc_now env\<rparr>])
    \<and> (\<forall>aid' sy'. (aid', sy') \<noteq> (aid, normal_symbol symbol) \<longrightarrow> stored_position aid' sy' (db u') = stored_position aid' sy' t)
    \<and> constraints_ok (db u') \<and> columns_fit (db u') \<and> committed u'"
proof -
  let ?sy = "normal_symbol symbol"
  have sy: "normal_symbol ?sy = ?sy" and b: "market_body side env provider fo fe aid ?sy n (uow_enter (new_session u)) = (Inr tr, u')"
    and ok: "committed u'" "constraints_ok (db u')" "columns_fit (db u')"
    using assms(2) market_tx.success [of side env provider fo fe aid ?sy n u tr u']
      market_tx.success_constraints [of side env provider fo fe aid ?sy n u tr u']
    by (auto simp: market_operation_def normalize_symbol_def Let_def bind_run split: if_splits)
  have h: "held (uow_enter (new_session u)) = {}" by simp
  from b sy assms(1) h obtain t m p q s t' where t: "t = lock_wait env {aid} (lock_wait env {} (session (uow_enter (new_session u))))"
    and m: "locked_account aid t m" and p: "p = stored_position aid ?sy t" "valid_position p" "p_symbol p = ?sy"
    and q: "quote_service_get_quote provider ?sy = Inr q"
    and fe: "fill_effect q fe \<lparr>b_account = account_of_row m, b_order = market_order (account_of_row m) p side n fo,
        b_position = p\<rparr> (tr_execution tr) s" and r: "b_order s = tr_order tr"
    and t': "account_repo_update env (b_account s) t = Inr t'"
    and u': "db u' = execution_repo_add env aid (tr_execution tr)
      (order_repo_add env (tr_order tr) (position_repo_upsert env aid (b_position s) t'))"
    and "constraints_ok (db u')" "held u' = {aid}"
    by (rule market_body_Inr)
  have aid: "ar_id m = aid" "m \<in> set (accounts t)" using m by (auto simp: locked_account_def dest!: first_where_Some)
  have t0: "by_others env (db u) t" unfolding t uow_enter_sel by (intro by_others_wait by_others_refl)
  have exact: "numeric env (bid q) = bid q" "numeric env (ask q) = ask q"
    by (rule well_behavedD(3,4) [OF assms(1) q])+
  note up = account_repo_update_Inr [OF t']
  have pos: "stored_position a y (db u') = stored_position a y (position_repo_upsert env aid (b_position s) t)" for a y
    using position_upsert_cong [of t' t] up unfolding u' by (simp add: stored_position_def)
  have stp: "p_symbol (b_position s) = ?sy" "account_id (b_account s) = aid"
    using fe p(3) aid by (auto simp: fill_effect_def Let_def bought_position_def sold_position_def split: order_side.splits)
  have rest: "\<forall>aid' sy'. (aid', sy') \<noteq> (aid, ?sy) \<longrightarrow> stored_position aid' sy' (db u') = stored_position aid' sy' t"
    and mine: "stored_position aid ?sy (db u') = stored env (b_position s)"
    unfolding pos by (auto simp: stored_position_upsert stp sy)
  have rows: "accounts (db u') = update_where (\<lambda>a. ar_id a = aid) (\<lambda>a. a\<lparr>ar_cash_balance := numeric env (cash_balance (b_account s))\<rparr>) (accounts t)"
    "orders (db u') = orders t @ [order_row_of env (tr_order tr)]"
    "executions (db u') = executions t @ [execution_row_of env aid (tr_execution tr)]"
    using up stp by (simp_all add: u' execution_repo_add_def order_repo_add_def)
  note fill = fe [unfolded fill_effect_def Let_def]
  show ?thesis
    using t0 aid q rest ok rows fill r exact
    by (intro exI [of _ t] exI [of _ m] exI [of _ q] exI [of _ "case side of BUY \<Rightarrow> ask q | SELL \<Rightarrow> bid q"])
       (cases side; simp add: mine stored_def Let_def market_order_def remaining_quantity_def filled_order_def execution_of_def
         order_row_of_def execution_row_of_def bought_position_def sold_position_def p(1) p(3) [unfolded p(1)])
qed

theorem market_trade_settled_witness:
  "p_quantity (stored_position 10 ''AAPL'' bought_tables) = 5
   \<and> accounts bought_tables = [\<lparr>ar_id = 10, ar_user_id = ''ann'', ar_initial_cash = 1000, ar_cash_balance = 500\<rparr>]"
proof -
  have run: "market_operation BUY quiet_db flat_market 2 3 10 ''aapl'' 5 (idle opened_tables) = (Inr scenario_trade,
     \<lparr>db = bought_tables, session = bought_tables, committed = True, rolled_back = False, held = {10}\<rparr>)"
    using buy_scenario by (simp add: market_buy_def)
  obtain t m q x where "by_others quiet_db opened_tables t" and "m \<in> set (accounts t)" and x: "x = ask q"
    and q: "quote_service_get_quote flat_market ''AAPL'' = Inr q"
    and p: "p_quantity (stored_position 10 ''AAPL'' bought_tables) = p_quantity (stored_position 10 ''AAPL'' t) + 5"
    and a: "accounts bought_tables = update_where (\<lambda>a. ar_id a = 10)
      (\<lambda>a. a\<lparr>ar_cash_balance := numeric_20_6 (dsub (ar_cash_balance m) (dmul x 5))\<rparr>) (accounts t)"
    using market_trade_settled [OF quiet_market_well_behaved run] by (auto simp: Let_def idle_def)
  then have t: "t = opened_tables" using by_others_alone by (fastforce simp: quiet_db_def)
  have "ask q = 100" using q by (simp add: flat_market_simps normalize_symbol_def Let_def) auto
  then show ?thesis
    using p a x \<open>m \<in> set (accounts t)\<close>
    by (simp add: t opened_tables_def stored_position_def flat_position_def first_where_def update_where_def decimal_eval)
qed

section \<open>Every call keeps the ledger\<close>

lemma with_symbol_ledger:
  assumes "ledger env (db u)"
    and "\<And>sy'. normal_symbol sy' = sy' \<Longrightarrow> ledger env (db (snd (f sy' u)))"
  shows "ledger env (db (snd (bind (of_result (normalize_symbol sy)) f u)))"
  using assms by (simp add: bind_run normalize_symbol_def Let_def)

lemma market_operation_ledger:
  assumes "well_behaved env provider" and "ledger env (db u)"
  shows "ledger env (db (snd (market_operation side env provider fo fe aid sy n u)))"
  unfolding market_operation_def
  by (intro with_symbol_ledger market_tx.with_uow_ledger [OF assms] assms(2)) (rule market_body_ledger [OF _ _ assms(1)])

lemma submit_operation_ledger:
  assumes "well_behaved env provider" and "ledger env (db u)"
  shows "ledger env (db (snd (submit_operation side env provider fo aid sy n x u)))"
  unfolding submit_operation_def
  by (intro with_symbol_ledger submit_tx.with_uow_ledger [OF assms] assms(2)) (rule submit_body_ledger [OF _ _ assms(1)])

lemma process_limit_order_ledger:
  assumes "well_behaved env provider" and "ledger env (db u)"
  shows "ledger env (db (snd (process_limit_order env provider fe oid u)))"
  unfolding process_limit_order_def
  by (intro process_tx.with_uow_ledger [OF assms]) (rule process_body_ledger [OF _ assms(1)])

lemma cancel_limit_order_ledger:
  assumes "well_behaved env provider" and "ledger env (db u)"
  shows "ledger env (db (snd (cancel_limit_order env oid u)))"
  unfolding cancel_limit_order_def
  by (intro cancel_tx.with_uow_ledger [OF assms]) (rule cancel_body_ledger [OF _ assms(1)])

lemma open_account_ledger:
  assumes "well_behaved env provider" and "ledger env (db u)"
  shows "ledger env (db (snd (open_account env i user x u)))"
proof -
  have "ledger env (db (snd (with_uow (open_body env i (strip user) x) u)))"
    by (intro open_tx.with_uow_ledger [OF assms]) (rule open_body_ledger [OF _ assms(1)])
  then show ?thesis using assms(2) by (auto simp: open_account_def Let_def bind_run)
qed

lemma returned_state [simp]: "snd (returned m u) = snd (m u)"
  by (auto simp: returned_def split: prod.splits sum.splits)

lemma run_call_ledger:
  assumes "well_behaved env provider" and "ledger env (db u)"
  shows "ledger env (db (snd (run_call env provider c u)))"
  using assms
  by (cases c) (simp_all add: market_buy_def market_sell_def submit_limit_buy_def submit_limit_sell_def
      market_operation_ledger submit_operation_ledger process_limit_order_ledger
      cancel_limit_order_ledger open_account_ledger)

definition empty_tables :: tables where
  "empty_tables = \<lparr>accounts = [], positions = [], orders = [], executions = []\<rparr>"

lemma ledger_empty: "ledger env empty_tables"
  by (simp add: ledger_def empty_tables_def constraints_ok_def cash_ledger_def position_ledger_def
      order_ledger_def executions_of_def stored_position_def)

text \<open>The committed tables that calls and the other transactions can produce.\<close>

inductive reachable_tables :: "db_env \<Rightarrow> quote_provider \<Rightarrow> tables \<Rightarrow> bool" for env provider where
  start: "reachable_tables env provider empty_tables"
| call: "reachable_tables env provider (db u) \<Longrightarrow>
    reachable_tables env provider (db (snd (run_call env provider c u)))"
| other: "reachable_tables env provider t \<Longrightarrow> reachable_tables env provider (lock_wait env L t)"

text \<open>
  C1. Ledger integrity. In every reachable state of the tables, with calls interleaved with
  other transactions: the constraints hold; the cash of every account is its initial cash with
  its executions replayed in order; every position is the replay of the executions of its symbol;
  and an order has exactly one execution when it is FILLED and none otherwise, so that nothing
  is executed twice or after a cancellation. Assumed: quoted prices fit a price column, and the
  row lock of an account keeps other transactions from its rows.
\<close>
theorem reachable_ledger:
  assumes "well_behaved env provider" and "reachable_tables env provider t"
  shows "ledger env t"
  using assms(2)
proof induction
  case start
  show ?case by (rule ledger_empty)
next
  case (call u c)
  show ?case by (rule run_call_ledger [OF assms(1) call.IH])
next
  case (other t L)
  show ?case by (rule well_behavedD(2) [OF assms(1) other.IH])
qed

text \<open>Opening the account and buying five shares reaches the tables of the scenario.\<close>

lemma empty_tables_open: "db (snd (run_call quiet_db flat_market (OpenAccount 10 ''ann'' 1000) (idle empty_tables))) = opened_tables"
  using open_scenario [OF empty_tables_def] by (simp add: returned_def)

lemma opened_tables_reachable: "reachable_tables quiet_db flat_market opened_tables"
  using reachable_tables.call [of quiet_db flat_market "idle empty_tables" "OpenAccount 10 ''ann'' 1000"]
    reachable_tables.start empty_tables_open by (simp add: idle_def)

lemma bought_tables_reachable: "reachable_tables quiet_db flat_market bought_tables"
  using reachable_tables.call [of quiet_db flat_market "idle opened_tables" "MarketBuy 2 3 10 ''aapl'' 5"]
    opened_tables_reachable buy_scenario by (simp add: idle_def returned_def)

theorem reachable_ledger_witness: "ledger quiet_db bought_tables"
  by (rule reachable_ledger [OF quiet_market_well_behaved bought_tables_reachable])

section \<open>Limit orders\<close>

text \<open>
  C2. Processing a limit order that returns an execution found the order PENDING, with its
  price reached; it inserts exactly one execution, of the whole remaining quantity and at the
  limit or better, and updates exactly that order to FILLED.
\<close>
theorem processed_order_executed:
  assumes "well_behaved env provider" and "ledger env (db u)"
    and "process_limit_order env provider fe oid u = (Inr (Some ex), u')"
  shows "\<exists>t m limit. by_others env (db u) t \<and> m \<in> set (orders t) \<and> or_id m = oid
    \<and> or_status m = PENDING \<and> or_type m = LIMIT \<and> or_limit_price m = Some limit
    \<and> executions (db u') = executions t @ [execution_row_of env (or_account_id m) ex]
    \<and> execution_id ex = fe \<and> ex_order_id ex = oid \<and> ex_side ex = or_side m
    \<and> ex_quantity ex = or_quantity m - or_filled_quantity m
    \<and> (case or_side m of BUY \<Rightarrow> ex_price ex \<le> limit | SELL \<Rightarrow> limit \<le> ex_price ex)
    \<and> orders (db u') = update_where (\<lambda>x. or_id x = oid)
        (\<lambda>x. x\<lparr>or_status := FILLED, or_filled_quantity := or_quantity m,
               or_limit_price := Some (numeric env limit)\<rparr>) (orders t)"
proof -
  have body: "process_body env provider fe oid (uow_enter (new_session u)) = (Inr (Some ex), u')"
    and h: "held (uow_enter (new_session u)) = {}" and l: "ledger env (session (uow_enter (new_session u)))"
    using process_tx.success assms(2,3) unfolding process_limit_order_def by (auto simp: uow_enter_def new_session_def)
  from body assms(1) h l obtain t aid ma m r p where t: "by_others env (session (uow_enter (new_session u))) t"
    and ma: "locked_account aid t ma"
    and m: "m \<in> set (orders t)" "or_id m = oid" "or_account_id m = aid" and r: "order_to_domain m = Inr r"
    and res: "case Some ex of None \<Rightarrow> db u' = t
      | Some e \<Rightarrow> (\<exists>q s t1 t2. quote_service_get_quote provider (o_symbol r) = Inr q
          \<and> process_quote q fe \<lparr>b_account = account_of_row ma, b_order = r, b_position = p\<rparr> = (Inr (Some e), s)
          \<and> account_repo_update env (b_account s) t = Inr t1
          \<and> order_repo_update env (b_order s) (position_repo_upsert env aid (b_position s) t1) = Inr t2
          \<and> db u' = execution_repo_add env aid e t2)"
    by (rule process_body_Inr)
  from res obtain q s t1 t2 where
      pq: "process_quote q fe \<lparr>b_account = account_of_row ma, b_order = r, b_position = p\<rparr> = (Inr (Some ex), s)"
    and t1: "account_repo_update env (b_account s) t = Inr t1"
    and t2: "order_repo_update env (b_order s) (position_repo_upsert env aid (b_position s) t1) = Inr t2"
    and u': "db u' = execution_repo_add env aid ex t2"
    by auto
  note sel = order_to_domain_sel [OF r]
  have some: "o_type r = LIMIT" "o_status r = PENDING" "limit_is_triggered r q = Inr True"
    and fe: "fill_effect q fe \<lparr>b_account = account_of_row ma, b_order = r, b_position = p\<rparr> ex s"
    using process_quote_Some [OF pq] by simp_all
  then obtain limit where limit: "limit_price r = Some limit"
    using sel(8) by (auto simp: valid_order_def split: option.splits)
  then have lm: "or_limit_price m = Some limit" using sel(10) by simp
  have "b_order s = filled_order r" and ex: "execution_id ex = fe" "ex_order_id ex = order_id r" "ex_side ex = o_side r"
    "ex_quantity ex = remaining_quantity r"
    "(case o_side r of BUY \<Rightarrow> ex_price ex \<le> limit | SELL \<Rightarrow> limit \<le> ex_price ex)"
    using fe some(3) limit
    by (auto simp: fill_effect_def Let_def execution_of_def limit_is_triggered_def split: order_side.splits)
  then have "executions (db u') = executions t @ [execution_row_of env aid ex]"
    "orders (db u') = update_where (\<lambda>x. or_id x = oid)
        (\<lambda>x. x\<lparr>or_status := FILLED, or_filled_quantity := or_quantity m,
               or_limit_price := Some (numeric env limit)\<rparr>) (orders t)"
    using account_repo_update_Inr [OF t1] order_repo_update_Inr [OF t2] sel(1,6) limit m(2,3)
    by (simp_all add: u' execution_repo_add_def)
  then show ?thesis
    using t m some ex sel(1,3,5,6,7,9) lm by (intro exI [of _ t] exI [of _ m] exI [of _ limit]) (simp add: remaining_quantity_def)
qed

lemma pending_tables_ledger: "ledger quiet_db pending_tables"
proof -
  obtain r where "submit_limit_buy quiet_db flat_market 2 10 ''aapl'' 5 100 (idle opened_tables) = (Inr r,
     \<lparr>db = pending_tables, session = pending_tables, committed = True, rolled_back = False, held = {10}\<rparr>)"
    using submit_scenario by blast
  moreover have "ledger quiet_db opened_tables"
    using run_call_ledger [OF quiet_market_well_behaved, of "idle empty_tables" "OpenAccount 10 ''ann'' 1000"]
      empty_tables_open by (simp add: idle_def ledger_empty)
  ultimately show ?thesis
    using run_call_ledger [OF quiet_market_well_behaved, of "idle opened_tables" "SubmitLimitBuy 2 10 ''aapl'' 5 100"]
    by (simp add: idle_def returned_def)
qed

theorem processed_order_executed_witness:
  "\<exists>m limit. m \<in> set (orders pending_tables) \<and> or_status m = PENDING \<and> or_limit_price m = Some limit
    \<and> ex_price limit_execution \<le> limit"
proof -
  obtain u' where "process_limit_order quiet_db flat_market 3 2 (idle pending_tables) = (Inr (Some limit_execution), u')"
    using process_scenario by blast
  note p = processed_order_executed [OF quiet_market_well_behaved _ this]
  from p obtain t m limit where t: "by_others quiet_db (db (idle pending_tables)) t" and m: "m \<in> set (orders t)"
    "or_status m = PENDING" "or_limit_price m = Some limit"
    "case or_side m of BUY \<Rightarrow> ex_price limit_execution \<le> limit | SELL \<Rightarrow> limit \<le> ex_price limit_execution"
    by (auto simp: idle_def pending_tables_ledger)
  have "t = pending_tables"
    using by_others_alone [OF t] by (simp add: quiet_db_def idle_def)
  moreover have "or_side x = BUY" if "x \<in> set (orders pending_tables)" for x
    using that by (simp add: pending_tables_def)
  ultimately show ?thesis using m by fastforce
qed

text \<open>
  Cancelling an order that returns found it in an open status and changes that order to
  CANCELLED; no account, position, execution or other order changes.
\<close>
theorem cancelled_order_only:
  assumes "well_behaved env provider" and "ledger env (db u)"
    and "cancel_limit_order env oid u = (Inr r, u')"
  shows "\<exists>t m. by_others env (db u) t \<and> m \<in> set (orders t) \<and> or_id m = oid
    \<and> or_status m \<in> {NEW, PENDING, PARTIALLY_FILLED}
    \<and> db u' = t\<lparr>orders := update_where (\<lambda>x. or_id x = oid)
        (\<lambda>x. x\<lparr>or_status := CANCELLED, or_filled_quantity := or_filled_quantity m,
               or_limit_price := map_option (numeric env) (or_limit_price m)\<rparr>) (orders t)\<rparr>"
proof -
  have body: "cancel_body env oid (uow_enter (new_session u)) = (Inr r, u')"
    and h: "held (uow_enter (new_session u)) = {}" and l: "ledger env (session (uow_enter (new_session u)))"
    using cancel_tx.success assms(2,3) unfolding cancel_limit_order_def by (auto simp: uow_enter_def new_session_def)
  from body assms(1) h l obtain t aid m r0 where t: "by_others env (session (uow_enter (new_session u))) t"
    and m: "m \<in> set (orders t)" "or_id m = oid" and r0: "order_to_domain m = Inr r0" and c: "cancel r0 = Inr r"
    and up: "order_repo_update env r t = Inr (db u')"
    by (rule cancel_body_Inr)
  note sel = order_to_domain_sel [OF r0]
  have r: "r = r0\<lparr>o_status := CANCELLED\<rparr>" and st: "o_status r0 \<notin> {FILLED, CANCELLED, REJECTED}"
    using c by (auto simp: cancel_def split: if_splits)
  then have "or_status m \<in> {NEW, PENDING, PARTIALLY_FILLED}"
    using sel(3) by (cases "or_status m") auto
  then show ?thesis
    using t m order_repo_update_Inr [OF up] sel(1,5,10) m
    by (intro exI [of _ t] exI [of _ m]) (simp add: r)
qed

theorem cancelled_order_only_witness:
  "map or_status (orders (db (snd (cancel_limit_order quiet_db 2 (idle pending_tables))))) = [CANCELLED]"
proof -
  obtain r u' where "cancel_limit_order quiet_db 2 (idle pending_tables) = (Inr r, u')"
    using cancel_scenario by blast
  note run = this
  moreover have "ledger quiet_db (db (idle pending_tables))"
    by (simp add: idle_def pending_tables_ledger)
  ultimately obtain t :: tables and m :: order_row where t: "by_others quiet_db (db (idle pending_tables)) t"
    and u': "db u' = t\<lparr>orders := update_where (\<lambda>x. or_id x = 2)
        (\<lambda>x. x\<lparr>or_status := CANCELLED, or_filled_quantity := or_filled_quantity m,
               or_limit_price := map_option numeric_20_6 (or_limit_price m)\<rparr>) (orders t)\<rparr>"
    using cancelled_order_only [OF quiet_market_well_behaved, of "idle pending_tables" 2 r u']
    unfolding quiet_db_sel by blast
  have "t = pending_tables"
    using by_others_alone [OF t] by (simp add: quiet_db_def idle_def)
  then show ?thesis using u' run by (simp add: update_where_def pending_tables_def)
qed

section \<open>Ownership\<close>

definition owns :: "string \<Rightarrow> uuid \<Rightarrow> tables \<Rightarrow> bool" where
  "owns user_id oid t \<longleftrightarrow> (\<exists>a \<in> set (accounts t). \<exists>m \<in> set (orders t).
     ar_user_id a = strip user_id \<and> or_id m = oid \<and> or_account_id m = ar_id a)"

lemma reading_with_uow:
  "with_uow (reading f) u = (f (db u), uow_exit (uow_enter (new_session u)))"
  by (simp add: with_uow_def reading_def)

lemma account_by_user_Inr:
  "account_repo_get_by_user_id user t = Inr (Some a) \<Longrightarrow>
   \<exists>m. first_where (\<lambda>m. ar_user_id m = strip user) (accounts t) = Some m \<and> ar_id m = account_id a"
  by (auto simp: account_repo_get_by_user_id_def load_def account_to_domain_def paper_account_new_def Let_def
      split: if_splits option.splits sum.splits)

lemma write_account_id_run:
  "write_account_id user u = (r, u') \<Longrightarrow> db u' = db u \<and>
   (\<forall>aid. r = Inr aid \<longrightarrow> (\<exists>a \<in> set (accounts (db u)). ar_user_id a = strip user \<and> ar_id a = aid))"
  by (auto simp: write_account_id_def query_get_account_def bind_run reading_with_uow uow_exit_def
      split: sum.splits option.splits dest!: account_by_user_Inr first_where_Some)

lemma order_repo_get_Inr:
  "order_repo_get oid t = Inr (Some r) \<Longrightarrow>
   \<exists>m \<in> set (orders t). or_id m = oid \<and> or_account_id m = o_account_id r"
  by (auto simp: order_repo_get_def load_def dest!: first_where_Some order_to_domain_sel(2)
      split: option.splits sum.splits)

lemma query_get_order_run:
  assumes "query_get_order user oid u = (r, u')"
  shows "db u' = db u \<and> (\<forall>x. r = Inr (Some x) \<longrightarrow> owns user oid (db u))"
proof -
  have q: "query_get_order user oid u = (fst (query_get_order user oid u), uow_exit (uow_enter (new_session u)))"
    by (simp add: query_get_order_def with_uow_def bind_run require_account_id_for_user_def reading_def
        split: sum.splits option.splits)
  moreover have "owns user oid (db u)" if "r = Inr (Some x)" for x
    using assms that
    by (auto simp: query_get_order_def with_uow_def bind_run require_account_id_for_user_def reading_def owns_def
        split: sum.splits option.splits if_splits dest!: account_by_user_Inr order_repo_get_Inr first_where_Some)
      metis
  ultimately show ?thesis using assms by (simp add: uow_exit_def)
qed

lemma owned_order_run:
  assumes "owned_order user oid u = (r, u')"
  shows "db u' = db u \<and> (\<forall>x. r = Inr x \<longrightarrow> owns user oid (db u))"
proof -
  obtain r1 u1 where a: "write_account_id user u = (r1, u1)" by fastforce
  obtain r2 u2 where q: "query_get_order user oid u1 = (r2, u2)" by fastforce
  show ?thesis
    using assms write_account_id_run [OF a] query_get_order_run [OF q] a q
    by (auto simp: owned_order_def bind_run split: sum.splits option.splits)
qed

text \<open>
  C18. Only the user whose account an order belongs to can process or cancel it: for anyone else
  the call raises and leaves the committed tables exactly as they were.
\<close>
theorem only_owner_acts:
  assumes "\<not> owns user_id oid (db u)"
  shows "(\<exists>e. fst (write_process_limit_order env provider fe user_id oid u) = Inl e)
    \<and> db (snd (write_process_limit_order env provider fe user_id oid u)) = db u
    \<and> (\<exists>e. fst (write_cancel_limit_order env user_id oid u) = Inl e)
    \<and> db (snd (write_cancel_limit_order env user_id oid u)) = db u"
proof -
  obtain r u' where o: "owned_order user_id oid u = (r, u')" by fastforce
  then show ?thesis
    using owned_order_run [OF o] assms
    by (cases r) (simp_all add: write_process_limit_order_def write_cancel_limit_order_def bind_run)
qed

theorem only_owner_acts_witness:
  "db (snd (write_cancel_limit_order quiet_db ''eve'' 2 (idle pending_tables))) = pending_tables"
  using only_owner_acts [of "''eve''" 2 "idle pending_tables" quiet_db]
  by (simp add: idle_def owns_def pending_tables_def opened_tables_def strip_def is_space_def)

section \<open>The worker\<close>

lemma process_limit_order_executions:
  assumes "well_behaved env provider" and "ledger env (db u)" and "lock_wait env = (\<lambda>_ t. t)"
    and "process_limit_order env provider fe oid u = (r, u')"
  shows "length (executions (db u')) = length (executions (db u))
    + (case r of Inr (Some _) \<Rightarrow> 1 | _ \<Rightarrow> 0)"
proof (cases r)
  case (Inl e)
  then show ?thesis
    using process_limit_order_error [of env provider fe oid u e u'] by_others_alone [OF _ assms(3)] assms(4)
    by fastforce
next
  case (Inr x)
  show ?thesis
  proof (cases x)
    case None
    then have "process_body env provider fe oid (uow_enter (new_session u)) = (Inr None, u')"
      using process_tx.success Inr assms(4) by (simp add: process_limit_order_def)
    moreover have "held (uow_enter (new_session u)) = {}" "ledger env (session (uow_enter (new_session u)))"
      using assms(2) by (simp_all add: uow_enter_def new_session_def)
    ultimately obtain t where "by_others env (session (uow_enter (new_session u))) t" "db u' = t"
      using assms(1) by (auto elim: process_body_Inr)
    then show ?thesis using by_others_alone [OF _ assms(3)] Inr None by fastforce
  next
    case (Some ex)
    then obtain t :: tables and m :: order_row where "by_others env (db u) t"
      "executions (db u') = executions t @ [execution_row_of env (or_account_id m) ex]"
      using processed_order_executed [OF assms(1,2)] Inr assms(4) by blast
    then show ?thesis using by_others_alone [OF _ assms(3)] Inr Some by fastforce
  qed
qed

lemma process_pending_counts:
  assumes "well_behaved env provider" and "ledger env (db u)"
    and "process_pending (process_limit_order env provider) fresh i oids w u = (w', u')"
  shows "discovered w' = discovered w \<and> ledger env (db u')
    \<and> wr_filled w' + still_pending w' + wr_failed w'
        = wr_filled w + still_pending w + wr_failed w + int (length oids)
    \<and> (lock_wait env = (\<lambda>_ t. t) \<longrightarrow>
         int (length (executions (db u'))) - wr_filled w' = int (length (executions (db u))) - wr_filled w)"
  using assms(2,3)
proof (induction oids arbitrary: i w u)
  case Nil
  then show ?case by simp
next
  case (Cons oid oids)
  obtain r u1 where one: "process_limit_order env provider (fresh i) oid u = (r, u1)" by fastforce
  have l: "ledger env (db u1)"
    using process_limit_order_ledger [OF assms(1) Cons.prems(1), of "fresh i" oid] one by simp
  have e: "lock_wait env = (\<lambda>_ t. t) \<Longrightarrow> length (executions (db u1)) = length (executions (db u))
      + (case r of Inr (Some _) \<Rightarrow> 1 | _ \<Rightarrow> 0)"
    by (rule process_limit_order_executions [OF assms(1) Cons.prems(1) _ one])
  show ?case
  proof (cases r)
    case (Inl x)
    then show ?thesis using Cons.IH [OF l] Cons.prems(2) one e by fastforce
  next
    case (Inr x)
    then show ?thesis using Cons.IH [OF l] Cons.prems(2) one e by (cases x) fastforce+
  qed
qed

text \<open>
  One pass of the pending-order worker, over any choice of at most \<open>batch_size\<close> pending limit
  orders: every order discovered is counted exactly once as filled, still pending or failed; a
  failure does not stop the pass; the tables remain a ledger; and, if nothing else runs, exactly
  as many executions were inserted as orders are reported filled.
\<close>
theorem worker_pass_accounts:
  assumes "well_behaved env provider" and "ledger env (db u)"
    and "run_once env provider pick batch_size fresh u = (w, u')"
  shows "discovered w = wr_filled w + still_pending w + wr_failed w
    \<and> (0 < batch_size \<longrightarrow> discovered w \<le> batch_size) \<and> ledger env (db u')
    \<and> (lock_wait env = (\<lambda>_ t. t) \<longrightarrow>
         int (length (executions (db u'))) = int (length (executions (db u))) + wr_filled w)"
proof -
  define ids where "ids = discover_pending_order_ids pick batch_size (db u)"
  have "int (length ids) \<le> batch_size" if "0 < batch_size"
    using that by (simp add: ids_def discover_pending_order_ids_def)
  moreover have run: "process_pending (process_limit_order env provider) fresh 0 ids
      \<lparr>discovered = int (length ids), wr_filled = 0, still_pending = 0, wr_failed = 0\<rparr> u = (w, u')"
    using assms(3) by (simp add: run_once_def ids_def Let_def)
  ultimately show ?thesis
    using process_pending_counts [OF assms(1,2) run] by auto
qed

theorem worker_pass_accounts_witness:
  "discovered (fst (run_once quiet_db flat_market (\<lambda>xs. xs) 10 (\<lambda>_. 3) (idle pending_tables))) \<le> 10
    \<and> wr_filled (fst (run_once quiet_db flat_market (\<lambda>xs. xs) 10 (\<lambda>_. 3) (idle pending_tables))) = 1
    \<and> length (executions (db (snd (run_once quiet_db flat_market (\<lambda>xs. xs) 10 (\<lambda>_. 3) (idle pending_tables))))) = 1"
proof -
  let ?run = "run_once quiet_db flat_market (\<lambda>xs. xs) 10 (\<lambda>_. 3) (idle pending_tables)"
  obtain u' where "process_limit_order quiet_db flat_market 3 2 (idle pending_tables) = (Inr (Some limit_execution), u')"
    using process_scenario by blast
  moreover have "discover_pending_order_ids (\<lambda>xs. xs) 10 (db (idle pending_tables)) = [2]"
    by (simp add: discover_pending_order_ids_def is_pending_limit_def idle_def pending_tables_def)
  ultimately have "wr_filled (fst ?run) = 1"
    by (simp add: run_once_def Let_def)
  moreover have "ledger quiet_db (db (idle pending_tables))" "executions (db (idle pending_tables)) = []"
    "lock_wait quiet_db = (\<lambda>_ t. t)"
    using pending_tables_ledger by (simp_all add: idle_def pending_tables_def opened_tables_def quiet_db_def)
  ultimately show ?thesis
    using worker_pass_accounts [OF quiet_market_well_behaved, of "idle pending_tables" "\<lambda>xs. xs" 10 "\<lambda>_. 3"
        "fst ?run" "snd ?run"] by simp
qed

end
