(* ===== verification/Trading_Route_Properties.thy ===== *)
theory Trading_Route_Properties
  imports Trading_Routes Ledger_Properties
begin

text \<open>
  The writing routes of paper trading are a boundary: what a client sees is an answer, and an error
  answer means that nothing was changed. The contract is a locale, interpreted on every route.
\<close>

definition refused :: "error \<Rightarrow> bool" where
  "refused e \<longleftrightarrow> is_value_error e \<or> (\<exists>m. e = InsufficientBuyingPowerError m) \<or> (\<exists>m. e = InsufficientPositionError m)"

lemma write_answer_not_refused: "\<not> refused (write_answer e)"
  by (cases e) (auto simp: write_answer_def refused_def is_value_error_def paper_account_not_found_def paper_order_not_found_def)

lemma open_answer_exists: "open_answer e \<noteq> TradingAccountAlreadyExistsError"
  by (simp add: open_answer_def)

locale write_route =
  fixes env :: db_env and route :: "(unit_of_work, 'a) prog" and unanswered :: "error \<Rightarrow> bool"
  assumes error: "route u = (Inl e, u') \<Longrightarrow> by_others env (db u) (db u') \<and> \<not> unanswered e"
    and success: "route u = (Inr a, u') \<Longrightarrow> sound_commit u'"
begin

text \<open>Of the callers' outcomes, one leaves the tables to the others and one has committed.\<close>

lemma outcome:
  "case route u of (Inl e, u') \<Rightarrow> by_others env (db u) (db u') \<and> \<not> unanswered e | (Inr _, u') \<Rightarrow> sound_commit u'"
  by (auto split: prod.split sum.split dest: error success)

end

text \<open>The shape of every route: who, what, the operation with its exceptions answered, the response.\<close>

lemma write_route_shape:
  fixes op :: "'b \<Rightarrow> 'c \<Rightarrow> (unit_of_work, 'd) prog"
  assumes "\<And>x y u e u'. op x y u = (Inl e, u') \<Longrightarrow> by_others env (db u) (db u')"
    and "\<And>x y u a u'. op x y u = (Inr a, u') \<Longrightarrow> sound_commit u'"
    and "\<And>e. \<not> declined (h e)" "\<And>code d. \<not> declined (HTTPException code d)"
    and "\<And>e. who = Inl e \<Longrightarrow> \<exists>code d. e = HTTPException code d" "\<And>e. what = Inl e \<Longrightarrow> \<exists>code d. e = HTTPException code d"
  shows "write_route env
    (bind (of_result who) (\<lambda>x. bind (of_result what) (\<lambda>y. bind (answering_with h (op x y)) (\<lambda>a. ret (f a))))) declined"
proof
  let ?route = "bind (of_result who) (\<lambda>x. bind (of_result what) (\<lambda>y. bind (answering_with h (op x y)) (\<lambda>a. ret (f a))))"
  fix u e u'
  assume run: "?route u = (Inl e, u')"
  show "by_others env (db u) (db u') \<and> \<not> declined e"
  proof (cases who)
    case (Inl e')
    then show ?thesis using run assms(4,5) by (auto simp: bind_run)
  next
    case (Inr x)
    show ?thesis
    proof (cases what)
      case (Inl e')
      then show ?thesis using run assms(4,6) \<open>who = Inr x\<close> by (auto simp: bind_run)
    next
      case (Inr y)
      then show ?thesis using run assms(1) [of x y u] assms(3) \<open>who = Inr x\<close>
        by (auto simp: bind_run answering_with_def try_except_def split: prod.splits sum.splits)
    qed
  qed
next
  let ?route = "bind (of_result who) (\<lambda>x. bind (of_result what) (\<lambda>y. bind (answering_with h (op x y)) (\<lambda>a. ret (f a))))"
  fix u a u'
  assume run: "?route u = (Inr a, u')"
  then show "sound_commit u'" using assms(2)
    by (auto simp: answering_with_def try_except_def elim!: bind_InrE split: prod.splits sum.splits)
qed

lemma identity_answered: "get_current_user_id header = Inl e \<Longrightarrow> \<exists>code d. e = HTTPException code d"
  by (auto simp: get_current_user_id_def Let_def split: option.splits if_splits)

lemma request_answered:
  "market_order_request symbol n = Inl e \<Longrightarrow> \<exists>code d. e = HTTPException code d"
  "limit_order_request symbol n x = Inl e \<Longrightarrow> \<exists>code d. e = HTTPException code d"
  "create_account_request initial = Inl e \<Longrightarrow> \<exists>code d. e = HTTPException code d"
  by (auto simp: market_order_request_def limit_order_request_def create_account_request_def invalid_request_def Let_def
      split: if_splits option.splits sum.splits)

lemma http_not_refused: "\<not> refused (HTTPException code d)"
  by (simp add: refused_def is_value_error_def)

text \<open>The operations on behalf of a user, each after reads that change nothing.\<close>

lemma after_account:
  assumes "bind (write_account_id user) op u = (r, u')"
  obtains e where "r = Inl e" "db u' = db u" | aid v where "db v = db u" "op aid v = (r, u')"
proof -
  obtain r1 u1 where a: "write_account_id user u = (r1, u1)" by fastforce
  then show ?thesis using assms write_account_id_run [OF a] that by (cases r1) (auto simp: bind_run)
qed

lemma after_owner:
  assumes "bind (owned_order user oid) op u = (r, u')"
  obtains e where "r = Inl e" "db u' = db u" | x v where "db v = db u" "op x v = (r, u')"
proof -
  obtain r1 u1 where a: "owned_order user oid u = (r1, u1)" by fastforce
  then show ?thesis using assms owned_order_run [OF a] that by (cases r1) (auto simp: bind_run)
qed

lemma account_write_route:
  assumes "\<And>aid u e u'. op aid u = (Inl e, u') \<Longrightarrow> by_others env (db u) (db u')"
    and "\<And>aid u a u'. op aid u = (Inr a, u') \<Longrightarrow> sound_commit u'"
  shows "bind (write_account_id user) op u = (Inl e, u') \<Longrightarrow> by_others env (db u) (db u')"
    and "bind (write_account_id user) op u = (Inr a, u') \<Longrightarrow> sound_commit u'"
proof -
  show "bind (write_account_id user) op u = (Inl e, u') \<Longrightarrow> by_others env (db u) (db u')"
    using assms(1) by (elim after_account) (simp_all, metis)
  show "bind (write_account_id user) op u = (Inr a, u') \<Longrightarrow> sound_commit u'"
    using assms(2) by (elim after_account) simp_all
qed

lemma owner_write_route:
  assumes "\<And>x u e u'. op x u = (Inl e, u') \<Longrightarrow> by_others env (db u) (db u')"
    and "\<And>x u a u'. op x u = (Inr a, u') \<Longrightarrow> sound_commit u'"
  shows "bind (owned_order user oid) op u = (Inl e, u') \<Longrightarrow> by_others env (db u) (db u')"
    and "bind (owned_order user oid) op u = (Inr a, u') \<Longrightarrow> sound_commit u'"
proof -
  show "bind (owned_order user oid) op u = (Inl e, u') \<Longrightarrow> by_others env (db u) (db u')"
    using assms(1) by (elim after_owner) (simp_all, metis)
  show "bind (owned_order user oid) op u = (Inr a, u') \<Longrightarrow> sound_commit u'"
    using assms(2) by (elim after_owner) simp_all
qed

lemmas route_rules = write_route_shape write_answer_not_refused http_not_refused identity_answered request_answered

lemma bind_of_result: "bind (of_result (Inr y)) (\<lambda>_. m) = m"
  by (rule ext) simp

text \<open>Routes with one thing to read after the identity.\<close>

lemma write_route_order:
  assumes "\<And>x u e u'. op x u = (Inl e, u') \<Longrightarrow> by_others env (db u) (db u')"
    and "\<And>x u a u'. op x u = (Inr a, u') \<Longrightarrow> sound_commit u'"
  shows "write_route env
    (bind (of_result (get_current_user_id header)) (\<lambda>x. bind (answering_with write_answer (op x)) (\<lambda>a. ret (f a)))) refused"
proof -
  have "write_route env (bind (of_result (get_current_user_id header)) (\<lambda>x. bind (of_result (Inr ())) (\<lambda>y :: unit.
      bind (answering_with write_answer (op x)) (\<lambda>a. ret (f a))))) refused"
    by (rule write_route_shape [where op = "\<lambda>x (y :: unit). op x"])
       (use assms in \<open>auto simp: write_answer_not_refused http_not_refused identity_answered\<close>)
  then show ?thesis unfolding bind_of_result .
qed

interpretation buy_route: write_route env "route_market_buy env provider fo fe header symbol n" refused
  for env provider fo fe header symbol n
  unfolding route_market_buy_def case_prod_unfold write_market_buy_def market_buy_def
  by (rule write_route_shape [where op = "\<lambda>user y. bind (write_account_id user)
        (\<lambda>aid. market_operation BUY env provider fo fe aid (fst y) (snd y))"])
     (auto simp: route_rules intro: account_write_route operation_sound market_operation_error)

interpretation sell_route: write_route env "route_market_sell env provider fo fe header symbol n" refused
  for env provider fo fe header symbol n
  unfolding route_market_sell_def case_prod_unfold write_market_sell_def market_sell_def
  by (rule write_route_shape [where op = "\<lambda>user y. bind (write_account_id user)
        (\<lambda>aid. market_operation SELL env provider fo fe aid (fst y) (snd y))"])
     (auto simp: route_rules intro: account_write_route operation_sound market_operation_error)

interpretation limit_buy_route: write_route env "route_limit_buy env provider fo header symbol n limit" refused
  for env provider fo header symbol n limit
  unfolding route_limit_buy_def case_prod_unfold write_submit_limit_buy_def submit_limit_buy_def
  by (rule write_route_shape [where op = "\<lambda>user y. bind (write_account_id user)
        (\<lambda>aid. submit_operation BUY env provider fo aid (fst y) (fst (snd y)) (snd (snd y)))"])
     (auto simp: route_rules intro: account_write_route operation_sound submit_operation_error)

interpretation limit_sell_route: write_route env "route_limit_sell env provider fo header symbol n limit" refused
  for env provider fo header symbol n limit
  unfolding route_limit_sell_def case_prod_unfold write_submit_limit_sell_def submit_limit_sell_def
  by (rule write_route_shape [where op = "\<lambda>user y. bind (write_account_id user)
        (\<lambda>aid. submit_operation SELL env provider fo aid (fst y) (fst (snd y)) (snd (snd y)))"])
     (auto simp: route_rules intro: account_write_route operation_sound submit_operation_error)

interpretation cancel_route: write_route env "route_cancel env header oid" refused
  for env header oid
  unfolding route_cancel_def write_cancel_limit_order_def
  by (rule write_route_order) (auto intro: owner_write_route operation_sound cancel_limit_order_error)

interpretation process_route: write_route env "route_process env provider fe header oid" refused
  for env provider fe header oid
  unfolding route_process_def write_process_limit_order_def
  by (rule write_route_order) (auto intro: owner_write_route operation_sound process_limit_order_error)

interpretation account_route: write_route env "route_create_account env fresh header initial" "\<lambda>e. e = TradingAccountAlreadyExistsError"
  for env fresh header initial
  unfolding route_create_account_def
  by (rule write_route_shape [where op = "\<lambda>user x. open_account env fresh user x"])
     (auto simp: open_answer_exists identity_answered request_answered intro: operation_sound open_account_error)

section \<open>Every request\<close>

datatype trading_post =
    PostMarketBuy uuid uuid "string option" string int
  | PostMarketSell uuid uuid "string option" string int
  | PostLimitBuy uuid "string option" string int decimal
  | PostLimitSell uuid "string option" string int decimal
  | PostCancel "string option" uuid
  | PostProcess uuid "string option" uuid
  | PostAccount uuid "string option" "decimal option"

text \<open>The exception that leaves the route, if any, and the state afterwards.\<close>

definition thrown :: "('s, 'a) prog \<Rightarrow> 's \<Rightarrow> error option \<times> 's" where
  "thrown m s = (case m s of (Inl e, s') \<Rightarrow> (Some e, s') | (Inr _, s') \<Rightarrow> (None, s'))"

fun serve_post :: "db_env \<Rightarrow> quote_provider \<Rightarrow> trading_post \<Rightarrow> unit_of_work \<Rightarrow> error option \<times> unit_of_work" where
  "serve_post env p (PostMarketBuy fo fe h sy n) = thrown (route_market_buy env p fo fe h sy n)"
| "serve_post env p (PostMarketSell fo fe h sy n) = thrown (route_market_sell env p fo fe h sy n)"
| "serve_post env p (PostLimitBuy fo h sy n x) = thrown (route_limit_buy env p fo h sy n x)"
| "serve_post env p (PostLimitSell fo h sy n x) = thrown (route_limit_sell env p fo h sy n x)"
| "serve_post env p (PostCancel h oid) = thrown (route_cancel env h oid)"
| "serve_post env p (PostProcess fe h oid) = thrown (route_process env p fe h oid)"
| "serve_post env p (PostAccount i h x) = thrown (route_create_account env i h x)"

context write_route
begin

lemma thrown_outcome:
  "case thrown route u of (Some e, u') \<Rightarrow> by_others env (db u) (db u') \<and> \<not> unanswered e | (None, u') \<Rightarrow> sound_commit u'"
  using outcome [of u] by (auto simp: thrown_def split: prod.splits sum.splits)

end

text \<open>
  C16. The writing routes of paper trading answer every refusal: no \<open>ValueError\<close> and no trading error
  leaves the routes of the orders (an account that exists is answered by the route of the accounts); and
  whenever an error leaves a route, be it an answer or a failure of the server, the committed tables are
  as the other transactions left them. A request that is answered without error has committed a state
  that satisfies every constraint.
\<close>

theorem trading_routes_atomic:
  assumes "serve_post env provider req u = (thrown_error, u')"
  shows "case thrown_error of
      Some e \<Rightarrow> by_others env (db u) (db u') \<and> (case req of PostAccount _ _ _ \<Rightarrow> e \<noteq> TradingAccountAlreadyExistsError | _ \<Rightarrow> \<not> refused e)
    | None \<Rightarrow> constraints_ok (db u') \<and> columns_fit (db u') \<and> committed u'"
proof (cases req)
  case (PostMarketBuy fo fe h sy n)
  then show ?thesis using assms buy_route.thrown_outcome [where env = env and provider = provider and fo = fo and fe = fe and header = h and symbol = sy and n = n and u = u]
    by (simp add: sound_commit_def split: option.splits)
next
  case (PostMarketSell fo fe h sy n)
  then show ?thesis using assms sell_route.thrown_outcome [where env = env and provider = provider and fo = fo and fe = fe and header = h and symbol = sy and n = n and u = u]
    by (simp add: sound_commit_def split: option.splits)
next
  case (PostLimitBuy fo h sy n x)
  then show ?thesis using assms limit_buy_route.thrown_outcome [where env = env and provider = provider and fo = fo and header = h and symbol = sy and n = n and limit = x and u = u]
    by (simp add: sound_commit_def split: option.splits)
next
  case (PostLimitSell fo h sy n x)
  then show ?thesis using assms limit_sell_route.thrown_outcome [where env = env and provider = provider and fo = fo and header = h and symbol = sy and n = n and limit = x and u = u]
    by (simp add: sound_commit_def split: option.splits)
next
  case (PostCancel h oid)
  then show ?thesis using assms cancel_route.thrown_outcome [where env = env and header = h and oid = oid and u = u]
    by (simp add: sound_commit_def split: option.splits)
next
  case (PostProcess fe h oid)
  then show ?thesis using assms process_route.thrown_outcome [where env = env and provider = provider and fe = fe and header = h and oid = oid and u = u]
    by (simp add: sound_commit_def split: option.splits)
next
  case (PostAccount i h x)
  then show ?thesis using assms account_route.thrown_outcome [where env = env and fresh = i and header = h and initial = x and u = u]
    by (simp add: sound_commit_def split: option.splits)
qed

text \<open>A purchase that the user cannot pay is answered 409 and leaves the tables alone.\<close>

lemma market_buy_enter: "uow_enter (new_session u) = uow_enter (new_session v) \<Longrightarrow> normalize_symbol sy = Inr s \<Longrightarrow> market_buy env p fo fe aid sy n u = market_buy env p fo fe aid sy n v"
  by (simp add: market_buy_def market_operation_def bind_run with_uow_def)

theorem trading_routes_atomic_witness:
  "\<exists>m u'. serve_post quiet_db flat_market (PostMarketBuy 2 3 (Some '' ann'') ''aapl'' 50) (idle opened_tables)
    = (Some (HTTPException 409 m), u') \<and> by_others quiet_db opened_tables (db u')"
proof -
  have user: "get_current_user_id (Some '' ann'') = Inr ''ann''" by code_simp
  have request: "market_order_request ''aapl'' 50 = Inr (''aapl'', 50)" by code_simp
  have account: "write_account_id ''ann'' (idle opened_tables) = (Inr 10, (idle opened_tables)\<lparr>rolled_back := True\<rparr>)"
    by (simp add: write_account_id_def query_get_account_def scenario_simps opened_tables_def uow_rollback_def)
  have "uow_enter (new_session ((idle opened_tables)\<lparr>rolled_back := True\<rparr>)) = uow_enter (new_session (idle opened_tables))"
    by (simp add: uow_enter_def new_session_def idle_def)
  then have run: "serve_post quiet_db flat_market (PostMarketBuy 2 3 (Some '' ann'') ''aapl'' 50) (idle opened_tables)
      = (Some (HTTPException 409 ''Required cash exceeds buying power.''), (idle opened_tables)\<lparr>rolled_back := True, held := {10}\<rparr>)"
    using market_buy_enter [of _ "idle opened_tables" "''aapl''" "''AAPL''"]
    by (simp add: thrown_def route_market_buy_def bind_run user request answering_with_def try_except_def write_market_buy_def
        account poor_scenario write_answer_def normalize_symbol_def)
  then show ?thesis using trading_routes_atomic [OF run] by (auto simp: idle_def)
qed

end
