(* ===== verification/Market_Routes.thy ===== *)
theory Market_Routes
  imports Market_Batch Watchlist Cache_Aside
begin

text \<open>
  The market data routes (\<open>services/api/routes/market.py\<close>) and the cached candles
  (\<open>services/api/market_candles.py\<close>). The module of the candle cache that the latter imports is not in
  the repository, so the cache is a parameter; the conversion of a decimal to a float is one too.
\<close>

section \<open>Parameters of a request\<close>

definition unprocessable :: "string \<Rightarrow> error" where
  "unprocessable detail = HTTPException 422 detail"

definition route_symbol :: "string \<Rightarrow> string result" where
  "route_symbol symbol =
     (let normalized = normal_symbol symbol in
      if normalized = [] then Inl (unprocessable ''Symbol must not be empty.'')
      else if \<not> (list_all symbol_char normalized \<and> length normalized \<le> 20) then Inl (unprocessable ''Invalid symbol format.'')
      else Inr normalized)"

text \<open>\<open>raw.split(",")\<close>\<close>

fun split_commas :: "string \<Rightarrow> string list" where
  "split_commas [] = [[]]"
| "split_commas (c # s) = (if c = CHR '','' then [] # split_commas s
     else (case split_commas s of [] \<Rightarrow> [[c]] | w # ws \<Rightarrow> (c # w) # ws))"

fun route_symbols_loop :: "string list \<Rightarrow> string list \<Rightarrow> string list result" where
  "route_symbols_loop seen [] = Inr []"
| "route_symbols_loop seen (part # parts) = (case route_symbol part of
     Inl e \<Rightarrow> Inl e
   | Inr n \<Rightarrow> if n \<in> set seen then route_symbols_loop seen parts
       else (case route_symbols_loop (n # seen) parts of Inl e \<Rightarrow> Inl e | Inr ns \<Rightarrow> Inr (n # ns)))"

definition route_symbols :: "int \<Rightarrow> string \<Rightarrow> string list result" where
  "route_symbols max_symbols raw_symbols =
     (case route_symbols_loop [] (split_commas raw_symbols) of
        Inl e \<Rightarrow> Inl e
      | Inr ns \<Rightarrow>
          if ns = [] then Inl (unprocessable ''At least one symbol is required.'')
          else if max_symbols < int (length ns) then Inl (unprocessable ''Too many symbols.'')
          else Inr ns)"

datatype candle_range = DAY | WEEK | MONTH

definition resolve_candle_range :: "candle_range \<Rightarrow> string \<times> int" where
  "resolve_candle_range r = (case r of DAY \<Rightarrow> (''5min'', 78) | WEEK \<Rightarrow> (''1h'', 40) | MONTH \<Rightarrow> (''1day'', 30))"

text \<open>\<open>str(outputsize)\<close> for the sizes of the ranges.\<close>

definition candle_size_text :: "candle_range \<Rightarrow> string" where
  "candle_size_text r = (case r of DAY \<Rightarrow> ''78'' | WEEK \<Rightarrow> ''40'' | MONTH \<Rightarrow> ''30'')"

definition provider_answer :: "error \<Rightarrow> error" where
  "provider_answer e = (case e of
     TwelveDataRequestError _ \<Rightarrow> HTTPException 502 ''market data provider request failed''
   | TwelveDataResponseError _ \<Rightarrow> HTTPException 502 ''market data provider response failed''
   | _ \<Rightarrow> e)"

definition with_provider_answer :: "'a result \<Rightarrow> 'a result" where
  "with_provider_answer x = map_sum provider_answer id x"

text \<open>The provider is built for every request, from the settings.\<close>

definition get_market_data_provider :: "string \<Rightarrow> string option \<Rightarrow> twelve_data result" where
  "get_market_data_provider provider_name api_key =
     (if provider_name \<noteq> ''twelve_data'' then Inl (HTTPException 503 ''real market data provider is not enabled'')
      else case api_key of
        None \<Rightarrow> Inl (HTTPException 503 ''Twelve Data API key is not configured'')
      | Some k \<Rightarrow> twelve_data_new k ''https://api.twelvedata.com'' 10)"

section \<open>Routes\<close>

definition read_market_price :: "http_client \<Rightarrow> string \<Rightarrow> (string \<times> decimal) result" where
  "read_market_price client symbol =
     try_then (route_symbol symbol) (\<lambda>n. try_then (with_provider_answer (td_get_price client n)) (\<lambda>p. Inr (n, p)))"

definition read_market_quote :: "http_client \<Rightarrow> string \<Rightarrow> snapshot result" where
  "read_market_quote client symbol =
     try_then (route_symbol symbol) (\<lambda>n. with_provider_answer (td_get_quote client n))"

definition read_market_quotes :: "int \<Rightarrow> batch_env \<Rightarrow> string \<Rightarrow> (snapshot_redis, batch_response) prog" where
  "read_market_quotes max_symbols env raw_symbols =
     bind (raise_if (raw_symbols = []) (unprocessable ''symbols'')) (\<lambda>_.
     bind (of_result (route_symbols max_symbols raw_symbols)) (\<lambda>ns. batch_get_quotes env ns))"

record candle_item =
  ci_time :: string
  ci_open :: rat
  ci_high :: rat
  ci_low :: rat
  ci_close :: rat

record candles_response =
  cr_symbol :: string
  cr_range :: candle_range
  cr_interval :: string
  cr_items :: "candle_item list"

definition candle_item_of :: "(decimal \<Rightarrow> rat) \<Rightarrow> candle \<Rightarrow> candle_item" where
  "candle_item_of to_float c = \<lparr>ci_time = cd_datetime c, ci_open = to_float (cd_open c), ci_high = to_float (cd_high c),
     ci_low = to_float (cd_low c), ci_close = to_float (cd_close c)\<rparr>"

definition read_market_candles :: "(decimal \<Rightarrow> rat) \<Rightarrow> http_client \<Rightarrow> string \<Rightarrow> candle_range \<Rightarrow> candles_response result" where
  "read_market_candles to_float client symbol r =
     try_then (route_symbol symbol) (\<lambda>n.
     case resolve_candle_range r of (interval, outputsize) \<Rightarrow>
     try_then (with_provider_answer (td_get_time_series client n interval outputsize (candle_size_text r))) (\<lambda>cs.
     Inr \<lparr>cr_symbol = n, cr_range = r, cr_interval = interval, cr_items = map (candle_item_of to_float) cs\<rparr>))"

section \<open>Cached candles\<close>

record candle_policy =
  cp_fresh_ttl_seconds :: int
  cp_stale_ttl_seconds :: int

definition candle_policy_new :: "int \<Rightarrow> int \<Rightarrow> candle_policy result" where
  "candle_policy_new fresh stale =
     (if fresh \<le> 0 then Inl (ValueError ''fresh_ttl_seconds must be greater than zero'')
      else if stale \<le> fresh then Inl (ValueError ''stale_ttl_seconds must be greater than fresh_ttl_seconds'')
      else Inr \<lparr>cp_fresh_ttl_seconds = fresh, cp_stale_ttl_seconds = stale\<rparr>)"

text \<open>The operations of the missing \<open>MarketCandleCache\<close>, on a state \<open>'s\<close>.\<close>

record 's candle_cache =
  cc_get_fresh :: "string \<Rightarrow> candle_range \<Rightarrow> 's \<Rightarrow> candles_response option result"
  cc_get_stale :: "string \<Rightarrow> candle_range \<Rightarrow> 's \<Rightarrow> candles_response option result"
  cc_set_candles :: "candles_response \<Rightarrow> int \<Rightarrow> int \<Rightarrow> ('s, unit) prog"

record 's candle_service =
  cs_client :: http_client
  cs_cache :: "'s candle_cache"
  cs_policies :: "candle_range \<Rightarrow> candle_policy option"
  cs_to_float :: "decimal \<Rightarrow> rat"

definition candle_service_new ::
  "http_client \<Rightarrow> 's candle_cache \<Rightarrow> (candle_range \<Rightarrow> candle_policy option) \<Rightarrow> (decimal \<Rightarrow> rat) \<Rightarrow> 's candle_service result" where
  "candle_service_new client cache policies to_float =
     (if \<exists>r \<in> {DAY, WEEK, MONTH}. policies r = None then Inl (ValueError ''Missing candle cache policies: '')
      else Inr \<lparr>cs_client = client, cs_cache = cache, cs_policies = policies, cs_to_float = to_float\<rparr>)"

definition no_redis_error :: "candles_response option result \<Rightarrow> candles_response option result" where
  "no_redis_error x = (case x of Inl (RedisError _) \<Rightarrow> Inr None | _ \<Rightarrow> x)"

definition write_cache :: "'s candle_service \<Rightarrow> candles_response \<Rightarrow> ('s, unit) prog" where
  "write_cache c response = (case cs_policies c (cr_range response) of
     None \<Rightarrow> raise KeyError
   | Some p \<Rightarrow> try_except (cc_set_candles (cs_cache c) response (cp_fresh_ttl_seconds p) (cp_stale_ttl_seconds p))
       (\<lambda>e. case e of RedisError _ \<Rightarrow> ret () | _ \<Rightarrow> raise e))"

text \<open>A call, with the text of its \<open>outputsize\<close>.\<close>

record 's candle_call =
  ca_service :: "'s candle_service"
  ca_symbol :: string
  ca_range :: candle_range
  ca_interval :: string
  ca_outputsize :: int
  ca_outputsize_text :: string

definition candles_ask :: "'s candle_call \<Rightarrow> candles_response result" where
  "candles_ask e = map_sum id (\<lambda>cs. \<lparr>cr_symbol = ca_symbol e, cr_range = ca_range e, cr_interval = ca_interval e,
       cr_items = map (candle_item_of (cs_to_float (ca_service e))) cs\<rparr>)
     (td_get_time_series (cs_client (ca_service e)) (ca_symbol e) (ca_interval e) (ca_outputsize e) (ca_outputsize_text e))"

definition get_candles :: "'s candle_call \<Rightarrow> ('s, candles_response) prog" where
  "get_candles e =
     bind get_state (\<lambda>s.
     bind (of_result (no_redis_error (cc_get_fresh (cs_cache (ca_service e)) (ca_symbol e) (ca_range e) s))) (\<lambda>fresh.
     case fresh of
       Some response \<Rightarrow> ret response
     | None \<Rightarrow> (case candles_ask e of
         Inr response \<Rightarrow> bind (write_cache (ca_service e) response) (\<lambda>_. ret response)
       | Inl x \<Rightarrow> (case x of
           TwelveDataRequestError _ \<Rightarrow>
             bind (of_result (no_redis_error (cc_get_stale (cs_cache (ca_service e)) (ca_symbol e) (ca_range e) s))) (\<lambda>stale.
             case stale of Some response \<Rightarrow> ret response | None \<Rightarrow> raise x)
         | TwelveDataResponseError _ \<Rightarrow>
             bind (of_result (no_redis_error (cc_get_stale (cs_cache (ca_service e)) (ca_symbol e) (ca_range e) s))) (\<lambda>stale.
             case stale of Some response \<Rightarrow> ret response | None \<Rightarrow> raise x)
         | _ \<Rightarrow> raise x))))"

end
