(* ===== verification/Market_Route_Properties.thy ===== *)
theory Market_Route_Properties
  imports Market_Routes Batch_Properties
begin

text \<open>
  What the market data routes answer, and the cached candles as an instance of the cache-aside contract.
\<close>

section \<open>The symbols of a request\<close>

definition symbol_accepted :: "string \<Rightarrow> bool" where
  "symbol_accepted s \<longleftrightarrow> s \<noteq> [] \<and> normal_symbol s = s \<and> list_all symbol_char s \<and> length s \<le> 20"

lemma route_symbol_Inr: "route_symbol symbol = Inr n \<Longrightarrow> n = normal_symbol symbol \<and> symbol_accepted n"
  by (auto simp: route_symbol_def symbol_accepted_def Let_def split: if_splits)

lemma route_symbol_accepts: "symbol_accepted (normal_symbol symbol) \<Longrightarrow> route_symbol symbol = Inr (normal_symbol symbol)"
  by (simp add: route_symbol_def symbol_accepted_def Let_def)

text \<open>The symbols that a parameter names, each where it is named first.\<close>

definition named_symbols :: "string list \<Rightarrow> string list" where
  "named_symbols parts = rev (remdups (rev (map normal_symbol parts)))"

lemma remdups_snoc: "remdups (xs @ [x]) = filter (\<lambda>y. y \<noteq> x) (remdups xs) @ [x]"
  by (induction xs) auto

lemma named_symbols_Cons:
  "named_symbols (p # ps) = normal_symbol p # filter (\<lambda>n. n \<noteq> normal_symbol p) (named_symbols ps)"
  by (simp add: named_symbols_def remdups_snoc rev_filter)

lemma named_symbols_set [simp]: "set (named_symbols parts) = normal_symbol ` set parts" "distinct (named_symbols parts)"
  by (simp_all add: named_symbols_def)

lemma route_symbols_loop_Inr:
  "\<forall>p \<in> set parts. symbol_accepted (normal_symbol p) \<Longrightarrow>
    route_symbols_loop seen parts = Inr (filter (\<lambda>n. n \<notin> set seen) (named_symbols parts))"
proof (induction seen parts rule: route_symbols_loop.induct)
  case (2 seen part parts)
  note n = route_symbol_accepts [of part]
  show ?case
  proof (cases "normal_symbol part \<in> set seen")
    case True
    then have "filter (\<lambda>n. n \<notin> set seen) (named_symbols (part # parts)) = filter (\<lambda>n. n \<notin> set seen) (named_symbols parts)"
      by (auto simp: named_symbols_Cons intro: filter_cong)
    then show ?thesis using "2.IH"(1) [OF n True] "2.prems" n True by simp
  next
    case False
    then show ?thesis using "2.IH"(2) [OF n False] "2.prems" n by (simp add: named_symbols_Cons conj_commute)
  qed
qed (simp add: named_symbols_def)

lemma route_symbols_loop_Inl:
  "\<not> (\<forall>p \<in> set parts. symbol_accepted (normal_symbol p)) \<Longrightarrow> \<exists>m. route_symbols_loop seen parts = Inl (unprocessable m)"
proof (induction seen parts rule: route_symbols_loop.induct)
  case (2 seen part parts)
  show ?case
  proof (cases "route_symbol part")
    case (Inl e)
    then show ?thesis by (auto simp: route_symbol_def Let_def split: if_splits)
  next
    case (Inr n)
    then have "\<not> (\<forall>p \<in> set parts. symbol_accepted (normal_symbol p))" using "2.prems" route_symbol_Inr [OF Inr] by auto
    then show ?thesis using "2.IH" [OF Inr] Inr by (cases "n \<in> set seen") auto
  qed
qed simp

lemma split_commas_ne: "split_commas s \<noteq> []"
  by (induction s) (auto split: list.splits)

lemma route_symbols_run:
  defines "ns raw \<equiv> named_symbols (split_commas raw)"
  shows "if (\<forall>p \<in> set (split_commas raw). symbol_accepted (normal_symbol p)) \<and> int (length (ns raw)) \<le> mx
    then route_symbols mx raw = Inr (ns raw) else \<exists>m. route_symbols mx raw = Inl (unprocessable m)"
proof (cases "\<forall>p \<in> set (split_commas raw). symbol_accepted (normal_symbol p)")
  case True
  have "set (ns raw) \<noteq> {}" unfolding ns_def by (simp add: split_commas_ne)
  then have "ns raw \<noteq> []" by auto
  then show ?thesis using route_symbols_loop_Inr [OF True, of "[]"] True
    by (auto simp: route_symbols_def ns_def [symmetric] not_le)
next
  case False
  then show ?thesis using route_symbols_loop_Inl [OF False, of "[]"] by (auto simp: route_symbols_def)
qed

text \<open>
  C24. The route of the batch quotes, for a parameter that is not empty: if each of its parts, trimmed and in upper case, fits the
  symbol pattern and they name at most the configured number of different symbols, the answer has one item for each of these
  symbols in the order in which they are first named, with a quote exactly when its status is no error, whatever of Redis
  and of the requests to the provider fails (with a \<open>RedisError\<close> or an \<open>httpx.HTTPError\<close>), and its counts add up; otherwise the answer is 422 and nothing is done.
\<close>

theorem quotes_route_complete:
  assumes "raw \<noteq> []"
    and "redis_failure (be_fresh_failure env)" "redis_failure (map_option snd (be_put_failure env))" "redis_failure (be_stale_failure env)"
    and "httpx_failures (be_client env)"
  shows "let ns = rev (remdups (rev (map normal_symbol (split_commas raw)))) in
    if (\<forall>n \<in> set ns. symbol_accepted n) \<and> int (length ns) \<le> mx
    then \<exists>resp r'. read_market_quotes mx env raw r = (Inr resp, r') \<and> map qi_symbol (bq_items resp) = ns
      \<and> bq_requested resp = length ns \<and> bq_succeeded resp + bq_stale resp + bq_failed resp = length ns
      \<and> (\<forall>item \<in> set (bq_items resp). qi_status item = ITEM_ERROR \<longleftrightarrow> qi_quote item = None)
    else \<exists>m. read_market_quotes mx env raw r = (Inl (HTTPException 422 m), r)"
proof (cases "(\<forall>n \<in> set (named_symbols (split_commas raw)). symbol_accepted n) \<and> int (length (named_symbols (split_commas raw))) \<le> mx")
  case True
  let ?ns = "named_symbols (split_commas raw)"
  have route: "route_symbols mx raw = Inr ?ns" using route_symbols_run [of raw mx] True by simp
  have "[] \<notin> normal_symbol ` set ?ns" using True by (force simp: symbol_accepted_def)
  then obtain fr pr st errs r' where run: "batch_get_quotes env ?ns r = (Inr (response_of (map (item_for fr pr st errs) ?ns)), r')"
    using batch_answers [OF _ assms(2-5), of ?ns r] by blast
  let ?items = "map (item_for fr pr st errs) ?ns"
  have "read_market_quotes mx env raw r = (Inr (response_of ?items), r')"
    using run route assms(1) by (simp add: read_market_quotes_def bind_run)
  moreover have "map qi_symbol (bq_items (response_of ?items)) = ?ns" "bq_requested (response_of ?items) = length ?ns"
    by (simp_all add: response_of_def comp_def item_for_sound)
  moreover have "\<forall>item \<in> set (bq_items (response_of ?items)). qi_status item = ITEM_ERROR \<longleftrightarrow> qi_quote item = None"
    using item_for_sound(2) by (auto simp: response_of_def)
  moreover have "bq_succeeded (response_of ?items) + bq_stale (response_of ?items) + bq_failed (response_of ?items) = length ?ns"
    using response_counts [of ?items] by simp
  ultimately show ?thesis unfolding Let_def named_symbols_def [symmetric] if_P [OF True] by blast
next
  case False
  obtain m where "route_symbols mx raw = Inl (unprocessable m)"
    using route_symbols_run [of raw mx] False by (auto split: if_split_asm)
  then have "read_market_quotes mx env raw r = (Inl (HTTPException 422 m), r)"
    using assms(1) by (simp add: read_market_quotes_def bind_run unprocessable_def)
  then show ?thesis unfolding Let_def named_symbols_def [symmetric] if_not_P [OF False] by blast
qed

theorem quotes_route_complete_witness:
  "\<exists>resp r'. read_market_quotes 8 (benv silent 0) ''spy, qqq,SPY'' Map.empty = (Inr resp, r')
    \<and> map qi_symbol (bq_items resp) = [''SPY'', ''QQQ'']"
proof -
  have ns: "rev (remdups (rev (map normal_symbol (split_commas ''spy, qqq,SPY'')))) = [''SPY'', ''QQQ'']"
    and ok: "\<forall>n \<in> set [''SPY'', ''QQQ'']. symbol_accepted n" by code_simp+
  have fit: "(\<forall>n \<in> set [''SPY'', ''QQQ'']. symbol_accepted n) \<and> int (length [''SPY'', ''QQQ'']) \<le> 8"
    by (rule conjI, rule ok) simp
  have f: "redis_failure (be_fresh_failure (benv silent 0))" "redis_failure (map_option snd (be_put_failure (benv silent 0)))"
    "redis_failure (be_stale_failure (benv silent 0))" "httpx_failures (be_client (benv silent 0))" by (simp_all add: benv_def redis_failure_def)
  have raw: "''spy, qqq,SPY'' \<noteq> []" by (rule list.distinct(2))
  obtain resp r' where a: "read_market_quotes 8 (benv silent 0) ''spy, qqq,SPY'' Map.empty = (Inr resp, r')"
    and b: "map qi_symbol (bq_items resp) = [''SPY'', ''QQQ'']"
    using quotes_route_complete [OF raw f, where mx = 8 and r = Map.empty, unfolded Let_def ns if_P [OF fit]]
    by (elim exE conjE) (rule that)
  show ?thesis by (rule exI [of _ resp], rule exI [of _ r'], rule conjI, rule a, rule b)
qed

section \<open>Candles\<close>

lemma map_sum_Inr: "map_sum f id x = Inr v \<Longrightarrow> (x = Inr v \<Longrightarrow> thesis) \<Longrightarrow> thesis"
  by (cases x) simp_all

lemma td_get_time_series_Inr:
  assumes "td_get_time_series client symbol interval outputsize size_text = Inr cs"
  shows "\<exists>vs. parse_candles vs = Inr cs"
proof -
  obtain a where a: "(case payload_get a ''values'' of JvArray raw_values \<Rightarrow> parse_candles raw_values
      | _ \<Rightarrow> Inl (bad ''Twelve Data time-series response must contain a values list'')) = Inr cs"
    using assms by (auto simp: td_get_time_series_def try_then_Inr Let_def simp del: jvalue.case split: if_split_asm)
  show ?thesis using a by (cases "payload_get a ''values''") auto
qed

text \<open>A candle of the route lies within its range, for a conversion to floats that keeps the order.\<close>

lemma candles_route_ordered:
  assumes "read_market_candles to_float client symbol rng = Inr resp" "mono to_float" "i \<in> set (cr_items resp)"
  shows "ci_low i \<le> ci_open i \<and> ci_open i \<le> ci_high i \<and> ci_low i \<le> ci_close i \<and> ci_close i \<le> ci_high i"
proof -
  obtain interval size where rng: "resolve_candle_range rng = (interval, size)" by fastforce
  obtain n cs where n: "route_symbol symbol = Inr n"
    and cs: "td_get_time_series client n interval size (candle_size_text rng) = Inr cs"
    and resp: "cr_items resp = map (candle_item_of to_float) cs"
    using assms(1) by (auto simp: read_market_candles_def try_then_Inr with_provider_answer_def rng elim!: map_sum_Inr)
  have "\<exists>vs. parse_candles vs = Inr cs" by (rule td_get_time_series_Inr [OF cs])
  then have "candle_ok c" if "c \<in> set cs" for c using parse_candles_ok that by (auto simp: list_all_iff)
  then show ?thesis using assms(2,3) resp by (auto simp: candle_item_of_def candle_ok_def mono_def)
qed

text \<open>The failures that the service of the candles tolerates.\<close>

definition redis_or_none :: "'a result \<Rightarrow> bool" where
  "redis_or_none x \<longleftrightarrow> (\<forall>e. x = Inl e \<longrightarrow> (\<exists>m. e = RedisError m))"

definition candles_tolerable :: "'s candle_call \<Rightarrow> bool" where
  "candles_tolerable e \<longleftrightarrow> (\<forall>r. cs_policies (ca_service e) r \<noteq> None)
     \<and> (\<forall>sy r s. redis_or_none (cc_get_fresh (cs_cache (ca_service e)) sy r s) \<and> redis_or_none (cc_get_stale (cs_cache (ca_service e)) sy r s))
     \<and> (\<forall>resp f g s. redis_or_none (fst (cc_set_candles (cs_cache (ca_service e)) resp f g s)))"

definition candles_copy :: "candles_response option result \<Rightarrow> candles_response option" where
  "candles_copy x = (case x of Inl _ \<Rightarrow> None | Inr c \<Rightarrow> c)"

definition candles_fresh :: "'s candle_call \<Rightarrow> 's \<Rightarrow> candles_response option" where
  "candles_fresh e s = candles_copy (cc_get_fresh (cs_cache (ca_service e)) (ca_symbol e) (ca_range e) s)"

definition candles_stale :: "'s candle_call \<Rightarrow> 's \<Rightarrow> candles_response option" where
  "candles_stale e s = candles_copy (cc_get_stale (cs_cache (ca_service e)) (ca_symbol e) (ca_range e) s)"

definition market_failure :: "error \<Rightarrow> bool" where
  "market_failure e \<longleftrightarrow> (\<exists>m. e = TwelveDataRequestError m) \<or> (\<exists>m. e = TwelveDataResponseError m)"

lemma no_redis_error_copy: "redis_or_none x \<Longrightarrow> no_redis_error x = Inr (candles_copy x)"
  by (cases x) (auto simp: redis_or_none_def no_redis_error_def candles_copy_def)

lemma write_cache_run:
  assumes "candles_tolerable e"
  shows "\<exists>s'. write_cache (ca_service e) response s = (Inr (), s')"
proof -
  obtain p where p: "cs_policies (ca_service e) (cr_range response) = Some p" using assms unfolding candles_tolerable_def by blast
  obtain x s' where x: "cc_set_candles (cs_cache (ca_service e)) response (cp_fresh_ttl_seconds p) (cp_stale_ttl_seconds p) s = (x, s')"
    by fastforce
  have "redis_or_none (fst (cc_set_candles (cs_cache (ca_service e)) response (cp_fresh_ttl_seconds p) (cp_stale_ttl_seconds p) s))"
    using assms unfolding candles_tolerable_def by blast
  then have "redis_or_none x" by (simp add: x)
  then show ?thesis by (cases x) (auto simp: write_cache_def p try_except_def x redis_or_none_def)
qed

interpretation candles: cache_aside get_candles candles_fresh candles_stale candles_ask market_failure
  "\<lambda>e response s. snd (write_cache (ca_service e) response s)" "\<lambda>_ _ response. response" "\<lambda>x. x" candles_tolerable
proof (unfold_locales, goal_cases)
  case (1 e s v)
  then show ?case
    by (simp add: get_candles_def bind_run no_redis_error_copy candles_tolerable_def candles_fresh_def)
next
  case (2 e s v)
  then show ?case using write_cache_run [OF 2(1), of v s]
    by (auto simp: get_candles_def bind_run no_redis_error_copy candles_tolerable_def candles_fresh_def)
next
  case (3 e s x v)
  then show ?case
    by (auto simp: get_candles_def bind_run no_redis_error_copy candles_tolerable_def candles_fresh_def candles_stale_def market_failure_def)
next
  case (4 e s x)
  then show ?case
    by (auto simp: get_candles_def bind_run no_redis_error_copy candles_tolerable_def candles_fresh_def candles_stale_def market_failure_def)
next
  case (5 e s x)
  then show ?case
    by (cases x) (auto simp: get_candles_def bind_run no_redis_error_copy candles_tolerable_def candles_fresh_def market_failure_def)
qed

text \<open>When the service of the candles answers.\<close>

lemma candles_answered:
  assumes "candles_tolerable e"
  shows "(\<exists>response. fst (get_candles e s) = Inr response) \<longleftrightarrow>
    candles_fresh e s \<noteq> None \<or> (\<exists>v. candles_ask e = Inr v) \<or> (\<exists>x. candles_ask e = Inl x \<and> market_failure x) \<and> candles_stale e s \<noteq> None"
  by (rule candles.answers_iff [OF assms])

end
