(* ===== verification/Schema_Migrations.thy ===== *)
theory Schema_Migrations
  imports Prelude
begin

text \<open>
  The schema of the database: the migrations of \<open>database/migrations/versions\<close>, the order in which
  \<open>database/migrations/env.py\<close> has them run, and the tables that the models of
  \<open>libs/database/models\<close> declare. The statements have the meaning that PostgreSQL documents for them,
  on the names, columns, constraints and indexes of the tables, and on whether a table has rows.
\<close>

section \<open>Tables and statements\<close>

datatype column_type = SqlUuid | SqlString nat | SqlNumeric nat nat | SqlTimestamptz | SqlInteger | SqlText | SqlJsonb

record column =
  col_name :: string
  col_type :: column_type
  col_nullable :: bool
  col_default :: "string option"

abbreviation required :: "string \<Rightarrow> column_type \<Rightarrow> column" where
  "required n t \<equiv> \<lparr>col_name = n, col_type = t, col_nullable = False, col_default = None\<rparr>"

abbreviation optional :: "string \<Rightarrow> column_type \<Rightarrow> column" where
  "optional n t \<equiv> \<lparr>col_name = n, col_type = t, col_nullable = True, col_default = None\<rparr>"

text \<open>A foreign key: its columns, the table and the columns it refers to, and what a deletion there does.\<close>

datatype table_constraint =
    PrimaryKey "string list"
  | Unique "string option" "string list"
  | Check string string
  | ForeignKey "string list" string "string list" string

record db_table =
  tb_columns :: "column list"
  tb_constraints :: "table_constraint list"
  tb_filled :: bool

record db_index =
  ix_table :: string
  ix_columns :: "string list"
  ix_unique :: bool

record db_schema =
  sc_tables :: "(string \<times> db_table) list"
  sc_indexes :: "(string \<times> db_index) list"

definition empty_schema :: db_schema where
  "empty_schema = \<lparr>sc_tables = [], sc_indexes = []\<rparr>"

datatype ddl =
    CreateTable string "column list" "table_constraint list"
  | DropTable string
  | CreateIndex string string "string list" bool
  | DropIndex string string
  | AddColumn string column
  | DropColumn string string

definition column_names :: "db_table \<Rightarrow> string list" where
  "column_names t = map col_name (tb_columns t)"

definition key_columns :: "table_constraint \<Rightarrow> string list" where
  "key_columns c = (case c of PrimaryKey cs \<Rightarrow> cs | Unique _ cs \<Rightarrow> cs | Check _ _ \<Rightarrow> [] | ForeignKey cs _ _ _ \<Rightarrow> cs)"

definition refers_to :: "string \<Rightarrow> db_table \<Rightarrow> bool" where
  "refers_to name t \<longleftrightarrow> (\<exists>c \<in> set (tb_constraints t). case c of ForeignKey _ other _ _ \<Rightarrow> other = name | _ \<Rightarrow> False)"

definition constraint_valid :: "db_schema \<Rightarrow> string list \<Rightarrow> table_constraint \<Rightarrow> bool" where
  "constraint_valid s names c \<longleftrightarrow> set (key_columns c) \<subseteq> set names
     \<and> (case c of ForeignKey _ other cs _ \<Rightarrow>
          (case map_of (sc_tables s) other of None \<Rightarrow> False | Some t \<Rightarrow> set cs \<subseteq> set (column_names t))
        | _ \<Rightarrow> True)"

definition programming_error :: error where
  "programming_error = ExternalError ''ProgrammingError''"

definition remove_key :: "string \<Rightarrow> (string \<times> 'a) list \<Rightarrow> (string \<times> 'a) list" where
  "remove_key k d = filter (\<lambda>p. fst p \<noteq> k) d"

text \<open>
  A statement. A table other tables refer to cannot be dropped; dropping a table or a column drops the
  indexes and keys that use it; a column that must not be null, without a default, cannot be added
  to a table with rows. No migration drops a column that a check constraint mentions.
\<close>

definition apply_ddl :: "ddl \<Rightarrow> db_schema \<Rightarrow> db_schema result" where
  "apply_ddl statement s = (case statement of
     CreateTable name cols cons \<Rightarrow>
       if name \<in> set (map fst (sc_tables s)) \<or> \<not> distinct (map col_name cols)
          \<or> \<not> list_all (constraint_valid s (map col_name cols)) cons
       then Inl programming_error
       else Inr (s\<lparr>sc_tables := sc_tables s @ [(name, \<lparr>tb_columns = cols, tb_constraints = cons, tb_filled = False\<rparr>)]\<rparr>)
   | DropTable name \<Rightarrow>
       if name \<notin> set (map fst (sc_tables s)) \<or> list_ex (\<lambda>(n, t). n \<noteq> name \<and> refers_to name t) (sc_tables s)
       then Inl programming_error
       else Inr \<lparr>sc_tables = remove_key name (sc_tables s), sc_indexes = filter (\<lambda>(_, i). ix_table i \<noteq> name) (sc_indexes s)\<rparr>
   | CreateIndex name table cols uniq \<Rightarrow>
       (case map_of (sc_tables s) table of
          None \<Rightarrow> Inl programming_error
        | Some t \<Rightarrow>
            if name \<in> set (map fst (sc_indexes s)) \<or> \<not> set cols \<subseteq> set (column_names t) then Inl programming_error
            else Inr (s\<lparr>sc_indexes := sc_indexes s @ [(name, \<lparr>ix_table = table, ix_columns = cols, ix_unique = uniq\<rparr>)]\<rparr>))
   | DropIndex name _ \<Rightarrow>
       if name \<notin> set (map fst (sc_indexes s)) then Inl programming_error
       else Inr (s\<lparr>sc_indexes := remove_key name (sc_indexes s)\<rparr>)
   | AddColumn table c \<Rightarrow>
       (case map_of (sc_tables s) table of
          None \<Rightarrow> Inl programming_error
        | Some t \<Rightarrow>
            if col_name c \<in> set (column_names t) \<or> (\<not> col_nullable c \<and> col_default c = None \<and> tb_filled t)
            then Inl programming_error
            else Inr (s\<lparr>sc_tables := map (\<lambda>(n, u). (n, if n = table then u\<lparr>tb_columns := tb_columns u @ [c]\<rparr> else u)) (sc_tables s)\<rparr>))
   | DropColumn table c \<Rightarrow>
       (case map_of (sc_tables s) table of
          None \<Rightarrow> Inl programming_error
        | Some t \<Rightarrow>
            if c \<notin> set (column_names t) then Inl programming_error
            else Inr \<lparr>sc_tables = map (\<lambda>(n, u). (n, if n = table
                      then u\<lparr>tb_columns := filter (\<lambda>d. col_name d \<noteq> c) (tb_columns u),
                             tb_constraints := filter (\<lambda>k. c \<notin> set (key_columns k)) (tb_constraints u)\<rparr> else u)) (sc_tables s),
                  sc_indexes = filter (\<lambda>(_, i). \<not> (ix_table i = table \<and> c \<in> set (ix_columns i))) (sc_indexes s)\<rparr>))"

primrec run_ddl :: "ddl list \<Rightarrow> db_schema \<Rightarrow> db_schema result" where
  "run_ddl [] s = Inr s"
| "run_ddl (x # xs) s = (case apply_ddl x s of Inl e \<Rightarrow> Inl e | Inr s' \<Rightarrow> run_ddl xs s')"

section \<open>The migrations\<close>

definition upgrade_portfolio :: "ddl list" where
  "upgrade_portfolio =
    [CreateTable ''portfolios''
       [required ''id'' SqlUuid, required ''user_id'' (SqlString 128), required ''name'' (SqlString 100),
        required ''currency'' (SqlString 3), required ''created_at'' SqlTimestamptz, required ''updated_at'' SqlTimestamptz]
       [PrimaryKey [''id'']],
     CreateIndex ''ix_portfolios_user_id'' ''portfolios'' [''user_id''] False,
     CreateTable ''positions''
       [required ''id'' SqlUuid, required ''portfolio_id'' SqlUuid, required ''symbol'' (SqlString 32),
        required ''market'' (SqlString 16), required ''quantity'' (SqlNumeric 38 10), required ''average_cost'' (SqlNumeric 38 10),
        required ''created_at'' SqlTimestamptz, required ''updated_at'' SqlTimestamptz]
       [ForeignKey [''portfolio_id''] ''portfolios'' [''id''] ''CASCADE'', PrimaryKey [''id''],
        Unique (Some ''uq_positions_portfolio_market_symbol'') [''portfolio_id'', ''market'', ''symbol'']],
     CreateIndex ''ix_positions_portfolio_id'' ''positions'' [''portfolio_id''] False]"

definition downgrade_portfolio :: "ddl list" where
  "downgrade_portfolio =
    [DropIndex ''ix_positions_portfolio_id'' ''positions'', DropTable ''positions'',
     DropIndex ''ix_portfolios_user_id'' ''portfolios'', DropTable ''portfolios'']"

definition upgrade_outbox :: "ddl list" where
  "upgrade_outbox =
    [CreateTable ''outbox_events''
       [required ''id'' SqlUuid, required ''event_id'' SqlUuid, required ''aggregate_type'' (SqlString 64),
        required ''aggregate_id'' (SqlString 128), required ''event_type'' (SqlString 128), required ''schema_version'' SqlInteger,
        required ''source'' (SqlString 128), required ''correlation_id'' SqlUuid, optional ''causation_id'' SqlUuid,
        optional ''trace_context'' SqlJsonb, required ''payload'' SqlJsonb, required ''occurred_at'' SqlTimestamptz,
        required ''created_at'' SqlTimestamptz, optional ''published_at'' SqlTimestamptz, required ''attempt_count'' SqlInteger,
        optional ''last_error'' SqlText]
       [PrimaryKey [''id''], Unique None [''event_id'']],
     CreateIndex ''ix_outbox_events_aggregate'' ''outbox_events'' [''aggregate_type'', ''aggregate_id''] False,
     CreateIndex ''ix_outbox_events_pending'' ''outbox_events'' [''published_at'', ''occurred_at''] False]"

definition downgrade_outbox :: "ddl list" where
  "downgrade_outbox =
    [DropIndex ''ix_outbox_events_pending'' ''outbox_events'', DropIndex ''ix_outbox_events_aggregate'' ''outbox_events'',
     DropTable ''outbox_events'']"

definition upgrade_outbox_lease :: "ddl list" where
  "upgrade_outbox_lease =
    [AddColumn ''outbox_events'' \<lparr>col_name = ''next_attempt_at'', col_type = SqlTimestamptz, col_nullable = False, col_default = Some ''now()''\<rparr>,
     AddColumn ''outbox_events'' (optional ''locked_until'' SqlTimestamptz),
     AddColumn ''outbox_events'' (optional ''locked_by'' (SqlString 128)),
     CreateIndex ''ix_outbox_events_dispatchable'' ''outbox_events'' [''published_at'', ''next_attempt_at'', ''occurred_at''] False]"

definition downgrade_outbox_lease :: "ddl list" where
  "downgrade_outbox_lease =
    [DropIndex ''ix_outbox_events_dispatchable'' ''outbox_events'', DropColumn ''outbox_events'' ''locked_by'',
     DropColumn ''outbox_events'' ''locked_until'', DropColumn ''outbox_events'' ''next_attempt_at'']"

definition upgrade_watchlist :: "ddl list" where
  "upgrade_watchlist =
    [CreateTable ''watchlist_items''
       [required ''id'' SqlUuid, required ''user_id'' (SqlString 128), required ''symbol'' (SqlString 20),
        \<lparr>col_name = ''created_at'', col_type = SqlTimestamptz, col_nullable = False, col_default = Some ''now()''\<rparr>]
       [PrimaryKey [''id''], Unique (Some ''uq_watchlist_items_user_symbol'') [''user_id'', ''symbol'']],
     CreateIndex ''ix_watchlist_items_user_created_at'' ''watchlist_items'' [''user_id'', ''created_at''] False]"

definition downgrade_watchlist :: "ddl list" where
  "downgrade_watchlist =
    [DropIndex ''ix_watchlist_items_user_created_at'' ''watchlist_items'', DropTable ''watchlist_items'']"

definition create_paper_accounts :: "ddl list" where
  "create_paper_accounts =
    [CreateTable ''paper_accounts''
       [required ''id'' SqlUuid, required ''user_id'' (SqlString 128), required ''initial_cash'' (SqlNumeric 20 6),
        required ''cash_balance'' (SqlNumeric 20 6), required ''currency'' (SqlString 3), required ''created_at'' SqlTimestamptz,
        required ''updated_at'' SqlTimestamptz]
       [Check ''ck_paper_accounts_initial_cash_positive'' ''initial_cash > 0'',
        Check ''ck_paper_accounts_cash_balance_non_negative'' ''cash_balance >= 0'', PrimaryKey [''id'']],
     CreateIndex ''ix_paper_accounts_user_id'' ''paper_accounts'' [''user_id''] False]"

definition create_paper_positions :: "ddl list" where
  "create_paper_positions =
    [CreateTable ''paper_positions''
       [required ''id'' SqlUuid, required ''account_id'' SqlUuid, required ''symbol'' (SqlString 32), required ''quantity'' SqlInteger,
        required ''average_cost'' (SqlNumeric 20 6), required ''realized_pnl'' (SqlNumeric 20 6), required ''created_at'' SqlTimestamptz,
        required ''updated_at'' SqlTimestamptz]
       [Check ''ck_paper_positions_quantity_non_negative'' ''quantity >= 0'',
        Check ''ck_paper_positions_average_cost_non_negative'' ''average_cost >= 0'',
        ForeignKey [''account_id''] ''paper_accounts'' [''id''] ''CASCADE'', PrimaryKey [''id''],
        Unique (Some ''uq_paper_positions_account_symbol'') [''account_id'', ''symbol'']],
     CreateIndex ''ix_paper_positions_account_id'' ''paper_positions'' [''account_id''] False]"

definition create_paper_orders :: "ddl list" where
  "create_paper_orders =
    [CreateTable ''paper_orders''
       [required ''id'' SqlUuid, required ''account_id'' SqlUuid, required ''symbol'' (SqlString 32), required ''side'' (SqlString 8),
        required ''order_type'' (SqlString 16), required ''status'' (SqlString 32), required ''quantity'' SqlInteger,
        required ''filled_quantity'' SqlInteger, optional ''limit_price'' (SqlNumeric 20 6), required ''created_at'' SqlTimestamptz,
        required ''updated_at'' SqlTimestamptz]
       [Check ''ck_paper_orders_quantity_positive'' ''quantity > 0'',
        Check ''ck_paper_orders_filled_quantity_non_negative'' ''filled_quantity >= 0'',
        Check ''ck_paper_orders_fill_not_over_quantity'' ''filled_quantity <= quantity'',
        ForeignKey [''account_id''] ''paper_accounts'' [''id''] ''CASCADE'', PrimaryKey [''id'']],
     CreateIndex ''ix_paper_orders_account_id'' ''paper_orders'' [''account_id''] False,
     CreateIndex ''ix_paper_orders_account_status'' ''paper_orders'' [''account_id'', ''status''] False,
     CreateIndex ''ix_paper_orders_symbol_status'' ''paper_orders'' [''symbol'', ''status''] False]"

definition create_paper_executions :: "ddl list" where
  "create_paper_executions =
    [CreateTable ''paper_executions''
       [required ''id'' SqlUuid, required ''order_id'' SqlUuid, required ''account_id'' SqlUuid, required ''symbol'' (SqlString 32),
        required ''side'' (SqlString 8), required ''quantity'' SqlInteger, required ''price'' (SqlNumeric 20 6),
        required ''executed_at'' SqlTimestamptz]
       [Check ''ck_paper_executions_quantity_positive'' ''quantity > 0'', Check ''ck_paper_executions_price_positive'' ''price > 0'',
        ForeignKey [''account_id''] ''paper_accounts'' [''id''] ''CASCADE'', ForeignKey [''order_id''] ''paper_orders'' [''id''] ''CASCADE'',
        PrimaryKey [''id'']],
     CreateIndex ''ix_paper_executions_account_id'' ''paper_executions'' [''account_id''] False,
     CreateIndex ''ix_paper_executions_order_id'' ''paper_executions'' [''order_id''] False]"

definition upgrade_trading :: "ddl list" where
  "upgrade_trading = create_paper_accounts @ create_paper_positions @ create_paper_orders @ create_paper_executions"

definition downgrade_trading :: "ddl list" where
  "downgrade_trading =
    [DropIndex ''ix_paper_executions_order_id'' ''paper_executions'', DropIndex ''ix_paper_executions_account_id'' ''paper_executions'',
     DropTable ''paper_executions'',
     DropIndex ''ix_paper_orders_symbol_status'' ''paper_orders'', DropIndex ''ix_paper_orders_account_status'' ''paper_orders'',
     DropIndex ''ix_paper_orders_account_id'' ''paper_orders'', DropTable ''paper_orders'',
     DropIndex ''ix_paper_positions_account_id'' ''paper_positions'', DropTable ''paper_positions'',
     DropIndex ''ix_paper_accounts_user_id'' ''paper_accounts'', DropTable ''paper_accounts'']"

record migration =
  mg_revision :: string
  mg_down_revision :: "string option"
  mg_upgrade :: "ddl list"
  mg_downgrade :: "ddl list"

definition migrations :: "migration list" where
  "migrations =
    [\<lparr>mg_revision = ''9be7d5328b5f'', mg_down_revision = Some ''eeb6c9bcdc9f'', mg_upgrade = upgrade_outbox_lease, mg_downgrade = downgrade_outbox_lease\<rparr>,
     \<lparr>mg_revision = ''9f31c7a42b8e'', mg_down_revision = Some ''f80dd8819e17'', mg_upgrade = upgrade_trading, mg_downgrade = downgrade_trading\<rparr>,
     \<lparr>mg_revision = ''b125cf541e1d'', mg_down_revision = None, mg_upgrade = upgrade_portfolio, mg_downgrade = downgrade_portfolio\<rparr>,
     \<lparr>mg_revision = ''eeb6c9bcdc9f'', mg_down_revision = Some ''b125cf541e1d'', mg_upgrade = upgrade_outbox, mg_downgrade = downgrade_outbox\<rparr>,
     \<lparr>mg_revision = ''f80dd8819e17'', mg_down_revision = Some ''9be7d5328b5f'', mg_upgrade = upgrade_watchlist, mg_downgrade = downgrade_watchlist\<rparr>]"

section \<open>Running them\<close>

text \<open>The database with the revision that the table of Alembic names.\<close>

record versioned_db =
  vd_revision :: "string option"
  vd_schema :: db_schema

definition apply_upgrade :: "migration \<Rightarrow> versioned_db \<Rightarrow> versioned_db result" where
  "apply_upgrade m d = map_sum id (\<lambda>s. \<lparr>vd_revision = Some (mg_revision m), vd_schema = s\<rparr>) (run_ddl (mg_upgrade m) (vd_schema d))"

definition apply_downgrade :: "migration \<Rightarrow> versioned_db \<Rightarrow> versioned_db result" where
  "apply_downgrade m d = map_sum id (\<lambda>s. \<lparr>vd_revision = mg_down_revision m, vd_schema = s\<rparr>) (run_ddl (mg_downgrade m) (vd_schema d))"

text \<open>\<open>alembic upgrade head\<close> runs, one after the other, the migration whose \<open>down_revision\<close> is the present revision.\<close>

primrec upgrades :: "nat \<Rightarrow> versioned_db \<Rightarrow> versioned_db result" where
  "upgrades 0 d = Inr d"
| "upgrades (Suc n) d = (case find (\<lambda>m. mg_down_revision m = vd_revision d) migrations of
     None \<Rightarrow> Inr d
   | Some m \<Rightarrow> (case apply_upgrade m d of Inl e \<Rightarrow> Inl e | Inr d' \<Rightarrow> upgrades n d'))"

text \<open>All of them in one transaction: after an error the database is as before.\<close>

definition run_migrations_online :: "(versioned_db, unit) prog" where
  "run_migrations_online d = (case upgrades (length migrations) d of Inl e \<Rightarrow> (Inl e, d) | Inr d' \<Rightarrow> (Inr (), d'))"

section \<open>The tables of the models\<close>

record declared_table =
  dt_name :: string
  dt_columns :: "column list"
  dt_constraints :: "table_constraint list"
  dt_indexes :: "(string \<times> string list) list"

definition portfolio_table :: declared_table where
  "portfolio_table = \<lparr>dt_name = ''portfolios'',
     dt_columns = [required ''id'' SqlUuid, required ''user_id'' (SqlString 128), required ''name'' (SqlString 100),
       required ''currency'' (SqlString 3), required ''created_at'' SqlTimestamptz, required ''updated_at'' SqlTimestamptz],
     dt_constraints = [PrimaryKey [''id'']],
     dt_indexes = [(''ix_portfolios_user_id'', [''user_id''])]\<rparr>"

definition position_table :: declared_table where
  "position_table = \<lparr>dt_name = ''positions'',
     dt_columns = [required ''id'' SqlUuid, required ''portfolio_id'' SqlUuid, required ''symbol'' (SqlString 32),
       required ''market'' (SqlString 16), required ''quantity'' (SqlNumeric 38 10), required ''average_cost'' (SqlNumeric 38 10),
       required ''created_at'' SqlTimestamptz, required ''updated_at'' SqlTimestamptz],
     dt_constraints = [Unique (Some ''uq_positions_portfolio_market_symbol'') [''portfolio_id'', ''market'', ''symbol''],
       PrimaryKey [''id''], ForeignKey [''portfolio_id''] ''portfolios'' [''id''] ''CASCADE''],
     dt_indexes = [(''ix_positions_portfolio_id'', [''portfolio_id''])]\<rparr>"

definition outbox_table :: declared_table where
  "outbox_table = \<lparr>dt_name = ''outbox_events'',
     dt_columns = [required ''id'' SqlUuid, required ''event_id'' SqlUuid, required ''aggregate_type'' (SqlString 64),
       required ''aggregate_id'' (SqlString 128), required ''event_type'' (SqlString 128), required ''schema_version'' SqlInteger,
       required ''source'' (SqlString 128), required ''correlation_id'' SqlUuid, optional ''causation_id'' SqlUuid,
       optional ''trace_context'' SqlJsonb, required ''payload'' SqlJsonb, required ''occurred_at'' SqlTimestamptz,
       required ''created_at'' SqlTimestamptz, optional ''published_at'' SqlTimestamptz, required ''attempt_count'' SqlInteger,
       \<lparr>col_name = ''next_attempt_at'', col_type = SqlTimestamptz, col_nullable = False, col_default = Some ''now()''\<rparr>,
       optional ''last_error'' SqlText, optional ''locked_until'' SqlTimestamptz, optional ''locked_by'' (SqlString 128)],
     dt_constraints = [PrimaryKey [''id''], Unique None [''event_id'']],
     dt_indexes = [(''ix_outbox_events_pending'', [''published_at'', ''occurred_at'']),
       (''ix_outbox_events_dispatchable'', [''published_at'', ''next_attempt_at'', ''occurred_at'']),
       (''ix_outbox_events_aggregate'', [''aggregate_type'', ''aggregate_id''])]\<rparr>"

definition paper_account_table :: declared_table where
  "paper_account_table = \<lparr>dt_name = ''paper_accounts'',
     dt_columns = [required ''id'' SqlUuid, required ''user_id'' (SqlString 128), required ''initial_cash'' (SqlNumeric 20 6),
       required ''cash_balance'' (SqlNumeric 20 6), required ''currency'' (SqlString 3), required ''created_at'' SqlTimestamptz,
       required ''updated_at'' SqlTimestamptz],
     dt_constraints = [Check ''ck_paper_accounts_initial_cash_positive'' ''initial_cash > 0'',
       Check ''ck_paper_accounts_cash_balance_non_negative'' ''cash_balance >= 0'', PrimaryKey [''id'']],
     dt_indexes = [(''ix_paper_accounts_user_id'', [''user_id''])]\<rparr>"

definition paper_position_table :: declared_table where
  "paper_position_table = \<lparr>dt_name = ''paper_positions'',
     dt_columns = [required ''id'' SqlUuid, required ''account_id'' SqlUuid, required ''symbol'' (SqlString 32),
       required ''quantity'' SqlInteger, required ''average_cost'' (SqlNumeric 20 6), required ''realized_pnl'' (SqlNumeric 20 6),
       required ''created_at'' SqlTimestamptz, required ''updated_at'' SqlTimestamptz],
     dt_constraints = [Check ''ck_paper_positions_quantity_non_negative'' ''quantity >= 0'',
       Check ''ck_paper_positions_average_cost_non_negative'' ''average_cost >= 0'',
       Unique (Some ''uq_paper_positions_account_symbol'') [''account_id'', ''symbol''], PrimaryKey [''id''],
       ForeignKey [''account_id''] ''paper_accounts'' [''id''] ''CASCADE''],
     dt_indexes = [(''ix_paper_positions_account_id'', [''account_id''])]\<rparr>"

definition paper_order_table :: declared_table where
  "paper_order_table = \<lparr>dt_name = ''paper_orders'',
     dt_columns = [required ''id'' SqlUuid, required ''account_id'' SqlUuid, required ''symbol'' (SqlString 32),
       required ''side'' (SqlString 8), required ''order_type'' (SqlString 16), required ''status'' (SqlString 32),
       required ''quantity'' SqlInteger, required ''filled_quantity'' SqlInteger, optional ''limit_price'' (SqlNumeric 20 6),
       required ''created_at'' SqlTimestamptz, required ''updated_at'' SqlTimestamptz],
     dt_constraints = [Check ''ck_paper_orders_quantity_positive'' ''quantity > 0'',
       Check ''ck_paper_orders_filled_quantity_non_negative'' ''filled_quantity >= 0'',
       Check ''ck_paper_orders_fill_not_over_quantity'' ''filled_quantity <= quantity'', PrimaryKey [''id''],
       ForeignKey [''account_id''] ''paper_accounts'' [''id''] ''CASCADE''],
     dt_indexes = [(''ix_paper_orders_account_id'', [''account_id'']), (''ix_paper_orders_account_status'', [''account_id'', ''status'']),
       (''ix_paper_orders_symbol_status'', [''symbol'', ''status''])]\<rparr>"

definition paper_execution_table :: declared_table where
  "paper_execution_table = \<lparr>dt_name = ''paper_executions'',
     dt_columns = [required ''id'' SqlUuid, required ''order_id'' SqlUuid, required ''account_id'' SqlUuid,
       required ''symbol'' (SqlString 32), required ''side'' (SqlString 8), required ''quantity'' SqlInteger,
       required ''price'' (SqlNumeric 20 6), required ''executed_at'' SqlTimestamptz],
     dt_constraints = [Check ''ck_paper_executions_quantity_positive'' ''quantity > 0'',
       Check ''ck_paper_executions_price_positive'' ''price > 0'', PrimaryKey [''id''],
       ForeignKey [''order_id''] ''paper_orders'' [''id''] ''CASCADE'', ForeignKey [''account_id''] ''paper_accounts'' [''id''] ''CASCADE''],
     dt_indexes = [(''ix_paper_executions_order_id'', [''order_id'']), (''ix_paper_executions_account_id'', [''account_id''])]\<rparr>"

definition watchlist_table :: declared_table where
  "watchlist_table = \<lparr>dt_name = ''watchlist_items'',
     dt_columns = [required ''id'' SqlUuid, required ''user_id'' (SqlString 128), required ''symbol'' (SqlString 20),
       \<lparr>col_name = ''created_at'', col_type = SqlTimestamptz, col_nullable = False, col_default = Some ''now()''\<rparr>],
     dt_constraints = [Unique (Some ''uq_watchlist_items_user_symbol'') [''user_id'', ''symbol''], PrimaryKey [''id'']],
     dt_indexes = [(''ix_watchlist_items_user_created_at'', [''user_id'', ''created_at''])]\<rparr>"

text \<open>\<open>Base.metadata\<close>, after the import of all models\<close>

definition model_metadata :: "declared_table list" where
  "model_metadata = [outbox_table, portfolio_table, position_table, watchlist_table, paper_account_table,
     paper_execution_table, paper_order_table, paper_position_table]"

text \<open>A schema has what the models declare and nothing else, whatever the order of the columns.\<close>

definition table_matches :: "db_schema \<Rightarrow> declared_table \<Rightarrow> bool" where
  "table_matches s d = (case map_of (sc_tables s) (dt_name d) of
     None \<Rightarrow> False
   | Some t \<Rightarrow> set (tb_columns t) = set (dt_columns d) \<and> set (tb_constraints t) = set (dt_constraints d)
       \<and> (\<forall>(n, cs) \<in> set (dt_indexes d). map_of (sc_indexes s) n = Some \<lparr>ix_table = dt_name d, ix_columns = cs, ix_unique = False\<rparr>))"

definition matches_models :: "db_schema \<Rightarrow> bool" where
  "matches_models s \<longleftrightarrow> list_all (table_matches s) model_metadata
     \<and> set (map fst (sc_tables s)) = set (map dt_name model_metadata)
     \<and> set (map fst (sc_indexes s)) = set (map fst (concat (map dt_indexes model_metadata)))"

end
