(* ===== verification/Schema_Properties.thy ===== *)
theory Schema_Properties
  imports Schema_Migrations
begin

text \<open>
  The migrations end, on every database they are run on, in the schema that the models declare; they
  work on tables with rows; and each is undone by its own downgrade.
\<close>

section \<open>Well-formed schemas\<close>

definition table_valid :: "db_schema \<Rightarrow> db_table \<Rightarrow> bool" where
  "table_valid s t \<longleftrightarrow> distinct (column_names t) \<and> (\<forall>c \<in> set (tb_constraints t). constraint_valid s (column_names t) c)"

definition index_valid :: "db_schema \<Rightarrow> db_index \<Rightarrow> bool" where
  "index_valid s i \<longleftrightarrow> (\<exists>t. map_of (sc_tables s) (ix_table i) = Some t \<and> set (ix_columns i) \<subseteq> set (column_names t))"

definition schema_valid :: "db_schema \<Rightarrow> bool" where
  "schema_valid s \<longleftrightarrow> distinct (map fst (sc_tables s)) \<and> distinct (map fst (sc_indexes s))
     \<and> (\<forall>(n, t) \<in> set (sc_tables s). table_valid s t) \<and> (\<forall>(n, i) \<in> set (sc_indexes s). index_valid s i)"

definition column_in :: "db_schema \<Rightarrow> string \<Rightarrow> string \<Rightarrow> bool" where
  "column_in s table c \<longleftrightarrow> (\<exists>t. map_of (sc_tables s) table = Some t \<and> c \<in> set (column_names t))"

lemma constraint_valid_alt:
  "constraint_valid s names c \<longleftrightarrow> set (key_columns c) \<subseteq> set names
    \<and> (case c of ForeignKey _ other cs _ \<Rightarrow> other \<in> set (map fst (sc_tables s)) \<and> (\<forall>x \<in> set cs. column_in s other x) | _ \<Rightarrow> True)"
  unfolding constraint_valid_def column_in_def
  by (cases c) (auto split: option.splits simp: map_of_eq_None_iff dest: map_of_SomeD intro: rev_image_eqI)

lemma index_valid_alt: "index_valid s i \<longleftrightarrow> ix_table i \<in> set (map fst (sc_tables s)) \<and> (\<forall>c \<in> set (ix_columns i). column_in s (ix_table i) c)"
  unfolding index_valid_def column_in_def
  by (cases "map_of (sc_tables s) (ix_table i)") (auto simp: map_of_eq_None_iff dest: map_of_SomeD intro: rev_image_eqI)

text \<open>What a larger schema keeps.\<close>

definition extends :: "db_schema \<Rightarrow> db_schema \<Rightarrow> bool" where
  "extends s s' \<longleftrightarrow> set (map fst (sc_tables s)) \<subseteq> set (map fst (sc_tables s')) \<and> (\<forall>t c. column_in s t c \<longrightarrow> column_in s' t c)"

lemma extends_constraint: "extends s s' \<Longrightarrow> set names \<subseteq> set names' \<Longrightarrow> constraint_valid s names c \<Longrightarrow> constraint_valid s' names' c"
  unfolding extends_def constraint_valid_alt by (cases c) auto

lemma extends_index: "extends s s' \<Longrightarrow> index_valid s i \<Longrightarrow> index_valid s' i"
  unfolding extends_def index_valid_alt by auto

lemma refers_to_alt: "refers_to name t \<longleftrightarrow> (\<exists>cs os act. ForeignKey cs name os act \<in> set (tb_constraints t))"
proof -
  have "(case c of ForeignKey _ other _ _ \<Rightarrow> other = name | _ \<Rightarrow> False) \<longleftrightarrow> (\<exists>cs os act. c = ForeignKey cs name os act)" for c
    by (cases c) auto
  then show ?thesis unfolding refers_to_def by auto
qed

lemma map_of_map_keys: "map_of (map (\<lambda>(n, u). (n, f n u)) xs) m = map_option (f m) (map_of xs m)"
  by (induction xs) auto

lemma valid_not_referred:
  assumes "schema_valid s" "name \<notin> set (map fst (sc_tables s))" "(n, t) \<in> set (sc_tables s)"
  shows "\<not> refers_to name t"
proof
  assume "refers_to name t"
  then obtain cs os act where "ForeignKey cs name os act \<in> set (tb_constraints t)"
    unfolding refers_to_alt by blast
  moreover have "table_valid s t" using assms(1,3) unfolding schema_valid_def by auto
  ultimately have "constraint_valid s (column_names t) (ForeignKey cs name os act)" unfolding table_valid_def by auto
  then show False using assms(2) unfolding constraint_valid_alt by simp
qed

lemma valid_index_table: "schema_valid s \<Longrightarrow> (n, i) \<in> set (sc_indexes s) \<Longrightarrow> index_valid s i"
  unfolding schema_valid_def by auto

section \<open>A statement and what undoes it\<close>

fun undoes :: "ddl \<Rightarrow> ddl \<Rightarrow> bool" where
  "undoes (DropTable n) (CreateTable m _ _) = (n = m)"
| "undoes (DropIndex n _) (CreateIndex m _ _ _) = (n = m)"
| "undoes (DropColumn t c) (AddColumn u d) = (t = u \<and> c = col_name d)"
| "undoes _ _ = False"

lemma filter_all: "(\<And>x. x \<in> set xs \<Longrightarrow> P x) \<Longrightarrow> filter P xs = xs"
  by (simp add: filter_id_conv)

lemma undo_create_table:
  assumes "schema_valid s" "apply_ddl (CreateTable n cols cons) s = Inr s'"
  shows "apply_ddl (DropTable n) s' = Inr s \<and> schema_valid s'"
proof -
  let ?t = "\<lparr>tb_columns = cols, tb_constraints = cons, tb_filled = False\<rparr>"
  have new: "n \<notin> set (map fst (sc_tables s))" and s': "s' = s\<lparr>sc_tables := sc_tables s @ [(n, ?t)]\<rparr>"
    and cols: "distinct (map col_name cols)" and cons: "list_all (constraint_valid s (map col_name cols)) cons"
    using assms(2) by (auto simp: apply_ddl_def split: if_splits)
  have ext: "extends s s'" unfolding extends_def column_in_def s' using new
    by (auto simp: map_add_def split: option.splits dest: map_of_SomeD)
  have "\<not> list_ex (\<lambda>(m, t). m \<noteq> n \<and> refers_to n t) (sc_tables s')"
    using valid_not_referred [OF assms(1) new] unfolding s' by (auto simp: list_ex_iff)
  moreover have "remove_key n (sc_tables s') = sc_tables s"
    using new unfolding s' remove_key_def by (auto intro!: filter_all)
  moreover have "ix_table i \<noteq> n" if "(m, i) \<in> set (sc_indexes s)" for m i
    using valid_index_table [OF assms(1) that] new unfolding index_valid_alt by blast
  then have "filter (\<lambda>(_, i). ix_table i \<noteq> n) (sc_indexes s') = sc_indexes s"
    unfolding s' by (auto intro!: filter_all)
  ultimately have "apply_ddl (DropTable n) s' = Inr s"
    unfolding apply_ddl_def by (auto simp: s')
  moreover have "schema_valid s'"
    using assms(1) new cols cons extends_constraint [OF ext subset_refl] extends_index [OF ext]
    unfolding schema_valid_def s' table_valid_def by (auto simp: column_names_def list_all_iff)
  ultimately show ?thesis by blast
qed

lemma undo_create_index:
  assumes "schema_valid s" "apply_ddl (CreateIndex n table cols u) s = Inr s'"
  shows "apply_ddl (DropIndex n t) s' = Inr s \<and> schema_valid s'"
proof -
  have new: "n \<notin> set (map fst (sc_indexes s))" and s': "s' = s\<lparr>sc_indexes := sc_indexes s @ [(n, \<lparr>ix_table = table, ix_columns = cols, ix_unique = u\<rparr>)]\<rparr>"
    and i: "index_valid s \<lparr>ix_table = table, ix_columns = cols, ix_unique = u\<rparr>"
    using assms(2) by (auto simp: apply_ddl_def index_valid_def split: if_splits option.splits)
  have same: "constraint_valid s' = constraint_valid s" "index_valid s' = index_valid s"
    unfolding s' by (auto intro!: ext simp: constraint_valid_def index_valid_def split: table_constraint.splits)
  have "apply_ddl (DropIndex n t) s' = Inr s"
    using new unfolding s' apply_ddl_def remove_key_def by (auto intro!: db_schema.equality filter_all)
  moreover have "schema_valid s'"
    using assms(1) new i same unfolding schema_valid_def table_valid_def by (auto simp: s')
  ultimately show ?thesis by blast
qed

lemma undo_add_column:
  assumes "schema_valid s" "apply_ddl (AddColumn table c) s = Inr s'"
  shows "apply_ddl (DropColumn table (col_name c)) s' = Inr s \<and> schema_valid s'"
proof -
  let ?g = "\<lambda>(n, u). (n, if n = table then u\<lparr>tb_columns := tb_columns u @ [c]\<rparr> else u)"
  let ?h = "\<lambda>(n, u). (n, if n = table then u\<lparr>tb_columns := filter (\<lambda>d. col_name d \<noteq> col_name c) (tb_columns u),
      tb_constraints := filter (\<lambda>k. col_name c \<notin> set (key_columns k)) (tb_constraints u)\<rparr> else u)"
  obtain t where t: "map_of (sc_tables s) table = Some t" and c: "col_name c \<notin> set (column_names t)"
    and s': "s' = s\<lparr>sc_tables := map ?g (sc_tables s)\<rparr>"
    using assms(2) by (auto simp: apply_ddl_def split: if_splits option.splits)
  have keys: "map fst (sc_tables s') = map fst (sc_tables s)" unfolding s' by (simp add: comp_def case_prod_unfold)
  have "column_in s' m x" if "column_in s m x" for m x
    using that unfolding column_in_def s' by (cases "m = table") (auto simp: map_of_map_keys column_names_def)
  then have ext: "extends s s'" unfolding extends_def keys by simp
  have cols: "?h (?g (n, u)) = (n, u)" if "(n, u) \<in> set (sc_tables s)" for n u
  proof (cases "n = table")
    case True
    then have "u = t" using that t assms(1) map_of_is_SomeI unfolding schema_valid_def by fastforce
    moreover have "table_valid s u" using that assms(1) unfolding schema_valid_def by auto
    then have "col_name c \<notin> set (key_columns k)" if "k \<in> set (tb_constraints t)" for k
      using that c \<open>u = t\<close> unfolding table_valid_def constraint_valid_def by blast
    moreover have "filter (\<lambda>d. col_name d \<noteq> col_name c) (tb_columns t) = tb_columns t"
      by (rule filter_all) (metis c column_names_def image_eqI list.set_map)
    ultimately show ?thesis using True by (simp add: filter_all)
  qed simp
  have "map ?h (sc_tables s') = sc_tables s" using cols unfolding s' by (auto intro!: map_idI simp: comp_def)
  moreover have "\<not> (ix_table i = table \<and> col_name c \<in> set (ix_columns i))" if "(m, i) \<in> set (sc_indexes s)" for m i
    using valid_index_table [OF assms(1) that] t c unfolding index_valid_def by auto
  then have "filter (\<lambda>(_, i). \<not> (ix_table i = table \<and> col_name c \<in> set (ix_columns i))) (sc_indexes s') = sc_indexes s"
    unfolding s' by (auto intro!: filter_all)
  moreover have "map_of (sc_tables s') table = Some (t\<lparr>tb_columns := tb_columns t @ [c]\<rparr>)"
    unfolding s' by (simp add: map_of_map_keys t)
  ultimately have undone: "apply_ddl (DropColumn table (col_name c)) s' = Inr s"
    unfolding apply_ddl_def by (simp add: column_names_def)
  have "table_valid s' (snd (?g (n, u)))" if "(n, u) \<in> set (sc_tables s)" for n u
  proof -
    have v: "table_valid s u" using that assms(1) unfolding schema_valid_def by auto
    have "col_name c \<notin> set (column_names u)" if "n = table"
      using that \<open>(n, u) \<in> set (sc_tables s)\<close> t c assms(1) map_of_is_SomeI unfolding schema_valid_def by fastforce
    moreover have "set (column_names u) \<subseteq> set (column_names u @ [col_name c])" by auto
    ultimately show ?thesis using v extends_constraint [OF ext, of "column_names u" "column_names u @ [col_name c]"]
        extends_constraint [OF ext subset_refl]
      unfolding table_valid_def by (auto simp: column_names_def)
  qed
  moreover have ixs: "sc_indexes s' = sc_indexes s" and tbs: "sc_tables s' = map ?g (sc_tables s)" by (simp_all add: s')
  ultimately have "\<forall>(n, t) \<in> set (sc_tables s'). table_valid s' t" by fastforce
  then have "schema_valid s'"
    using assms(1) extends_index [OF ext] unfolding schema_valid_def keys ixs by auto
  then show ?thesis using undone by blast
qed


lemma undo_ddl: "schema_valid s \<Longrightarrow> undoes u x \<Longrightarrow> apply_ddl x s = Inr s' \<Longrightarrow> apply_ddl u s' = Inr s \<and> schema_valid s'"
  by (cases u; cases x) (auto dest: undo_create_table undo_create_index undo_add_column)

lemma run_ddl_append: "run_ddl (xs @ ys) s = (case run_ddl xs s of Inl e \<Rightarrow> Inl e | Inr s' \<Rightarrow> run_ddl ys s')"
  by (induction xs arbitrary: s) (auto split: sum.splits)

lemma undo_run:
  "schema_valid s \<Longrightarrow> list_all2 undoes us xs \<Longrightarrow> run_ddl xs s = Inr s' \<Longrightarrow> run_ddl (rev us) s' = Inr s \<and> schema_valid s'"
proof (induction xs arbitrary: us s)
  case (Cons x xs)
  then obtain u us' where us: "us = u # us'" "undoes u x" "list_all2 undoes us' xs" by (auto simp: list_all2_Cons2)
  obtain s1 where s1: "apply_ddl x s = Inr s1" "run_ddl xs s1 = Inr s'" using Cons.prems(3) by (auto split: sum.splits)
  note head = undo_ddl [OF Cons.prems(1) us(2) s1(1)]
  show ?case using Cons.IH [OF _ us(3) s1(2)] head us(1) by (simp add: run_ddl_append)
qed simp

lemma downgrades_undo: "m \<in> set migrations \<Longrightarrow> list_all2 undoes (rev (mg_downgrade m)) (mg_upgrade m)"
proof -
  have "list_all (\<lambda>m. list_all2 undoes (rev (mg_downgrade m)) (mg_upgrade m)) migrations" by code_simp
  then show "m \<in> set migrations \<Longrightarrow> list_all2 undoes (rev (mg_downgrade m)) (mg_upgrade m)" by (simp add: list_all_iff)
qed

lemma upgrade_revision: "apply_upgrade m d = Inr d' \<Longrightarrow> vd_revision d' = Some (mg_revision m)"
  unfolding apply_upgrade_def by (cases "run_ddl (mg_upgrade m) (vd_schema d)") auto

lemma undo_migration:
  assumes "m \<in> set migrations" "schema_valid (vd_schema d)" "vd_revision d = mg_down_revision m" "apply_upgrade m d = Inr d'"
  shows "apply_downgrade m d' = Inr d \<and> schema_valid (vd_schema d')"
proof -
  obtain s' where s': "run_ddl (mg_upgrade m) (vd_schema d) = Inr s'" "d' = \<lparr>vd_revision = Some (mg_revision m), vd_schema = s'\<rparr>"
    using assms(4) unfolding apply_upgrade_def by (cases "run_ddl (mg_upgrade m) (vd_schema d)") auto
  have "run_ddl (mg_downgrade m) s' = Inr (vd_schema d) \<and> schema_valid s'"
    using undo_run [OF assms(2) downgrades_undo [OF assms(1)] s'(1)] by simp
  then show ?thesis using assms(3) unfolding apply_downgrade_def by (simp add: s'(2))
qed

text \<open>
  C26. Every migration is undone by its own downgrade: on any well-formed schema on which its upgrade
  succeeds, the downgrade succeeds after it and gives back that schema and revision.
\<close>

theorem migrations_reversible:
  assumes "m \<in> set migrations" "schema_valid (vd_schema d)" "vd_revision d = mg_down_revision m" "apply_upgrade m d = Inr d'"
  shows "apply_downgrade m d' = Inr d \<and> schema_valid (vd_schema d')"
  using undo_migration [OF assms] .

lemma empty_schema_valid: "schema_valid empty_schema"
  by (simp add: schema_valid_def empty_schema_def)

theorem migrations_reversible_witness:
  "\<exists>d'. apply_upgrade (migrations ! 2) \<lparr>vd_revision = None, vd_schema = empty_schema\<rparr> = Inr d'
    \<and> apply_downgrade (migrations ! 2) d' = Inr \<lparr>vd_revision = None, vd_schema = empty_schema\<rparr>"
proof -
  let ?d = "\<lparr>vd_revision = None, vd_schema = empty_schema\<rparr>"
  have m: "migrations ! 2 \<in> set migrations" "mg_down_revision (migrations ! 2) = None" unfolding migrations_def by simp_all
  have "\<not> isl (apply_upgrade (migrations ! 2) ?d)" by code_simp
  then obtain d' where d': "apply_upgrade (migrations ! 2) ?d = Inr d'" by (auto simp: isl_def dest: sumE) (metis sum.exhaust)
  show ?thesis using migrations_reversible [OF m(1) _ _ d'] empty_schema_valid m(2) d' by simp
qed

section \<open>Live databases\<close>

text \<open>A schema without what it says of the rows.\<close>

definition shape :: "db_schema \<Rightarrow> db_schema" where
  "shape s = s\<lparr>sc_tables := map (\<lambda>(n, t). (n, t\<lparr>tb_filled := False\<rparr>)) (sc_tables s)\<rparr>"

definition with_rows :: "(string \<Rightarrow> bool) \<Rightarrow> db_schema \<Rightarrow> db_schema" where
  "with_rows f s = s\<lparr>sc_tables := map (\<lambda>(n, t). (n, t\<lparr>tb_filled := f n\<rparr>)) (sc_tables s)\<rparr>"

definition filled_tables :: "db_schema \<Rightarrow> string set" where
  "filled_tables s = {n. \<exists>t. (n, t) \<in> set (sc_tables s) \<and> tb_filled t}"

lemma shape_lookup [simp]: "map_of (sc_tables (shape s)) n = map_option (\<lambda>t. t\<lparr>tb_filled := False\<rparr>) (map_of (sc_tables s) n)"
  by (simp add: shape_def map_of_map_keys)

lemma shape_simps [simp]:
  "map fst (sc_tables (shape s)) = map fst (sc_tables s)" "sc_indexes (shape s) = sc_indexes s"
  "column_names (t\<lparr>tb_filled := b\<rparr>) = column_names t" "refers_to n (t\<lparr>tb_filled := b\<rparr>) = refers_to n t"
  by (simp_all add: shape_def comp_def case_prod_unfold column_names_def refers_to_def)

lemma remove_key_map: "remove_key k (map (\<lambda>(n, t). (n, f t)) xs) = map (\<lambda>(n, t). (n, f t)) (remove_key k xs)"
  by (induction xs) (auto simp: remove_key_def)

lemma list_ex_map_snd: "list_ex P (map (\<lambda>(n, t). (n, f t)) xs) = list_ex (\<lambda>(n, t). P (n, f t)) xs"
  by (induction xs) auto

lemma shape_fst [simp]: "fst ` set (sc_tables (shape s)) = fst ` set (sc_tables s)"
  using shape_simps(1) [of s] by (metis list.set_map)

lemma shape_with_rows [simp]: "shape (with_rows f s) = shape s"
  by (simp add: shape_def with_rows_def comp_def case_prod_unfold)

lemma shape_constraint [simp]: "constraint_valid (shape s) = constraint_valid s"
  by (intro ext) (auto simp: constraint_valid_def split: table_constraint.splits option.splits)

lemma put_tables: "(s :: db_schema)\<lparr>sc_tables := x\<rparr> = \<lparr>sc_tables = x, sc_indexes = sc_indexes s\<rparr>"
  by (cases s) simp

lemma shape_alter:
  assumes "\<And>u. (h u)\<lparr>tb_filled := False\<rparr> = h (u\<lparr>tb_filled := False\<rparr>)"
  shows "shape \<lparr>sc_tables = map (\<lambda>(n, u). (n, if n = t then h u else u)) (sc_tables s), sc_indexes = ix\<rparr>
    = \<lparr>sc_tables = map (\<lambda>(n, u). (n, if n = t then h u else u)) (sc_tables (shape s)), sc_indexes = ix\<rparr>"
proof -
  have "(if b then h u else u)\<lparr>tb_filled := False\<rparr> = (if b then h (u\<lparr>tb_filled := False\<rparr>) else u\<lparr>tb_filled := False\<rparr>)" for b u
    by (simp add: assms)
  then show ?thesis by (simp add: shape_def comp_def case_prod_unfold)
qed

definition safe_on_rows :: "ddl \<Rightarrow> bool" where
  "safe_on_rows x = (case x of AddColumn _ c \<Rightarrow> col_nullable c \<or> col_default c \<noteq> None | _ \<Rightarrow> True)"

text \<open>Statements that are safe on rows do not see them: running one commutes with forgetting the rows.\<close>

lemma shape_ddl: "safe_on_rows x \<Longrightarrow> apply_ddl x (shape s) = map_sum id shape (apply_ddl x s)"
proof (cases x)
  case (CreateTable n cols cons)
  then show ?thesis by (simp add: apply_ddl_def) (simp add: shape_def)
next
  case (DropTable n)
  have "list_ex (\<lambda>(m, t). m \<noteq> n \<and> refers_to n t) (sc_tables (shape s)) = list_ex (\<lambda>(m, t). m \<noteq> n \<and> refers_to n t) (sc_tables s)"
    by (simp add: shape_def list_ex_map_snd)
  moreover have "remove_key n (sc_tables (shape s)) = sc_tables (shape (s\<lparr>sc_tables := remove_key n (sc_tables s)\<rparr>))"
    by (simp add: shape_def remove_key_map)
  ultimately show ?thesis using DropTable by (simp add: apply_ddl_def) (simp add: shape_def)
next
  case (CreateIndex n table cols u)
  then show ?thesis by (cases "map_of (sc_tables s) table") (simp_all add: apply_ddl_def, simp_all add: shape_def)
next
  case (DropIndex n t)
  then show ?thesis by (simp add: apply_ddl_def) (simp add: shape_def)
next
  case (AddColumn table c)
  assume "safe_on_rows x"
  then have "col_nullable c \<or> col_default c \<noteq> None" using AddColumn by (simp add: safe_on_rows_def)
  then show ?thesis using AddColumn shape_alter [where h = "\<lambda>u. u\<lparr>tb_columns := tb_columns u @ [c]\<rparr>" and s = s and t = table and ix = "sc_indexes s"]
    by (cases "map_of (sc_tables s) table") (auto simp: apply_ddl_def put_tables)
next
  case (DropColumn table c)
  then show ?thesis
    using shape_alter [where h = "\<lambda>u. u\<lparr>tb_columns := filter (\<lambda>d. col_name d \<noteq> c) (tb_columns u),
        tb_constraints := filter (\<lambda>k. c \<notin> set (key_columns k)) (tb_constraints u)\<rparr>" and s = s and t = table
        and ix = "filter (\<lambda>(_, i). \<not> (ix_table i = table \<and> c \<in> set (ix_columns i))) (sc_indexes s)"]
    by (cases "map_of (sc_tables s) table") (auto simp: apply_ddl_def)
qed

lemma shape_run: "list_all safe_on_rows xs \<Longrightarrow> run_ddl xs (shape s) = map_sum id shape (run_ddl xs s)"
  by (induction xs arbitrary: s) (auto simp: shape_ddl split: sum.splits)

definition row_free :: "versioned_db \<Rightarrow> versioned_db" where
  "row_free d = d\<lparr>vd_schema := shape (vd_schema d)\<rparr>"

lemma row_free_simps [simp]: "vd_revision (row_free d) = vd_revision d" "vd_schema (row_free d) = shape (vd_schema d)"
  by (simp_all add: row_free_def)

lemma migration_statements:
  assumes "m \<in> set migrations"
  shows "list_all safe_on_rows (mg_upgrade m)" "list_all safe_on_rows (mg_downgrade m)"
    "list_all (\<lambda>x. list_ex (\<lambda>u. undoes u x) (mg_downgrade m)) (mg_upgrade m)"
proof -
  have "list_all (\<lambda>m. list_all safe_on_rows (mg_upgrade m) \<and> list_all safe_on_rows (mg_downgrade m)
      \<and> list_all (\<lambda>x. list_ex (\<lambda>u. undoes u x) (mg_downgrade m)) (mg_upgrade m)) migrations" by code_simp
  then show "list_all safe_on_rows (mg_upgrade m)" "list_all safe_on_rows (mg_downgrade m)"
    "list_all (\<lambda>x. list_ex (\<lambda>u. undoes u x) (mg_downgrade m)) (mg_upgrade m)"
    using assms unfolding list_all_iff by blast+
qed

lemma row_free_upgrade: "m \<in> set migrations \<Longrightarrow> apply_upgrade m (row_free d) = map_sum id row_free (apply_upgrade m d)"
  using shape_run [OF migration_statements(1), of m "vd_schema d"]
  by (cases "run_ddl (mg_upgrade m) (vd_schema d)") (simp_all add: apply_upgrade_def row_free_def)

lemma row_free_downgrade: "m \<in> set migrations \<Longrightarrow> apply_downgrade m (row_free d) = map_sum id row_free (apply_downgrade m d)"
  using shape_run [OF migration_statements(2), of m "vd_schema d"]
  by (cases "run_ddl (mg_downgrade m) (vd_schema d)") (simp_all add: apply_downgrade_def row_free_def)

lemma row_free_upgrades: "upgrades n (row_free d) = map_sum id row_free (upgrades n d)"
proof (induction n arbitrary: d)
  case (Suc n)
  show ?case
  proof (cases "find (\<lambda>m. mg_down_revision m = vd_revision d) migrations")
    case (Some m)
    then have "m \<in> set migrations" by (auto simp: find_Some_iff)
    then show ?thesis using Some row_free_upgrade [of m d] Suc.IH by (cases "apply_upgrade m d") simp_all
  qed simp
qed simp

text \<open>The rows survive an upgrade.\<close>

lemma filled_ddl: "undoes u x \<Longrightarrow> apply_ddl x s = Inr s' \<Longrightarrow> filled_tables s' = filled_tables s"
proof (cases x)
  case (AddColumn table c)
  assume "apply_ddl x s = Inr s'"
  then have "s' = s\<lparr>sc_tables := map (\<lambda>(n, u). (n, if n = table then u\<lparr>tb_columns := tb_columns u @ [c]\<rparr> else u)) (sc_tables s)\<rparr>"
    using AddColumn by (auto simp: apply_ddl_def split: option.splits if_splits)
  then show ?thesis unfolding filled_tables_def by (fastforce split: if_splits)
qed (auto simp: apply_ddl_def filled_tables_def split: option.splits if_splits)

lemma filled_run:
  "list_all (\<lambda>x. list_ex (\<lambda>u. undoes u x) us) xs \<Longrightarrow> run_ddl xs s = Inr s' \<Longrightarrow> filled_tables s' = filled_tables s"
proof (induction xs arbitrary: s)
  case (Cons x xs)
  obtain s1 where s1: "apply_ddl x s = Inr s1" "run_ddl xs s1 = Inr s'" using Cons.prems(2) by (auto split: sum.splits)
  obtain u where "undoes u x" using Cons.prems(1) by (auto simp: list_ex_iff)
  then show ?case using filled_ddl [OF _ s1(1)] Cons.IH [OF _ s1(2)] Cons.prems(1) by auto
qed simp

lemma filled_upgrades: "upgrades n d = Inr d' \<Longrightarrow> filled_tables (vd_schema d') = filled_tables (vd_schema d)"
proof (induction n arbitrary: d)
  case (Suc n)
  show ?case
  proof (cases "find (\<lambda>m. mg_down_revision m = vd_revision d) migrations")
    case None
    then show ?thesis using Suc.prems by simp
  next
    case (Some m)
    then have m: "m \<in> set migrations" by (auto simp: find_Some_iff)
    obtain d1 where d1: "apply_upgrade m d = Inr d1" "upgrades n d1 = Inr d'" using Suc.prems Some by (auto split: sum.splits)
    have "filled_tables (vd_schema d1) = filled_tables (vd_schema d)"
      using filled_run [OF migration_statements(3) [OF m]] d1(1) unfolding apply_upgrade_def
      by (cases "run_ddl (mg_upgrade m) (vd_schema d)") auto
    then show ?thesis using Suc.IH [OF d1(2)] by simp
  qed
qed simp

section \<open>Every live database\<close>

definition new_database :: versioned_db where
  "new_database = \<lparr>vd_revision = None, vd_schema = empty_schema\<rparr>"

text \<open>Databases that upgrades, downgrades and the program's writing of rows lead to.\<close>

inductive live :: "versioned_db \<Rightarrow> bool" where
  live_new: "live new_database"
| live_upgrade: "live d \<Longrightarrow> m \<in> set migrations \<Longrightarrow> mg_down_revision m = vd_revision d \<Longrightarrow> apply_upgrade m d = Inr d' \<Longrightarrow> live d'"
| live_downgrade: "live d \<Longrightarrow> m \<in> set migrations \<Longrightarrow> vd_revision d = Some (mg_revision m) \<Longrightarrow> apply_downgrade m d = Inr d' \<Longrightarrow> live d'"
| live_rows: "live d \<Longrightarrow> live (d\<lparr>vd_schema := with_rows f (vd_schema d)\<rparr>)"

text \<open>The databases without rows that the upgrades lead to.\<close>

definition chain :: "nat \<Rightarrow> versioned_db" where
  "chain n = (case upgrades n new_database of Inl _ \<Rightarrow> new_database | Inr d \<Rightarrow> d)"

lemma migrations_linear:
  "distinct (map mg_down_revision migrations)" "distinct (map mg_revision migrations)"
  "find (\<lambda>m. mg_down_revision m = Some ''9f31c7a42b8e'') migrations = None" "length migrations = 5"
  by code_simp+

lemma head_facts:
  "isl (upgrades 5 new_database) = False" "vd_revision (chain 5) = Some ''9f31c7a42b8e''" "matches_models (vd_schema (chain 5))"
  by code_simp+

lemma upgrades_add: "upgrades (n + k) d = (case upgrades n d of Inl e \<Rightarrow> Inl e | Inr d' \<Rightarrow> upgrades k d')"
proof (induction n arbitrary: d)
  case (Suc n)
  show ?case
  proof (cases "find (\<lambda>m. mg_down_revision m = vd_revision d) migrations")
    case None
    then have "upgrades k d = Inr d" by (cases k) simp_all
    then show ?thesis using None by simp
  qed (simp add: Suc.IH split: sum.split)
qed simp

lemma head_stays: "upgrades k (chain 5) = Inr (chain 5)"
  using migrations_linear(3) head_facts(2) by (cases k) simp_all

lemma upgrades_new: "upgrades n new_database = Inr (chain n)"
proof -
  obtain d where d: "upgrades 5 new_database = Inr d" using head_facts(1) by (cases "upgrades 5 new_database") simp_all
  then have five: "chain 5 = d" by (simp add: chain_def)
  have "\<not> isl (upgrades n new_database)"
  proof (cases "n \<le> 5")
    case True
    then show ?thesis using upgrades_add [of n "5 - n" new_database] d by (cases "upgrades n new_database") simp_all
  next
    case False
    then show ?thesis using upgrades_add [of 5 "n - 5" new_database] d head_stays [of "n - 5"] five by simp
  qed
  then show ?thesis by (cases "upgrades n new_database") (simp_all add: chain_def)
qed

lemma chain_step: "upgrades k (chain n) = Inr (chain (n + k))"
  using upgrades_add [of n k new_database] by (simp add: upgrades_new)

lemma chain_head: "chain (n + 5) = chain 5"
  using chain_step [of n 5] head_stays [of n] by (simp add: add.commute)

lemma chain_0: "chain 0 = new_database"
  by (simp add: chain_def)

lemma find_migration: "m \<in> set migrations \<Longrightarrow> mg_down_revision m = r \<Longrightarrow> find (\<lambda>m. mg_down_revision m = r) migrations = Some m"
proof -
  assume m: "m \<in> set migrations" "mg_down_revision m = r"
  then have "find (\<lambda>m. mg_down_revision m = r) migrations \<noteq> None" by (auto simp: find_None_iff)
  then obtain m' where m': "find (\<lambda>m. mg_down_revision m = r) migrations = Some m'" by blast
  then have "m' \<in> set migrations" "mg_down_revision m' = r" by (auto simp: find_Some_iff)
  then show ?thesis using m m' migrations_linear(1) by (auto simp: distinct_map dest: inj_onD)
qed

lemma chain_upgrade:
  assumes "m \<in> set migrations" "mg_down_revision m = vd_revision (chain n)"
  shows "apply_upgrade m (chain n) = Inr (chain (Suc n))"
  using chain_step [of 1 n] find_migration [OF assms] by (cases "apply_upgrade m (chain n)") simp_all

lemma chain_valid: "schema_valid (vd_schema (chain n))"
proof (induction n)
  case 0
  then show ?case by (simp add: chain_0 new_database_def empty_schema_valid)
next
  case (Suc n)
  show ?case
  proof (cases "find (\<lambda>m. mg_down_revision m = vd_revision (chain n)) migrations")
    case None
    then show ?thesis using chain_step [of 1 n] Suc by simp
  next
    case (Some m)
    then have m: "m \<in> set migrations" "mg_down_revision m = vd_revision (chain n)" by (auto simp: find_Some_iff)
    show ?thesis using undo_migration [OF m(1) Suc m(2) [symmetric] chain_upgrade [OF m]] by simp
  qed
qed

lemma chain_downgrade:
  "m \<in> set migrations \<Longrightarrow> vd_revision (chain n) = Some (mg_revision m) \<Longrightarrow> \<exists>k. apply_downgrade m (chain n) = Inr (chain k)"
proof (induction n)
  case 0
  then show ?case by (simp add: chain_0 new_database_def)
next
  case (Suc n)
  show ?case
  proof (cases "find (\<lambda>m. mg_down_revision m = vd_revision (chain n)) migrations")
    case None
    then have "chain (Suc n) = chain n" using chain_step [of 1 n] by simp
    then show ?thesis using Suc by simp
  next
    case (Some m')
    then have m': "m' \<in> set migrations" "mg_down_revision m' = vd_revision (chain n)" by (auto simp: find_Some_iff)
    note up = chain_upgrade [OF m']
    then have "vd_revision (chain (Suc n)) = Some (mg_revision m')" by (rule upgrade_revision)
    then have "m' = m" using Suc.prems m'(1) migrations_linear(2) by (auto simp: distinct_map dest: inj_onD)
    then show ?thesis using undo_migration [OF m'(1) chain_valid m'(2) [symmetric] up] by blast
  qed
qed

lemma row_free_chain: "row_free (chain n) = chain n"
proof -
  have "row_free new_database = new_database" by code_simp
  then show ?thesis using row_free_upgrades [of n new_database] by (simp add: upgrades_new)
qed

lemma row_free_rows [simp]: "row_free (d\<lparr>vd_schema := with_rows f (vd_schema d)\<rparr>) = row_free d"
  by (simp add: row_free_def)

lemma live_chain: "live d \<Longrightarrow> \<exists>n. row_free d = chain n"
proof (induction rule: live.induct)
  case live_new
  show ?case by (rule exI [of _ 0]) (use row_free_chain [of 0] in \<open>simp add: chain_0\<close>)
next
  case (live_upgrade d m d')
  then obtain n where n: "row_free d = chain n" by blast
  then have "mg_down_revision m = vd_revision (chain n)" using live_upgrade.hyps(3) by (metis row_free_simps(1))
  then have "row_free d' = chain (Suc n)"
    using row_free_upgrade [OF live_upgrade.hyps(2), of d] chain_upgrade [OF live_upgrade.hyps(2)] live_upgrade.hyps(4) n by simp
  then show ?case ..
next
  case (live_downgrade d m d')
  then obtain n where n: "row_free d = chain n" by blast
  then have "vd_revision (chain n) = Some (mg_revision m)" using live_downgrade.hyps(3) by (metis row_free_simps(1))
  then obtain k where "apply_downgrade m (chain n) = Inr (chain k)" using chain_downgrade [OF live_downgrade.hyps(2)] by blast
  then have "row_free d' = chain k" using row_free_downgrade [OF live_downgrade.hyps(2), of d] live_downgrade.hyps(4) n by simp
  then show ?case ..
qed simp

lemma matches_shape: "matches_models (shape s) = matches_models s"
  by (auto simp: matches_models_def table_matches_def list_all_iff split: option.splits)

text \<open>
  C25. From every database that upgrades, downgrades and writes of rows lead to, \<open>alembic upgrade head\<close>
  succeeds, leaves rows in exactly the tables that had some, and ends in a schema that has exactly the tables, columns, constraints and
  indexes that the models declare.
\<close>

theorem upgrade_head_matches_models:
  assumes "live d"
  shows "\<exists>d'. run_migrations_online d = (Inr (), d') \<and> vd_revision d' = Some ''9f31c7a42b8e''
    \<and> matches_models (vd_schema d') \<and> filled_tables (vd_schema d') = filled_tables (vd_schema d)"
proof -
  obtain n where n: "row_free d = chain n" using live_chain [OF assms] by blast
  then have "upgrades 5 (row_free d) = Inr (chain 5)" using chain_step [of 5 n] by (simp add: chain_head)
  then obtain d' where d': "upgrades 5 d = Inr d'" "row_free d' = chain 5"
    unfolding row_free_upgrades by (cases "upgrades 5 d") auto
  have "vd_revision d' = Some ''9f31c7a42b8e''" using head_facts(2) d'(2) by (metis row_free_simps(1))
  moreover have "matches_models (vd_schema d')" using head_facts(3) d'(2) by (metis row_free_simps(2) matches_shape)
  ultimately show ?thesis using d'(1) filled_upgrades [OF d'(1)] unfolding run_migrations_online_def migrations_linear(4) by simp
qed

lemma live_chains: "live (chain n)"
proof (induction n)
  case (Suc n)
  show ?case
  proof (cases "find (\<lambda>m. mg_down_revision m = vd_revision (chain n)) migrations")
    case None
    then show ?thesis using chain_step [of 1 n] Suc by simp
  next
    case (Some m)
    then have m: "m \<in> set migrations" "mg_down_revision m = vd_revision (chain n)" by (auto simp: find_Some_iff)
    show ?thesis by (rule live_upgrade [OF Suc m chain_upgrade [OF m]])
  qed
qed (simp add: chain_0 live_new)

text \<open>The database before the tables of paper trading, with events in the outbox.\<close>

definition database_with_events :: versioned_db where
  "database_with_events = (chain 4)\<lparr>vd_schema := with_rows (\<lambda>n. n = ''outbox_events'') (vd_schema (chain 4))\<rparr>"

theorem upgrade_head_matches_models_witness:
  "\<exists>d'. run_migrations_online database_with_events = (Inr (), d') \<and> matches_models (vd_schema d')
    \<and> ''outbox_events'' \<in> filled_tables (vd_schema d')"
proof -
  have "live database_with_events" unfolding database_with_events_def by (rule live_rows [OF live_chains])
  moreover have "list_ex (\<lambda>(n, t). n = ''outbox_events'' \<and> tb_filled t) (sc_tables (vd_schema database_with_events))" by code_simp
  then have "''outbox_events'' \<in> filled_tables (vd_schema database_with_events)"
    unfolding filled_tables_def list_ex_iff by blast
  ultimately show ?thesis using upgrade_head_matches_models by blast
qed

end
