(* ===== verification/Release_Gate.thy ===== *)
theory Release_Gate
  imports Twelve_Data
begin

text \<open>
  The release gate (\<open>scripts/aws/run_api_migration.py\<close>): before a new image of the API is promoted, its
  migrations run as a one-off ECS task made from the task definition of the API. Terraform, the AWS
  clients, the JSON parser and the text of a value that is no text are parameters; the state of the
  program is the list of what it did.
\<close>

section \<open>JSON objects as Python dictionaries\<close>

abbreviation migration_error :: "string \<Rightarrow> error" where
  "migration_error message \<equiv> MigrationError message"

definition attribute_error :: error where
  "attribute_error = ExternalError ''AttributeError''"

definition as_object :: "jvalue \<Rightarrow> jobject result" where
  "as_object v = (case v of JvObject o' \<Rightarrow> Inr o' | _ \<Rightarrow> Inl attribute_error)"

text \<open>Iteration over a value; \<open>d.get(k, [])\<close> gives no elements when the key is absent.\<close>

definition elements :: "jvalue \<Rightarrow> jvalue list result" where
  "elements v = (case v of
     JvArray xs \<Rightarrow> Inr xs
   | JvText s \<Rightarrow> Inr (map (\<lambda>c. JvText [c]) s)
   | JvObject o' \<Rightarrow> Inr (map (\<lambda>(k, _). JvText k) o')
   | _ \<Rightarrow> Inl (TypeError ''object is not iterable''))"

definition get_elements :: "jobject \<Rightarrow> string \<Rightarrow> jvalue list result" where
  "get_elements d k = (case map_of d k of None \<Rightarrow> Inr [] | Some v \<Rightarrow> elements v)"

definition truth :: "jvalue \<Rightarrow> bool" where
  "truth v = (case v of
     JvNull \<Rightarrow> False | JvBool b \<Rightarrow> b | JvInt n \<Rightarrow> n \<noteq> 0 | JvFloat q \<Rightarrow> q \<noteq> Some 0
   | JvText s \<Rightarrow> s \<noteq> [] | JvArray xs \<Rightarrow> xs \<noteq> [] | JvObject o' \<Rightarrow> o' \<noteq> [])"

definition get_truth :: "jobject \<Rightarrow> string \<Rightarrow> bool \<Rightarrow> bool" where
  "get_truth d k otherwise = (case map_of d k of None \<Rightarrow> otherwise | Some v \<Rightarrow> truth v)"

definition equals_zero :: "jvalue \<Rightarrow> bool" where
  "equals_zero v \<longleftrightarrow> v = JvInt 0 \<or> v = JvBool False \<or> v = JvFloat (Some 0)"

definition remove_entry :: "string \<Rightarrow> jobject \<Rightarrow> jobject" where
  "remove_entry k d = filter (\<lambda>p. fst p \<noteq> k) d"

fun text_in :: "string \<Rightarrow> string \<Rightarrow> bool" where
  "text_in p [] = (p = [])"
| "text_in p (c # s) = (take (length p) (c # s) = p \<or> text_in p s)"

definition contains :: "string \<Rightarrow> jvalue \<Rightarrow> bool result" where
  "contains x v = (case v of
     JvArray xs \<Rightarrow> Inr (JvText x \<in> set xs)
   | JvText s \<Rightarrow> Inr (text_in x s)
   | JvObject o' \<Rightarrow> Inr (x \<in> set (map fst o'))
   | _ \<Rightarrow> Inl (TypeError ''argument is not iterable''))"

section \<open>What is outside\<close>

type_synonym run_request = "string \<times> string \<times> string list \<times> string"

record release_world =
  rw_is_dir :: bool
  rw_terraform :: "(int \<times> string) result"
  rw_loads :: "string \<Rightarrow> jvalue option"
  rw_str :: "jvalue \<Rightarrow> string"
  rw_session_region :: "string option result"
  rw_describe_images :: "string \<Rightarrow> string \<Rightarrow> jobject result"
  rw_describe_task_definition :: "string \<Rightarrow> jobject result"
  rw_register_task_definition :: "jobject \<Rightarrow> jobject result"
  rw_run_task :: "run_request \<Rightarrow> jobject result"
  rw_wait :: "string \<Rightarrow> string \<Rightarrow> int \<Rightarrow> int \<Rightarrow> unit result"
  rw_describe_tasks :: "string \<Rightarrow> string \<Rightarrow> jobject result"

definition client_error :: error where "client_error = ExternalError ''ClientError''"

definition boto_core_error :: error where "boto_core_error = ExternalError ''BotoCoreError''"

text \<open>\<open>except (ClientError, BotoCoreError)\<close>\<close>

definition aws_errors_as :: "string \<Rightarrow> 'a result \<Rightarrow> 'a result" where
  "aws_errors_as message x = (case x of
     Inl e \<Rightarrow> Inl (if e = client_error \<or> e = boto_core_error then migration_error message else e) | Inr a \<Rightarrow> Inr a)"

datatype release_event =
    Register jobject
  | RunTask run_request
  | GateOpen string
  | GateClosed

type_synonym 'a release = "(release_event list, 'a) prog"

definition happened :: "release_event \<Rightarrow> unit release" where
  "happened e = update_state (\<lambda>events. events @ [e])"

section \<open>Steps\<close>

definition load_terraform_outputs :: "release_world \<Rightarrow> jobject result" where
  "load_terraform_outputs w = (case rw_terraform w of
     Inl e \<Rightarrow> Inl e
   | Inr (code, out) \<Rightarrow>
       if code \<noteq> 0 then Inl (migration_error ''Command failed'')
       else (case rw_loads w out of
         None \<Rightarrow> Inl (migration_error ''terraform output -json returned invalid JSON.'')
       | Some (JvObject o') \<Rightarrow> Inr o'
       | Some _ \<Rightarrow> Inl (migration_error ''terraform output -json did not return an object.'')))"

definition terraform_output_value :: "jobject \<Rightarrow> string \<Rightarrow> jvalue result" where
  "terraform_output_value outputs name = (case map_of outputs name of
     Some (JvObject item) \<Rightarrow> (case map_of item ''value'' of
       None \<Rightarrow> Inl (migration_error ''Required Terraform output is missing'') | Some v \<Rightarrow> Inr v)
   | _ \<Rightarrow> Inl (migration_error ''Required Terraform output is missing''))"

definition word_char :: "char \<Rightarrow> bool" where
  "word_char c = (let n = of_char c :: nat in (48 \<le> n \<and> n \<le> 57) \<or> (65 \<le> n \<and> n \<le> 90) \<or> (97 \<le> n \<and> n \<le> 122) \<or> n = 95)"

definition image_tag_pattern :: "string \<Rightarrow> bool" where
  "image_tag_pattern s = (case s of [] \<Rightarrow> False
     | c # r \<Rightarrow> word_char c \<and> list_all (\<lambda>d. word_char d \<or> d = CHR ''.'' \<or> d = CHR ''-'') r \<and> length r \<le> 127)"

definition validate_image_tag :: "string \<Rightarrow> string result" where
  "validate_image_tag image_tag =
     (let normalized = strip image_tag in
      if normalized = [] then Inl (migration_error ''image tag must not be empty.'')
      else if lower normalized = ''latest'' then Inl (migration_error ''The mutable latest tag is not allowed.'')
      else if \<not> image_tag_pattern normalized then Inl (migration_error ''Invalid ECR image tag'')
      else Inr normalized)"

definition resolve_region :: "release_world \<Rightarrow> string option \<Rightarrow> string result" where
  "resolve_region w region = (case rw_session_region w of
     Inl e \<Rightarrow> Inl e
   | Inr own \<Rightarrow> (case (if region = None \<or> region = Some [] then own else region) of
       None \<Rightarrow> Inl (migration_error ''AWS region is not configured.'')
     | Some r \<Rightarrow> if r = [] then Inl (migration_error ''AWS region is not configured.'') else Inr r))"

definition resolve_candidate_image :: "release_world \<Rightarrow> string \<Rightarrow> string \<Rightarrow> string \<Rightarrow> (string \<times> string) result" where
  "resolve_candidate_image w repository_name repository_url image_tag =
     (case rw_describe_images w repository_name image_tag of
        Inl e \<Rightarrow> Inl (if e = client_error then migration_error ''ECR image tag does not exist or cannot be read'' else e)
      | Inr response \<Rightarrow>
          try_then (get_elements response ''imageDetails'') (\<lambda>details. case details of
            [detail] \<Rightarrow> try_then (as_object detail) (\<lambda>d. case payload_get d ''imageDigest'' of
              JvText digest \<Rightarrow> if take 7 digest = ''sha256:'' then Inr (repository_url @ ''@'' @ digest, digest)
                else Inl (migration_error ''ECR did not return a valid digest'')
            | _ \<Rightarrow> Inl (migration_error ''ECR did not return a valid digest''))
          | _ \<Rightarrow> Inl (migration_error ''Expected exactly one ECR image'')))"

fun find_named :: "string \<Rightarrow> jvalue list \<Rightarrow> jobject option result" where
  "find_named name [] = Inr None"
| "find_named name (v # vs) = try_then (as_object v) (\<lambda>d.
     if payload_get d ''name'' = JvText name then Inr (Some d) else find_named name vs)"

fun essential_containers :: "jvalue list \<Rightarrow> jobject list result" where
  "essential_containers [] = Inr []"
| "essential_containers (v # vs) = try_then (as_object v) (\<lambda>d.
     try_then (essential_containers vs) (\<lambda>ds. Inr (if get_truth d ''essential'' True then d # ds else ds)))"

definition select_application_container :: "jobject \<Rightarrow> string option \<Rightarrow> jobject result" where
  "select_application_container task_definition container_name = (case map_of task_definition ''containerDefinitions'' of
     Some (JvArray (c # cs)) \<Rightarrow> (case container_name of
       Some name \<Rightarrow> try_then (find_named name (c # cs)) (\<lambda>found. case found of
           Some d \<Rightarrow> Inr d | None \<Rightarrow> Inl (migration_error ''Container not found in source task definition''))
     | None \<Rightarrow> try_then (essential_containers (c # cs)) (\<lambda>ds. case ds of
           [d] \<Rightarrow> Inr d
         | _ \<Rightarrow> Inl (migration_error ''Source task definition has multiple essential containers.'')))
   | _ \<Rightarrow> Inl (migration_error ''Source ECS task definition has no containers.''))"

fun named_texts :: "string \<Rightarrow> jvalue list \<Rightarrow> (string \<times> string) list \<Rightarrow> (string \<times> string) list result" where
  "named_texts field [] acc = Inr acc"
| "named_texts field (v # vs) acc = try_then (as_object v) (\<lambda>d.
     case (payload_get d ''name'', payload_get d field) of
       (JvText name, JvText x) \<Rightarrow> named_texts field vs (dict_put name x acc)
     | _ \<Rightarrow> named_texts field vs acc)"

definition environment_map :: "jobject \<Rightarrow> (string \<times> string) list result" where
  "environment_map container = try_then (get_elements container ''environment'') (\<lambda>items. named_texts ''value'' items [])"

definition secret_map :: "jobject \<Rightarrow> (string \<times> string) list result" where
  "secret_map container = try_then (get_elements container ''secrets'') (\<lambda>items. named_texts ''valueFrom'' items [])"

definition entry_text :: "(string \<times> string) list \<Rightarrow> string \<Rightarrow> string" where
  "entry_text d k = (case map_of d k of None \<Rightarrow> [] | Some v \<Rightarrow> v)"

definition validate_runtime_contract :: "jobject \<Rightarrow> string \<Rightarrow> unit result" where
  "validate_runtime_contract container expected_proxy_endpoint =
     try_then (environment_map container) (\<lambda>environment.
     try_then (secret_map container) (\<lambda>secrets.
       if \<not> {''DATABASE_HOST'', ''DATABASE_PORT'', ''DATABASE_NAME'', ''DATABASE_SSLMODE''} \<subseteq> set (map fst environment)
       then Inl (migration_error ''Source task definition does not have the structured database environment'')
       else if \<not> {''DATABASE_USERNAME'', ''DATABASE_PASSWORD''} \<subseteq> set (map fst secrets)
       then Inl (migration_error ''Source task definition does not inject Aurora database credentials'')
       else if entry_text environment ''DATABASE_HOST'' \<noteq> expected_proxy_endpoint
       then Inl (migration_error ''DATABASE_HOST does not match the Terraform-managed RDS Proxy endpoint.'')
       else if entry_text environment ''DATABASE_PORT'' \<noteq> ''5432''
       then Inl (migration_error ''DATABASE_PORT must be 5432'')
       else if lower (entry_text environment ''DATABASE_SSLMODE'') \<noteq> ''require''
       then Inl (migration_error ''DATABASE_SSLMODE must be require'')
       else if \<not> text_in '':username::'' (entry_text secrets ''DATABASE_USERNAME'')
       then Inl (migration_error ''DATABASE_USERNAME is not mapped to the username JSON key'')
       else if \<not> text_in '':password::'' (entry_text secrets ''DATABASE_PASSWORD'')
       then Inl (migration_error ''DATABASE_PASSWORD is not mapped to the password JSON key'')
       else Inr ()))"

definition migration_command :: "string list" where
  "migration_command = [''python'', ''-m'', ''alembic'', ''-c'', ''database/alembic.ini'', ''upgrade'', ''head'']"

definition register_fields :: "string list" where
  "register_fields = [''taskRoleArn'', ''executionRoleArn'', ''networkMode'', ''volumes'', ''placementConstraints'',
     ''requiresCompatibilities'', ''cpu'', ''memory'', ''pidMode'', ''ipcMode'', ''proxyConfiguration'', ''inferenceAccelerators'',
     ''ephemeralStorage'', ''runtimePlatform'', ''enableFaultInjection'']"

definition migration_container :: "jobject \<Rightarrow> string \<Rightarrow> string list \<Rightarrow> jobject" where
  "migration_container container image_uri command =
     remove_entry ''portMappings'' (remove_entry ''healthCheck''
       (dict_put ''essential'' (JvBool True) (dict_put ''command'' (JvArray (map JvText command))
         (dict_put ''image'' (JvText image_uri) container))))"

definition tag_entry :: "string \<Rightarrow> string \<Rightarrow> jvalue" where
  "tag_entry k v = JvObject [(''key'', JvText k), (''value'', JvText v)]"

definition copy_field :: "jobject \<Rightarrow> string \<Rightarrow> jobject \<Rightarrow> jobject" where
  "copy_field source field request = (case payload_get source field of JvNull \<Rightarrow> request | v \<Rightarrow> dict_put field v request)"

definition build_migration_request :: "jobject \<Rightarrow> jobject \<Rightarrow> string \<Rightarrow> string list \<Rightarrow> jobject result" where
  "build_migration_request source container image_uri command = (case payload_get source ''family'' of
     JvText source_family \<Rightarrow>
       if strip source_family = [] then Inl (migration_error ''Source task definition does not contain a valid family.'')
       else if 255 < length (source_family @ ''-migration'')
       then Inl (migration_error ''Migration task-definition family exceeds 255 characters.'')
       else
         let request = fold (copy_field source) register_fields
               [(''family'', JvText (source_family @ ''-migration'')),
                (''containerDefinitions'', JvArray [JvObject (migration_container container image_uri command)]),
                (''tags'', JvArray [tag_entry ''ManagedBy'' ''DeploymentPipeline'', tag_entry ''Component'' ''DatabaseMigration''])]
         in try_then (contains ''FARGATE'' (case map_of request ''requiresCompatibilities'' of None \<Rightarrow> JvArray [] | Some v \<Rightarrow> v)) (\<lambda>fargate.
            if \<not> fargate then Inl (migration_error ''Source task definition is not Fargate-compatible.'')
            else if payload_get request ''networkMode'' \<noteq> JvText ''awsvpc''
            then Inl (migration_error ''Source task definition must use awsvpc networking.'')
            else Inr request)
   | _ \<Rightarrow> Inl (migration_error ''Source task definition does not contain a valid family.''))"

definition register_migration_task_definition :: "release_world \<Rightarrow> jobject \<Rightarrow> string release" where
  "register_migration_task_definition w request =
     bind (happened (Register request)) (\<lambda>_.
     bind (of_result (aws_errors_as ''Failed to register the migration ECS task definition.'' (rw_register_task_definition w request))) (\<lambda>response.
     bind (of_result (as_object (case map_of response ''taskDefinition'' of None \<Rightarrow> JvObject [] | Some v \<Rightarrow> v))) (\<lambda>d.
     case payload_get d ''taskDefinitionArn'' of
       JvText arn \<Rightarrow> if arn = [] then raise (migration_error ''ECS did not return a migration task-definition ARN.'') else ret arn
     | _ \<Rightarrow> raise (migration_error ''ECS did not return a migration task-definition ARN.''))))"

definition run_migration_task :: "release_world \<Rightarrow> string \<Rightarrow> string \<Rightarrow> string list \<Rightarrow> string \<Rightarrow> string release" where
  "run_migration_task w cluster_name task_definition_arn subnet_ids security_group_id =
     (let request = (cluster_name, task_definition_arn, subnet_ids, security_group_id) in
      bind (happened (RunTask request)) (\<lambda>_.
      bind (of_result (aws_errors_as ''Failed to start the ECS migration task.'' (rw_run_task w request))) (\<lambda>response.
      bind (raise_if (get_truth response ''failures'' False) (migration_error ''ECS rejected the migration task'')) (\<lambda>_.
      bind (of_result (get_elements response ''tasks'')) (\<lambda>tasks. case tasks of
        [task] \<Rightarrow> bind (of_result (as_object task)) (\<lambda>d. case payload_get d ''taskArn'' of
            JvText arn \<Rightarrow> if arn = [] then raise (migration_error ''ECS did not return a migration task ARN.'') else ret arn
          | _ \<Rightarrow> raise (migration_error ''ECS did not return a migration task ARN.''))
      | _ \<Rightarrow> raise (migration_error ''ECS did not start exactly one migration task.''))))))"

definition wait_for_migration :: "release_world \<Rightarrow> string \<Rightarrow> string \<Rightarrow> string \<Rightarrow> int \<Rightarrow> int \<Rightarrow> jobject result" where
  "wait_for_migration w cluster_name task_arn container_name delay max_attempts =
     try_then (aws_errors_as ''Failed while waiting for the ECS migration task to stop.'' (rw_wait w cluster_name task_arn delay max_attempts)) (\<lambda>_.
     try_then (rw_describe_tasks w cluster_name task_arn) (\<lambda>response.
     if get_truth response ''failures'' False then Inl (migration_error ''Unable to describe stopped migration task'')
     else try_then (get_elements response ''tasks'') (\<lambda>tasks. case tasks of
       [task] \<Rightarrow> try_then (as_object task) (\<lambda>t.
         try_then (get_elements t ''containers'') (\<lambda>containers.
         try_then (find_named container_name containers) (\<lambda>found. case found of
           None \<Rightarrow> Inl (migration_error ''Stopped task did not contain the container'')
         | Some c \<Rightarrow> if equals_zero (payload_get c ''exitCode'') then Inr t else Inl (migration_error ''Database migration failed.''))))
     | _ \<Rightarrow> Inl (migration_error ''ECS did not return the stopped migration task.''))))"

section \<open>The program\<close>

record release_arguments =
  ra_image_tag :: string
  ra_region :: "string option"
  ra_container_name :: "string option"
  ra_wait_delay_seconds :: int
  ra_wait_max_attempts :: int

definition value_text :: "release_world \<Rightarrow> jvalue \<Rightarrow> string" where
  "value_text w v = (case v of JvText s \<Rightarrow> s | _ \<Rightarrow> rw_str w v)"

definition release_target :: "release_world \<Rightarrow> (string \<times> string \<times> string list \<times> string \<times> string \<times> string \<times> string) result" where
  "release_target w =
     try_then (load_terraform_outputs w) (\<lambda>outputs.
     try_then (terraform_output_value outputs ''api_ecs_cluster_name'') (\<lambda>cluster.
     try_then (terraform_output_value outputs ''api_task_definition_arn'') (\<lambda>definition_arn.
     try_then (terraform_output_value outputs ''private_app_subnet_ids'') (\<lambda>subnets. case subnets of
       JvArray (i # is) \<Rightarrow>
         try_then (terraform_output_value outputs ''ecs_security_group_id'') (\<lambda>grp.
         try_then (terraform_output_value outputs ''api_ecr_repository_name'') (\<lambda>repository_name.
         try_then (terraform_output_value outputs ''api_ecr_repository_url'') (\<lambda>repository_url.
         try_then (terraform_output_value outputs ''database_proxy_endpoint'') (\<lambda>proxy.
         Inr (value_text w cluster, value_text w definition_arn, map (value_text w) (i # is), value_text w grp,
              value_text w repository_name, value_text w repository_url, value_text w proxy)))))
     | _ \<Rightarrow> Inl (migration_error ''private_app_subnet_ids must be a non-empty list.'')))))"

text \<open>Everything before the first change, then the registration, the task and the wait.\<close>

definition release_plan :: "release_world \<Rightarrow> release_arguments \<Rightarrow> (string \<times> string list \<times> string \<times> string \<times> string \<times> jobject) result" where
  "release_plan w args =
     try_then (validate_image_tag (ra_image_tag args)) (\<lambda>image_tag.
     if \<not> rw_is_dir w then Inl (migration_error ''Terraform directory does not exist'')
     else try_then (release_target w) (\<lambda>(cluster, definition_arn, subnets, grp, repository_name, repository_url, proxy).
     try_then (resolve_region w (ra_region args)) (\<lambda>_.
     try_then (resolve_candidate_image w repository_name repository_url image_tag) (\<lambda>(image_uri, _).
     try_then (aws_errors_as ''Failed to read the source API ECS task definition.'' (rw_describe_task_definition w definition_arn)) (\<lambda>response.
     try_then (as_object (case map_of response ''taskDefinition'' of None \<Rightarrow> JvObject [] | Some v \<Rightarrow> v)) (\<lambda>source.
     try_then (select_application_container source (ra_container_name args)) (\<lambda>container.
     case payload_get container ''name'' of
       JvText name \<Rightarrow>
         if name = [] then Inl (migration_error ''Application container has no valid name.'')
         else try_then (validate_runtime_contract container proxy) (\<lambda>_.
              try_then (build_migration_request source container image_uri migration_command) (\<lambda>request.
              Inr (cluster, subnets, grp, name, image_uri, request)))
     | _ \<Rightarrow> Inl (migration_error ''Application container has no valid name.''))))))))"

definition run_release :: "release_world \<Rightarrow> release_arguments \<Rightarrow> string release" where
  "run_release w args =
     bind (of_result (release_plan w args)) (\<lambda>(cluster, subnets, grp, name, image_uri, request).
     bind (register_migration_task_definition w request) (\<lambda>arn.
     bind (run_migration_task w cluster arn subnets grp) (\<lambda>task_arn.
     bind (of_result (wait_for_migration w cluster task_arn name (ra_wait_delay_seconds args) (ra_wait_max_attempts args))) (\<lambda>_.
     ret image_uri))))"

definition release_main :: "release_world \<Rightarrow> release_arguments \<Rightarrow> int release" where
  "release_main w args =
     try_except (bind (run_release w args) (\<lambda>image_uri. bind (happened (GateOpen image_uri)) (\<lambda>_. ret 0)))
       (\<lambda>e. case e of MigrationError _ \<Rightarrow> bind (happened GateClosed) (\<lambda>_. ret 1) | _ \<Rightarrow> raise e)"

end
