(* ===== verification/Release_Properties.thy ===== *)
theory Release_Properties
  imports Release_Gate
begin

text \<open>When the release gate opens: exactly after a migration of the very image has ended with exit code 0.\<close>

declare map_of_dict_put [simp]

lemma map_of_remove_entry [simp]: "map_of (remove_entry k d) k' = (if k' = k then None else map_of d k')"
  by (induction d) (auto simp: remove_entry_def)

lemma get_copied: "k \<notin> set ks \<Longrightarrow> map_of (fold (copy_field s) ks r) k = map_of r k"
  by (induction ks arbitrary: r) (auto simp: copy_field_def split: jvalue.split)

lemma containers_not_copied: "''containerDefinitions'' \<notin> set register_fields"
  by (simp add: register_fields_def)

lemma find_named_Inr: "find_named name vs = Inr (Some d) \<Longrightarrow> JvObject d \<in> set vs \<and> payload_get d ''name'' = JvText name"
  by (induction vs) (auto simp: try_then_Inr as_object_def split: jvalue.splits if_splits)

definition exited_zero :: "jobject \<Rightarrow> string \<Rightarrow> bool" where
  "exited_zero response name \<longleftrightarrow> (\<exists>t containers c. get_elements response ''tasks'' = Inr [JvObject t]
     \<and> get_elements t ''containers'' = Inr containers \<and> JvObject c \<in> set containers
     \<and> payload_get c ''name'' = JvText name \<and> equals_zero (payload_get c ''exitCode''))"

lemma wait_for_migration_Inr:
  assumes "wait_for_migration w cluster task_arn name delay attempts = Inr t"
  shows "rw_wait w cluster task_arn delay attempts = Inr () \<and> (\<exists>response. rw_describe_tasks w cluster task_arn = Inr response \<and> exited_zero response name)"
proof -
  obtain response tasks where r: "rw_wait w cluster task_arn delay attempts = Inr ()" "rw_describe_tasks w cluster task_arn = Inr response"
      "get_elements response ''tasks'' = Inr tasks"
    and rest: "(case tasks of [task] \<Rightarrow> try_then (as_object task) (\<lambda>t.
         try_then (get_elements t ''containers'') (\<lambda>containers.
         try_then (find_named name containers) (\<lambda>found. case found of
           None \<Rightarrow> Inl (migration_error ''Stopped task did not contain the container'')
         | Some c \<Rightarrow> if equals_zero (payload_get c ''exitCode'') then Inr t else Inl (migration_error ''Database migration failed.''))))
     | _ \<Rightarrow> Inl (migration_error ''ECS did not return the stopped migration task.'')) = Inr t"
    using assms by (auto simp: wait_for_migration_def try_then_Inr aws_errors_as_def split: if_split_asm sum.split_asm)
  obtain task where task: "tasks = [task]" using rest by (cases tasks; cases "tl tasks") auto
  obtain d where d: "task = JvObject d" using rest by (cases task) (auto simp: task as_object_def try_then_def)
  show ?thesis using r rest find_named_Inr unfolding exited_zero_def task d
    by (fastforce simp: try_then_Inr as_object_def split: option.splits if_splits)
qed

text \<open>The container of the migration task: the image, the command, and the database of the source.\<close>

definition migrates :: "jobject \<Rightarrow> string \<Rightarrow> string \<Rightarrow> string \<Rightarrow> bool" where
  "migrates request image_uri name proxy \<longleftrightarrow> (\<exists>c environment. payload_get request ''containerDefinitions'' = JvArray [JvObject c]
     \<and> payload_get c ''name'' = JvText name \<and> payload_get c ''image'' = JvText image_uri
     \<and> payload_get c ''command'' = JvArray (map JvText migration_command) \<and> payload_get c ''essential'' = JvBool True
     \<and> environment_map c = Inr environment \<and> map_of environment ''DATABASE_HOST'' = Some proxy)"

lemma runtime_contract_Inr:
  assumes "validate_runtime_contract container proxy = Inr ()"
  shows "\<exists>environment. environment_map container = Inr environment \<and> map_of environment ''DATABASE_HOST'' = Some proxy"
proof -
  obtain environment where e: "environment_map container = Inr environment" "''DATABASE_HOST'' \<in> set (map fst environment)"
      "entry_text environment ''DATABASE_HOST'' = proxy"
    using assms by (auto simp: validate_runtime_contract_def try_then_Inr split: if_split_asm)
  then obtain h where "map_of environment ''DATABASE_HOST'' = Some h" by (metis map_of_eq_None_iff not_None_eq list.set_map)
  then show ?thesis using e by (auto simp: entry_text_def)
qed

lemma migration_request_Inr:
  assumes "build_migration_request source container image_uri migration_command = Inr request"
    "payload_get container ''name'' = JvText name" "validate_runtime_contract container proxy = Inr ()"
  shows "migrates request image_uri name proxy"
proof -
  obtain environment where e: "environment_map container = Inr environment" "map_of environment ''DATABASE_HOST'' = Some proxy"
    using runtime_contract_Inr [OF assms(3)] by blast
  let ?c = "migration_container container image_uri migration_command"
  have "map_of request ''containerDefinitions'' = Some (JvArray [JvObject ?c])"
    using assms(1) get_copied [of "''containerDefinitions''" register_fields] containers_not_copied
    by (auto simp: build_migration_request_def Let_def try_then_Inr split: jvalue.split_asm if_split_asm)
  then have "payload_get request ''containerDefinitions'' = JvArray [JvObject ?c]" by (simp add: payload_get_def)
  moreover have "environment_map ?c = Inr environment" using e(1) by (simp add: environment_map_def get_elements_def migration_container_def)
  moreover have "payload_get ?c ''name'' = JvText name" using assms(2) by (simp add: payload_get_def migration_container_def)
  moreover have "payload_get ?c ''image'' = JvText image_uri" "payload_get ?c ''command'' = JvArray (map JvText migration_command)"
    "payload_get ?c ''essential'' = JvBool True" by (simp_all add: payload_get_def migration_container_def)
  ultimately show ?thesis using e(2) unfolding migrates_def by blast
qed

section \<open>The gate\<close>

lemma text_result_Inr: "(case v of JvText s \<Rightarrow> f s | _ \<Rightarrow> Inl e) = Inr y \<longleftrightarrow> (\<exists>s. v = JvText s \<and> f s = Inr y)"
  by (cases v) auto

lemma text_prog_Inr: "(case v of JvText s \<Rightarrow> f s | _ \<Rightarrow> raise e) t = (Inr y, t') \<longleftrightarrow> (\<exists>s. v = JvText s \<and> f s t = (Inr y, t'))"
  by (cases v) auto

lemma bind_Inr_iff: "bind m f s = (Inr b, t) \<longleftrightarrow> (\<exists>a s'. m s = (Inr a, s') \<and> f a s' = (Inr b, t))"
  by (auto elim: bind_InrE)

lemma prod_prog: "(case p of (x, y) \<Rightarrow> f x y) t = (case p of (x, y) \<Rightarrow> f x y t)"
  by (cases p) simp

lemmas run_Inr = bind_Inr_iff text_prog_Inr prod_prog

text \<open>The identifiers that ECS answered with: of the definition that was registered, and of the task that was started.\<close>

definition registered_as :: "release_world \<Rightarrow> jobject \<Rightarrow> string \<Rightarrow> bool" where
  "registered_as w request arn \<longleftrightarrow> (\<exists>response d. rw_register_task_definition w request = Inr response
     \<and> map_of response ''taskDefinition'' = Some (JvObject d) \<and> payload_get d ''taskDefinitionArn'' = JvText arn \<and> arn \<noteq> [])"

definition started_as :: "release_world \<Rightarrow> run_request \<Rightarrow> string \<Rightarrow> bool" where
  "started_as w request task_arn \<longleftrightarrow> (\<exists>response d. rw_run_task w request = Inr response \<and> \<not> get_truth response ''failures'' False
     \<and> get_elements response ''tasks'' = Inr [JvObject d] \<and> payload_get d ''taskArn'' = JvText task_arn \<and> task_arn \<noteq> [])"

lemma aws_errors_as_Inr [simp]: "aws_errors_as m x = Inr a \<longleftrightarrow> x = Inr a"
  by (simp add: aws_errors_as_def split: sum.split)

lemma as_object_Inr: "as_object v = Inr d \<longleftrightarrow> v = JvObject d"
  by (auto simp: as_object_def split: jvalue.split)

lemma register_Inr:
  "register_migration_task_definition w request s = (Inr arn, s') \<Longrightarrow> s' = s @ [Register request] \<and> registered_as w request arn"
  by (auto simp: register_migration_task_definition_def registered_as_def happened_def run_Inr as_object_Inr payload_get_def
      split: if_splits option.splits)

lemma run_task_Inr:
  assumes "run_migration_task w cluster arn subnets grp s = (Inr task_arn, s')"
  shows "s' = s @ [RunTask (cluster, arn, subnets, grp)] \<and> started_as w (cluster, arn, subnets, grp) task_arn"
proof -
  obtain response tasks where r: "rw_run_task w (cluster, arn, subnets, grp) = Inr response" "\<not> get_truth response ''failures'' False"
      "get_elements response ''tasks'' = Inr tasks" "s' = s @ [RunTask (cluster, arn, subnets, grp)]"
    and rest: "(case tasks of
        [task] \<Rightarrow> bind (of_result (as_object task)) (\<lambda>d. case payload_get d ''taskArn'' of
            JvText arn \<Rightarrow> if arn = [] then raise (migration_error ''ECS did not return a migration task ARN.'') else ret arn
          | _ \<Rightarrow> raise (migration_error ''ECS did not return a migration task ARN.''))
      | _ \<Rightarrow> raise (migration_error ''ECS did not start exactly one migration task.'')) s' = (Inr task_arn, s')"
    using assms unfolding run_migration_task_def Let_def happened_def
    by (auto elim!: bind_InrE split: if_splits list.splits jvalue.splits)
  obtain task where task: "tasks = [task]" using rest by (cases tasks; cases "tl tasks") auto
  obtain d where "task = JvObject d" "payload_get d ''taskArn'' = JvText task_arn" "task_arn \<noteq> []"
    using rest by (auto simp: task run_Inr as_object_Inr split: if_splits)
  then show ?thesis using r task unfolding started_as_def by blast
qed

definition gate_shut :: "release_event list \<Rightarrow> bool" where
  "gate_shut events \<longleftrightarrow> (\<forall>uri. GateOpen uri \<notin> set events)"

lemma keeps_happened [keeps_intros]: "(\<And>uri. e \<noteq> GateOpen uri) \<Longrightarrow> keeps gate_shut (happened e)"
  by (auto simp: happened_def gate_shut_def keeps_def)

lemma keeps_register [keeps_intros]: "keeps gate_shut (register_migration_task_definition w request)"
  unfolding register_migration_task_definition_def
  by (intro keeps_intros) (auto intro!: keeps_intros split: jvalue.split)

lemma keeps_run_task [keeps_intros]: "keeps gate_shut (run_migration_task w cluster arn subnets grp)"
  unfolding run_migration_task_def Let_def
  by (intro keeps_intros) (auto intro!: keeps_intros split: jvalue.split list.split)

lemma keeps_run_release: "keeps gate_shut (run_release w args)"
  unfolding run_release_def
  by (intro keeps_intros) (auto intro!: keeps_intros split: jvalue.split prod.split)

definition digest_of :: "release_world \<Rightarrow> string \<Rightarrow> string \<Rightarrow> string \<Rightarrow> bool" where
  "digest_of w repository_name tag digest \<longleftrightarrow> (\<exists>response d. rw_describe_images w repository_name tag = Inr response
     \<and> get_elements response ''imageDetails'' = Inr [JvObject d] \<and> payload_get d ''imageDigest'' = JvText digest
     \<and> take 7 digest = ''sha256:'')"

text \<open>What has happened when the program ends well.\<close>

definition released :: "release_world \<Rightarrow> release_arguments \<Rightarrow> string \<Rightarrow> release_event list \<Rightarrow> bool" where
  "released w args image_uri events \<longleftrightarrow>
     (\<exists>tag target request arn task_arn name digest response. case target of (cluster, _, subnets, grp, repository_name, repository_url, proxy) \<Rightarrow>
        validate_image_tag (ra_image_tag args) = Inr tag \<and> release_target w = Inr target
      \<and> image_uri = repository_url @ ''@'' @ digest \<and> digest_of w repository_name tag digest
      \<and> migrates request image_uri name proxy
      \<and> events = [Register request, RunTask (cluster, arn, subnets, grp)]
      \<and> registered_as w request arn \<and> started_as w (cluster, arn, subnets, grp) task_arn
      \<and> rw_wait w cluster task_arn (ra_wait_delay_seconds args) (ra_wait_max_attempts args) = Inr ()
      \<and> rw_describe_tasks w cluster task_arn = Inr response \<and> exited_zero response name)"

lemma candidate_Inr:
  assumes "resolve_candidate_image w repository_name repository_url tag = Inr (uri, digest)"
  shows "uri = repository_url @ ''@'' @ digest \<and> digest_of w repository_name tag digest"
proof -
  obtain response details where r: "rw_describe_images w repository_name tag = Inr response"
      "get_elements response ''imageDetails'' = Inr details" and rest: "(case details of
            [detail] \<Rightarrow> try_then (as_object detail) (\<lambda>d. case payload_get d ''imageDigest'' of
              JvText digest \<Rightarrow> if take 7 digest = ''sha256:'' then Inr (repository_url @ ''@'' @ digest, digest)
                else Inl (migration_error ''ECR did not return a valid digest'')
            | _ \<Rightarrow> Inl (migration_error ''ECR did not return a valid digest''))
          | _ \<Rightarrow> Inl (migration_error ''Expected exactly one ECR image'')) = Inr (uri, digest)"
    using assms by (auto simp: resolve_candidate_image_def try_then_Inr split: sum.split_asm)
  obtain detail where detail: "details = [detail]" using rest by (cases details; cases "tl details") auto
  show ?thesis using r rest unfolding digest_of_def detail
    by (auto simp: try_then_Inr text_result_Inr as_object_Inr split: if_splits)
qed

lemma release_plan_Inr:
  assumes "release_plan w args = Inr (cluster, subnets, grp, name, image_uri, request)"
  shows "\<exists>tag definition_arn repository_name repository_url proxy digest. validate_image_tag (ra_image_tag args) = Inr tag
    \<and> release_target w = Inr (cluster, definition_arn, subnets, grp, repository_name, repository_url, proxy)
    \<and> image_uri = repository_url @ ''@'' @ digest \<and> digest_of w repository_name tag digest \<and> migrates request image_uri name proxy"
proof -
  obtain tag definition_arn repository_name repository_url proxy digest source container where
      *: "validate_image_tag (ra_image_tag args) = Inr tag"
        "release_target w = Inr (cluster, definition_arn, subnets, grp, repository_name, repository_url, proxy)"
        "resolve_candidate_image w repository_name repository_url tag = Inr (image_uri, digest)"
        "payload_get container ''name'' = JvText name" "validate_runtime_contract container proxy = Inr ()"
        "build_migration_request source container image_uri migration_command = Inr request"
    using assms unfolding release_plan_def try_then_Inr text_result_Inr by (auto simp: try_then_Inr text_result_Inr split: if_split_asm)
  show ?thesis using * candidate_Inr [OF *(3)] migration_request_Inr [OF *(6,4,5)] by blast
qed

lemma run_release_Inr:
  assumes "run_release w args [] = (Inr image_uri, events)"
  shows "released w args image_uri events"
proof -
  obtain cluster subnets grp name uri request where plan: "release_plan w args = Inr (cluster, subnets, grp, name, uri, request)"
    using assms by (cases "release_plan w args") (auto simp: run_release_def bind_run)
  obtain arn task_arn t where run: "events = [Register request, RunTask (cluster, arn, subnets, grp)]" "image_uri = uri"
    and wait: "wait_for_migration w cluster task_arn name (ra_wait_delay_seconds args) (ra_wait_max_attempts args) = Inr t"
    and ecs: "registered_as w request arn" "started_as w (cluster, arn, subnets, grp) task_arn"
    using assms by (auto simp: run_release_def plan run_Inr dest!: register_Inr run_task_Inr)
  obtain response where "rw_describe_tasks w cluster task_arn = Inr response" "exited_zero response name"
      "rw_wait w cluster task_arn (ra_wait_delay_seconds args) (ra_wait_max_attempts args) = Inr ()"
    using wait_for_migration_Inr [OF wait] by blast
  moreover obtain tag definition_arn repository_name repository_url proxy digest where
      "validate_image_tag (ra_image_tag args) = Inr tag"
      "release_target w = Inr (cluster, definition_arn, subnets, grp, repository_name, repository_url, proxy)"
      "uri = repository_url @ ''@'' @ digest" "digest_of w repository_name tag digest" "migrates request uri name proxy"
    using release_plan_Inr [OF plan] by blast
  ultimately show ?thesis unfolding released_def run(2) using run(1) ecs
    by (intro exI [of _ tag] exI [of _ "(cluster, definition_arn, subnets, grp, repository_name, repository_url, proxy)"]
        exI [of _ request] exI [of _ arn] exI [of _ task_arn] exI [of _ name] exI [of _ digest] exI [of _ response]) simp
qed

text \<open>
  C31. The release gate is open exactly when the program ends with exit code 0, and then what came before
  is one registration and one task. The definition that was registered runs the image whose digest ECR gave for the tag (no \<open>latest\<close>),
  with the command of the migration and the host of the proxy that Terraform names; the task that was started, without failures, is of
  the definition that ECS named in its answer; the wait was for the task that ECS named in its answer to that, and returned; and the
  migration container, found by its name in the description of this task, had exited with code 0. The exit codes of
  other containers are not looked at.
\<close>

theorem release_gate_sound:
  assumes "release_main w args [] = (r, events)"
  shows "(r = Inr 0 \<longleftrightarrow> \<not> gate_shut events)
    \<and> (gate_shut events \<or> (\<exists>image_uri. events = butlast events @ [GateOpen image_uri] \<and> released w args image_uri (butlast events)))"
proof -
  obtain x s where run: "run_release w args [] = (x, s)" by fastforce
  have shut: "gate_shut s" using keepsD [OF keeps_run_release _ run] by (simp add: gate_shut_def)
  show ?thesis
  proof (cases x)
    case (Inr image_uri)
    then have "r = Inr 0" "events = s @ [GateOpen image_uri]"
      using assms run by (auto simp: release_main_def try_except_def bind_run happened_def)
    moreover have "released w args image_uri s" using run_release_Inr run Inr by simp
    ultimately show ?thesis by (auto simp: gate_shut_def)
  next
    case (Inl e)
    then have "r \<noteq> Inr 0 \<and> (events = s \<or> events = s @ [GateClosed])"
      using assms run by (cases e) (auto simp: release_main_def try_except_def bind_run happened_def)
    then show ?thesis using shut by (auto simp: gate_shut_def)
  qed
qed

text \<open>An environment in which everything is as it should be, but for the exit code of the migration.\<close>

definition outputs_json :: jvalue where
  "outputs_json = JvObject (map (\<lambda>(k, v). (k, JvObject [(''value'', v)]))
     [(''api_ecs_cluster_name'', JvText ''core''), (''api_task_definition_arn'', JvText ''arn:api:7''),
      (''private_app_subnet_ids'', JvArray [JvText ''subnet-a'', JvText ''subnet-b'']), (''ecs_security_group_id'', JvText ''sg-1''),
      (''api_ecr_repository_name'', JvText ''api''), (''api_ecr_repository_url'', JvText ''ecr/api''),
      (''database_proxy_endpoint'', JvText ''proxy.internal'')])"

definition api_container :: jvalue where
  "api_container = JvObject [(''name'', JvText ''api''), (''image'', JvText ''ecr/api@old''),
     (''environment'', JvArray (map (\<lambda>(k, v). JvObject [(''name'', JvText k), (''value'', JvText v)])
        [(''DATABASE_HOST'', ''proxy.internal''), (''DATABASE_PORT'', ''5432''), (''DATABASE_NAME'', ''realstock''), (''DATABASE_SSLMODE'', ''require'')])),
     (''secrets'', JvArray (map (\<lambda>(k, v). JvObject [(''name'', JvText k), (''valueFrom'', JvText v)])
        [(''DATABASE_USERNAME'', ''arn:db:username::''), (''DATABASE_PASSWORD'', ''arn:db:password::'')]))]"

definition release_example :: "int \<Rightarrow> release_world" where
  "release_example exit_code = \<lparr>rw_is_dir = True, rw_terraform = Inr (0, []), rw_loads = \<lambda>_. Some outputs_json, rw_str = \<lambda>_. [],
     rw_session_region = Inr (Some ''ap-northeast-1''),
     rw_describe_images = \<lambda>_ _. Inr [(''imageDetails'', JvArray [JvObject [(''imageDigest'', JvText ''sha256:ab'')]])],
     rw_describe_task_definition = \<lambda>_. Inr [(''taskDefinition'', JvObject [(''family'', JvText ''api''),
        (''containerDefinitions'', JvArray [api_container]), (''networkMode'', JvText ''awsvpc''),
        (''requiresCompatibilities'', JvArray [JvText ''FARGATE''])])],
     rw_register_task_definition = \<lambda>_. Inr [(''taskDefinition'', JvObject [(''taskDefinitionArn'', JvText ''arn:migration:1'')])],
     rw_run_task = \<lambda>_. Inr [(''tasks'', JvArray [JvObject [(''taskArn'', JvText ''arn:task:1'')]])],
     rw_wait = \<lambda>_ _ _ _. Inr (),
     rw_describe_tasks = \<lambda>_ _. Inr [(''tasks'', JvArray [JvObject [(''containers'',
        JvArray [JvObject [(''name'', JvText ''api''), (''exitCode'', JvInt exit_code)]])]])]\<rparr>"

definition example_arguments :: release_arguments where
  "example_arguments = \<lparr>ra_image_tag = '' 3f2a '', ra_region = None, ra_container_name = None, ra_wait_delay_seconds = 6, ra_wait_max_attempts = 100\<rparr>"

theorem release_gate_sound_witness:
  "(\<exists>image_uri. released (release_example 0) example_arguments image_uri (butlast (snd (release_main (release_example 0) example_arguments []))))
    \<and> gate_shut (snd (release_main (release_example 1) example_arguments []))"
proof -
  let ?good = "release_main (release_example 0) example_arguments []"
  let ?bad = "release_main (release_example 1) example_arguments []"
  have exits: "fst ?good = Inr 0" "fst ?bad = Inr 1" by code_simp+
  note sound = release_gate_sound [OF prod.collapse [symmetric]]
  have "\<not> gate_shut (snd ?good)" "gate_shut (snd ?bad)" using sound [of _ _] exits by (metis one_neq_zero sum.inject(2))+
  then show ?thesis using sound [of "release_example 0" example_arguments] by blast
qed

end
