(* ===== verification/Configuration.thy ===== *)
theory Configuration
  imports Twelve_Data
begin

text \<open>
  The settings of the processes (\<open>libs/config/settings.py\<close>): their fields with the bounds and defaults
  that Pydantic checks, and the four validators that run after them, in order. Texts are the bytes of
  their UTF-8 encoding.
\<close>

section \<open>Quoting for a URL\<close>

definition safe_char :: "char \<Rightarrow> bool" where
  "safe_char c = (let n = of_char c :: nat in (48 \<le> n \<and> n \<le> 57) \<or> (65 \<le> n \<and> n \<le> 90) \<or> (97 \<le> n \<and> n \<le> 122)
     \<or> n \<in> {45, 46, 95, 126})"

definition url_hex_digit :: "nat \<Rightarrow> char" where
  "url_hex_digit k = char_of (if k < 10 then 48 + k else 55 + k)"

definition hex_value :: "char \<Rightarrow> nat option" where
  "hex_value c = (let n = of_char c :: nat in
     if 48 \<le> n \<and> n \<le> 57 then Some (n - 48) else if 65 \<le> n \<and> n \<le> 70 then Some (n - 55)
     else if 97 \<le> n \<and> n \<le> 102 then Some (n - 87) else None)"

definition quote_byte :: "char \<Rightarrow> string" where
  "quote_byte c =
     (if safe_char c then [c] else if c = CHR '' '' then ''+''
      else let n = of_char c in [CHR ''%'', url_hex_digit (n div 16), url_hex_digit (n mod 16)])"

definition quote_plus :: "string \<Rightarrow> string" where
  "quote_plus s = concat (map quote_byte s)"

fun int_text_nat :: "nat \<Rightarrow> string" where
  "int_text_nat n = (if n < 10 then [char_of (48 + n)] else int_text_nat (n div 10) @ [char_of (48 + n mod 10)])"

declare int_text_nat.simps [simp del]

definition int_text :: "int \<Rightarrow> string" where
  "int_text n = (if n < 0 then CHR ''-'' # int_text_nat (nat (- n)) else int_text_nat (nat n))"

text \<open>The text of a URL of PostgreSQL, from parts that are quoted already.\<close>

definition url_text :: "string \<Rightarrow> string \<Rightarrow> string \<Rightarrow> int \<Rightarrow> string \<Rightarrow> string option \<Rightarrow> string" where
  "url_text username password host port database sslmode =
     ''postgresql+psycopg://'' @ username @ '':'' @ password @ ''@'' @ host @ '':'' @ int_text port @ ''/'' @ database
     @ (case sslmode of None \<Rightarrow> [] | Some m \<Rightarrow> ''?sslmode='' @ m)"

section \<open>Fields\<close>

datatype app_environment = LOCAL | DEV | STAGING | PRODUCTION

datatype log_level_name = LOG_DEBUG | LOG_INFO | LOG_WARNING | LOG_ERROR | LOG_CRITICAL

datatype market_data_source = MOCK_DATA | TWELVE_DATA

record application_settings =
  app_name :: string
  app_env :: app_environment
  log_level :: log_level_name
  aws_region :: string
  aws_endpoint_url :: "string option"
  market_data_provider :: market_data_source
  twelve_data_api_key :: "string option"

record outbox_settings = application_settings +
  outbox_batch_size :: int
  outbox_lease_seconds :: int
  outbox_poll_interval_seconds :: rat
  outbox_error_backoff_seconds :: rat
  outbox_event_bus_name :: string
  outbox_metrics_namespace :: string
  outbox_metrics_interval_seconds :: int

record database_settings = outbox_settings +
  database_secret_id :: "string option"
  database_url :: string
  database_host :: "string option"
  database_port :: int
  database_name :: "string option"
  database_username :: "string option"
  database_password :: "string option"
  database_sslmode :: string

record settings = database_settings +
  redis_url :: string
  market_quote_cache_ttl_seconds :: int
  market_quote_stale_ttl_seconds :: int
  market_candle_day_fresh_ttl_seconds :: int
  market_candle_day_stale_ttl_seconds :: int
  market_candle_week_fresh_ttl_seconds :: int
  market_candle_week_stale_ttl_seconds :: int
  market_candle_month_fresh_ttl_seconds :: int
  market_candle_month_stale_ttl_seconds :: int
  market_batch_max_symbols :: int

definition outbox_fields_ok :: "settings \<Rightarrow> bool" where
  "outbox_fields_ok s \<longleftrightarrow> outbox_batch_size s \<in> {1..1000} \<and> outbox_lease_seconds s \<in> {1..3600}
     \<and> 0 < outbox_poll_interval_seconds s \<and> outbox_poll_interval_seconds s \<le> 60
     \<and> 0 < outbox_error_backoff_seconds s \<and> outbox_error_backoff_seconds s \<le> 300
     \<and> outbox_event_bus_name s \<noteq> [] \<and> outbox_metrics_namespace s \<noteq> [] \<and> outbox_metrics_interval_seconds s \<in> {1..3600}"

definition database_fields_ok :: "settings \<Rightarrow> bool" where
  "database_fields_ok s \<longleftrightarrow> database_port s \<in> {1..65535} \<and> database_sslmode s \<noteq> []"

definition market_fields_ok :: "settings \<Rightarrow> bool" where
  "market_fields_ok s \<longleftrightarrow> market_quote_cache_ttl_seconds s \<in> {1..3600} \<and> market_quote_stale_ttl_seconds s \<in> {60..86400}
     \<and> market_candle_day_fresh_ttl_seconds s \<in> {1..3600} \<and> market_candle_day_stale_ttl_seconds s \<in> {60..86400}
     \<and> market_candle_week_fresh_ttl_seconds s \<in> {60..86400} \<and> market_candle_week_stale_ttl_seconds s \<in> {300..604800}
     \<and> market_candle_month_fresh_ttl_seconds s \<in> {60..86400} \<and> market_candle_month_stale_ttl_seconds s \<in> {900..2592000}
     \<and> market_batch_max_symbols s \<in> {1..50}"

text \<open>The settings without any variable but \<open>REDIS_URL\<close>, which has no default.\<close>

definition default_settings :: "string \<Rightarrow> settings" where
  "default_settings url =
     \<lparr>app_name = ''realstock'', app_env = LOCAL, log_level = LOG_INFO, aws_region = ''ap-northeast-1'', aws_endpoint_url = None,
      market_data_provider = MOCK_DATA, twelve_data_api_key = None,
      outbox_batch_size = 10, outbox_lease_seconds = 60, outbox_poll_interval_seconds = 1, outbox_error_backoff_seconds = 5,
      outbox_event_bus_name = ''default'', outbox_metrics_namespace = ''RealStock/Outbox'', outbox_metrics_interval_seconds = 30,
      database_secret_id = None, database_url = [], database_host = None, database_port = 5432, database_name = None,
      database_username = None, database_password = None, database_sslmode = ''require'', redis_url = url,
      market_quote_cache_ttl_seconds = 60, market_quote_stale_ttl_seconds = 900,
      market_candle_day_fresh_ttl_seconds = 60, market_candle_day_stale_ttl_seconds = 900,
      market_candle_week_fresh_ttl_seconds = 300, market_candle_week_stale_ttl_seconds = 21600,
      market_candle_month_fresh_ttl_seconds = 900, market_candle_month_stale_ttl_seconds = 86400, market_batch_max_symbols = 8\<rparr>"

section \<open>Validators\<close>

definition blank :: "string option \<Rightarrow> bool" where
  "blank x = (case x of None \<Rightarrow> True | Some s \<Rightarrow> strip s = [])"

definition structured_database_configured :: "settings \<Rightarrow> bool" where
  "structured_database_configured s \<longleftrightarrow> database_host s \<noteq> None \<or> database_name s \<noteq> None
     \<or> database_username s \<noteq> None \<or> database_password s \<noteq> None"

abbreviation text_of :: "string option \<Rightarrow> string" where
  "text_of x \<equiv> case_option [] (\<lambda>s. s) x"

definition structured_url :: "settings \<Rightarrow> string" where
  "structured_url s = url_text (quote_plus (strip (text_of (database_username s)))) (quote_plus (text_of (database_password s)))
     (strip (text_of (database_host s))) (database_port s) (quote_plus (strip (text_of (database_name s))))
     (Some (quote_plus (strip (database_sslmode s))))"

definition validate_database_configuration :: "settings \<Rightarrow> settings result" where
  "validate_database_configuration s =
     (if structured_database_configured s then
        if blank (database_host s) \<or> blank (database_name s) \<or> blank (database_username s)
           \<or> database_password s = None \<or> database_password s = Some []
        then Inl (ValueError ''Incomplete structured database configuration.'')
        else Inr (s\<lparr>database_url := structured_url s\<rparr>)
      else if \<not> blank (database_secret_id s) then
        if app_env s = LOCAL \<and> strip (database_url s) = []
        then Inl (ValueError ''Local environments require DATABASE_URL or structured DATABASE_* configuration.'')
        else Inr s
      else if strip (database_url s) \<noteq> [] then Inr s
      else Inl (ValueError ''Database configuration is required.''))"

definition validate_market_data_configuration :: "settings \<Rightarrow> settings result" where
  "validate_market_data_configuration s =
     (if market_data_provider s = TWELVE_DATA \<and> blank (twelve_data_api_key s)
      then Inl (ValueError ''TWELVE_DATA_API_KEY is required when MARKET_DATA_PROVIDER=twelve_data'') else Inr s)"

definition validate_market_cache_configuration :: "settings \<Rightarrow> settings result" where
  "validate_market_cache_configuration s =
     (if market_quote_stale_ttl_seconds s \<le> market_quote_cache_ttl_seconds s
      then Inl (ValueError ''MARKET_QUOTE_STALE_TTL_SECONDS must be greater than MARKET_QUOTE_CACHE_TTL_SECONDS'')
      else if market_candle_day_stale_ttl_seconds s \<le> market_candle_day_fresh_ttl_seconds s
      then Inl (ValueError ''MARKET_CANDLE_DAY_STALE_TTL_SECONDS must be greater'')
      else if market_candle_week_stale_ttl_seconds s \<le> market_candle_week_fresh_ttl_seconds s
      then Inl (ValueError ''MARKET_CANDLE_WEEK_STALE_TTL_SECONDS must be greater'')
      else if market_candle_month_stale_ttl_seconds s \<le> market_candle_month_fresh_ttl_seconds s
      then Inl (ValueError ''MARKET_CANDLE_MONTH_STALE_TTL_SECONDS must be greater'')
      else Inr s)"

definition validate_environment :: "settings \<Rightarrow> settings result" where
  "validate_environment s =
     (if app_env s = LOCAL then
        if aws_endpoint_url s = None \<or> aws_endpoint_url s = Some []
        then Inl (ValueError ''AWS_ENDPOINT_URL is required when APP_ENV=local'') else Inr s
      else if aws_endpoint_url s \<noteq> None \<and> aws_endpoint_url s \<noteq> Some []
      then Inl (ValueError ''AWS_ENDPOINT_URL must not be configured outside the local environment'')
      else Inr s)"

text \<open>Pydantic wraps the \<open>ValueError\<close> of a validator into a \<open>ValidationError\<close>.\<close>

definition settings_new :: "settings \<Rightarrow> settings result" where
  "settings_new s =
     (if \<not> (outbox_fields_ok s \<and> database_fields_ok s \<and> market_fields_ok s) then Inl ValidationError
      else map_sum (\<lambda>_. ValidationError) id
        (try_then (validate_database_configuration s) (\<lambda>s1.
         try_then (validate_market_data_configuration s1) (\<lambda>s2.
         try_then (validate_market_cache_configuration s2) validate_environment))))"

definition is_local :: "settings \<Rightarrow> bool" where
  "is_local s \<longleftrightarrow> app_env s = LOCAL"

definition use_localstack :: "settings \<Rightarrow> bool" where
  "use_localstack s \<longleftrightarrow> is_local s \<and> aws_endpoint_url s \<noteq> None \<and> aws_endpoint_url s \<noteq> Some []"

end
