(* ===== verification/Outbox_Worker.thy ===== *)
theory Outbox_Worker
  imports Outbox_Properties Configuration
begin

text \<open>
  The process of the outbox (\<open>runner.py\<close>, \<open>metrics.py\<close> and \<open>main.py\<close> of \<open>services/outbox_dispatcher\<close>):
  the endless loop with its stop event, the metrics it sends to CloudWatch, and the composition from the
  settings. The process runs beside others: at each tick they act on the outbox, and the clocks, the
  failures of the calls and the signal are functions of the tick.
\<close>

section \<open>Metrics\<close>

record 's outbox_metrics =
  om_record_dispatch :: "dispatch_result \<Rightarrow> rat \<Rightarrow> ('s, unit) prog"
  om_record_backlog :: "backlog_snapshot \<Rightarrow> datetime option \<Rightarrow> ('s, unit) prog"
  om_record_worker_error :: "('s, unit) prog"

definition noop_outbox_metrics :: "'s outbox_metrics" where
  "noop_outbox_metrics = \<lparr>om_record_dispatch = (\<lambda>_ _. ret ()), om_record_backlog = (\<lambda>_ _. ret ()), om_record_worker_error = ret ()\<rparr>"

record outbox_datum =
  od_metric_name :: string
  od_dimensions :: "(string \<times> string) list"
  od_value :: rat
  od_unit :: string

record 's cloudwatch_outbox =
  co_namespace :: string
  co_environment :: string
  co_service_name :: string
  co_client :: "string \<Rightarrow> outbox_datum list \<Rightarrow> ('s, unit) prog"

definition cloudwatch_outbox_new ::
  "string \<Rightarrow> string \<Rightarrow> string \<Rightarrow> (string \<Rightarrow> outbox_datum list \<Rightarrow> ('s, unit) prog) \<Rightarrow> 's cloudwatch_outbox result" where
  "cloudwatch_outbox_new namespace environment service client =
     (if strip namespace = [] then Inl (ValueError ''namespace must not be empty'')
      else if strip environment = [] then Inl (ValueError ''environment must not be empty'')
      else if strip service = [] then Inl (ValueError ''service_name must not be empty'')
      else Inr \<lparr>co_namespace = strip namespace, co_environment = strip environment, co_service_name = strip service, co_client = client\<rparr>)"

definition outbox_metric :: "'s cloudwatch_outbox \<Rightarrow> string \<Rightarrow> rat \<Rightarrow> string \<Rightarrow> outbox_datum" where
  "outbox_metric c name v u = \<lparr>od_metric_name = name,
     od_dimensions = [(''Environment'', co_environment c), (''Service'', co_service_name c)], od_value = v, od_unit = u\<rparr>"

definition record_dispatch :: "'s cloudwatch_outbox \<Rightarrow> dispatch_result \<Rightarrow> rat \<Rightarrow> ('s, unit) prog" where
  "record_dispatch c result duration_ms =
     bind (raise_if (duration_ms < 0) (ValueError ''duration_ms must not be negative'')) (\<lambda>_.
     bind (raise_if (dr_claimed result < 0) (ValueError ''claimed must not be negative'')) (\<lambda>_.
     bind (raise_if (dr_published result < 0) (ValueError ''published must not be negative'')) (\<lambda>_.
     bind (raise_if (dr_failed result < 0) (ValueError ''failed must not be negative'')) (\<lambda>_.
     co_client c (co_namespace c)
       [outbox_metric c ''OutboxClaimedCount'' (of_int (dr_claimed result)) ''Count'',
        outbox_metric c ''OutboxPublishSuccessCount'' (of_int (dr_published result)) ''Count'',
        outbox_metric c ''OutboxPublishFailureCount'' (of_int (dr_failed result)) ''Count'',
        outbox_metric c ''OutboxDispatchDurationMilliseconds'' duration_ms ''Milliseconds'']))))"

definition oldest_pending_age_seconds :: "backlog_snapshot \<Rightarrow> int \<Rightarrow> rat" where
  "oldest_pending_age_seconds snapshot observed_at = (case oldest_pending_at snapshot of
     None \<Rightarrow> 0 | Some t \<Rightarrow> max (of_int (observed_at - t) / 1000000) 0)"

text \<open>The count of a snapshot is a natural number, so the check for a negative one never fires.\<close>

definition record_backlog :: "'s cloudwatch_outbox \<Rightarrow> int \<Rightarrow> backlog_snapshot \<Rightarrow> datetime option \<Rightarrow> ('s, unit) prog" where
  "record_backlog c clock snapshot observed_at =
     bind (of_result (resolve_utc clock observed_at)) (\<lambda>effective.
     co_client c (co_namespace c)
       [outbox_metric c ''OutboxPendingCount'' (of_nat (pending_count snapshot)) ''Count'',
        outbox_metric c ''OutboxOldestPendingAgeSeconds'' (oldest_pending_age_seconds snapshot effective) ''Seconds''])"

definition record_worker_error :: "'s cloudwatch_outbox \<Rightarrow> ('s, unit) prog" where
  "record_worker_error c = co_client c (co_namespace c) [outbox_metric c ''OutboxWorkerErrorCount'' 1 ''Count'']"

text \<open>\<open>wall\<close> reads the clock of the state.\<close>

definition cloudwatch_outbox_metrics :: "('s \<Rightarrow> int) \<Rightarrow> 's cloudwatch_outbox \<Rightarrow> 's outbox_metrics" where
  "cloudwatch_outbox_metrics wall c = \<lparr>om_record_dispatch = record_dispatch c,
     om_record_backlog = (\<lambda>snapshot observed_at s. record_backlog c (wall s) snapshot observed_at s),
     om_record_worker_error = record_worker_error c\<rparr>"

section \<open>The runner\<close>

record 's outbox_runner =
  ru_config :: runner_config
  ru_dispatch_once :: "('s, dispatch_result) prog"
  ru_backlog_snapshot :: "('s, backlog_snapshot) prog"
  ru_metrics :: "'s outbox_metrics"
  ru_monotonic_clock :: "'s \<Rightarrow> rat \<times> 's"
  ru_is_set :: "'s \<Rightarrow> bool"
  ru_wait :: "rat \<Rightarrow> 's \<Rightarrow> 's"
  ru_log_exception :: "error \<Rightarrow> 's \<Rightarrow> 's"

definition safely :: "'s outbox_runner \<Rightarrow> ('s, unit) prog \<Rightarrow> 's \<Rightarrow> 's" where
  "safely ru m s = (case m s of (Inl e, s') \<Rightarrow> ru_log_exception ru e s' | (Inr _, s') \<Rightarrow> s')"

definition record_dispatch_safely :: "'s outbox_runner \<Rightarrow> dispatch_result \<Rightarrow> rat \<Rightarrow> 's \<Rightarrow> 's" where
  "record_dispatch_safely ru result duration_ms = safely ru (om_record_dispatch (ru_metrics ru) result duration_ms)"

definition record_worker_error_safely :: "'s outbox_runner \<Rightarrow> 's \<Rightarrow> 's" where
  "record_worker_error_safely ru = safely ru (om_record_worker_error (ru_metrics ru))"

definition record_backlog_when_due :: "'s outbox_runner \<Rightarrow> rat \<times> 's \<Rightarrow> rat \<times> 's" where
  "record_backlog_when_due ru = (\<lambda>(next_at, s). case ru_monotonic_clock ru s of (now, s1) \<Rightarrow>
     if now < next_at then (next_at, s1)
     else (now + metrics_interval_seconds (ru_config ru),
       (case ru_backlog_snapshot ru s1 of
          (Inl e, s2) \<Rightarrow> ru_log_exception ru e s2
        | (Inr snapshot, s2) \<Rightarrow> safely ru (om_record_backlog (ru_metrics ru) snapshot None) s2)))"

text \<open>The pair is \<open>_next_backlog_metric_at\<close> and the rest of the world.\<close>

definition worker_iteration :: "'s outbox_runner \<Rightarrow> rat \<times> 's \<Rightarrow> rat \<times> 's" where
  "worker_iteration ru = (\<lambda>(next_at, s). case ru_monotonic_clock ru s of (started_at, s0) \<Rightarrow>
     (case ru_dispatch_once ru s0 of
        (Inl e, s1) \<Rightarrow>
          (next_at, ru_wait ru (error_backoff_seconds (ru_config ru)) (record_worker_error_safely ru (ru_log_exception ru e s1)))
      | (Inr result, s1) \<Rightarrow> (case ru_monotonic_clock ru s1 of (finished_at, s2) \<Rightarrow>
          let duration_ms = max ((finished_at - started_at) * 1000) 0;
              s3 = (if 0 < dr_claimed result then record_dispatch_safely ru result duration_ms s2 else s2);
              (next_at', s4) = record_backlog_when_due ru (next_at, s3)
          in (next_at', if dr_claimed result = 0 then ru_wait ru (poll_interval_seconds (ru_config ru)) s4 else s4))))"

partial_function (option) run_forever :: "'s outbox_runner \<Rightarrow> rat \<times> 's \<Rightarrow> 's option" where
  "run_forever ru st = (if ru_is_set ru (snd st) then Some (snd st) else run_forever ru (worker_iteration ru st))"

section \<open>The process\<close>

record 'p worker_process =
  wp_world :: "'p outbox_world"
  wp_ticks :: nat
  wp_sent :: "(string \<times> outbox_datum list) list"
  wp_logged :: "error list"

text \<open>\<open>su_build_error\<close> is what building the engine or a client of AWS raises, if it does.\<close>

record 'p surroundings =
  su_others :: "nat \<Rightarrow> 'p outbox_world \<Rightarrow> 'p outbox_world"
  su_outbox :: "nat \<Rightarrow> 'p outbox_env"
  su_monotonic :: "nat \<Rightarrow> rat"
  su_build_error :: "error option"
  su_snapshot_error :: "nat \<Rightarrow> error option"
  su_cloudwatch_error :: "nat \<Rightarrow> error option"
  su_stopped :: "nat \<Rightarrow> bool"

definition elapse :: "'p surroundings \<Rightarrow> 'p worker_process \<Rightarrow> 'p worker_process" where
  "elapse su p = p\<lparr>wp_world := su_others su (wp_ticks p) (wp_world p), wp_ticks := Suc (wp_ticks p)\<rparr>"

definition put_metric_data :: "'p surroundings \<Rightarrow> string \<Rightarrow> outbox_datum list \<Rightarrow> ('p worker_process, unit) prog" where
  "put_metric_data su ns data p = (case su_cloudwatch_error su (wp_ticks p) of
     Some e \<Rightarrow> (Inl e, elapse su p)
   | None \<Rightarrow> (Inr (), elapse su (p\<lparr>wp_sent := wp_sent p @ [(ns, data)]\<rparr>)))"

definition build_worker_id :: "string \<Rightarrow> string result" where
  "build_worker_id hostname = (if strip hostname = [] then Inl (RuntimeError ''unable to determine outbox worker hostname'')
     else Inr (''outbox-'' @ strip hostname))"

definition backlog_snapshot_provider :: "'p surroundings \<Rightarrow> ('p worker_process, backlog_snapshot) prog" where
  "backlog_snapshot_provider su p = (case su_snapshot_error su (wp_ticks p) of
     Some e \<Rightarrow> (Inl e, elapse su p)
   | None \<Rightarrow> (Inr (get_backlog_snapshot (outbox (wp_world p))), elapse su p))"

definition environment_text :: "app_environment \<Rightarrow> string" where
  "environment_text e = (case e of LOCAL \<Rightarrow> ''local'' | DEV \<Rightarrow> ''dev'' | STAGING \<Rightarrow> ''staging'' | PRODUCTION \<Rightarrow> ''prod'')"

definition dispatching :: "'p surroundings \<Rightarrow> dispatcher \<Rightarrow> ('p worker_process, dispatch_result) prog" where
  "dispatching su d p = (case dispatch_once (su_outbox su (wp_ticks p)) d None (wp_world p) of
     (r, w) \<Rightarrow> (r, elapse su (p\<lparr>wp_world := w\<rparr>)))"

definition outbox_runner_of :: "'p surroundings \<Rightarrow> settings \<Rightarrow> dispatcher \<Rightarrow> 'p worker_process cloudwatch_outbox \<Rightarrow> 'p worker_process outbox_runner" where
  "outbox_runner_of su cfg d c = \<lparr>
     ru_config = \<lparr>poll_interval_seconds = outbox_poll_interval_seconds cfg, error_backoff_seconds = outbox_error_backoff_seconds cfg,
       metrics_interval_seconds = of_int (outbox_metrics_interval_seconds cfg)\<rparr>,
     ru_dispatch_once = dispatching su d,
     ru_backlog_snapshot = backlog_snapshot_provider su,
     ru_metrics = cloudwatch_outbox_metrics (\<lambda>p. ob_clock (su_outbox su (wp_ticks p))) c,
     ru_monotonic_clock = (\<lambda>p. (su_monotonic su (wp_ticks p), elapse su p)),
     ru_is_set = (\<lambda>p. su_stopped su (wp_ticks p)),
     ru_wait = (\<lambda>_. elapse su),
     ru_log_exception = (\<lambda>e p. p\<lparr>wp_logged := wp_logged p @ [e]\<rparr>)\<rparr>"

definition compose_worker :: "'p surroundings \<Rightarrow> settings \<Rightarrow> string \<Rightarrow> 'p worker_process outbox_runner result" where
  "compose_worker su cfg worker_id =
     try_then (case su_build_error su of None \<Rightarrow> Inr () | Some e \<Rightarrow> Inl e) (\<lambda>_.
     try_then (publisher_new (outbox_event_bus_name cfg)) (\<lambda>bus_name.
     try_then (dispatcher_new worker_id (outbox_batch_size cfg) (outbox_lease_seconds cfg) bus_name) (\<lambda>d.
     try_then (cloudwatch_outbox_new (outbox_metrics_namespace cfg) (environment_text (app_env cfg)) ''outbox-dispatcher'' (put_metric_data su)) (\<lambda>c.
     try_then (runner_new (ru_config (outbox_runner_of su cfg d c))) (\<lambda>_. Inr (outbox_runner_of su cfg d c))))))"

text \<open>The exit code of \<open>main\<close>, or the exception that leaves it; \<open>None\<close> while it runs.\<close>

definition worker_main :: "'p surroundings \<Rightarrow> settings \<Rightarrow> string \<Rightarrow> 'p worker_process \<Rightarrow> (int result \<times> 'p worker_process) option" where
  "worker_main su cfg hostname p = (case build_worker_id hostname of
     Inl e \<Rightarrow> Some (Inl e, p)
   | Inr worker_id \<Rightarrow> (case compose_worker su cfg worker_id of
       Inl e \<Rightarrow> Some (Inr 1, p\<lparr>wp_logged := wp_logged p @ [e]\<rparr>)
     | Inr ru \<Rightarrow> map_option (Pair (Inr 0)) (run_forever ru (0, p))))"

end
