(* ===== verification/Database_Credentials.thy ===== *)
theory Database_Credentials
  imports Configuration
begin

text \<open>
  The credentials of the database (\<open>libs/database/credentials.py\<close>) and the URL of the engine
  (\<open>libs/database/engine.py\<close>). SQLAlchemy's \<open>make_url\<close>, the client of Secrets Manager, the JSON parser and
  the text of a JSON value that is no text are parameters.
\<close>

section \<open>Credentials and URLs\<close>

record db_credentials =
  dc_host :: string
  dc_port :: int
  dc_database :: string
  dc_username :: string
  dc_password :: string
  dc_sslmode :: "string option"

abbreviation credentials_error :: "string \<Rightarrow> error" where
  "credentials_error message \<equiv> DatabaseCredentialsError message"

definition db_credentials_new :: "db_credentials \<Rightarrow> db_credentials result" where
  "db_credentials_new c =
     (if strip (dc_host c) = [] then Inl (credentials_error ''Database host must not be empty.'')
      else if \<not> (1 \<le> dc_port c \<and> dc_port c \<le> 65535) then Inl (credentials_error ''Database port must be between 1 and 65535.'')
      else if strip (dc_database c) = [] then Inl (credentials_error ''Database name must not be empty.'')
      else if strip (dc_username c) = [] then Inl (credentials_error ''Database username must not be empty.'')
      else if dc_password c = [] then Inl (credentials_error ''Database password must not be empty.'')
      else if (case dc_sslmode c of None \<Rightarrow> False | Some m \<Rightarrow> strip m = []) then Inl (credentials_error ''Database sslmode must not be empty.'')
      else Inr c)"

definition credentials_url :: "db_credentials \<Rightarrow> string" where
  "credentials_url c = url_text (quote_plus (dc_username c)) (quote_plus (dc_password c)) (dc_host c) (dc_port c)
     (quote_plus (dc_database c)) (map_option quote_plus (dc_sslmode c))"

text \<open>What \<open>make_url\<close> gives: the parts of the URL, and the values of \<open>sslmode\<close> in its query.\<close>

record url_parts =
  up_host :: "string option"
  up_port :: "int option"
  up_database :: "string option"
  up_username :: "string option"
  up_password :: "string option"
  up_sslmode :: "string list"

definition credentials_from_url :: "(string \<Rightarrow> url_parts option) \<Rightarrow> string \<Rightarrow> db_credentials result" where
  "credentials_from_url make_url url =
     (if strip url = [] then Inl (credentials_error ''DATABASE_URL must not be empty.'')
      else case make_url url of
        None \<Rightarrow> Inl (credentials_error ''DATABASE_URL is invalid.'')
      | Some p \<Rightarrow> (case (up_host p, up_database p, up_username p, up_password p) of
          (None, _, _, _) \<Rightarrow> Inl (credentials_error ''DATABASE_URL does not contain a database host.'')
        | (_, None, _, _) \<Rightarrow> Inl (credentials_error ''DATABASE_URL does not contain a database name.'')
        | (_, _, None, _) \<Rightarrow> Inl (credentials_error ''DATABASE_URL does not contain a database username.'')
        | (_, _, _, None) \<Rightarrow> Inl (credentials_error ''DATABASE_URL does not contain a database password.'')
        | (Some h, Some d, Some u, Some w) \<Rightarrow> db_credentials_new
            \<lparr>dc_host = h, dc_port = (case up_port p of None \<Rightarrow> 5432 | Some n \<Rightarrow> if n = 0 then 5432 else n),
             dc_database = d, dc_username = u, dc_password = w,
             dc_sslmode = (case up_sslmode p of [m] \<Rightarrow> Some m | _ \<Rightarrow> None)\<rparr>))"

section \<open>Secrets\<close>

record secret_tools =
  st_make_url :: "string \<Rightarrow> url_parts option"
  st_get_secret_value :: "string \<Rightarrow> jvalue result"
  st_loads :: "string \<Rightarrow> jvalue option"
  st_str :: "jvalue \<Rightarrow> string"

definition str_of :: "secret_tools \<Rightarrow> jvalue \<Rightarrow> string" where
  "str_of tools v = (case v of JvText s \<Rightarrow> s | _ \<Rightarrow> st_str tools v)"

text \<open>\<open>int(value)\<close>; a float that is not finite is no port either.\<close>

definition int_of_value :: "jvalue \<Rightarrow> int option" where
  "int_of_value v = (case v of
     JvInt n \<Rightarrow> Some n
   | JvBool b \<Rightarrow> Some (if b then 1 else 0)
   | JvFloat (Some q) \<Rightarrow> Some (if 0 \<le> q then \<lfloor>q\<rfloor> else \<lceil>q\<rceil>)
   | JvText s \<Rightarrow> int_of_text s
   | _ \<Rightarrow> None)"

definition missing_value :: "jvalue \<Rightarrow> bool" where
  "missing_value v \<longleftrightarrow> v = JvNull \<or> v = JvText []"

definition credentials_from_secret_payload :: "secret_tools \<Rightarrow> jobject \<Rightarrow> db_credentials result" where
  "credentials_from_secret_payload tools payload =
     (let engine = payload_get payload ''engine'';
          database = (case payload_get payload ''dbname'' of JvNull \<Rightarrow> payload_get payload ''database'' | v \<Rightarrow> v);
          host = payload_get payload ''host''; port = payload_get payload ''port'';
          username = payload_get payload ''username''; password = payload_get payload ''password'' in
      if engine \<noteq> JvNull \<and> lower (strip (str_of tools engine)) \<notin> {''postgres'', ''postgresql''}
      then Inl (credentials_error ''Database secret engine must be PostgreSQL.'')
      else if list_ex missing_value [host, port, database, username, password]
      then Inl (credentials_error ''Database secret is missing required fields.'')
      else case int_of_value port of
        None \<Rightarrow> Inl (credentials_error ''Database secret port must be an integer.'')
      | Some n \<Rightarrow> (case (case map_of payload ''sslmode'' of None \<Rightarrow> JvText ''require'' | Some v \<Rightarrow> v) of
          JvText m \<Rightarrow> db_credentials_new \<lparr>dc_host = strip (str_of tools host), dc_port = n, dc_database = strip (str_of tools database),
            dc_username = strip (str_of tools username), dc_password = str_of tools password, dc_sslmode = Some (strip m)\<rparr>
        | _ \<Rightarrow> Inl (credentials_error ''Database secret sslmode must be a string.'')))"

definition resolve_database_credentials :: "secret_tools \<Rightarrow> settings \<Rightarrow> string option \<Rightarrow> db_credentials result" where
  "resolve_database_credentials tools s secret_id =
     (if strip (database_url s) \<noteq> [] then credentials_from_url (st_make_url tools) (database_url s)
      else if is_local s then Inl (credentials_error ''Local environments require DATABASE_URL.'')
      else case (if secret_id = None \<or> secret_id = Some [] then database_secret_id s else secret_id) of
        None \<Rightarrow> Inl (credentials_error ''A Secrets Manager secret ID is required outside the local environment.'')
      | Some sid \<Rightarrow>
          if strip sid = [] then Inl (credentials_error ''A Secrets Manager secret ID is required outside the local environment.'')
          else (case st_get_secret_value tools (strip sid) of
            Inl (ExternalError _) \<Rightarrow> Inl (credentials_error ''Unable to retrieve database credentials from Secrets Manager.'')
          | Inl e \<Rightarrow> Inl e
          | Inr secret \<Rightarrow> (case secret of
              JvText text \<Rightarrow>
                if strip text = [] then Inl (credentials_error ''Database secret must contain a non-empty SecretString.'')
                else (case st_loads tools text of
                  None \<Rightarrow> Inl (credentials_error ''Database secret contains invalid JSON.'')
                | Some (JvObject payload) \<Rightarrow> credentials_from_secret_payload tools payload
                | Some _ \<Rightarrow> Inl (credentials_error ''Database secret JSON must be an object.''))
            | _ \<Rightarrow> Inl (credentials_error ''Database secret must contain a non-empty SecretString.''))))"

text \<open>The URL that the engine is created with.\<close>

definition engine_url :: "secret_tools \<Rightarrow> settings \<Rightarrow> string result" where
  "engine_url tools s = map_sum id credentials_url (resolve_database_credentials tools s None)"

end
