(* ===== verification/Credential_Properties.thy ===== *)
theory Credential_Properties
  imports Database_Credentials Market_Routes Outbox_Dispatcher Identifiers
begin

text \<open>
  How the credentials of the database travel: settings to URL, URL to credentials, credentials to the URL
  of the engine, and that URL to the driver. And what accepted settings guarantee to the objects that are
  built from them.
\<close>

section \<open>Percent coding\<close>

fun unquote :: "string \<Rightarrow> string" where
  "unquote (c # a # b # s) =
     (if c = CHR ''%'' then (case (hex_value a, hex_value b) of
        (Some x, Some y) \<Rightarrow> char_of (16 * x + y) # unquote s | _ \<Rightarrow> c # unquote (a # b # s))
      else c # unquote (a # b # s))"
| "unquote s = s"

definition plus_to_space :: "string \<Rightarrow> string" where
  "plus_to_space s = map (\<lambda>c. if c = CHR ''+'' then CHR '' '' else c) s"

definition space_to_plus :: "string \<Rightarrow> string" where
  "space_to_plus s = map (\<lambda>c. if c = CHR '' '' then CHR ''+'' else c) s"

lemma special_unsafe: "\<not> safe_char (CHR ''%'')" "\<not> safe_char (CHR ''+'')" "\<not> safe_char (CHR '' '')"
  by code_simp+

lemma url_hex_digit_code: "k < 16 \<Longrightarrow> of_char (url_hex_digit k) = (if k < 10 then 48 + k else 55 + k)"
  by (simp add: url_hex_digit_def)

lemma hex_value_digit: "k < 16 \<Longrightarrow> hex_value (url_hex_digit k) = Some k"
  by (auto simp: hex_value_def url_hex_digit_code Let_def)

lemma url_hex_digit_plain: "k < 16 \<Longrightarrow> safe_char (url_hex_digit k) \<and> url_hex_digit k \<noteq> CHR ''+''"
proof -
  assume "k < 16"
  then have "safe_char (url_hex_digit k)" by (auto simp: safe_char_def url_hex_digit_code Let_def)
  then show ?thesis using special_unsafe by metis
qed

lemma unquote_plain: "c \<noteq> CHR ''%'' \<Longrightarrow> unquote (c # s) = c # unquote s"
  by (cases s rule: unquote.cases) auto

lemma unquote_byte:
  assumes "\<not> safe_char c" "c \<noteq> CHR '' ''"
  shows "unquote (quote_byte c @ s) = c # unquote s" "plus_to_space (quote_byte c) = quote_byte c"
proof -
  have n: "(of_char c :: nat) div 16 < 16" "(of_char c :: nat) mod 16 < 16" using nat_of_char_less_256 [of c] by (simp_all add: less_mult_imp_div_less)
  have "char_of (16 * ((of_char c :: nat) div 16) + of_char c mod 16) = c" by simp
  then show "unquote (quote_byte c @ s) = c # unquote s"
    using assms n by (simp add: quote_byte_def Let_def hex_value_digit)
  show "plus_to_space (quote_byte c) = quote_byte c"
    using assms n by (simp add: quote_byte_def Let_def plus_to_space_def url_hex_digit_plain)
qed

lemma quote_plus_Cons: "quote_plus (c # s) = quote_byte c @ quote_plus s"
  by (simp add: quote_plus_def)

lemma plus_to_space_append: "plus_to_space (s @ t) = plus_to_space s @ plus_to_space t"
  by (simp add: plus_to_space_def)

text \<open>A space comes back from the percent decoding as a plus; the decoding of a query gives it back.\<close>

lemma unquote_quote: "unquote (quote_plus s) = space_to_plus s"
proof (induction s)
  case (Cons c s)
  consider "safe_char c" | "c = CHR '' ''" | "\<not> safe_char c" "c \<noteq> CHR '' ''" by blast
  then show ?case
  proof cases
    case 1
    then have "c \<noteq> CHR ''%''" "c \<noteq> CHR '' ''" using special_unsafe by metis+
    then show ?thesis using Cons 1 by (simp add: quote_plus_Cons quote_byte_def unquote_plain space_to_plus_def)
  next
    case 2
    then show ?thesis using Cons special_unsafe(3) by (simp add: quote_plus_Cons quote_byte_def unquote_plain space_to_plus_def)
  next
    case 3
    then show ?thesis using Cons by (simp add: quote_plus_Cons unquote_byte space_to_plus_def)
  qed
qed (simp add: quote_plus_def space_to_plus_def)

lemma unquote_plus_quote: "unquote (plus_to_space (quote_plus s)) = s"
proof (induction s)
  case (Cons c s)
  consider "safe_char c" | "c = CHR '' ''" | "\<not> safe_char c" "c \<noteq> CHR '' ''" by blast
  then show ?case
  proof cases
    case 1
    then have "c \<noteq> CHR ''%''" "c \<noteq> CHR ''+''" using special_unsafe by metis+
    then show ?thesis using Cons 1 by (simp add: quote_plus_Cons quote_byte_def unquote_plain plus_to_space_def)
  next
    case 2
    then show ?thesis using Cons special_unsafe(3) by (simp add: quote_plus_Cons quote_byte_def unquote_plain plus_to_space_def)
  next
    case 3
    then show ?thesis using Cons by (simp add: quote_plus_Cons unquote_byte plus_to_space_append)
  qed
qed (simp add: quote_plus_def plus_to_space_def)

definition url_char :: "char \<Rightarrow> bool" where
  "url_char c \<longleftrightarrow> safe_char c \<or> c = CHR ''%'' \<or> c = CHR ''+''"

lemma quote_plus_chars: "list_all url_char (quote_plus s)"
proof (induction s)
  case (Cons c s)
  have n: "(of_char c :: nat) div 16 < 16" "(of_char c :: nat) mod 16 < 16" using nat_of_char_less_256 [of c] by (simp_all add: less_mult_imp_div_less)
  have "list_all url_char (quote_byte c)"
    using url_hex_digit_plain [OF n(1)] url_hex_digit_plain [OF n(2)] by (simp add: quote_byte_def Let_def url_char_def)
  then show ?case using Cons by (simp add: quote_plus_Cons)
qed (simp add: quote_plus_def)

lemma quote_plus_empty [simp]: "quote_plus s = [] \<longleftrightarrow> s = []"
  by (cases s) (auto simp: quote_plus_def quote_byte_def Let_def)

lemma quote_plus_safe: "list_all safe_char s \<Longrightarrow> quote_plus s = s"
  by (induction s) (simp_all add: quote_plus_def quote_byte_def)

lemma space_to_plus_id: "CHR '' '' \<notin> set s \<Longrightarrow> space_to_plus s = s"
  unfolding space_to_plus_def by (rule map_idI) auto

lemma space_to_plus_empty [simp]: "space_to_plus s = [] \<longleftrightarrow> s = []"
  by (simp add: space_to_plus_def)

lemma quote_byte_length: "1 \<le> length (quote_byte c)"
  by (simp add: quote_byte_def Let_def)

lemma quote_plus_length: "length s \<le> length (quote_plus s)"
proof (induction s)
  case (Cons c s)
  then show ?case using quote_byte_length [of c] by (simp add: quote_plus_Cons)
qed (simp add: quote_plus_def)

lemma quote_plus_id: "quote_plus s = s \<longleftrightarrow> list_all safe_char s"
proof
  show "quote_plus s = s \<Longrightarrow> list_all safe_char s"
  proof (induction s)
    case (Cons c s)
    have "length (quote_byte c) = 1"
      using arg_cong [OF Cons.prems, of length] quote_plus_length [of s] quote_byte_length [of c] by (simp add: quote_plus_Cons)
    then have safe: "safe_char c \<or> (c = CHR '' '' \<and> quote_byte c = ''+'')" by (auto simp: quote_byte_def Let_def split: if_splits)
    then show ?case using Cons by (auto simp: quote_plus_Cons quote_byte_def split: if_splits)
  qed simp
qed (rule quote_plus_safe)

lemma space_to_plus_same: "space_to_plus s = s \<longleftrightarrow> CHR '' '' \<notin> set s"
  by (induction s) (auto simp: space_to_plus_def)

lemma strip_empty: "strip s = [] \<longleftrightarrow> (\<forall>c \<in> set s. is_space c)"
proof -
  have "(\<forall>c \<in> set (dropWhile is_space s). is_space c) \<longleftrightarrow> (\<forall>c \<in> set s. is_space c)" by (induction s) auto
  then show ?thesis by (simp add: strip_def dropWhile_eq_Nil_conv)
qed

lemma url_char_no_space: "url_char c \<Longrightarrow> \<not> is_space c"
  by (auto simp: url_char_def safe_char_def is_space_def Let_def)

lemma strip_quote_plus: "s \<noteq> [] \<Longrightarrow> strip (quote_plus s) \<noteq> []"
proof -
  assume "s \<noteq> []"
  then have "hd (quote_plus s) \<in> set (quote_plus s)" by simp
  then have "\<not> is_space (hd (quote_plus s))" using quote_plus_chars [of s] url_char_no_space by (auto simp: list_all_iff)
  then show ?thesis using \<open>hd (quote_plus s) \<in> set (quote_plus s)\<close> unfolding strip_empty by blast
qed

lemma strip_space_to_plus: "strip s \<noteq> [] \<Longrightarrow> strip (space_to_plus s) \<noteq> []"
  unfolding strip_empty space_to_plus_def by (fastforce simp: is_space_def)

section \<open>The contract of the URL parser\<close>

definition host_text :: "string \<Rightarrow> bool" where
  "host_text h \<longleftrightarrow> strip h \<noteq> [] \<and> (\<forall>c \<in> set h. c \<notin> {CHR '':'', CHR ''/'', CHR ''?'', CHR ''@'', CHR ''['', CHR '']''})"

text \<open>
  What \<open>make_url\<close> does in the releases of SQLAlchemy that \<open>pyproject.toml\<close> allows (2.0 or later, before 3): user name and password are
  percent-decoded, the host is taken as it is, the query is decoded like that of a form; the name of the
  database is taken as it is in 2.0 and percent-decoded from 2.1 on.
\<close>

datatype url_rules = DatabaseAsIs | DatabaseUnquoted

definition read_database :: "url_rules \<Rightarrow> string \<Rightarrow> string" where
  "read_database rules d = (case rules of DatabaseAsIs \<Rightarrow> d | DatabaseUnquoted \<Rightarrow> unquote d)"

definition reads_urls :: "url_rules \<Rightarrow> (string \<Rightarrow> url_parts option) \<Rightarrow> bool" where
  "reads_urls rules make_url \<longleftrightarrow> (\<forall>u p h n d q.
     u \<noteq> [] \<and> p \<noteq> [] \<and> d \<noteq> [] \<and> list_all url_char u \<and> list_all url_char p \<and> list_all url_char d \<and> host_text h
     \<and> 1 \<le> n \<and> n \<le> 65535 \<and> (\<forall>v. q = Some v \<longrightarrow> v \<noteq> [] \<and> list_all url_char v)
     \<longrightarrow> make_url (url_text u p h n d q) = Some \<lparr>up_host = Some h, up_port = Some n, up_database = Some (read_database rules d),
           up_username = Some (unquote u), up_password = Some (unquote p),
           up_sslmode = (case q of None \<Rightarrow> [] | Some v \<Rightarrow> [unquote (plus_to_space v)])\<rparr>)"

lemma url_text_nonblank: "strip (url_text u p h n d q) \<noteq> []"
proof -
  have "CHR ''p'' \<in> set (url_text u p h n d q)" by (simp add: url_text_def)
  moreover have "\<not> is_space (CHR ''p'')" by (simp add: is_space_def)
  ultimately show ?thesis unfolding strip_empty by blast
qed

lemma reads_quoted:
  assumes "reads_urls rules make_url" "host_text h" "1 \<le> n" "n \<le> 65535" "u \<noteq> []" "p \<noteq> []" "d \<noteq> []" "\<And>m. q = Some m \<Longrightarrow> m \<noteq> []"
  shows "make_url (url_text (quote_plus u) (quote_plus p) h n (quote_plus d) (map_option quote_plus q))
    = Some \<lparr>up_host = Some h, up_port = Some n, up_database = Some (read_database rules (quote_plus d)), up_username = Some (space_to_plus u),
        up_password = Some (space_to_plus p), up_sslmode = (case q of None \<Rightarrow> [] | Some m \<Rightarrow> [m])\<rparr>"
proof -
  have "\<forall>v. map_option quote_plus q = Some v \<longrightarrow> v \<noteq> [] \<and> list_all url_char v"
    using assms(8) quote_plus_chars by auto
  then have "make_url (url_text (quote_plus u) (quote_plus p) h n (quote_plus d) (map_option quote_plus q))
      = Some \<lparr>up_host = Some h, up_port = Some n, up_database = Some (read_database rules (quote_plus d)), up_username = Some (unquote (quote_plus u)),
          up_password = Some (unquote (quote_plus p)),
          up_sslmode = (case map_option quote_plus q of None \<Rightarrow> [] | Some v \<Rightarrow> [unquote (plus_to_space v)])\<rparr>"
    using assms(1) [unfolded reads_urls_def, rule_format, of "quote_plus u" "quote_plus p" "quote_plus d" h n "map_option quote_plus q"]
      assms(2-7) quote_plus_chars by simp
  then show ?thesis by (cases q) (simp_all add: unquote_quote unquote_plus_quote)
qed

section \<open>From the settings to the driver\<close>

text \<open>What comes out of the URL of given credentials.\<close>

definition as_read :: "url_rules \<Rightarrow> db_credentials \<Rightarrow> db_credentials" where
  "as_read rules c = c\<lparr>dc_database := read_database rules (quote_plus (dc_database c)), dc_username := space_to_plus (dc_username c),
     dc_password := space_to_plus (dc_password c)\<rparr>"

definition plain_credentials :: "url_rules \<Rightarrow> db_credentials \<Rightarrow> bool" where
  "plain_credentials rules c \<longleftrightarrow>
     (case rules of DatabaseAsIs \<Rightarrow> list_all safe_char (dc_database c) | DatabaseUnquoted \<Rightarrow> CHR '' '' \<notin> set (dc_database c)) \<and> CHR '' '' \<notin> set (dc_username c) \<and> CHR '' '' \<notin> set (dc_password c)"

definition credentials_ok :: "db_credentials \<Rightarrow> bool" where
  "credentials_ok c \<longleftrightarrow> strip (dc_host c) \<noteq> [] \<and> 1 \<le> dc_port c \<and> dc_port c \<le> 65535 \<and> strip (dc_database c) \<noteq> []
     \<and> strip (dc_username c) \<noteq> [] \<and> dc_password c \<noteq> [] \<and> (\<forall>m. dc_sslmode c = Some m \<longrightarrow> strip m \<noteq> [])"

lemma credentials_new_ok: "db_credentials_new c = (if credentials_ok c then Inr c else db_credentials_new c)"
  by (auto simp: db_credentials_new_def credentials_ok_def split: option.split)

lemma credentials_new_Inr: "db_credentials_new c = Inr c' \<longleftrightarrow> credentials_ok c \<and> c' = c"
  by (auto simp: db_credentials_new_def credentials_ok_def split: option.split)

lemma as_read_same: "as_read rules c = c \<longleftrightarrow> plain_credentials rules c"
  by (cases c; cases rules) (simp_all add: as_read_def plain_credentials_def read_database_def unquote_quote quote_plus_id space_to_plus_same)

lemma strip_nonempty: "strip s \<noteq> [] \<Longrightarrow> s \<noteq> []"
  by (auto simp: strip_def)

lemma as_read_ok: "credentials_ok c \<Longrightarrow> credentials_ok (as_read rules c)"
  by (cases rules) (auto simp: credentials_ok_def as_read_def read_database_def unquote_quote strip_space_to_plus
    dest: strip_quote_plus [OF strip_nonempty])

lemma credentials_url_parts:
  assumes "reads_urls rules make_url" "credentials_ok c" "host_text (dc_host c)"
  shows "make_url (credentials_url c) = Some \<lparr>up_host = Some (dc_host c), up_port = Some (dc_port c),
      up_database = Some (dc_database (as_read rules c)), up_username = Some (dc_username (as_read rules c)),
      up_password = Some (dc_password (as_read rules c)), up_sslmode = (case dc_sslmode c of None \<Rightarrow> [] | Some m \<Rightarrow> [m])\<rparr>"
  unfolding credentials_url_def
  using reads_quoted [OF assms(1,3), of "dc_port c" "dc_username c" "dc_password c" "dc_database c" "dc_sslmode c"] assms(2) strip_nonempty
  by (auto simp: credentials_ok_def as_read_def)

lemma credentials_read_back:
  assumes "reads_urls rules make_url" "db_credentials_new c = Inr c" "host_text (dc_host c)"
  shows "credentials_from_url make_url (credentials_url c) = Inr (as_read rules c) \<and> (as_read rules c = c \<longleftrightarrow> plain_credentials rules c)"
proof -
  have ok: "credentials_ok c" using assms(2) by (simp add: credentials_new_Inr)
  have "dc_port c \<noteq> 0" using ok by (simp add: credentials_ok_def)
  then have "credentials_from_url make_url (credentials_url c) = db_credentials_new (as_read rules c)"
    using credentials_url_parts [OF assms(1) ok assms(3)]
    by (cases c; cases "dc_sslmode c") (simp_all add: credentials_from_url_def credentials_url_def url_text_nonblank as_read_def)
  then show ?thesis using as_read_ok [OF ok] as_read_same by (simp add: credentials_new_Inr)
qed

text \<open>
  C34. Credentials are read back from the URL that is made of them: host, port and mode as they were; user name and password
  with each space turned into a plus; the database name quoted, as it stands in the URL, by a parser that
  takes it as it is (SQLAlchemy 2.0), and with each space turned into a plus by one that decodes it (2.1). So they come back
  unchanged exactly when user and password have no space and the database name has only letters, digits and \<open>-._~\<close>, or no space.
\<close>

theorem credentials_url_roundtrip:
  assumes "reads_urls rules make_url" "db_credentials_new c = Inr c" "host_text (dc_host c)"
  shows "\<exists>c'. credentials_from_url make_url (credentials_url c) = Inr c'
    \<and> dc_host c' = dc_host c \<and> dc_port c' = dc_port c \<and> dc_sslmode c' = dc_sslmode c
    \<and> dc_username c' = space_to_plus (dc_username c) \<and> dc_password c' = space_to_plus (dc_password c)
    \<and> dc_database c' = (case rules of DatabaseAsIs \<Rightarrow> quote_plus (dc_database c) | DatabaseUnquoted \<Rightarrow> space_to_plus (dc_database c))
    \<and> (c' = c \<longleftrightarrow> plain_credentials rules c)"
  using credentials_read_back [OF assms]
  by (intro exI [of _ "as_read rules c"]) (cases rules; simp add: as_read_def read_database_def unquote_quote)

section \<open>A parser that keeps the contract\<close>

definition split_url :: "url_rules \<Rightarrow> string \<Rightarrow> url_parts option" where
  "split_url rules url =
     (let r = drop (length ''postgresql+psycopg://'') url;
          r1 = tl (dropWhile (\<lambda>c. c \<noteq> CHR '':'') r); r2 = tl (dropWhile (\<lambda>c. c \<noteq> CHR ''@'') r1);
          r3 = tl (dropWhile (\<lambda>c. c \<noteq> CHR '':'') r2); r4 = tl (dropWhile (\<lambda>c. c \<noteq> CHR ''/'') r3);
          r5 = dropWhile (\<lambda>c. c \<noteq> CHR ''?'') r4
      in Some \<lparr>up_host = Some (takeWhile (\<lambda>c. c \<noteq> CHR '':'') r2), up_port = int_of_text (takeWhile (\<lambda>c. c \<noteq> CHR ''/'') r3),
          up_database = Some (read_database rules (takeWhile (\<lambda>c. c \<noteq> CHR ''?'') r4)), up_username = Some (unquote (takeWhile (\<lambda>c. c \<noteq> CHR '':'') r)),
          up_password = Some (unquote (takeWhile (\<lambda>c. c \<noteq> CHR ''@'') r1)),
          up_sslmode = (if r5 = [] then [] else [unquote (plus_to_space (drop (length ''?sslmode='') r5))])\<rparr>)"

lemma int_text_nat_digits: "int_text_nat n \<noteq> [] \<and> (\<forall>c \<in> set (int_text_nat n). is_digit c) \<and> digits_value (int_text_nat n) = int n"
proof (induction n rule: int_text_nat.induct)
  case (1 n)
  have digit: "is_digit (char_of (48 + n mod 10)) \<and> of_char (char_of (48 + n mod 10) :: char) = int (48 + n mod 10)" for n :: nat
  proof -
    have "n mod 10 \<le> 9" by (simp add: less_Suc_eq_le [symmetric])
    moreover from this have code: "of_char (char_of (48 + n mod 10) :: char) = 48 + n mod 10" by simp
    moreover have "(of_char (char_of (48 + n mod 10) :: char) :: int) = int (of_char (char_of (48 + n mod 10) :: char))"
      by (simp only: of_nat_of_char)
    ultimately show ?thesis by (simp add: is_digit_def Let_def del: of_nat_of_char)
  qed
  have snoc: "digits_value (s @ [c]) = 10 * digits_value s + (of_char c - 48)" for s c by (simp add: digits_value_def)
  show ?case
  proof (cases "n < 10")
    case True
    then show ?thesis using digit [of n] by (simp add: int_text_nat.simps [of n] digits_value_def)
  next
    case False
    have "int n = 10 * int (n div 10) + int (n mod 10)" by (metis of_nat_add of_nat_mult of_nat_numeral mult_div_mod_eq)
    then show ?thesis using False 1 digit [of n] by (simp add: int_text_nat.simps [of n] snoc)
  qed
qed

lemma grouped_all_digits: "s \<noteq> [] \<Longrightarrow> \<forall>c \<in> set s. is_digit c \<Longrightarrow> grouped_digits s"
  by (induction s rule: grouped_digits.induct) (auto simp: is_digit_def)

lemma digit_plain: "is_digit c \<Longrightarrow> \<not> is_space c \<and> c \<noteq> CHR ''-'' \<and> c \<noteq> CHR ''+'' \<and> c \<noteq> CHR ''/''"
  by (auto simp: is_digit_def is_space_def Let_def)

lemma int_of_int_text: "0 \<le> n \<Longrightarrow> int_of_text (int_text n) = Some n"
proof -
  assume "0 \<le> n"
  note d = int_text_nat_digits [of "nat n"]
  obtain c r where c: "int_text_nat (nat n) = c # r" using d by (cases "int_text_nat (nat n)") auto
  have s: "strip (int_text_nat (nat n)) = int_text_nat (nat n)" using d digit_plain by (intro strip_no_space) blast
  have "read_sign (int_text_nat (nat n)) = (1, int_text_nat (nat n))" using d digit_plain [of c] by (simp add: c read_sign_def)
  moreover have "filter is_digit (int_text_nat (nat n)) = int_text_nat (nat n)" using d by (simp add: filter_id_conv)
  ultimately show ?thesis using d grouped_all_digits [of "int_text_nat (nat n)"] \<open>0 \<le> n\<close> by (simp add: int_of_text_def int_text_def s)
qed

lemma cut: "c \<notin> set x \<Longrightarrow> takeWhile (\<lambda>d. d \<noteq> c) (x @ c # y) = x \<and> dropWhile (\<lambda>d. d \<noteq> c) (x @ c # y) = c # y"
  by (induction x) auto

lemma url_chars_free: "list_all url_char s \<Longrightarrow> CHR '':'' \<notin> set s \<and> CHR ''@'' \<notin> set s \<and> CHR ''?'' \<notin> set s"
proof -
  have "\<not> url_char (CHR '':'')" "\<not> url_char (CHR ''@'')" "\<not> url_char (CHR ''?'')" by code_simp+
  then show "list_all url_char s \<Longrightarrow> CHR '':'' \<notin> set s \<and> CHR ''@'' \<notin> set s \<and> CHR ''?'' \<notin> set s" unfolding list_all_iff by blast
qed

lemma split_url_reads: "reads_urls rules (split_url rules)"
  unfolding reads_urls_def
proof (intro allI impI, elim conjE)
  fix u p h n d q
  assume u: "list_all url_char u" and p: "list_all url_char p" and d: "list_all url_char d" and h: "host_text h" and n: "1 \<le> (n :: int)"
    and q: "\<forall>v. q = Some v \<longrightarrow> v \<noteq> [] \<and> list_all url_char v"
  have slash: "CHR ''/'' \<notin> set (int_text n)" using n int_text_nat_digits [of "nat n"] digit_plain by (auto simp: int_text_def)
  have host: "CHR '':'' \<notin> set h" using h by (auto simp: host_text_def)
  let ?tail = "case q of None \<Rightarrow> [] | Some m \<Rightarrow> ''?sslmode='' @ m"
  have dq: "takeWhile (\<lambda>c. c \<noteq> CHR ''?'') (d @ ?tail) = d" "dropWhile (\<lambda>c. c \<noteq> CHR ''?'') (d @ ?tail) = ?tail"
    using cut [of "CHR ''?''" d] url_chars_free [OF d] by (cases q; force)+
  have u0: "drop (length ''postgresql+psycopg://'') (url_text u p h n d q)
      = u @ CHR '':'' # p @ CHR ''@'' # h @ CHR '':'' # int_text n @ CHR ''/'' # d @ ?tail" by (simp add: url_text_def)
  show "split_url rules (url_text u p h n d q) = Some \<lparr>up_host = Some h, up_port = Some n, up_database = Some (read_database rules d),
      up_username = Some (unquote u), up_password = Some (unquote p),
      up_sslmode = (case q of None \<Rightarrow> [] | Some v \<Rightarrow> [unquote (plus_to_space v)])\<rparr>"
    unfolding split_url_def u0 Let_def
    using cut [of _ u] cut [of _ p] cut [OF host] cut [OF slash] url_chars_free [OF u] url_chars_free [OF p] dq n
    by (simp add: int_of_int_text split: option.split)
qed

definition odd_credentials :: db_credentials where
  "odd_credentials = \<lparr>dc_host = ''db'', dc_port = 5432, dc_database = ''a&b c'', dc_username = ''app'',
     dc_password = ''p@ss word'', dc_sslmode = Some ''require''\<rparr>"

theorem credentials_url_roundtrip_witness:
  "\<exists>c c'. credentials_from_url (split_url DatabaseAsIs) (credentials_url odd_credentials) = Inr c
    \<and> dc_database c = ''a%26b+c'' \<and> dc_password c = ''p@ss+word''
    \<and> credentials_from_url (split_url DatabaseUnquoted) (credentials_url odd_credentials) = Inr c' \<and> dc_database c' = ''a&b+c''"
proof -
  have c: "db_credentials_new odd_credentials = Inr odd_credentials" "host_text (dc_host odd_credentials)" by code_simp+
  have texts: "quote_plus (dc_database odd_credentials) = ''a%26b+c''" "space_to_plus (dc_database odd_credentials) = ''a&b+c''"
    "space_to_plus (dc_password odd_credentials) = ''p@ss+word''" by code_simp+
  show ?thesis
    using credentials_url_roundtrip [OF split_url_reads [of DatabaseAsIs] c] credentials_url_roundtrip [OF split_url_reads [of DatabaseUnquoted] c]
    unfolding texts url_rules.case by (elim exE conjE) (intro exI conjI; assumption)
qed

section \<open>Accepted settings\<close>

lemma validators_keep:
  "validate_market_data_configuration a = Inr b \<Longrightarrow> b = a" "validate_market_cache_configuration a = Inr b \<Longrightarrow> b = a"
  "validate_environment a = Inr b \<Longrightarrow> b = a"
  by (auto simp: validate_market_data_configuration_def validate_market_cache_configuration_def validate_environment_def split: if_splits)

lemma settings_new_Inr:
  "settings_new s = Inr s' \<longleftrightarrow> outbox_fields_ok s \<and> database_fields_ok s \<and> market_fields_ok s
    \<and> validate_database_configuration s = Inr s' \<and> validate_market_data_configuration s' = Inr s'
    \<and> validate_market_cache_configuration s' = Inr s' \<and> validate_environment s' = Inr s'" (is "_ \<longleftrightarrow> ?r")
proof
  assume "settings_new s = Inr s'"
  moreover have id: "map_sum f id x = Inr y \<longleftrightarrow> x = Inr y" for f :: "error \<Rightarrow> error" and x and y :: settings by (cases x) auto
  ultimately obtain s1 s2 s3 where *: "outbox_fields_ok s" "database_fields_ok s" "market_fields_ok s"
      "validate_database_configuration s = Inr s1" "validate_market_data_configuration s1 = Inr s2"
      "validate_market_cache_configuration s2 = Inr s3" "validate_environment s3 = Inr s'"
    by (auto simp: settings_new_def try_then_Inr split: if_splits)
  then show ?r using validators_keep by metis
qed (simp add: settings_new_def try_then_def)

definition database_source :: "settings \<Rightarrow> bool" where
  "database_source s \<longleftrightarrow> strip (database_url s) \<noteq> [] \<or> (\<not> is_local s \<and> \<not> blank (database_secret_id s))"

lemma validated_database:
  assumes "validate_database_configuration s = Inr s'"
  shows "s' = s \<or> s' = s\<lparr>database_url := structured_url s\<rparr>" "database_source s'"
  using assms url_text_nonblank
  by (auto simp: validate_database_configuration_def database_source_def is_local_def structured_url_def split: if_splits)

lemma accepted_outbox_fields:
  assumes "settings_new s = Inr s'"
  shows "outbox_fields_ok s'"
proof -
  note v = assms [unfolded settings_new_Inr]
  have "s' = s \<or> s' = s\<lparr>database_url := structured_url s\<rparr>" using v validated_database by blast
  then show ?thesis using v by (auto simp: outbox_fields_ok_def)
qed

text \<open>
  C35. What accepted settings guarantee: every numeric field is within its bounds, the only field that
  a validator changes is the URL of the database, and the objects that are built from the settings are
  built without an exception: the cache of snapshots, the policies of the candles, the provider of
  Twelve Data when it is selected, the dispatcher, for a worker id that is not blank, and the runner of the outbox; the database has a
  source of credentials, and LocalStack is used exactly in the local environment.
\<close>

theorem accepted_settings_build:
  assumes "settings_new s = Inr s'" "strip worker_id \<noteq> []"
  shows "(s' = s \<or> s' = s\<lparr>database_url := structured_url s\<rparr>)
    \<and> outbox_fields_ok s' \<and> database_fields_ok s' \<and> market_fields_ok s'
    \<and> \<not> isl (snapshot_cache_new (market_quote_cache_ttl_seconds s') (market_quote_stale_ttl_seconds s'))
    \<and> \<not> isl (candle_policy_new (market_candle_day_fresh_ttl_seconds s') (market_candle_day_stale_ttl_seconds s'))
    \<and> \<not> isl (candle_policy_new (market_candle_week_fresh_ttl_seconds s') (market_candle_week_stale_ttl_seconds s'))
    \<and> \<not> isl (candle_policy_new (market_candle_month_fresh_ttl_seconds s') (market_candle_month_stale_ttl_seconds s'))
    \<and> (market_data_provider s' \<noteq> TWELVE_DATA \<or> \<not> isl (get_market_data_provider ''twelve_data'' (twelve_data_api_key s')))
    \<and> \<not> isl (dispatcher_new worker_id (outbox_batch_size s') (outbox_lease_seconds s') bus_name)
    \<and> \<not> isl (runner_new \<lparr>poll_interval_seconds = outbox_poll_interval_seconds s', error_backoff_seconds = outbox_error_backoff_seconds s',
          metrics_interval_seconds = of_int (outbox_metrics_interval_seconds s')\<rparr>)
    \<and> database_source s' \<and> (use_localstack s' \<longleftrightarrow> is_local s')"
proof -
  note v = assms(1) [unfolded settings_new_Inr]
  have same: "s' = s \<or> s' = s\<lparr>database_url := structured_url s\<rparr>" and src: "database_source s'"
    using v validated_database by blast+
  have fields: "outbox_fields_ok s'" "database_fields_ok s'" "market_fields_ok s'"
    using v same by (auto simp: outbox_fields_ok_def database_fields_ok_def market_fields_ok_def)
  have caches: "market_quote_cache_ttl_seconds s' < market_quote_stale_ttl_seconds s'"
    "market_candle_day_fresh_ttl_seconds s' < market_candle_day_stale_ttl_seconds s'"
    "market_candle_week_fresh_ttl_seconds s' < market_candle_week_stale_ttl_seconds s'"
    "market_candle_month_fresh_ttl_seconds s' < market_candle_month_stale_ttl_seconds s'"
    using v by (auto simp: validate_market_cache_configuration_def split: if_splits)
  have provider: "market_data_provider s' \<noteq> TWELVE_DATA \<or> \<not> isl (get_market_data_provider ''twelve_data'' (twelve_data_api_key s'))"
  proof (cases "twelve_data_api_key s'")
    case (Some k)
    have url: "rstrip_slash (strip ''https://api.twelvedata.com'') \<noteq> []" by code_simp
    show ?thesis using v Some url
      by (auto simp: validate_market_data_configuration_def get_market_data_provider_def twelve_data_new_def blank_def split: if_splits)
  qed (use v in \<open>auto simp: validate_market_data_configuration_def blank_def split: if_splits\<close>)
  have environment: "use_localstack s' \<longleftrightarrow> is_local s'"
    using v by (auto simp: validate_environment_def use_localstack_def is_local_def split: if_splits)
  show ?thesis
    using same src fields caches provider environment assms(2)
    by (simp add: snapshot_cache_new_def candle_policy_new_def dispatcher_new_def runner_new_def
      market_fields_ok_def outbox_fields_ok_def)
qed

text \<open>The local configuration of the repository's example.\<close>

definition local_settings :: settings where
  "local_settings = (default_settings ''redis://redis:6379/0'')\<lparr>aws_endpoint_url := Some ''http://localstack:4566'',
     database_host := Some ''postgres'', database_name := Some ''realstock'', database_username := Some ''realstock'',
     database_password := Some ''secret''\<rparr>"

lemma local_settings_accepted: "settings_new local_settings = Inr (local_settings\<lparr>database_url := structured_url local_settings\<rparr>)"
  by (simp add: settings_new_Inr local_settings_def default_settings_def outbox_fields_ok_def database_fields_ok_def market_fields_ok_def
      validate_database_configuration_def structured_database_configured_def blank_def validate_market_data_configuration_def
      validate_market_cache_configuration_def validate_environment_def strip_def is_space_def)

theorem accepted_settings_build_witness:
  "\<not> isl (snapshot_cache_new (market_quote_cache_ttl_seconds local_settings) (market_quote_stale_ttl_seconds local_settings))
    \<and> use_localstack local_settings"
proof -
  have w: "strip ''outbox-host'' \<noteq> []" by code_simp
  have l: "use_localstack (local_settings\<lparr>database_url := structured_url local_settings\<rparr>) = use_localstack local_settings"
    "is_local (local_settings\<lparr>database_url := structured_url local_settings\<rparr>)"
    by (simp_all add: use_localstack_def is_local_def local_settings_def default_settings_def)
  show ?thesis using accepted_settings_build [OF local_settings_accepted w] l(2) by (simp add: l(1))
qed

lemma space_to_plus_twice: "space_to_plus (space_to_plus s) = space_to_plus s"
  by (induction s) (auto simp: space_to_plus_def)

text \<open>
  Settings with a structured database configuration, as they reach the driver: the engine's URL names
  the configured host, port and mode, and the configured user, password and database except that spaces
  become pluses, and that a parser which takes the name of the database as it is gets it quoted twice.
\<close>

theorem engine_reaches_database:
  assumes "settings_new s = Inr s'" "structured_database_configured s" "reads_urls rules (st_make_url tools)"
    and "host_text (strip (text_of (database_host s)))" "strip (database_sslmode s) \<noteq> []"
  shows "\<exists>url. engine_url tools s' = Inr url \<and> st_make_url tools url = Some
      \<lparr>up_host = Some (strip (text_of (database_host s))), up_port = Some (database_port s),
       up_database = Some (case rules of DatabaseAsIs \<Rightarrow> quote_plus (quote_plus (strip (text_of (database_name s))))
         | DatabaseUnquoted \<Rightarrow> space_to_plus (strip (text_of (database_name s)))),
       up_username = Some (space_to_plus (strip (text_of (database_username s)))),
       up_password = Some (space_to_plus (text_of (database_password s))), up_sslmode = [strip (database_sslmode s)]\<rparr>"
proof -
  note v = assms(1) [unfolded settings_new_Inr]
  have s': "s' = s\<lparr>database_url := structured_url s\<rparr>" and parts: "\<not> blank (database_host s)" "\<not> blank (database_name s)"
      "\<not> blank (database_username s)" "database_password s \<noteq> None" "database_password s \<noteq> Some []"
    using v assms(2) by (auto simp: validate_database_configuration_def split: if_splits)
  let ?c = "\<lparr>dc_host = strip (text_of (database_host s)), dc_port = database_port s, dc_database = strip (text_of (database_name s)),
      dc_username = strip (text_of (database_username s)), dc_password = text_of (database_password s), dc_sslmode = Some (strip (database_sslmode s))\<rparr>"
  have ok: "credentials_ok ?c"
    using parts v assms(5) by (auto simp: credentials_ok_def blank_def database_fields_ok_def split: option.splits)
  have url: "database_url s' = credentials_url ?c" by (simp add: s' structured_url_def credentials_url_def)
  have "credentials_from_url (st_make_url tools) (database_url s') = Inr (as_read rules ?c)"
    using credentials_read_back [OF assms(3), of ?c] ok assms(4) unfolding url by (simp add: credentials_new_Inr)
  then have "resolve_database_credentials tools s' None = Inr (as_read rules ?c)"
    unfolding resolve_database_credentials_def url credentials_url_def using url_text_nonblank by simp
  then have "engine_url tools s' = Inr (credentials_url (as_read rules ?c))" by (simp add: engine_url_def)
  moreover have "host_text (dc_host (as_read rules ?c))" using assms(4) by (simp add: as_read_def)
  note credentials_url_parts [OF assms(3) as_read_ok [OF ok] this]
  ultimately show ?thesis by (cases rules) (simp_all add: as_read_def read_database_def unquote_quote space_to_plus_twice)
qed

theorem engine_reaches_database_witness:
  "\<exists>url. engine_url \<lparr>st_make_url = split_url DatabaseAsIs, st_get_secret_value = \<lambda>_. Inr JvNull, st_loads = \<lambda>_. None, st_str = \<lambda>_. []\<rparr>
      (local_settings\<lparr>database_url := structured_url local_settings\<rparr>) = Inr url
    \<and> map_option up_username (split_url DatabaseAsIs url) = Some (Some ''realstock'')"
proof -
  have "structured_database_configured local_settings" "host_text (strip (text_of (database_host local_settings)))"
    "strip (database_sslmode local_settings) \<noteq> []" "space_to_plus (strip (text_of (database_username local_settings))) = ''realstock''"
    by code_simp+
  then show ?thesis
    using engine_reaches_database [OF local_settings_accepted, where tools = "\<lparr>st_make_url = split_url DatabaseAsIs, st_get_secret_value = \<lambda>_. Inr JvNull, st_loads = \<lambda>_. None, st_str = \<lambda>_. []\<rparr>"]
      split_url_reads [of DatabaseAsIs] by fastforce
qed

end
