(* ===== verification/Worker_Properties.thy ===== *)
theory Worker_Properties
  imports Outbox_Worker Credential_Properties
begin

text \<open>
  The process of the outbox ends after a signal, with the exit code 0, whatever fails in between; its run
  is a run of the protocol's steps, and its metrics agree with each other.
\<close>

section \<open>Runtimes\<close>

text \<open>
  What the loop needs of its surroundings: a relation that every call respects, whether it returns or
  raises, and a clock that moves on; \<open>good\<close> holds of the results of the dispatcher.
\<close>

locale worker_runtime =
  fixes ru :: "'s outbox_runner" and moves :: "'s \<Rightarrow> 's \<Rightarrow> bool" and age :: "'s \<Rightarrow> nat" and good :: "dispatch_result \<Rightarrow> bool"
  assumes moves_refl: "moves s s"
    and moves_trans: "moves s t \<Longrightarrow> moves t v \<Longrightarrow> moves s v"
    and moves_age: "moves s t \<Longrightarrow> age s \<le> age t"
    and dispatch_moves: "ru_dispatch_once ru s = (r, t) \<Longrightarrow> moves s t \<and> (\<forall>x. r = Inr x \<longrightarrow> good x)"
    and snapshot_moves: "ru_backlog_snapshot ru s = (b, t) \<Longrightarrow> moves s t"
    and metric_moves: "good x \<Longrightarrow> 0 \<le> ms \<Longrightarrow> om_record_dispatch (ru_metrics ru) x ms s = (u, t) \<Longrightarrow> moves s t"
      "om_record_backlog (ru_metrics ru) snap None s = (u, t) \<Longrightarrow> moves s t"
      "om_record_worker_error (ru_metrics ru) s = (u, t) \<Longrightarrow> moves s t"
    and clock_moves: "ru_monotonic_clock ru s = (m, t) \<Longrightarrow> moves s t \<and> age s < age t"
    and wait_moves: "moves s (ru_wait ru secs s)"
    and log_moves: "moves s (ru_log_exception ru e s)"
begin

lemma safely_moves: "(\<And>u t. m s = (u, t) \<Longrightarrow> moves s t) \<Longrightarrow> moves s (safely ru m s)"
  by (cases "m s") (auto simp: safely_def split: sum.split intro: moves_trans log_moves)

lemma safe_metric_moves:
  "good x \<Longrightarrow> 0 \<le> ms \<Longrightarrow> moves s (record_dispatch_safely ru x ms s)"
  "moves s (safely ru (om_record_backlog (ru_metrics ru) snap None) s)"
  "moves s (record_worker_error_safely ru s)"
  unfolding record_dispatch_safely_def record_worker_error_safely_def
  by (rule safely_moves, erule (2) metric_moves) (rule safely_moves, erule metric_moves)+

lemma backlog_moves:
  assumes "record_backlog_when_due ru (n, s) = (n', t)"
  shows "moves s t"
proof -
  obtain m s1 where c: "ru_monotonic_clock ru s = (m, s1)" by fastforce
  obtain b s2 where b: "ru_backlog_snapshot ru s1 = (b, s2)" by fastforce
  have "moves s1 t"
    using assms c b snapshot_moves [OF b] moves_refl log_moves safe_metric_moves(2)
    by (cases b) (auto simp: record_backlog_when_due_def split: if_splits intro: moves_trans)
  then show ?thesis using clock_moves [OF c] moves_trans by blast
qed

lemma iteration_moves:
  assumes "worker_iteration ru (n, s) = (n', t)"
  shows "moves s t \<and> age s < age t"
proof -
  obtain a s0 where c: "ru_monotonic_clock ru s = (a, s0)" by fastforce
  obtain r s1 where d: "ru_dispatch_once ru s0 = (r, s1)" by fastforce
  note start = clock_moves [OF c] and step = dispatch_moves [OF d]
  have "moves s1 t"
  proof (cases r)
    case (Inl e)
    then show ?thesis using assms c d
      by (auto simp: worker_iteration_def intro: moves_trans [OF log_moves moves_trans [OF safe_metric_moves(3) wait_moves]])
  next
    case (Inr x)
    obtain b s2 where f: "ru_monotonic_clock ru s1 = (b, s2)" by fastforce
    define s3 where "s3 = (if 0 < dr_claimed x then record_dispatch_safely ru x (max ((b - a) * 1000) 0) s2 else s2)"
    obtain n4 s4 where g: "record_backlog_when_due ru (n, s3) = (n4, s4)" by fastforce
    have "good x" using step Inr by simp
    then have "moves s2 s3"
      by (simp add: s3_def moves_refl safe_metric_moves(1))
    moreover have "t = (if dr_claimed x = 0 then ru_wait ru (poll_interval_seconds (ru_config ru)) s4 else s4)"
      using assms c d f g Inr by (simp add: worker_iteration_def Let_def s3_def del: left_diff_distrib_numeral)
    ultimately show ?thesis
      using clock_moves [OF f] backlog_moves [OF g] wait_moves moves_trans by (metis (full_types))
  qed
  then show ?thesis using start step moves_trans moves_age by (meson order.strict_trans2)
qed

lemma run_moves:
  assumes "run_forever ru st = Some t"
  shows "moves (snd st) t \<and> ru_is_set ru t"
proof -
  have "moves (snd st) t \<and> ru_is_set ru t" if "run_forever r st = Some t" "r = ru" for r
    using that(2)
  proof (induction r st t rule: run_forever.raw_induct)
    case (1 run r st t)
    show ?case
    proof (cases "ru_is_set ru (snd st)")
      case False
      then have "moves (snd (worker_iteration ru st)) t \<and> ru_is_set ru t" using 1 by simp
      then show ?thesis
        using iteration_moves [of "fst st" "snd st" "fst (worker_iteration ru st)" "snd (worker_iteration ru st)"] moves_trans by auto
    qed (use 1 moves_refl in auto)
  qed (rule that(1))
  then show ?thesis using assms by blast
qed

lemma run_ends:
  assumes "\<And>s. N \<le> age s \<Longrightarrow> ru_is_set ru s"
  shows "\<exists>t. run_forever ru st = Some t"
proof (induction "N - age (snd st)" arbitrary: st rule: less_induct)
  case less
  show ?case
  proof (cases "ru_is_set ru (snd st)")
    case False
    then have "age (snd st) < N" using assms not_le by blast
    moreover have "age (snd st) < age (snd (worker_iteration ru st))"
      using iteration_moves [of "fst st" "snd st" "fst (worker_iteration ru st)" "snd (worker_iteration ru st)"] by simp
    ultimately have "N - age (snd (worker_iteration ru st)) < N - age (snd st)" by simp
    from less [OF this] False show ?thesis by (simp add: run_forever.simps [of ru st])
  qed (simp add: run_forever.simps)
qed

end

section \<open>The process as a runtime\<close>

definition metric_total :: "string \<Rightarrow> outbox_datum list \<Rightarrow> rat" where
  "metric_total name data = sum_list (map od_value (filter (\<lambda>x. od_metric_name x = name) data))"

definition balanced :: "outbox_datum list \<Rightarrow> bool" where
  "balanced data \<longleftrightarrow> (\<forall>x \<in> set data. 0 \<le> od_value x)
     \<and> metric_total ''OutboxClaimedCount'' data
       = metric_total ''OutboxPublishSuccessCount'' data + metric_total ''OutboxPublishFailureCount'' data"

definition good_result :: "dispatch_result \<Rightarrow> bool" where
  "good_result r \<longleftrightarrow> 0 \<le> dr_published r \<and> 0 \<le> dr_failed r \<and> dr_claimed r = dr_published r + dr_failed r"

lemma dispatch_events_counts:
  "dispatch_events env d now es r w = (Inr r', w') \<Longrightarrow> dr_claimed r' = dr_claimed r \<and> dr_published r \<le> dr_published r'
   \<and> dr_failed r \<le> dr_failed r' \<and> dr_published r' + dr_failed r' = dr_published r + dr_failed r + int (length es)"
  by (induction es arbitrary: r w) (fastforce simp: bind_run split: prod.splits sum.splits)+

lemma dispatch_once_good: "dispatch_once env d now w = (Inr r, w') \<Longrightarrow> good_result r"
  by (auto simp: dispatch_once_def bind_run good_result_def split: prod.splits sum.splits dest: dispatch_events_counts)

text \<open>One tick: the others act, after a dispatch of this process or without one.\<close>

definition process_step :: "'p surroundings \<Rightarrow> dispatcher \<Rightarrow> 'p outbox_world \<times> nat \<Rightarrow> 'p outbox_world \<times> nat \<Rightarrow> bool" where
  "process_step su d x y \<longleftrightarrow> snd y = Suc (snd x)
     \<and> (fst y = su_others su (snd x) (fst x)
       \<or> fst y = su_others su (snd x) (snd (dispatch_once (su_outbox su (snd x)) d None (fst x))))"

definition process_moves :: "'p surroundings \<Rightarrow> dispatcher \<Rightarrow> string \<Rightarrow> 'p worker_process \<Rightarrow> 'p worker_process \<Rightarrow> bool" where
  "process_moves su d ns p q \<longleftrightarrow> (process_step su d)\<^sup>*\<^sup>* (wp_world p, wp_ticks p) (wp_world q, wp_ticks q)
     \<and> (\<exists>sent. wp_sent q = wp_sent p @ sent \<and> (\<forall>x \<in> set sent. fst x = ns \<and> balanced (snd x)))"

lemma process_moves_refl: "process_moves su d ns p p"
  by (simp add: process_moves_def)

lemma process_moves_trans: "process_moves su d ns p q \<Longrightarrow> process_moves su d ns q r \<Longrightarrow> process_moves su d ns p r"
  unfolding process_moves_def by (auto intro: rtranclp_trans)

lemma process_steps_age: "(process_step su d)\<^sup>*\<^sup>* x y \<Longrightarrow> snd x \<le> snd y"
  by (induction rule: rtranclp_induct) (auto simp: process_step_def)

lemma elapse_sel [simp]: "wp_world (elapse su p) = su_others su (wp_ticks p) (wp_world p)" "wp_ticks (elapse su p) = Suc (wp_ticks p)"
  "wp_sent (elapse su p) = wp_sent p" "wp_logged (elapse su p) = wp_logged p"
  by (simp_all add: elapse_def)

lemma elapse_moves: "process_moves su d ns p (elapse su p)"
  by (auto simp: process_moves_def process_step_def)

lemma logged_moves: "process_moves su d ns p (p\<lparr>wp_logged := es\<rparr>)"
  by (simp add: process_moves_def)

lemma process_moves_age: "process_moves su d ns p q \<Longrightarrow> wp_ticks p \<le> wp_ticks q"
  unfolding process_moves_def by (auto dest: process_steps_age)

lemma elapse_sent_moves: "balanced data \<Longrightarrow> process_moves su d ns p (elapse su (p\<lparr>wp_sent := wp_sent p @ [(ns, data)]\<rparr>))"
  by (auto simp: process_moves_def process_step_def)

lemma put_moves: "balanced data \<Longrightarrow> put_metric_data su ns data p = (u, q) \<Longrightarrow> process_moves su d ns p q"
  by (auto simp: put_metric_data_def elapse_moves elapse_sent_moves split: option.splits)

lemma dispatching_moves: "dispatching su d p = (r, q) \<Longrightarrow> process_moves su d ns p q"
  by (auto simp: dispatching_def process_moves_def process_step_def split: prod.splits)

lemma balanced_dispatch: "good_result r \<Longrightarrow> 0 \<le> ms \<Longrightarrow> balanced
   [outbox_metric c ''OutboxClaimedCount'' (of_int (dr_claimed r)) ''Count'',
    outbox_metric c ''OutboxPublishSuccessCount'' (of_int (dr_published r)) ''Count'',
    outbox_metric c ''OutboxPublishFailureCount'' (of_int (dr_failed r)) ''Count'',
    outbox_metric c ''OutboxDispatchDurationMilliseconds'' ms ''Milliseconds'']"
  by (simp add: balanced_def metric_total_def outbox_metric_def good_result_def)

lemma balanced_backlog: "balanced
   [outbox_metric c ''OutboxPendingCount'' (of_nat n) ''Count'',
    outbox_metric c ''OutboxOldestPendingAgeSeconds'' (oldest_pending_age_seconds snap t) ''Seconds'']"
  by (simp add: balanced_def metric_total_def outbox_metric_def oldest_pending_age_seconds_def split: option.split)

lemma balanced_error: "balanced [outbox_metric c ''OutboxWorkerErrorCount'' 1 ''Count'']"
  by (simp add: balanced_def metric_total_def outbox_metric_def)

interpretation process: worker_runtime "outbox_runner_of su cfg d (c\<lparr>co_client := put_metric_data su\<rparr>)"
  "process_moves su d (co_namespace c)" wp_ticks good_result for su cfg d c
proof
  fix x ms u and s t :: "'a worker_process"
  assume "good_result x" "0 \<le> ms"
    "om_record_dispatch (ru_metrics (outbox_runner_of su cfg d (c\<lparr>co_client := put_metric_data su\<rparr>))) x ms s = (u, t)"
  then show "process_moves su d (co_namespace c) s t"
    using put_moves [OF balanced_dispatch [of x ms "c\<lparr>co_client := put_metric_data su\<rparr>"], of su "co_namespace c" s u t d]
    by (simp add: outbox_runner_of_def cloudwatch_outbox_metrics_def record_dispatch_def bind_run good_result_def)
next
  fix s t :: "'a worker_process" and r
  assume "ru_dispatch_once (outbox_runner_of su cfg d (c\<lparr>co_client := put_metric_data su\<rparr>)) s = (r, t)"
  then show "process_moves su d (co_namespace c) s t \<and> (\<forall>x. r = Inr x \<longrightarrow> good_result x)"
    using dispatching_moves [of su d s r t] dispatch_once_good
    by (auto simp: outbox_runner_of_def dispatching_def split: prod.splits)
qed (auto simp: outbox_runner_of_def process_moves_refl cloudwatch_outbox_metrics_def record_backlog_def resolve_utc_def bind_run record_worker_error_def
    backlog_snapshot_provider_def elapse_moves logged_moves process_moves_age
    split: option.splits
    intro: process_moves_trans put_moves [OF balanced_backlog] put_moves [OF balanced_error])

section \<open>The process ends\<close>

definition others_step :: "'p surroundings \<Rightarrow> string \<Rightarrow> bool" where
  "others_step su w \<longleftrightarrow> (\<forall>n s. \<exists>s'. outbox_step\<^sup>*\<^sup>* s s' \<and> world s' = su_others su n (world s) \<and> worker s' w = worker s w)"

lemma process_steps_run:
  assumes "(process_step su d)\<^sup>*\<^sup>* x y" and "others_step su (d_worker_id d)" "strip (d_worker_id d) = d_worker_id d"
    and "\<And>n. truthful_bus (ob_client (su_outbox su n))" and "world s = fst x" "worker s (d_worker_id d) = Idle"
  shows "\<exists>s'. outbox_step\<^sup>*\<^sup>* s s' \<and> world s' = fst y \<and> worker s' (d_worker_id d) = Idle"
  using assms(1)
proof (induction rule: rtranclp_induct)
  case base
  then show ?case using assms(5,6) by blast
next
  case (step y z)
  then obtain s1 where s1: "outbox_step\<^sup>*\<^sup>* s s1" "world s1 = fst y" "worker s1 (d_worker_id d) = Idle" by blast
  obtain r w where d: "dispatch_once (su_outbox su (snd y)) d None (fst y) = (r, w)" by fastforce
  let ?s2 = "set_worker (d_worker_id d) Idle w s1"
  have s2: "outbox_step\<^sup>*\<^sup>* s1 ?s2"
    by (rule dispatch_once_steps [OF assms(3,4) s1(3)]) (use d s1(2) in simp)
  have go: "\<exists>s'. outbox_step\<^sup>*\<^sup>* s s' \<and> world s' = fst z \<and> worker s' (d_worker_id d) = Idle"
    if "outbox_step\<^sup>*\<^sup>* s1 t" "worker t (d_worker_id d) = Idle" "fst z = su_others su (snd y) (world t)" for t
  proof -
    obtain t' where "outbox_step\<^sup>*\<^sup>* t t'" "world t' = su_others su (snd y) (world t)" "worker t' (d_worker_id d) = worker t (d_worker_id d)"
      using assms(2) unfolding others_step_def by blast
    then show ?thesis using s1(1) that by (metis rtranclp_trans)
  qed
  from step(2) consider "fst z = su_others su (snd y) (fst y)" | "fst z = su_others su (snd y) w"
    unfolding process_step_def d by auto
  then show ?case using go [of s1] go [OF s2] s1 by cases auto
qed

lemma strip_prefixed:
  assumes "strip h \<noteq> []"
  shows "strip (''outbox-'' @ strip h) = ''outbox-'' @ strip h"
proof -
  have fixed: "dropWhile is_space (rev (strip h)) = rev (strip h)" by (simp add: strip_def dropWhile_idem)
  obtain y ys where y: "rev (strip h) = y # ys" using assms by (cases "rev (strip h)") auto
  then have "\<not> is_space y" using fixed dropWhile_head by metis
  then have "strip (''outbox-'' @ x) = ''outbox-'' @ x" if "rev x = y # ys" for x
    using that by (simp add: strip_def [of "CHR ''o'' # _"] is_space_def [of "CHR ''o''"])
  then show ?thesis using y by blast
qed

lemma composed_worker:
  assumes "settings_new raw = Inr cfg" "strip (outbox_event_bus_name cfg) \<noteq> []" "strip (outbox_metrics_namespace cfg) \<noteq> []" "strip w = w" "w \<noteq> []"
    and "su_build_error su = None"
  obtains d c where "compose_worker su cfg w = Inr (outbox_runner_of su cfg d (c\<lparr>co_client := put_metric_data su\<rparr>))"
    "d_worker_id d = w" "co_namespace c = strip (outbox_metrics_namespace cfg)"
proof -
  let ?d = "\<lparr>d_worker_id = w, d_batch_size = outbox_batch_size cfg, d_lease_seconds = outbox_lease_seconds cfg,
    d_event_bus_name = strip (outbox_event_bus_name cfg)\<rparr>"
  let ?c = "\<lparr>co_namespace = strip (outbox_metrics_namespace cfg), co_environment = strip (environment_text (app_env cfg)),
    co_service_name = strip ''outbox-dispatcher'', co_client = put_metric_data su\<rparr>"
  have ok: "outbox_fields_ok cfg" using accepted_outbox_fields [OF assms(1)] .
  have d: "dispatcher_new w (outbox_batch_size cfg) (outbox_lease_seconds cfg) (strip (outbox_event_bus_name cfg)) = Inr ?d"
    using ok assms(4,5) by (simp add: dispatcher_new_def outbox_fields_ok_def Let_def)
  have texts: "strip ''local'' \<noteq> []" "strip ''dev'' \<noteq> []" "strip ''staging'' \<noteq> []" "strip ''prod'' \<noteq> []" "strip ''outbox-dispatcher'' \<noteq> []"
    by code_simp+
  then have "strip (environment_text (app_env cfg)) \<noteq> []"
    by (cases "app_env cfg") (simp_all add: environment_text_def)
  then have c: "cloudwatch_outbox_new (outbox_metrics_namespace cfg) (environment_text (app_env cfg)) ''outbox-dispatcher'' (put_metric_data su) = Inr ?c"
    using assms(3) texts(5) by (simp add: cloudwatch_outbox_new_def)
  have "runner_new (ru_config (outbox_runner_of su cfg ?d ?c)) = Inr ()"
    using ok by (simp add: runner_new_def outbox_runner_of_def outbox_fields_ok_def)
  then have "compose_worker su cfg w = Inr (outbox_runner_of su cfg ?d (?c\<lparr>co_client := put_metric_data su\<rparr>))"
    using assms(2,6) d c by (simp add: compose_worker_def try_then_def publisher_new_def Let_def)
  then show ?thesis by (rule that) simp_all
qed

text \<open>
  C30. The process of the outbox ends: from accepted settings, with a host name, once a signal has set the
  stop event it returns the exit code 0, whatever the database, the bus and CloudWatch do until then. Its
  run, beside that of the others, is a run of the protocol's steps with its worker idle again at the end.
  Everything it sent has non-negative values, and as many events claimed as published and failed. If one of
  its clients cannot be built, it logs that, ends with the exit code 1 and has done nothing else.
\<close>

theorem outbox_worker_ends:
  assumes "settings_new raw = Inr cfg" "strip (outbox_event_bus_name cfg) \<noteq> []" "strip (outbox_metrics_namespace cfg) \<noteq> []"
    and "strip hostname \<noteq> []" "\<forall>n \<ge> N. su_stopped su n"
    and "\<forall>n. truthful_bus (ob_client (su_outbox su n))" "others_step su (''outbox-'' @ strip hostname)"
    and "world s = wp_world p" "worker s (''outbox-'' @ strip hostname) = Idle"
  shows "case su_build_error su of
      Some e \<Rightarrow> worker_main su cfg hostname p = Some (Inr 1, p\<lparr>wp_logged := wp_logged p @ [e]\<rparr>)
    | None \<Rightarrow> (\<exists>q s'. worker_main su cfg hostname p = Some (Inr 0, q) \<and> su_stopped su (wp_ticks q)
    \<and> outbox_step\<^sup>*\<^sup>* s s' \<and> world s' = wp_world q \<and> worker s' (''outbox-'' @ strip hostname) = Idle
    \<and> (\<exists>sent. wp_sent q = wp_sent p @ sent \<and> (\<forall>x \<in> set sent. fst x = strip (outbox_metrics_namespace cfg) \<and> balanced (snd x))))"
proof (cases "su_build_error su")
  case (Some e)
  then show ?thesis using assms(4) by (simp add: worker_main_def build_worker_id_def compose_worker_def try_then_def)
next
  case None
  let ?w = "''outbox-'' @ strip hostname"
  have w: "strip ?w = ?w" using strip_prefixed [OF assms(4)] .
  obtain d c where comp: "compose_worker su cfg ?w = Inr (outbox_runner_of su cfg d (c\<lparr>co_client := put_metric_data su\<rparr>))"
    and d: "d_worker_id d = ?w" and ns: "co_namespace c = strip (outbox_metrics_namespace cfg)"
    using composed_worker [OF assms(1-3) w _ None] by auto
  let ?ru = "outbox_runner_of su cfg d (c\<lparr>co_client := put_metric_data su\<rparr>)"
  have "ru_is_set ?ru t" if "N \<le> wp_ticks t" for t using that assms(5) by (simp add: outbox_runner_of_def)
  then obtain q where q: "run_forever ?ru (0, p) = Some q" using process.run_ends by blast
  have moves: "process_moves su d (co_namespace c) p q" and set: "su_stopped su (wp_ticks q)"
    using process.run_moves [OF q] by (simp_all add: outbox_runner_of_def)
  have "\<exists>s'. outbox_step\<^sup>*\<^sup>* s s' \<and> world s' = fst (wp_world q, wp_ticks q) \<and> worker s' (d_worker_id d) = Idle"
    by (rule process_steps_run [of su d "(wp_world p, wp_ticks p)"])
      (use moves assms(6-9) w in \<open>simp_all add: process_moves_def d\<close>)
  moreover have "worker_main su cfg hostname p = Some (Inr 0, q)"
    using assms(4) comp q by (simp add: worker_main_def build_worker_id_def)
  ultimately show ?thesis using moves set None by (auto simp: process_moves_def d ns)
qed

text \<open>A process with one event to send that is told to stop at its sixth tick.\<close>

definition calm_surroundings :: "nat surroundings" where
  "calm_surroundings = \<lparr>su_others = (\<lambda>_ w. w), su_outbox = (\<lambda>_. calm_env), su_monotonic = of_nat,
     su_build_error = None, su_snapshot_error = (\<lambda>_. None), su_cloudwatch_error = (\<lambda>_. Some (ExternalError ''ClientError'')), su_stopped = (\<lambda>n. 5 \<le> n)\<rparr>"

definition starting_process :: "nat worker_process" where
  "starting_process = \<lparr>wp_world = world sample_system, wp_ticks = 0, wp_sent = [], wp_logged = []\<rparr>"

theorem outbox_worker_ends_witness:
  "\<exists>q s'. worker_main calm_surroundings (local_settings\<lparr>database_url := structured_url local_settings\<rparr>) ''task-1'' starting_process = Some (Inr 0, q)
    \<and> outbox_step\<^sup>*\<^sup>* sample_system s' \<and> world s' = wp_world q"
proof -
  let ?cfg = "local_settings\<lparr>database_url := structured_url local_settings\<rparr>"
  have names: "strip (outbox_event_bus_name ?cfg) \<noteq> []" "strip (outbox_metrics_namespace ?cfg) \<noteq> []" "strip ''task-1'' \<noteq> []"
    by (simp_all add: local_settings_def default_settings_def) code_simp+
  have others: "others_step calm_surroundings w" for w
    by (auto simp: others_step_def calm_surroundings_def)
  have "\<forall>n \<ge> 5. su_stopped calm_surroundings n" "\<forall>n. truthful_bus (ob_client (su_outbox calm_surroundings n))"
    using accepting_bus_truthful by (simp_all add: calm_surroundings_def)
  moreover have "world sample_system = wp_world starting_process" "worker sample_system (''outbox-'' @ strip ''task-1'') = Idle"
    by (simp_all add: starting_process_def sample_system_def initial_system_def)
  moreover have built: "su_build_error calm_surroundings = None" by (simp add: calm_surroundings_def)
  ultimately show ?thesis
    using outbox_worker_ends [OF local_settings_accepted names _ _ others, unfolded built option.case] by blast
qed

end
