(* ===== verification/Metrics.thy ===== *)
theory Metrics
  imports Twelve_Data "HOL-Library.List_Lexorder" "HOL-Library.Char_ord"
begin

text \<open>
  Metrics and alarms (\<open>metrics.py\<close>, \<open>cloudwatch.py\<close>, \<open>factory.py\<close> and \<open>alarms.py\<close> of \<open>libs/observability\<close>):
  the sinks with their common contract, the recorder, the definition of an alarm and the requests to
  CloudWatch. The client is a parameter; a float that is not finite is \<open>None\<close>.
\<close>

section \<open>Texts that must not be blank\<close>

definition required_value :: "string \<Rightarrow> string \<Rightarrow> string result" where
  "required_value message v = (let normalized = strip v in if normalized = [] then Inl (ValueError message) else Inr normalized)"

fun normalize_pairs :: "string \<Rightarrow> string \<Rightarrow> (string \<times> string) list \<Rightarrow> (string \<times> string) list \<Rightarrow> (string \<times> string) list result" where
  "normalize_pairs name_error value_error [] d = Inr d"
| "normalize_pairs name_error value_error ((k, v) # kvs) d =
     (if strip k = [] then Inl (ValueError name_error)
      else if strip v = [] then Inl (ValueError value_error)
      else normalize_pairs name_error value_error kvs (dict_put (strip k) (strip v) d))"

section \<open>Sinks\<close>

datatype metric_unit = COUNT | MILLISECONDS

record metric_point =
  mp_name :: string
  mp_value :: "rat option"
  mp_unit :: metric_unit
  mp_dimensions :: "(string \<times> string) list"
  mp_timestamp :: int

type_synonym 's metric_sink = "metric_point \<Rightarrow> ('s, unit) prog"

text \<open>\<open>logger\<close> is the call of the logger after a failed emission.\<close>

definition resilient_sink :: "'s metric_sink \<Rightarrow> 's metric_sink \<Rightarrow> 's metric_sink" where
  "resilient_sink logger sink m = try_except (sink m) (\<lambda>_. logger m)"

definition noop_sink :: "'s metric_sink" where
  "noop_sink m = ret ()"

definition in_memory_sink :: "metric_point list metric_sink" where
  "in_memory_sink m = update_state (\<lambda>metrics. metrics @ [m])"

definition in_memory_clear :: "(metric_point list, unit) prog" where
  "in_memory_clear = update_state (\<lambda>_. [])"

record metric_datum =
  md_metric_name :: string
  md_value :: "rat option"
  md_unit :: metric_unit
  md_timestamp :: int
  md_dimensions :: "(string \<times> string) list option"

type_synonym 's cloudwatch_client = "string \<Rightarrow> metric_datum list \<Rightarrow> ('s, unit) prog"

definition cloudwatch_sink_new :: "'s cloudwatch_client \<Rightarrow> string \<Rightarrow> 's metric_sink result" where
  "cloudwatch_sink_new client namespace = map_sum id (\<lambda>ns m. client ns
     [\<lparr>md_metric_name = mp_name m, md_value = mp_value m, md_unit = mp_unit m, md_timestamp = mp_timestamp m,
       md_dimensions = (if mp_dimensions m = [] then None else Some (mp_dimensions m))\<rparr>])
     (required_value ''namespace must not be empty'' namespace)"

section \<open>The recorder\<close>

record 's metrics_recorder =
  mr_sink :: "'s metric_sink"
  mr_default_dimensions :: "(string \<times> string) list"

definition normalize_dimensions :: "(string \<times> string) list option \<Rightarrow> (string \<times> string) list result" where
  "normalize_dimensions dims = (case dims of
     None \<Rightarrow> Inr []
   | Some kvs \<Rightarrow> normalize_pairs ''metric dimension name must not be empty'' ''metric dimension value must not be empty'' kvs [])"

definition metrics_recorder_new :: "'s metric_sink option \<Rightarrow> (string \<times> string) list option \<Rightarrow> 's metrics_recorder result" where
  "metrics_recorder_new sink dims =
     map_sum id (\<lambda>d. \<lparr>mr_sink = (case sink of None \<Rightarrow> noop_sink | Some s \<Rightarrow> s), mr_default_dimensions = d\<rparr>) (normalize_dimensions dims)"

definition merge_dimensions :: "'s metrics_recorder \<Rightarrow> (string \<times> string) list option \<Rightarrow> (string \<times> string) list result" where
  "merge_dimensions r dims =
     map_sum id (\<lambda>own. fold (\<lambda>(k, v). dict_put k v) own (mr_default_dimensions r)) (normalize_dimensions dims)"

definition record_metric ::
  "'s metrics_recorder \<Rightarrow> int \<Rightarrow> string \<Rightarrow> rat option \<Rightarrow> metric_unit \<Rightarrow> (string \<times> string) list option \<Rightarrow> ('s, unit) prog" where
  "record_metric r now name v u dims =
     bind (of_result (required_value ''metric name must not be empty'' name)) (\<lambda>metric_name.
     bind (of_result (merge_dimensions r dims)) (\<lambda>merged.
     mr_sink r \<lparr>mp_name = metric_name, mp_value = v, mp_unit = u, mp_dimensions = merged, mp_timestamp = now\<rparr>))"

definition increment :: "'s metrics_recorder \<Rightarrow> int \<Rightarrow> string \<Rightarrow> (string \<times> string) list option \<Rightarrow> ('s, unit) prog" where
  "increment r now name dims = record_metric r now name (Some 1) COUNT dims"

definition record_milliseconds ::
  "'s metrics_recorder \<Rightarrow> int \<Rightarrow> string \<Rightarrow> rat option \<Rightarrow> (string \<times> string) list option \<Rightarrow> ('s, unit) prog" where
  "record_milliseconds r now name v dims = record_metric r now name v MILLISECONDS dims"

text \<open>
  \<open>with recorder.timer(name): body\<close>, where the clocks show what the arguments say: the metric is recorded
  when the body returns and when it raises, and a failure to record replaces both.
\<close>

definition timed ::
  "'s metrics_recorder \<Rightarrow> int \<Rightarrow> rat \<Rightarrow> string \<Rightarrow> (string \<times> string) list option \<Rightarrow> ('s, 'a) prog \<Rightarrow> ('s, 'a) prog" where
  "timed r now elapsed_seconds name dims body = (\<lambda>s. case body s of (x, s1) \<Rightarrow>
     (case record_milliseconds r now name (Some (elapsed_seconds * 1000)) dims s1 of
        (Inl e, s2) \<Rightarrow> (Inl e, s2) | (Inr _, s2) \<Rightarrow> (x, s2)))"

definition create_cloudwatch_metrics_recorder ::
  "'s metric_sink \<Rightarrow> 's cloudwatch_client \<Rightarrow> string \<Rightarrow> string \<Rightarrow> string \<Rightarrow> 's metrics_recorder result" where
  "create_cloudwatch_metrics_recorder logger client service_name environment namespace =
     try_then (required_value ''service_name must not be empty'' service_name) (\<lambda>service.
     try_then (required_value ''environment must not be empty'' environment) (\<lambda>env.
     try_then (required_value ''namespace must not be empty'' namespace) (\<lambda>ns.
     try_then (cloudwatch_sink_new client ns) (\<lambda>sink.
     metrics_recorder_new (Some (resilient_sink logger sink)) (Some [(''Service'', service), (''Environment'', env)])))))"

section \<open>Alarms\<close>

datatype alarm_statistic = AVERAGE_OF | SUM_OF | MINIMUM_OF | MAXIMUM_OF | SAMPLE_COUNT

datatype alarm_comparison = GREATER_THAN_OR_EQUAL | GREATER_THAN | LESS_THAN | LESS_THAN_OR_EQUAL

datatype missing_data = BREACHING | NOT_BREACHING | IGNORE_MISSING | STAY_MISSING

record alarm_definition =
  al_name :: string
  al_metric_name :: string
  al_threshold :: "rat option"
  al_comparison_operator :: alarm_comparison
  al_namespace :: string
  al_statistic :: alarm_statistic
  al_period_seconds :: int
  al_evaluation_periods :: int
  al_datapoints_to_alarm :: "int option"
  al_dimensions :: "(string \<times> string) list"
  al_unit :: "metric_unit option"
  al_treat_missing_data :: missing_data
  al_alarm_actions :: "string list"
  al_description :: "string option"
  al_actions_enabled :: bool

fun normalize_actions :: "string list \<Rightarrow> string list result" where
  "normalize_actions [] = Inr []"
| "normalize_actions (a # as) =
     (if strip a = [] then Inl (ValueError ''alarm action ARN must not be empty'')
      else (case normalize_actions as of Inl e \<Rightarrow> Inl e | Inr rest \<Rightarrow> Inr (strip a # rest)))"

definition alarm_numbers_ok :: "alarm_definition \<Rightarrow> unit result" where
  "alarm_numbers_ok a =
     (if al_threshold a = None then Inl (ValueError ''threshold must be finite'')
      else if al_period_seconds a \<le> 0 then Inl (ValueError ''period_seconds must be positive'')
      else if al_evaluation_periods a \<le> 0 then Inl (ValueError ''evaluation_periods must be positive'')
      else case al_datapoints_to_alarm a of
        None \<Rightarrow> Inr ()
      | Some n \<Rightarrow>
          if n \<le> 0 then Inl (ValueError ''datapoints_to_alarm must be positive'')
          else if al_evaluation_periods a < n then Inl (ValueError ''datapoints_to_alarm must not exceed evaluation_periods'')
          else Inr ())"

definition alarm_new :: "alarm_definition \<Rightarrow> alarm_definition result" where
  "alarm_new a =
     try_then (required_value ''alarm name must not be empty'' (al_name a)) (\<lambda>name.
     try_then (required_value ''metric name must not be empty'' (al_metric_name a)) (\<lambda>metric_name.
     try_then (required_value ''namespace must not be empty'' (al_namespace a)) (\<lambda>namespace.
     try_then (alarm_numbers_ok a) (\<lambda>_.
     try_then (normalize_pairs ''alarm dimension name must not be empty'' ''alarm dimension value must not be empty'' (al_dimensions a) []) (\<lambda>dims.
     try_then (normalize_actions (al_alarm_actions a)) (\<lambda>actions.
     Inr (a\<lparr>al_name := name, al_metric_name := metric_name, al_namespace := namespace, al_dimensions := dims,
            al_alarm_actions := actions,
            al_description := (case al_description a of None \<Rightarrow> None | Some d \<Rightarrow> if strip d = [] then None else Some (strip d))\<rparr>)))))))"

text \<open>The request of \<open>put_metric_alarm\<close>: the keys that are always there, and those only set when needed.\<close>

record alarm_request =
  aq_required :: alarm_definition
  aq_dimensions :: "(string \<times> string) list option"
  aq_datapoints_to_alarm :: "int option"
  aq_unit :: "metric_unit option"
  aq_alarm_actions :: "string list option"
  aq_alarm_description :: "string option"

definition alarm_request_of :: "alarm_definition \<Rightarrow> alarm_request" where
  "alarm_request_of a = \<lparr>aq_required = a,
     aq_dimensions = (if al_dimensions a = [] then None else Some (sort_key fst (al_dimensions a))),
     aq_datapoints_to_alarm = al_datapoints_to_alarm a, aq_unit = al_unit a,
     aq_alarm_actions = (if al_alarm_actions a = [] then None else Some (al_alarm_actions a)),
     aq_alarm_description = al_description a\<rparr>"

definition put_alarm :: "(alarm_request \<Rightarrow> ('s, unit) prog) \<Rightarrow> alarm_definition \<Rightarrow> ('s, unit) prog" where
  "put_alarm client a = client (alarm_request_of a)"

definition delete_alarm :: "(string list \<Rightarrow> ('s, unit) prog) \<Rightarrow> string \<Rightarrow> ('s, unit) prog" where
  "delete_alarm client alarm_name =
     bind (of_result (required_value ''alarm name must not be empty'' alarm_name)) (\<lambda>name. client [name])"

section \<open>What a sink must not do\<close>

text \<open>A sink that never raises, whatever becomes of the metric.\<close>

locale quiet_sink =
  fixes emit :: "'s metric_sink"
  assumes quiet: "\<exists>s'. emit m s = (Inr (), s')"
begin

lemma record_quiet:
  assumes "strip name \<noteq> []" "normalize_dimensions dims = Inr own"
  shows "\<exists>s'. record_metric \<lparr>mr_sink = emit, mr_default_dimensions = d\<rparr> now name v u dims s = (Inr (), s')"
  using assms quiet by (simp add: record_metric_def required_value_def merge_dimensions_def bind_run Let_def)

lemma timed_transparent:
  assumes "strip name \<noteq> []" "normalize_dimensions dims = Inr own"
  shows "fst (timed \<lparr>mr_sink = emit, mr_default_dimensions = d\<rparr> now t name dims body s) = fst (body s)"
proof -
  obtain x s1 where b: "body s = (x, s1)" by fastforce
  obtain s2 where "record_metric \<lparr>mr_sink = emit, mr_default_dimensions = d\<rparr> now name (Some (t * 1000)) MILLISECONDS dims s1 = (Inr (), s2)"
    using record_quiet [OF assms] by blast
  then show ?thesis by (simp add: timed_def record_milliseconds_def b)
qed

end

interpretation noop: quiet_sink noop_sink
  by unfold_locales (simp add: noop_sink_def)

interpretation in_memory: quiet_sink in_memory_sink
  by unfold_locales (simp add: in_memory_sink_def)

lemma resilient_quiet: "quiet_sink logger \<Longrightarrow> quiet_sink (resilient_sink logger sink)"
proof
  fix m and s :: 'a
  assume "quiet_sink logger"
  then show "\<exists>s'. resilient_sink logger sink m s = (Inr (), s')"
    by (auto simp: resilient_sink_def try_except_def quiet_sink_def split: prod.split sum.split)
qed

interpretation resilient: quiet_sink "resilient_sink noop_sink sink" for sink
  by (rule resilient_quiet) (rule noop.quiet_sink_axioms)

section \<open>Normal forms\<close>

lemma required_value_Inr: "required_value message v = Inr n \<longleftrightarrow> strip v \<noteq> [] \<and> n = strip v"
  by (auto simp: required_value_def Let_def)

definition normal_pairs :: "(string \<times> string) list \<Rightarrow> bool" where
  "normal_pairs d \<longleftrightarrow> distinct (map fst d) \<and> (\<forall>(k, v) \<in> set d. strip k = k \<and> k \<noteq> [] \<and> strip v = v \<and> v \<noteq> [])"

lemma normal_pairs_put: "normal_pairs d \<Longrightarrow> strip k \<noteq> [] \<Longrightarrow> strip v \<noteq> [] \<Longrightarrow> normal_pairs (dict_put (strip k) (strip v) d)"
  using dict_put_set [of "strip k" "strip v" d] by (auto simp: normal_pairs_def dict_put_distinct)

lemma normalize_pairs_normal: "normal_pairs d \<Longrightarrow> normalize_pairs e1 e2 kvs d = Inr d' \<Longrightarrow> normal_pairs d'"
  by (induction e1 e2 kvs d rule: normalize_pairs.induct) (auto simp: normal_pairs_put split: if_splits)

lemma normal_pairs_Nil [simp]: "normal_pairs []"
  by (simp add: normal_pairs_def)

lemma normalize_normal_pairs:
  "normal_pairs (d @ kvs) \<Longrightarrow> normalize_pairs e1 e2 kvs d = Inr (d @ kvs)"
proof (induction kvs arbitrary: d)
  case (Cons kv kvs)
  obtain k v where kv: "kv = (k, v)" by fastforce
  have k: "k \<notin> fst ` set d" "strip k = k" "strip v = v" "k \<noteq> []" "v \<noteq> []" using Cons.prems by (auto simp: normal_pairs_def kv)
  have "normal_pairs ((d @ [(k, v)]) @ kvs)" using Cons.prems by (simp add: kv)
  from Cons.IH [OF this] show ?case using k by (simp add: kv dict_put_new)
qed simp

lemma normalize_actions_Inr: "normalize_actions as = Inr bs \<Longrightarrow> normalize_actions bs = Inr bs"
  by (induction as arbitrary: bs) (auto split: if_splits sum.splits)

section \<open>Metrics do not interfere\<close>

lemma map_of_fold_put:
  "distinct (map fst own) \<Longrightarrow> map_of (fold (\<lambda>(k, v). dict_put k v) own d) x = (case map_of own x of None \<Rightarrow> map_of d x | Some v \<Rightarrow> Some v)"
proof (induction own arbitrary: d)
  case (Cons kv own)
  obtain k v where kv: "kv = (k, v)" by fastforce
  have "map_of own k = None" using Cons.prems by (simp add: kv map_of_eq_None_iff)
  then show ?case using Cons by (auto simp: kv map_of_dict_put split: option.splits)
qed simp

lemma fold_put_nonempty: "d \<noteq> [] \<Longrightarrow> fold (\<lambda>(k, v). dict_put k v) own d \<noteq> []"
proof (induction own arbitrary: d)
  case (Cons kv own)
  then show ?case by (simp add: case_prod_unfold)
qed simp

lemma strip_dimension_names [simp]: "strip ''Service'' = ''Service''" "strip ''Environment'' = ''Environment''"
  by code_simp+

lemma created_recorder:
  assumes "create_cloudwatch_metrics_recorder logger client service_name environment namespace = Inr r"
  obtains sink where "r = \<lparr>mr_sink = resilient_sink logger sink, mr_default_dimensions = [(''Service'', strip service_name), (''Environment'', strip environment)]\<rparr>"
    "sink = (\<lambda>m. client (strip namespace) [\<lparr>md_metric_name = mp_name m, md_value = mp_value m, md_unit = mp_unit m,
       md_timestamp = mp_timestamp m, md_dimensions = (if mp_dimensions m = [] then None else Some (mp_dimensions m))\<rparr>])"
  using assms
  by (auto simp: create_cloudwatch_metrics_recorder_def try_then_Inr required_value_Inr cloudwatch_sink_new_def
      metrics_recorder_new_def normalize_dimensions_def map_sum_def required_value_def Let_def split: if_splits)

text \<open>
  C38. A block of code that is timed with a recorder of the factory returns or raises what it would without
  it, whatever CloudWatch does, if the name of the metric is not blank, the dimensions of the call are valid and the
  logger does not raise; the client gets one datum, with the normalised name, the elapsed time and
  the dimensions of the recorder under those of the call.
\<close>

theorem metrics_do_not_interfere:
  assumes "create_cloudwatch_metrics_recorder logger client service_name environment namespace = Inr r"
    and "quiet_sink logger" "strip name \<noteq> []" "normalize_dimensions dims = Inr own"
  shows "\<exists>datum point. timed r now t name dims body s
      = (fst (body s), snd (try_except (client (strip namespace) [datum]) (\<lambda>_. logger point) (snd (body s))))
    \<and> md_metric_name datum = strip name \<and> md_value datum = Some (t * 1000) \<and> md_unit datum = MILLISECONDS
    \<and> (\<exists>d. md_dimensions datum = Some d \<and> (\<forall>k. map_of d k = (case map_of own k of
          Some v \<Rightarrow> Some v
        | None \<Rightarrow> if k = ''Service'' then Some (strip service_name) else if k = ''Environment'' then Some (strip environment) else None)))"
proof -
  obtain sink where r: "r = \<lparr>mr_sink = resilient_sink logger sink, mr_default_dimensions = [(''Service'', strip service_name), (''Environment'', strip environment)]\<rparr>"
    and sink: "sink = (\<lambda>m. client (strip namespace) [\<lparr>md_metric_name = mp_name m, md_value = mp_value m, md_unit = mp_unit m,
       md_timestamp = mp_timestamp m, md_dimensions = (if mp_dimensions m = [] then None else Some (mp_dimensions m))\<rparr>])"
    using created_recorder [OF assms(1)] .
  let ?d = "fold (\<lambda>(k, v). dict_put k v) own [(''Service'', strip service_name), (''Environment'', strip environment)]"
  let ?p = "\<lparr>mp_name = strip name, mp_value = Some (t * 1000), mp_unit = MILLISECONDS, mp_dimensions = ?d, mp_timestamp = now\<rparr>"
  let ?m = "\<lparr>md_metric_name = strip name, md_value = Some (t * 1000), md_unit = MILLISECONDS, md_timestamp = now, md_dimensions = Some ?d\<rparr>"
  obtain x s1 where b: "body s = (x, s1)" by fastforce
  obtain s2 where q: "resilient_sink logger sink ?p s1 = (Inr (), s2)"
    using resilient_quiet [OF assms(2), of sink] unfolding quiet_sink_def by blast
  have emit: "record_milliseconds r now name (Some (t * 1000)) dims s1 = resilient_sink logger sink ?p s1"
    using assms(3,4) by (simp add: record_milliseconds_def record_metric_def r required_value_def merge_dimensions_def bind_run)
  have "sink ?p = client (strip namespace) [?m]" using fold_put_nonempty [of _ own] by (simp add: sink)
  then have "timed r now t name dims body s = (fst (body s), snd (try_except (client (strip namespace) [?m]) (\<lambda>_. logger ?p) (snd (body s))))"
    using q by (simp add: timed_def b emit resilient_sink_def)
  moreover have "distinct (map fst own)"
    using assms(4) normalize_pairs_normal [OF normal_pairs_Nil] unfolding normalize_dimensions_def normal_pairs_def
    by (auto split: option.splits)
  then have "\<forall>k. map_of ?d k = (case map_of own k of Some v \<Rightarrow> Some v
        | None \<Rightarrow> if k = ''Service'' then Some (strip service_name) else if k = ''Environment'' then Some (strip environment) else None)"
    by (auto simp: map_of_fold_put split: option.split)
  ultimately show ?thesis by (intro exI [of _ ?m] exI [of _ ?p]) simp
qed

text \<open>A client that is down, and a block that raises.\<close>

theorem metrics_do_not_interfere_witness:
  "\<exists>r. create_cloudwatch_metrics_recorder noop_sink (\<lambda>_ _. raise (ExternalError ''ClientError'')) ''api'' ''prod'' ''RealStock'' = Inr r
    \<and> fst (timed r 0 (1/2) ''Latency'' None (raise (ValueError ''bad'') :: (nat, unit) prog) 5) = Inl (ValueError ''bad'')"
proof -
  let ?c = "\<lambda>_ _. raise (ExternalError ''ClientError'') :: (nat, unit) prog"
  have blank: "strip ''api'' \<noteq> []" "strip ''prod'' \<noteq> []" "strip ''RealStock'' \<noteq> []" "strip ''Latency'' \<noteq> []" by code_simp+
  have "\<not> isl (create_cloudwatch_metrics_recorder noop_sink ?c ''api'' ''prod'' ''RealStock'')"
    using blank by (simp add: create_cloudwatch_metrics_recorder_def try_then_def required_value_def cloudwatch_sink_new_def
        metrics_recorder_new_def normalize_dimensions_def)
  then obtain r where r: "create_cloudwatch_metrics_recorder noop_sink ?c ''api'' ''prod'' ''RealStock'' = Inr r"
    by (auto simp: isl_def) (metis sum.exhaust)
  have none: "normalize_dimensions None = Inr []" by (simp add: normalize_dimensions_def)
  show ?thesis
    using r metrics_do_not_interfere [OF r noop.quiet_sink_axioms blank(4) none, of 0 "1/2" "raise (ValueError ''bad'') :: (nat, unit) prog" 5] by auto
qed

section \<open>Alarms watch the metrics\<close>

lemma normalize_pairs_messages: "normalize_pairs e1 e2 kvs d = Inr x \<Longrightarrow> normalize_pairs f1 f2 kvs d = Inr x"
  by (induction e1 e2 kvs d rule: normalize_pairs.induct) (auto split: if_splits)

lemma alarm_numbers_cong:
  "al_threshold a = al_threshold b \<Longrightarrow> al_period_seconds a = al_period_seconds b \<Longrightarrow> al_evaluation_periods a = al_evaluation_periods b
   \<Longrightarrow> al_datapoints_to_alarm a = al_datapoints_to_alarm b \<Longrightarrow> alarm_numbers_ok a = alarm_numbers_ok b"
  by (cases "al_datapoints_to_alarm b") (simp_all add: alarm_numbers_ok_def)

text \<open>
  An accepted definition of an alarm is in normal form (making it again changes nothing), its numbers
  are in range, its request lists each dimension once in the order of the names; and an alarm with the
  dimensions that a recorder was made with has exactly the dimensions of the recorder's metrics.
\<close>

theorem alarm_sound:
  assumes "alarm_new a = Inr b"
  shows "alarm_new b = Inr b \<and> al_threshold b \<noteq> None \<and> 0 < al_period_seconds b \<and> 0 < al_evaluation_periods b
    \<and> (case al_datapoints_to_alarm b of None \<Rightarrow> True | Some n \<Rightarrow> 0 < n \<and> n \<le> al_evaluation_periods b)
    \<and> (case aq_dimensions (alarm_request_of b) of None \<Rightarrow> al_dimensions b = []
        | Some d \<Rightarrow> sorted (map fst d) \<and> distinct (map fst d) \<and> set d = set (al_dimensions b))
    \<and> (metrics_recorder_new sink (Some (al_dimensions a)) = Inr r \<longrightarrow> mr_default_dimensions r = al_dimensions b)"
proof -
  obtain dims actions where n: "strip (al_name a) \<noteq> []" "strip (al_metric_name a) \<noteq> []" "strip (al_namespace a) \<noteq> []" "alarm_numbers_ok a = Inr ()"
    and dims: "normalize_pairs ''alarm dimension name must not be empty'' ''alarm dimension value must not be empty'' (al_dimensions a) [] = Inr dims"
    and actions: "normalize_actions (al_alarm_actions a) = Inr actions"
    and b: "b = a\<lparr>al_name := strip (al_name a), al_metric_name := strip (al_metric_name a), al_namespace := strip (al_namespace a),
      al_dimensions := dims, al_alarm_actions := actions,
      al_description := (case al_description a of None \<Rightarrow> None | Some d \<Rightarrow> if strip d = [] then None else Some (strip d))\<rparr>"
    using assms by (auto simp: alarm_new_def try_then_Inr required_value_Inr)
  have normal: "normal_pairs dims" using normalize_pairs_normal [OF normal_pairs_Nil dims] .
  have nums: "alarm_numbers_ok b = Inr ()" using n(4) alarm_numbers_cong [of b a] by (simp add: b)
  have fields: "strip (al_name b) = al_name b" "al_name b \<noteq> []" "strip (al_metric_name b) = al_metric_name b" "al_metric_name b \<noteq> []"
    "strip (al_namespace b) = al_namespace b" "al_namespace b \<noteq> []" "al_dimensions b = dims" "al_alarm_actions b = actions"
    "(case al_description b of None \<Rightarrow> None | Some d \<Rightarrow> if strip d = [] then None else Some (strip d)) = al_description b"
    using n by (simp_all add: b split: option.split)
  have "alarm_new b = Inr b"
    using fields normalize_normal_pairs [of "[]" dims] normal normalize_actions_Inr [OF actions] nums
    by (cases b) (simp add: alarm_new_def try_then_def required_value_def Let_def)
  moreover have "al_threshold b \<noteq> None \<and> 0 < al_period_seconds b \<and> 0 < al_evaluation_periods b
      \<and> (case al_datapoints_to_alarm b of None \<Rightarrow> True | Some n \<Rightarrow> 0 < n \<and> n \<le> al_evaluation_periods b)"
    using nums by (auto simp: alarm_numbers_ok_def split: if_splits option.splits)
  moreover have "case aq_dimensions (alarm_request_of b) of None \<Rightarrow> al_dimensions b = []
        | Some d \<Rightarrow> sorted (map fst d) \<and> distinct (map fst d) \<and> set d = set (al_dimensions b)"
    using normal by (simp add: alarm_request_of_def b normal_pairs_def distinct_map)
  moreover have "mr_default_dimensions r = al_dimensions b" if "metrics_recorder_new sink (Some (al_dimensions a)) = Inr r"
    using that normalize_pairs_messages [OF dims]
    by (simp add: metrics_recorder_new_def normalize_dimensions_def b) (metis metrics_recorder.select_convs(2) sum.inject(2))
  ultimately show ?thesis by blast
qed

definition backlog_alarm :: alarm_definition where
  "backlog_alarm = \<lparr>al_name = '' outbox-backlog '', al_metric_name = ''OutboxPendingCount'', al_threshold = Some 100,
     al_comparison_operator = GREATER_THAN, al_namespace = ''RealStock/Outbox'', al_statistic = MAXIMUM_OF, al_period_seconds = 60,
     al_evaluation_periods = 3, al_datapoints_to_alarm = Some 2, al_dimensions = [(''Service '', ''outbox''), (''Environment'', '' prod'')],
     al_unit = Some COUNT, al_treat_missing_data = NOT_BREACHING, al_alarm_actions = [], al_description = Some '' '', al_actions_enabled = True\<rparr>"

theorem alarm_sound_witness:
  "\<exists>b. alarm_new backlog_alarm = Inr b \<and> alarm_new b = Inr b \<and> al_description b = None
    \<and> al_dimensions b = [(''Service'', ''outbox''), (''Environment'', ''prod'')]"
proof -
  have "(case alarm_new backlog_alarm of Inl _ \<Rightarrow> False
      | Inr b \<Rightarrow> al_description b = None \<and> al_dimensions b = [(''Service'', ''outbox''), (''Environment'', ''prod'')])" by code_simp
  then obtain b where b: "alarm_new backlog_alarm = Inr b" "al_description b = None" "al_dimensions b = [(''Service'', ''outbox''), (''Environment'', ''prod'')]"
    by (cases "alarm_new backlog_alarm") auto
  then show ?thesis using alarm_sound [OF b(1)] by blast
qed

end
