(* ===== verification/Request_Logging.thy ===== *)
theory Request_Logging
  imports Metrics Identifiers Market_Domain
begin

text \<open>
  Logs and traces (\<open>context.py\<close>, \<open>logging.py\<close>, \<open>propagation.py\<close> and \<open>tracing.py\<close> of \<open>libs/observability\<close>):
  the identifiers bound to a block of code, the fields of a line of the log, the headers of a trace that
  travel in an event. OpenTelemetry is a parameter; the text of a line is what \<open>json.dumps\<close> makes of the
  fields.
\<close>

section \<open>The context\<close>

record observability_context =
  oc_correlation_id :: "string option"
  oc_event_id :: "string option"
  oc_causation_id :: "string option"

text \<open>The state of a program with its context variables; \<open>reset\<close> puts back what \<open>set\<close> found.\<close>

type_synonym ('s, 'a) context_prog = "(observability_context \<times> 's, 'a) prog"

definition get_observability_context :: "('s, observability_context) context_prog" where
  "get_observability_context = (\<lambda>(c, s). (Inr c, (c, s)))"

definition bind_observability_context ::
  "string option \<Rightarrow> string option \<Rightarrow> string option \<Rightarrow> ('s, 'a) context_prog \<Rightarrow> ('s, 'a) context_prog" where
  "bind_observability_context correlation event causation body = (\<lambda>(c, s).
     let correlation_token = oc_correlation_id c; c1 = c\<lparr>oc_correlation_id := correlation\<rparr>;
         event_token = oc_event_id c1; c2 = c1\<lparr>oc_event_id := event\<rparr>;
         causation_token = oc_causation_id c2; c3 = c2\<lparr>oc_causation_id := causation\<rparr>
     in case body (c3, s) of (x, (c4, s')) \<Rightarrow>
       let c5 = c4\<lparr>oc_causation_id := causation_token\<rparr>; c6 = c5\<lparr>oc_event_id := event_token\<rparr>
       in (x, (c6\<lparr>oc_correlation_id := correlation_token\<rparr>, s')))"

section \<open>Tracing\<close>

record span_context =
  sx_trace_id :: nat
  sx_span_id :: nat
  sx_is_valid :: bool

definition get_trace_identifiers :: "span_context \<Rightarrow> (string \<times> string) option" where
  "get_trace_identifiers sx = (if \<not> sx_is_valid sx then None else Some (hex 32 (sx_trace_id sx), hex 16 (sx_span_id sx)))"

definition validate_sample_ratio :: "rat option \<Rightarrow> rat result" where
  "validate_sample_ratio ratio = (case ratio of
     None \<Rightarrow> Inl (ValueError ''sample_ratio must be finite'')
   | Some x \<Rightarrow> if 0 \<le> x \<and> x \<le> 1 then Inr x else Inl (ValueError ''sample_ratio must be between 0 and 1''))"

record tracing_runtime =
  tr_service_name :: string
  tr_environment :: string
  tr_instrumentation_name :: string
  tr_sample_ratio :: rat
  tr_endpoint :: "string option"

text \<open>\<open>exporter\<close> says whether the caller brings one; otherwise the spans go to the endpoint.\<close>

definition create_tracing_runtime :: "string \<Rightarrow> string \<Rightarrow> bool \<Rightarrow> string \<Rightarrow> rat option \<Rightarrow> string \<Rightarrow> tracing_runtime result" where
  "create_tracing_runtime service_name environment exporter endpoint ratio instrumentation =
     try_then (required_value ''service_name must not be empty'' service_name) (\<lambda>service.
     try_then (required_value ''environment must not be empty'' environment) (\<lambda>env.
     try_then (required_value ''instrumentation_name must not be empty'' instrumentation) (\<lambda>instr.
     try_then (validate_sample_ratio ratio) (\<lambda>r.
     try_then (if exporter then Inr None else map_sum id Some (required_value ''otlp_endpoint must not be empty'' endpoint)) (\<lambda>e.
     Inr \<lparr>tr_service_name = service, tr_environment = env, tr_instrumentation_name = instr, tr_sample_ratio = r, tr_endpoint = e\<rparr>)))))"

definition force_flush :: "(int \<Rightarrow> ('s, bool) prog) \<Rightarrow> int \<Rightarrow> ('s, bool) prog" where
  "force_flush provider timeout_millis =
     (if timeout_millis \<le> 0 then raise (ValueError ''timeout_millis must be positive'') else provider timeout_millis)"

section \<open>Lines of the log\<close>

record log_formatter =
  lf_service_name :: string
  lf_environment :: string

definition json_formatter_new :: "string \<Rightarrow> string \<Rightarrow> log_formatter result" where
  "json_formatter_new service environment =
     (if strip service = [] then Inl (ValueError ''service_name must not be empty'')
      else if strip environment = [] then Inl (ValueError ''environment must not be empty'')
      else Inr \<lparr>lf_service_name = strip service, lf_environment = strip environment\<rparr>)"

definition reserved_log_fields :: "string list" where
  "reserved_log_fields = [''timestamp'', ''level'', ''logger'', ''service'', ''environment'', ''message'',
     ''correlation_id'', ''event_id'', ''causation_id'', ''trace_id'', ''span_id'', ''exception'']"

record log_record =
  lr_levelno :: int
  lr_levelname :: string
  lr_name :: string
  lr_message :: string
  lr_exception :: "string option"
  lr_structured_fields :: "(string \<times> jvalue) list"

definition put_if :: "string \<Rightarrow> string option \<Rightarrow> jobject \<Rightarrow> jobject" where
  "put_if k v d = (case v of None \<Rightarrow> d | Some t \<Rightarrow> dict_put k (JvText t) d)"

definition put_extra :: "string \<times> jvalue \<Rightarrow> jobject \<Rightarrow> jobject" where
  "put_extra kv d = (if fst kv \<in> set reserved_log_fields then d else dict_put (fst kv) (snd kv) d)"

definition format_line :: "log_formatter \<Rightarrow> string \<Rightarrow> span_context \<Rightarrow> observability_context \<Rightarrow> log_record \<Rightarrow> jobject" where
  "format_line f now sx c r =
     (let ids = get_trace_identifiers sx;
          d0 = [(''timestamp'', JvText now), (''level'', JvText (lr_levelname r)), (''logger'', JvText (lr_name r)),
                (''service'', JvText (lf_service_name f)), (''environment'', JvText (lf_environment f)), (''message'', JvText (lr_message r))];
          d1 = put_if ''causation_id'' (oc_causation_id c) (put_if ''event_id'' (oc_event_id c) (put_if ''correlation_id'' (oc_correlation_id c) d0));
          d2 = put_if ''span_id'' (map_option snd ids) (put_if ''trace_id'' (map_option fst ids) d1);
          d3 = put_if ''exception'' (lr_exception r) d2
      in fold put_extra (lr_structured_fields r) d3)"

text \<open>
  A call of the logger in a program whose lines go to the end of a list: a record below the level that
  \<open>configure_json_logging\<close> sets is dropped; \<open>now\<close> and the span are read when it is formatted.
\<close>

definition emit_record :: "int \<Rightarrow> log_formatter \<Rightarrow> string \<Rightarrow> span_context \<Rightarrow> log_record \<Rightarrow> (jobject list, unit) context_prog" where
  "emit_record threshold f now sx r = (if lr_levelno r < threshold then ret () else bind get_observability_context (\<lambda>c. update_state (\<lambda>(c', ls). (c', ls @ [format_line f now sx c r]))))"

definition log_event ::
  "int \<Rightarrow> log_formatter \<Rightarrow> string \<Rightarrow> span_context \<Rightarrow> string \<Rightarrow> int \<Rightarrow> string \<Rightarrow> string \<Rightarrow> jobject \<Rightarrow> (jobject list, unit) context_prog" where
  "log_event threshold f now sx logger_name level level_name message extra =
     emit_record threshold f now sx \<lparr>lr_levelno = level, lr_levelname = level_name, lr_name = logger_name, lr_message = message,
       lr_exception = None, lr_structured_fields = extra\<rparr>"

section \<open>Headers of a trace\<close>

definition python_str :: "(jvalue \<Rightarrow> string) \<Rightarrow> jvalue \<Rightarrow> string" where
  "python_str shown v = (case v of JvText t \<Rightarrow> t | _ \<Rightarrow> shown v)"

definition supported_trace_headers :: "string list" where
  "supported_trace_headers = [''traceparent'', ''tracestate'']"

fun normalize_headers :: "(jvalue \<Rightarrow> string) \<Rightarrow> jobject \<Rightarrow> dict \<Rightarrow> dict" where
  "normalize_headers shown [] d = d"
| "normalize_headers shown ((raw_key, raw_value) # kvs) d =
     (let key = lower (strip raw_key) in
      if key \<notin> set supported_trace_headers \<or> raw_value = JvNull \<or> strip (python_str shown raw_value) = [] then normalize_headers shown kvs d
      else normalize_headers shown kvs (dict_put key (strip (python_str shown raw_value)) d))"

definition normalize_carrier :: "(jvalue \<Rightarrow> string) \<Rightarrow> jobject option \<Rightarrow> dict" where
  "normalize_carrier shown carrier = (case carrier of None \<Rightarrow> [] | Some kvs \<Rightarrow> normalize_headers shown kvs [])"

abbreviation text_carrier :: "dict \<Rightarrow> jobject" where
  "text_carrier d \<equiv> map (\<lambda>(k, v). (k, JvText v)) d"

text \<open>\<open>injected\<close> is what the propagator writes into the empty carrier; \<open>extract\<close> is the propagator's.\<close>

definition inject_trace_context :: "(jvalue \<Rightarrow> string) \<Rightarrow> dict \<Rightarrow> dict" where
  "inject_trace_context shown injected = normalize_carrier shown (Some (text_carrier injected))"

definition extract_trace_context :: "(jvalue \<Rightarrow> string) \<Rightarrow> (dict \<Rightarrow> 'c) \<Rightarrow> dict option \<Rightarrow> 'c" where
  "extract_trace_context shown extract carrier = extract (normalize_carrier shown (map_option text_carrier carrier))"

end
