(* ===== verification/Log_Properties.thy ===== *)
theory Log_Properties
  imports Request_Logging Risk_Engine
begin

text \<open>
  The lines of the log carry the identifiers of the block they are written in and no caller can forge
  them; the headers of a trace survive the way through an event.
\<close>

section \<open>Blocks and lines\<close>

lemma context_restored:
  "bind_observability_context a b c body (c0, s)
    = (fst (body (\<lparr>oc_correlation_id = a, oc_event_id = b, oc_causation_id = c\<rparr>, s)),
       (c0, snd (snd (body (\<lparr>oc_correlation_id = a, oc_event_id = b, oc_causation_id = c\<rparr>, s)))))"
proof -
  obtain d s' x where b: "body (\<lparr>oc_correlation_id = a, oc_event_id = b, oc_causation_id = c\<rparr>, s) = (x, (d, s'))"
    by (metis surj_pair)
  have u: "c0\<lparr>oc_correlation_id := a, oc_event_id := b, oc_causation_id := c\<rparr> = \<lparr>oc_correlation_id = a, oc_event_id = b, oc_causation_id = c\<rparr>"
    by (cases c0) simp
  have b': "body (c0\<lparr>oc_correlation_id := a, oc_event_id := b, oc_causation_id := c\<rparr>, s) = (x, (d, s'))" unfolding u by (rule b)
  have "d\<lparr>oc_causation_id := oc_causation_id c0, oc_event_id := oc_event_id c0, oc_correlation_id := oc_correlation_id c0\<rparr> = c0"
    by (cases d; cases c0) simp
  then show ?thesis by (simp add: bind_observability_context_def Let_def b b')
qed

lemma map_of_put_if: "map_of (put_if k v d) k' = (if k' = k \<and> v \<noteq> None then map_option JvText v else map_of d k')"
  by (cases v) (simp_all add: put_if_def map_of_dict_put)

lemma put_if_distinct: "distinct (map fst d) \<Longrightarrow> distinct (map fst (put_if k v d))"
  by (cases v) (simp_all add: put_if_def dict_put_distinct)

lemma put_extras_distinct: "distinct (map fst d) \<Longrightarrow> distinct (map fst (fold put_extra kvs d))"
  by (induction kvs arbitrary: d) (simp_all add: put_extra_def dict_put_distinct)

lemma map_of_put_extras:
  "distinct (map fst kvs) \<Longrightarrow> map_of (fold put_extra kvs d) k =
    (if k \<in> set reserved_log_fields \<or> map_of kvs k = None then map_of d k else map_of kvs k)"
proof (induction kvs arbitrary: d)
  case (Cons kv kvs)
  then have "map_of kvs (fst kv) = None" by (simp add: map_of_eq_None_iff)
  then show ?case using Cons by (auto simp: put_extra_def map_of_dict_put)
qed simp

definition plain_line :: "log_formatter \<Rightarrow> string \<Rightarrow> span_context \<Rightarrow> observability_context \<Rightarrow> log_record \<Rightarrow> jobject" where
  "plain_line f now sx c r = format_line f now sx c (r\<lparr>lr_structured_fields := []\<rparr>)"

lemma format_line_plain: "format_line f now sx c r = fold put_extra (lr_structured_fields r) (plain_line f now sx c r)"
  by (simp add: plain_line_def format_line_def Let_def)

lemma plain_line_fields:
  "distinct (map fst (plain_line f now sx c r))"
  "k \<notin> set reserved_log_fields \<Longrightarrow> map_of (plain_line f now sx c r) k = None"
  "map_of (plain_line f now sx c r) ''service'' = Some (JvText (lf_service_name f))"
  "map_of (plain_line f now sx c r) ''environment'' = Some (JvText (lf_environment f))"
  "map_of (plain_line f now sx c r) ''level'' = Some (JvText (lr_levelname r))"
  "map_of (plain_line f now sx c r) ''message'' = Some (JvText (lr_message r))"
  "map_of (plain_line f now sx c r) ''correlation_id'' = map_option JvText (oc_correlation_id c)"
  "map_of (plain_line f now sx c r) ''event_id'' = map_option JvText (oc_event_id c)"
  "map_of (plain_line f now sx c r) ''causation_id'' = map_option JvText (oc_causation_id c)"
  "map_of (plain_line f now sx c r) ''exception'' = map_option JvText (lr_exception r)"
  by (simp_all add: plain_line_def format_line_def Let_def map_of_put_if put_if_distinct reserved_log_fields_def option.map_comp)

lemma plain_line_ids:
  "map_of (plain_line f now sx c r) ''trace_id'' = map_option (JvText \<circ> fst) (get_trace_identifiers sx)"
  "map_of (plain_line f now sx c r) ''span_id'' = map_option (JvText \<circ> snd) (get_trace_identifiers sx)"
  by (cases "get_trace_identifiers sx"; simp add: plain_line_def format_line_def Let_def map_of_put_if)+

text \<open>
  C37. A line that is logged, at the level of the logger or above, in a block bound to identifiers carries exactly these, the service and the
  environment of the formatter, the ids of the active span, and the level, message and exception of the
  call: no field of the caller replaces or adds one of the reserved ones, every other field is in the line
  with its value, and no name is there twice. A call below the level adds no line. After the block, however it ends, the previous identifiers
  are back.
\<close>

theorem log_lines_scoped:
  assumes "json_formatter_new service environment = Inr f" "distinct (map fst (lr_structured_fields r))"
  shows "\<exists>line. bind_observability_context a b c (\<lambda>st. body (snd (emit_record threshold f now sx r st))) (c0, ls)
      = (let ls' = ls @ (if lr_levelno r < threshold then [] else [line]);
             answer = body (\<lparr>oc_correlation_id = a, oc_event_id = b, oc_causation_id = c\<rparr>, ls')
         in (fst answer, (c0, snd (snd answer))))
    \<and> distinct (map fst line)
    \<and> map_of line ''correlation_id'' = map_option JvText a \<and> map_of line ''event_id'' = map_option JvText b
    \<and> map_of line ''causation_id'' = map_option JvText c
    \<and> map_of line ''service'' = Some (JvText (strip service)) \<and> map_of line ''environment'' = Some (JvText (strip environment))
    \<and> map_of line ''level'' = Some (JvText (lr_levelname r)) \<and> map_of line ''message'' = Some (JvText (lr_message r))
    \<and> map_of line ''exception'' = map_option JvText (lr_exception r)
    \<and> map_of line ''trace_id'' = map_option (JvText \<circ> fst) (get_trace_identifiers sx)
    \<and> map_of line ''span_id'' = map_option (JvText \<circ> snd) (get_trace_identifiers sx)
    \<and> (\<forall>k. k \<notin> set reserved_log_fields \<longrightarrow> map_of line k = map_of (lr_structured_fields r) k)"
proof -
  let ?ctx = "\<lparr>oc_correlation_id = a, oc_event_id = b, oc_causation_id = c\<rparr>"
  let ?line = "format_line f now sx ?ctx r"
  have f: "lf_service_name f = strip service" "lf_environment f = strip environment"
    using assms(1) by (auto simp: json_formatter_new_def split: if_splits)
  have reserved: "map_of ?line k = map_of (plain_line f now sx ?ctx r) k" if "k \<in> set reserved_log_fields" for k
    using that assms(2) by (simp add: format_line_plain map_of_put_extras)
  have other: "map_of ?line k = map_of (lr_structured_fields r) k" if "k \<notin> set reserved_log_fields" for k
    using that assms(2) plain_line_fields(2) [OF that] by (simp add: format_line_plain map_of_put_extras)
  have logged: "snd (emit_record threshold f now sx r (?ctx, ls)) = (?ctx, ls @ (if lr_levelno r < threshold then [] else [?line]))"
    by (simp add: emit_record_def bind_run get_observability_context_def)
  have "distinct (map fst ?line)" by (simp add: format_line_plain put_extras_distinct plain_line_fields(1))
  moreover have "set [''correlation_id'', ''event_id'', ''causation_id'', ''service'', ''environment'', ''level'', ''message'', ''exception'', ''trace_id'', ''span_id'']
      \<subseteq> set reserved_log_fields" by (simp add: reserved_log_fields_def)
  ultimately show ?thesis
    by (intro exI [of _ ?line]) (simp add: context_restored logged reserved plain_line_fields plain_line_ids f other Let_def)
qed

text \<open>A caller that tries to pass another correlation.\<close>

definition forging_fields :: jobject where
  "forging_fields = [(''correlation_id'', JvText ''forged''), (''symbol'', JvText ''AAPL'')]"

theorem log_lines_scoped_witness:
  "\<exists>line. map_of line ''correlation_id'' = Some (JvText ''7f'') \<and> map_of line ''symbol'' = Some (JvText ''AAPL'')
    \<and> bind_observability_context (Some ''7f'') None None (\<lambda>st. raise (ValueError ''bad'') (snd (log_event 20 \<lparr>lf_service_name = ''api'', lf_environment = ''dev''\<rparr>
        ''now'' \<lparr>sx_trace_id = 0, sx_span_id = 0, sx_is_valid = False\<rparr> ''realstock'' 20 ''INFO'' ''order filled'' forging_fields st)) :: unit result \<times> _)
        (\<lparr>oc_correlation_id = None, oc_event_id = None, oc_causation_id = None\<rparr>, [])
      = (Inl (ValueError ''bad''), (\<lparr>oc_correlation_id = None, oc_event_id = None, oc_causation_id = None\<rparr>, [line]))"
proof -
  let ?r = "\<lparr>lr_levelno = 20, lr_levelname = ''INFO'', lr_name = ''realstock'', lr_message = ''order filled'', lr_exception = None,
    lr_structured_fields = forging_fields\<rparr>"
  have f: "json_formatter_new ''api'' ''dev'' = Inr \<lparr>lf_service_name = ''api'', lf_environment = ''dev''\<rparr>" by code_simp
  have d: "distinct (map fst (lr_structured_fields ?r))" by (simp add: forging_fields_def)
  let ?f = "\<lparr>lf_service_name = ''api'', lf_environment = ''dev''\<rparr>" and ?sx = "\<lparr>sx_trace_id = 0, sx_span_id = 0, sx_is_valid = False\<rparr>"
    and ?body = "raise (ValueError ''bad'') :: _ \<Rightarrow> unit result \<times> _"
    and ?c0 = "\<lparr>oc_correlation_id = None, oc_event_id = None, oc_causation_id = None\<rparr>"
  obtain line where l: "bind_observability_context (Some ''7f'') None None (\<lambda>st. ?body (snd (emit_record 20 ?f ''now'' ?sx ?r st))) (?c0, [])
      = (let ls' = [] @ (if lr_levelno ?r < 20 then [] else [line]);
             answer = ?body (\<lparr>oc_correlation_id = Some ''7f'', oc_event_id = None, oc_causation_id = None\<rparr>, ls')
         in (fst answer, (?c0, snd (snd answer))))"
    and c: "map_of line ''correlation_id'' = map_option JvText (Some ''7f'')"
    and o: "\<forall>k. k \<notin> set reserved_log_fields \<longrightarrow> map_of line k = map_of (lr_structured_fields ?r) k"
    using log_lines_scoped [OF f d, of "Some ''7f''" None None ?body 20 "''now''" ?sx ?c0 "[]"] by (elim exE conjE) (rule that)
  have "''symbol'' \<notin> set reserved_log_fields" by (simp add: reserved_log_fields_def)
  then have "map_of line ''symbol'' = Some (JvText ''AAPL'')" using o by (simp add: forging_fields_def)
  then show ?thesis using l c by (intro exI [of _ line]) (simp add: log_event_def Let_def)
qed

section \<open>Headers\<close>

definition header_dict :: "dict \<Rightarrow> bool" where
  "header_dict d \<longleftrightarrow> distinct (map fst d) \<and> (\<forall>(k, v) \<in> set d. k \<in> set supported_trace_headers \<and> strip v = v \<and> v \<noteq> [])"

lemma header_put: "header_dict d \<Longrightarrow> k \<in> set supported_trace_headers \<Longrightarrow> strip v \<noteq> [] \<Longrightarrow> header_dict (dict_put k (strip v) d)"
  using dict_put_set [of k "strip v" d] by (auto simp: header_dict_def dict_put_distinct)

lemma normalize_headers_dict: "header_dict d \<Longrightarrow> header_dict (normalize_headers shown kvs d)"
  by (induction shown kvs d rule: normalize_headers.induct) (auto simp: Let_def header_put)

lemma header_names: "k \<in> set supported_trace_headers \<Longrightarrow> lower k = k \<and> strip k = k"
proof -
  have "list_all (\<lambda>k. lower k = k \<and> strip k = k) supported_trace_headers" by code_simp
  then show "k \<in> set supported_trace_headers \<Longrightarrow> lower k = k \<and> strip k = k" by (simp add: list_all_iff)
qed

lemma normalize_headers_fix: "header_dict (d @ kvs) \<Longrightarrow> normalize_headers shown (text_carrier kvs) d = d @ kvs"
proof (induction kvs arbitrary: d)
  case (Cons kv kvs)
  obtain k v where kv: "kv = (k, v)" by fastforce
  have k: "k \<notin> fst ` set d" "k \<in> set supported_trace_headers" "strip v = v" "v \<noteq> []"
    using Cons.prems by (auto simp: header_dict_def kv)
  have "header_dict ((d @ [(k, v)]) @ kvs)" using Cons.prems by (simp add: kv)
  from Cons.IH [OF this] show ?case using k header_names [OF k(2)] by (simp add: kv dict_put_new python_str_def Let_def)
qed simp

lemma header_dict_trimmed: "header_dict d \<Longrightarrow> trimmed d"
  using header_names by (auto simp: header_dict_def trimmed_def trim_strip)

lemma injected_headers: "header_dict (inject_trace_context shown injected)"
  by (simp add: inject_trace_context_def normalize_carrier_def normalize_headers_dict header_dict_def [of "[]"])

text \<open>
  C36. The headers of a trace survive an event: the publisher of the risk engine puts what is injected
  into a valid event, which is sent and parsed again unchanged; the propagator of the consumer then gets
  exactly the injected headers, at most the two supported ones, without white space around them and none
  of them empty. Without headers the event is left as it was.
\<close>

theorem trace_context_carried:
  assumes "valid_envelope e" "out = prepare_outbound_event (inject_trace_context shown injected) e"
  shows "envelope_validate i c now (to_event_dict out) = Inr out
    \<and> (if inject_trace_context shown injected = [] then out = e
       else extract_trace_context shown extract (trace_context out) = extract (inject_trace_context shown injected))
    \<and> set (map fst (inject_trace_context shown injected)) \<subseteq> {''traceparent'', ''tracestate''}
    \<and> (\<forall>(k, v) \<in> set (inject_trace_context shown injected). strip v = v \<and> v \<noteq> [])"
proof -
  let ?d = "inject_trace_context shown injected"
  note h = injected_headers [of shown injected]
  have "dict_trim ?d = ?d" using trimmed_fix [of "[]" ?d] header_dict_trimmed [OF h] by (simp add: dict_trim_def)
  then have "valid_envelope out" using assms
    by (cases e) (auto simp: prepare_outbound_event_def valid_envelope_def envelope_new_def split: if_splits sum.splits)
  then have "envelope_validate i c now (to_event_dict out) = Inr out" by (rule envelope_validate_dump)
  moreover have "extract_trace_context shown extract (Some ?d) = extract ?d"
    using normalize_headers_fix [of "[]" ?d] h by (simp add: extract_trace_context_def normalize_carrier_def)
  ultimately show ?thesis using h assms(2)
    by (auto simp: prepare_outbound_event_def header_dict_def supported_trace_headers_def)
qed

theorem trace_context_carried_witness:
  "\<exists>out :: nat envelope. envelope_validate 1 2 3 (to_event_dict out) = Inr out \<and> extract_trace_context (\<lambda>_. []) id (trace_context out) = [(''traceparent'', ''00-1'')]"
proof -
  have i: "inject_trace_context (\<lambda>_. []) [('' TraceParent'', ''00-1 ''), (''baggage'', ''x''), (''tracestate'', '' '')] = [(''traceparent'', ''00-1'')]"
    by code_simp
  have v: "valid_envelope sample_envelope" using envelope_new_valid [OF sample_envelope_new] by code_simp
  show ?thesis using trace_context_carried [OF v refl, of 1 2 3 "\<lambda>_. []" "[('' TraceParent'', ''00-1 ''), (''baggage'', ''x''), (''tracestate'', '' '')]" id]
    unfolding i
    by (intro exI [of _ "prepare_outbound_event [(''traceparent'', ''00-1'')] sample_envelope"]) (auto simp: prepare_outbound_event_def)
qed

end
