(* ===== verification/API_Wiring.thy ===== *)
theory API_Wiring
  imports Credential_Properties Quote_Cache
begin

text \<open>
  How the API is put together (\<open>dependencies.py\<close>, \<open>main.py\<close> and \<open>routes/health.py\<close> of \<open>services/api\<close>, and
  \<open>libs/aws\<close>): which source of prices a service gets from the settings, when its connection is closed, how
  the clients of AWS are made, which origins may call, and the probe of readiness.
\<close>

section \<open>Clients of AWS\<close>

record aws_session =
  as_static_credentials :: "(string \<times> string) option"
  as_region_name :: string

definition get_aws_session :: "settings \<Rightarrow> aws_session" where
  "get_aws_session s =
     \<lparr>as_static_credentials = (if use_localstack s then Some (''test'', ''test'') else None), as_region_name = aws_region s\<rparr>"

record aws_client =
  ac_session :: aws_session
  ac_service_name :: string
  ac_region_name :: string
  ac_endpoint_url :: "string option"

definition create_client :: "settings \<Rightarrow> string \<Rightarrow> aws_client" where
  "create_client s service_name = \<lparr>ac_session = get_aws_session s, ac_service_name = service_name, ac_region_name = aws_region s,
     ac_endpoint_url = (if use_localstack s then aws_endpoint_url s else None)\<rparr>"

section \<open>Origins\<close>

definition cors_allowed_origins :: "string option \<Rightarrow> string list" where
  "cors_allowed_origins configured =
     map strip (filter (\<lambda>origin. strip origin \<noteq> []) (split_commas (case configured of
       None \<Rightarrow> ''http://127.0.0.1:5173,http://localhost:5173'' | Some raw \<Rightarrow> raw)))"

section \<open>Sources of prices\<close>

datatype trading_quotes = CachedTradingQuotes quote_cache | AlpacaTradingQuotes quote_cache alpaca_provider

definition environ_get :: "(string \<Rightarrow> string option) \<Rightarrow> string \<Rightarrow> string \<Rightarrow> string" where
  "environ_get environ name dflt = (case environ name of None \<Rightarrow> dflt | Some v \<Rightarrow> v)"

text \<open>
  \<open>float_of_text\<close> converts a text to a float. The address of the service is not modelled: the HTTP client
  is a parameter of the provider.
\<close>

definition trading_write_quotes :: "(string \<Rightarrow> string option) \<Rightarrow> (string \<Rightarrow> rat result) \<Rightarrow> trading_quotes result" where
  "trading_write_quotes environ float_of_text =
     try_then (quote_cache_new 30) (\<lambda>cache.
       let key_id = strip (environ_get environ ''ALPACA_API_KEY_ID'' []);
           secret = strip (environ_get environ ''ALPACA_API_SECRET_KEY'' [])
       in if key_id \<noteq> [] \<and> secret \<noteq> []
          then try_then (float_of_text (environ_get environ ''ALPACA_QUOTE_TIMEOUT_SECONDS'' ''5'')) (\<lambda>timeout.
               try_then (alpaca_new key_id secret (environ_get environ ''ALPACA_DATA_FEED'' ''iex'') timeout US) (\<lambda>p.
               Inr (AlpacaTradingQuotes cache p)))
          else Inr (CachedTradingQuotes cache))"

datatype price_choice = CachedPrices quote_cache | BatchPrices twelve_data snapshot_cache

definition batch_prices :: "settings \<Rightarrow> price_choice result" where
  "batch_prices s = (case twelve_data_api_key s of
     None \<Rightarrow> Inl (HTTPException 503 ''Twelve Data API key is not configured'')
   | Some key \<Rightarrow>
       try_then (twelve_data_new key ''https://api.twelvedata.com'' 10) (\<lambda>provider.
       try_then (snapshot_cache_new (market_quote_cache_ttl_seconds s) (market_quote_stale_ttl_seconds s)) (\<lambda>cache.
       Inr (BatchPrices provider cache))))"

definition trading_portfolio_prices :: "settings \<Rightarrow> price_choice result" where
  "trading_portfolio_prices s =
     (if is_local s \<or> market_data_provider s \<noteq> TWELVE_DATA then map_sum id CachedPrices (quote_cache_new 30) else batch_prices s)"

definition portfolio_valuation_prices :: "settings \<Rightarrow> price_choice result" where
  "portfolio_valuation_prices s =
     (if market_data_provider s \<noteq> TWELVE_DATA then map_sum id CachedPrices (quote_cache_new 30) else batch_prices s)"

text \<open>The dependency around a request: \<open>try: yield service\<close>, \<open>finally: provider.close()\<close>.\<close>

definition with_prices :: "(twelve_data \<Rightarrow> 's \<Rightarrow> 's) \<Rightarrow> price_choice result \<Rightarrow> (price_choice \<Rightarrow> ('s, 'a) prog) \<Rightarrow> ('s, 'a) prog" where
  "with_prices close choice request = (\<lambda>s. case choice of
     Inl e \<Rightarrow> (Inl e, s)
   | Inr c \<Rightarrow> (case c of
       CachedPrices _ \<Rightarrow> request c s
     | BatchPrices provider _ \<Rightarrow> (case request c s of (x, s') \<Rightarrow> (x, close provider s'))))"

section \<open>Health\<close>

definition health :: "(string \<times> string) list" where
  "health = [(''status'', ''ok'')]"

text \<open>The five calls, each with the construction of its client; an answer of AWS is a JSON value.\<close>

record 's health_probes =
  hp_select_one :: "('s, int) prog"
  hp_redis_ping :: "('s, bool) prog"
  hp_caller_identity :: "('s, jvalue) prog"
  hp_list_buckets :: "('s, jvalue) prog"
  hp_list_tables :: "('s, jvalue) prog"

definition attribute_get :: "jvalue \<Rightarrow> string \<Rightarrow> jvalue \<Rightarrow> jvalue result" where
  "attribute_get v k dflt = (case v of
     JvObject fs \<Rightarrow> Inr (case map_of fs k of None \<Rightarrow> dflt | Some x \<Rightarrow> x)
   | _ \<Rightarrow> Inl (TypeError ''no attribute get''))"

definition is_two_hundred :: "jvalue \<Rightarrow> bool" where
  "is_two_hundred v = (case v of JvInt n \<Rightarrow> n = 200 | JvFloat (Some x) \<Rightarrow> x = 200 | _ \<Rightarrow> False)"

definition aws_ok :: "jvalue \<Rightarrow> bool result" where
  "aws_ok response =
     try_then (attribute_get response ''ResponseMetadata'' (JvObject [])) (\<lambda>metadata.
     try_then (attribute_get metadata ''HTTPStatusCode'' (JvInt 0)) (\<lambda>code. Inr (is_two_hundred code)))"

definition dependency_status :: "('s, bool) prog \<Rightarrow> 's \<Rightarrow> string \<times> 's" where
  "dependency_status probe s = (case probe s of
     (Inl e, s') \<Rightarrow> (''error'', s') | (Inr ok, s') \<Rightarrow> (if ok then ''ok'' else ''error'', s'))"

fun check_dependencies :: "(string \<times> ('s, bool) prog) list \<Rightarrow> 's \<Rightarrow> (string \<times> string) list \<times> 's" where
  "check_dependencies [] s = ([], s)"
| "check_dependencies ((name, probe) # ps) s = (case dependency_status probe s of (st, s1) \<Rightarrow>
     (case check_dependencies ps s1 of (rest, s2) \<Rightarrow> ((name, st) # rest, s2)))"

record readiness_answer =
  rd_status_code :: int
  rd_status :: string
  rd_dependencies :: "(string \<times> string) list"

definition probes :: "'s health_probes \<Rightarrow> (string \<times> ('s, bool) prog) list" where
  "probes h =
     [(''postgresql'', bind (hp_select_one h) (\<lambda>n. ret (n = 1))),
      (''redis'', hp_redis_ping h),
      (''localstack'', bind (hp_caller_identity h) (\<lambda>r. of_result (aws_ok r))),
      (''s3'', bind (hp_list_buckets h) (\<lambda>r. of_result (aws_ok r))),
      (''dynamodb'', bind (hp_list_tables h) (\<lambda>r. of_result (aws_ok r)))]"

definition readiness :: "'s health_probes \<Rightarrow> 's \<Rightarrow> readiness_answer \<times> 's" where
  "readiness h s = (case check_dependencies (probes h) s of (deps, s') \<Rightarrow>
     let ready = list_all (\<lambda>d. snd d = ''ok'') deps
     in (\<lparr>rd_status_code = (if ready then 200 else 503), rd_status = (if ready then ''ready'' else ''not_ready''),
          rd_dependencies = deps\<rparr>, s'))"

section \<open>What the settings guarantee\<close>

lemma accepted_settings_facts:
  assumes "settings_new s = Inr s'"
  shows "0 < market_quote_cache_ttl_seconds s' \<and> market_quote_cache_ttl_seconds s' < market_quote_stale_ttl_seconds s'
    \<and> (market_data_provider s' = TWELVE_DATA \<longrightarrow> \<not> blank (twelve_data_api_key s'))
    \<and> (use_localstack s' \<longleftrightarrow> is_local s') \<and> (aws_endpoint_url s' = None \<or> aws_endpoint_url s' = Some [] \<longleftrightarrow> \<not> is_local s')"
proof -
  note v = assms [unfolded settings_new_Inr]
  have "s' = s \<or> s' = s\<lparr>database_url := structured_url s\<rparr>" using v validated_database by blast
  then have "market_fields_ok s'" using v by (auto simp: market_fields_ok_def)
  then show ?thesis using v
    by (auto simp: market_fields_ok_def validate_market_cache_configuration_def validate_market_data_configuration_def
        validate_environment_def use_localstack_def is_local_def split: if_splits)
qed

lemma batch_prices_built:
  assumes "settings_new s = Inr s'" "market_data_provider s' = TWELVE_DATA"
  obtains p c where "batch_prices s' = Inr (BatchPrices p c)" "td_api_key p = strip (the (twelve_data_api_key s'))" "td_api_key p \<noteq> []"
    "sc_fresh_ttl_seconds c = market_quote_cache_ttl_seconds s'" "sc_stale_ttl_seconds c = market_quote_stale_ttl_seconds s'"
proof -
  note f = accepted_settings_facts [OF assms(1)]
  obtain k where k: "twelve_data_api_key s' = Some k" "strip k \<noteq> []"
    using f assms(2) by (auto simp: blank_def split: option.splits)
  have url: "rstrip_slash (strip ''https://api.twelvedata.com'') \<noteq> []" by code_simp
  have "batch_prices s' = Inr (BatchPrices
      \<lparr>td_api_key = strip k, td_base_url = rstrip_slash (strip ''https://api.twelvedata.com''), td_timeout_seconds = 10\<rparr>
      \<lparr>sc_fresh_ttl_seconds = market_quote_cache_ttl_seconds s', sc_stale_ttl_seconds = market_quote_stale_ttl_seconds s'\<rparr>)"
    using f k url by (simp add: batch_prices_def try_then_def twelve_data_new_def snapshot_cache_new_def)
  then show ?thesis by (rule that) (use k in simp_all)
qed

text \<open>
  With accepted settings every request of the two valuation services gets a source of prices: Twelve
  Data when it is selected (for paper trading outside the local environment only), with the configured
  key and times of the cache, and the cache of quotes otherwise. The request returns or raises what it
  does with that source, and the connection of Twelve Data is closed once after it on both paths. The
  clients of AWS go to LocalStack, with its credentials, exactly in the local environment.
\<close>

theorem api_services_wired:
  assumes "settings_new s = Inr s'"
  shows "\<exists>trading valuation. trading_portfolio_prices s' = Inr trading \<and> portfolio_valuation_prices s' = Inr valuation
    \<and> (case trading of BatchPrices p c \<Rightarrow> market_data_provider s' = TWELVE_DATA \<and> \<not> is_local s' | CachedPrices c \<Rightarrow> market_data_provider s' = MOCK_DATA \<or> is_local s')
    \<and> (case valuation of BatchPrices p c \<Rightarrow> market_data_provider s' = TWELVE_DATA | CachedPrices c \<Rightarrow> market_data_provider s' = MOCK_DATA)
    \<and> (\<forall>choice \<in> {trading, valuation}.
        (case choice of
           CachedPrices c \<Rightarrow> qc_ttl_seconds c = 30 \<and> with_prices close (Inr choice) request w = request choice w
         | BatchPrices p c \<Rightarrow> td_api_key p = strip (the (twelve_data_api_key s')) \<and> td_api_key p \<noteq> []
             \<and> sc_fresh_ttl_seconds c = market_quote_cache_ttl_seconds s' \<and> sc_stale_ttl_seconds c = market_quote_stale_ttl_seconds s'
             \<and> with_prices close (Inr choice) request w = (fst (request choice w), close p (snd (request choice w)))))
    \<and> (let c = create_client s' service_name in
        if is_local s' then ac_endpoint_url c = aws_endpoint_url s' \<and> as_static_credentials (ac_session c) = Some (''test'', ''test'')
        else ac_endpoint_url c = None \<and> as_static_credentials (ac_session c) = None)"
proof -
  note f = accepted_settings_facts [OF assms]
  have cached: "quote_cache_new 30 = Inr \<lparr>qc_ttl_seconds = 30\<rparr>" by (simp add: quote_cache_new_def)
  have aws: "let c = create_client s' service_name in
        if is_local s' then ac_endpoint_url c = aws_endpoint_url s' \<and> as_static_credentials (ac_session c) = Some (''test'', ''test'')
        else ac_endpoint_url c = None \<and> as_static_credentials (ac_session c) = None"
    using f by (simp add: create_client_def get_aws_session_def)
  show ?thesis
  proof (cases "market_data_provider s' = TWELVE_DATA")
    case True
    from batch_prices_built [OF assms this] obtain p c where b: "batch_prices s' = Inr (BatchPrices p c)"
      "td_api_key p = strip (the (twelve_data_api_key s'))" "td_api_key p \<noteq> []"
      "sc_fresh_ttl_seconds c = market_quote_cache_ttl_seconds s'" "sc_stale_ttl_seconds c = market_quote_stale_ttl_seconds s'"
      by metis
    show ?thesis using True b cached aws
      by (cases "is_local s'") (simp_all add: trading_portfolio_prices_def portfolio_valuation_prices_def with_prices_def case_prod_unfold)
  next
    case False
    then have "market_data_provider s' = MOCK_DATA" by (cases "market_data_provider s'") auto
    then show ?thesis using cached aws
      by (simp add: trading_portfolio_prices_def portfolio_valuation_prices_def with_prices_def)
  qed
qed

theorem api_services_wired_witness:
  "trading_portfolio_prices (local_settings\<lparr>database_url := structured_url local_settings\<rparr>) = Inr (CachedPrices \<lparr>qc_ttl_seconds = 30\<rparr>)
    \<and> ac_endpoint_url (create_client (local_settings\<lparr>database_url := structured_url local_settings\<rparr>) ''s3'') = Some ''http://localstack:4566''"
proof -
  let ?s = "local_settings\<lparr>database_url := structured_url local_settings\<rparr>"
  have l: "is_local ?s" "market_data_provider ?s = MOCK_DATA" "aws_endpoint_url ?s = Some ''http://localstack:4566''"
    by (simp_all add: is_local_def local_settings_def default_settings_def)
  have "trading_portfolio_prices ?s = Inr (CachedPrices \<lparr>qc_ttl_seconds = 30\<rparr>)"
    using l by (simp add: trading_portfolio_prices_def quote_cache_new_def)
  moreover have "let c = create_client ?s ''s3'' in ac_endpoint_url c = aws_endpoint_url ?s"
    using api_services_wired [OF local_settings_accepted, of "\<lambda>_ w. w" "\<lambda>_. ret ()" 0 "''s3''"] l(1) unfolding Let_def by (elim exE conjE) simp
  ultimately show ?thesis using l(3) by (simp add: Let_def)
qed

section \<open>Readiness\<close>

lemma check_names: "map fst (fst (check_dependencies ps s)) = map fst ps"
proof (induction ps s rule: check_dependencies.induct)
  case (2 name probe ps s)
  obtain st s1 where d: "dependency_status probe s = (st, s1)" by fastforce
  show ?case using 2 [OF d [symmetric]] by (simp add: d case_prod_unfold)
qed simp

lemma check_statuses: "(n, st) \<in> set (fst (check_dependencies ps s)) \<Longrightarrow> st \<in> {''ok'', ''error''}"
  by (induction ps s rule: check_dependencies.induct) (auto simp: dependency_status_def split: prod.splits sum.splits if_splits)

fun after_probes :: "(string \<times> ('s, bool) prog) list \<Rightarrow> 's \<Rightarrow> 's" where
  "after_probes [] s = s"
| "after_probes ((_, probe) # ps) s = after_probes ps (snd (probe s))"

fun all_answer_ok :: "(string \<times> ('s, bool) prog) list \<Rightarrow> 's \<Rightarrow> bool" where
  "all_answer_ok [] s = True"
| "all_answer_ok ((_, probe) # ps) s = (fst (probe s) = Inr True \<and> all_answer_ok ps (snd (probe s)))"

lemma check_runs:
  "snd (check_dependencies ps s) = after_probes ps s \<and> (list_all (\<lambda>d. snd d = ''ok'') (fst (check_dependencies ps s)) \<longleftrightarrow> all_answer_ok ps s)"
  by (induction ps s rule: check_dependencies.induct) (auto simp: dependency_status_def split: prod.splits sum.splits if_splits)

text \<open>
  The readiness answers whatever fails: all five dependencies are probed, in their order, and reported
  as \<open>ok\<close> or \<open>error\<close>; it answers 200 and \<open>ready\<close> exactly when each of the five calls returned and
  answered well (a row with 1, a ping, the status code 200), and 503 and \<open>not_ready\<close> otherwise.
\<close>

theorem readiness_honest:
  "\<exists>answer. readiness h s = (answer, after_probes (probes h) s)
    \<and> map fst (rd_dependencies answer) = [''postgresql'', ''redis'', ''localstack'', ''s3'', ''dynamodb'']
    \<and> (\<forall>d \<in> set (rd_dependencies answer). snd d = ''ok'' \<or> snd d = ''error'')
    \<and> (rd_status_code answer = 200 \<longleftrightarrow> all_answer_ok (probes h) s) \<and> (rd_status_code answer = 503 \<longleftrightarrow> \<not> all_answer_ok (probes h) s)
    \<and> (rd_status answer = ''ready'' \<longleftrightarrow> rd_status_code answer = 200)"
proof -
  obtain deps s' where c: "check_dependencies (probes h) s = (deps, s')" by fastforce
  have "s' = after_probes (probes h) s" "list_all (\<lambda>d. snd d = ''ok'') deps \<longleftrightarrow> all_answer_ok (probes h) s"
    using check_runs [of "probes h" s] by (simp_all add: c)
  moreover have "map fst deps = [''postgresql'', ''redis'', ''localstack'', ''s3'', ''dynamodb'']"
    using check_names [of "probes h" s, unfolded c] by (simp add: probes_def)
  moreover have "\<forall>d \<in> set deps. snd d = ''ok'' \<or> snd d = ''error''"
    using check_statuses [of _ _ "probes h" s] by (fastforce simp: c)
  ultimately show ?thesis by (simp add: readiness_def c Let_def)
qed

text \<open>S3 cannot be reached.\<close>

definition degraded_probes :: "nat health_probes" where
  "degraded_probes = \<lparr>hp_select_one = ret 1, hp_redis_ping = ret True,
      hp_caller_identity = ret (JvObject [(''ResponseMetadata'', JvObject [(''HTTPStatusCode'', JvInt 200)])]),
      hp_list_buckets = raise (ExternalError ''EndpointConnectionError''), hp_list_tables = ret (JvArray [])\<rparr>"

theorem readiness_honest_witness: "\<exists>answer. readiness degraded_probes 0 = (answer, 0) \<and> rd_status_code answer = 503"
proof -
  have "\<not> all_answer_ok (probes degraded_probes) 0" "after_probes (probes degraded_probes) 0 = 0"
    by (simp_all add: probes_def degraded_probes_def bind_run)
  then show ?thesis using readiness_honest [of degraded_probes 0] by auto
qed

end
