(* ===== verification/Order_Worker.thy ===== *)
theory Order_Worker
  imports Ledger_Properties API_Wiring
begin

text \<open>
  The process of the pending orders (\<open>pending_order_worker.py\<close> and \<open>scripts/trading\<close>): the source of its
  quotes, its endless loop, and the scripts that run it once and seed a quote. What happens in a cycle
  (the server's choices, the other transactions while it sleeps, an interrupt) is a function of its number.
\<close>

section \<open>The source of quotes\<close>

definition alpaca_trading_quotes :: "(string \<Rightarrow> string option) \<Rightarrow> (string \<Rightarrow> rat result) \<Rightarrow> string \<Rightarrow> string \<Rightarrow> trading_quotes result" where
  "alpaca_trading_quotes environ parse_float key_id secret =
     try_then (quote_cache_new 30) (\<lambda>cache.
     try_then (parse_float (environ_get environ ''ALPACA_QUOTE_TIMEOUT_SECONDS'' ''5'')) (\<lambda>timeout.
     try_then (alpaca_new key_id secret (environ_get environ ''ALPACA_DATA_FEED'' ''iex'') timeout US) (\<lambda>p.
     Inr (AlpacaTradingQuotes cache p))))"

definition build_quote_provider :: "(string \<Rightarrow> string option) \<Rightarrow> (string \<Rightarrow> rat result) \<Rightarrow> trading_quotes result" where
  "build_quote_provider environ parse_float =
     (let key_id = strip (environ_get environ ''ALPACA_API_KEY_ID'' []);
          secret = strip (environ_get environ ''ALPACA_API_SECRET_KEY'' [])
      in if (key_id \<noteq> []) \<noteq> (secret \<noteq> [])
         then Inl (RuntimeError ''ALPACA_API_KEY_ID and ALPACA_API_SECRET_KEY must be configured together.'')
         else if key_id \<noteq> [] \<and> secret \<noteq> [] then alpaca_trading_quotes environ parse_float key_id secret
         else map_sum id CachedTradingQuotes (quote_cache_new 30))"

section \<open>The loop\<close>

text \<open>
  How the loop is stopped in a cycle: by a \<open>KeyboardInterrupt\<close> in the pass, when \<open>run_once\<close> has dealt with that many of its
  orders and the one in progress, if any, is rolled back; by one in the sleep; or by a sleep that raises, as
  \<open>time.sleep\<close> does for a wait it cannot represent.
\<close>

datatype cycle_stop = InPass nat | InSleep | SleepRaises error

record cycle_io =
  cy_discovery_error :: "nat \<Rightarrow> error option"
  cy_db :: "nat \<Rightarrow> db_env"
  cy_provider :: "nat \<Rightarrow> quote_provider"
  cy_pick :: "nat \<Rightarrow> uuid list \<Rightarrow> uuid list"
  cy_fresh :: "nat \<Rightarrow> nat \<Rightarrow> uuid"
  cy_stop :: "nat \<Rightarrow> cycle_stop option"
  cy_sleep :: "nat \<Rightarrow> tables \<Rightarrow> tables"

text \<open>An interrupt leaves \<open>run_once\<close> without a result: what it did to the tables is all there is of the pass.\<close>

definition interrupted_pass :: "cycle_io \<Rightarrow> int \<Rightarrow> nat \<Rightarrow> nat \<Rightarrow> unit_of_work \<Rightarrow> unit_of_work" where
  "interrupted_pass io batch_size n k u =
     (let order_ids = take k (discover_pending_order_ids (cy_pick io n) batch_size (db u))
      in snd (process_pending (process_limit_order (cy_db io n) (cy_provider io n)) (cy_fresh io n) 0 order_ids
           \<lparr>discovered = int (length order_ids), wr_filled = 0, still_pending = 0, wr_failed = 0\<rparr> u))"

text \<open>One turn of the loop: the results it logs, how it ends the loop if it does, and the database then.\<close>

definition order_cycle :: "cycle_io \<Rightarrow> int \<Rightarrow> nat \<Rightarrow> unit_of_work \<Rightarrow> worker_result list \<times> int result option \<times> unit_of_work" where
  "order_cycle io batch_size n u =
     (case cy_discovery_error io n of
        Some e \<Rightarrow> ([], Some (Inl e), u)
      | None \<Rightarrow>
          let (w, u') = run_once (cy_db io n) (cy_provider io n) (cy_pick io n) batch_size (cy_fresh io n) u
          in (case cy_stop io n of
                None \<Rightarrow> ([w], None, u'\<lparr>db := cy_sleep io n (db u')\<rparr>)
              | Some (InPass k) \<Rightarrow> ([], Some (Inr 0), interrupted_pass io batch_size n k u)
              | Some InSleep \<Rightarrow> ([w], Some (Inr 0), u')
              | Some (SleepRaises e) \<Rightarrow> ([w], Some (Inl e), u')))"

text \<open>The loop has no value, \<open>None\<close>, while it runs.\<close>

partial_function (option) order_run_forever ::
  "cycle_io \<Rightarrow> int \<Rightarrow> nat \<times> worker_result list \<times> unit_of_work \<Rightarrow> (worker_result list \<times> int result \<times> unit_of_work) option" where
  "order_run_forever io batch_size st = (case st of (n, logged, u) \<Rightarrow>
     (case order_cycle io batch_size n u of (ws, ended, u') \<Rightarrow>
       (case ended of
          Some x \<Rightarrow> Some (logged @ ws, x, u')
        | None \<Rightarrow> order_run_forever io batch_size (Suc n, logged @ ws, u'))))"

definition order_worker_main ::
  "cycle_io \<Rightarrow> (string \<Rightarrow> string option) \<Rightarrow> (string \<Rightarrow> int result) \<Rightarrow> (string \<Rightarrow> rat result) \<Rightarrow> unit_of_work
   \<Rightarrow> (worker_result list \<times> int result \<times> unit_of_work) option" where
  "order_worker_main io environ parse_int parse_float u =
     (case try_then (parse_int (environ_get environ ''TRADING_ORDER_WORKER_BATCH_SIZE'' ''100'')) (\<lambda>batch_size.
           try_then (parse_float (environ_get environ ''TRADING_ORDER_WORKER_POLL_SECONDS'' ''2'')) (\<lambda>secs.
           try_then (worker_new batch_size secs) (\<lambda>_.
           try_then (build_quote_provider environ parse_float) (\<lambda>_. Inr batch_size)))) of
        Inl e \<Rightarrow> Some ([], Inl e, u)
      | Inr batch_size \<Rightarrow> order_run_forever io batch_size (0, [], u))"

section \<open>Scripts\<close>

text \<open>\<open>run_pending_order_worker.py\<close>, with the numbers of its arguments, and \<open>refresh_quotes.py\<close>.\<close>

definition pending_orders_script ::
  "cycle_io \<Rightarrow> (string \<Rightarrow> string option) \<Rightarrow> (string \<Rightarrow> rat result) \<Rightarrow> bool \<Rightarrow> int \<Rightarrow> rat \<Rightarrow> unit_of_work
   \<Rightarrow> (worker_result list \<times> int result \<times> unit_of_work) option" where
  "pending_orders_script io environ parse_float once batch_size secs u =
     (case try_then (worker_new batch_size secs) (\<lambda>_. build_quote_provider environ parse_float) of
        Inl e \<Rightarrow> Some ([], Inl e, u)
      | Inr _ \<Rightarrow>
          if \<not> once then order_run_forever io batch_size (0, [], u)
          else case cy_discovery_error io 0 of
            Some e \<Rightarrow> Some ([], Inl e, u)
          | None \<Rightarrow> (case cy_stop io 0 of
              Some (InPass k) \<Rightarrow> Some ([], Inl (ExternalError ''KeyboardInterrupt''), interrupted_pass io batch_size 0 k u)
            | _ \<Rightarrow> (case run_once (cy_db io 0) (cy_provider io 0) (cy_pick io 0) batch_size (cy_fresh io 0) u of
                (w, u') \<Rightarrow> Some ([w], Inr 0, u'))))"

fun refresh_each ::
  "alpaca_provider \<Rightarrow> quote_cache \<Rightarrow> int \<Rightarrow> (string \<Rightarrow> alpaca_answer option) \<Rightarrow> string list \<Rightarrow> (payload_dict redis, market_quote list) prog" where
  "refresh_each p c now http [] = ret []"
| "refresh_each p c now http (s # ss) =
     bind (alpaca_refresh_quote p c now http s) (\<lambda>q. bind (refresh_each p c now http ss) (\<lambda>qs. ret (q # qs)))"

definition refresh_quotes ::
  "(string \<Rightarrow> string option) \<Rightarrow> (string \<Rightarrow> rat result) \<Rightarrow> int \<Rightarrow> (string \<Rightarrow> alpaca_answer option) \<Rightarrow> string list
   \<Rightarrow> (payload_dict redis, market_quote list) prog" where
  "refresh_quotes environ parse_float now http symbols =
     (let key_id = strip (environ_get environ ''ALPACA_API_KEY_ID'' []);
          secret = strip (environ_get environ ''ALPACA_API_SECRET_KEY'' [])
      in if key_id = [] \<or> secret = [] then raise (ExternalError ''ALPACA_API_KEY_ID and ALPACA_API_SECRET_KEY are required.'')
         else bind (of_result (alpaca_trading_quotes environ parse_float key_id secret)) (\<lambda>quotes. case quotes of
           AlpacaTradingQuotes cache p \<Rightarrow> refresh_each p cache now http symbols
         | CachedTradingQuotes _ \<Rightarrow> ret []))"

section \<open>Seeding a quote\<close>

text \<open>\<open>SystemExit\<close> with a message is an external error here.\<close>

definition seed_quote ::
  "string \<Rightarrow> decimal \<Rightarrow> decimal \<Rightarrow> int \<Rightarrow> int \<Rightarrow> int \<Rightarrow> int \<Rightarrow> payload_dict redis \<Rightarrow> (domain_quote \<times> payload_dict redis) result" where
  "seed_quote symbol bid_v ask_v bid_size ask_size ttl now r =
     (let s = normal_symbol symbol in
      if s = [] then Inl (ExternalError ''symbol must not be empty'')
      else if 32 < length s then Inl (ExternalError ''symbol must not exceed 32 characters'')
      else if bid_v \<le> 0 \<or> ask_v \<le> 0 then Inl (ExternalError ''bid and ask must be greater than zero'')
      else if ask_v < bid_v then Inl (ExternalError ''ask must be greater than or equal to bid'')
      else if bid_size < 0 \<or> ask_size < 0 then Inl (ExternalError ''bid-size and ask-size must not be negative'')
      else if ttl \<le> 0 then Inl (ExternalError ''ttl must be greater than zero'')
      else try_then (quote_cache_new ttl) (\<lambda>cache.
        try_then (quote_model_validate [(''symbol'', VText s), (''market'', VText (market_name US)), (''bid_price'', VDecimal bid_v),
          (''ask_price'', VDecimal ask_v), (''bid_size'', VInt bid_size), (''ask_size'', VInt ask_size), (''timestamp'', VTime (Aware now))]) (\<lambda>q.
        try_then (cache_set_quote cache now r q) (\<lambda>r'.
        try_then (cache_get_quote now r' US s) (\<lambda>stored. case stored of
          None \<Rightarrow> Inl (RuntimeError ''quote was not persisted to Redis'')
        | Some q' \<Rightarrow> Inr (q', r'))))))"

section \<open>What the loop guarantees\<close>

lemma pass_ledger:
  assumes "well_behaved env provider" "ledger env (db u)"
    and "process_pending (process_limit_order env provider) fresh 0 oids
      \<lparr>discovered = int (length oids), wr_filled = 0, still_pending = 0, wr_failed = 0\<rparr> u = (w, u')"
  shows "ledger env (db u') \<and> discovered w = wr_filled w + still_pending w + wr_failed w \<and> discovered w = int (length oids)
    \<and> (lock_wait env = (\<lambda>_ t. t) \<longrightarrow> int (length (executions (db u'))) = int (length (executions (db u))) + wr_filled w)"
  using process_pending_counts [OF assms] by auto

definition ends_at :: "cycle_io \<Rightarrow> nat \<Rightarrow> bool" where
  "ends_at io n \<longleftrightarrow> cy_discovery_error io n \<noteq> None \<or> cy_stop io n \<noteq> None"

definition loop_end :: "cycle_io \<Rightarrow> nat \<Rightarrow> int result" where
  "loop_end io n = (case cy_discovery_error io n of
     Some e \<Rightarrow> Inl e
   | None \<Rightarrow> (case cy_stop io n of Some (SleepRaises e) \<Rightarrow> Inl e | _ \<Rightarrow> Inr 0))"

text \<open>How many orders of the last cycle an interrupt left without a result.\<close>

definition unreported :: "cycle_io \<Rightarrow> nat \<Rightarrow> nat" where
  "unreported io n = (case cy_discovery_error io n of
     Some _ \<Rightarrow> 0
   | None \<Rightarrow> (case cy_stop io n of Some (InPass k) \<Rightarrow> k | _ \<Rightarrow> 0))"

definition logs_last :: "cycle_io \<Rightarrow> nat \<Rightarrow> bool" where
  "logs_last io n \<longleftrightarrow> cy_discovery_error io n = None \<and> (case cy_stop io n of Some (InPass _) \<Rightarrow> False | _ \<Rightarrow> True)"

definition undisturbed :: "cycle_io \<Rightarrow> bool" where
  "undisturbed io \<longleftrightarrow> (\<forall>m. lock_wait (cy_db io m) = (\<lambda>_ t. t) \<and> cy_sleep io m = (\<lambda>t. t))"

definition accounted :: "int \<Rightarrow> worker_result list \<Rightarrow> bool" where
  "accounted batch_size ws \<longleftrightarrow>
     (\<forall>w \<in> set ws. discovered w = wr_filled w + still_pending w + wr_failed w \<and> discovered w \<le> batch_size)"

lemma discovered_batch: "0 < batch_size \<Longrightarrow> int (length (discover_pending_order_ids pick batch_size t)) \<le> batch_size"
  by (simp add: discover_pending_order_ids_def)

text \<open>The last cycle, and the cycles before it.\<close>

definition run_ends :: "cycle_io \<Rightarrow> int \<Rightarrow> nat \<Rightarrow> nat \<Rightarrow> worker_result list \<Rightarrow> unit_of_work \<Rightarrow> bool" where
  "run_ends io batch_size N n logged u \<longleftrightarrow>
     (\<exists>ws u' extra. order_run_forever io batch_size (n, logged, u) = Some (logged @ ws, loop_end io N, u')
       \<and> ledger (cy_db io N) (db u') \<and> accounted batch_size ws \<and> length ws = N - n + (if logs_last io N then 1 else 0)
       \<and> extra \<le> unreported io N \<and> int extra \<le> batch_size
       \<and> (undisturbed io \<longrightarrow> int (length (executions (db u')))
           = int (length (executions (db u))) + sum_list (map wr_filled ws) + int extra))"

lemma one_pass:
  assumes "well_behaved (cy_db io n) (cy_provider io n)" "ledger (cy_db io n) (db u)" "0 < batch_size"
  obtains w u' where "run_once (cy_db io n) (cy_provider io n) (cy_pick io n) batch_size (cy_fresh io n) u = (w, u')"
    and "ledger (cy_db io n) (db u')" "accounted batch_size [w]"
    and "undisturbed io \<Longrightarrow> int (length (executions (db u'))) = int (length (executions (db u))) + wr_filled w"
proof -
  obtain w u' where p: "run_once (cy_db io n) (cy_provider io n) (cy_pick io n) batch_size (cy_fresh io n) u = (w, u')" by fastforce
  note pass = pass_ledger [OF assms(1,2) p [unfolded run_once_def Let_def]]
  show ?thesis
    using p pass discovered_batch [OF assms(3), of "cy_pick io n" "db u"]
    by (intro that) (auto simp: accounted_def undisturbed_def)
qed

lemma filled_bounds:
  "process_pending f fresh i oids w u = (w', u') \<Longrightarrow>
   wr_filled w \<le> wr_filled w' \<and> wr_filled w' \<le> wr_filled w + int (length oids)"
proof (induction oids arbitrary: i w u)
  case (Cons oid oids)
  obtain r v where "f (fresh i) oid u = (r, v)" by fastforce
  with Cons.prems Cons.IH show ?case by (fastforce split: sum.splits option.splits)
qed simp

lemma cut_pass:
  assumes "well_behaved (cy_db io n) (cy_provider io n)" "ledger (cy_db io n) (db u)" "0 < batch_size"
  shows "ledger (cy_db io n) (db (interrupted_pass io batch_size n k u))"
    and "\<exists>extra \<le> k. int extra \<le> batch_size \<and> (undisturbed io \<longrightarrow>
      int (length (executions (db (interrupted_pass io batch_size n k u)))) = int (length (executions (db u))) + int extra)"
proof -
  let ?oids = "take k (discover_pending_order_ids (cy_pick io n) batch_size (db u))"
  obtain w u' where p: "process_pending (process_limit_order (cy_db io n) (cy_provider io n)) (cy_fresh io n) 0 ?oids
      \<lparr>discovered = int (length ?oids), wr_filled = 0, still_pending = 0, wr_failed = 0\<rparr> u = (w, u')" by fastforce
  then have u': "interrupted_pass io batch_size n k u = u'" by (simp only: interrupted_pass_def Let_def snd_conv)
  note pass = pass_ledger [OF assms(1,2) p]
  have w: "0 \<le> wr_filled w" "wr_filled w \<le> int (length ?oids)" using filled_bounds [OF p] by simp_all
  show "ledger (cy_db io n) (db (interrupted_pass io batch_size n k u))" using pass u' by simp
  have "length ?oids \<le> k" "int (length ?oids) \<le> batch_size"
    using discovered_batch [OF assms(3), of "cy_pick io n" "db u"] by (auto simp: min_def)
  then show "\<exists>extra \<le> k. int extra \<le> batch_size \<and> (undisturbed io \<longrightarrow>
      int (length (executions (db (interrupted_pass io batch_size n k u)))) = int (length (executions (db u))) + int extra)"
    using pass u' w by (intro exI [of _ "nat (wr_filled w)"]) (auto simp: undisturbed_def)
qed

lemma order_run_last:
  assumes "well_behaved (cy_db io N) (cy_provider io N)" "ends_at io N" "ledger (cy_db io N) (db u)" "0 < batch_size"
  shows "run_ends io batch_size N N logged u"
proof -
  note unfold = order_run_forever.simps [of io batch_size "(N, logged, u)"] order_cycle_def
  obtain w u' where p: "run_once (cy_db io N) (cy_provider io N) (cy_pick io N) batch_size (cy_fresh io N) u = (w, u')"
    "ledger (cy_db io N) (db u')" "accounted batch_size [w]"
    "undisturbed io \<Longrightarrow> int (length (executions (db u'))) = int (length (executions (db u))) + wr_filled w"
    using one_pass [OF assms(1,3,4)] by blast
  have none: "accounted batch_size []" by (simp add: accounted_def)
  have logged: "run_ends io batch_size N N logged u"
    if "order_run_forever io batch_size (N, logged, u) = Some (logged @ [w], loop_end io N, u')" "logs_last io N"
    using that p assms(4) unfolding run_ends_def by (intro exI [of _ "[w]"] exI [of _ u'] exI [of _ 0]) auto
  show ?thesis
  proof (cases "cy_discovery_error io N")
    case (Some e)
    then show ?thesis
      using unfold assms(3,4) none unfolding run_ends_def
      by (intro exI [of _ "[]"] exI [of _ u] exI [of _ 0]) (auto simp: loop_end_def logs_last_def)
  next
    case None
    then obtain stop where stop: "cy_stop io N = Some stop" using assms(2) by (auto simp: ends_at_def)
    show ?thesis
    proof (cases stop)
      case (InPass k)
      obtain extra where "extra \<le> k" "int extra \<le> batch_size" and "undisturbed io \<longrightarrow>
          int (length (executions (db (interrupted_pass io batch_size N k u)))) = int (length (executions (db u))) + int extra"
        using cut_pass(2) [OF assms(1,3,4), of k] by blast
      then show ?thesis
        using unfold None stop InPass none cut_pass(1) [OF assms(1,3,4), of k] unfolding run_ends_def
        by (intro exI [of _ "[]"] exI [of _ "interrupted_pass io batch_size N k u"] exI [of _ extra])
           (auto simp: loop_end_def logs_last_def unreported_def)
    next
      case InSleep
      then show ?thesis using unfold None stop p(1) by (intro logged) (simp_all add: loop_end_def logs_last_def)
    next
      case (SleepRaises e)
      then show ?thesis using unfold None stop p(1) by (intro logged) (simp_all add: loop_end_def logs_last_def)
    qed
  qed
qed

lemma order_run_ends:
  assumes "\<And>n. well_behaved (cy_db io n) (cy_provider io n)"
    and "\<And>n t. ledger (cy_db io n) t \<Longrightarrow> ledger (cy_db io (Suc n)) (cy_sleep io n t)"
    and "ends_at io N" "\<And>m. m < N \<Longrightarrow> \<not> ends_at io m" "n \<le> N" "ledger (cy_db io n) (db u)" "0 < batch_size"
  shows "run_ends io batch_size N n logged u"
  using assms(5,6)
proof (induction "N - n" arbitrary: n logged u)
  case 0
  then have "n = N" by simp
  then show ?case using order_run_last [OF assms(1,3) _ assms(7)] 0 by simp
next
  case (Suc d)
  then have lt: "n < N" by simp
  then have none: "cy_discovery_error io n = None" "cy_stop io n = None" using assms(4) [OF lt] by (auto simp: ends_at_def)
  obtain w u1 where p: "run_once (cy_db io n) (cy_provider io n) (cy_pick io n) batch_size (cy_fresh io n) u = (w, u1)"
    "ledger (cy_db io n) (db u1)" "accounted batch_size [w]"
    "undisturbed io \<Longrightarrow> int (length (executions (db u1))) = int (length (executions (db u))) + wr_filled w"
    using one_pass [OF assms(1) Suc.prems(2) assms(7)] by blast
  let ?u2 = "u1\<lparr>db := cy_sleep io n (db u1)\<rparr>"
  have l: "ledger (cy_db io (Suc n)) (db ?u2)" using assms(2) p(2) by simp
  have d: "d = N - Suc n" "Suc n \<le> N" using Suc.hyps(2) lt by simp_all
  obtain ws u' extra where r: "order_run_forever io batch_size (Suc n, logged @ [w], ?u2) = Some ((logged @ [w]) @ ws, loop_end io N, u')"
    "ledger (cy_db io N) (db u')" "accounted batch_size ws" "length ws = N - Suc n + (if logs_last io N then 1 else 0)"
    "extra \<le> unreported io N" "int extra \<le> batch_size"
    and q: "undisturbed io \<longrightarrow> int (length (executions (db u')))
        = int (length (executions (db ?u2))) + sum_list (map wr_filled ws) + int extra"
    using Suc.hyps(1) [OF d l, of "logged @ [w]"] unfolding run_ends_def by blast
  have "order_run_forever io batch_size (n, logged, u) = Some (logged @ (w # ws), loop_end io N, u')"
    using none p(1) r(1) order_run_forever.simps [of io batch_size "(n, logged, u)"] by (simp add: order_cycle_def)
  moreover have "accounted batch_size (w # ws)" using r(3) p(3) by (auto simp: accounted_def)
  moreover have "length (w # ws) = N - n + (if logs_last io N then 1 else 0)" using r(4) lt by simp
  moreover have "undisturbed io \<longrightarrow> int (length (executions (db u')))
      = int (length (executions (db u))) + sum_list (map wr_filled (w # ws)) + int extra"
    using q p(4) by (auto simp: undisturbed_def)
  ultimately show ?case using r(2,5,6) unfolding run_ends_def by blast
qed

text \<open>
  C17. The process of the pending orders, whatever the database chooses and other transactions do while it
  waits and sleeps: from a sound configuration it runs until the first cycle in which the discovery fails, it is
  interrupted or its sleep raises, and ends then with that failure, or with the exit code 0 after an interrupt. Every
  cycle before that one, and that one when its pass was completed, logs a result in which each order discovered, at most a
  batch, is counted once as filled, still pending or failed; a pass that is interrupted logs none. At the end the tables
  are a ledger. If nothing else runs, the executions inserted are those reported filled, and at most as many
  more as orders of the interrupted pass were dealt with.
\<close>

theorem order_worker_accounts:
  assumes "parse_int (environ_get environ ''TRADING_ORDER_WORKER_BATCH_SIZE'' ''100'') = Inr batch_size" "0 < batch_size"
    and "parse_float (environ_get environ ''TRADING_ORDER_WORKER_POLL_SECONDS'' ''2'') = Inr secs" "0 < secs"
    and "build_quote_provider environ parse_float = Inr provider"
    and "\<And>n. well_behaved (cy_db io n) (cy_provider io n)"
    and "\<And>n t. ledger (cy_db io n) t \<Longrightarrow> ledger (cy_db io (Suc n)) (cy_sleep io n t)"
    and "ledger (cy_db io 0) (db u)" "ends_at io N" "\<And>m. m < N \<Longrightarrow> \<not> ends_at io m"
  shows "\<exists>ws u' extra. order_worker_main io environ parse_int parse_float u = Some (ws, loop_end io N, u')
    \<and> ledger (cy_db io N) (db u')
    \<and> (\<forall>w \<in> set ws. discovered w = wr_filled w + still_pending w + wr_failed w \<and> discovered w \<le> batch_size)
    \<and> length ws = N + (if logs_last io N then 1 else 0)
    \<and> extra \<le> unreported io N \<and> int extra \<le> batch_size
    \<and> (undisturbed io \<longrightarrow> int (length (executions (db u')))
        = int (length (executions (db u))) + sum_list (map wr_filled ws) + int extra)"
proof -
  have "order_worker_main io environ parse_int parse_float u = order_run_forever io batch_size (0, [], u)"
    using assms(1-5) by (simp add: order_worker_main_def try_then_def worker_new_def)
  moreover have "run_ends io batch_size N 0 [] u"
    by (rule order_run_ends [OF assms(6,7,9,10) le0 assms(8,2)])
  ultimately show ?thesis
    by (simp only: run_ends_def accounted_def append_Nil diff_zero)
qed

text \<open>One pass over the pending order of the scenario, interrupted in the sleep after it.\<close>

definition one_cycle :: cycle_io where
  "one_cycle = \<lparr>cy_discovery_error = (\<lambda>_. None), cy_db = (\<lambda>_. quiet_db), cy_provider = (\<lambda>_. flat_market), cy_pick = (\<lambda>_ xs. xs),
     cy_fresh = (\<lambda>_ _. 3), cy_stop = (\<lambda>_. Some InSleep), cy_sleep = (\<lambda>_ t. t)\<rparr>"

theorem order_worker_accounts_witness:
  "\<exists>w u'. order_worker_main one_cycle (\<lambda>_. None) (\<lambda>_. Inr 100) (\<lambda>_. Inr 2) (idle pending_tables) = Some ([w], Inr 0, u')
    \<and> ledger quiet_db (db u') \<and> int (length (executions (db u'))) = wr_filled w"
proof -
  have quotes: "build_quote_provider (\<lambda>_. None) (\<lambda>_. Inr 2) = Inr (CachedTradingQuotes \<lparr>qc_ttl_seconds = 30\<rparr>)"
    by (simp add: build_quote_provider_def environ_get_def quote_cache_new_def)
  have io: "\<And>n. well_behaved (cy_db one_cycle n) (cy_provider one_cycle n)" "ends_at one_cycle 0"
    "ledger (cy_db one_cycle 0) (db (idle pending_tables))" "cy_db one_cycle 0 = quiet_db"
    using quiet_market_well_behaved pending_tables_ledger
    by (simp_all add: one_cycle_def ends_at_def idle_def)
  have sleep: "\<And>n t. ledger (cy_db one_cycle n) t \<Longrightarrow> ledger (cy_db one_cycle (Suc n)) (cy_sleep one_cycle n t)"
    by (simp add: one_cycle_def)
  have cyc: "loop_end one_cycle 0 = Inr 0" "logs_last one_cycle 0" "unreported one_cycle 0 = 0" "undisturbed one_cycle"
    by (simp_all add: one_cycle_def loop_end_def logs_last_def unreported_def undisturbed_def quiet_db_def)
  obtain ws u' extra where ws: "order_worker_main one_cycle (\<lambda>_. None) (\<lambda>_. Inr 100) (\<lambda>_. Inr 2) (idle pending_tables) = Some (ws, Inr 0, u')"
    "ledger quiet_db (db u')" "length ws = 1" "extra \<le> (0 :: nat)"
    "int (length (executions (db u'))) = int (length (executions (db (idle pending_tables)))) + sum_list (map wr_filled ws) + int extra"
    using order_worker_accounts [where parse_int = "\<lambda>_. Inr 100" and parse_float = "\<lambda>_. Inr 2", OF refl _ refl _ quotes io(1) sleep io(3,2)]
    unfolding cyc(1) io(4) using cyc(2-4) by auto
  obtain w where "ws = [w]" using ws(3) by (cases ws) auto
  with ws show ?thesis by (intro exI [of _ w] exI [of _ u']) (simp add: idle_def pending_tables_def opened_tables_def)
qed

end
