(* ===== verification/Portfolio_Routes.thy ===== *)
theory Portfolio_Routes
  imports Portfolio_Properties Portfolio_Valuation Trading_Routes
begin

text \<open>
  The routes of portfolios (\<open>services/api/routes/portfolio.py\<close>) with their schemas
  (\<open>schemas/portfolio.py\<close>, \<open>schemas/valuation.py\<close>): the identity of the caller first, then the validation of
  the request, then the operation. The valuation is a parameter; an exception that is no \<open>HTTPException\<close>
  is answered 500 by the framework.
\<close>

section \<open>Requests\<close>

definition create_portfolio_request :: "string \<Rightarrow> currency \<Rightarrow> (string \<times> currency) result" where
  "create_portfolio_request name c =
     (let n = trim name in if 1 \<le> length n \<and> length n \<le> 100 then Inr (n, c) else Inl invalid_request)"

definition create_position_request :: "string \<Rightarrow> market \<Rightarrow> decimal \<Rightarrow> decimal \<Rightarrow> (string \<times> market \<times> decimal \<times> decimal) result" where
  "create_position_request symbol m quantity cost =
     (let s = trim symbol in
      if 1 \<le> length s \<and> length s \<le> 32 \<and> 0 < quantity \<and> 0 < cost then Inr (s, m, quantity, cost) else Inl invalid_request)"

definition positive_or_absent :: "decimal option \<Rightarrow> bool" where
  "positive_or_absent x = (case x of None \<Rightarrow> True | Some v \<Rightarrow> 0 < v)"

definition update_position_request :: "decimal option \<Rightarrow> decimal option \<Rightarrow> (decimal option \<times> decimal option) result" where
  "update_position_request quantity cost =
     (if positive_or_absent quantity \<and> positive_or_absent cost \<and> \<not> (quantity = None \<and> cost = None)
      then Inr (quantity, cost) else Inl invalid_request)"

section \<open>Responses\<close>

record holding_response =
  hr_position_id :: uuid
  hr_symbol :: string
  hr_market :: market
  hr_quantity :: decimal
  hr_average_cost :: decimal
  hr_cost_basis :: decimal
  hr_created_at :: int
  hr_updated_at :: int

definition holding_response_of :: "holding \<Rightarrow> holding_response" where
  "holding_response_of h = \<lparr>hr_position_id = h_id h, hr_symbol = h_symbol h, hr_market = h_market h, hr_quantity = h_quantity h,
     hr_average_cost = h_average_cost h, hr_cost_basis = cost_basis h, hr_created_at = h_created_at h, hr_updated_at = h_updated_at h\<rparr>"

record portfolio_response =
  pr_portfolio_id :: uuid
  pr_user_id :: string
  pr_name :: string
  pr_currency :: currency
  pr_positions :: "holding_response list"
  pr_total_cost_basis :: decimal
  pr_created_at :: int
  pr_updated_at :: int

definition portfolio_response_of :: "portfolio \<Rightarrow> portfolio_response" where
  "portfolio_response_of p = \<lparr>pr_portfolio_id = pf_id p, pr_user_id = pf_user_id p, pr_name = pf_name p, pr_currency = pf_currency p,
     pr_positions = map holding_response_of (pf_positions p), pr_total_cost_basis = total_cost_basis p,
     pr_created_at = pf_created_at p, pr_updated_at = pf_updated_at p\<rparr>"

text \<open>The response of a valuation has the fields of the valuation, so it is the valuation here.\<close>

datatype portfolio_reply =
    PortfolioReply portfolio_response
  | PortfolioListReply "portfolio_response list"
  | ValuationReply portfolio_valuation
  | PositionReply holding_response
  | PositionListReply "holding_response list"
  | NoContent

section \<open>Routes\<close>

type_synonym portfolio_answer = "(portfolio_tables, int \<times> portfolio_reply) prog"

definition route_create_portfolio :: "portfolio_env \<Rightarrow> string \<Rightarrow> string \<Rightarrow> currency \<Rightarrow> portfolio_answer" where
  "route_create_portfolio env user_id name c =
     bind (create_portfolio env user_id name c) (\<lambda>p. ret (201, PortfolioReply (portfolio_response_of p)))"

definition route_list_portfolios :: "portfolio_env \<Rightarrow> string \<Rightarrow> portfolio_answer" where
  "route_list_portfolios env user_id =
     bind (list_portfolios env user_id) (\<lambda>ps. ret (200, PortfolioListReply (map portfolio_response_of ps)))"

definition route_get_portfolio :: "portfolio_env \<Rightarrow> string \<Rightarrow> uuid \<Rightarrow> portfolio_answer" where
  "route_get_portfolio check user_id i =
     bind (get_owned_portfolio check user_id i) (\<lambda>p. ret (200, PortfolioReply (portfolio_response_of p)))"

definition route_get_valuation :: "portfolio_env \<Rightarrow> (portfolio \<Rightarrow> portfolio_valuation result) \<Rightarrow> string \<Rightarrow> uuid \<Rightarrow> portfolio_answer" where
  "route_get_valuation check value user_id i =
     bind (get_owned_portfolio check user_id i) (\<lambda>p. bind (of_result (value p)) (\<lambda>v. ret (200, ValuationReply v)))"

definition route_list_positions :: "portfolio_env \<Rightarrow> portfolio_env \<Rightarrow> (string \<Rightarrow> string \<Rightarrow> bool) \<Rightarrow> string \<Rightarrow> uuid \<Rightarrow> portfolio_answer" where
  "route_list_positions check env collation user_id i =
     bind (get_owned_portfolio check user_id i) (\<lambda>_.
     bind (try_except (list_positions env collation i) (\<lambda>e. raise (if e = PortfolioNotFoundError then not_found ''portfolio not found'' else e)))
       (\<lambda>hs. ret (200, PositionListReply (map holding_response_of hs))))"

datatype portfolio_request =
    CreatePortfolio string currency
  | ListPortfolios
  | GetPortfolio uuid
  | GetValuation uuid
  | AddPosition uuid string market decimal decimal
  | ListPositions uuid
  | UpdatePosition uuid uuid "decimal option" "decimal option"
  | DeletePosition uuid uuid

fun serve_portfolio ::
  "portfolio_env \<Rightarrow> portfolio_env \<Rightarrow> (string \<Rightarrow> string \<Rightarrow> bool) \<Rightarrow> (portfolio \<Rightarrow> portfolio_valuation result) \<Rightarrow> string \<Rightarrow> portfolio_request
   \<Rightarrow> portfolio_answer" where
  "serve_portfolio check env collation value u (CreatePortfolio name c) =
     bind (of_result (create_portfolio_request name c)) (\<lambda>(n, c'). route_create_portfolio env u n c')"
| "serve_portfolio check env collation value u ListPortfolios = route_list_portfolios env u"
| "serve_portfolio check env collation value u (GetPortfolio i) = route_get_portfolio check u i"
| "serve_portfolio check env collation value u (GetValuation i) = route_get_valuation check value u i"
| "serve_portfolio check env collation value u (AddPosition i symbol m q c) =
     bind (of_result (create_position_request symbol m q c)) (\<lambda>(s, m', q', c').
     bind (route_add_position check env u i s m' q' c') (\<lambda>h. ret (201, PositionReply (holding_response_of h))))"
| "serve_portfolio check env collation value u (ListPositions i) = route_list_positions check env collation u i"
| "serve_portfolio check env collation value u (UpdatePosition i j q c) =
     bind (of_result (update_position_request q c)) (\<lambda>(q', c').
     bind (route_update_position check env u i j q' c') (\<lambda>h. ret (200, PositionReply (holding_response_of h))))"
| "serve_portfolio check env collation value u (DeletePosition i j) =
     bind (route_delete_position check env u i j) (\<lambda>_. ret (204, NoContent))"

definition portfolio_api ::
  "portfolio_env \<Rightarrow> portfolio_env \<Rightarrow> (string \<Rightarrow> string \<Rightarrow> bool) \<Rightarrow> (portfolio \<Rightarrow> portfolio_valuation result) \<Rightarrow> string option \<Rightarrow> portfolio_request
   \<Rightarrow> portfolio_answer" where
  "portfolio_api check env collation value header request =
     bind (of_result (get_current_user_id header)) (\<lambda>u. serve_portfolio check env collation value u request)"

section \<open>Who gets through\<close>

text \<open>What the schemas ask of a request, and the portfolio a request names.\<close>

definition well_formed :: "portfolio_request \<Rightarrow> bool" where
  "well_formed request = (case request of
     CreatePortfolio name _ \<Rightarrow> 1 \<le> length (trim name) \<and> length (trim name) \<le> 100
   | AddPosition _ symbol _ q c \<Rightarrow> 1 \<le> length (trim symbol) \<and> length (trim symbol) \<le> 32 \<and> 0 < q \<and> 0 < c
   | UpdatePosition _ _ q c \<Rightarrow> positive_or_absent q \<and> positive_or_absent c \<and> (q \<noteq> None \<or> c \<noteq> None)
   | _ \<Rightarrow> True)"

fun named_portfolio :: "portfolio_request \<Rightarrow> uuid option" where
  "named_portfolio (GetPortfolio i) = Some i" | "named_portfolio (GetValuation i) = Some i"
| "named_portfolio (AddPosition i _ _ _ _) = Some i" | "named_portfolio (ListPositions i) = Some i"
| "named_portfolio (UpdatePosition i _ _ _) = Some i" | "named_portfolio (DeletePosition i _) = Some i"
| "named_portfolio _ = None"

lemma request_refused: "\<not> well_formed request \<Longrightarrow> serve_portfolio check env collation value u request t = (Inl invalid_request, t)"
  by (cases request)
    (auto simp: well_formed_def create_portfolio_request_def create_position_request_def update_position_request_def Let_def bind_run)

lemma stranger_refused:
  assumes "repo_get_portfolio f (after_others check 1 t) = Inr found" "\<And>p. found = Some p \<Longrightarrow> pf_user_id p \<noteq> u"
  shows "get_owned_portfolio check u f t = (Inl (HTTPException 404 ''portfolio not found''), after_others check 1 t)"
  using assms by (cases found) (simp_all add: get_owned_portfolio_def get_portfolio_def in_uow_run [where env = check] bind_run try_except_def
      require_portfolio_run not_found_def)

lemma stranger_served:
  assumes "repo_get_portfolio f (after_others check 1 t) = Inr found" "\<And>p. found = Some p \<Longrightarrow> pf_user_id p \<noteq> u"
    and "well_formed request" "named_portfolio request = Some f"
  shows "serve_portfolio check env collation value u request t = (Inl (HTTPException 404 ''portfolio not found''), after_others check 1 t)"
  using assms(3,4) stranger_refused [OF assms(1,2)]
  by (cases request)
    (auto simp: well_formed_def create_position_request_def update_position_request_def Let_def bind_run
      route_get_portfolio_def route_get_valuation_def route_list_positions_def route_add_position_def route_update_position_def
      route_delete_position_def)

text \<open>
  C28. Every request of the portfolio API passes three gates before it can do anything: without an identity
  of 1 to 128 characters it is answered 401, malformed it is answered 422, and when the portfolio it names
  does not exist or belongs to somebody else, both are answered by the same 404; each of these answers
  leaves the tables as they are but for what other transactions did.
\<close>

theorem portfolio_routes_guarded:
  "case get_current_user_id header of
     Inl e \<Rightarrow> portfolio_api check env collation value header request t = (Inl e, t) \<and> (\<exists>d. e = HTTPException 401 d)
   | Inr u \<Rightarrow>
       if \<not> well_formed request then portfolio_api check env collation value header request t = (Inl (HTTPException 422 ''invalid request''), t)
       else (\<forall>f found. named_portfolio request = Some f \<and> repo_get_portfolio f (after_others check 1 t) = Inr found
               \<and> (\<forall>p. found = Some p \<longrightarrow> pf_user_id p \<noteq> u) \<longrightarrow>
             portfolio_api check env collation value header request t
               = (Inl (HTTPException 404 ''portfolio not found''), after_others check 1 t))"
proof (cases "get_current_user_id header")
  case (Inl e)
  then have "\<exists>d. e = HTTPException 401 d" by (auto simp: get_current_user_id_def Let_def split: option.splits if_splits)
  then show ?thesis using Inl by (simp add: portfolio_api_def bind_run)
next
  case (Inr u)
  then show ?thesis
    using request_refused [of request check env collation "value" u t] stranger_served [of _ check t _ u request env collation "value"]
    by (auto simp: portfolio_api_def bind_run invalid_request_def)
qed

theorem portfolio_routes_guarded_witness:
  "portfolio_api (penv 1) (penv 2) (\<lambda>_ _. True) (\<lambda>_. Inl KeyError) (Some '' mallory '') (DeletePosition 7 8) tables1
    = (Inl (HTTPException 404 ''portfolio not found''), tables1)"
proof -
  have u: "get_current_user_id (Some '' mallory '') = Inr ''mallory''" by code_simp
  have r: "repo_get_portfolio 7 (after_others (penv 1) 1 tables1) = Inr (Some alice)" "after_others (penv 1) 1 tables1 = tables1"
    using tables1_flush(2) by simp_all
  show ?thesis
    using portfolio_routes_guarded [where header = "Some '' mallory ''" and check = "penv 1" and request = "DeletePosition 7 8" and t = tables1, unfolded u] r
    by (simp add: well_formed_def alice_def)
qed

section \<open>A gap between the schema and the domain\<close>

text \<open>
  The schema trims the name by pydantic's white space, the domain strips it by Python's, which has the
  separators 28 to 31 too: a name of separators passes the schema and is refused by an exception that no
  route answers.
\<close>

lemma separator_name_fails:
  assumes "get_current_user_id header = Inr u" "well_formed (CreatePortfolio name c)" "strip (trim name) = []"
  shows "portfolio_api check env collation value header (CreatePortfolio name c) t
    = (Inl (InvalidPortfolioNameError ''portfolio name must not be empty''), t)"
proof -
  have u: "strip u = u" "u \<noteq> []" "length u \<le> 128"
    using assms(1) by (auto simp: get_current_user_id_def Let_def split: option.splits if_splits)
  then have "validate_user_id (trim u) = Inr u" by (simp add: trim_strip validate_user_id_def)
  then have "create_portfolio env u (trim name) c t = (Inl (InvalidPortfolioNameError ''portfolio name must not be empty''), t)"
    using assms(3) by (simp add: create_portfolio_def portfolio_new_def validate_name_def bind_run)
  then show ?thesis
    using assms(1,2) by (simp add: portfolio_api_def bind_run well_formed_def create_portfolio_request_def route_create_portfolio_def Let_def)
qed

lemma separator_name: "well_formed (CreatePortfolio [CHR 0x1C] USD) \<and> strip (trim [CHR 0x1C]) = []"
  by code_simp

end
