(* ===== verification/Outbox_Routes.thy ===== *)
theory Outbox_Routes
  imports Outbox_Query Trading_Routes Twelve_Data
begin

text \<open>
  The routes of the outbox screen (\<open>services/api/routes/outbox.py\<close> with \<open>schemas/outbox.py\<close>): any caller with
  an identity sees the events of all users.
\<close>

record event_list_response =
  el_items :: "event_record list"
  el_count :: nat
  el_status_filter :: event_status

definition query_text_ok :: "string option \<Rightarrow> bool" where
  "query_text_ok value = (case value of None \<Rightarrow> True | Some t \<Rightarrow> length t \<le> 128)"

definition route_list_events ::
  "string option \<Rightarrow> event_status \<Rightarrow> int \<Rightarrow> string option \<Rightarrow> string option \<Rightarrow> 'p outbox_row list \<Rightarrow> event_list_response result" where
  "route_list_events header status limit etype agg rows =
     try_then (get_current_user_id header) (\<lambda>_.
     if 1 \<le> limit \<and> limit \<le> 100 \<and> query_text_ok etype \<and> query_text_ok agg
     then try_then (list_events status limit etype agg rows) (\<lambda>records.
       Inr \<lparr>el_items = records, el_count = length records, el_status_filter = status\<rparr>)
     else Inl invalid_request)"

definition route_outbox_summary :: "string option \<Rightarrow> 'p outbox_row list \<Rightarrow> summary_record result" where
  "route_outbox_summary header rows = try_then (get_current_user_id header) (\<lambda>_. Inr (get_summary rows))"

text \<open>A caller gets 401, 422 or an answer, never a failure of the server.\<close>

lemma outbox_routes_answer:
  "route_list_events header status limit etype agg rows = Inl e \<Longrightarrow> (\<exists>d. e = HTTPException 401 d) \<or> e = HTTPException 422 ''invalid request''"
  "route_outbox_summary header rows = Inl e \<Longrightarrow> \<exists>d. e = HTTPException 401 d"
  by (auto simp: route_list_events_def route_outbox_summary_def try_then_def list_events_def get_current_user_id_def invalid_request_def Let_def
      split: sum.splits if_splits option.splits)

lemma outbox_route_counts:
  "route_list_events header status limit etype agg rows = Inr r \<Longrightarrow> el_count r = length (el_items r) \<and> int (el_count r) \<le> limit \<and> limit \<le> 100"
  by (auto simp: route_list_events_def try_then_def list_events_def split: sum.splits if_splits)

end
