(* ===== verification/Environment_Gate.thy ===== *)
theory Environment_Gate
  imports API_Wiring
begin

text \<open>
  The gate of the development environment (\<open>scripts/bootstrap/check_environment.py\<close>): eighteen checks, each a
  result that passed or failed, and an exit code. The commands, the file \<open>.env\<close> and the clients are
  parameters of the gate; what an exception shows is a parameter too.
\<close>

section \<open>The file of settings\<close>

definition strip_of :: "char \<Rightarrow> string \<Rightarrow> string" where
  "strip_of c s = rev (dropWhile (\<lambda>x. x = c) (rev (dropWhile (\<lambda>x. x = c) s)))"

text \<open>\<open>line.split("=", 1)\<close> on a line with an equals sign.\<close>

definition split_equals :: "string \<Rightarrow> string \<times> string" where
  "split_equals line = (takeWhile (\<lambda>c. c \<noteq> CHR ''='') line, tl (dropWhile (\<lambda>c. c \<noteq> CHR ''='') line))"

fun load_env_lines :: "string list \<Rightarrow> (string \<times> string) list \<Rightarrow> (string \<times> string) list" where
  "load_env_lines [] values = values"
| "load_env_lines (raw # lines) values =
     (let line = strip raw in
      if line = [] \<or> hd line = CHR ''#'' \<or> CHR ''='' \<notin> set line then load_env_lines lines values
      else case split_equals line of (k, v) \<Rightarrow>
        if strip k = [] then load_env_lines lines values
        else load_env_lines lines (dict_put (strip k) (strip_of CHR 0x27 (strip_of CHR 0x22 (strip v))) values))"

section \<open>The world of the gate\<close>

datatype command_outcome = TimedOut | OSFailure string | Finished int string string

record 's gate_world =
  gw_environ :: "string \<Rightarrow> string option"
  gw_env_lines :: "string list option"
  gw_which :: "string \<Rightarrow> string option"
  gw_windows :: bool
  gw_run :: "string list \<Rightarrow> ('s, command_outcome) prog"
  gw_version :: "int \<times> int \<times> int"
  gw_executable :: string
  gw_expected_venv :: string
  gw_in_venv :: bool
  gw_settings :: "settings result"
  gw_fetch :: "string \<Rightarrow> ('s, jvalue) prog"
  gw_fetch_error :: "error \<Rightarrow> bool"
  gw_caller_identity :: "('s, jvalue) prog"
  gw_bucket_names :: "('s, string list) prog"
  gw_create_bucket :: "string option \<Rightarrow> ('s, unit) prog"
  gw_put_object :: "string \<Rightarrow> ('s, jvalue) prog"
  gw_get_object :: "('s, string) prog"
  gw_select_one :: "('s, int) prog"
  gw_redis_ping :: "('s, jvalue) prog"
  gw_redis_set :: "string \<Rightarrow> ('s, jvalue) prog"
  gw_redis_get :: "('s, string option) prog"
  gw_redis_ttl :: "('s, int) prog"
  gw_redis_delete :: "('s, unit) prog"
  gw_show :: "jvalue \<Rightarrow> string"
  gw_error_text :: "error \<Rightarrow> string"

record check_result =
  cr_name :: string
  cr_passed :: bool
  cr_detail :: string

abbreviation result_of :: "string \<Rightarrow> bool \<Rightarrow> string \<Rightarrow> check_result" where
  "result_of name p detail \<equiv> \<lparr>cr_name = name, cr_passed = p, cr_detail = detail\<rparr>"

definition file_env :: "'s gate_world \<Rightarrow> (string \<times> string) list" where
  "file_env w = (case gw_env_lines w of None \<Rightarrow> [] | Some lines \<Rightarrow> load_env_lines lines [])"

text \<open>\<open>a or b or c\<close>: an empty text counts as missing.\<close>

definition get_setting :: "'s gate_world \<Rightarrow> string \<Rightarrow> string \<Rightarrow> string" where
  "get_setting w name dflt = (case gw_environ w name of
     Some (c # v) \<Rightarrow> c # v
   | _ \<Rightarrow> (case map_of (file_env w) name of Some (c # v) \<Rightarrow> c # v | _ \<Rightarrow> dflt))"

section \<open>Commands\<close>

definition line_break :: "char \<Rightarrow> bool" where
  "line_break c = (let n = of_char c :: nat in 10 \<le> n \<and> n \<le> 13 \<or> 28 \<le> n \<and> n \<le> 30)"

definition first_line :: "string \<Rightarrow> string" where
  "first_line output = strip (takeWhile (\<lambda>c. \<not> line_break c) output)"

definition output_of :: "string \<Rightarrow> string \<Rightarrow> string" where
  "output_of out err = strip (if out = [] then err else out)"

definition first_output_line :: "string \<Rightarrow> string \<Rightarrow> string" where
  "first_output_line out err = (if output_of out err = [] then ''command completed'' else first_line (output_of out err))"

definition ends_with :: "string \<Rightarrow> string \<Rightarrow> bool" where
  "ends_with suffix s \<longleftrightarrow> length suffix \<le> length s \<and> drop (length s - length suffix) s = suffix"

definition build_command :: "'s gate_world \<Rightarrow> string \<Rightarrow> string list \<Rightarrow> string list option" where
  "build_command w executable args = (case gw_which w executable of
     None \<Rightarrow> None
   | Some path \<Rightarrow> Some (
       if gw_windows w \<and> (ends_with ''.cmd'' (lower path) \<or> ends_with ''.bat'' (lower path))
       then [environ_get (gw_environ w) ''COMSPEC'' ''cmd.exe'', ''/d'', ''/c'', path] @ args
       else path # args))"

text \<open>What the checks of commands share: a missing program, a timeout and a failure of the system fail.\<close>

definition checked_command ::
  "'s gate_world \<Rightarrow> string \<Rightarrow> string \<Rightarrow> string list \<Rightarrow> string \<Rightarrow> (int \<Rightarrow> string \<Rightarrow> string \<Rightarrow> ('s, check_result) prog) \<Rightarrow> ('s, check_result) prog" where
  "checked_command w name executable args timeout finished = (case build_command w executable args of
     None \<Rightarrow> ret (result_of name False (executable @ '' not found in PATH''))
   | Some command \<Rightarrow> bind (gw_run w command) (\<lambda>r. case r of
       TimedOut \<Rightarrow> ret (result_of name False timeout)
     | OSFailure text \<Rightarrow> ret (result_of name False text)
     | Finished rc out err \<Rightarrow> finished rc out err))"

definition check_command :: "'s gate_world \<Rightarrow> string \<Rightarrow> string \<Rightarrow> string list \<Rightarrow> ('s, check_result) prog" where
  "check_command w name executable args = checked_command w name executable args (executable @ '' command timed out'')
     (\<lambda>rc out err. ret (result_of name (rc = 0) (first_output_line out err)))"

definition check_git :: "'s gate_world \<Rightarrow> ('s, check_result) prog" where
  "check_git w = check_command w ''Git'' ''git'' [''--version'']"

definition check_docker_compose :: "'s gate_world \<Rightarrow> ('s, check_result) prog" where
  "check_docker_compose w = check_command w ''Docker Compose'' ''docker'' [''compose'', ''version'', ''--short'']"

definition check_terraform :: "'s gate_world \<Rightarrow> ('s, check_result) prog" where
  "check_terraform w = check_command w ''Terraform'' ''terraform'' [''version'']"

definition check_aws_cli :: "'s gate_world \<Rightarrow> ('s, check_result) prog" where
  "check_aws_cli w = check_command w ''AWS CLI'' ''aws'' [''--version'']"

definition check_maven :: "'s gate_world \<Rightarrow> ('s, check_result) prog" where
  "check_maven w = check_command w ''Maven'' ''mvn'' [''--version'']"

definition check_docker :: "'s gate_world \<Rightarrow> ('s, check_result) prog" where
  "check_docker w = checked_command w ''Docker Engine'' ''docker'' [''version'', ''--format'', ''{{.Server.Version}}''] ''Docker daemon check timed out''
     (\<lambda>rc out err. ret (if rc \<noteq> 0 then result_of ''Docker Engine'' False (first_output_line out err)
        else result_of ''Docker Engine'' True (''Server '' @ strip out)))"

definition begins_with :: "string \<Rightarrow> string \<Rightarrow> bool" where
  "begins_with p s \<longleftrightarrow> take (length p) s = p"

definition check_java :: "'s gate_world \<Rightarrow> ('s, check_result) prog" where
  "check_java w = checked_command w ''Java 17'' ''java'' [''--version''] ''java --version timed out''
     (\<lambda>rc out err. ret (if output_of out err = [] then result_of ''Java 17'' False ''java --version returned no output''
        else let l = first_line (output_of out err) in
          result_of ''Java 17'' (rc = 0 \<and> (begins_with ''openjdk 17.'' l \<or> begins_with ''java 17.'' l)) l))"

definition version_text :: "int \<times> int \<times> int \<Rightarrow> string" where
  "version_text v = (case v of (a, b, c) \<Rightarrow> int_text a @ ''.'' @ int_text b @ ''.'' @ int_text c)"

definition check_python :: "'s gate_world \<Rightarrow> ('s, check_result) prog" where
  "check_python w = (case gw_version w of (a, b, c) \<Rightarrow>
     let correct_version = (a = 3 \<and> b = 12); text = version_text (a, b, c) in
     ret (result_of ''Python 3.12'' (correct_version \<and> gw_in_venv w)
       (if \<not> correct_version then ''Expected Python 3.12, got '' @ text @ '' ('' @ gw_executable w @ '')''
        else if \<not> gw_in_venv w then ''Wrong virtual environment: '' @ gw_executable w @ ''; expected under '' @ gw_expected_venv w
        else ''Python '' @ text @ '' ('' @ gw_executable w @ '')'')))"

definition check_git_env_protection :: "'s gate_world \<Rightarrow> ('s, check_result) prog" where
  "check_git_env_protection w =
     (let n = ''.env Git Protection'' in
      if gw_env_lines w = None then ret (result_of n False ''.env file does not exist'')
      else checked_command w n ''git'' [''ls-files'', ''--error-unmatch'', ''.env''] ''git ls-files timed out'' (\<lambda>rc _ _.
        if rc = 0 then ret (result_of n False ''.env is TRACKED by Git'')
        else checked_command w n ''git'' [''check-ignore'', ''-q'', ''--no-index'', ''.env''] ''git check-ignore timed out'' (\<lambda>rc' _ _.
          ret (result_of n (rc' = 0) (if rc' = 0 then ''.env is untracked and ignored by Git'' else ''.env has no effective Git ignore rule'')))))"

section \<open>Settings and services\<close>

text \<open>\<open>except Exception\<close>: the failed result shows the exception.\<close>

definition or_failed :: "'s gate_world \<Rightarrow> string \<Rightarrow> ('s, check_result) prog \<Rightarrow> ('s, check_result) prog" where
  "or_failed w name check = try_except check (\<lambda>e. ret (result_of name False (gw_error_text w e)))"

definition check_settings :: "'s gate_world \<Rightarrow> ('s, check_result) prog" where
  "check_settings w = or_failed w ''Settings'' (bind (of_result (gw_settings w)) (\<lambda>s.
     ret (result_of ''Settings'' (aws_region s \<noteq> [] \<and> database_url s \<noteq> [] \<and> redis_url s \<noteq> [])
       (''env='' @ (case app_env s of LOCAL \<Rightarrow> ''local'' | DEV \<Rightarrow> ''dev'' | STAGING \<Rightarrow> ''staging'' | PRODUCTION \<Rightarrow> ''prod'')
        @ ''; region='' @ aws_region s @ ''; localstack='' @ (if use_localstack s then ''True'' else ''False'')
        @ ''; database=configured; redis=configured''))))"

definition required_services :: "string list" where
  "required_services = [''s3'', ''dynamodb'', ''kinesis'', ''events'', ''sqs'', ''sns'', ''secretsmanager'', ''kms'', ''sts'']"

definition healthy_state :: "jvalue \<Rightarrow> bool result" where
  "healthy_state v = (case v of
     JvText t \<Rightarrow> Inr (t = ''available'' \<or> t = ''running'')
   | JvArray _ \<Rightarrow> Inl (TypeError ''unhashable type'') | JvObject _ \<Rightarrow> Inl (TypeError ''unhashable type'')
   | _ \<Rightarrow> Inr False)"

fun unhealthy_services :: "jvalue \<Rightarrow> string list \<Rightarrow> string list result" where
  "unhealthy_services services [] = Inr []"
| "unhealthy_services services (n # ns) =
     try_then (attribute_get services n JvNull) (\<lambda>v.
     try_then (healthy_state v) (\<lambda>ok.
     try_then (unhealthy_services services ns) (\<lambda>rest. Inr (if ok then rest else n # rest))))"

definition localstack_result :: "'s gate_world \<Rightarrow> jvalue \<Rightarrow> check_result result" where
  "localstack_result w doc =
     try_then (attribute_get doc ''version'' (JvText ''unknown'')) (\<lambda>version.
     try_then (attribute_get doc ''edition'' (JvText ''unknown'')) (\<lambda>edition.
     try_then (attribute_get doc ''features'' (JvObject [])) (\<lambda>features.
     try_then (attribute_get features ''persistence'' (JvText ''unknown'')) (\<lambda>persistence.
     try_then (attribute_get doc ''services'' (JvObject [])) (\<lambda>services.
     try_then (unhealthy_services services required_services) (\<lambda>unhealthy.
     let head = ''LocalStack '' @ gw_show w version @ '' ('' @ gw_show w edition @ '')'' in
     Inr (result_of ''LocalStack'' (unhealthy = [])
       (if unhealthy = [] then head @ ''; persistence='' @ gw_show w persistence else head @ ''; unhealthy='' @ join_commas unhealthy))))))))"

definition check_localstack :: "'s gate_world \<Rightarrow> ('s, check_result) prog" where
  "check_localstack w =
     (let url = rstrip_slash (get_setting w ''AWS_ENDPOINT_URL'' ''http://localhost:4566'') @ ''/_localstack/health'' in
      bind (try_except (bind (gw_fetch w url) (\<lambda>p. ret (Inr p)))
          (\<lambda>e. if gw_fetch_error w e then ret (Inl (result_of ''LocalStack'' False (url @ '': '' @ gw_error_text w e))) else raise e)) (\<lambda>r.
      case r of Inl failed \<Rightarrow> ret failed | Inr doc \<Rightarrow> of_result (localstack_result w doc)))"

definition check_localstack_sts :: "'s gate_world \<Rightarrow> ('s, check_result) prog" where
  "check_localstack_sts w = or_failed w ''LocalStack STS'' (bind (gw_caller_identity w) (\<lambda>response. of_result (
     try_then (attribute_get response ''Account'' (JvText ''unknown'')) (\<lambda>account.
     try_then (attribute_get response ''ResponseMetadata'' (JvObject [])) (\<lambda>metadata.
     try_then (attribute_get metadata ''HTTPStatusCode'' (JvInt 0)) (\<lambda>status.
     Inr (result_of ''LocalStack STS'' (is_two_hundred status) (''Account '' @ gw_show w account @ ''; HTTP '' @ gw_show w status))))))))"

definition health_bucket :: string where "health_bucket = ''realstock-market-data-local''"

definition health_body :: string where "health_body = ''RealStock Environment Gate PASS''"

definition check_localstack_s3 :: "'s gate_world \<Rightarrow> ('s, check_result) prog" where
  "check_localstack_s3 w = or_failed w ''LocalStack S3'' (
     bind (of_result (gw_settings w)) (\<lambda>cfg.
     bind (gw_bucket_names w) (\<lambda>names.
     bind (if health_bucket \<in> set names then ret ()
           else gw_create_bucket w (if aws_region cfg = ''us-east-1'' then None else Some (aws_region cfg))) (\<lambda>_.
     bind (gw_put_object w health_body) (\<lambda>response.
     bind (of_result (try_then (attribute_get response ''ResponseMetadata'' (JvObject [])) (\<lambda>m. attribute_get m ''HTTPStatusCode'' (JvInt 0)))) (\<lambda>status.
     bind (gw_get_object w) (\<lambda>body.
     ret (result_of ''LocalStack S3'' (is_two_hundred status \<and> body = health_body)
       (''bucket='' @ health_bucket @ ''; PUT='' @ gw_show w status @ ''; GET='' @ (if body = health_body then ''verified'' else ''failed''))))))))))"

section \<open>Databases\<close>

definition check_postgres :: "'s gate_world \<Rightarrow> ('s, check_result) prog" where
  "check_postgres w = checked_command w ''PostgreSQL'' ''docker''
     [''exec'', ''realstock-postgres'', ''pg_isready'', ''-U'', get_setting w ''POSTGRES_USER'' ''realstock'', ''-d'', get_setting w ''POSTGRES_DB'' ''realstock'']
     ''pg_isready timed out'' (\<lambda>rc out err. ret (result_of ''PostgreSQL'' (rc = 0) (first_output_line out err)))"

definition check_postgres_sql :: "'s gate_world \<Rightarrow> ('s, check_result) prog" where
  "check_postgres_sql w = checked_command w ''PostgreSQL SQL'' ''docker''
     [''exec'', ''realstock-postgres'', ''psql'', ''-U'', get_setting w ''POSTGRES_USER'' ''realstock'', ''-d'', get_setting w ''POSTGRES_DB'' ''realstock'',
      ''-tAc'', ''SELECT 1;'']
     ''SQL query timed out'' (\<lambda>rc out err. ret (result_of ''PostgreSQL SQL'' (rc = 0 \<and> strip out = ''1'')
       (''SELECT 1 -> '' @ (if strip out = [] then ''no output'' else strip out))))"

definition check_python_postgres :: "'s gate_world \<Rightarrow> ('s, check_result) prog" where
  "check_python_postgres w = or_failed w ''Python PostgreSQL'' (bind (gw_select_one w) (\<lambda>n.
     ret (result_of ''Python PostgreSQL'' (n = 1) (''SQLAlchemy SELECT 1 -> '' @ int_text n))))"

definition check_redis :: "'s gate_world \<Rightarrow> ('s, check_result) prog" where
  "check_redis w = checked_command w ''Redis'' ''docker'' [''exec'', ''realstock-redis'', ''redis-cli'', ''ping''] ''redis-cli timed out''
     (\<lambda>rc out err. ret (result_of ''Redis'' (rc = 0 \<and> strip out = ''PONG'') (if strip out = [] then first_output_line out err else strip out)))"

text \<open>\<open>ping_result is True\<close>: only the boolean itself.\<close>

definition check_python_redis :: "'s gate_world \<Rightarrow> ('s, check_result) prog" where
  "check_python_redis w = or_failed w ''Python Redis'' (
     bind (gw_redis_ping w) (\<lambda>ping. bind (gw_redis_set w ''ok'') (\<lambda>stored. bind (gw_redis_get w) (\<lambda>v. bind (gw_redis_ttl w) (\<lambda>ttl.
     bind (gw_redis_delete w) (\<lambda>_.
     ret (result_of ''Python Redis'' (ping = JvBool True \<and> stored = JvBool True \<and> v = Some ''ok'' \<and> 0 < ttl)
       (''PING='' @ gw_show w ping @ ''; SET='' @ gw_show w stored @ ''; GET='' @ (case v of None \<Rightarrow> ''None'' | Some t \<Rightarrow> t) @ ''; TTL='' @ int_text ttl))))))))"

section \<open>The gate\<close>

definition gate_checks :: "'s gate_world \<Rightarrow> (string \<times> ('s, check_result) prog) list" where
  "gate_checks w =
     [(''check_python'', check_python w),
      (''check_git'', check_git w),
      (''check_docker'', check_docker w),
      (''check_docker_compose'', check_docker_compose w),
      (''check_terraform'', check_terraform w),
      (''check_aws_cli'', check_aws_cli w),
      (''check_java'', check_java w),
      (''check_maven'', check_maven w),
      (''check_git_env_protection'', check_git_env_protection w),
      (''check_settings'', check_settings w),
      (''check_localstack'', check_localstack w),
      (''check_localstack_sts'', check_localstack_sts w),
      (''check_localstack_s3'', check_localstack_s3 w),
      (''check_postgres'', check_postgres w),
      (''check_postgres_sql'', check_postgres_sql w),
      (''check_python_postgres'', check_python_postgres w),
      (''check_redis'', check_redis w),
      (''check_python_redis'', check_python_redis w)]"

fun run_checks :: "'s gate_world \<Rightarrow> (string \<times> ('s, check_result) prog) list \<Rightarrow> 's \<Rightarrow> check_result list \<times> 's" where
  "run_checks w [] s = ([], s)"
| "run_checks w ((fname, check) # cs) s = (case check s of (r, s1) \<Rightarrow>
     (case run_checks w cs s1 of (rs, s2) \<Rightarrow>
       ((case r of Inl e \<Rightarrow> result_of fname False (''unexpected error: '' @ gw_error_text w e) | Inr x \<Rightarrow> x) # rs, s2)))"

definition environment_gate :: "'s gate_world \<Rightarrow> 's \<Rightarrow> (int \<times> check_result list) \<times> 's" where
  "environment_gate w s = (case run_checks w (gate_checks w) s of (results, s') \<Rightarrow>
     ((if list_all cr_passed results then 0 else 1, results), s'))"

section \<open>What an open gate means\<close>

text \<open>The results are those of the checks, each in the state in which its turn came.\<close>

lemma run_checks_length: "length (fst (run_checks w cs s)) = length cs"
  by (induction w cs s rule: run_checks.induct) (auto split: prod.splits)

lemma run_checks_passed:
  "list_all cr_passed (fst (run_checks w cs s)) \<Longrightarrow> (n, check) \<in> set cs \<Longrightarrow> \<exists>s1 r s2. check s1 = (Inr r, s2) \<and> cr_passed r"
proof (induction w cs s rule: run_checks.induct)
  case (2 w fname c cs s)
  obtain r s1 where c: "c s = (r, s1)" by fastforce
  have all: "list_all cr_passed (fst (run_checks w cs s1))" "case r of Inl e \<Rightarrow> False | Inr x \<Rightarrow> cr_passed x"
    using "2.prems"(1) c by (auto split: prod.splits sum.splits)
  show ?case
  proof (cases "(n, check) = (fname, c)")
    case True
    then show ?thesis using c all(2) by (auto split: sum.splits)
  next
    case False
    then show ?thesis using "2.IH" [OF c [symmetric]] all(1) "2.prems"(2) by auto
  qed
qed simp

lemma checked_command_passed:
  assumes "checked_command w name executable args timeout finished s = (Inr r, s')" "cr_passed r"
  shows "\<exists>command rc out err s1. build_command w executable args = Some command \<and> gw_run w command s = (Inr (Finished rc out err), s1)
    \<and> finished rc out err s1 = (Inr r, s')"
  using assms by (auto simp: checked_command_def bind_run split: option.splits prod.splits sum.splits command_outcome.splits)

lemma or_failed_passed: "or_failed w name check s = (Inr r, s') \<Longrightarrow> cr_passed r \<Longrightarrow> check s = (Inr r, s')"
  by (auto simp: or_failed_def try_except_def split: prod.splits sum.splits)

lemma unhealthy_none:
  "unhealthy_services services ns = Inr [] \<Longrightarrow> n \<in> set ns \<Longrightarrow> \<exists>fs. services = JvObject fs \<and> (map_of fs n = Some (JvText ''available'') \<or> map_of fs n = Some (JvText ''running''))"
  by (induction ns)
    (auto simp: try_then_Inr attribute_get_def healthy_state_def split: if_splits jvalue.splits option.splits)

lemma python_passed: "check_python w s1 = (Inr r, s2) \<Longrightarrow> cr_passed r \<Longrightarrow> (\<exists>micro. gw_version w = (3, 12, micro)) \<and> gw_in_venv w"
  by (auto simp: check_python_def Let_def split: prod.splits)

text \<open>A command of the gate was run, in some state, and ended with this code and this output.\<close>

definition command_ended :: "'s gate_world \<Rightarrow> string \<Rightarrow> string list \<Rightarrow> int \<Rightarrow> string \<Rightarrow> bool" where
  "command_ended w executable args rc out \<longleftrightarrow>
     (\<exists>command s1 err s2. build_command w executable args = Some command \<and> gw_run w command s1 = (Inr (Finished rc out err), s2))"

lemma checked_command_ended:
  assumes "checked_command w name executable args timeout finished s = (Inr r, s')" "cr_passed r"
  obtains rc out err s1 where "command_ended w executable args rc out" "finished rc out err s1 = (Inr r, s')"
proof -
  obtain command rc out err s1 where c: "build_command w executable args = Some command" "gw_run w command s = (Inr (Finished rc out err), s1)"
    and f: "finished rc out err s1 = (Inr r, s')"
    using checked_command_passed [OF assms] by (elim exE conjE) (rule that)
  have "command_ended w executable args rc out" unfolding command_ended_def using c by blast
  then show thesis using f by (rule that)
qed

lemma git_passed:
  assumes "check_git_env_protection w s = (Inr r, s')" "cr_passed r"
  shows "gw_env_lines w \<noteq> None \<and> (\<exists>rc out. command_ended w ''git'' [''ls-files'', ''--error-unmatch'', ''.env''] rc out \<and> rc \<noteq> 0)
    \<and> (\<exists>out. command_ended w ''git'' [''check-ignore'', ''-q'', ''--no-index'', ''.env''] 0 out)"
proof -
  have e: "gw_env_lines w \<noteq> None" using assms by (cases "gw_env_lines w") (auto simp: check_git_env_protection_def)
  have "checked_command w ''.env Git Protection'' ''git'' [''ls-files'', ''--error-unmatch'', ''.env''] ''git ls-files timed out'' (\<lambda>rc _ _.
        if rc = 0 then ret (result_of ''.env Git Protection'' False ''.env is TRACKED by Git'')
        else checked_command w ''.env Git Protection'' ''git'' [''check-ignore'', ''-q'', ''--no-index'', ''.env''] ''git check-ignore timed out'' (\<lambda>rc' _ _.
          ret (result_of ''.env Git Protection'' (rc' = 0) (if rc' = 0 then ''.env is untracked and ignored by Git'' else ''.env has no effective Git ignore rule'')))) s = (Inr r, s')"
    using assms(1) e by (simp add: check_git_env_protection_def Let_def)
  then obtain rc1 o1 e1 t1 where g: "command_ended w ''git'' [''ls-files'', ''--error-unmatch'', ''.env''] rc1 o1"
    and rest: "(if rc1 = 0 then ret (result_of ''.env Git Protection'' False ''.env is TRACKED by Git'')
        else checked_command w ''.env Git Protection'' ''git'' [''check-ignore'', ''-q'', ''--no-index'', ''.env''] ''git check-ignore timed out'' (\<lambda>rc' _ _.
          ret (result_of ''.env Git Protection'' (rc' = 0) (if rc' = 0 then ''.env is untracked and ignored by Git'' else ''.env has no effective Git ignore rule'')))) t1 = (Inr r, s')"
    using assms(2) by (rule checked_command_ended)
  have rc1: "rc1 \<noteq> 0" using rest assms(2) by (auto split: if_splits)
  then have "checked_command w ''.env Git Protection'' ''git'' [''check-ignore'', ''-q'', ''--no-index'', ''.env''] ''git check-ignore timed out'' (\<lambda>rc' _ _.
          ret (result_of ''.env Git Protection'' (rc' = 0) (if rc' = 0 then ''.env is untracked and ignored by Git'' else ''.env has no effective Git ignore rule''))) t1 = (Inr r, s')"
    using rest by simp
  then obtain rc2 o2 e2 t2 where h: "command_ended w ''git'' [''check-ignore'', ''-q'', ''--no-index'', ''.env''] rc2 o2"
    and r: "ret (result_of ''.env Git Protection'' (rc2 = 0) (if rc2 = 0 then ''.env is untracked and ignored by Git'' else ''.env has no effective Git ignore rule'')) t2 = (Inr r, s')"
    using assms(2) by (rule checked_command_ended)
  have "rc2 = 0" using r assms(2) by auto
  then show ?thesis using e g rc1 h by (intro conjI) (simp, blast, blast)
qed

lemma command_passed: "check_command w name executable args s = (Inr r, s') \<Longrightarrow> cr_passed r \<Longrightarrow> \<exists>out. command_ended w executable args 0 out"
  unfolding check_command_def by (erule (1) checked_command_ended) auto

lemma docker_passed: "check_docker w s = (Inr r, s') \<Longrightarrow> cr_passed r \<Longrightarrow> \<exists>out. command_ended w ''docker'' [''version'', ''--format'', ''{{.Server.Version}}''] 0 out"
  unfolding check_docker_def by (erule (1) checked_command_ended) (auto split: if_splits)

lemma java_passed: "check_java w s = (Inr r, s') \<Longrightarrow> cr_passed r \<Longrightarrow> \<exists>out. command_ended w ''java'' [''--version''] 0 out"
  unfolding check_java_def by (erule (1) checked_command_ended) (auto simp: Let_def split: if_splits)

lemma postgres_passed:
  "check_postgres w s = (Inr r, s') \<Longrightarrow> cr_passed r \<Longrightarrow> \<exists>out. command_ended w ''docker''
     [''exec'', ''realstock-postgres'', ''pg_isready'', ''-U'', get_setting w ''POSTGRES_USER'' ''realstock'', ''-d'', get_setting w ''POSTGRES_DB'' ''realstock''] 0 out"
  unfolding check_postgres_def by (erule (1) checked_command_ended) auto

lemma postgres_sql_passed:
  "check_postgres_sql w s = (Inr r, s') \<Longrightarrow> cr_passed r \<Longrightarrow> \<exists>out. command_ended w ''docker'' [''exec'', ''realstock-postgres'', ''psql'', ''-U'',
     get_setting w ''POSTGRES_USER'' ''realstock'', ''-d'', get_setting w ''POSTGRES_DB'' ''realstock'', ''-tAc'', ''SELECT 1;''] 0 out \<and> strip out = ''1''"
  unfolding check_postgres_sql_def by (erule (1) checked_command_ended) auto

lemma redis_cli_passed:
  "check_redis w s = (Inr r, s') \<Longrightarrow> cr_passed r \<Longrightarrow> \<exists>out. command_ended w ''docker'' [''exec'', ''realstock-redis'', ''redis-cli'', ''ping''] 0 out \<and> strip out = ''PONG''"
  unfolding check_redis_def by (erule (1) checked_command_ended) auto

lemma settings_passed: "check_settings w s = (Inr r, s') \<Longrightarrow> cr_passed r \<Longrightarrow> \<exists>cfg. gw_settings w = Inr cfg \<and> database_url cfg \<noteq> [] \<and> redis_url cfg \<noteq> []"
  by (auto simp: check_settings_def bind_run dest!: or_failed_passed split: sum.splits)

lemma localstack_passed:
  assumes "check_localstack w s = (Inr r, s')" "cr_passed r"
  shows "\<exists>url s1 doc s2 fs. gw_fetch w url s1 = (Inr (JvObject doc), s2) \<and> map_of doc ''services'' = Some (JvObject fs)
    \<and> (\<forall>n \<in> set required_services. map_of fs n = Some (JvText ''available'') \<or> map_of fs n = Some (JvText ''running''))"
proof -
  let ?url = "rstrip_slash (get_setting w ''AWS_ENDPOINT_URL'' ''http://localhost:4566'') @ ''/_localstack/health''"
  obtain x s1 where f: "gw_fetch w ?url s = (x, s1)" by fastforce
  obtain v where x: "x = Inr v" and l: "localstack_result w v = Inr r"
    using assms f by (auto simp: check_localstack_def Let_def bind_run try_except_def split: sum.splits if_splits)
  obtain services unhealthy where a: "attribute_get v ''services'' (JvObject []) = Inr services"
    "unhealthy_services services required_services = Inr unhealthy" "unhealthy = []"
    using l assms(2) by (auto simp: localstack_result_def try_then_Inr Let_def)
  have u: "\<exists>fs. services = JvObject fs \<and> (map_of fs n = Some (JvText ''available'') \<or> map_of fs n = Some (JvText ''running''))"
    if "n \<in> set required_services" for n using unhealthy_none a(2,3) that by metis
  then obtain fs where fs: "services = JvObject fs" using u [of "''s3''"] by (auto simp: required_services_def)
  then have ok: "\<forall>n \<in> set required_services. map_of fs n = Some (JvText ''available'') \<or> map_of fs n = Some (JvText ''running'')"
    using u by blast
  then have "fs \<noteq> []" by (auto simp: required_services_def)
  then obtain doc where "v = JvObject doc" "map_of doc ''services'' = Some (JvObject fs)"
    using a(1) fs by (cases v) (auto simp: attribute_get_def split: option.splits)
  then show ?thesis using f x ok by blast
qed

lemma sql_passed: "check_python_postgres w s = (Inr r, s') \<Longrightarrow> cr_passed r \<Longrightarrow> \<exists>s2. gw_select_one w s = (Inr 1, s2)"
  by (auto simp: check_python_postgres_def bind_run dest!: or_failed_passed split: sum.splits prod.splits)

lemma redis_passed:
  assumes "check_python_redis w s = (Inr r, s')" "cr_passed r"
  shows "\<exists>s1 s2. gw_redis_get w s1 = (Inr (Some ''ok''), s2)"
proof -
  obtain ping t1 stored t2 v t3 ttl t4 u t5 where "gw_redis_ping w s = (Inr ping, t1)" "gw_redis_set w ''ok'' t1 = (Inr stored, t2)"
    and v: "gw_redis_get w t2 = (Inr v, t3)" and "gw_redis_ttl w t3 = (Inr ttl, t4)" "gw_redis_delete w t4 = (Inr u, t5)"
    and r: "cr_passed r = (ping = JvBool True \<and> stored = JvBool True \<and> v = Some ''ok'' \<and> 0 < ttl)"
    using or_failed_passed [OF assms(1) [unfolded check_python_redis_def] assms(2)]
    by (fastforce simp: bind_run split: sum.splits prod.splits)
  then show ?thesis using assms(2) by blast
qed

text \<open>The programs, and the arguments, that must have ended with code 0.\<close>

definition required_commands :: "(string \<times> string list) list" where
  "required_commands =
     [(''git'', [''--version'']), (''docker'', [''version'', ''--format'', ''{{.Server.Version}}'']),
      (''docker'', [''compose'', ''version'', ''--short'']), (''terraform'', [''version'']), (''aws'', [''--version'']),
      (''java'', [''--version'']), (''mvn'', [''--version'']),
      (''git'', [''check-ignore'', ''-q'', ''--no-index'', ''.env''])]"

lemma s3_passed:
  assumes "check_localstack_s3 w s = (Inr r, s')" "cr_passed r"
  shows "\<exists>s1 s2. gw_get_object w s1 = (Inr health_body, s2)"
proof -
  obtain status body t1 t2 where b: "gw_get_object w t1 = (Inr body, t2)" and r: "cr_passed r = (is_two_hundred status \<and> body = health_body)"
    using or_failed_passed [OF assms(1) [unfolded check_localstack_s3_def] assms(2)]
    by (auto simp: bind_run simp del: split_paired_Ex split: sum.splits prod.splits)
  have "body = health_body" using r assms(2) by simp
  then show ?thesis using b by blast
qed

definition environment_ready :: "'s gate_world \<Rightarrow> bool" where
  "environment_ready w \<longleftrightarrow>
     (\<exists>micro. gw_version w = (3, 12, micro)) \<and> gw_in_venv w \<and> gw_env_lines w \<noteq> None
   \<and> (\<forall>(executable, args) \<in> set required_commands. \<exists>out. command_ended w executable args 0 out)
   \<and> (\<exists>rc out. command_ended w ''git'' [''ls-files'', ''--error-unmatch'', ''.env''] rc out \<and> rc \<noteq> 0)
   \<and> (\<exists>cfg. gw_settings w = Inr cfg \<and> database_url cfg \<noteq> [] \<and> redis_url cfg \<noteq> [])
   \<and> (\<exists>url s1 doc s2 fs. gw_fetch w url s1 = (Inr (JvObject doc), s2) \<and> map_of doc ''services'' = Some (JvObject fs)
       \<and> (\<forall>n \<in> set required_services. map_of fs n = Some (JvText ''available'') \<or> map_of fs n = Some (JvText ''running'')))
   \<and> (\<exists>s1 s2. gw_get_object w s1 = (Inr health_body, s2))
   \<and> (\<exists>out. command_ended w ''docker'' [''exec'', ''realstock-postgres'', ''psql'', ''-U'',
       get_setting w ''POSTGRES_USER'' ''realstock'', ''-d'', get_setting w ''POSTGRES_DB'' ''realstock'', ''-tAc'', ''SELECT 1;''] 0 out \<and> strip out = ''1'')
   \<and> (\<exists>s1 s2. gw_select_one w s1 = (Inr 1, s2))
   \<and> (\<exists>out. command_ended w ''docker'' [''exec'', ''realstock-redis'', ''redis-cli'', ''ping''] 0 out \<and> strip out = ''PONG'')
   \<and> (\<exists>s1 s2. gw_redis_get w s1 = (Inr (Some ''ok''), s2))"

lemma gate_ready:
  assumes run: "\<And>n check. (n, check) \<in> set (gate_checks w) \<Longrightarrow> \<exists>s1 r s2. check s1 = (Inr r, s2) \<and> cr_passed r"
  shows "environment_ready w"
proof -
  have plain: "\<exists>out. command_ended w e a 0 out" if "(n, check_command w m e a) \<in> set (gate_checks w)" for n m e a
    using run [OF that] by (elim exE conjE) (rule command_passed)
  have "\<exists>out. command_ended w ''git'' [''--version''] 0 out" by (rule plain [of "''check_git''" "''Git''"]) (simp add: gate_checks_def check_git_def)
  moreover have "\<exists>out. command_ended w ''docker'' [''compose'', ''version'', ''--short''] 0 out"
    by (rule plain [of "''check_docker_compose''" "''Docker Compose''"]) (simp add: gate_checks_def check_docker_compose_def)
  moreover have "\<exists>out. command_ended w ''terraform'' [''version''] 0 out" by (rule plain [of "''check_terraform''" "''Terraform''"]) (simp add: gate_checks_def check_terraform_def)
  moreover have "\<exists>out. command_ended w ''aws'' [''--version''] 0 out" by (rule plain [of "''check_aws_cli''" "''AWS CLI''"]) (simp add: gate_checks_def check_aws_cli_def)
  moreover have "\<exists>out. command_ended w ''mvn'' [''--version''] 0 out" by (rule plain [of "''check_maven''" "''Maven''"]) (simp add: gate_checks_def check_maven_def)
  moreover have "(\<exists>out. command_ended w ''docker'' [''version'', ''--format'', ''{{.Server.Version}}''] 0 out)"
    using run [of "''check_docker''" "check_docker w"] docker_passed by (fastforce simp: gate_checks_def)
  moreover have "(\<exists>out. command_ended w ''java'' [''--version''] 0 out)"
    using run [of "''check_java''" "check_java w"] java_passed by (fastforce simp: gate_checks_def)
  moreover have git: "gw_env_lines w \<noteq> None \<and> (\<exists>rc out. command_ended w ''git'' [''ls-files'', ''--error-unmatch'', ''.env''] rc out \<and> rc \<noteq> 0)
    \<and> (\<exists>out. command_ended w ''git'' [''check-ignore'', ''-q'', ''--no-index'', ''.env''] 0 out)"
    using run [of "''check_git_env_protection''" "check_git_env_protection w"] git_passed by (fastforce simp: gate_checks_def)
  ultimately have commands: "\<forall>(executable, args) \<in> set required_commands. \<exists>out. command_ended w executable args 0 out"
    by (simp add: required_commands_def)
  have python: "(\<exists>micro. gw_version w = (3, 12, micro)) \<and> gw_in_venv w"
    using run [of "''check_python''" "check_python w"] python_passed by (fastforce simp: gate_checks_def)
  have settings: "\<exists>cfg. gw_settings w = Inr cfg \<and> database_url cfg \<noteq> [] \<and> redis_url cfg \<noteq> []"
    using run [of "''check_settings''" "check_settings w"] settings_passed by (fastforce simp: gate_checks_def)
  have "\<exists>s1 r s2. check_localstack w s1 = (Inr r, s2) \<and> cr_passed r" by (rule run [of "''check_localstack''"]) (simp add: gate_checks_def)
  then have localstack: "\<exists>url s1 doc s2 fs. gw_fetch w url s1 = (Inr (JvObject doc), s2) \<and> map_of doc ''services'' = Some (JvObject fs)
       \<and> (\<forall>n \<in> set required_services. map_of fs n = Some (JvText ''available'') \<or> map_of fs n = Some (JvText ''running''))"
    by (elim exE conjE) (rule localstack_passed)
  have s3: "\<exists>s1 s2. gw_get_object w s1 = (Inr health_body, s2)"
    using run [of "''check_localstack_s3''" "check_localstack_s3 w"] s3_passed by (fastforce simp: gate_checks_def)
  have sql: "\<exists>s1 s2. gw_select_one w s1 = (Inr 1, s2)"
    using run [of "''check_python_postgres''" "check_python_postgres w"] sql_passed by (fastforce simp: gate_checks_def)
  have "\<exists>s1 r s2. check_python_redis w s1 = (Inr r, s2) \<and> cr_passed r" by (rule run [of "''check_python_redis''"]) (simp add: gate_checks_def)
  then have cache: "\<exists>s1 s2. gw_redis_get w s1 = (Inr (Some ''ok''), s2)" by (elim exE conjE) (rule redis_passed)
  have "\<exists>s1 r s2. check_postgres_sql w s1 = (Inr r, s2) \<and> cr_passed r" by (rule run [of "''check_postgres_sql''"]) (simp add: gate_checks_def)
  then have psql: "\<exists>out. command_ended w ''docker'' [''exec'', ''realstock-postgres'', ''psql'', ''-U'',
       get_setting w ''POSTGRES_USER'' ''realstock'', ''-d'', get_setting w ''POSTGRES_DB'' ''realstock'', ''-tAc'', ''SELECT 1;''] 0 out \<and> strip out = ''1''"
    by (elim exE conjE) (rule postgres_sql_passed)
  have "\<exists>s1 r s2. check_redis w s1 = (Inr r, s2) \<and> cr_passed r" by (rule run [of "''check_redis''"]) (simp add: gate_checks_def)
  then have pong: "\<exists>out. command_ended w ''docker'' [''exec'', ''realstock-redis'', ''redis-cli'', ''ping''] 0 out \<and> strip out = ''PONG''"
    by (elim exE conjE) (rule redis_cli_passed)
  show ?thesis
    unfolding environment_ready_def
    using python git commands settings localstack s3 sql cache psql pong by simp
qed

text \<open>
  C32. The gate ends with an exit code and one result for each of the eighteen checks, whatever fails or
  raises; the code is 0 exactly when every result passed. Then the interpreter is Python 3.12 in the
  project's environment; \<open>.env\<close> exists, git does not track it and ignores it; every tool answered; the
  settings are accepted and name a database and a cache; all nine services of LocalStack are up and its
  store returned what was put; and both databases answered, through the container and through the
  program's own client.
\<close>

theorem environment_gate_sound:
  "\<exists>code results s'. environment_gate w s = ((code, results), s') \<and> length results = 18 \<and> (code = 0 \<or> code = 1)
    \<and> (code = 0 \<longleftrightarrow> list_all cr_passed results)
    \<and> (code = 0 \<longrightarrow> environment_ready w)"
proof -
  obtain results s' where g: "run_checks w (gate_checks w) s = (results, s')" by fastforce
  have "length results = 18" using run_checks_length [of w "gate_checks w" s] g by (simp add: gate_checks_def)
  moreover have "environment_gate w s = ((if list_all cr_passed results then 0 else 1, results), s')" by (simp add: environment_gate_def g)
  moreover have "environment_ready w" if "list_all cr_passed results"
    by (rule gate_ready) (use run_checks_passed [of w "gate_checks w" s] that g in simp)
  ultimately show ?thesis by auto
qed

definition ready_run :: "string list \<Rightarrow> (unit, command_outcome) prog" where
  "ready_run command = ret (
     if command = [''/git'', ''ls-files'', ''--error-unmatch'', ''.env''] then Finished 1 [] ''error''
     else if last command = ''SELECT 1;'' then Finished 0 ''1'' []
     else if last command = ''ping'' then Finished 0 ''PONG'' []
     else if hd command = ''/java'' then Finished 0 ''openjdk 17.0.9'' []
     else Finished 0 [] [])"

definition ready_world :: "unit gate_world" where
  "ready_world =
     \<lparr>gw_environ = (\<lambda>_. None), gw_env_lines = Some [], gw_which = (\<lambda>n. Some (CHR ''/'' # n)), gw_windows = False, gw_run = ready_run,
      gw_version = (3, 12, 4), gw_executable = ''/p/.venv/bin/python'', gw_expected_venv = ''/p/.venv'', gw_in_venv = True,
      gw_settings = Inr (default_settings ''redis://r'' \<lparr>database_url := ''postgresql://h/d''\<rparr>),
      gw_fetch = (\<lambda>_. ret (JvObject [(''services'', JvObject (map (\<lambda>n. (n, JvText ''running'')) required_services))])),
      gw_fetch_error = (\<lambda>_. False), gw_caller_identity = ret (JvObject [(''ResponseMetadata'', JvObject [(''HTTPStatusCode'', JvInt 200)])]),
      gw_bucket_names = ret [], gw_create_bucket = (\<lambda>_. ret ()),
      gw_put_object = (\<lambda>_. ret (JvObject [(''ResponseMetadata'', JvObject [(''HTTPStatusCode'', JvInt 200)])])), gw_get_object = ret health_body,
      gw_select_one = ret 1, gw_redis_ping = ret (JvBool True), gw_redis_set = (\<lambda>_. ret (JvBool True)), gw_redis_get = ret (Some ''ok''),
      gw_redis_ttl = ret 60, gw_redis_delete = ret (), gw_show = (\<lambda>_. []), gw_error_text = (\<lambda>_. [])\<rparr>"

lemma ready_world_code: "fst (fst (environment_gate ready_world ())) = 0"
  by code_simp

text \<open>C1, witness: in a world in which every tool and service answers, the gate opens.\<close>

theorem environment_gate_sound_witness: "environment_ready ready_world"
  using environment_gate_sound [of ready_world "()"] ready_world_code by auto

end
