(* ===== verification/Local_Deployment.thy ===== *)
theory Local_Deployment
  imports Environment_Gate Release_Gate Market_Routes "HOL-Library.Sublist"
begin

text \<open>
  The deployment on a developer's machine (\<open>scripts/localstack/deploy_trading_localstack.py\<close>): commands of
  Docker Compose, polls of the health of containers and of the API with a deadline, and a last look at
  LocalStack, the database and the API. What the commands, the clock, the HTTP client, the AWS clients and
  the database answer is a function of what the script did before; its state is the list of that.
\<close>

section \<open>Settings\<close>

text \<open>One pair of the same quotes around the value is removed; a key may be empty here.\<close>

definition dotenv_value :: "string \<Rightarrow> string" where
  "dotenv_value v = (if 2 \<le> length v \<and> hd v = last v \<and> (hd v = CHR 0x22 \<or> hd v = CHR 0x27) then butlast (tl v) else v)"

fun load_dotenv :: "string list \<Rightarrow> (string \<times> string) list \<Rightarrow> (string \<times> string) list" where
  "load_dotenv [] values = values"
| "load_dotenv (raw # lines) values =
     (let line = strip raw in
      if line = [] \<or> hd line = CHR ''#'' \<or> CHR ''='' \<notin> set line then load_dotenv lines values
      else case split_equals line of (k, v) \<Rightarrow> load_dotenv lines (dict_put (strip k) (dotenv_value (strip v)) values))"

text \<open>\<open>os.getenv(name, DOTENV.get(name, default))\<close>: an empty variable of the process counts.\<close>

definition deploy_setting :: "(string \<Rightarrow> string option) \<Rightarrow> string list option \<Rightarrow> string \<Rightarrow> string \<Rightarrow> string" where
  "deploy_setting environ dotenv name dflt = (case environ name of
     Some v \<Rightarrow> v
   | None \<Rightarrow> (case map_of (case dotenv of None \<Rightarrow> [] | Some lines \<Rightarrow> load_dotenv lines []) name of Some v \<Rightarrow> v | None \<Rightarrow> dflt))"

definition deploy_dsn :: "(string \<Rightarrow> string option) \<Rightarrow> string list option \<Rightarrow> string" where
  "deploy_dsn environ dotenv =
     ''postgresql://'' @ deploy_setting environ dotenv ''POSTGRES_USER'' ''realstock'' @ '':''
       @ deploy_setting environ dotenv ''POSTGRES_PASSWORD'' ''realstock_local_password''
       @ ''@127.0.0.1:15432/'' @ deploy_setting environ dotenv ''POSTGRES_DB'' ''realstock''"

definition bypassed_hosts :: "string list" where
  "bypassed_hosts = [''127.0.0.1'', ''localhost'', ''localstack'', ''postgres'', ''redis'']"

definition proxy_hosts :: "string \<Rightarrow> string list" where
  "proxy_hosts existing = fold (\<lambda>host hosts. if host \<in> set hosts then hosts else hosts @ [host]) bypassed_hosts
     (filter (\<lambda>h. h \<noteq> []) (map strip (split_commas existing)))"

definition configure_proxy_bypass :: "(string \<Rightarrow> string option) \<Rightarrow> string \<Rightarrow> string option" where
  "configure_proxy_bypass environ =
     (let given = (\<lambda>n. case environ n of None \<Rightarrow> [] | Some v \<Rightarrow> v);
          existing = (if given ''NO_PROXY'' \<noteq> [] then given ''NO_PROXY'' else given ''no_proxy'');
          merged = join_commas (proxy_hosts existing)
      in environ(''NO_PROXY'' \<mapsto> merged, ''no_proxy'' \<mapsto> merged))"

section \<open>The world of the deployment\<close>

datatype deploy_event =
    Clocked
  | Slept
  | Ran "string list" int
  | Inspected string string
  | Fetched string "jvalue result"
  | Called string "jvalue result"
  | ReadRevision string "string option result"
  | ReadTables string "string list result"

type_synonym history = "deploy_event list"

text \<open>An answer with its event, and a step that may not come to an end.\<close>

type_synonym 'a deploy = "history \<Rightarrow> ('a result \<times> history) option"

record deploy_world =
  dp_clock :: "history \<Rightarrow> rat"
  dp_run :: "history \<Rightarrow> string list \<Rightarrow> int result"
  dp_inspect :: "history \<Rightarrow> string \<Rightarrow> string result"
  dp_fetch :: "history \<Rightarrow> string \<Rightarrow> jvalue result"
  dp_retried :: "error \<Rightarrow> bool"
  dp_aws :: "history \<Rightarrow> string \<Rightarrow> jvalue result"
  dp_revision :: "history \<Rightarrow> string \<Rightarrow> string option result"
  dp_tables :: "history \<Rightarrow> string \<Rightarrow> string list result"
  dp_environ :: "string \<Rightarrow> string option"
  dp_dotenv :: "string list option"

fun run_steps :: "unit deploy list \<Rightarrow> unit deploy" where
  "run_steps [] h = Some (Inr (), h)"
| "run_steps (m # ms) h = (case m h of
     None \<Rightarrow> None | Some (Inl e, h1) \<Rightarrow> Some (Inl e, h1) | Some (Inr _, h1) \<Rightarrow> run_steps ms h1)"

definition run_checked :: "deploy_world \<Rightarrow> string list \<Rightarrow> unit deploy" where
  "run_checked w args h = (case dp_run w h args of
     Inl e \<Rightarrow> Some (Inl e, h)
   | Inr code \<Rightarrow> Some (if code \<noteq> 0 then Inl (RuntimeError ''Command failed'') else Inr (), h @ [Ran args code]))"

section \<open>Polls with a deadline\<close>

definition timeout_error :: error where "timeout_error = ExternalError ''TimeoutError''"

partial_function (option) poll_until :: "deploy_world \<Rightarrow> rat \<Rightarrow> (history \<Rightarrow> bool result \<times> history) \<Rightarrow> unit deploy" where
  "poll_until w deadline attempt h =
     (if deadline \<le> dp_clock w h then Some (Inl timeout_error, h @ [Clocked])
      else case attempt (h @ [Clocked]) of
        (Inl e, h1) \<Rightarrow> Some (Inl e, h1)
      | (Inr done, h1) \<Rightarrow> if done then Some (Inr (), h1) else poll_until w deadline attempt (h1 @ [Slept]))"

definition container_status :: "string \<Rightarrow> string" where
  "container_status out = lower (strip out)"

definition inspect_container :: "deploy_world \<Rightarrow> string \<Rightarrow> history \<Rightarrow> bool result \<times> history" where
  "inspect_container w name h = (case dp_inspect w h name of
     Inl e \<Rightarrow> (Inl e, h)
   | Inr out \<Rightarrow>
       (if container_status out \<in> {''healthy'', ''running''} then Inr True
        else if container_status out \<in> {''unhealthy'', ''exited'', ''dead''} then Inl (RuntimeError ''entered terminal state'')
        else Inr False, h @ [Inspected name out]))"

definition wait_container_healthy :: "deploy_world \<Rightarrow> string \<Rightarrow> unit deploy" where
  "wait_container_healthy w name h = poll_until w (dp_clock w h + 120) (inspect_container w name) (h @ [Clocked])"

definition ready_url :: string where "ready_url = ''http://127.0.0.1:18000/health/ready''"

definition live_url :: string where "live_url = ''http://127.0.0.1:18000/health''"

definition parsed_object :: "jvalue \<Rightarrow> jobject result" where
  "parsed_object v = (case v of JvObject o' \<Rightarrow> Inr o' | _ \<Rightarrow> Inl (RuntimeError ''Expected JSON object''))"

definition expected_dependencies :: "string list" where
  "expected_dependencies = [''postgresql'', ''redis'', ''localstack'', ''s3'', ''dynamodb'']"

text \<open>\<open>expected - set(dependencies)\<close>, then \<open>dependencies.items()\<close>.\<close>

definition check_ready_dependencies :: "jvalue \<Rightarrow> bool result" where
  "check_ready_dependencies v = (case v of
     JvObject d \<Rightarrow>
       if \<not> set expected_dependencies \<subseteq> set (map fst d) then Inl (RuntimeError ''Readiness response is missing dependencies'')
       else if \<not> list_all (\<lambda>k. map_of d k = Some (JvText ''ok'')) expected_dependencies
       then Inl (RuntimeError ''Readiness dependencies are not healthy'')
       else Inr True
   | JvArray xs \<Rightarrow>
       if list_ex (\<lambda>x. case x of JvArray _ \<Rightarrow> True | JvObject _ \<Rightarrow> True | _ \<Rightarrow> False) xs then Inl (TypeError ''unhashable type'')
       else if \<not> JvText ` set expected_dependencies \<subseteq> set xs then Inl (RuntimeError ''Readiness response is missing dependencies'')
       else Inl attribute_error
   | JvText _ \<Rightarrow> Inl (RuntimeError ''Readiness response is missing dependencies'')
   | _ \<Rightarrow> Inl (TypeError ''object is not iterable''))"

definition check_ready :: "jvalue \<Rightarrow> bool result" where
  "check_ready v = try_then (parsed_object v) (\<lambda>p.
     if payload_get p ''status'' = JvText ''ready''
     then check_ready_dependencies (case map_of p ''dependencies'' of None \<Rightarrow> JvObject [] | Some d \<Rightarrow> d)
     else Inr False)"

definition poll_ready :: "deploy_world \<Rightarrow> history \<Rightarrow> bool result \<times> history" where
  "poll_ready w h =
     (let answer = dp_fetch w h ready_url in
      (case try_then answer check_ready of
         Inl e \<Rightarrow> if dp_retried w e \<or> (case e of RuntimeError _ \<Rightarrow> True | _ \<Rightarrow> False) then Inr False else Inl e
       | Inr b \<Rightarrow> Inr b, h @ [Fetched ready_url answer]))"

definition wait_api_ready :: "deploy_world \<Rightarrow> unit deploy" where
  "wait_api_ready w h = poll_until w (dp_clock w h + 120) (poll_ready w) (h @ [Clocked])"

section \<open>The last look\<close>

text \<open>One call of AWS, and what of its answer the script looks at.\<close>

definition call_aws :: "deploy_world \<Rightarrow> string \<Rightarrow> (jvalue \<Rightarrow> unit result) \<Rightarrow> unit deploy" where
  "call_aws w service check h = (let answer = dp_aws w h service in Some (try_then answer check, h @ [Called service answer]))"

fun any_default_bus :: "jvalue list \<Rightarrow> bool result" where
  "any_default_bus [] = Inr False"
| "any_default_bus (v # vs) = try_then (attribute_get v ''Name'' JvNull) (\<lambda>n. if n = JvText ''default'' then Inr True else any_default_bus vs)"

definition check_buses :: "jvalue \<Rightarrow> unit result" where
  "check_buses v =
     try_then (attribute_get v ''EventBuses'' (JvArray [])) (\<lambda>buses.
     try_then (elements buses) (\<lambda>vs.
     try_then (any_default_bus vs) (\<lambda>found.
       if found then Inr () else Inl (RuntimeError ''LocalStack EventBridge default event bus was not found.''))))"

definition verify_localstack_services :: "deploy_world \<Rightarrow> unit deploy" where
  "verify_localstack_services w = run_steps
     [call_aws w ''sts'' (\<lambda>v. try_then (attribute_get v ''Account'' JvNull) (\<lambda>_. Inr ())),
      call_aws w ''events'' check_buses,
      call_aws w ''s3'' (\<lambda>_. Inr ()), call_aws w ''dynamodb'' (\<lambda>_. Inr ()), call_aws w ''cloudwatch'' (\<lambda>_. Inr ())]"

definition required_trading_tables :: "string list" where
  "required_trading_tables = [''paper_accounts'', ''paper_executions'', ''paper_orders'', ''paper_positions'']"

definition read_revision :: "deploy_world \<Rightarrow> unit deploy" where
  "read_revision w h = (let dsn = deploy_dsn (dp_environ w) (dp_dotenv w); answer = dp_revision w h dsn in
     Some (try_then answer (\<lambda>row. if row = None then Inl (RuntimeError ''alembic_version does not contain a revision.'') else Inr ()),
       h @ [ReadRevision dsn answer]))"

definition read_tables :: "deploy_world \<Rightarrow> unit deploy" where
  "read_tables w h = (let dsn = deploy_dsn (dp_environ w) (dp_dotenv w); answer = dp_tables w h dsn in
     Some (try_then answer (\<lambda>tables. if set required_trading_tables \<subseteq> set tables then Inr () else Inl (RuntimeError ''Missing trading tables'')),
       h @ [ReadTables dsn answer]))"

definition verify_database :: "deploy_world \<Rightarrow> unit deploy" where
  "verify_database w = run_steps [read_revision w, read_tables w]"

definition check_live :: "jvalue \<Rightarrow> unit result" where
  "check_live v = try_then (parsed_object v) (\<lambda>p.
     if payload_get p ''status'' = JvText ''ok'' then Inr () else Inl (RuntimeError ''API liveness failed''))"

definition fetch_live :: "deploy_world \<Rightarrow> unit deploy" where
  "fetch_live w h = (let answer = dp_fetch w h live_url in Some (try_then answer check_live, h @ [Fetched live_url answer]))"

definition verify_runtime :: "deploy_world \<Rightarrow> unit deploy" where
  "verify_runtime w = run_steps [run_checked w [''docker'', ''compose'', ''ps''], fetch_live w]"

section \<open>The program\<close>

definition deploy_steps :: "deploy_world \<Rightarrow> unit deploy list" where
  "deploy_steps w =
     [run_checked w [''docker'', ''compose'', ''config'', ''--quiet''],
      run_checked w [''docker'', ''compose'', ''up'', ''-d'', ''localstack'', ''postgres'', ''redis'', ''otel-collector''],
      wait_container_healthy w ''realstock-localstack'',
      wait_container_healthy w ''realstock-postgres'',
      wait_container_healthy w ''realstock-redis'',
      run_checked w [''docker'', ''compose'', ''build'', ''api'', ''outbox-dispatcher''],
      run_checked w ([''docker'', ''compose'', ''run'', ''--rm'', ''api''] @ migration_command),
      run_checked w [''docker'', ''compose'', ''up'', ''-d'', ''api'', ''outbox-dispatcher''],
      wait_container_healthy w ''realstock-api'',
      wait_api_ready w,
      verify_localstack_services w,
      verify_database w,
      verify_runtime w]"

definition deploy_main :: "deploy_world \<Rightarrow> history \<Rightarrow> (int \<times> history) option" where
  "deploy_main w h = (case run_steps (deploy_steps (w\<lparr>dp_environ := configure_proxy_bypass (dp_environ w)\<rparr>)) h of
     None \<Rightarrow> None
   | Some (Inl _, h') \<Rightarrow> Some (1, h')
   | Some (Inr _, h') \<Rightarrow> Some (0, h'))"

end
