(* ===== verification/Deployment_Properties.thy ===== *)
theory Deployment_Properties
  imports Local_Deployment
begin

text \<open>
  What the deployment on a developer's machine guarantees: a small logic of steps that end, that reach
  milestones in a given order as far as they get, and that sleep a bounded number of times.
\<close>

section \<open>Milestones\<close>

datatype milestone =
    Done "string list"
  | Healthy string
  | ApiReady
  | Answered string
  | Revised
  | TradingTables
  | ApiLive

text \<open>What an event of the history proves to have been reached.\<close>

fun milestone_of :: "deploy_event \<Rightarrow> milestone list" where
  "milestone_of (Ran args code) = (if code = 0 then [Done args] else [])"
| "milestone_of (Inspected name out) = (if container_status out \<in> {''healthy'', ''running''} then [Healthy name] else [])"
| "milestone_of (Fetched url answer) =
     (if url = ready_url \<and> try_then answer check_ready = Inr True then [ApiReady]
      else if url = live_url \<and> try_then answer check_live = Inr () then [ApiLive] else [])"
| "milestone_of (Called service answer) =
     (if service = ''sts'' then (case answer of Inr (JvObject _) \<Rightarrow> [Answered service] | _ \<Rightarrow> [])
      else if service = ''events'' then (if try_then answer check_buses = Inr () then [Answered service] else [])
      else case answer of Inr _ \<Rightarrow> [Answered service] | Inl _ \<Rightarrow> [])"
| "milestone_of (ReadRevision _ answer) = (case answer of Inr (Some _) \<Rightarrow> [Revised] | _ \<Rightarrow> [])"
| "milestone_of (ReadTables _ answer) = (case answer of
     Inr tables \<Rightarrow> if set required_trading_tables \<subseteq> set tables then [TradingTables] else [] | Inl _ \<Rightarrow> [])"
| "milestone_of Clocked = []"
| "milestone_of Slept = []"

definition milestones :: "history \<Rightarrow> milestone list" where
  "milestones h = concat (map milestone_of h)"

definition planned_milestones :: "milestone list" where
  "planned_milestones =
     [Done [''docker'', ''compose'', ''config'', ''--quiet''],
      Done [''docker'', ''compose'', ''up'', ''-d'', ''localstack'', ''postgres'', ''redis'', ''otel-collector''],
      Healthy ''realstock-localstack'', Healthy ''realstock-postgres'', Healthy ''realstock-redis'',
      Done [''docker'', ''compose'', ''build'', ''api'', ''outbox-dispatcher''],
      Done [''docker'', ''compose'', ''run'', ''--rm'', ''api'', ''python'', ''-m'', ''alembic'', ''-c'', ''database/alembic.ini'', ''upgrade'', ''head''],
      Done [''docker'', ''compose'', ''up'', ''-d'', ''api'', ''outbox-dispatcher''],
      Healthy ''realstock-api'', ApiReady,
      Answered ''sts'', Answered ''events'', Answered ''s3'', Answered ''dynamodb'', Answered ''cloudwatch'',
      Revised, TradingTables,
      Done [''docker'', ''compose'', ''ps''], ApiLive]"

abbreviation sleeps :: "history \<Rightarrow> nat" where
  "sleeps h \<equiv> length (filter (\<lambda>e. e = Slept) h)"

lemma milestones_simps [simp]:
  "milestones [] = []" "milestones (e # h) = milestone_of e @ milestones h" "milestones (g @ h) = milestones g @ milestones h"
  by (simp_all add: milestones_def)

section \<open>A logic of steps\<close>

definition achieves :: "unit deploy \<Rightarrow> milestone list \<Rightarrow> nat \<Rightarrow> bool" where
  "achieves m ms n \<longleftrightarrow> (\<forall>h. \<exists>r new. m h = Some (r, h @ new) \<and> prefix (milestones new) ms
     \<and> (r = Inr () \<longleftrightarrow> milestones new = ms) \<and> sleeps new \<le> n)"

text \<open>One attempt of a poll: it adds the milestone exactly when it says that the poll is over.\<close>

definition attempts :: "(history \<Rightarrow> bool result \<times> history) \<Rightarrow> milestone \<Rightarrow> bool" where
  "attempts a m \<longleftrightarrow> (\<forall>h. \<exists>r new. a h = (r, h @ new) \<and> milestones new = (if r = Inr True then [m] else []) \<and> sleeps new = 0)"

text \<open>The clock never goes back, and \<open>time.sleep(1)\<close> lasts a second at least.\<close>

definition clock_runs :: "deploy_world \<Rightarrow> bool" where
  "clock_runs w \<longleftrightarrow> (\<forall>h e. dp_clock w h \<le> dp_clock w (h @ [e])) \<and> (\<forall>h. dp_clock w h + 1 \<le> dp_clock w (h @ [Slept]))"

lemma clock_append: "clock_runs w \<Longrightarrow> dp_clock w h \<le> dp_clock w (h @ new)"
proof (induction new rule: rev_induct)
  case (snoc e new)
  have "dp_clock w (h @ new) \<le> dp_clock w ((h @ new) @ [e])" using snoc.prems unfolding clock_runs_def by blast
  then show ?case using snoc.IH [OF snoc.prems] by simp
qed simp

lemma achieves_steps_Nil: "achieves (run_steps []) [] 0"
  by (simp add: achieves_def)

lemma achieves_steps_Cons:
  assumes "achieves m ms n" "achieves (run_steps steps) ms' n'"
  shows "achieves (run_steps (m # steps)) (ms @ ms') (n + n')"
  unfolding achieves_def
proof (intro allI)
  fix h
  obtain r new where m: "m h = Some (r, h @ new)" "prefix (milestones new) ms" "r = Inr () \<longleftrightarrow> milestones new = ms" "sleeps new \<le> n"
    using assms(1) unfolding achieves_def by blast
  show "\<exists>r new. run_steps (m # steps) h = Some (r, h @ new) \<and> prefix (milestones new) (ms @ ms')
     \<and> (r = Inr () \<longleftrightarrow> milestones new = ms @ ms') \<and> sleeps new \<le> n + n'"
  proof (cases r)
    case (Inl e)
    then have "milestones new \<noteq> ms" using m(3) by simp
    then have "milestones new \<noteq> ms @ ms'" using m(2) by (auto simp: prefix_def)
    then show ?thesis using m Inl by (intro exI [of _ r] exI [of _ new]) (auto simp: prefix_append)
  next
    case (Inr u)
    obtain r' new' where s: "run_steps steps (h @ new) = Some (r', (h @ new) @ new')" "prefix (milestones new') ms'"
      "r' = Inr () \<longleftrightarrow> milestones new' = ms'" "sleeps new' \<le> n'"
      using assms(2) unfolding achieves_def by blast
    have "milestones new = ms" using m(3) Inr by simp
    then show ?thesis using m s Inr by (intro exI [of _ r'] exI [of _ "new @ new'"]) auto
  qed
qed

lemma poll_until_achieves:
  assumes "clock_runs w" "attempts a m"
  shows "deadline \<le> dp_clock w h + of_nat n \<Longrightarrow>
    \<exists>r new. poll_until w deadline a h = Some (r, h @ new) \<and> prefix (milestones new) [m]
      \<and> (r = Inr () \<longleftrightarrow> milestones new = [m]) \<and> sleeps new \<le> n"
proof (induction n arbitrary: h)
  case 0
  then show ?case by (auto simp: poll_until.simps timeout_error_def)
next
  case (Suc n)
  obtain r new where a: "a (h @ [Clocked]) = (r, (h @ [Clocked]) @ new)" "milestones new = (if r = Inr True then [m] else [])" "sleeps new = 0"
    using assms(2) unfolding attempts_def by blast
  show ?case
  proof (cases "deadline \<le> dp_clock w h \<or> r \<noteq> Inr False")
    case True
    then show ?thesis using a by (cases r) (auto simp: poll_until.simps timeout_error_def)
  next
    case False
    let ?g = "h @ Clocked # new @ [Slept]"
    have "dp_clock w h + 1 \<le> dp_clock w (h @ Clocked # new) + 1" using clock_append [OF assms(1)] by simp
    also have "\<dots> \<le> dp_clock w ((h @ Clocked # new) @ [Slept])" using assms(1) unfolding clock_runs_def by blast
    finally have "deadline \<le> dp_clock w ?g + of_nat n" using Suc.prems by simp
    from Suc.IH [OF this] obtain r' new' where p: "poll_until w deadline a ?g = Some (r', ?g @ new')" "prefix (milestones new') [m]"
      "r' = Inr () \<longleftrightarrow> milestones new' = [m]" "sleeps new' \<le> n" by blast
    have "poll_until w deadline a h = poll_until w deadline a ?g" using False a(1) by (simp add: poll_until.simps [of w deadline a h])
    then show ?thesis using p a(2,3) False by (intro exI [of _ r'] exI [of _ "Clocked # new @ [Slept] @ new'"]) auto
  qed
qed

lemma achieves_poll:
  assumes "clock_runs w" "attempts a m"
  shows "achieves (\<lambda>h. poll_until w (dp_clock w h + 120) a (h @ [Clocked])) [m] 120"
  unfolding achieves_def
proof (intro allI)
  fix h
  have "dp_clock w h \<le> dp_clock w (h @ [Clocked])" using assms(1) unfolding clock_runs_def by blast
  then have "dp_clock w h + 120 \<le> dp_clock w (h @ [Clocked]) + of_nat 120" by simp
  from poll_until_achieves [OF assms this] obtain r new where p: "poll_until w (dp_clock w h + 120) a (h @ [Clocked]) = Some (r, (h @ [Clocked]) @ new)"
    "prefix (milestones new) [m]" "r = Inr () \<longleftrightarrow> milestones new = [m]" "sleeps new \<le> 120" by blast
  then show "\<exists>r new. poll_until w (dp_clock w h + 120) a (h @ [Clocked]) = Some (r, h @ new) \<and> prefix (milestones new) [m]
      \<and> (r = Inr () \<longleftrightarrow> milestones new = [m]) \<and> sleeps new \<le> 120"
    by (intro exI [of _ r] exI [of _ "Clocked # new"]) simp
qed

section \<open>The steps of the script\<close>

lemma achieves_wait: "clock_runs w \<Longrightarrow> achieves (wait_container_healthy w name) [Healthy name] 120"
proof -
  assume c: "clock_runs w"
  have "attempts (inspect_container w name) (Healthy name)"
    unfolding attempts_def
  proof (intro allI)
    fix h
    show "\<exists>r new. inspect_container w name h = (r, h @ new) \<and> milestones new = (if r = Inr True then [Healthy name] else []) \<and> sleeps new = 0"
      by (cases "dp_inspect w h name") (auto simp: inspect_container_def)
  qed
  from achieves_poll [OF c this] show ?thesis by (simp add: wait_container_healthy_def [abs_def])
qed

lemma not_live: "ready_url \<noteq> live_url" by (simp add: ready_url_def live_url_def)

lemma achieves_ready: "clock_runs w \<Longrightarrow> achieves (wait_api_ready w) [ApiReady] 120"
proof -
  assume c: "clock_runs w"
  have "attempts (poll_ready w) ApiReady"
    unfolding attempts_def
  proof (intro allI)
    fix h
    show "\<exists>r new. poll_ready w h = (r, h @ new) \<and> milestones new = (if r = Inr True then [ApiReady] else []) \<and> sleeps new = 0"
      by (intro exI [of _ "fst (poll_ready w h)"] exI [of _ "[Fetched ready_url (dp_fetch w h ready_url)]"])
        (auto simp: poll_ready_def Let_def not_live split: sum.splits)
  qed
  from achieves_poll [OF c this] show ?thesis by (simp add: wait_api_ready_def [abs_def])
qed

lemma achieves_run: "achieves (run_checked w args) [Done args] 0"
  unfolding achieves_def
proof (intro allI)
  fix h
  show "\<exists>r new. run_checked w args h = Some (r, h @ new) \<and> prefix (milestones new) [Done args] \<and> (r = Inr () \<longleftrightarrow> milestones new = [Done args]) \<and> sleeps new \<le> 0"
    by (cases "dp_run w h args") (auto simp: run_checked_def)
qed

text \<open>A step that asks once.\<close>

lemma achieves_ask:
  assumes "\<And>h. m h = Some (r h, h @ [ev h])" "\<And>h. ev h \<noteq> Slept" "\<And>h. milestone_of (ev h) = (if r h = Inr () then [ms] else [])"
  shows "achieves m [ms] 0"
  unfolding achieves_def
proof (intro allI)
  fix h
  show "\<exists>r new. m h = Some (r, h @ new) \<and> prefix (milestones new) [ms] \<and> (r = Inr () \<longleftrightarrow> milestones new = [ms]) \<and> sleeps new \<le> 0"
    by (rule exI [of _ "r h"], rule exI [of _ "[ev h]"]) (simp add: assms)
qed

lemma achieves_call:
  assumes "\<And>answer. milestone_of (Called service answer) = (if try_then answer check = Inr () then [Answered service] else [])"
  shows "achieves (call_aws w service check) [Answered service] 0"
  by (rule achieves_ask [where r = "\<lambda>h. try_then (dp_aws w h service) check" and ev = "\<lambda>h. Called service (dp_aws w h service)"])
    (simp_all add: call_aws_def Let_def assms del: milestone_of.simps)

lemma achieves_localstack:
  "achieves (verify_localstack_services w) ([Answered ''sts''] @ [Answered ''events''] @ [Answered ''s3''] @ [Answered ''dynamodb''] @ [Answered ''cloudwatch''] @ []) (0 + (0 + (0 + (0 + (0 + 0)))))"
  unfolding verify_localstack_services_def
  by (intro achieves_steps_Cons achieves_steps_Nil achieves_call)
    (auto simp: try_then_def attribute_get_def split: sum.splits jvalue.splits)

lemma achieves_database: "achieves (verify_database w) ([Revised] @ [TradingTables] @ []) (0 + (0 + 0))"
  unfolding verify_database_def
proof (intro achieves_steps_Cons achieves_steps_Nil)
  let ?dsn = "deploy_dsn (dp_environ w) (dp_dotenv w)"
  show "achieves (read_revision w) [Revised] 0"
    by (rule achieves_ask [where ev = "\<lambda>h. ReadRevision ?dsn (dp_revision w h ?dsn)"
          and r = "\<lambda>h. try_then (dp_revision w h ?dsn) (\<lambda>row. if row = None then Inl (RuntimeError ''alembic_version does not contain a revision.'') else Inr ())"])
      (auto simp: read_revision_def Let_def try_then_def split: sum.splits option.splits)
  show "achieves (read_tables w) [TradingTables] 0"
    by (rule achieves_ask [where ev = "\<lambda>h. ReadTables ?dsn (dp_tables w h ?dsn)"
          and r = "\<lambda>h. try_then (dp_tables w h ?dsn) (\<lambda>tables. if set required_trading_tables \<subseteq> set tables then Inr () else Inl (RuntimeError ''Missing trading tables''))"])
      (auto simp: read_tables_def Let_def try_then_def split: sum.splits)
qed

lemma achieves_runtime: "achieves (verify_runtime w) ([Done [''docker'', ''compose'', ''ps'']] @ [ApiLive] @ []) (0 + (0 + 0))"
  unfolding verify_runtime_def
proof (intro achieves_steps_Cons achieves_steps_Nil achieves_run)
  show "achieves (fetch_live w) [ApiLive] 0"
    by (rule achieves_ask [where ev = "\<lambda>h. Fetched live_url (dp_fetch w h live_url)" and r = "\<lambda>h. try_then (dp_fetch w h live_url) check_live"])
      (simp_all add: fetch_live_def Let_def not_live [symmetric])
qed

lemma achieves_eq: "achieves m ms n \<Longrightarrow> ms = ms' \<Longrightarrow> n = n' \<Longrightarrow> achieves m ms' n'"
  by simp

lemma achieves_deploy:
  assumes "clock_runs w"
  shows "achieves (run_steps (deploy_steps w)) planned_milestones 600"
proof -
  note steps = achieves_steps_Cons [OF achieves_run] achieves_steps_Cons [OF achieves_wait [OF assms]] achieves_steps_Cons [OF achieves_ready [OF assms]]
    achieves_steps_Cons [OF achieves_localstack] achieves_steps_Cons [OF achieves_database] achieves_steps_Cons [OF achieves_runtime] achieves_steps_Nil
  show ?thesis
    unfolding deploy_steps_def
    by (rule achieves_eq, (rule steps)+) (simp_all add: planned_milestones_def migration_command_def)
qed

section \<open>The program\<close>

text \<open>
  C33. The deployment ends, after at most 600 seconds of sleeping, with code 0 or 1. As far as it gets, its
  milestones are reached in the planned order: the dependencies are healthy before the images are built, the
  migrations have ended with code 0 before the API and the dispatcher are started, and the API is ready before the last
  look. The code is 0 exactly when all nineteen were reached: then all four containers were seen healthy, the
  API reported ready with its five dependencies, the five services of AWS answered and the default bus exists, the
  database has a revision and the four tables of trading, and the API is alive.
\<close>

theorem deployment_ordered:
  assumes "clock_runs w"
  shows "\<exists>code new. deploy_main w h = Some (code, h @ new) \<and> (code = 0 \<or> code = 1) \<and> prefix (milestones new) planned_milestones
    \<and> (code = 0 \<longleftrightarrow> milestones new = planned_milestones) \<and> sleeps new \<le> 600"
proof -
  let ?w = "w\<lparr>dp_environ := configure_proxy_bypass (dp_environ w)\<rparr>"
  have "clock_runs ?w" using assms by (simp add: clock_runs_def)
  from achieves_deploy [OF this] obtain r new where d: "run_steps (deploy_steps ?w) h = Some (r, h @ new)" "prefix (milestones new) planned_milestones"
    "r = Inr () \<longleftrightarrow> milestones new = planned_milestones" "sleeps new \<le> 600" unfolding achieves_def by blast
  show ?thesis
  proof (cases r)
    case (Inl e)
    then show ?thesis using d by (intro exI [of _ 1] exI [of _ new]) (auto simp: deploy_main_def)
  next
    case (Inr u)
    then show ?thesis using d by (intro exI [of _ 0] exI [of _ new]) (auto simp: deploy_main_def)
  qed
qed

text \<open>The image of the API cannot be migrated.\<close>

definition broken_migration :: deploy_world where
  "broken_migration =
     \<lparr>dp_clock = (\<lambda>h. of_nat (length h)), dp_run = (\<lambda>_ args. Inr (if ''alembic'' \<in> set args then 1 else 0)),
      dp_inspect = (\<lambda>_ _. Inr ''Healthy''), dp_fetch = (\<lambda>_ _. Inl (ExternalError ''URLError'')), dp_retried = (\<lambda>_. True),
      dp_aws = (\<lambda>_ _. Inl (ExternalError ''ClientError'')), dp_revision = (\<lambda>_ _. Inr None), dp_tables = (\<lambda>_ _. Inr []),
      dp_environ = (\<lambda>_. None), dp_dotenv = None\<rparr>"

theorem deployment_ordered_witness:
  "\<exists>code new. deploy_main broken_migration [] = Some (code, new) \<and> prefix (milestones new) planned_milestones"
proof -
  have "clock_runs broken_migration" by (simp add: clock_runs_def broken_migration_def)
  from deployment_ordered [OF this, of "[]"] show ?thesis by auto
qed

section \<open>The readiness of the API\<close>

text \<open>The JSON of the route's answer; the deployment accepts it exactly when the API answers 200.\<close>

definition readiness_json :: "readiness_answer \<Rightarrow> jvalue" where
  "readiness_json a = JvObject [(''status'', JvText (rd_status a)), (''dependencies'', JvObject (map (\<lambda>(n, st). (n, JvText st)) (rd_dependencies a)))]"

lemma ready_names: "map fst deps = expected_dependencies \<Longrightarrow> list_all (\<lambda>d. snd d = ''ok'') deps \<Longrightarrow>
    check_ready_dependencies (JvObject (map (\<lambda>(n, st). (n, JvText st)) deps)) = Inr True"
proof -
  assume n: "map fst deps = expected_dependencies" and ok: "list_all (\<lambda>d. snd d = ''ok'') deps"
  have "deps = map (\<lambda>k. (k, ''ok'')) (map fst deps)"
    using ok by (induction deps) auto
  then have d: "deps = map (\<lambda>k. (k, ''ok'')) expected_dependencies" using n by simp
  show ?thesis unfolding d by (simp add: check_ready_dependencies_def expected_dependencies_def)
qed

lemma deployment_accepts_readiness:
  assumes "readiness h s = (answer, s')"
  shows "check_ready (readiness_json answer) = Inr True \<longleftrightarrow> rd_status_code answer = 200"
proof -
  obtain deps s1 where c: "check_dependencies (probes h) s = (deps, s1)" by fastforce
  have n: "map fst deps = expected_dependencies"
    using check_names [of "probes h" s, unfolded c] by (simp add: probes_def expected_dependencies_def)
  show ?thesis
  proof (cases "list_all (\<lambda>d. snd d = ''ok'') deps")
    case True
    then have "answer = \<lparr>rd_status_code = 200, rd_status = ''ready'', rd_dependencies = deps\<rparr>" using assms by (simp add: readiness_def c)
    then show ?thesis using ready_names [OF n True]
      by (simp add: check_ready_def readiness_json_def parsed_object_def try_then_def payload_get_def)
  next
    case False
    then have "answer = \<lparr>rd_status_code = 503, rd_status = ''not_ready'', rd_dependencies = deps\<rparr>" using assms by (simp add: readiness_def c)
    then show ?thesis by (simp add: check_ready_def readiness_json_def parsed_object_def try_then_def payload_get_def)
  qed
qed

section \<open>The proxies\<close>

text \<open>Both variables keep the hosts they named and name the five hosts of the deployment.\<close>

lemma proxy_hosts_kept:
  "set (proxy_hosts existing) = {h. h \<in> strip ` set (split_commas existing) \<and> h \<noteq> []} \<union> set bypassed_hosts"
proof -
  have "set (fold (\<lambda>host hosts. if host \<in> set hosts then hosts else hosts @ [host]) new given) = set given \<union> set new"
    for new given :: "string list" by (induction new arbitrary: given) auto
  then show ?thesis by (auto simp: proxy_hosts_def)
qed

end
