(* ===== verification/Spec2Isabelle.thy ===== *)
theory Spec2Isabelle
  imports Broker_Properties Outbox_Properties Outbox_Query Alert_Flow Ingestor_Properties Portfolio_Properties Valuation_Properties Trading_Valuation Watchlist_Properties Account_Race News_Properties Trading_Route_Properties Market_Route_Properties Schema_Properties Release_Properties Worker_Properties Log_Properties Order_Worker Portfolio_Routes Outbox_Routes Environment_Gate Deployment_Properties
begin

text \<open>
  Verification of the Python back end of RealStock Enterprise: paper trading, portfolios and their
  valuation, watchlists, news, market data, a pipeline from market events over risk alerts to
  notifications, a transactional outbox, the database's migrations, and the programs that configure,
  deploy and release all of it. Paths below are under \<open>src/\<close>.
\<close>

section \<open>The program and its model\<close>

text \<open>
  Paper trading. \<open>libs/trading\<close> holds the domain objects and the paper broker, \<open>services/trading\<close> the
  services that lock rows, run the broker and write the result in one transaction, and the worker that
  processes the pending orders; \<open>libs/database\<close> holds tables, repositories and the unit of work.
  \<^item> \<open>Trading_Models\<close>: orders, positions, accounts, executions and their validation; \<open>Paper_Broker\<close>: the
    fills of market and limit orders, with what an exception leaves of the mutated objects;
    \<open>Paper_Trading\<close>: quote services in front of the broker.
  \<^item> \<open>Trading_Store\<close>: the four tables with their constraints and numeric columns, and the repositories;
    \<open>Unit_Of_Work\<close>: session, flush, commit and rollback, with what other transactions do while a lock is awaited.
    A session is new, or ended clean the last time: entering the unit of work only resets its flags.
  \<^item> \<open>Persistent_Trading\<close>: every operation of the services; \<open>Trading_Transactions\<close>: what holds of each because
    it is one transaction; \<open>Trading_Ledger\<close>, \<open>Ledger_Steps\<close> and \<open>Ledger_Properties\<close>: the tables as the replay
    of the executions, as an invariant of all reachable states; \<open>Trading_Scenario\<close>: a concrete run for the
    witnesses; \<open>Account_Race\<close>: two requests for one account.
  \<^item> \<open>Trading_Portfolio\<close> and \<open>Trading_Valuation\<close>: the snapshot of a paper account; \<open>Order_Worker\<close>: the process
    of the pending orders and the scripts of \<open>scripts/trading\<close>; \<open>Trading_Routes\<close> and
    \<open>Trading_Route_Properties\<close>: the routes and their answers; \<open>Broker_Properties\<close>: the life cycle of an order
    and the accounting identities of the broker.

  Portfolios and watchlists. \<open>libs/domain/portfolio\<close>, \<open>services/api/portfolio\<close>, \<open>services/api/watchlist\<close> and
  their tables.
  \<^item> \<open>Portfolio_Domain\<close>, \<open>Portfolio_Store\<close>, \<open>Portfolio_Service\<close>: aggregate, events, tables and service;
    \<open>Portfolio_Outcome\<close>, \<open>Portfolio_Replay\<close>, \<open>Portfolio_Properties\<close>: one change with its event or none,
    and the tables as the replay of the events in the outbox; \<open>Portfolio_Valuation\<close> and
    \<open>Valuation_Properties\<close>: the valuation; \<open>Portfolio_Routes\<close>: the routes.
  \<^item> \<open>Watchlist\<close> and \<open>Watchlist_Properties\<close>: the watchlist, and the race at its limit.

  The transactional outbox. A change writes its event in its own transaction; dispatchers claim events
  with a lease, put them on EventBridge and mark them.
  \<^item> \<open>Event_Envelope\<close> and \<open>Identifiers\<close>: the envelope and identifiers as text; \<open>Outbox_Store\<close>,
    \<open>Outbox_Dispatcher\<close>: the table and one dispatch; \<open>Outbox_Leases\<close>: the table as a lease store;
    \<open>Outbox_Protocol\<close> and \<open>Outbox_Properties\<close>: any number of dispatchers, interleaved and crashing;
    \<open>Outbox_Worker\<close> and \<open>Worker_Properties\<close>: the process with its metrics; \<open>Outbox_Query\<close> and
    \<open>Outbox_Routes\<close>: the screen that shows the outbox.

  From market data to notifications. \<open>services/market_ingestor\<close> puts quotes on Kinesis and into the cache,
  \<open>services/risk_engine\<close> compares each with the previous one and raises alerts, \<open>services/alert_worker\<close> takes
  the alerts from the queue and notifies once per event.
  \<^item> \<open>Market_Domain\<close>, \<open>Quote_State\<close>, \<open>Quote_Cache\<close>: quotes, their parsing, the stores that keep the newest;
    \<open>Market_Ingestor\<close> and \<open>Ingestor_Properties\<close>: generator, producer and runner; \<open>Risk_Engine\<close>, \<open>Risk_Consumer\<close> and
    \<open>Risk_Properties\<close>: rules, service, publisher and consumer; \<open>Idempotency_Store\<close>, \<open>Alert_Worker\<close>, \<open>Alert_Protocol\<close>,
    \<open>Alert_Properties\<close> and \<open>Alert_Flow\<close>: the alert worker, alone and beside others, and the way of an alert from the
    risk engine to the topic.

  Market data of the API. \<open>Twelve_Data\<close> (the provider), \<open>Market_Batch\<close> and \<open>Batch_Properties\<close> (batch quotes with two
  caches), \<open>Market_Routes\<close> and \<open>Market_Route_Properties\<close> (routes and candles), \<open>News_Provider\<close>, \<open>News_Service\<close> and
  \<open>News_Properties\<close> (the news of a watchlist).

  Around it. \<open>Schema_Migrations\<close> and \<open>Schema_Properties\<close> (\<open>database/migrations\<close> and the tables of the models);
  \<open>Configuration\<close>, \<open>Database_Credentials\<close> and \<open>Credential_Properties\<close> (settings and credentials); \<open>Metrics\<close>,
  \<open>Request_Logging\<close> and \<open>Log_Properties\<close> (\<open>libs/observability\<close>); \<open>API_Wiring\<close> (dependencies, clients, health);
  \<open>Release_Gate\<close> and \<open>Release_Properties\<close> (\<open>scripts/aws\<close>), \<open>Environment_Gate\<close> (\<open>scripts/bootstrap\<close>),
  \<open>Local_Deployment\<close> and \<open>Deployment_Properties\<close> (\<open>scripts/localstack\<close>).
\<close>

section \<open>How the code becomes definitions\<close>

text \<open>
  \<^item> A method that may raise is a function to \<^typ>\<open>'a result\<close>, an exception on the left; one that changes
    objects, a session or a service outside is a \<open>prog\<close> over the state, which survives the exception, as in
    Python. \<open>Prelude\<close> defines both, with \<open>bind\<close>, \<open>try_except\<close> and the rules \<open>prog_simps\<close> and \<open>keeps_intros\<close>. An
    exception carries the fixed part of its message.
  \<^item> Money is Python's \<open>Decimal\<close> (\<open>Decimals\<close>): the rational number it stands for, every operation rounded to 28
    digits half to even; a numeric column rounds to its scale and refuses what exceeds its precision, an
    integer column refuses more than 32 bits. Nothing is computed in exact arithmetic that the code rounds.
  \<^item> Text is a list of bytes or ASCII characters; \<open>strip\<close>, \<open>upper\<close> and \<open>lower\<close> are Python's on it. Titles of news
    are code points. A \<open>datetime\<close> is an instant in microseconds, or a naive reading, which is refused where the
    code refuses it. An identifier is a number with its text in \<open>Identifiers\<close>.
  \<^item> A table is a list of rows; a flush checks the constraints; a query is the filter and the order of its SQL.
    Transactions run at READ COMMITTED, and an environment (\<open>db_env\<close> for the trading tables) applies what other
    transactions commit: while a lock is awaited, between the two statements that open an account, between the
    reads of the account and of the positions of a snapshot, and between the statements of the portfolio and watchlist services. Where a
    request only asks for one list, or checks the owner of an order, its reads are of one state of the database. Ledger,
    outbox and alerts are step relations over such operations, with properties of all reachable states.
  \<^item> Redis is a map with expiry times, DynamoDB a map with conditional writes, Kinesis, SNS and EventBridge
    programs over the log of what they accepted; a call may be lost or take effect although it reports an
    error (\<open>fault\<close>).
  \<^item> An endless loop is a \<open>partial_function (option)\<close>, so that not returning is \<^term>\<open>None\<close>: \<open>runner_loop\<close> of the
    ingestor, \<open>run_forever\<close> of the outbox, \<open>order_run_forever\<close> of the order worker, and \<open>poll_until\<close> of the
    deployment. What such a loop meets is a function of its tick or its history. That they return is
    proved: from a bound on the events, from a signal, from an interrupt, a failed discovery or a sleep that raises,
    from a clock that runs. An interrupt within a pass of the order worker leaves what it did to the tables and no result. No fuel is used anywhere.
\<close>

section \<open>What is proved\<close>

text \<open>
  Each property is preceded by its statement in words.
  \<^item> Trading: in every state that any interleaving of operations reaches, cash and positions are the replay
    of the executions, and an order has an execution exactly when it is filled; what a processed
    order did; nothing on errors, and on success exactly what the trade is; owners;
    the worker's accounts; snapshots that add up, and one that is torn between its two reads; and the race of two account requests, which the
    code loses.
  \<^item> Outbox: what is marked published was accepted by the bus, nothing is lost, a reliable bus gets everything
    claimed, the process ends after its signal, or at once if its clients cannot be built; the portfolios are the replay of
    their events; construction normalises an envelope once and for all, and a dumped one parses back.
  \<^item> Risk and alerts: the newest quote is kept, the alerts are exactly those the rule asks for,
    rounding hides none, a failed publication loses one; an acknowledged alert was notified, and the
    worker refines the protocol in which this holds; the generator ends with its number of events.
  \<^item> Portfolios: one change with its event or none, a quantity that the database turns into zero,
    the valuation, the routes, the watchlist at its limit.
  \<^item> Market data: what the batch route and the news answer, and news that are passed over.
  \<^item> Schema, settings and programs: the migrations lead to the tables of the models and back; accepted
    settings build every object; credentials through a URL, by the rules of SQLAlchemy 2.0 and of 2.1; the lines of the log, the headers of
    a trace and the metrics; the release gate, the environment gate and the deployment.

  Contracts shared by components are locales, interpreted on the model's own definitions: \<open>lease_store\<close> of \<open>Lease_Store\<close> (the
  outbox and the idempotency table, from which the exclusion of two workers follows for both), \<open>quote_source\<close>
  and \<open>quote_state_store\<close> (the providers and stores of quotes), \<open>transactional\<close> (the five transactions of trading),
  \<open>write_route\<close> (its writing routes), \<open>cache_aside\<close> with \<open>expiring_cache_aside\<close> of \<open>Cache_Aside\<close> (candles and news),
  \<open>quiet_sink\<close> (the sinks of metrics) and \<open>worker_runtime\<close> (the loop of a worker).
\<close>

section \<open>What is assumed\<close>

text \<open>
  Code that is not in the repository is a parameter of the definitions that use it: the JSON parser, the HTTP
  client, \<open>html.unescape\<close>, \<open>fromisoformat\<close>, SHA-256, the conversion of texts to floats, \<open>make_url\<close>, the
  clients of AWS, Terraform, Docker, the clock, random draws, fresh identifiers, the propagator of
  OpenTelemetry. Where a property relies on one of them its statement says so, as a hypothesis about
  documented behaviour: a bus or topic that answers with success has accepted the entry
  (\<open>truthful_bus\<close>), the log of accepted entries only grows, a parser gives back what was dumped
  (\<open>carries\<close>), a monotonic clock does not go back and a sleep lasts its second (\<open>clock_runs\<close>).
  Only \<open>RedisError\<close> and \<open>httpx.HTTPError\<close> are caught where the code names them, and the properties of routes that answer
  whatever fails are about these. The two ways in which \<open>make_url\<close> reads the name of a database are both covered (\<open>url_rules\<close>).
  The meaning of the DDL of PostgreSQL, of READ COMMITTED and of Pydantic's field constraints is part of
  the definitions.
\<close>

section \<open>Not modelled\<close>

text \<open>
  \<open>scripts/bootstrap/init_kinesis.py\<close> and \<open>init_portfolio_schema.py\<close>, a few calls in a row; base
  classes and the Redis client, which only construct objects of libraries; the package files; the
  superseded application \<open>services/api/app\<close>; empty files; the front end, Terraform, containers, dashboards and
  documents, which are no Python; the tests. Of the modelled files, the parsing of the command line, the
  registration of signals and routers, log output other than the fields of a line, and printing are left out,
  as they decide nothing. Of the rows of a table the migrations see only whether there are any. The two intervals of the
  outbox are rationals: an infinity is outside their bounds, and a nan is no input of the model. UUIDs and times of an envelope's dictionary
  are tagged values, so the conversion of their text is Pydantic's. A \<open>.env\<close> file that the deployment cannot read at
  its import is left out. The module \<open>services/api/market_candle_cache\<close> is imported but absent from the
  repository, so the candle cache is a parameter, and the policies of the candles are built from the settings only in the
  property about accepted settings.
\<close>

end
